(* ===== verification/Prelude.thy ===== *)
theory Prelude
  imports Main "HOL-Library.Word"
begin

text \<open>
  What every component of the development shares: names for the machine integers, the result
  type of fallible operations, the pieces of the Rust standard library the sources use on
  orderings and strings, and generic lemmas about them.

  A Rust \<open>str\<close> is its UTF-8 bytes, one \<open>char\<close> per byte, so \<open>length\<close> is Rust's
  \<open>len\<close>. An \<open>Instant\<close> is a natural number of nanoseconds on the monotonic clock; the
  saturating subtractions the sources use on it are subtraction on \<open>nat\<close>.
\<close>

section \<open>Collections of facts\<close>

named_theorems wire_simps \<open>layout of frames and byte strings\<close>
named_theorems order_simps \<open>orderings and comparison functions\<close>

section \<open>Machine integers\<close>

type_synonym u8 = "8 word"
type_synonym u32 = "32 word"
type_synonym u64 = "64 word"
type_synonym instant = nat
type_synonym duration = nat

text \<open>\<open>saturating_add\<close> and \<open>saturating_sub\<close> on an unsigned integer.\<close>

definition sat_add :: "'a::len word \<Rightarrow> 'a word \<Rightarrow> 'a word" where
  "sat_add x y = (if unat x + unat y < 2 ^ LENGTH('a) then x + y else - 1)"

lemma unat_max_word: "unat (- 1 :: 'a::len word) = 2 ^ LENGTH('a) - 1"
  by (simp add: unsigned_minus_1_eq_mask mask_eq_exp_minus_1)

lemma unat_sat_add:
  "unat (sat_add x (y :: 'a::len word)) = min (unat x + unat y) (2 ^ LENGTH('a) - 1)"
proof (cases "unat x + unat y < 2 ^ LENGTH('a)")
  case True
  then show ?thesis
    by (simp add: sat_add_def unat_word_ariths)
next
  case False
  then show ?thesis
    by (simp add: sat_add_def unat_max_word)
qed

lemma sat_add_ge: "x \<le> sat_add x y"
proof -
  have "unat x < 2 ^ LENGTH('a)" by (rule unsigned_less)
  then have "unat x \<le> unat (sat_add x y)"
    by (simp only: unat_sat_add)
  then show ?thesis by (simp add: word_le_nat_alt)
qed

lemma sat_add_1_gt: "x \<noteq> - 1 \<Longrightarrow> x < sat_add x (1 :: 'a::len word)"
proof -
  assume "x \<noteq> - 1"
  have "unat x \<noteq> 2 ^ LENGTH('a) - 1"
  proof
    assume "unat x = 2 ^ LENGTH('a) - 1"
    then have "unat x = unat (- 1 :: 'a word)" by (simp add: unat_max_word)
    then have "x = - 1" by (simp only: word_unat_eq_iff)
    with \<open>x \<noteq> - 1\<close> show False ..
  qed
  moreover have "unat x < 2 ^ LENGTH('a)" by (rule unsigned_less)
  ultimately have "unat x < unat (sat_add x 1)"
    by (simp only: unat_sat_add unat_1)
  then show ?thesis by (simp add: word_less_nat_alt)
qed

text \<open>Durations, in nanoseconds.\<close>

definition from_micros :: "nat \<Rightarrow> duration" where "from_micros n = n * 1000"
definition from_millis :: "nat \<Rightarrow> duration" where "from_millis n = n * 1000000"
definition from_secs :: "nat \<Rightarrow> duration" where "from_secs n = n * 1000000000"

lemmas duration_defs = from_micros_def from_millis_def from_secs_def

section \<open>Results\<close>

text \<open>\<open>Result<T, E>\<close>: \<open>Inl\<close> is \<open>Err\<close>, \<open>Inr\<close> is \<open>Ok\<close>.\<close>

type_synonym ('e, 'a) result = "'e + 'a"

fun and_then :: "('e, 'a) result \<Rightarrow> ('a \<Rightarrow> ('e, 'b) result) \<Rightarrow> ('e, 'b) result" where
  "and_then (Inl e) f = Inl e"
| "and_then (Inr a) f = f a"

definition is_ok :: "('e, 'a) result \<Rightarrow> bool" where
  "is_ok r = (case r of Inl _ \<Rightarrow> False | Inr _ \<Rightarrow> True)"

lemma is_ok_simps [simp]: "is_ok (Inr a)" "\<not> is_ok (Inl e)"
  by (simp_all add: is_ok_def)

lemma and_then_Inr: "and_then r f = Inr b \<longleftrightarrow> (\<exists>a. r = Inr a \<and> f a = Inr b)"
  by (cases r) auto

section \<open>Orderings\<close>

datatype ordering = Less | Equal | Greater

fun reverse_ordering :: "ordering \<Rightarrow> ordering" where
  "reverse_ordering Less = Greater"
| "reverse_ordering Equal = Equal"
| "reverse_ordering Greater = Less"

fun then_ordering :: "ordering \<Rightarrow> ordering \<Rightarrow> ordering" where
  "then_ordering Equal o2 = o2"
| "then_ordering o1 o2 = o1"

definition cmp :: "'a::linorder \<Rightarrow> 'a \<Rightarrow> ordering" where
  "cmp x y = (if x < y then Less else if x = y then Equal else Greater)"

lemma reverse_reverse [simp]: "reverse_ordering (reverse_ordering r) = r"
  by (cases r) auto

lemma reverse_ordering_eq [simp]:
  "reverse_ordering r = Equal \<longleftrightarrow> r = Equal"
  "reverse_ordering r = Less \<longleftrightarrow> r = Greater"
  "reverse_ordering r = Greater \<longleftrightarrow> r = Less"
  by (cases r; simp)+

lemma reverse_then: "reverse_ordering (then_ordering a b)
    = then_ordering (reverse_ordering a) (reverse_ordering b)"
  by (cases a) auto

lemma cmp_eq [order_simps]:
  "cmp x y = Equal \<longleftrightarrow> x = y"
  "cmp x y = Less \<longleftrightarrow> x < y"
  "cmp x y = Greater \<longleftrightarrow> y < x"
  by (auto simp: cmp_def)

lemma cmp_refl [simp]: "cmp x x = Equal"
  by (simp add: cmp_def)

lemma cmp_reverse [order_simps]: "cmp y x = reverse_ordering (cmp x y)"
  by (auto simp: cmp_def)

section \<open>Strings\<close>

text \<open>The byte a character stands for.\<close>

definition byte :: "char \<Rightarrow> nat" where
  "byte c = of_char c"

lemma byte_inject [simp]: "byte c = byte d \<longleftrightarrow> c = d"
  by (simp add: byte_def)

lemma byte_less_256 [simp]: "byte c < 256"
  by (simp add: byte_def)

definition is_ascii_digit :: "char \<Rightarrow> bool" where
  "is_ascii_digit c \<longleftrightarrow> 48 \<le> byte c \<and> byte c \<le> 57"

definition digit_val :: "char \<Rightarrow> nat" where
  "digit_val c = byte c - 48"

definition to_ascii_lower :: "char \<Rightarrow> char" where
  "to_ascii_lower c = (if 65 \<le> byte c \<and> byte c \<le> 90 then char_of (byte c + 32) else c)"

definition to_ascii_upper :: "char \<Rightarrow> char" where
  "to_ascii_upper c = (if 97 \<le> byte c \<and> byte c \<le> 122 then char_of (byte c - 32) else c)"

definition ascii_lowercase :: "string \<Rightarrow> string" where
  "ascii_lowercase s = map to_ascii_lower s"

definition ascii_uppercase :: "string \<Rightarrow> string" where
  "ascii_uppercase s = map to_ascii_upper s"

definition eq_ignore_ascii_case :: "string \<Rightarrow> string \<Rightarrow> bool" where
  "eq_ignore_ascii_case a b \<longleftrightarrow> ascii_lowercase a = ascii_lowercase b"

text \<open>\<open>str\<close> compares by its bytes.\<close>

fun str_cmp :: "string \<Rightarrow> string \<Rightarrow> ordering" where
  "str_cmp [] [] = Equal"
| "str_cmp [] (_ # _) = Less"
| "str_cmp (_ # _) [] = Greater"
| "str_cmp (x # xs) (y # ys) = then_ordering (cmp (byte x) (byte y)) (str_cmp xs ys)"

lemma str_cmp_refl [simp]: "str_cmp s s = Equal"
  by (induction s) auto

lemma str_cmp_reverse [order_simps]: "str_cmp t s = reverse_ordering (str_cmp s t)"
proof (induction s t rule: str_cmp.induct)
  case (4 x xs y ys)
  then show ?case
    by (simp add: reverse_then cmp_reverse [of "byte y"])
qed auto

lemma then_ordering_Less: "then_ordering a b = Less \<longleftrightarrow> a = Less \<or> a = Equal \<and> b = Less"
  by (cases a) auto

lemma then_ordering_Equal: "then_ordering a b = Equal \<longleftrightarrow> a = Equal \<and> b = Equal"
  by (cases a) auto

lemma str_cmp_Equal [order_simps]: "str_cmp s t = Equal \<longleftrightarrow> s = t"
proof (induction s t rule: str_cmp.induct)
  case (4 x xs y ys)
  then show ?case
    by (auto simp: then_ordering_Equal cmp_eq)
qed auto

lemma str_cmp_trans:
  "str_cmp a b = Less \<Longrightarrow> str_cmp b c = Less \<Longrightarrow> str_cmp a c = Less"
proof (induction a b arbitrary: c rule: str_cmp.induct)
  case (2 y ys)
  then show ?case by (cases c) auto
next
  case (4 x xs y ys)
  obtain z zs where c: "c = z # zs"
    using "4.prems"(2) by (cases c) auto
  from "4.prems" c have "byte x < byte y \<or> x = y \<and> str_cmp xs ys = Less"
    and "byte y < byte z \<or> y = z \<and> str_cmp ys zs = Less"
    by (auto simp: then_ordering_Less cmp_eq)
  then have "byte x < byte z \<or> x = z \<and> str_cmp xs zs = Less"
    using "4.IH" by auto
  with c show ?case
    by (auto simp: then_ordering_Less cmp_eq)
qed auto

subsection \<open>Trimming\<close>

text \<open>
  \<open>str::trim\<close> removes Unicode white space (the property White\_Space): these are the
  UTF-8 encodings of its 25 characters. No encoding is a suffix or a prefix of another one and
  text is valid UTF-8, so working on bytes removes the same characters.
\<close>

definition white_space :: "string list" where
  "white_space =
     [[CHR 0x09], [CHR 0x0A], [CHR 0x0B], [CHR 0x0C], [CHR 0x0D], [CHR 0x20],
      [CHR 0xC2, CHR 0x85], [CHR 0xC2, CHR 0xA0], [CHR 0xE1, CHR 0x9A, CHR 0x80]]
     @ map (\<lambda>c. [CHR 0xE2, CHR 0x80, c])
         [CHR 0x80, CHR 0x81, CHR 0x82, CHR 0x83, CHR 0x84, CHR 0x85, CHR 0x86, CHR 0x87,
          CHR 0x88, CHR 0x89, CHR 0x8A, CHR 0xA8, CHR 0xA9, CHR 0xAF]
     @ [[CHR 0xE2, CHR 0x81, CHR 0x9F], [CHR 0xE3, CHR 0x80, CHR 0x80]]"

fun strip_one :: "string list \<Rightarrow> string \<Rightarrow> string option" where
  "strip_one [] s = None"
| "strip_one (w # ws) s =
     (if w \<noteq> [] \<and> take (length w) s = w then Some (drop (length w) s) else strip_one ws s)"

lemma strip_one_shorter: "strip_one ws s = Some t \<Longrightarrow> length t < length s"
proof (induction ws)
  case (Cons w ws)
  show ?case
  proof (cases "w \<noteq> [] \<and> take (length w) s = w")
    case True
    then have "s \<noteq> []" by auto
    with True Cons.prems show ?thesis by auto
  next
    case False
    with Cons show ?thesis by (simp split: if_splits)
  qed
qed simp

function strip_all :: "string list \<Rightarrow> string \<Rightarrow> string" where
  "strip_all ws s = (case strip_one ws s of None \<Rightarrow> s | Some t \<Rightarrow> strip_all ws t)"
  by pat_completeness auto
termination
  by (relation "measure (\<lambda>(ws, s). length s)") (auto dest: strip_one_shorter)

declare strip_all.simps [simp del]

definition trim_start :: "string \<Rightarrow> string" where
  "trim_start s = strip_all white_space s"

definition trim_end :: "string \<Rightarrow> string" where
  "trim_end s = rev (strip_all (map rev white_space) (rev s))"

definition trim :: "string \<Rightarrow> string" where
  "trim s = trim_end (trim_start s)"

lemma strip_all_Nil [simp]: "strip_all ws [] = []"
proof -
  have "strip_one ws [] = None"
    by (induction ws) auto
  then show ?thesis by (simp add: strip_all.simps)
qed

lemma trim_Nil [simp]: "trim [] = []"
  by (simp add: trim_def trim_start_def trim_end_def)

text \<open>Printable ASCII has no white space in it.\<close>

definition printable :: "string \<Rightarrow> bool" where
  "printable s \<longleftrightarrow> list_all (\<lambda>c. 33 \<le> byte c \<and> byte c \<le> 126) s"

lemma strip_one_None:
  "(\<forall>w \<in> set ws. w = [] \<or> hd w \<noteq> hd s) \<Longrightarrow> strip_one ws s = None"
proof (induction ws)
  case (Cons w ws)
  moreover have "\<not> (w \<noteq> [] \<and> take (length w) s = w)"
    using Cons.prems by (cases w; cases s) auto
  ultimately show ?case by (cases "w = []") auto
qed simp

lemma white_space_bytes:
  "w \<in> set white_space \<Longrightarrow> w \<noteq> [] \<and> \<not> (33 \<le> byte (hd w) \<and> byte (hd w) \<le> 126)
    \<and> \<not> (33 \<le> byte (last w) \<and> byte (last w) \<le> 126)"
  by (auto simp: white_space_def byte_def)

lemma strip_white_None:
  assumes "33 \<le> byte (hd s)" "byte (hd s) \<le> 126"
  shows "strip_one white_space s = None" "strip_one (map rev white_space) s = None"
  using assms by (auto intro!: strip_one_None dest!: white_space_bytes simp: hd_rev)

lemma trim_printable [simp]: "printable s \<Longrightarrow> trim s = s"
proof (cases "s = []")
  case False
  moreover assume "printable s"
  ultimately have "33 \<le> byte (hd s)" "byte (hd s) \<le> 126"
    "33 \<le> byte (hd (rev s))" "byte (hd (rev s)) \<le> 126"
    by (auto simp: printable_def list_all_iff hd_rev)
  then show ?thesis
    by (simp add: trim_def trim_start_def trim_end_def strip_all.simps strip_white_None)
qed simp

subsection \<open>Splitting\<close>

text \<open>\<open>str::split\<close> on one character: always at least one part.\<close>

fun split_on :: "char \<Rightarrow> string \<Rightarrow> string list" where
  "split_on d [] = [[]]"
| "split_on d (c # cs) =
     (if c = d then [] # split_on d cs
      else (case split_on d cs of p # ps \<Rightarrow> (c # p) # ps | [] \<Rightarrow> [[c]]))"

lemma split_on_nonempty [simp]: "split_on d s \<noteq> []"
  by (cases s) (auto split: list.split)

lemma split_on_no_sep: "d \<notin> set s \<Longrightarrow> split_on d s = [s]"
  by (induction s) auto

lemma split_on_Cons_sep: "d \<notin> set s \<Longrightarrow> split_on d (s @ d # t) = s # split_on d t"
  by (induction s) auto

text \<open>\<open>str::split_once\<close>.\<close>

definition split_once :: "char \<Rightarrow> string \<Rightarrow> (string \<times> string) option" where
  "split_once d s =
     (if d \<in> set s then
        Some (takeWhile (\<lambda>c. c \<noteq> d) s, drop 1 (dropWhile (\<lambda>c. c \<noteq> d) s))
      else None)"

lemma split_once_append: "d \<notin> set s \<Longrightarrow> split_once d (s @ d # t) = Some (s, t)"
  by (induction s) (auto simp: split_once_def)

lemma split_once_None: "split_once d s = None \<longleftrightarrow> d \<notin> set s"
  by (simp add: split_once_def)

text \<open>\<open>join\<close> of a list of strings with a one-character separator.\<close>

fun join_with :: "char \<Rightarrow> string list \<Rightarrow> string" where
  "join_with d [] = []"
| "join_with d [p] = p"
| "join_with d (p # q # ps) = p @ d # join_with d (q # ps)"

lemma split_on_join:
  "ps \<noteq> [] \<Longrightarrow> (\<forall>p \<in> set ps. d \<notin> set p) \<Longrightarrow> split_on d (join_with d ps) = ps"
  by (induction d ps rule: join_with.induct) (auto simp: split_on_no_sep split_on_Cons_sep)

subsection \<open>Numbers in text\<close>

text \<open>Decimal digits, most significant first.\<close>

fun dec_digits :: "nat \<Rightarrow> string" where
  "dec_digits n =
     (if n < 10 then [char_of (48 + n)] else dec_digits (n div 10) @ [char_of (48 + n mod 10)])"

declare dec_digits.simps [simp del]

definition digits_val :: "string \<Rightarrow> nat" where
  "digits_val s = foldl (\<lambda>a c. 10 * a + digit_val c) 0 s"

text \<open>
  \<open>str::parse\<close> to an unsigned integer below \<open>2 ^ w\<close>: an optional \<open>+\<close>, then one or more
  decimal digits, no overflow.
\<close>

definition parse_uint :: "nat \<Rightarrow> string \<Rightarrow> nat option" where
  "parse_uint w s =
     (let ds = (case s of c # cs \<Rightarrow> if c = CHR ''+'' then cs else s | [] \<Rightarrow> s) in
      if ds = [] \<or> \<not> list_all is_ascii_digit ds then None
      else if digits_val ds < 2 ^ w then Some (digits_val ds) else None)"

lemma byte_char_of [simp]: "n < 256 \<Longrightarrow> byte (char_of n) = n"
  by (simp add: byte_def of_char_of)

lemma is_ascii_digit_char_of: "(d :: nat) < 10 \<Longrightarrow> is_ascii_digit (char_of (48 + d))"
  by (simp add: is_ascii_digit_def)

lemma digit_val_char_of: "(d :: nat) < 10 \<Longrightarrow> digit_val (char_of (48 + d)) = d"
  by (simp add: digit_val_def)

lemma dec_digits_are_digits: "list_all is_ascii_digit (dec_digits n)"
proof (induction n rule: dec_digits.induct)
  case (1 n)
  then show ?case
    by (subst dec_digits.simps) (simp add: is_ascii_digit_char_of)
qed

lemma dec_digits_nonempty [simp]: "dec_digits n \<noteq> []"
  by (subst dec_digits.simps) simp

lemma digits_val_dec_digits: "digits_val (dec_digits n) = n"
proof (induction n rule: dec_digits.induct)
  case (1 n)
  show ?case
  proof (cases "n < 10")
    case True
    then show ?thesis
      by (subst dec_digits.simps) (simp add: digits_val_def digit_val_char_of)
  next
    case False
    with "1.IH" have "digits_val (dec_digits (n div 10)) = n div 10" by simp
    with False show ?thesis
      by (subst dec_digits.simps) (simp add: digits_val_def digit_val_char_of)
  qed
qed

lemma digit_not_plus: "is_ascii_digit c \<Longrightarrow> c \<noteq> CHR ''+''"
  by (auto simp: is_ascii_digit_def byte_def)

lemma parse_uint_digits:
  assumes "ds \<noteq> []" and "list_all is_ascii_digit ds"
  shows "parse_uint w ds = (if digits_val ds < 2 ^ w then Some (digits_val ds) else None)"
  using assms by (cases ds) (auto simp: parse_uint_def digit_not_plus)

theorem parse_uint_dec_digits: "n < 2 ^ w \<Longrightarrow> parse_uint w (dec_digits n) = Some n"
  by (simp add: parse_uint_digits dec_digits_are_digits digits_val_dec_digits)

lemma parse_uint_bound: "parse_uint w s = Some n \<Longrightarrow> n < 2 ^ w"
  by (auto simp: parse_uint_def Let_def split: if_splits)

section \<open>Lists\<close>

lemma dropWhile_append_nonempty:
  "dropWhile P xs \<noteq> [] \<Longrightarrow> dropWhile P (xs @ ys) = dropWhile P xs @ ys"
  by (induction xs) auto

lemma dropWhile_hd: "dropWhile P xs = y # ys \<Longrightarrow> \<not> P y"
  by (induction xs) (auto split: if_splits)

lemma length_dropWhile_le [simp]: "length (dropWhile P xs) \<le> length xs"
  by (induction xs) auto

lemma dropWhile_suffix: "\<exists>zs. xs = zs @ dropWhile P xs"
  by (metis takeWhile_dropWhile_id)

lemma find_SomeD: "find P xs = Some x \<Longrightarrow> x \<in> set xs \<and> P x"
  by (metis find_Some_iff nth_mem)

lemma find_filter_imp: "find P xs = None \<Longrightarrow> x \<in> set xs \<Longrightarrow> \<not> P x"
  by (auto simp: find_None_iff)

end
