(* ===== verification/Comparisons.thy ===== *)
theory Comparisons
  imports Prelude
begin

text \<open>
  The contract of a comparison function, as a locale: swapping the arguments reverses the
  result and "not greater" is transitive, on the values in its carrier. Inside it, the facts a
  client relies on (a strict order with an equivalence). Lexicographic comparison of lists and
  of pairs keep the contract.
\<close>

locale comparison =
  fixes ord :: "'a \<Rightarrow> 'a \<Rightarrow> ordering" and ok :: "'a \<Rightarrow> bool"
  assumes flip: "ord b a = reverse_ordering (ord a b)"
    and le_trans: "ok a \<Longrightarrow> ok b \<Longrightarrow> ok c \<Longrightarrow> ord a b \<noteq> Greater \<Longrightarrow> ord b c \<noteq> Greater
          \<Longrightarrow> ord a c \<noteq> Greater"
begin

lemma self_equal: "ord a a = Equal"
  using flip [of a a] by (cases "ord a a") auto

lemma not_both_greater: "ord a b = Greater \<Longrightarrow> ord b a \<noteq> Greater"
  using flip [of b a] by simp

lemma less_trans:
  assumes "ok a" "ok b" "ok c" and "ord a b = Less" and "ord b c \<noteq> Greater"
  shows "ord a c = Less"
proof (cases "ord a c")
  case Equal
  then have "ord c a = Equal" using flip [of c a] by simp
  then have "ord b a \<noteq> Greater" using assms le_trans [of b c a] by simp
  then show ?thesis using assms(4) flip [of b a] by simp
next
  case Greater
  then show ?thesis using assms le_trans [of a b c] by simp
qed

lemma less_trans2:
  assumes "ok a" "ok b" "ok c" and "ord a b \<noteq> Greater" and "ord b c = Less"
  shows "ord a c = Less"
proof -
  have "ord c b = Greater" "ord b a \<noteq> Less"
    using assms flip [of c b] flip [of b a] by (cases "ord a b"; simp)+
  have "ord c a = Greater"
  proof (cases "ord c a")
    case Greater
    then show ?thesis .
  next
    case Less
    then have "ord c b \<noteq> Greater" using assms le_trans [of c a b] by simp
    with \<open>ord c b = Greater\<close> show ?thesis by simp
  next
    case Equal
    then have "ord c b \<noteq> Greater" using assms le_trans [of c a b] by simp
    with \<open>ord c b = Greater\<close> show ?thesis by simp
  qed
  then show ?thesis using flip [of c a] by simp
qed

lemma greater_trans:
  assumes "ok a" "ok b" "ok c" and "ord a b = Greater" and "ord b c = Greater"
  shows "ord a c = Greater"
proof -
  have "ord c b = Less" "ord b a = Less" using assms flip [of b c] flip [of a b] by auto
  then have "ord c a = Less" using assms less_trans [of c b a] by simp
  then show ?thesis using flip [of a c] by simp
qed

lemma equal_trans:
  assumes "ok a" "ok b" "ok c" and "ord a b = Equal" and "ord b c = Equal"
  shows "ord a c = Equal"
proof -
  have "ord a c \<noteq> Greater" using assms le_trans [of a b c] by simp
  moreover have "ord c a \<noteq> Greater"
    using assms le_trans [of c b a] flip [of b a] flip [of c b] by simp
  ultimately show ?thesis using flip [of c a] by (cases "ord a c") auto
qed

end

interpretation nat_cmp: comparison "cmp :: nat \<Rightarrow> nat \<Rightarrow> ordering" "\<lambda>_. True"
  by unfold_locales (auto simp: cmp_def split: if_splits)

section \<open>Lexicographic comparison\<close>

fun list_ordering :: "('a \<Rightarrow> 'a \<Rightarrow> ordering) \<Rightarrow> 'a list \<Rightarrow> 'a list \<Rightarrow> ordering" where
  "list_ordering f [] [] = Equal"
| "list_ordering f [] (_ # _) = Less"
| "list_ordering f (_ # _) [] = Greater"
| "list_ordering f (x # xs) (y # ys) = then_ordering (f x y) (list_ordering f xs ys)"

lemma list_ordering_flip:
  assumes f: "\<And>x y. f y x = reverse_ordering (f x y)"
  shows "list_ordering f ys xs = reverse_ordering (list_ordering f xs ys)"
proof (induction xs arbitrary: ys)
  case Nil
  show ?case by (cases ys) auto
next
  case (Cons x xs)
  show ?case
  proof (cases ys)
    case (Cons y ys')
    then show ?thesis
      using Cons.IH [of ys'] f [of y x] by (simp add: reverse_then)
  qed simp
qed

lemma then_ordering_not_Greater:
  "then_ordering a b \<noteq> Greater \<longleftrightarrow> a = Less \<or> a = Equal \<and> b \<noteq> Greater"
  by (cases a) auto

text \<open>The step both lexicographic orders share: a first comparison, then a second one.\<close>

lemma then_ordering_le_trans:
  assumes "comparison f ok" and "ok x" "ok y" "ok z"
    and "then_ordering (f x y) r1 \<noteq> Greater" and "then_ordering (f y z) r2 \<noteq> Greater"
    and "r1 \<noteq> Greater \<Longrightarrow> r2 \<noteq> Greater \<Longrightarrow> r3 \<noteq> Greater"
  shows "then_ordering (f x z) r3 \<noteq> Greater"
  using assms comparison.less_trans [OF assms(1-4)] comparison.less_trans2 [OF assms(1-4)]
    comparison.equal_trans [OF assms(1-4)]
  unfolding then_ordering_not_Greater by auto

lemma list_ordering_comparison:
  assumes f: "comparison f ok"
  shows "comparison (list_ordering f) (list_all ok)"
proof
  show "list_ordering f ys xs = reverse_ordering (list_ordering f xs ys)" for xs ys
    by (rule list_ordering_flip) (rule comparison.flip [OF f])
  show "list_ordering f xs zs \<noteq> Greater"
    if "list_all ok xs" "list_all ok ys" "list_all ok zs"
      "list_ordering f xs ys \<noteq> Greater" "list_ordering f ys zs \<noteq> Greater" for xs ys zs
    using that
  proof (induction xs arbitrary: ys zs)
    case Nil
    then show ?case by (cases ys; cases zs) auto
  next
    case (Cons x xs)
    from Cons.prems obtain y ys' where ys: "ys = y # ys'" by (cases ys) auto
    with Cons.prems obtain z zs' where zs: "zs = z # zs'" by (cases zs) auto
    have "list_ordering f xs ys' \<noteq> Greater \<Longrightarrow> list_ordering f ys' zs' \<noteq> Greater
        \<Longrightarrow> list_ordering f xs zs' \<noteq> Greater"
      using Cons.IH [of ys' zs'] Cons.prems ys zs by simp
    with Cons.prems ys zs show ?case
      using then_ordering_le_trans [OF f, of x y z "list_ordering f xs ys'"
          "list_ordering f ys' zs'" "list_ordering f xs zs'"] by simp
  qed
qed

lemma list_ordering_self:
  "(\<And>x. f x x = Equal) \<Longrightarrow> list_ordering f xs xs = Equal"
  by (induction xs) auto

end
