(* ===== verification/Version.thy ===== *)
theory Version
  imports Comparisons
begin

text \<open>
  Version comparison: \<open>crates/opad-update/src/version.rs\<close>. Every update channel (app,
  firmware, the bundled tosu) asks \<open>is_newer\<close> before it offers anything, so what is shown
  here is that \<open>ordering\<close> is an order: it never calls two versions newer than each other,
  is transitive where every run of digits fits the \<open>u64\<close> the code parses it to, and agrees
  with the numbers on dotted numeric versions.
\<close>

section \<open>The code\<close>

text \<open>\<open>split\<close>: the numeric parts and the pre-release of a version.\<close>

definition split :: "string \<Rightarrow> nat list \<times> string option" where
  "split v0 =
     (let v1 = dropWhile (\<lambda>c. c = CHR ''v'') (trim v0);
          v = (case split_once (CHR ''+'') v1 of Some (v, _) \<Rightarrow> v | None \<Rightarrow> v1);
          (core, pre) = (case split_once (CHR ''-'') v of
                           Some (core, pre) \<Rightarrow> (core, Some pre)
                         | None \<Rightarrow> (v, None));
          parts = map (\<lambda>p. case parse_uint 64 p of Some n \<Rightarrow> n | None \<Rightarrow> 0)
                    (split_on (CHR ''.'') core)
      in (parts, pre))"

definition numeric :: "string \<Rightarrow> nat option" where
  "numeric s = (if s = [] \<or> \<not> list_all is_ascii_digit s then None else parse_uint 64 s)"

text \<open>\<open>next_run\<close>: the leading run of digits or of non-digits, and the rest.\<close>

definition next_run :: "string \<Rightarrow> string \<times> string" where
  "next_run s =
     (let digits = (case s of [] \<Rightarrow> False | c # _ \<Rightarrow> is_ascii_digit c) in
      (takeWhile (\<lambda>c. is_ascii_digit c = digits) s, dropWhile (\<lambda>c. is_ascii_digit c = digits) s))"

definition run_ordering :: "string \<Rightarrow> string \<Rightarrow> ordering" where
  "run_ordering x y =
     (if x = [] then Less
      else if y = [] then Greater
      else (case (numeric x, numeric y) of
              (Some m, Some n) \<Rightarrow> then_ordering (cmp m n) (str_cmp x y)
            | _ \<Rightarrow> str_cmp x y))"

lemma next_run_Nil [simp]: "next_run [] = ([], [])"
  by (simp add: next_run_def Let_def)

lemma next_run_Cons: "next_run (c # cs) =
    (c # takeWhile (\<lambda>d. is_ascii_digit d = is_ascii_digit c) cs,
     dropWhile (\<lambda>d. is_ascii_digit d = is_ascii_digit c) cs)"
  by (simp add: next_run_def Let_def)

lemma next_run_shorter: "s \<noteq> [] \<Longrightarrow> length (snd (next_run s)) < length s"
  by (cases s) (auto simp: next_run_Cons less_Suc_eq_le length_dropWhile_le)

lemma next_run_fst_Nil: "fst (next_run s) = [] \<longleftrightarrow> s = []"
  by (cases s) (auto simp: next_run_Cons)

function alphanumeric_ordering :: "string \<Rightarrow> string \<Rightarrow> ordering" where
  "alphanumeric_ordering a b =
     (let (x, a_rest) = next_run a; (y, b_rest) = next_run b in
      if x = [] \<and> y = [] then Equal
      else let order = run_ordering x y in
        if order \<noteq> Equal then order else alphanumeric_ordering a_rest b_rest)"
  by pat_completeness auto

termination
proof (relation "measure (\<lambda>(a, b). length a + length b)")
  fix a b :: string and x a_rest y b_rest order p q
  assume "p = next_run a" "(x, a_rest) = p" "q = next_run b" "(y, b_rest) = q"
    and ne: "\<not> (x = [] \<and> y = [])"
    and order: "order = run_ordering x y" "\<not> order \<noteq> Equal"
  then have na: "next_run a = (x, a_rest)" and nb: "next_run b = (y, b_rest)" by auto
  have "a \<noteq> []" using order na next_run_fst_Nil [of a] by (auto simp: run_ordering_def)
  moreover have "length b_rest \<le> length b"
    using nb next_run_shorter [of b] by (cases "b = []") auto
  ultimately show "((a_rest, b_rest), (a, b)) \<in> measure (\<lambda>(a, b). length a + length b)"
    using next_run_shorter [of a] na by simp
qed simp

declare alphanumeric_ordering.simps [simp del]

definition identifier_ordering :: "string \<Rightarrow> string \<Rightarrow> ordering" where
  "identifier_ordering a b =
     (case (numeric a, numeric b) of
        (Some x, Some y) \<Rightarrow> cmp x y
      | (Some _, None) \<Rightarrow> Less
      | (None, Some _) \<Rightarrow> Greater
      | (None, None) \<Rightarrow> alphanumeric_ordering a b)"

definition pre_release_ordering :: "string \<Rightarrow> string \<Rightarrow> ordering" where
  "pre_release_ordering a b =
     list_ordering identifier_ordering (split_on (CHR ''.'') a) (split_on (CHR ''.'') b)"

text \<open>A missing part counts as 0.\<close>

definition part :: "nat list \<Rightarrow> nat \<Rightarrow> nat" where
  "part ps i = (if i < length ps then ps ! i else 0)"

fun pre_ordering :: "string option \<Rightarrow> string option \<Rightarrow> ordering" where
  "pre_ordering None None = Equal"
| "pre_ordering None (Some _) = Greater"
| "pre_ordering (Some _) None = Less"
| "pre_ordering (Some x) (Some y) = pre_release_ordering x y"

text \<open>The loop over the parts returns at the first difference; otherwise the pre-releases decide.\<close>

definition version_ordering :: "string \<Rightarrow> string \<Rightarrow> ordering" where
  "version_ordering a b =
     (let (a_core, a_pre) = split a; (b_core, b_pre) = split b;
          len = max (length a_core) (length b_core)
      in foldr (\<lambda>i rest. then_ordering (cmp (part a_core i) (part b_core i)) rest) [0..<len]
           (pre_ordering a_pre b_pre))"

definition is_newer :: "string \<Rightarrow> string \<Rightarrow> bool" where
  "is_newer available installed \<longleftrightarrow> version_ordering available installed = Greater"

section \<open>Every comparison is flipped by swapping its arguments\<close>

lemmas flip_simps = cmp_reverse [symmetric] str_cmp_reverse [symmetric]

lemma run_ordering_flip:
  "x \<noteq> [] \<or> y \<noteq> [] \<Longrightarrow> run_ordering y x = reverse_ordering (run_ordering x y)"
  by (auto simp: run_ordering_def reverse_then flip_simps split: option.split)

lemma alphanumeric_ordering_flip:
  "alphanumeric_ordering b a = reverse_ordering (alphanumeric_ordering a b)"
proof (induction a b rule: alphanumeric_ordering.induct)
  case (1 a b)
  obtain x a' y b' where ab: "next_run a = (x, a')" "next_run b = (y, b')"
    by (metis surj_pair)
  show ?case
  proof (cases "x = [] \<and> y = []")
    case True
    then show ?thesis
      by (simp add: alphanumeric_ordering.simps [of a] alphanumeric_ordering.simps [of b] ab)
  next
    case False
    with 1 ab have "run_ordering x y = Equal \<Longrightarrow>
        alphanumeric_ordering b' a' = reverse_ordering (alphanumeric_ordering a' b')"
      by simp
    moreover have "run_ordering y x = reverse_ordering (run_ordering x y)"
      using False run_ordering_flip by blast
    ultimately show ?thesis
      using False
      by (auto simp: alphanumeric_ordering.simps [of a] alphanumeric_ordering.simps [of b] ab Let_def)
  qed
qed

lemma identifier_ordering_flip:
  "identifier_ordering b a = reverse_ordering (identifier_ordering a b)"
  by (auto simp: identifier_ordering_def flip_simps alphanumeric_ordering_flip [of b]
      split: option.split)

lemma pre_release_ordering_flip:
  "pre_release_ordering b a = reverse_ordering (pre_release_ordering a b)"
  unfolding pre_release_ordering_def by (rule list_ordering_flip) (rule identifier_ordering_flip)

lemma pre_ordering_flip: "pre_ordering q p = reverse_ordering (pre_ordering p q)"
  by (cases p; cases q) (auto intro: pre_release_ordering_flip)

lemma parts_flip:
  "t' = reverse_ordering t \<Longrightarrow>
    foldr (\<lambda>i rest. then_ordering (cmp (part b i) (part a i)) rest) is t'
      = reverse_ordering (foldr (\<lambda>i rest. then_ordering (cmp (part a i) (part b i)) rest) is t)"
proof (induction "is")
  case (Cons i "is")
  then show ?case
    by (simp add: reverse_then flip_simps)
qed simp

lemma version_ordering_flip:
  "version_ordering b a = reverse_ordering (version_ordering a b)"
proof -
  obtain a_core a_pre b_core b_pre where "split a = (a_core, a_pre)" "split b = (b_core, b_pre)"
    by (metis surj_pair)
  then show ?thesis
    by (simp add: version_ordering_def max.commute [of "length b_core"] parts_flip
        pre_ordering_flip [of b_pre a_pre])
qed

section \<open>Runs, identifiers and versions the code can order\<close>

text \<open>
  What the transitivity needs of a pre-release: every run of digits fits a \<open>u64\<close>. Where
  one does not, \<open>numeric\<close> gives \<open>None\<close> and the run is compared as text with its
  neighbours and as a number by others.
\<close>

definition run_ok :: "string \<Rightarrow> bool" where
  "run_ok x \<longleftrightarrow> x \<noteq> [] \<and>
     (list_all is_ascii_digit x \<and> digits_val x < 2 ^ 64 \<or> \<not> is_ascii_digit (hd x))"

function runs :: "string \<Rightarrow> string list" where
  "runs s = (if s = [] then [] else fst (next_run s) # runs (snd (next_run s)))"
  by pat_completeness auto
termination
  by (relation "measure length") (auto intro: next_run_shorter)

declare runs.simps [simp del]

definition identifier_ok :: "string \<Rightarrow> bool" where
  "identifier_ok s \<longleftrightarrow> list_all run_ok (runs s)"

definition version_ok :: "string \<Rightarrow> bool" where
  "version_ok v \<longleftrightarrow> (case snd (split v) of
     None \<Rightarrow> True | Some pre \<Rightarrow> list_all identifier_ok (split_on (CHR ''.'') pre))"

lemma run_ordering_empty:
  "y \<noteq> [] \<Longrightarrow> run_ordering [] y = Less" "x \<noteq> [] \<Longrightarrow> run_ordering x [] = Greater"
  by (simp_all add: run_ordering_def)

lemma alphanumeric_is_list_ordering:
  "alphanumeric_ordering a b = list_ordering run_ordering (runs a) (runs b)"
proof (induction a b rule: alphanumeric_ordering.induct)
  case (1 a b)
  obtain x a' y b' where ab: "next_run a = (x, a')" "next_run b = (y, b')"
    by (metis surj_pair)
  have nil: "x = [] \<longleftrightarrow> a = []" "y = [] \<longleftrightarrow> b = []"
    using next_run_fst_Nil [of a] next_run_fst_Nil [of b] ab by auto
  show ?case
  proof (cases "a = [] \<or> b = []")
    case True
    then consider "a = []" "b = []" | "a = []" "b \<noteq> []" | "a \<noteq> []" "b = []" by blast
    then show ?thesis
      using nil ab
      by cases (simp_all add: alphanumeric_ordering.simps [of "[]"] alphanumeric_ordering.simps [of a "[]"]
          runs.simps [of a] runs.simps [of b] runs.simps [of "[]"] run_ordering_empty)
  next
    case False
    with nil have ne: "\<not> (x = [] \<and> y = [])" "x \<noteq> []" "y \<noteq> []" by auto
    with 1 ab have "run_ordering x y = Equal \<Longrightarrow>
        alphanumeric_ordering a' b' = list_ordering run_ordering (runs a') (runs b')"
      by simp
    then show ?thesis using False ne ab
      by (cases "run_ordering x y")
        (auto simp: alphanumeric_ordering.simps [of a] runs.simps [of a] runs.simps [of b])
  qed
qed

lemma next_run_uniform:
  "next_run s = (x, r) \<Longrightarrow> x \<noteq> [] \<Longrightarrow>
    (list_all is_ascii_digit x \<or> list_all (\<lambda>c. \<not> is_ascii_digit c) x)"
proof (cases s)
  case (Cons c cs)
  moreover assume "next_run s = (x, r)" "x \<noteq> []"
  ultimately show ?thesis
    by (cases "is_ascii_digit c")
      (auto simp: next_run_Cons list_all_iff dest: set_takeWhileD)
qed simp

text \<open>Bytes of different classes: a digit run and another run differ at their first byte.\<close>

lemma str_cmp_class:
  "x \<noteq> [] \<Longrightarrow> y \<noteq> [] \<Longrightarrow> hd x \<noteq> hd y \<Longrightarrow> str_cmp x y = cmp (byte (hd x)) (byte (hd y))"
  by (cases x; cases y) (auto simp: cmp_def)

lemma str_cmp_le_trans:
  "str_cmp a b \<noteq> Greater \<Longrightarrow> str_cmp b c \<noteq> Greater \<Longrightarrow> str_cmp a c \<noteq> Greater"
  by (metis (full_types) ordering.exhaust ordering.simps(3,5) str_cmp_Equal str_cmp_trans)

lemma str_cmp_hd_le: "x \<noteq> [] \<Longrightarrow> y \<noteq> [] \<Longrightarrow> str_cmp x y \<noteq> Greater \<Longrightarrow> byte (hd x) \<le> byte (hd y)"
  by (cases x; cases y) (auto simp: cmp_def split: if_splits)

definition digit_run :: "string \<Rightarrow> bool" where
  "digit_run x \<longleftrightarrow> list_all is_ascii_digit x"

lemma numeric_run_ok:
  "run_ok x \<Longrightarrow> numeric x = (if digit_run x then Some (digits_val x) else None)"
  by (cases x) (auto simp: numeric_def run_ok_def digit_run_def parse_uint_digits)

lemma run_ordering_ok:
  "run_ok x \<Longrightarrow> run_ok y \<Longrightarrow> run_ordering x y =
     (if digit_run x \<and> digit_run y then then_ordering (cmp (digits_val x) (digits_val y)) (str_cmp x y)
      else str_cmp x y)"
  by (auto simp: run_ordering_def numeric_run_ok run_ok_def digit_run_def split: option.split)

lemma digit_class:
  "is_ascii_digit c \<Longrightarrow> \<not> is_ascii_digit d \<Longrightarrow> is_ascii_digit e \<Longrightarrow>
    byte c \<le> byte d \<Longrightarrow> \<not> byte d \<le> byte e"
  by (auto simp: is_ascii_digit_def)

lemma digit_run_hd: "run_ok x \<Longrightarrow> digit_run x \<longleftrightarrow> is_ascii_digit (hd x)"
  by (cases x) (auto simp: run_ok_def digit_run_def)

interpretation number_cmp: comparison "\<lambda>x y. cmp (digits_val x) (digits_val y)" "\<lambda>_. True"
  by unfold_locales (auto simp: cmp_def split: if_splits)

interpretation text_cmp: comparison str_cmp "\<lambda>_. True"
  by unfold_locales (rule str_cmp_reverse, rule str_cmp_le_trans)

lemma digit_ordering_comparison:
  "comparison (\<lambda>x y. then_ordering (cmp (digits_val x) (digits_val y)) (str_cmp x y)) (\<lambda>_. True)"
proof
  show "then_ordering (cmp (digits_val y) (digits_val x)) (str_cmp y x) = reverse_ordering
      (then_ordering (cmp (digits_val x) (digits_val y)) (str_cmp x y))" for x y
    by (simp add: reverse_then flip_simps)
  show "then_ordering (cmp (digits_val x) (digits_val z)) (str_cmp x z) \<noteq> Greater"
    if "then_ordering (cmp (digits_val x) (digits_val y)) (str_cmp x y) \<noteq> Greater"
      "then_ordering (cmp (digits_val y) (digits_val z)) (str_cmp y z) \<noteq> Greater" for x y z
    using then_ordering_le_trans [OF number_cmp.comparison_axioms TrueI TrueI TrueI that,
        of "str_cmp x z"] str_cmp_le_trans [of x y z] by blast
qed

text \<open>
  Two digit runs compare as numbers, any other pair as text; the two agree because a digit run
  and a run of another kind are separated by their first byte.
\<close>

lemma run_ordering_le_trans:
  assumes ok: "run_ok x" "run_ok y" "run_ok z"
    and xy: "run_ordering x y \<noteq> Greater" and yz: "run_ordering y z \<noteq> Greater"
  shows "run_ordering x z \<noteq> Greater"
proof -
  have ne: "x \<noteq> []" "y \<noteq> []" "z \<noteq> []" using ok by (auto simp: run_ok_def)
  consider "digit_run x" "digit_run y" "digit_run z" | "digit_run x" "\<not> digit_run y" "digit_run z"
    | "digit_run x" "digit_run y" "\<not> digit_run z" | "\<not> digit_run x" "digit_run y" "digit_run z"
    | "\<not> digit_run y" "\<not> (digit_run x \<and> digit_run z)" | "\<not> digit_run x" "\<not> digit_run z"
    by blast
  then show ?thesis
  proof cases
    case 1
    then show ?thesis
      using comparison.le_trans [OF digit_ordering_comparison TrueI TrueI TrueI, of x y z] ok xy yz
      by (simp add: run_ordering_ok)
  next
    case 2
    then have "byte (hd x) \<le> byte (hd y)" "byte (hd y) \<le> byte (hd z)"
      using ne ok xy yz str_cmp_hd_le by (simp_all add: run_ordering_ok)
    then show ?thesis
      using 2 ok digit_class [of "hd x" "hd y" "hd z"] by (simp add: digit_run_hd)
  next
    case 3
    then have "\<not> is_ascii_digit (hd z)" "is_ascii_digit (hd y)" "is_ascii_digit (hd x)"
      using ok by (simp_all add: digit_run_hd)
    moreover have "byte (hd y) \<le> byte (hd z)"
      using 3 ne ok yz str_cmp_hd_le [of y z] by (simp add: run_ordering_ok)
    ultimately have "byte (hd x) < byte (hd z)" "hd x \<noteq> hd z"
      by (auto simp: is_ascii_digit_def)
    then show ?thesis
      using 3 ne ok str_cmp_class [of x z] by (simp add: run_ordering_ok cmp_def)
  next
    case 4
    then have "\<not> is_ascii_digit (hd x)" "is_ascii_digit (hd y)" "is_ascii_digit (hd z)"
      using ok by (simp_all add: digit_run_hd)
    moreover have "byte (hd x) \<le> byte (hd y)"
      using 4 ne ok xy str_cmp_hd_le [of x y] by (simp add: run_ordering_ok)
    ultimately have "byte (hd x) < byte (hd z)" "hd x \<noteq> hd z"
      by (auto simp: is_ascii_digit_def)
    then show ?thesis
      using 4 ne ok str_cmp_class [of x z] by (simp add: run_ordering_ok cmp_def)
  next
    case 5
    then show ?thesis
      using ok xy yz str_cmp_le_trans [of x y z] by (auto simp: run_ordering_ok)
  next
    case 6
    then show ?thesis
      using ok xy yz str_cmp_le_trans [of x y z] by (simp add: run_ordering_ok)
  qed
qed

text \<open>The code's \<open>""\<close> case makes the flip fail on two empty runs only; runs are never empty.\<close>

definition run_ordering' :: "string \<Rightarrow> string \<Rightarrow> ordering" where
  "run_ordering' x y = (if x = [] \<and> y = [] then Equal else run_ordering x y)"

lemma run_ordering'_comparison: "comparison run_ordering' run_ok"
proof
  show "run_ordering' y x = reverse_ordering (run_ordering' x y)" for x y
    using run_ordering_flip [of x y] by (auto simp: run_ordering'_def)
  show "run_ordering' x z \<noteq> Greater" if "run_ok x" "run_ok y" "run_ok z"
    "run_ordering' x y \<noteq> Greater" "run_ordering' y z \<noteq> Greater" for x y z
    using that run_ordering_le_trans [of x y z] by (auto simp: run_ordering'_def run_ok_def)
qed

lemma runs_nonempty: "[] \<notin> set (runs s)"
proof (induction s rule: runs.induct)
  case (1 s)
  then show ?case
    using next_run_fst_Nil [of s]
    by (cases "s = []") (auto simp: runs.simps [of s] runs.simps [of "[]"])
qed

lemma list_ordering_run_ordering':
  "[] \<notin> set xs \<Longrightarrow> [] \<notin> set ys \<Longrightarrow> list_ordering run_ordering' xs ys = list_ordering run_ordering xs ys"
proof (induction xs arbitrary: ys)
  case Nil
  then show ?case by (cases ys) auto
next
  case (Cons x xs)
  then show ?case by (cases ys) (auto simp: run_ordering'_def)
qed

lemma alphanumeric_ordering_runs:
  "alphanumeric_ordering a b = list_ordering run_ordering' (runs a) (runs b)"
  by (simp add: alphanumeric_is_list_ordering list_ordering_run_ordering' runs_nonempty)

interpretation run_lists: comparison "list_ordering run_ordering'" "list_all run_ok"
  by (rule list_ordering_comparison) (rule run_ordering'_comparison)

text \<open>Identifiers: numbers below everything else.\<close>

lemma identifier_ordering_comparison: "comparison identifier_ordering identifier_ok"
proof
  show "identifier_ordering b a = reverse_ordering (identifier_ordering a b)" for a b
    by (rule identifier_ordering_flip)
  show "identifier_ordering a c \<noteq> Greater" if "identifier_ok a" "identifier_ok b" "identifier_ok c"
    "identifier_ordering a b \<noteq> Greater" "identifier_ordering b c \<noteq> Greater" for a b c
    using that run_lists.le_trans [of "runs a" "runs b" "runs c"]
    by (cases "numeric a"; cases "numeric b"; cases "numeric c")
      (simp_all add: identifier_ordering_def alphanumeric_ordering_runs identifier_ok_def
        cmp_eq)
qed

interpretation identifiers: comparison identifier_ordering identifier_ok
  by (rule identifier_ordering_comparison)

interpretation identifier_lists: comparison "list_ordering identifier_ordering"
    "list_all identifier_ok"
  by (rule list_ordering_comparison) (rule identifier_ordering_comparison)

definition pre_ok :: "string option \<Rightarrow> bool" where
  "pre_ok p \<longleftrightarrow> (case p of None \<Rightarrow> True
     | Some pre \<Rightarrow> list_all identifier_ok (split_on (CHR ''.'') pre))"

interpretation pre_cmp: comparison pre_ordering pre_ok
proof
  show "pre_ordering q p = reverse_ordering (pre_ordering p q)" for p q
    by (rule pre_ordering_flip)
  show "pre_ordering p r \<noteq> Greater" if "pre_ok p" "pre_ok q" "pre_ok r"
    "pre_ordering p q \<noteq> Greater" "pre_ordering q r \<noteq> Greater" for p q r
    using that identifier_lists.le_trans
      [of "split_on (CHR ''.'') (the p)" "split_on (CHR ''.'') (the q)" "split_on (CHR ''.'') (the r)"]
    by (cases p; cases q; cases r) (simp_all add: pre_ok_def pre_release_ordering_def)
qed

text \<open>The parts: any bound above both lengths gives the same answer.\<close>

definition parts_ordering :: "nat list \<Rightarrow> nat list \<Rightarrow> nat list \<Rightarrow> ordering \<Rightarrow> ordering" where
  "parts_ordering a b is t =
     foldr (\<lambda>i rest. then_ordering (cmp (part a i) (part b i)) rest) is t"

lemma parts_ordering_beyond:
  "(\<forall>i \<in> set is. length a \<le> i \<and> length b \<le> i) \<Longrightarrow> parts_ordering a b is t = t"
  by (induction "is") (auto simp: parts_ordering_def part_def)

lemma parts_ordering_extend:
  assumes "max (length a) (length b) \<le> n"
  shows "parts_ordering a b [0..<max (length a) (length b)] t = parts_ordering a b [0..<n] t"
proof -
  let ?m = "max (length a) (length b)"
  have "[0..<n] = [0..<?m] @ [?m..<n]"
    using assms upt_add_eq_append [of 0 ?m "n - ?m"] by simp
  moreover have "parts_ordering a b [?m..<n] t = t"
    by (rule parts_ordering_beyond) auto
  ultimately show ?thesis by (simp add: parts_ordering_def)
qed

lemma parts_ordering_le_trans:
  "parts_ordering a b is t1 \<noteq> Greater \<Longrightarrow> parts_ordering b c is t2 \<noteq> Greater \<Longrightarrow>
    (t1 \<noteq> Greater \<Longrightarrow> t2 \<noteq> Greater \<Longrightarrow> t3 \<noteq> Greater) \<Longrightarrow> parts_ordering a c is t3 \<noteq> Greater"
proof (induction "is")
  case (Cons i "is")
  then show ?case
    using then_ordering_le_trans [OF nat_cmp.comparison_axioms TrueI TrueI TrueI,
        of "part a i" "part b i" "parts_ordering a b is t1" "part c i" "parts_ordering b c is t2"
          "parts_ordering a c is t3"]
    by (simp add: parts_ordering_def)
qed (simp add: parts_ordering_def)

lemma version_ordering_parts:
  assumes "max (length (fst (split a))) (length (fst (split b))) \<le> n"
  shows "version_ordering a b = parts_ordering (fst (split a)) (fst (split b)) [0..<n]
     (pre_ordering (snd (split a)) (snd (split b)))"
  using parts_ordering_extend [OF assms]
  by (simp add: version_ordering_def parts_ordering_def case_prod_beta)

interpretation versions: comparison version_ordering version_ok
proof
  show "version_ordering b a = reverse_ordering (version_ordering a b)" for a b
    by (rule version_ordering_flip)
  fix a b c
  assume ok: "version_ok a" "version_ok b" "version_ok c"
    and le: "version_ordering a b \<noteq> Greater" "version_ordering b c \<noteq> Greater"
  define n where "n = max (length (fst (split a))) (max (length (fst (split b))) (length (fst (split c))))"
  have "version_ordering x y = parts_ordering (fst (split x)) (fst (split y)) [0..<n]
     (pre_ordering (snd (split x)) (snd (split y)))" if "x \<in> {a, b, c}" "y \<in> {a, b, c}" for x y
    using that by (intro version_ordering_parts) (auto simp: n_def)
  moreover have "pre_ordering (snd (split a)) (snd (split b)) \<noteq> Greater \<Longrightarrow>
      pre_ordering (snd (split b)) (snd (split c)) \<noteq> Greater \<Longrightarrow>
      pre_ordering (snd (split a)) (snd (split c)) \<noteq> Greater"
    using ok pre_cmp.le_trans [of "snd (split a)" "snd (split b)" "snd (split c)"]
    by (simp add: version_ok_def pre_ok_def)
  ultimately show "version_ordering a c \<noteq> Greater"
    using le parts_ordering_le_trans [of "fst (split a)" "fst (split b)" "[0..<n]"
        "pre_ordering (snd (split a)) (snd (split b))" "fst (split c)"
        "pre_ordering (snd (split b)) (snd (split c))"
        "pre_ordering (snd (split a)) (snd (split c))"] by simp
qed

section \<open>Properties\<close>

text \<open>No two versions are newer than each other and none is newer than itself, whatever the
  two strings are: an update that has been taken can never be offered again in the other
  direction.\<close>

theorem never_both_newer: "\<not> (is_newer a b \<and> is_newer b a) \<and> \<not> is_newer a a"
  using versions.not_both_greater [of a b] versions.self_equal [of a]
  by (simp add: is_newer_def)

text \<open>Newer is transitive on versions whose digit runs fit the \<open>u64\<close> they are parsed to.\<close>

theorem newer_trans:
  assumes "version_ok a" "version_ok b" "version_ok c" and "is_newer a b" and "is_newer b c"
  shows "is_newer a c"
  using assms versions.greater_trans [of a b c] by (simp add: is_newer_def)

text \<open>Concrete versions, for the witnesses.\<close>

lemmas text_simps = printable_def split_once_def byte_def Let_def parse_uint_def
  is_ascii_digit_def digits_val_def digit_val_def

lemma split_examples:
  "split ''1.0.0'' = ([1, 0, 0], None)"
  "split ''1.0.0-rc10'' = ([1, 0, 0], Some ''rc10'')"
  "split ''v1-rc9'' = ([1], Some ''rc9'')"
  "split ''1-a5'' = ([1], Some ''a5'')"
  "split ''1-a10'' = ([1], Some ''a10'')"
  "split ''1-a30000000000000000000'' = ([1], Some ''a30000000000000000000'')"
  by (simp_all add: split_def text_simps)

lemma upt_3: "[0..<3] = [0, 1, 2 :: nat]"
  by (simp add: upt_rec)

lemmas compare_simps = is_newer_def version_ordering_def part_def upt_3 upt_rec [of 0 1]
  pre_release_ordering_def identifier_ordering_def numeric_def alphanumeric_ordering.simps
  run_ordering_def next_run_def cmp_def text_simps split_examples

theorem newer_trans_witness: "is_newer ''1.0.0'' ''v1-rc9''"
proof (rule newer_trans)
  show "version_ok ''1.0.0''" "version_ok ''1.0.0-rc10''" "version_ok ''v1-rc9''"
    by (simp_all add: version_ok_def identifier_ok_def runs.simps next_run_def run_ok_def
        split_examples text_simps)
  show "is_newer ''1.0.0'' ''1.0.0-rc10''" "is_newer ''1.0.0-rc10'' ''v1-rc9''"
    by (simp_all add: compare_simps)
qed

text \<open>
  Without that condition the order has a cycle: a run of digits beyond a \<open>u64\<close> is compared
  as text, its shorter neighbours as numbers.
\<close>

lemma newer_cycle_beyond_u64:
  "is_newer ''1-a10'' ''1-a5'' \<and> is_newer ''1-a30000000000000000000'' ''1-a10''
    \<and> is_newer ''1-a5'' ''1-a30000000000000000000''"
  by (simp add: compare_simps)

text \<open>Versions as numbers.\<close>

definition render_version :: "nat list \<Rightarrow> string" where
  "render_version ns = join_with (CHR ''.'') (map dec_digits ns)"

lemma digit_facts:
  assumes "is_ascii_digit c"
  shows "c \<noteq> CHR ''v''" "c \<noteq> CHR ''+''" "c \<noteq> CHR ''-''" "c \<noteq> CHR ''.''" "33 \<le> byte c" "byte c \<le> 126"
  using assms by (auto simp: is_ascii_digit_def byte_def)

lemma dec_digits_set: "c \<in> set (dec_digits n) \<Longrightarrow> is_ascii_digit c"
  using dec_digits_are_digits [of n] by (simp add: list_all_iff)

lemma render_version_chars:
  "c \<in> set (render_version ns) \<Longrightarrow> is_ascii_digit c \<or> c = CHR ''.''"
  unfolding render_version_def
proof (induction ns rule: induct_list012)
  case (2 n)
  then show ?case using dec_digits_set by simp
next
  case (3 m n ns)
  then show ?case using dec_digits_set by auto
qed simp

lemma render_version_hd:
  "ns \<noteq> [] \<Longrightarrow> \<exists>d ds. render_version ns = d # ds \<and> is_ascii_digit d"
proof (cases ns)
  case (Cons n ms)
  obtain d ds where "dec_digits n = d # ds" by (cases "dec_digits n") auto
  moreover from this have "is_ascii_digit d" using dec_digits_set [of d n] by simp
  ultimately show ?thesis using Cons by (cases ms) (auto simp: render_version_def)
qed simp

lemma split_core:
  assumes "ns \<noteq> []" "list_all (\<lambda>n. n < 2 ^ 64) ns"
  shows "map (\<lambda>p. case parse_uint 64 p of Some n \<Rightarrow> n | None \<Rightarrow> 0)
            (split_on (CHR ''.'') (render_version ns)) = ns"
proof -
  have "split_on (CHR ''.'') (render_version ns) = map dec_digits ns"
    unfolding render_version_def using assms(1)
    by (intro split_on_join) (auto dest: dec_digits_set digit_facts)
  moreover have "map (\<lambda>p. case parse_uint 64 p of Some n \<Rightarrow> n | None \<Rightarrow> 0) (map dec_digits ns) = ns"
    using assms(2) by (induction ns) (simp_all add: parse_uint_dec_digits)
  ultimately show ?thesis by simp
qed

lemma render_version_printable: "printable (render_version ns)"
  using render_version_chars by (fastforce simp: printable_def list_all_iff byte_def
      dest: digit_facts(5,6))

lemma not_in_render_version:
  "CHR ''+'' \<notin> set (render_version ns)" "CHR ''-'' \<notin> set (render_version ns)"
  using render_version_chars digit_facts(2,3) by fastforce+

lemma dropWhile_v_render:
  "ns \<noteq> [] \<Longrightarrow> dropWhile (\<lambda>c. c = CHR ''v'') (render_version ns @ s) = render_version ns @ s"
  using render_version_hd [of ns] digit_facts(1) by fastforce

lemma split_render:
  assumes "ns \<noteq> []" "list_all (\<lambda>n. n < 2 ^ 64) ns"
  shows "split (render_version ns) = (ns, None)"
proof -
  have "split_once (CHR ''+'') (render_version ns) = None"
    "split_once (CHR ''-'') (render_version ns) = None"
    using not_in_render_version by (simp_all add: split_once_None)
  then show ?thesis
    using split_core [OF assms] dropWhile_v_render [OF assms(1), of "[]"]
    by (simp add: split_def render_version_printable Let_def)
qed

lemma split_render_pre:
  assumes "ns \<noteq> []" "list_all (\<lambda>n. n < 2 ^ 64) ns" "printable pre" "CHR ''+'' \<notin> set pre"
  shows "split (render_version ns @ CHR ''-'' # pre) = (ns, Some pre)"
proof -
  have "split_once (CHR ''+'') (render_version ns @ CHR ''-'' # pre) = None"
    using not_in_render_version assms(4) by (auto simp: split_once_None)
  moreover have "printable (render_version ns @ CHR ''-'' # pre)"
    using render_version_printable [of ns] assms(3) by (simp add: printable_def byte_def)
  ultimately show ?thesis
    using split_core [OF assms(1,2)] dropWhile_v_render [OF assms(1)]
    by (simp add: split_def Let_def split_once_append not_in_render_version)
qed

lemma part_Cons: "part (x # xs) 0 = x" "part (x # xs) (Suc i) = part xs i"
  by (simp_all add: part_def)

lemma parts_ordering_lists:
  "length a = length b \<Longrightarrow>
    parts_ordering a b [0..<length b] t = then_ordering (list_ordering cmp a b) t"
proof (induction a b rule: list_induct2)
  case (Cons x xs y ys)
  have "parts_ordering (x # xs) (y # ys) (map Suc [0..<length ys]) t
      = parts_ordering xs ys [0..<length ys] t"
    by (simp add: parts_ordering_def foldr_map comp_def part_Cons)
  then show ?case
    using Cons by (cases "cmp x y")
      (simp_all add: upt_rec [of 0] map_Suc_upt [symmetric] parts_ordering_def part_Cons del: upt_Suc)
qed (simp add: parts_ordering_def)

text \<open>Dotted numbers compare as lists of numbers, whatever their digits look like, and a
  release is newer than every pre-release of the same numbers.\<close>

theorem numbers_compare_as_numbers:
  assumes "ns \<noteq> []" "length ms = length ns"
    and "list_all (\<lambda>n. n < 2 ^ 64) ns" "list_all (\<lambda>n. n < 2 ^ 64) ms"
    and "printable pre" "CHR ''+'' \<notin> set pre"
  shows "(is_newer (render_version ms) (render_version ns) \<longleftrightarrow> list_ordering cmp ms ns = Greater)
    \<and> is_newer (render_version ns) (render_version ns @ CHR ''-'' # pre)"
proof -
  have "ms \<noteq> []" using assms(1,2) by auto
  then show ?thesis
    using assms parts_ordering_lists [of ms ns] parts_ordering_lists [of ns ns]
    by (simp add: is_newer_def version_ordering_parts [where n = "length ns"] split_render
        split_render_pre list_ordering_self then_ordering_Equal)
      (cases "list_ordering cmp ms ns"; simp)
qed

theorem numbers_compare_as_numbers_witness:
  "is_newer (render_version [1, 10, 0]) (render_version [1, 9, 7])
    \<and> is_newer (render_version [1, 9, 7]) (render_version [1, 9, 7] @ ''-rc.1'')"
proof -
  have "list_all (\<lambda>n. n < 2 ^ 64) [1, 9, 7 :: nat]" "list_all (\<lambda>n. n < 2 ^ 64) [1, 10, 0 :: nat]"
    "printable ''rc.1''" "CHR ''+'' \<notin> set ''rc.1''"
    by (simp_all add: printable_def byte_def)
  then show ?thesis
    using numbers_compare_as_numbers [of "[1, 9, 7]" "[1, 10, 0]" "''rc.1''"]
    by (simp add: cmp_def)
qed

text \<open>Build metadata never changes an answer.\<close>

lemma build_metadata_irrelevant:
  assumes "printable v" "printable b" "CHR ''+'' \<notin> set v"
  shows "version_ordering (v @ CHR ''+'' # b) w = version_ordering v w"
proof -
  have nv: "CHR ''+'' \<notin> set (dropWhile (\<lambda>c. c = CHR ''v'') v)"
    using assms(3) set_dropWhileD by fastforce
  have d: "dropWhile (\<lambda>c. c = CHR ''v'') (v @ CHR ''+'' # b)
      = dropWhile (\<lambda>c. c = CHR ''v'') v @ CHR ''+'' # b"
    by (induction v) auto
  have "printable (v @ CHR ''+'' # b)"
    using assms by (simp add: printable_def byte_def)
  then have "split (v @ CHR ''+'' # b) = split v"
    using assms nv split_once_append [OF nv] split_once_None [THEN iffD2, OF nv]
    unfolding split_def by (simp add: d Let_def split: option.split)
  then show ?thesis by (simp add: version_ordering_def)
qed

end
