(* ===== verification/Framing.thy ===== *)
theory Framing
  imports Prelude
begin

text \<open>
  The wire framing of crates/opad-protocol/src/lib.rs. A frame is a header of four bytes and a
  protobuf payload; the header is either the marker AA 55 with a 16-bit length (current pads)
  or a 32-bit length (pads from before the marker). The protobuf coder is prost, a library:
  it is the parameter \<open>codec\<close> of the operations here. What they rely on is
  \<open>codec_ok\<close>, prost's documented behaviour: a message encodes to \<open>encoded_len\<close> bytes that
  decode back to it.
\<close>

datatype framing = Marked | Legacy

datatype 'e protocol_error = FrameTooLarge nat | DecodeError 'e | EncodeError 'e

record ('m, 'e) codec =
  encoded_len :: "'m \<Rightarrow> nat"
  encode :: "'m \<Rightarrow> ('e, u8 list) result"
  decode :: "u8 list \<Rightarrow> ('e, 'm) result"

definition codec_ok :: "('m, 'e) codec \<Rightarrow> bool" where
  "codec_ok c \<longleftrightarrow>
     (\<forall>m. \<exists>bs. encode c m = Inr bs \<and> length bs = encoded_len c m \<and> decode c bs = Inr m)"

definition FRAME_MAGIC :: "u8 list" where "FRAME_MAGIC = [0xAA, 0x55]"
definition HEADER_BYTES :: nat where "HEADER_BYTES = 4"
definition MAX_PAYLOAD_BYTES :: nat where "MAX_PAYLOAD_BYTES = 8192 - HEADER_BYTES"
definition LEGACY_MIN_PAYLOAD :: nat where "LEGACY_MIN_PAYLOAD = 2"

lemmas frame_consts [wire_simps] =
  FRAME_MAGIC_def HEADER_BYTES_def MAX_PAYLOAD_BYTES_def LEGACY_MIN_PAYLOAD_def

section \<open>Little-endian integers\<close>

fun le_bytes :: "nat \<Rightarrow> nat \<Rightarrow> u8 list" where
  "le_bytes 0 n = []"
| "le_bytes (Suc k) n = word_of_nat n # le_bytes k (n div 256)"

fun of_le :: "u8 list \<Rightarrow> nat" where
  "of_le [] = 0"
| "of_le (b # bs) = unat b + 256 * of_le bs"

lemma le_bytes_unfold:
  "le_bytes 2 n = [word_of_nat n, word_of_nat (n div 256)]"
  "le_bytes 4 n = [word_of_nat n, word_of_nat (n div 256), word_of_nat (n div 256 div 256),
                   word_of_nat (n div 256 div 256 div 256)]"
proof -
  have "(4 :: nat) = Suc (Suc (Suc (Suc 0)))" by simp
  then show "le_bytes 4 n = [word_of_nat n, word_of_nat (n div 256),
      word_of_nat (n div 256 div 256), word_of_nat (n div 256 div 256 div 256)]"
    by (simp only: le_bytes.simps)
  show "le_bytes 2 n = [word_of_nat n, word_of_nat (n div 256)]"
    by (simp only: numeral_2_eq_2 le_bytes.simps)
qed

lemma length_le_bytes [simp]: "length (le_bytes k n) = k"
  by (induction k arbitrary: n) auto

lemma of_le_le_bytes: "of_le (le_bytes k n) = n mod 256 ^ k"
proof (induction k arbitrary: n)
  case (Suc k)
  have "unat (word_of_nat n :: u8) = n mod 256"
    by (simp add: unat_of_nat)
  with Suc show ?case
    by (simp add: mod_mult2_eq)
qed simp

section \<open>Encoding\<close>

text \<open>\<open>payload_len as u16\<close> and \<open>as u32\<close> truncate, as \<open>le_bytes\<close> does.\<close>

definition encode_frame ::
  "('m, 'e) codec \<Rightarrow> 'm \<Rightarrow> framing \<Rightarrow> ('e protocol_error, u8 list) result" where
  "encode_frame c msg framing =
     (let payload_len = encoded_len c msg in
      if payload_len > MAX_PAYLOAD_BYTES then Inl (FrameTooLarge payload_len)
      else
        let buf = (case framing of
                     Marked \<Rightarrow> FRAME_MAGIC @ le_bytes 2 payload_len
                   | Legacy \<Rightarrow> le_bytes 4 payload_len)
        in case encode c msg of
             Inl e \<Rightarrow> Inl (EncodeError e)
           | Inr payload \<Rightarrow> Inr (buf @ payload))"

definition encode_host_message :: "('m, 'e) codec \<Rightarrow> 'm \<Rightarrow> ('e protocol_error, u8 list) result" where
  "encode_host_message c msg = encode_frame c msg Marked"

definition encode_host_message_as ::
  "('m, 'e) codec \<Rightarrow> 'm \<Rightarrow> framing \<Rightarrow> ('e protocol_error, u8 list) result" where
  "encode_host_message_as c msg framing = encode_frame c msg framing"

definition encode_device_message :: "('m, 'e) codec \<Rightarrow> 'm \<Rightarrow> ('e protocol_error, u8 list) result" where
  "encode_device_message c msg = encode_frame c msg Marked"

definition encode_device_message_as ::
  "('m, 'e) codec \<Rightarrow> 'm \<Rightarrow> framing \<Rightarrow> ('e protocol_error, u8 list) result" where
  "encode_device_message_as c msg framing = encode_frame c msg framing"

section \<open>Decoding\<close>

text \<open>Called with at least four bytes.\<close>

definition header :: "u8 list \<Rightarrow> framing option \<Rightarrow> (framing \<times> nat) option" where
  "header buf accept =
     (if take 2 buf = FRAME_MAGIC then
        let len = of_le (take 2 (drop 2 buf)) in
        if accept \<noteq> Some Legacy \<and> len \<le> MAX_PAYLOAD_BYTES then Some (Marked, len) else None
      else
        let len = of_le (take 4 buf) in
        if accept \<noteq> Some Marked \<and> LEGACY_MIN_PAYLOAD \<le> len \<and> len \<le> MAX_PAYLOAD_BYTES
        then Some (Legacy, len) else None)"

text \<open>With only the marker accepted, the scan jumps to the next byte that can start one.\<close>

definition skip_to_marker :: "u8 list \<Rightarrow> framing option \<Rightarrow> u8 list" where
  "skip_to_marker buf accept =
     (if accept = Some Marked then dropWhile (\<lambda>b. b \<noteq> hd FRAME_MAGIC) buf else buf)"

lemma length_skip_to_marker [simp]: "length (skip_to_marker buf accept) \<le> length buf"
  by (simp add: skip_to_marker_def)

function resync :: "u8 list \<Rightarrow> framing option \<Rightarrow> (framing \<times> nat) option \<times> u8 list" where
  "resync buf accept =
     (let buf = skip_to_marker buf accept in
      if length buf < HEADER_BYTES then (None, buf)
      else case header buf accept of
             Some h \<Rightarrow> (Some h, buf)
           | None \<Rightarrow> resync (drop 1 buf) accept)"
  by pat_completeness auto
termination
proof (relation "measure (\<lambda>(buf, accept). length buf)", goal_cases)
  case (2 buf accept x)
  then have "0 < length x" "length x \<le> length buf"
    by (auto simp: HEADER_BYTES_def)
  then show ?case by (cases x) auto
qed simp

declare resync.simps [simp del]

text \<open>The result, and the buffer it leaves.\<close>

definition decode_frame ::
  "('m, 'e) codec \<Rightarrow> u8 list \<Rightarrow> framing option
     \<Rightarrow> ('e protocol_error, ('m \<times> framing) option) result \<times> u8 list" where
  "decode_frame c buf accept =
     (case resync buf accept of
        (None, buf) \<Rightarrow> (Inr None, buf)
      | (Some (framing, payload_len), buf) \<Rightarrow>
          if length buf < HEADER_BYTES + payload_len then (Inr None, buf)
          else case decode c (take payload_len (drop HEADER_BYTES buf)) of
                 Inr msg \<Rightarrow> (Inr (Some (msg, framing)), drop (HEADER_BYTES + payload_len) buf)
               | Inl e \<Rightarrow> (Inl (DecodeError e), drop 1 buf))"

definition decode_device_message ::
  "('m, 'e) codec \<Rightarrow> u8 list \<Rightarrow> ('e protocol_error, 'm option) result \<times> u8 list" where
  "decode_device_message c buf =
     (case decode_frame c buf None of
        (Inl e, rest) \<Rightarrow> (Inl e, rest)
      | (Inr r, rest) \<Rightarrow> (Inr (map_option fst r), rest))"

definition decode_device_message_framed ::
  "('m, 'e) codec \<Rightarrow> u8 list \<Rightarrow> framing option
     \<Rightarrow> ('e protocol_error, ('m \<times> framing) option) result \<times> u8 list" where
  "decode_device_message_framed c buf accept = decode_frame c buf accept"

definition decode_host_message ::
  "('m, 'e) codec \<Rightarrow> u8 list \<Rightarrow> ('e protocol_error, 'm option) result \<times> u8 list" where
  "decode_host_message c buf =
     (case decode_frame c buf None of
        (Inl e, rest) \<Rightarrow> (Inl e, rest)
      | (Inr r, rest) \<Rightarrow> (Inr (map_option fst r), rest))"

section \<open>Frames on the wire\<close>

lemma encode_frame_Inr:
  assumes ok: "codec_ok c" and enc: "encode_frame c msg framing = Inr bs"
  obtains payload where "length payload = encoded_len c msg" "decode c payload = Inr msg"
    "encoded_len c msg \<le> MAX_PAYLOAD_BYTES"
    "bs = (case framing of Marked \<Rightarrow> FRAME_MAGIC @ le_bytes 2 (encoded_len c msg)
                         | Legacy \<Rightarrow> le_bytes 4 (encoded_len c msg)) @ payload"
proof -
  from ok obtain p where "encode c msg = Inr p" "length p = encoded_len c msg"
    "decode c p = Inr msg"
    unfolding codec_ok_def by blast
  with enc show thesis
    by (intro that [of p]) (auto simp: encode_frame_def Let_def split: if_splits)
qed

lemma take_le_bytes [wire_simps]: "length xs = k \<Longrightarrow> take k (xs @ ys) = xs"
  by simp

lemma header_marked:
  assumes "n \<le> MAX_PAYLOAD_BYTES" and "accept \<noteq> Some Legacy"
  shows "header (FRAME_MAGIC @ le_bytes 2 n @ xs) accept = Some (Marked, n)"
proof -
  have "of_le (take 2 (le_bytes 2 n @ xs)) = n"
    using assms(1) by (simp add: of_le_le_bytes frame_consts)
  then show ?thesis
    using assms by (simp add: header_def frame_consts)
qed

lemma of_le_two_magic: "take 2 b = FRAME_MAGIC \<Longrightarrow> 4 \<le> length b \<Longrightarrow> 21930 \<le> of_le (take 4 b)"
proof -
  assume a: "take 2 b = FRAME_MAGIC" "4 \<le> length b"
  have "take 4 b = take 2 b @ take 2 (drop 2 b)"
    using take_add [of 2 2 b] by simp
  with a show ?thesis by (simp add: FRAME_MAGIC_def)
qed

lemma header_legacy:
  assumes "LEGACY_MIN_PAYLOAD \<le> n" "n \<le> MAX_PAYLOAD_BYTES" and "accept \<noteq> Some Marked"
  shows "header (le_bytes 4 n @ xs) accept = Some (Legacy, n)"
proof -
  have len: "of_le (take 4 (le_bytes 4 n @ xs)) = n"
    using assms(2) by (simp add: of_le_le_bytes frame_consts)
  have "take 2 (le_bytes 4 n @ xs) \<noteq> FRAME_MAGIC"
  proof
    assume "take 2 (le_bytes 4 n @ xs) = FRAME_MAGIC"
    then have "21930 \<le> of_le (take 4 (le_bytes 4 n @ xs))"
      by (rule of_le_two_magic) simp
    with len assms(2) show False by (simp add: frame_consts)
  qed
  with len assms show ?thesis by (simp add: header_def)
qed

text \<open>A header is read from the first four bytes only.\<close>

lemma header_append: "4 \<le> length b \<Longrightarrow> header (b @ x) accept = header b accept"
  by (simp add: header_def)

lemma skip_to_marker_append:
  "skip_to_marker b accept \<noteq> [] \<Longrightarrow> skip_to_marker (b @ x) accept = skip_to_marker b accept @ x"
  by (auto simp: skip_to_marker_def dropWhile_append_nonempty)

lemma skip_to_marker_empty:
  "skip_to_marker b accept = [] \<Longrightarrow> skip_to_marker (b @ x) accept = skip_to_marker x accept"
  by (auto simp: skip_to_marker_def split: if_splits)

lemma skip_to_marker_idem [simp]:
  "skip_to_marker (skip_to_marker b accept @ x) accept
     = (if skip_to_marker b accept = [] then skip_to_marker x accept
        else skip_to_marker b accept @ x)"
  by (cases "skip_to_marker b accept")
     (auto simp: skip_to_marker_def dest: dropWhile_hd split: if_splits)

section \<open>Resynchronisation\<close>

lemma resync_header:
  "resync buf accept = (Some h, b) \<Longrightarrow> header b accept = Some h \<and> 4 \<le> length b"
proof (induction buf accept rule: resync.induct)
  case (1 buf accept)
  let ?b = "skip_to_marker buf accept"
  show ?case
  proof (cases "length ?b < HEADER_BYTES")
    case True
    with "1.prems" show ?thesis by (simp add: resync.simps [of buf])
  next
    case False
    with "1.IH" [OF refl False] "1.prems" show ?thesis
      by (cases "header ?b accept")
         (auto simp: resync.simps [of buf] Let_def HEADER_BYTES_def)
  qed
qed

text \<open>Only a prefix is dropped, never a byte in the middle.\<close>

lemma resync_suffix: "resync buf accept = (h, b) \<Longrightarrow> \<exists>junk. buf = junk @ b"
proof (induction buf accept rule: resync.induct)
  case (1 buf accept)
  let ?b = "skip_to_marker buf accept"
  have suf: "\<exists>j. buf = j @ ?b"
    by (auto simp: skip_to_marker_def dropWhile_suffix)
  show ?case
  proof (cases "length ?b < HEADER_BYTES \<or> header ?b accept \<noteq> None")
    case True
    with "1.prems" suf show ?thesis
      by (auto simp: resync.simps [of buf] Let_def split: if_splits)
  next
    case False
    then have big: "\<not> length ?b < HEADER_BYTES" and no: "header ?b accept = None" by blast+
    with "1.prems" have "resync (drop 1 ?b) accept = (h, b)"
      by (simp add: resync.simps [of buf] Let_def)
    from "1.IH" [OF refl big no this] obtain j where "drop 1 ?b = j @ b" by blast
    then have "?b = (take 1 ?b @ j) @ b"
      by (metis append.assoc append_take_drop_id)
    with suf show ?thesis by (metis append.assoc)
  qed
qed

lemma resync_append_Some:
  "resync buf accept = (Some h, b) \<Longrightarrow> resync (buf @ x) accept = (Some h, b @ x)"
proof (induction buf accept rule: resync.induct)
  case (1 buf accept)
  let ?b = "skip_to_marker buf accept"
  have big: "\<not> length ?b < HEADER_BYTES"
    using "1.prems" by (auto simp: resync.simps [of buf] Let_def split: if_splits)
  then have app: "skip_to_marker (buf @ x) accept = ?b @ x"
    by (intro skip_to_marker_append) (auto simp: HEADER_BYTES_def)
  have hd: "header (?b @ x) accept = header ?b accept"
    using big by (intro header_append) (simp add: HEADER_BYTES_def)
  have dr: "drop 1 (?b @ x) = drop 1 ?b @ x"
    using big by (cases ?b) (auto simp: HEADER_BYTES_def)
  show ?case
  proof (cases "header ?b accept")
    case None
    with "1.prems" big have "resync (drop 1 ?b) accept = (Some h, b)"
      by (simp add: resync.simps [of buf] Let_def)
    from "1.IH" [OF refl big None this] None big show ?thesis
      by (simp only: resync.simps [of "buf @ x"] Let_def app hd dr) simp
  next
    case (Some a)
    with "1.prems" big have "a = h" and "?b = b"
      by (simp_all add: resync.simps [of buf] Let_def)
    moreover have "resync (buf @ x) accept = (Some a, ?b @ x)"
      using Some big by (simp add: resync.simps [of "buf @ x"] Let_def app hd)
    ultimately show ?thesis by simp
  qed
qed

lemma resync_append_None:
  "resync buf accept = (None, b) \<Longrightarrow> resync (buf @ x) accept = resync (b @ x) accept"
proof (induction buf accept rule: resync.induct)
  case (1 buf accept)
  let ?b = "skip_to_marker buf accept"
  show ?case
  proof (cases "length ?b < HEADER_BYTES")
    case True
    with "1.prems" have "b = ?b" by (simp add: resync.simps [of buf] Let_def)
    then have "skip_to_marker (buf @ x) accept = skip_to_marker (b @ x) accept"
      by (simp add: skip_to_marker_append skip_to_marker_empty)
    then show ?thesis
      by (simp only: resync.simps [of "buf @ x"] resync.simps [of "b @ x"])
  next
    case False
    then have app: "skip_to_marker (buf @ x) accept = ?b @ x"
      by (intro skip_to_marker_append) (auto simp: HEADER_BYTES_def)
    from False "1.prems" have None: "header ?b accept = None"
      by (cases "header ?b accept") (auto simp: resync.simps [of buf] Let_def)
    with False "1.prems" have "resync (drop 1 ?b) accept = (None, b)"
      by (simp add: resync.simps [of buf] Let_def)
    from "1.IH" [OF refl False None this]
    have ih: "resync (drop 1 ?b @ x) accept = resync (b @ x) accept" .
    have "header (?b @ x) accept = None"
      using False None by (subst header_append) (auto simp: HEADER_BYTES_def)
    moreover have "drop 1 (?b @ x) = drop 1 ?b @ x"
      using False by (cases ?b) (auto simp: HEADER_BYTES_def)
    ultimately show ?thesis
      using False ih by (simp add: resync.simps [of "buf @ x"] Let_def app)
  qed
qed

section \<open>Decoding a growing buffer\<close>

lemma resync_None_length:
  "resync buf accept = (None, b) \<Longrightarrow> length b < HEADER_BYTES"
proof (induction buf accept rule: resync.induct)
  case (1 buf accept)
  let ?b = "skip_to_marker buf accept"
  show ?case
  proof (cases "length ?b < HEADER_BYTES")
    case True
    with "1.prems" show ?thesis by (simp add: resync.simps [of buf] Let_def)
  next
    case False
    with "1.prems" have None: "header ?b accept = None"
      by (cases "header ?b accept") (auto simp: resync.simps [of buf] Let_def)
    with False "1.prems" have "resync (drop 1 ?b) accept = (None, b)"
      by (simp add: resync.simps [of buf] Let_def)
    with "1.IH" [OF refl False None] show ?thesis by simp
  qed
qed

lemma decode_frame_suffix: "decode_frame c buf accept = (r, rest) \<Longrightarrow> \<exists>used. buf = used @ rest"
proof -
  assume d: "decode_frame c buf accept = (r, rest)"
  obtain h b where r: "resync buf accept = (h, b)" by fastforce
  then obtain j where "buf = j @ b" using resync_suffix by blast
  moreover have "rest = drop 0 b \<or> (\<exists>k. rest = drop k b)"
    using d r unfolding decode_frame_def
    by (simp split: option.splits if_splits sum.splits prod.splits) blast+
  ultimately show ?thesis
    by (metis append.assoc append_take_drop_id)
qed

text \<open>A result other than \<open>Ok(None)\<close> has consumed at least one byte.\<close>

lemma decode_frame_progress:
  "decode_frame c buf accept = (r, rest) \<Longrightarrow> r \<noteq> Inr None \<Longrightarrow> length rest < length buf"
proof -
  assume d: "decode_frame c buf accept = (r, rest)" "r \<noteq> Inr None"
  obtain h b where r: "resync buf accept = (h, b)" by fastforce
  with d obtain fr n where h: "h = Some (fr, n)"
    by (cases h) (auto simp: decode_frame_def)
  with r have "4 \<le> length b" using resync_header by blast
  moreover obtain j where "buf = j @ b" using r resync_suffix by blast
  ultimately show ?thesis
    using d r h by (auto simp: decode_frame_def HEADER_BYTES_def split: if_splits sum.splits)
qed

lemma decode_frame_append_done:
  assumes "decode_frame c buf accept = (r, rest)" and "r \<noteq> Inr None"
  shows "decode_frame c (buf @ x) accept = (r, rest @ x)"
proof -
  obtain h b where r: "resync buf accept = (h, b)" by fastforce
  with assms obtain fr n where h: "h = Some (fr, n)"
    by (cases h) (auto simp: decode_frame_def)
  then have "resync (buf @ x) accept = (Some (fr, n), b @ x)"
    using r resync_append_Some by blast
  with assms r h show ?thesis
    by (auto simp: decode_frame_def HEADER_BYTES_def split: if_splits sum.splits)
qed

lemma resync_at_header:
  assumes "header b accept = Some h" and "4 \<le> length b" and "skip_to_marker b accept = b"
  shows "resync b accept = (Some h, b)"
  using assms by (simp add: resync.simps [of b] HEADER_BYTES_def)

lemma resync_skip:
  "resync buf accept = (Some h, b) \<Longrightarrow> skip_to_marker b accept = b"
proof (induction buf accept rule: resync.induct)
  case (1 buf accept)
  let ?b = "skip_to_marker buf accept"
  have big: "\<not> length ?b < HEADER_BYTES"
    using "1.prems" by (auto simp: resync.simps [of buf] Let_def split: if_splits)
  show ?case
  proof (cases "header ?b accept")
    case None
    with "1.prems" big have "resync (drop 1 ?b) accept = (Some h, b)"
      by (simp add: resync.simps [of buf] Let_def)
    with "1.IH" [OF refl big None] show ?thesis by simp
  next
    case (Some a)
    with "1.prems" big have "b = ?b" by (simp add: resync.simps [of buf] Let_def)
    moreover have "?b \<noteq> []" using big by (auto simp: HEADER_BYTES_def)
    ultimately show ?thesis
      using skip_to_marker_idem [of buf accept "[]"] by simp
  qed
qed

lemma decode_frame_append_wait:
  assumes "decode_frame c buf accept = (Inr None, rest)"
  shows "decode_frame c (buf @ x) accept = decode_frame c (rest @ x) accept"
proof -
  obtain h b where r: "resync buf accept = (h, b)" by fastforce
  show ?thesis
  proof (cases h)
    case None
    with assms r have "rest = b" by (simp add: decode_frame_def)
    moreover have "resync (buf @ x) accept = resync (b @ x) accept"
      using r None resync_append_None by blast
    ultimately show ?thesis by (simp add: decode_frame_def)
  next
    case (Some p)
    with assms r have rest: "rest = b"
      by (auto simp: decode_frame_def split: if_splits sum.splits prod.splits)
    have "resync (buf @ x) accept = (Some p, b @ x)"
      using r Some resync_append_Some by blast
    moreover have "resync b accept = (Some p, b)"
      using r Some resync_header [of buf accept p b] resync_skip [of buf accept p b]
      by (intro resync_at_header) auto
    then have "resync (b @ x) accept = (Some p, b @ x)"
      by (rule resync_append_Some)
    ultimately show ?thesis by (simp add: decode_frame_def rest)
  qed
qed

text \<open>
  The reader's loop: every frame that is ready is handed on, an undecodable one is skipped.
  Its state decides which framing is accepted; a message may change it.
\<close>

function (sequential) parse_ready ::
  "('m, 'e) codec \<Rightarrow> ('s \<Rightarrow> framing option) \<Rightarrow> ('m \<times> framing \<Rightarrow> 's \<Rightarrow> 's) \<Rightarrow> 's \<Rightarrow> u8 list
     \<Rightarrow> 's \<times> u8 list" where
  "parse_ready c acc on_msg s buf =
     (case decode_frame c buf (acc s) of
        (Inr None, rest) \<Rightarrow> (s, rest)
      | (Inr (Some m), rest) \<Rightarrow> parse_ready c acc on_msg (on_msg m s) rest
      | (Inl e, rest) \<Rightarrow> parse_ready c acc on_msg s rest)"
  by pat_completeness auto
termination
  by (relation "measure (\<lambda>(c, acc, on_msg, s, buf). length buf)")
     (auto dest: decode_frame_progress [OF sym])

declare parse_ready.simps [simp del]

lemma parse_ready_append:
  "parse_ready c acc on_msg s buf = (s', rest)
     \<Longrightarrow> parse_ready c acc on_msg s (buf @ x) = parse_ready c acc on_msg s' (rest @ x)"
proof (induction c acc on_msg s buf rule: parse_ready.induct)
  case (1 c acc on_msg s buf)
  obtain r b where d: "decode_frame c buf (acc s) = (r, b)" by fastforce
  show ?case
  proof (cases "r = Inr None")
    case True
    with d "1.prems" have "s' = s" "rest = b" by (auto simp: parse_ready.simps [of c acc on_msg s buf])
    moreover have "decode_frame c (buf @ x) (acc s) = decode_frame c (b @ x) (acc s)"
      using d True decode_frame_append_wait by blast
    ultimately show ?thesis
      by (simp add: parse_ready.simps [of c acc on_msg s "buf @ x"]
          parse_ready.simps [of c acc on_msg s "b @ x"])
  next
    case False
    then have app: "decode_frame c (buf @ x) (acc s) = (r, b @ x)"
      using d decode_frame_append_done by blast
    from False "1.IH" d "1.prems" show ?thesis
      by (auto simp: parse_ready.simps [of c acc on_msg s buf]
          parse_ready.simps [of c acc on_msg s "buf @ x"] app split: sum.splits option.splits)
  qed
qed

text \<open>Bytes arrive in chunks, as the serial port delivers them.\<close>

fun parse_chunks ::
  "('m, 'e) codec \<Rightarrow> ('s \<Rightarrow> framing option) \<Rightarrow> ('m \<times> framing \<Rightarrow> 's \<Rightarrow> 's)
     \<Rightarrow> u8 list list \<Rightarrow> 's \<times> u8 list \<Rightarrow> 's \<times> u8 list" where
  "parse_chunks c acc on_msg [] (s, buf) = (s, buf)"
| "parse_chunks c acc on_msg (k # ks) (s, buf) =
     parse_chunks c acc on_msg ks (parse_ready c acc on_msg s (buf @ k))"

lemma decode_frame_rest_waits:
  assumes "decode_frame c buf accept = (Inr None, rest)"
  shows "decode_frame c rest accept = (Inr None, rest)"
  using decode_frame_append_wait [OF assms, of "[]"] assms by simp

lemma parse_ready_rest_waits:
  "parse_ready c acc on_msg s buf = (s', rest)
     \<Longrightarrow> parse_ready c acc on_msg s' rest = (s', rest)"
proof (induction c acc on_msg s buf rule: parse_ready.induct)
  case (1 c acc on_msg s buf)
  obtain r b where d: "decode_frame c buf (acc s) = (r, b)" by fastforce
  show ?case
  proof (cases "r = Inr None")
    case True
    with d "1.prems" have "s' = s" "rest = b" by (auto simp: parse_ready.simps [of c acc on_msg s buf])
    with d True show ?thesis
      by (auto simp: parse_ready.simps [of c acc on_msg s b] dest: decode_frame_rest_waits)
  next
    case False
    with "1.IH" d "1.prems" show ?thesis
      by (auto simp: parse_ready.simps [of c acc on_msg s buf] split: sum.splits option.splits)
  qed
qed

lemma parse_ready_Nil [simp]: "parse_ready c acc on_msg s [] = (s, [])"
  by (simp add: parse_ready.simps decode_frame_def resync.simps skip_to_marker_def HEADER_BYTES_def)

lemma parse_chunks_from_waiting:
  "parse_ready c acc on_msg s buf = (s, buf)
     \<Longrightarrow> parse_chunks c acc on_msg ks (s, buf) = parse_ready c acc on_msg s (buf @ concat ks)"
proof (induction ks arbitrary: s buf)
  case (Cons k ks)
  obtain s' rest where p: "parse_ready c acc on_msg s (buf @ k) = (s', rest)" by fastforce
  then have "parse_chunks c acc on_msg ks (s', rest) = parse_ready c acc on_msg s' (rest @ concat ks)"
    by (intro Cons.IH) (rule parse_ready_rest_waits)
  also have "\<dots> = parse_ready c acc on_msg s ((buf @ k) @ concat ks)"
    using p by (simp only: parse_ready_append)
  finally show ?case by (simp add: p)
qed simp

section \<open>Properties\<close>

text \<open>The framing a decoder that accepts \<open>accept\<close> takes a message in.\<close>

definition frame_accepted :: "('m, 'e) codec \<Rightarrow> 'm \<Rightarrow> framing \<Rightarrow> framing option \<Rightarrow> bool" where
  "frame_accepted c m fr accept \<longleftrightarrow>
     accept \<in> {None, Some fr} \<and> (fr = Legacy \<longrightarrow> LEGACY_MIN_PAYLOAD \<le> encoded_len c m)"

lemma header_encoded:
  assumes "codec_ok c" "encode_frame c m fr = Inr bs" "frame_accepted c m fr accept"
  shows "header (bs @ x) accept = Some (fr, encoded_len c m)"
    and "skip_to_marker (bs @ x) accept = bs @ x"
    and "length bs = HEADER_BYTES + encoded_len c m"
    and "decode c (take (encoded_len c m) (drop HEADER_BYTES (bs @ x))) = Inr m"
proof -
  obtain p where p: "length p = encoded_len c m" "decode c p = Inr m"
    "encoded_len c m \<le> MAX_PAYLOAD_BYTES"
    and bs: "bs = (case fr of Marked \<Rightarrow> FRAME_MAGIC @ le_bytes 2 (encoded_len c m)
                            | Legacy \<Rightarrow> le_bytes 4 (encoded_len c m)) @ p"
    using encode_frame_Inr [OF assms(1,2)] by blast
  show "header (bs @ x) accept = Some (fr, encoded_len c m)"
  proof (cases fr)
    case Marked
    with bs p(3) assms(3) show ?thesis
      using header_marked [of "encoded_len c m" accept "p @ x"]
      by (auto simp: frame_accepted_def)
  next
    case Legacy
    with bs p(3) assms(3) show ?thesis
      using header_legacy [of "encoded_len c m" accept "p @ x"]
      by (auto simp: frame_accepted_def)
  qed
  show "skip_to_marker (bs @ x) accept = bs @ x"
    using assms(3) bs
    by (cases fr) (auto simp: frame_accepted_def skip_to_marker_def FRAME_MAGIC_def)
  show "length bs = HEADER_BYTES + encoded_len c m"
    using p bs by (cases fr) (auto simp: frame_consts)
  have "drop HEADER_BYTES (bs @ x) = p @ x"
    using p bs by (cases fr) (auto simp: frame_consts)
  with p show "decode c (take (encoded_len c m) (drop HEADER_BYTES (bs @ x))) = Inr m" by simp
qed

lemma decode_encoded:
  assumes "codec_ok c" "encode_frame c m fr = Inr bs" "frame_accepted c m fr accept"
  shows "decode_frame c (bs @ x) accept = (Inr (Some (m, fr)), x)"
proof -
  note h = header_encoded [OF assms]
  have "resync (bs @ x) accept = (Some (fr, encoded_len c m), bs @ x)"
    by (rule resync_at_header) (use h in \<open>auto simp: HEADER_BYTES_def\<close>)
  with h show ?thesis by (simp add: decode_frame_def)
qed

text \<open>Junk before a frame is skipped when no marker byte is in it and only the marker is accepted.\<close>

lemma decode_frame_junk:
  assumes "\<forall>b \<in> set junk. b \<noteq> hd FRAME_MAGIC"
  shows "decode_frame c (junk @ x) (Some Marked) = decode_frame c x (Some Marked)"
proof -
  have "skip_to_marker (junk @ x) (Some Marked) = skip_to_marker x (Some Marked)"
    using assms by (simp add: skip_to_marker_def dropWhile_append2)
  then show ?thesis
    by (simp add: decode_frame_def resync.simps [of "junk @ x"] resync.simps [of x])
qed

text \<open>C16: every frame a sender builds within the size limit decodes to the message it carries and
  the framing it was sent in, and the bytes after it are left in the buffer.\<close>

theorem frame_roundtrip:
  assumes "codec_ok c" and "encode_frame c m fr = Inr bs" and "frame_accepted c m fr accept"
  shows "decode_device_message_framed c (bs @ rest) accept = (Inr (Some (m, fr)), rest)"
  unfolding decode_device_message_framed_def using assms by (rule decode_encoded)

text \<open>A concrete coder: a message is its own bytes.\<close>

definition raw_codec :: "(u8 list, unit) codec" where
  "raw_codec = \<lparr>encoded_len = length, encode = Inr, decode = Inr\<rparr>"

lemma raw_codec_ok: "codec_ok raw_codec"
  by (simp add: codec_ok_def raw_codec_def)

lemma raw_codec_frames:
  "encode_frame raw_codec [7, 9] Marked = Inr [0xAA, 0x55, 2, 0, 7, 9]"
  "encode_frame raw_codec [7, 9] Legacy = Inr [2, 0, 0, 0, 7, 9]"
  by (simp_all add: encode_frame_def raw_codec_def frame_consts le_bytes_unfold)

lemma raw_codec_accepts:
  "frame_accepted raw_codec [7, 9] fr None"
  "frame_accepted raw_codec [7, 9] Marked (Some Marked)"
  by (simp_all add: frame_accepted_def raw_codec_def frame_consts)

theorem frame_roundtrip_witness:
  "decode_device_message_framed raw_codec ([2, 0, 0, 0, 7, 9] @ [1]) None
     = (Inr (Some ([7, 9], Legacy)), [1])"
  by (rule frame_roundtrip [OF raw_codec_ok raw_codec_frames(2) raw_codec_accepts(1)])

text \<open>C1: how the byte stream is cut into reads does not matter: feeding it in any chunks hands
  on the same messages, in the same order, and leaves the same bytes, as parsing it at once.\<close>

theorem chunking_irrelevant:
  "parse_chunks c acc on_msg ks (s, []) = parse_ready c acc on_msg s (concat ks)"
  using parse_chunks_from_waiting [of c acc on_msg s "[]" ks] by simp

text \<open>With the pad's framing known to be the marked one, bytes between frames that hold no
  marker byte (boot chatter, text) cost nothing: the next frame decodes.\<close>

theorem stray_bytes_skipped:
  assumes "codec_ok c" and "encode_frame c m Marked = Inr bs"
    and "\<forall>b \<in> set junk. b \<noteq> hd FRAME_MAGIC"
  shows "decode_device_message_framed c (junk @ bs @ rest) (Some Marked)
           = (Inr (Some (m, Marked)), rest)"
proof -
  have "frame_accepted c m Marked (Some Marked)" by (simp add: frame_accepted_def)
  with assms show ?thesis
    by (simp add: decode_device_message_framed_def decode_frame_junk decode_encoded)
qed

theorem stray_bytes_skipped_witness:
  "decode_device_message_framed raw_codec ([1, 2] @ [0xAA, 0x55, 2, 0, 7, 9] @ [5]) (Some Marked)
     = (Inr (Some ([7, 9], Marked)), [5])"
  by (rule stray_bytes_skipped [OF raw_codec_ok raw_codec_frames(1)]) (simp add: FRAME_MAGIC_def)

text \<open>A frame is refused exactly when its payload is over the limit; otherwise the frame, header
  included, fits the pad's 8192-byte buffer.\<close>

theorem encode_frame_size:
  assumes "codec_ok c"
  shows "case encode_host_message_as c m fr of
           Inl e \<Rightarrow> e = FrameTooLarge (encoded_len c m) \<and> MAX_PAYLOAD_BYTES < encoded_len c m
         | Inr bs \<Rightarrow> length bs = HEADER_BYTES + encoded_len c m \<and> length bs \<le> 8192"
proof -
  obtain p where "encode c m = Inr p" "length p = encoded_len c m"
    using assms unfolding codec_ok_def by blast
  then show ?thesis
    by (auto simp: encode_host_message_as_def encode_frame_def Let_def frame_consts
        split: framing.split)
qed

theorem encode_frame_size_witness:
  "case encode_host_message_as raw_codec [7, 9] Marked of
     Inl e \<Rightarrow> e = FrameTooLarge (encoded_len raw_codec [7, 9])
               \<and> MAX_PAYLOAD_BYTES < encoded_len raw_codec [7, 9]
   | Inr bs \<Rightarrow> length bs = HEADER_BYTES + encoded_len raw_codec [7, 9] \<and> length bs \<le> 8192"
  by (rule encode_frame_size [OF raw_codec_ok])

end
