(* ===== verification/Feed.thy ===== *)
theory Feed
  imports Version
begin

text \<open>
  The signed update feed and what decides whether an install acts on it: the data of
  \<open>crates/opad-update/src/manifest.rs\<close>, the gate (\<open>gate.rs\<close>), the check schedule
  (\<open>schedule.rs\<close>), the gradual rollout (\<open>rollout.rs\<close>), the install origin
  (\<open>origin.rs\<close>) and the hash and signature checks (\<open>verify.rs\<close>).

  SHA-256, the minisign primitives and the RFC 3339 parser are packages the sources call: they
  are arguments here. A \<open>SystemTime\<close> and a \<open>DateTime\<close> are integers, nanoseconds from
  the epoch. Where the code formats an error message, the model keeps the reason as a
  constructor.
\<close>

section \<open>Errors and the gate\<close>

datatype runtime_mode = Idle | Playing | Cooldown | Sync

datatype defer_reason = DeferPlaying | DeferCooldown | DeferSyncing | DeferDisabled

definition may_update_now :: "runtime_mode \<Rightarrow> bool \<Rightarrow> (defer_reason, unit) result" where
  "may_update_now mode enabled =
     (if \<not> enabled then Inl DeferDisabled
      else (case mode of
              Idle \<Rightarrow> Inr ()
            | Playing \<Rightarrow> Inl DeferPlaying
            | Cooldown \<Rightarrow> Inl DeferCooldown
            | Sync \<Rightarrow> Inl DeferSyncing))"

datatype feed_refusal = WrongChannel string string | NoExpiry | UnreadableExpiry string
  | Expired | Replayed u64 u64

datatype signature_fault = UnusableKey | UnreadableSignature | NotVerified | SignatureNotText
  | SignatureNotModified

datatype http_fault = NotHttps string | RequestFailed string | BadStatus nat | TooLarge nat
  | BodyTooLarge | UnexpectedNotModified | WrongSize string u64 nat

datatype update_error =
    Io
  | Malformed
  | HttpError http_fault
  | NoPublicKey
  | BadSignature signature_fault
  | HashMismatch (artifact: string) (expected: string) (actual: string)
  | FeedRefused feed_refusal
  | UnsupportedSchema u32 u32
  | NoArtifact string string
  | Deferred defer_reason

section \<open>The feed\<close>

datatype artifact_kind = Installer | Deb | Rpm | Archive | Binary | Firmware

record artifact =
  target :: string
  kind :: artifact_kind
  url :: string
  sha256 :: string
  file_size :: "u64 option"
  board :: "string option"

record component =
  version :: string
  revision :: u32
  tag :: "string option"
  upstream_tag :: "string option"
  release_notes :: "string option"
  notes_url :: "string option"
  min_app :: "string option"
  rollout_percent :: "u8 option"
  artifacts :: "artifact list"

record release_manifest =
  schema :: u32
  channel :: string
  serial :: u64
  generated :: string
  expires :: "string option"
  components :: "string \<Rightarrow> component option"

definition APP :: string where "APP = ''app''"
definition TOSU :: string where "TOSU = ''tosu''"
definition FIRMWARE :: string where "FIRMWARE = ''firmware''"
definition STABLE :: string where "STABLE = ''stable''"
definition BETA :: string where "BETA = ''beta''"
definition SUPPORTED_SCHEMA :: u32 where "SUPPORTED_SCHEMA = 2"

definition check_feed :: "(string \<Rightarrow> int option) \<Rightarrow> release_manifest \<Rightarrow> string \<Rightarrow> int
    \<Rightarrow> u64 option \<Rightarrow> (update_error, unit) result" where
  "check_feed parse_from_rfc3339 feed ch now highest_serial_seen =
     (if channel feed \<noteq> ch then Inl (FeedRefused (WrongChannel (channel feed) ch))
      else (case expires feed of
          None \<Rightarrow> Inl (FeedRefused NoExpiry)
        | Some text \<Rightarrow>
            (case parse_from_rfc3339 text of
               None \<Rightarrow> Inl (FeedRefused (UnreadableExpiry text))
             | Some e \<Rightarrow>
                 if now > e then Inl (FeedRefused Expired)
                 else (case highest_serial_seen of
                     None \<Rightarrow> Inr ()
                   | Some seen \<Rightarrow>
                       if serial feed < seen then Inl (FeedRefused (Replayed (serial feed) seen))
                       else Inr ()))))"

definition current_target :: "string \<Rightarrow> string \<Rightarrow> string" where
  "current_target os arch =
     (if (os, arch) = (''windows'', ''x86_64'') then ''windows-x86_64''
      else if (os, arch) = (''windows'', ''aarch64'') then ''windows-aarch64''
      else if (os, arch) = (''linux'', ''x86_64'') then ''linux-x86_64''
      else if (os, arch) = (''linux'', ''aarch64'') then ''linux-aarch64''
      else if (os, arch) = (''macos'', ''x86_64'') then ''macos-x86_64''
      else if (os, arch) = (''macos'', ''aarch64'') then ''macos-aarch64''
      else ''unsupported'')"

definition artifact_for :: "release_manifest \<Rightarrow> string \<Rightarrow> string \<Rightarrow> artifact_kind option
    \<Rightarrow> artifact option" where
  "artifact_for m name tgt k =
     (case components m name of
        None \<Rightarrow> None
      | Some c \<Rightarrow>
          find (\<lambda>a. target a = tgt \<and> (case k of None \<Rightarrow> True | Some k' \<Rightarrow> kind a = k')) (artifacts c))"

section \<open>The check schedule\<close>

record check_schedule =
  last_check :: "int option"
  last_success :: "int option"
  etag :: "string option"
  consecutive_failures :: u32
  last_error :: "update_error option"
  sched_channel :: "string option"
  serials :: "string \<Rightarrow> u64 option"

definition DEFAULT_INTERVAL :: duration where "DEFAULT_INTERVAL = from_secs (24 * 60 * 60)"
definition FIRST_BACKOFF :: duration where "FIRST_BACKOFF = from_secs (15 * 60)"
definition MAX_BACKOFF :: duration where "MAX_BACKOFF = from_secs (6 * 60 * 60)"

definition new_schedule :: check_schedule where
  "new_schedule = \<lparr>last_check = None, last_success = None, etag = None, consecutive_failures = 0,
     last_error = None, sched_channel = None, serials = Map.empty\<rparr>"

text \<open>The longest product, 900 s times 256, is far below the largest \<open>Duration\<close>.\<close>

definition interval :: "check_schedule \<Rightarrow> duration" where
  "interval s =
     (if consecutive_failures s = 0 then DEFAULT_INTERVAL
      else let shift = min (consecutive_failures s - 1) 8 in
        min (FIRST_BACKOFF * 2 ^ unat shift) MAX_BACKOFF)"

definition due_at :: "check_schedule \<Rightarrow> int \<Rightarrow> bool" where
  "due_at s now \<longleftrightarrow> (case last_check s of
     None \<Rightarrow> True
   | Some prev \<Rightarrow> if now < prev then True else nat (now - prev) \<ge> interval s)"

definition record_success :: "check_schedule \<Rightarrow> int \<Rightarrow> string option \<Rightarrow> check_schedule" where
  "record_success s now tag' =
     s\<lparr>last_check := Some now, last_success := Some now, consecutive_failures := 0,
       last_error := None, etag := (if tag' \<noteq> None then tag' else etag s)\<rparr>"

definition switch_channel :: "check_schedule \<Rightarrow> string \<Rightarrow> check_schedule" where
  "switch_channel s ch =
     (if sched_channel s \<noteq> Some ch
      then s\<lparr>sched_channel := Some ch, etag := None, last_check := None\<rparr> else s)"

definition etag_for :: "check_schedule \<Rightarrow> string \<Rightarrow> string option" where
  "etag_for s ch = (if sched_channel s = Some ch then etag s else None)"

definition record_failure :: "check_schedule \<Rightarrow> int \<Rightarrow> update_error \<Rightarrow> check_schedule" where
  "record_failure s now e =
     s\<lparr>last_check := Some now,
       consecutive_failures := sat_add (consecutive_failures s) 1,
       last_error := Some e\<rparr>"

section \<open>Gradual rollout\<close>

definition from_be_bytes :: "string \<Rightarrow> nat" where
  "from_be_bytes bs = foldl (\<lambda>n b. 256 * n + byte b) 0 bs"

definition bucket :: "(string \<Rightarrow> string) \<Rightarrow> string \<Rightarrow> string \<Rightarrow> string \<Rightarrow> u8" where
  "bucket sha install_id name ver =
     (let digest = sha (install_id @ CHR 0x0A # name @ CHR 0x0A # ver);
          n = from_be_bytes (take 8 digest)
      in of_nat (n mod 100))"

definition is_offered :: "(string \<Rightarrow> string) \<Rightarrow> string \<Rightarrow> string \<Rightarrow> component \<Rightarrow> string option \<Rightarrow> bool" where
  "is_offered sha feed_channel name c install_id =
     (if feed_channel = BETA then True
      else (case rollout_percent c of
          None \<Rightarrow> True
        | Some percent \<Rightarrow>
            if percent \<ge> 100 then True
            else (case install_id of
                Some i \<Rightarrow> bucket sha i name (version c) < percent
              | None \<Rightarrow> False)))"

definition for_install :: "(string \<Rightarrow> string) \<Rightarrow> release_manifest \<Rightarrow> string option \<Rightarrow> release_manifest" where
  "for_install sha feed install_id =
     feed\<lparr>components := (\<lambda>name. case components feed name of
        None \<Rightarrow> None
      | Some c \<Rightarrow> if is_offered sha (channel feed) name c install_id then Some c else None)\<rparr>"

section \<open>Install origin\<close>

datatype install_origin = OWindows | ODeb | ORpm | OAur | OAppImage | OUser | OSource | OUnknown

datatype package_manager = Apt | Dnf

datatype update_policy = PInstaller | PPackageManager package_manager | DirectReplace | NotifyOnlyP

definition parse_origin :: "string \<Rightarrow> install_origin" where
  "parse_origin marker =
     (let m = ascii_lowercase (trim marker) in
      if m = ''windows'' then OWindows
      else if m = ''deb'' then ODeb
      else if m = ''rpm'' then ORpm
      else if m = ''aur'' then OAur
      else if m = ''appimage'' then OAppImage
      else if m = ''user'' then OUser
      else if m = ''source'' then OSource
      else OUnknown)"

text \<open>The marker file is read or it is not there.\<close>

definition read_origin :: "string option \<Rightarrow> install_origin" where
  "read_origin file = (case file of Some contents \<Rightarrow> parse_origin contents | None \<Rightarrow> OUnknown)"

fun apply_policy :: "install_origin \<Rightarrow> update_policy" where
  "apply_policy OWindows = PInstaller"
| "apply_policy ODeb = PPackageManager Apt"
| "apply_policy ORpm = PPackageManager Dnf"
| "apply_policy OAur = NotifyOnlyP"
| "apply_policy OAppImage = DirectReplace"
| "apply_policy OUser = DirectReplace"
| "apply_policy OSource = NotifyOnlyP"
| "apply_policy OUnknown = NotifyOnlyP"

definition owns_bundled_tosu :: "install_origin \<Rightarrow> bool" where
  "owns_bundled_tosu o' \<longleftrightarrow> o' = OWindows \<or> o' = OUser \<or> o' = OAppImage"

fun marker :: "install_origin \<Rightarrow> string option" where
  "marker OWindows = Some ''windows''"
| "marker ODeb = Some ''deb''"
| "marker ORpm = Some ''rpm''"
| "marker OAur = Some ''aur''"
| "marker OAppImage = Some ''appimage''"
| "marker OUser = Some ''user''"
| "marker OSource = Some ''source''"
| "marker OUnknown = None"

section \<open>Hashes and signatures\<close>

definition hex_digit :: "nat \<Rightarrow> char" where
  "hex_digit n = (if n < 10 then char_of (48 + n) else char_of (87 + n))"

definition hex_lower :: "string \<Rightarrow> string" where
  "hex_lower bytes = concat (map (\<lambda>b. [hex_digit (byte b div 16), hex_digit (byte b mod 16)]) bytes)"

definition sha256_bytes :: "(string \<Rightarrow> string) \<Rightarrow> string \<Rightarrow> string" where
  "sha256_bytes sha bytes = hex_lower (sha bytes)"

text \<open>
  The expected hash in the error message is lower-cased with \<open>to_lowercase\<close>; on the hex
  digits it consists of, that is the ASCII rule.
\<close>

definition compare_hash :: "string \<Rightarrow> string \<Rightarrow> string \<Rightarrow> (update_error, unit) result" where
  "compare_hash name act expd =
     (if eq_ignore_ascii_case act (trim expd) then Inr ()
      else Inl (HashMismatch name (ascii_lowercase (trim expd)) act))"

definition check_hash_bytes :: "(string \<Rightarrow> string) \<Rightarrow> string \<Rightarrow> string \<Rightarrow> string
    \<Rightarrow> (update_error, unit) result" where
  "check_hash_bytes sha name bytes expd = compare_hash name (sha256_bytes sha bytes) expd"

text \<open>The minisign package: how it reads a key and a signature, and checks one against bytes.\<close>

record ('k, 's) minisign =
  decode_key :: "string \<Rightarrow> 'k option"
  decode_sig :: "string \<Rightarrow> 's option"
  check_sig :: "'k \<Rightarrow> string \<Rightarrow> 's \<Rightarrow> bool"

definition verify_with_key :: "('k, 's) minisign \<Rightarrow> string \<Rightarrow> string \<Rightarrow> string
    \<Rightarrow> (update_error, unit) result" where
  "verify_with_key ms public_key bytes signature =
     (if trim public_key = [] then Inl NoPublicKey
      else (case decode_key ms (trim public_key) of
          None \<Rightarrow> Inl (BadSignature UnusableKey)
        | Some key \<Rightarrow>
            (case decode_sig ms signature of
               None \<Rightarrow> Inl (BadSignature UnreadableSignature)
             | Some sig \<Rightarrow>
                 if check_sig ms key bytes sig then Inr () else Inl (BadSignature NotVerified))))"

text \<open>Each trusted key in turn; the last key's error is the one reported.\<close>

fun verify_with_keys :: "('k, 's) minisign \<Rightarrow> string list \<Rightarrow> update_error \<Rightarrow> string \<Rightarrow> string
    \<Rightarrow> (update_error, unit) result" where
  "verify_with_keys ms [] e bytes signature = Inl e"
| "verify_with_keys ms (k # ks) e bytes signature =
     (case verify_with_key ms k bytes signature of
        Inr _ \<Rightarrow> Inr ()
      | Inl e' \<Rightarrow> verify_with_keys ms ks e' bytes signature)"

definition signing_configured :: "string list \<Rightarrow> bool" where
  "signing_configured trusted_keys \<longleftrightarrow> (\<exists>k \<in> set trusted_keys. trim k \<noteq> [])"

definition verify_manifest_signature :: "('k, 's) minisign \<Rightarrow> string list \<Rightarrow> string \<Rightarrow> string
    \<Rightarrow> (update_error, unit) result" where
  "verify_manifest_signature ms trusted_keys bytes signature =
     verify_with_keys ms trusted_keys NoPublicKey bytes signature"

definition TEST_KEY :: string where
  "TEST_KEY = ''RWTxRYKioocnnW3mtI0eGzkUy0lW+sn6/L+7CJITSv8xWvjdNUnCT/Jv''"

definition TRUSTED_KEYS :: "string list" where
  "TRUSTED_KEYS = [TEST_KEY]"

section \<open>Properties\<close>

text \<open>Only IDLE with the updater switched on lets an update be applied.\<close>

theorem only_idle_allows_update:
  "is_ok (may_update_now mode enabled) \<longleftrightarrow> enabled \<and> mode = Idle"
  by (simp add: may_update_now_def split: runtime_mode.split)

lemma unat_le_8: "unat (min x (8 :: u32)) \<le> 8"
  by (simp add: min_def word_le_nat_alt)

lemma interval_bounds:
  "consecutive_failures s \<noteq> 0 \<Longrightarrow> FIRST_BACKOFF \<le> interval s \<and> interval s \<le> MAX_BACKOFF"
  by (simp add: interval_def FIRST_BACKOFF_def MAX_BACKOFF_def from_secs_def)

lemma sat_add_1_nonzero: "sat_add x (1 :: 'a::len word) \<noteq> 0"
proof
  assume "sat_add x (1 :: 'a word) = 0"
  then have "unat (sat_add x (1 :: 'a word)) = 0" by simp
  moreover have "(2 :: nat) \<le> 2 ^ LENGTH('a)" using self_le_power [of "2 :: nat" "LENGTH('a)"] by simp
  ultimately show False by (simp only: unat_sat_add unat_1)
qed

text \<open>
  A check is never repeated within 15 minutes of a failure or within a day of a success, and
  is always due six hours after a failure, a day after a success, or when the clock moved back.
\<close>

theorem check_cadence:
  "let f = record_failure s t e; g = record_success s t tag' in
    (now < t \<longrightarrow> due_at f now \<and> due_at g now)
    \<and> (t \<le> now \<longrightarrow> now < t + int FIRST_BACKOFF \<longrightarrow> \<not> due_at f now)
    \<and> (t + int MAX_BACKOFF \<le> now \<longrightarrow> due_at f now)
    \<and> (t \<le> now \<longrightarrow> (due_at g now \<longleftrightarrow> t + int DEFAULT_INTERVAL \<le> now))"
proof -
  have "consecutive_failures (record_failure s t e) \<noteq> 0"
    by (simp add: record_failure_def sat_add_1_nonzero)
  from interval_bounds [OF this] have
    b: "FIRST_BACKOFF \<le> interval (record_failure s t e)" "interval (record_failure s t e) \<le> MAX_BACKOFF"
    by auto
  have "due_at (record_failure s t e) now \<longleftrightarrow> now < t \<or> interval (record_failure s t e) \<le> nat (now - t)"
    by (simp add: due_at_def record_failure_def)
  moreover have "due_at (record_success s t tag') now \<longleftrightarrow> now < t \<or> DEFAULT_INTERVAL \<le> nat (now - t)"
    by (simp add: due_at_def record_success_def interval_def)
  ultimately show ?thesis
    using b by (auto simp: Let_def)
qed

text \<open>The wait doubles with every failure until it reaches its cap.\<close>

lemma interval_doubles:
  assumes "consecutive_failures s \<noteq> 0" "consecutive_failures s \<le> 4"
  shows "interval (record_failure s t e) = 2 * interval s"
proof -
  define n where "n = unat (consecutive_failures s)"
  have n: "0 < n" "n \<le> 4"
    using assms by (auto simp: n_def word_le_nat_alt unat_gt_0)
  have s: "consecutive_failures s = of_nat n" by (simp add: n_def)
  from n consider "n = 1" | "n = 2" | "n = 3" | "n = 4" by linarith
  then show ?thesis
    by cases (simp_all add: interval_def record_failure_def s sat_add_def Let_def min_def
        FIRST_BACKOFF_def MAX_BACKOFF_def from_secs_def)
qed

lemma bucket_range: "bucket sha i name v < 100"
  by (simp add: bucket_def Let_def word_less_nat_alt unat_of_nat)

text \<open>
  A rollout is monotone and complete: a version offered at some percentage is offered at
  every higher one, 100 percent and a missing entry reach every install, 0 percent reaches none
  on the stable channel, and the beta channel ignores the percentage.
\<close>

theorem rollout_monotone:
  "(is_offered sha ch name c i \<longrightarrow> rollout_percent c = Some p \<longrightarrow> p \<le> p'
      \<longrightarrow> is_offered sha ch name (c\<lparr>rollout_percent := Some p'\<rparr>) i)
    \<and> is_offered sha ch name (c\<lparr>rollout_percent := Some 100\<rparr>) i
    \<and> is_offered sha ch name (c\<lparr>rollout_percent := None\<rparr>) i
    \<and> (ch \<noteq> BETA \<longrightarrow> \<not> is_offered sha ch name (c\<lparr>rollout_percent := Some 0\<rparr>) i)
    \<and> is_offered sha BETA name c i"
  by (auto simp: is_offered_def split: option.splits)

text \<open>
  The feed an install sees: entries are dropped, never changed, and a rollout that is raised
  only adds entries.
\<close>

lemma for_install_components:
  "components (for_install sha feed i) name = Some c \<longleftrightarrow>
     components feed name = Some c \<and> is_offered sha (channel feed) name c i"
  by (auto simp: for_install_def split: option.split)

lemma ascii_lowercase_idem [simp]: "ascii_lowercase (ascii_lowercase s) = ascii_lowercase s"
  by (auto simp: ascii_lowercase_def to_ascii_lower_def)

text \<open>What the seven markers say is read back, whatever white space or capitals they are
  written with, and nothing else is taken for one of them.\<close>

theorem origin_roundtrip:
  "(marker o' = Some m \<longrightarrow> parse_origin m = o')
    \<and> (parse_origin text = o' \<longrightarrow> o' = OUnknown \<or> marker o' = Some (ascii_lowercase (trim text)))
    \<and> apply_policy (read_origin None) = NotifyOnlyP"
proof -
  have "parse_origin m = o'" if "marker o' = Some m"
    using that by (cases o')
      (auto simp: parse_origin_def printable_def byte_def ascii_lowercase_def to_ascii_lower_def)
  moreover have "o' = OUnknown \<or> marker o' = Some (ascii_lowercase (trim text))"
    if "parse_origin text = o'"
    using that by (auto simp: parse_origin_def Let_def split: if_splits)
  ultimately show ?thesis by (simp add: read_origin_def)
qed

section \<open>Hashes\<close>

lemma hex_digit_inject: "a < 16 \<Longrightarrow> b < 16 \<Longrightarrow> hex_digit a = hex_digit b \<Longrightarrow> a = b"
  by (auto simp: hex_digit_def split: if_splits dest!: arg_cong [where f = byte])

lemma hex_digit_lower: "n < 16 \<Longrightarrow> to_ascii_lower (hex_digit n) = hex_digit n"
  by (auto simp: hex_digit_def to_ascii_lower_def)

lemma hex_lower_inject [simp]: "hex_lower a = hex_lower b \<longleftrightarrow> a = b"
proof
  assume "hex_lower a = hex_lower b"
  then show "a = b"
  proof (induction a arbitrary: b)
    case Nil
    then show ?case by (cases b) (auto simp: hex_lower_def)
  next
    case (Cons x a)
    then obtain y b' where b: "b = y # b'" by (cases b) (auto simp: hex_lower_def)
    with Cons.prems have "hex_digit (byte x div 16) = hex_digit (byte y div 16)"
      "hex_digit (byte x mod 16) = hex_digit (byte y mod 16)" "hex_lower a = hex_lower b'"
      by (auto simp: hex_lower_def)
    then have "byte x div 16 = byte y div 16" "byte x mod 16 = byte y mod 16" "a = b'"
      using hex_digit_inject [of "byte x div 16"] hex_digit_inject [of "byte x mod 16"] Cons.IH
        byte_less_256 [of x] byte_less_256 [of y] by (auto simp: less_mult_imp_div_less)
    then have "byte x = byte y" by (metis div_mult_mod_eq)
    then show ?case using b \<open>a = b'\<close> by simp
  qed
qed simp

lemma hex_lower_lowercase [simp]: "ascii_lowercase (hex_lower bytes) = hex_lower bytes"
proof (induction bytes)
  case (Cons b bytes)
  have "byte b div 16 < 16" using byte_less_256 [of b] by (simp add: less_mult_imp_div_less)
  then show ?case
    using Cons by (simp add: hex_lower_def ascii_lowercase_def hex_digit_lower)
qed (simp add: hex_lower_def ascii_lowercase_def)

lemma check_hash_iff:
  "is_ok (check_hash_bytes sha name bytes expd) \<longleftrightarrow>
     hex_lower (sha bytes) = ascii_lowercase (trim expd)"
  by (auto simp: check_hash_bytes_def compare_hash_def sha256_bytes_def eq_ignore_ascii_case_def)

text \<open>Two artifacts accepted against one hash of the feed have the same digest.\<close>

lemma same_hash_same_digest:
  "is_ok (check_hash_bytes sha n1 b1 h) \<Longrightarrow> is_ok (check_hash_bytes sha n2 b2 h) \<Longrightarrow> sha b1 = sha b2"
  using hex_lower_inject [of "sha b1" "sha b2"] by (simp only: check_hash_iff simp_thms)

text \<open>A signature is accepted only by a key of the list, and with no key nothing is.\<close>

lemma verify_with_keys_ok:
  "is_ok (verify_with_keys ms ks e bytes sig) \<longleftrightarrow>
     (\<exists>k \<in> set ks. is_ok (verify_with_key ms k bytes sig))"
proof (induction ks arbitrary: e)
  case (Cons k ks)
  then show ?case
    by (cases "verify_with_key ms k bytes sig") simp_all
qed simp

lemma verify_with_key_ok:
  "is_ok (verify_with_key ms k bytes sig) \<longleftrightarrow> trim k \<noteq> [] \<and>
     (\<exists>key s. decode_key ms (trim k) = Some key \<and> decode_sig ms sig = Some s \<and> check_sig ms key bytes s)"
  by (auto simp: verify_with_key_def split: option.split)

section \<open>Concrete cases, for the witnesses\<close>

theorem check_cadence_witness:
  "\<not> due_at (record_failure new_schedule 0 Io) (int FIRST_BACKOFF - 1)
    \<and> due_at (record_failure new_schedule 0 Io) (int MAX_BACKOFF)
    \<and> \<not> due_at (record_success new_schedule 0 None) (int FIRST_BACKOFF - 1)"
proof -
  have "0 \<le> int FIRST_BACKOFF - 1" "int FIRST_BACKOFF - 1 < int DEFAULT_INTERVAL" "0 \<le> int MAX_BACKOFF"
    by (simp_all add: FIRST_BACKOFF_def DEFAULT_INTERVAL_def MAX_BACKOFF_def from_secs_def)
  then show ?thesis
    using check_cadence [of new_schedule 0 Io None "int FIRST_BACKOFF - 1"]
      check_cadence [of new_schedule 0 Io None "int MAX_BACKOFF"]
    by (simp add: Let_def)
qed

definition demo_rollout :: "u8 \<Rightarrow> component" where
  "demo_rollout p = \<lparr>version = ''1.2.0'', revision = 0, tag = None, upstream_tag = None,
     release_notes = None, notes_url = None, min_app = None, rollout_percent = Some p, artifacts = []\<rparr>"

text \<open>With a digest of eight bytes 0, the install's bucket is 0.\<close>

theorem rollout_monotone_witness:
  "is_offered (\<lambda>_. replicate 8 (CHR 0x00)) STABLE APP (demo_rollout 10) (Some ''id'')
    \<and> is_offered (\<lambda>_. replicate 8 (CHR 0x00)) STABLE APP (demo_rollout 20) (Some ''id'')"
proof -
  have "from_be_bytes (take 8 (replicate 8 (CHR 0x00))) = 0"
    by (simp add: from_be_bytes_def byte_def numeral_eq_Suc)
  then have ten: "is_offered (\<lambda>_. replicate 8 (CHR 0x00)) STABLE APP (demo_rollout 10) (Some ''id'')"
    by (simp add: is_offered_def demo_rollout_def bucket_def STABLE_def BETA_def)
  moreover have "(demo_rollout 10)\<lparr>rollout_percent := Some 20\<rparr> = demo_rollout 20"
    by (simp add: demo_rollout_def)
  ultimately show ?thesis
    using rollout_monotone [of "\<lambda>_. replicate 8 (CHR 0x00)" STABLE APP "demo_rollout 10" "Some ''id''" 10 20]
    by (simp add: demo_rollout_def)
qed

theorem origin_roundtrip_witness:
  "parse_origin ''deb'' = ODeb \<and> marker (parse_origin ''AUR'') = Some ''aur''"
proof -
  have t: "trim ''AUR'' = ''AUR''" by (rule trim_printable) (simp add: printable_def byte_def)
  have l: "ascii_lowercase ''AUR'' = ''aur''"
    by (simp add: ascii_lowercase_def to_ascii_lower_def byte_def char_of_def bit_0)
  have "parse_origin ''AUR'' = OAur" by (simp add: parse_origin_def t l)
  then show ?thesis
    using origin_roundtrip [of ODeb "''deb''" "''AUR''"] origin_roundtrip [of OAur "''aur''" "''AUR''"]
    by (simp add: t l)
qed

end
