(* ===== verification/Client.thy ===== *)
theory Client
  imports Feed
begin

text \<open>
  Fetching the signed feed and the files it names: \<open>crates/opad-update/src/client.rs\<close> and
  \<open>http.rs\<close>. What the network answers is an argument (one answer per request), and so are
  the JSON reader, the date parser, minisign and SHA-256. The properties: whatever the network
  answers, a feed is only accepted with a signature over the bytes that were parsed, and its
  serial never goes back; an artifact is only handed out if its hash is the one the feed names.
\<close>

section \<open>HTTP\<close>

text \<open>\<open>strip_prefix\<close>, and the text before the first of some separators.\<close>

definition strip_prefix :: "string \<Rightarrow> string \<Rightarrow> string option" where
  "strip_prefix p s = (if take (length p) s = p then Some (drop (length p) s) else None)"

definition before_any :: "string \<Rightarrow> string \<Rightarrow> string" where
  "before_any seps s = takeWhile (\<lambda>c. c \<notin> set seps) s"

definition is_loopback_http :: "string \<Rightarrow> bool" where
  "is_loopback_http u =
     (case strip_prefix ''http://'' u of
        None \<Rightarrow> False
      | Some rest \<Rightarrow>
          let host_port = before_any ''/?#'' rest in
          if CHR ''@'' \<in> set host_port then False
          else let host = (case strip_prefix ''['' host_port of
                             Some v6 \<Rightarrow> before_any '']'' v6
                           | None \<Rightarrow> before_any '':'' host_port)
            in host = ''127.0.0.1'' \<or> host = ''localhost'' \<or> host = ''::1'')"

definition require_https :: "string \<Rightarrow> (update_error, unit) result" where
  "require_https u =
     (if strip_prefix ''https://'' u \<noteq> None \<or> is_loopback_http u then Inr ()
      else Inl (HttpError (NotHttps u)))"

text \<open>What a request is answered with: the transport fails, or a status, headers and chunks
  arrive; a chunk is \<open>None\<close> where the connection breaks.\<close>

record http_response =
  final_url :: string
  status :: nat
  content_length :: "nat option"
  etag_header :: "string option"
  chunks :: "string option list"

datatype fetched = NotModified | Body string "string option"

fun read_capped :: "string option list \<Rightarrow> nat \<Rightarrow> string \<Rightarrow> (update_error, string) result" where
  "read_capped [] max_bytes out = Inr out"
| "read_capped (None # cs) max_bytes out = Inl (HttpError (RequestFailed out))"
| "read_capped (Some c # cs) max_bytes out =
     (if length out + length c > max_bytes then Inl (HttpError BodyTooLarge)
      else read_capped cs max_bytes (out @ c))"

type_synonym network = "string \<Rightarrow> string option \<Rightarrow> http_response option"

definition http_get :: "network \<Rightarrow> string \<Rightarrow> string option \<Rightarrow> nat \<Rightarrow> (update_error, fetched) result" where
  "http_get net u tag' max_bytes =
     and_then (require_https u) (\<lambda>_.
       (case net u tag' of
          None \<Rightarrow> Inl (HttpError (RequestFailed u))
        | Some resp \<Rightarrow>
            and_then (require_https (final_url resp)) (\<lambda>_.
              if status resp = 304 then Inr NotModified
              else if \<not> (200 \<le> status resp \<and> status resp < 300)
              then Inl (HttpError (BadStatus (status resp)))
              else if (case content_length resp of Some len \<Rightarrow> len > max_bytes | None \<Rightarrow> False)
              then Inl (HttpError (TooLarge max_bytes))
              else and_then (read_capped (chunks resp) max_bytes [])
                     (\<lambda>bytes. Inr (Body bytes (etag_header resp))))))"

definition MAX_MANIFEST_BYTES :: nat where "MAX_MANIFEST_BYTES = 1024 * 1024"
definition MAX_ARTIFACT_BYTES :: nat where "MAX_ARTIFACT_BYTES = 512 * 1024 * 1024"

section \<open>Text\<close>

text \<open>\<open>String::from_utf8\<close>: well-formed UTF-8.\<close>

definition tail_byte :: "char \<Rightarrow> bool" where
  "tail_byte c \<longleftrightarrow> 128 \<le> byte c \<and> byte c < 192"

fun utf8_valid :: "string \<Rightarrow> bool" where
  "utf8_valid [] = True"
| "utf8_valid (a # s) =
     (if byte a < 128 then utf8_valid s
      else if 194 \<le> byte a \<and> byte a \<le> 223 then
        (case s of b # s' \<Rightarrow> tail_byte b \<and> utf8_valid s' | _ \<Rightarrow> False)
      else if 224 \<le> byte a \<and> byte a \<le> 239 then
        (case s of b # c # s' \<Rightarrow>
            tail_byte b \<and> tail_byte c \<and> (byte a = 224 \<longrightarrow> 160 \<le> byte b)
            \<and> (byte a = 237 \<longrightarrow> byte b < 160) \<and> utf8_valid s'
          | _ \<Rightarrow> False)
      else if 240 \<le> byte a \<and> byte a \<le> 244 then
        (case s of b # c # d # s' \<Rightarrow>
            tail_byte b \<and> tail_byte c \<and> tail_byte d \<and> (byte a = 240 \<longrightarrow> 144 \<le> byte b)
            \<and> (byte a = 244 \<longrightarrow> byte b < 144) \<and> utf8_valid s'
          | _ \<Rightarrow> False)
      else False)"

section \<open>The client\<close>

text \<open>The packages the client calls.\<close>

record ('k, 's) packages =
  minisign :: "('k, 's) minisign"
  sha :: "string \<Rightarrow> string"
  from_json :: "string \<Rightarrow> release_manifest option"
  from_rfc3339 :: "string \<Rightarrow> int option"

record client =
  manifest_url :: string
  client_channel :: string
  trusted :: "string list"

definition DEFAULT_FEED_BASE :: string where
  "DEFAULT_FEED_BASE = ''https://opad-dev.github.io/OPad/updates/''"

text \<open>\<open>feed_url\<close>, with the two environment variables as they are found.\<close>

definition feed_url :: "string option \<Rightarrow> string option \<Rightarrow> string \<Rightarrow> string" where
  "feed_url opad_manifest_url osupad_manifest_url ch =
     (case opad_manifest_url of
        Some u \<Rightarrow> u
      | None \<Rightarrow> (case osupad_manifest_url of
            Some u \<Rightarrow> u
          | None \<Rightarrow> DEFAULT_FEED_BASE @ ch @ ''.json''))"

definition new_client :: "string option \<Rightarrow> string option \<Rightarrow> string \<Rightarrow> client" where
  "new_client v1 v2 ch =
     \<lparr>manifest_url = feed_url v1 v2 ch, client_channel = ch, trusted = TRUSTED_KEYS\<rparr>"

definition signature_url :: "client \<Rightarrow> string" where
  "signature_url cl = manifest_url cl @ ''.minisig''"

definition conditional_etag :: "check_schedule \<Rightarrow> string \<Rightarrow> bool \<Rightarrow> string option" where
  "conditional_etag s ch have_cached = (if have_cached then etag_for s ch else None)"

definition fetch_manifest_inner :: "('k, 's) packages \<Rightarrow> client \<Rightarrow> network \<Rightarrow> string option
    \<Rightarrow> (update_error, (release_manifest \<times> string option) option) result" where
  "fetch_manifest_inner pk cl net tag' =
     and_then (http_get net (manifest_url cl) tag' MAX_MANIFEST_BYTES) (\<lambda>f.
       (case f of
          NotModified \<Rightarrow> Inr None
        | Body bytes etag' \<Rightarrow>
            and_then (http_get net (signature_url cl) None 4096) (\<lambda>g.
              (case g of
                 NotModified \<Rightarrow> Inl (BadSignature SignatureNotModified)
               | Body signature _ \<Rightarrow>
                   if \<not> utf8_valid signature then Inl (BadSignature SignatureNotText)
                   else and_then (verify_manifest_signature (minisign pk) (trusted cl) bytes signature)
                     (\<lambda>_. case from_json pk bytes of
                            None \<Rightarrow> Inl Malformed
                          | Some m \<Rightarrow>
                              if schema m \<noteq> SUPPORTED_SCHEMA
                              then Inl (UnsupportedSchema (schema m) SUPPORTED_SCHEMA)
                              else Inr (Some (m, etag')))))))"

definition fetch_manifest :: "('k, 's) packages \<Rightarrow> client \<Rightarrow> network \<Rightarrow> check_schedule \<Rightarrow> int \<Rightarrow> bool
    \<Rightarrow> check_schedule \<times> (update_error, release_manifest option) result" where
  "fetch_manifest pk cl net s now have_cached =
     (if \<not> signing_configured (trusted cl) then (record_failure s now NoPublicKey, Inl NoPublicKey)
      else
        let tag' = conditional_etag s (client_channel cl) have_cached;
            r = (case fetch_manifest_inner pk cl net tag' of
                   Inr (Some (feed, etag')) \<Rightarrow>
                     and_then (check_feed (from_rfc3339 pk) feed (client_channel cl) now
                                 (serials s (client_channel cl)))
                       (\<lambda>_. Inr (Some (feed, etag')))
                 | other \<Rightarrow> other)
        in (case r of
              Inr None \<Rightarrow> (record_success s now None, Inr None)
            | Inr (Some (feed, etag')) \<Rightarrow>
                let s1 = record_success (s\<lparr>sched_channel := Some (client_channel cl)\<rparr>) now etag';
                    old = (case serials s1 (client_channel cl) of Some n \<Rightarrow> n | None \<Rightarrow> 0)
                in (s1\<lparr>serials := (serials s1)(client_channel cl \<mapsto> max old (serial feed))\<rparr>, Inr (Some feed))
            | Inl e \<Rightarrow> (record_failure s now e, Inl e)))"

definition fetch_artifact :: "('k, 's) packages \<Rightarrow> network \<Rightarrow> artifact \<Rightarrow> (update_error, string) result" where
  "fetch_artifact pk net a =
     and_then (http_get net (url a) None MAX_ARTIFACT_BYTES) (\<lambda>f.
       (case f of
          NotModified \<Rightarrow> Inl (HttpError UnexpectedNotModified)
        | Body bytes _ \<Rightarrow>
            if (case file_size a of Some expd \<Rightarrow> length bytes \<noteq> unat expd | None \<Rightarrow> False)
            then Inl (HttpError (WrongSize (url a) (the (file_size a)) (length bytes)))
            else and_then (check_hash_bytes (sha pk) (url a) bytes (Feed.sha256 a))
                   (\<lambda>_. Inr bytes)))"

section \<open>What an answer has been checked for\<close>

lemma read_capped_bound:
  "read_capped cs n out = Inr bytes \<Longrightarrow> length out \<le> n \<Longrightarrow> length bytes \<le> n"
  by (induction cs n out rule: read_capped.induct) (auto split: if_splits)

lemma read_capped_content:
  "read_capped cs n out = Inr bytes \<Longrightarrow> bytes = out @ concat (map the cs)"
  by (induction cs n out rule: read_capped.induct) (auto split: if_splits)

lemma http_get_body:
  assumes "http_get net u tag' n = Inr (Body bytes t)"
  shows "length bytes \<le> n \<and> is_ok (require_https u)
    \<and> (\<exists>resp. net u tag' = Some resp \<and> is_ok (require_https (final_url resp))
        \<and> bytes = concat (map the (chunks resp)))"
  using assms read_capped_bound [of _ n "[]"] read_capped_content [of _ n "[]"]
  by (auto simp: http_get_def and_then_Inr split: option.splits if_splits)

text \<open>
  An artifact is only handed out when its bytes hash to what the feed names, have the size it
  names, fit the limit and came over HTTPS or from loopback, at every redirect's end too.
\<close>

theorem fetched_artifact_checked:
  assumes "fetch_artifact pk net a = Inr bytes"
  shows "hex_lower (sha pk bytes) = ascii_lowercase (trim (Feed.sha256 a))
    \<and> (\<forall>n. file_size a = Some n \<longrightarrow> length bytes = unat n)
    \<and> length bytes \<le> MAX_ARTIFACT_BYTES
    \<and> (\<exists>resp. net (url a) None = Some resp \<and> is_ok (require_https (url a))
        \<and> is_ok (require_https (final_url resp)))"
proof -
  from assms obtain t where get: "http_get net (url a) None MAX_ARTIFACT_BYTES = Inr (Body bytes t)"
    and size: "\<not> (case file_size a of Some expd \<Rightarrow> length bytes \<noteq> unat expd | None \<Rightarrow> False)"
    and hash: "check_hash_bytes (sha pk) (url a) bytes (Feed.sha256 a) = Inr ()"
  proof (cases "http_get net (url a) None MAX_ARTIFACT_BYTES")
    case (Inr f)
    with assms show ?thesis
      using that by (cases f) (auto simp: fetch_artifact_def and_then_Inr split: if_splits)
  qed (use assms in \<open>simp add: fetch_artifact_def\<close>)
  from hash have "is_ok (check_hash_bytes (sha pk) (url a) bytes (Feed.sha256 a))" by simp
  then show ?thesis
    using http_get_body [OF get] size by (auto simp: check_hash_iff split: option.splits)
qed

lemma fetch_inner_trusted:
  assumes "fetch_manifest_inner pk cl net tag' = Inr (Some (feed, t))"
  shows "schema feed = SUPPORTED_SCHEMA
    \<and> (\<exists>bytes signature. from_json pk bytes = Some feed
        \<and> (\<exists>k \<in> set (trusted cl). is_ok (verify_with_key (minisign pk) k bytes signature)))"
proof -
  from assms obtain bytes signature where
    "verify_manifest_signature (minisign pk) (trusted cl) bytes signature = Inr ()"
    "from_json pk bytes = Some feed" "schema feed = SUPPORTED_SCHEMA"
  proof (cases "http_get net (manifest_url cl) tag' MAX_MANIFEST_BYTES")
    case (Inr f)
    note feed_answer = this
    show ?thesis
    proof (cases "http_get net (signature_url cl) None 4096")
      case (Inr g)
      with feed_answer assms show ?thesis
        using that by (cases f; cases g)
          (auto simp: fetch_manifest_inner_def and_then_Inr split: if_splits option.splits)
    qed (use feed_answer assms in \<open>cases f; simp add: fetch_manifest_inner_def\<close>)
  qed (use assms in \<open>simp add: fetch_manifest_inner_def\<close>)
  then show ?thesis
    using verify_with_keys_ok [of "minisign pk" "trusted cl" NoPublicKey bytes signature]
    by (auto simp: verify_manifest_signature_def)
qed

lemma check_feed_ok:
  "check_feed parse feed ch now seen = Inr () \<longleftrightarrow>
     channel feed = ch \<and> (\<exists>text e. expires feed = Some text \<and> parse text = Some e \<and> now \<le> e)
     \<and> (\<forall>n. seen = Some n \<longrightarrow> n \<le> serial feed)"
  by (auto simp: check_feed_def split: option.splits)

lemma fetch_manifest_accepts:
  assumes "fetch_manifest pk cl net s now cached = (s', Inr (Some feed))"
  shows "\<exists>t. fetch_manifest_inner pk cl net (conditional_etag s (client_channel cl) cached)
          = Inr (Some (feed, t))"
    and "check_feed (from_rfc3339 pk) feed (client_channel cl) now (serials s (client_channel cl)) = Inr ()"
    and "serials s' = (serials s)(client_channel cl \<mapsto>
          max (case serials s (client_channel cl) of Some n \<Rightarrow> n | None \<Rightarrow> 0) (serial feed))"
  using assms
  by (auto simp: fetch_manifest_def Let_def record_success_def and_then_Inr
      split: if_splits sum.splits option.splits prod.splits)

text \<open>
  C3: whatever the network answers, an accepted feed was parsed from bytes that carry a valid
  signature of a trusted key, is the channel's own, has the supported schema, has not expired,
  and is not older than the highest serial seen.
\<close>

theorem accepted_feed_trusted:
  assumes "fetch_manifest pk cl net s now cached = (s', Inr (Some feed))"
  shows "(\<exists>bytes signature. from_json pk bytes = Some feed
        \<and> (\<exists>k \<in> set (trusted cl). is_ok (verify_with_key (minisign pk) k bytes signature)))
    \<and> schema feed = SUPPORTED_SCHEMA \<and> channel feed = client_channel cl
    \<and> (\<exists>text e. expires feed = Some text \<and> from_rfc3339 pk text = Some e \<and> now \<le> e)
    \<and> (\<forall>n. serials s (client_channel cl) = Some n \<longrightarrow> n \<le> serial feed)"
  using fetch_manifest_accepts [OF assms] fetch_inner_trusted [of pk cl net _ feed]
  by (auto simp: check_feed_ok)

section \<open>A run of checks\<close>

text \<open>One check after the other: what the network answers, when, and whether a feed is cached.\<close>

fun run_checks :: "('k, 's) packages \<Rightarrow> client \<Rightarrow> (network \<times> int \<times> bool) list \<Rightarrow> check_schedule
    \<Rightarrow> release_manifest list \<times> check_schedule" where
  "run_checks pk cl [] s = ([], s)"
| "run_checks pk cl ((net, now, cached) # vs) s =
     (let (s', r) = fetch_manifest pk cl net s now cached;
          (feeds, s'') = run_checks pk cl vs s'
      in (case r of Inr (Some feed) \<Rightarrow> feed # feeds | _ \<Rightarrow> feeds, s''))"

definition serial_seen :: "check_schedule \<Rightarrow> string \<Rightarrow> u64" where
  "serial_seen s ch = (case serials s ch of Some n \<Rightarrow> n | None \<Rightarrow> 0)"

lemma fetch_manifest_serial:
  assumes "fetch_manifest pk cl net s now cached = (s', r)"
  shows "(\<forall>feed. r = Inr (Some feed) \<longrightarrow> serial_seen s (client_channel cl) \<le> serial feed
            \<and> serial_seen s' (client_channel cl) = serial feed)
    \<and> ((\<nexists>feed. r = Inr (Some feed)) \<longrightarrow> serials s' = serials s)
    \<and> (\<forall>ch. ch \<noteq> client_channel cl \<longrightarrow> serials s' ch = serials s ch)"
proof (cases "\<exists>feed. r = Inr (Some feed)")
  case True
  then obtain feed where r: "r = Inr (Some feed)" by blast
  note acc = fetch_manifest_accepts [OF assms [unfolded r]]
  have le: "serial_seen s (client_channel cl) \<le> serial feed"
    using acc(2) by (auto simp: check_feed_ok serial_seen_def split: option.splits)
  then have "serial_seen s' (client_channel cl) = serial feed"
    using acc(3) by (simp add: serial_seen_def max_def)
  then show ?thesis using r le acc(3) by simp
next
  case False
  have "serials s' = serials s"
    using assms False
    by (auto simp: fetch_manifest_def Let_def record_success_def record_failure_def
        split: if_splits sum.splits option.splits prod.splits)
  then show ?thesis using False by simp
qed


section \<open>Concrete runs, for the witnesses\<close>

text \<open>A feed service whose signatures are the bytes reversed, and two feeds it has served.\<close>

definition demo_feed :: "u64 \<Rightarrow> release_manifest" where
  "demo_feed n = \<lparr>schema = 2, channel = STABLE, serial = n, generated = [], expires = Some ''E'',
     components = Map.empty\<rparr>"

definition demo_packages :: "(unit, string) packages" where
  "demo_packages =
     \<lparr>minisign = \<lparr>decode_key = \<lambda>_. Some (), decode_sig = Some, check_sig = \<lambda>_ b s. s = rev b\<rparr>,
      sha = rev,
      from_json = \<lambda>b. if b = ''new'' then Some (demo_feed 9) else if b = ''old'' then Some (demo_feed 5) else None,
      from_rfc3339 = \<lambda>t. if t = ''E'' then Some 1000 else None\<rparr>"

definition demo_client :: client where
  "demo_client = \<lparr>manifest_url = ''https://x/f'', client_channel = STABLE, trusted = [''K'']\<rparr>"

definition demo_answer :: "string \<Rightarrow> http_response" where
  "demo_answer b = \<lparr>final_url = ''https://x/'', status = 200, content_length = None,
     etag_header = None, chunks = [Some b]\<rparr>"

definition demo_network :: "string \<Rightarrow> network" where
  "demo_network body = (\<lambda>u _. if u = ''https://x/f'' then Some (demo_answer body)
     else if u = ''https://x/f.minisig'' then Some (demo_answer (rev body)) else None)"

lemma demo_trim: "trim ''K'' = ''K''"
  by (rule trim_printable) (simp add: printable_def byte_def)

lemma demo_get:
  "length b \<le> n \<Longrightarrow> http_get (demo_network b) ''https://x/f'' t n = Inr (Body b None)"
  "length b \<le> n \<Longrightarrow> http_get (demo_network b) ''https://x/f.minisig'' t n = Inr (Body (rev b) None)"
  by (simp_all add: http_get_def require_https_def strip_prefix_def demo_network_def demo_answer_def)

lemma demo_inner:
  "b = ''new'' \<or> b = ''old'' \<Longrightarrow> fetch_manifest_inner demo_packages demo_client (demo_network b) t
     = Inr (Some (demo_feed (if b = ''new'' then 9 else 5), None))"
  by (auto simp: fetch_manifest_inner_def demo_client_def signature_url_def demo_get
      MAX_MANIFEST_BYTES_def byte_def verify_manifest_signature_def verify_with_key_def demo_trim
      demo_packages_def SUPPORTED_SCHEMA_def demo_feed_def)

lemma demo_fetch_new:
  "fetch_manifest demo_packages demo_client (demo_network ''new'') new_schedule 10 False
     = (new_schedule\<lparr>last_check := Some 10, last_success := Some 10, sched_channel := Some STABLE,
          serials := [STABLE \<mapsto> 9]\<rparr>, Inr (Some (demo_feed 9)))"
  using demo_inner [of "''new''" None]
  by (simp add: fetch_manifest_def demo_client_def signing_configured_def demo_trim
      conditional_etag_def check_feed_def demo_feed_def demo_packages_def new_schedule_def
      record_success_def Let_def)

theorem accepted_feed_trusted_witness:
  "\<exists>bytes signature. from_json demo_packages bytes = Some (demo_feed 9)
     \<and> (\<exists>k \<in> set (trusted demo_client). is_ok (verify_with_key (minisign demo_packages) k bytes signature))"
  using accepted_feed_trusted [OF demo_fetch_new] by blast

theorem fetched_artifact_checked_witness:
  "fetch_artifact demo_packages (demo_network ''AB'') \<lparr>target = [], kind = Binary, url = ''https://x/f'',
       sha256 = ''4241'', file_size = Some 2, board = None\<rparr> = Inr ''AB''
    \<and> hex_lower (sha demo_packages ''AB'') = ascii_lowercase (trim ''4241'')"
proof -
  have t: "trim ''4241'' = ''4241''" by (rule trim_printable) (simp add: printable_def byte_def)
  have "fetch_artifact demo_packages (demo_network ''AB'') \<lparr>target = [], kind = Binary,
       url = ''https://x/f'', sha256 = ''4241'', file_size = Some 2, board = None\<rparr> = Inr ''AB''"
    by (simp add: fetch_artifact_def demo_get MAX_ARTIFACT_BYTES_def check_hash_bytes_def
        compare_hash_def t sha256_bytes_def demo_packages_def hex_lower_def byte_def hex_digit_def
        eq_ignore_ascii_case_def ascii_lowercase_def to_ascii_lower_def char_of_def bit_0)
  from this fetched_artifact_checked [OF this] show ?thesis by simp
qed


end
