(* ===== verification/Plans.thy ===== *)
theory Plans
  imports Feed
begin

text \<open>
  The three planners, which turn a verified feed and what is installed into one action:
  \<open>crates/opad-update/src/app.rs\<close>, \<open>firmware.rs\<close> and the decision half of
  \<open>tosu.rs\<close>. They share their promises: nothing that is not newer is offered, nothing is
  offered as applicable unless the gate is open, and an install whose files belong to a package
  manager is only told.
\<close>

section \<open>The app\<close>

datatype app_action =
    AppUpToDate string
  | AppNotifyOnly string "string option"
  | AppDefer defer_reason
  | AppAvailable (app_installed: string) (app_available: string) "string option"
      (app_artifact: artifact) (app_policy: update_policy)

fun wanted_kind :: "update_policy \<Rightarrow> install_origin \<Rightarrow> artifact_kind option" where
  "wanted_kind PInstaller origin = Some Installer"
| "wanted_kind (PPackageManager Apt) origin = Some Deb"
| "wanted_kind (PPackageManager Dnf) origin = Some Rpm"
| "wanted_kind DirectReplace origin = (if origin = OAppImage then Some Binary else Some Archive)"
| "wanted_kind NotifyOnlyP origin = None"

definition app_plan :: "release_manifest \<Rightarrow> string \<Rightarrow> install_origin \<Rightarrow> string
    \<Rightarrow> (defer_reason, unit) result \<Rightarrow> (update_error, app_action) result" where
  "app_plan manifest installed_version origin tgt gate =
     (case components manifest APP of
        None \<Rightarrow> Inr (AppUpToDate installed_version)
      | Some c \<Rightarrow>
          if \<not> is_newer (version c) installed_version then Inr (AppUpToDate installed_version)
          else let policy = apply_policy origin in
            if policy = NotifyOnlyP then Inr (AppNotifyOnly (version c) (release_notes c))
            else (case gate of
                Inl reason \<Rightarrow> Inr (AppDefer reason)
              | Inr _ \<Rightarrow>
                  (case artifact_for manifest APP tgt (wanted_kind policy origin) of
                     None \<Rightarrow> Inl (NoArtifact APP ''this platform and packaging'')
                   | Some a \<Rightarrow>
                       Inr (AppAvailable installed_version (version c) (release_notes c) a policy))))"

fun apply_command :: "update_policy \<Rightarrow> string \<Rightarrow> string list option" where
  "apply_command PInstaller path = Some [path, ''/SILENT'', ''/NORESTART'', ''/RELAUNCH=1'']"
| "apply_command (PPackageManager Apt) path =
     Some [''pkexec'', ''apt-get'', ''install'', ''-y'', path]"
| "apply_command (PPackageManager Dnf) path =
     Some [''pkexec'', ''dnf'', ''install'', ''-y'', path]"
| "apply_command DirectReplace path = None"
| "apply_command NotifyOnlyP path = None"

definition APT_SOURCES :: "string list" where
  "APT_SOURCES = [''/etc/apt/sources.list.d/opad.sources'', ''/etc/apt/sources.list.d/opad.list'']"

definition DNF_REPOS :: "string list" where
  "DNF_REPOS = [''/etc/yum.repos.d/opad.repo'']"

definition repo_configured :: "(string \<Rightarrow> bool) \<Rightarrow> package_manager \<Rightarrow> bool" where
  "repo_configured exists pm \<longleftrightarrow>
     list_ex exists (case pm of Apt \<Rightarrow> APT_SOURCES | Dnf \<Rightarrow> DNF_REPOS)"

definition repo_upgrade_commands :: "package_manager \<Rightarrow> bool \<Rightarrow> string list list" where
  "repo_upgrade_commands pm packagekit =
     (if packagekit then [[''pkcon'', ''refresh''], [''pkcon'', ''-y'', ''update'', ''opad'']]
      else (case pm of
          Apt \<Rightarrow> [[''pkexec'', ''/bin/sh'', ''-c'',
                   ''apt-get update && apt-get install --only-upgrade -y opad'']]
        | Dnf \<Rightarrow> [[''pkexec'', ''dnf'', ''upgrade'', ''-y'', ''--refresh'', ''opad'']]))"

section \<open>The firmware\<close>

datatype firmware_action =
    FwUnknown
  | FwUpToDate string
  | FwDefer defer_reason
  | FwNeedsNewerApp string string
  | FwAvailable (fw_installed: string) (fw_available: string) "string option" (fw_artifact: artifact)

datatype blocker =
    NotConnected
  | NotIdle defer_reason
  | CountersNotSynced
  | NoConsent
  | NoStorage
  | NeedsFullReflash

record preconditions =
  connected :: bool
  gate :: "(defer_reason, unit) result"
  counters_synced :: bool
  storage_available :: bool
  consented :: bool
  running_from_ota_0 :: bool

definition FIRMWARE_TARGET :: string where "FIRMWARE_TARGET = ''esp32s3''"
definition FIRMWARE_BOARD :: string where "FIRMWARE_BOARD = ''waveshare_esp32s3_touch_lcd_2''"
definition TYPICAL_OUTAGE_SECONDS :: nat where "TYPICAL_OUTAGE_SECONDS = 30"

definition is_ota_0 :: "string option \<Rightarrow> bool" where
  "is_ota_0 running_partition \<longleftrightarrow> running_partition = Some ''ota_0''"

definition blockers :: "preconditions \<Rightarrow> blocker list" where
  "blockers p =
     (if \<not> connected p then [NotConnected]
      else if \<not> running_from_ota_0 p then [NeedsFullReflash] else [])
     @ (case gate p of Inl reason \<Rightarrow> [NotIdle reason] | Inr _ \<Rightarrow> [])
     @ (if \<not> storage_available p then [NoStorage]
        else if \<not> counters_synced p then [CountersNotSynced] else [])
     @ (if \<not> consented p then [NoConsent] else [])"

text \<open>\<open>map(trim).filter(not empty)\<close>.\<close>

definition trimmed :: "string option \<Rightarrow> string option" where
  "trimmed s = (case s of None \<Rightarrow> None | Some v \<Rightarrow> if trim v = [] then None else Some (trim v))"

definition firmware_plan :: "release_manifest \<Rightarrow> string option \<Rightarrow> string option \<Rightarrow> string
    \<Rightarrow> (defer_reason, unit) result \<Rightarrow> (update_error, firmware_action) result" where
  "firmware_plan manifest installed pad_board app_version gt =
     (case trimmed installed of
        None \<Rightarrow> Inr FwUnknown
      | Some inst \<Rightarrow>
         (case components manifest FIRMWARE of
            None \<Rightarrow> Inr (FwUpToDate inst)
          | Some c \<Rightarrow>
              if \<not> is_newer (version c) inst then Inr (FwUpToDate inst)
              else if (case min_app c of Some m \<Rightarrow> is_newer m app_version | None \<Rightarrow> False)
              then Inr (FwNeedsNewerApp (version c) (the (min_app c)))
              else (case gt of
                  Inl reason \<Rightarrow> Inr (FwDefer reason)
                | Inr _ \<Rightarrow>
                    (case find (\<lambda>a. target a = FIRMWARE_TARGET \<and> kind a = Firmware
                            \<and> (case (board a, trimmed pad_board) of
                                 (Some wanted, Some pad) \<Rightarrow> wanted = pad
                               | _ \<Rightarrow> True)) (artifacts c) of
                       None \<Rightarrow> Inl (NoArtifact FIRMWARE ''this pad's chip and board'')
                     | Some a \<Rightarrow> Inr (FwAvailable inst (version c) (release_notes c) a)))))"

section \<open>tosu\<close>

datatype tosu_action =
    TosuUpToDate string
  | TosuNotifyOnly string string
  | TosuDefer defer_reason
  | TosuInstall (tosu_from: string) (tosu_to: string) (tosu_revision: u32) (tosu_artifact: artifact)

definition is_newer_build :: "component \<Rightarrow> string \<Rightarrow> u32 \<Rightarrow> bool" where
  "is_newer_build c installed installed_revision =
     (if is_newer (version c) installed then True
      else let same_version = (\<not> is_newer installed (version c)) in
        same_version \<and> revision c > installed_revision)"

definition tosu_plan :: "release_manifest \<Rightarrow> string option \<Rightarrow> u32 \<Rightarrow> install_origin \<Rightarrow> string
    \<Rightarrow> (defer_reason, unit) result \<Rightarrow> (update_error, tosu_action) result" where
  "tosu_plan manifest installed0 installed_revision origin tgt gt =
     (let installed = trim (case installed0 of Some v \<Rightarrow> v | None \<Rightarrow> []) in
      (case components manifest TOSU of
         None \<Rightarrow> Inr (TosuUpToDate installed)
       | Some c \<Rightarrow>
           if installed \<noteq> [] \<and> \<not> is_newer_build c installed installed_revision
           then Inr (TosuUpToDate installed)
           else if \<not> owns_bundled_tosu origin then Inr (TosuNotifyOnly installed (version c))
           else (case gt of
               Inl reason \<Rightarrow> Inr (TosuDefer reason)
             | Inr _ \<Rightarrow>
                 (case artifact_for manifest TOSU tgt None of
                    None \<Rightarrow> Inl (NoArtifact TOSU ''this platform'')
                  | Some a \<Rightarrow> Inr (TosuInstall installed (version c) (revision c) a)))))"

section \<open>Properties\<close>

lemma artifact_for_SomeD:
  "artifact_for m name tgt k = Some a \<Longrightarrow>
    (\<exists>c. components m name = Some c \<and> a \<in> set (artifacts c)) \<and> target a = tgt
    \<and> (\<forall>k'. k = Some k' \<longrightarrow> kind a = k')"
  by (auto simp: artifact_for_def dest!: find_SomeD split: option.splits)

text \<open>
  An app update is only offered for installing when the feed's version is newer than the one
  installed, the gate is open, the install may be changed by us, and the file is the one for this
  machine and this packaging, named by the feed.
\<close>

theorem app_offer_sound:
  "app_plan m inst origin tgt gt = Inr (AppAvailable from to n a policy) \<longleftrightarrow>
     from = inst \<and> is_ok gt \<and> policy = apply_policy origin \<and> policy \<noteq> NotifyOnlyP
     \<and> (\<exists>c. components m APP = Some c \<and> to = version c \<and> n = release_notes c \<and> is_newer to inst)
     \<and> artifact_for m APP tgt (wanted_kind policy origin) = Some a"
  by (cases gt) (auto simp: app_plan_def Let_def split: option.splits)

text \<open>What is offered has a command to apply it exactly when it is not replaced directly.\<close>

lemma apply_command_total:
  "apply_command policy path \<noteq> None \<longleftrightarrow> policy \<noteq> DirectReplace \<and> policy \<noteq> NotifyOnlyP"
  by (induction policy path rule: apply_command.induct) auto

text \<open>
  A flash may start exactly when every precondition holds, whatever the combination; anything
  else is named by at least one blocker.
\<close>

theorem no_blockers_iff_ready:
  "blockers p = [] \<longleftrightarrow> connected p \<and> running_from_ota_0 p \<and> gate p = Inr ()
     \<and> storage_available p \<and> counters_synced p \<and> consented p"
  by (cases "gate p") (auto simp: blockers_def)

text \<open>
  A firmware image is only offered to a pad that says what it runs, is newer than that, can be
  driven by this app, and is for the pad's chip and board; the gate must be open. A board name is
  only ignored when one of the two sides names none.
\<close>

theorem firmware_offer_sound:
  assumes "firmware_plan m inst brd app gt = Inr (FwAvailable from to n a)"
  shows "(\<exists>v. inst = Some v \<and> from = trim v \<and> from \<noteq> [])
    \<and> is_newer to from \<and> \<not> is_newer from to \<and> is_ok gt
    \<and> target a = FIRMWARE_TARGET \<and> kind a = Firmware
    \<and> (\<forall>wanted pad. board a = Some wanted \<longrightarrow> trimmed brd = Some pad \<longrightarrow> wanted = pad)
    \<and> (\<exists>c. components m FIRMWARE = Some c \<and> to = version c \<and> a \<in> set (artifacts c)
        \<and> (\<forall>v. min_app c = Some v \<longrightarrow> \<not> is_newer v app))"
proof -
  have "\<not> is_newer y x" if "is_newer x y" for x y
    using that versions.not_both_greater [of x y] by (simp add: is_newer_def)
  then show ?thesis
    using assms by (cases gt)
      (auto simp: firmware_plan_def trimmed_def split: option.splits if_splits dest!: find_SomeD)
qed

text \<open>The order of builds is strict: no two are newer than each other.\<close>

lemma is_newer_build_asym:
  "is_newer_build c (version d) (revision d) \<Longrightarrow> \<not> is_newer_build d (version c) (revision c)"
proof -
  have "\<not> (is_newer (version c) (version d) \<and> is_newer (version d) (version c))"
    using versions.not_both_greater by (auto simp: is_newer_def)
  then show "is_newer_build c (version d) (revision d) \<Longrightarrow> \<not> is_newer_build d (version c) (revision c)"
    by (auto simp: is_newer_build_def)
qed

text \<open>
  Tosu is only replaced where OPad owns the file, with the gate open, by a strictly newer
  version or a higher revision of the same one (or when none is recorded).
\<close>

theorem tosu_install_sound:
  assumes "tosu_plan m inst rev0 origin tgt gt = Inr (TosuInstall from to r a)"
  shows "owns_bundled_tosu origin \<and> is_ok gt \<and> artifact_for m TOSU tgt None = Some a
    \<and> (\<exists>c. components m TOSU = Some c \<and> to = version c \<and> r = revision c
        \<and> (from = [] \<or> is_newer_build c from rev0))
    \<and> (from \<noteq> [] \<longrightarrow> \<not> is_newer from to)"
proof -
  from assms obtain c where c: "components m TOSU = Some c" "to = version c" "r = revision c"
    "from = [] \<or> is_newer_build c from rev0" "owns_bundled_tosu origin" "is_ok gt"
    "artifact_for m TOSU tgt None = Some a"
    by (cases gt) (auto simp: tosu_plan_def Let_def split: option.splits if_splits)
  moreover have "\<not> is_newer from to" if "is_newer_build c from rev0"
    using that c(2) versions.not_both_greater [of to "from"]
    by (auto simp: is_newer_build_def is_newer_def split: if_splits)
  ultimately show ?thesis by auto
qed

section \<open>Concrete plans, for the witnesses\<close>

definition demo_artifact :: "string \<Rightarrow> artifact_kind \<Rightarrow> artifact" where
  "demo_artifact tgt k = \<lparr>target = tgt, kind = k, url = ''https://x/a'', sha256 = [],
     file_size = None, board = Some FIRMWARE_BOARD\<rparr>"

definition demo_component :: "string \<Rightarrow> artifact \<Rightarrow> component" where
  "demo_component v a = \<lparr>version = v, revision = 1, tag = None, upstream_tag = None,
     release_notes = None, notes_url = None, min_app = None, rollout_percent = None, artifacts = [a]\<rparr>"

definition demo_manifest :: "string \<Rightarrow> component \<Rightarrow> release_manifest" where
  "demo_manifest name c = \<lparr>schema = 2, channel = STABLE, serial = 1, generated = [], expires = None,
     components = [name \<mapsto> c]\<rparr>"

lemma demo_newer: "is_newer ''1.0.0'' ''v1-rc9''" and demo_trims: "trim ''v1-rc9'' = ''v1-rc9''"
  "trim FIRMWARE_BOARD = FIRMWARE_BOARD" "FIRMWARE_BOARD \<noteq> []"
  by (simp_all add: compare_simps FIRMWARE_BOARD_def)

theorem firmware_offer_sound_witness:
  "firmware_plan (demo_manifest FIRMWARE (demo_component ''1.0.0'' (demo_artifact FIRMWARE_TARGET Firmware)))
      (Some ''v1-rc9'') (Some FIRMWARE_BOARD) ''1.0.0'' (Inr ())
     = Inr (FwAvailable ''v1-rc9'' ''1.0.0'' None (demo_artifact FIRMWARE_TARGET Firmware))
    \<and> \<not> is_newer ''v1-rc9'' ''1.0.0''"
proof -
  have "firmware_plan (demo_manifest FIRMWARE (demo_component ''1.0.0'' (demo_artifact FIRMWARE_TARGET Firmware)))
      (Some ''v1-rc9'') (Some FIRMWARE_BOARD) ''1.0.0'' (Inr ())
     = Inr (FwAvailable ''v1-rc9'' ''1.0.0'' None (demo_artifact FIRMWARE_TARGET Firmware))"
    by (simp add: firmware_plan_def trimmed_def demo_manifest_def demo_component_def
        demo_artifact_def demo_newer demo_trims)
  from this firmware_offer_sound [OF this] show ?thesis by blast
qed

theorem tosu_install_sound_witness:
  "tosu_plan (demo_manifest TOSU (demo_component ''1.0.0'' (demo_artifact ''linux-x86_64'' Binary)))
      (Some ''v1-rc9'') 0 OUser ''linux-x86_64'' (Inr ())
     = Inr (TosuInstall ''v1-rc9'' ''1.0.0'' 1 (demo_artifact ''linux-x86_64'' Binary))
    \<and> \<not> is_newer ''v1-rc9'' ''1.0.0''"
proof -
  have "tosu_plan (demo_manifest TOSU (demo_component ''1.0.0'' (demo_artifact ''linux-x86_64'' Binary)))
      (Some ''v1-rc9'') 0 OUser ''linux-x86_64'' (Inr ())
     = Inr (TosuInstall ''v1-rc9'' ''1.0.0'' 1 (demo_artifact ''linux-x86_64'' Binary))"
    by (simp add: tosu_plan_def demo_manifest_def demo_component_def demo_artifact_def demo_newer
        demo_trims is_newer_build_def owns_bundled_tosu_def artifact_for_def)
  from this tosu_install_sound [OF this] show ?thesis by blast
qed

end
