(* ===== verification/Install.thy ===== *)
theory Install
  imports Plans
begin

text \<open>
  Replacing files without ever leaving a broken one: \<open>crates/opad-update/src/download.rs\<close> and
  the installing half of \<open>tosu.rs\<close>, on an explicit file system. Every operation on it is
  one step, bytes are written one at a time, each step may fail (the \<open>faults\<close> say which
  ones do), and the \<open>trail\<close> records the files after every step: a process killed at any
  moment leaves one of those states. The lemmas are triples with a crash condition: what holds
  of every state on the trail, of the state after success, and of the state after an error.
\<close>

section \<open>The file system\<close>

text \<open>A path is its directory and its file name.\<close>

type_synonym path = "string \<times> string"
type_synonym files = "path \<Rightarrow> string option"

datatype fs_op =
    MakeDir string
  | Create path
  | Append path char
  | SyncFile path
  | ReadFile path
  | Chmod path
  | Rename path path
  | RemoveFile path
  | SyncDir string

record disk =
  files :: files
  faults :: "bool list"
  trail :: "files list"

fun apply_op :: "fs_op \<Rightarrow> files \<Rightarrow> files" where
  "apply_op (Create p) f = f(p := Some [])"
| "apply_op (Append p c) f = f(p := map_option (\<lambda>s. s @ [c]) (f p))"
| "apply_op (Rename p q) f = f(q := f p, p := None)"
| "apply_op (RemoveFile p) f = f(p := None)"
| "apply_op _ f = f"

fun possible :: "fs_op \<Rightarrow> files \<Rightarrow> bool" where
  "possible (Rename p q) f \<longleftrightarrow> f p \<noteq> None"
| "possible (RemoveFile p) f \<longleftrightarrow> f p \<noteq> None"
| "possible (ReadFile p) f \<longleftrightarrow> f p \<noteq> None"
| "possible (Chmod p) f \<longleftrightarrow> f p \<noteq> None"
| "possible _ f \<longleftrightarrow> True"

type_synonym 'a io = "disk \<Rightarrow> (update_error, 'a) result \<times> disk"

definition step :: "fs_op \<Rightarrow> unit io" where
  "step op d =
     (let fault = (case faults d of b # _ \<Rightarrow> b | [] \<Rightarrow> False);
          d1 = d\<lparr>faults := tl (faults d)\<rparr>
      in if fault \<or> \<not> possible op (files d) then (Inl Io, d1)
         else let f = apply_op op (files d) in (Inr (), d1\<lparr>files := f, trail := trail d @ [f]\<rparr>))"

definition io_bind :: "'a io \<Rightarrow> ('a \<Rightarrow> 'b io) \<Rightarrow> 'b io" where
  "io_bind m k d = (case m d of (Inl e, d') \<Rightarrow> (Inl e, d') | (Inr a, d') \<Rightarrow> k a d')"

text \<open>\<open>let _ = \<dots>\<close>: the result is dropped. And cleaning up after an error, which is then returned.\<close>

definition ignore_result :: "'a io \<Rightarrow> unit io" where
  "ignore_result m d = (Inr (), snd (m d))"

definition on_error :: "'a io \<Rightarrow> unit io \<Rightarrow> 'a io" where
  "on_error m cleanup d =
     (case m d of (Inl e, d') \<Rightarrow> (Inl e, snd (cleanup d')) | (Inr a, d') \<Rightarrow> (Inr a, d'))"

section \<open>The operations\<close>

definition incoming_path :: "path \<Rightarrow> path" where
  "incoming_path t = (fst t, CHR ''.'' # snd t @ ''.incoming'')"

fun append_all :: "path \<Rightarrow> string \<Rightarrow> unit io" where
  "append_all p [] = (\<lambda>d. (Inr (), d))"
| "append_all p (c # cs) = io_bind (step (Append p c)) (\<lambda>_. append_all p cs)"

definition write_synced :: "path \<Rightarrow> string \<Rightarrow> unit io" where
  "write_synced p bytes =
     io_bind (step (Create p)) (\<lambda>_. io_bind (append_all p bytes) (\<lambda>_. step (SyncFile p)))"

definition sync_parent :: "path \<Rightarrow> unit io" where
  "sync_parent t = ignore_result (step (SyncDir (fst t)))"

definition write_atomic :: "path \<Rightarrow> string \<Rightarrow> unit io" where
  "write_atomic t bytes =
     io_bind (step (MakeDir (fst t))) (\<lambda>_.
       let tmp = incoming_path t in
       io_bind (on_error (io_bind (write_synced tmp bytes) (\<lambda>_. step (Rename tmp t)))
                  (ignore_result (step (RemoveFile tmp))))
         (\<lambda>_. sync_parent t))"

text \<open>
  A staged file is dropped, and so removed, by every error after its creation. \<open>check_hash\<close>
  reads the file back.
\<close>

definition check_file_hash :: "(string \<Rightarrow> string) \<Rightarrow> string \<Rightarrow> path \<Rightarrow> string \<Rightarrow> unit io" where
  "check_file_hash sha name p expd =
     io_bind (step (ReadFile p)) (\<lambda>_. \<lambda>d.
       (check_hash_bytes sha name (the (files d p)) expd, d))"

definition stage_bytes :: "(string \<Rightarrow> string) \<Rightarrow> path \<Rightarrow> string \<Rightarrow> string \<Rightarrow> string \<Rightarrow> path io" where
  "stage_bytes sha t bytes expd name =
     io_bind (step (MakeDir (fst t))) (\<lambda>_.
       let tmp = incoming_path t in
       on_error (io_bind (write_synced tmp bytes)
                  (\<lambda>_. io_bind (check_file_hash sha name tmp expd) (\<lambda>_. \<lambda>d. (Inr tmp, d))))
         (ignore_result (step (RemoveFile tmp))))"

definition install_to :: "path \<Rightarrow> path \<Rightarrow> unit io" where
  "install_to staged t =
     io_bind (on_error (io_bind (step (Chmod staged)) (\<lambda>_. step (Rename staged t)))
                (ignore_result (step (RemoveFile staged))))
       (\<lambda>_. sync_parent t)"

definition VERSION_FILE :: string where "VERSION_FILE = ''VERSION''"
definition NOTICE_FILE :: string where "NOTICE_FILE = ''NOTICE''"
definition REVISION_FILE :: string where "REVISION_FILE = ''REVISION''"

definition newline :: string where "newline = [CHR 0x0A]"

definition notice_text :: "string \<Rightarrow> string option \<Rightarrow> string \<Rightarrow> string" where
  "notice_text ver upstream u =
     concat (map (\<lambda>l. l @ newline)
       [''tosu'', ''===='', [],
        ''This copy of tosu is redistributed with OPad.'', [],
        ''Project:   tosu (https://github.com/tosuapp/tosu)'',
        ''Author:    Mikhail Babynichev and the tosu contributors'',
        ''License:   GNU Lesser General Public License v3.0'',
        ''Version:   '' @ ver,
        ''Upstream:  '' @ (case upstream of Some t \<Rightarrow> t | None \<Rightarrow> ver),
        ''Obtained:  '' @ u, [],
        ''The full licence text is in LICENSE next to this file.'', [],
        ''Corresponding source for this exact version is published alongside the'',
        ''OPad release this binary came from, under the upstream tag above.'', [],
        ''LGPL-3.0 gives you the right to replace this component with your own'',
        ''build. OPad supports that directly: set $OPAD_TOSU_PATH, or point'',
        ''the app at your own tosu in Settings. A tosu found that way is used as'',
        ''is and is never updated or overwritten by OPad.''])"

definition install_tosu :: "(string \<Rightarrow> string) \<Rightarrow> string \<Rightarrow> string \<Rightarrow> string \<Rightarrow> artifact \<Rightarrow> string \<Rightarrow> u32
    \<Rightarrow> string option \<Rightarrow> unit io" where
  "install_tosu sha tosu_binary dir bytes a ver r upstream =
     io_bind (stage_bytes sha (dir, tosu_binary) bytes (Feed.sha256 a) ''tosu'') (\<lambda>staged.
     io_bind (install_to staged (dir, tosu_binary)) (\<lambda>_.
     io_bind (write_atomic (dir, NOTICE_FILE) (notice_text ver upstream (url a))) (\<lambda>_.
     io_bind (write_atomic (dir, REVISION_FILE) (dec_digits (unat r) @ newline)) (\<lambda>_.
       write_atomic (dir, VERSION_FILE) (ver @ newline)))))"

definition installed_version :: "files \<Rightarrow> string \<Rightarrow> string option" where
  "installed_version f dir = trimmed (f (dir, VERSION_FILE))"

definition installed_revision :: "files \<Rightarrow> string \<Rightarrow> u32" where
  "installed_revision f dir =
     (case f (dir, REVISION_FILE) of
        None \<Rightarrow> 0
      | Some text \<Rightarrow> (case parse_uint 32 (trim text) of Some n \<Rightarrow> of_nat n | None \<Rightarrow> 0))"

section \<open>Triples with a crash condition\<close>

definition triple :: "(files \<Rightarrow> bool) \<Rightarrow> (files \<Rightarrow> bool) \<Rightarrow> 'a io \<Rightarrow> ('a \<Rightarrow> files \<Rightarrow> bool)
    \<Rightarrow> (files \<Rightarrow> bool) \<Rightarrow> bool" where
  "triple I P m Q E \<longleftrightarrow>
     (\<forall>d. P (files d) \<longrightarrow> (\<forall>f \<in> set (trail d). I f) \<longrightarrow>
        (\<forall>f \<in> set (trail (snd (m d))). I f)
        \<and> (case fst (m d) of Inr a \<Rightarrow> Q a (files (snd (m d))) | Inl _ \<Rightarrow> E (files (snd (m d)))))"

lemma triple_step:
  assumes "\<And>f. P f \<Longrightarrow> possible op f \<Longrightarrow> I (apply_op op f) \<and> Q () (apply_op op f)"
    and "\<And>f. P f \<Longrightarrow> E f"
  shows "triple I P (step op) Q E"
  using assms by (auto simp: triple_def step_def Let_def)

lemma triple_bind:
  assumes "triple I P m R E" and "\<And>a. triple I (R a) (k a) Q E"
  shows "triple I P (io_bind m k) Q E"
  unfolding triple_def
proof (intro allI impI)
  fix d :: disk
  assume "P (files d)" "\<forall>f \<in> set (trail d). I f"
  with assms(1) have m: "\<forall>f \<in> set (trail (snd (m d))). I f"
    "case fst (m d) of Inr a \<Rightarrow> R a (files (snd (m d))) | Inl _ \<Rightarrow> E (files (snd (m d)))"
    unfolding triple_def by blast+
  show "(\<forall>f \<in> set (trail (snd (io_bind m k d))). I f) \<and> (case fst (io_bind m k d) of
      Inr a \<Rightarrow> Q a (files (snd (io_bind m k d))) | Inl _ \<Rightarrow> E (files (snd (io_bind m k d))))"
  proof (cases "fst (m d)")
    case (Inl e)
    with m show ?thesis by (simp add: io_bind_def case_prod_beta)
  next
    case (Inr a)
    with m have "R a (files (snd (m d)))" by simp
    with assms(2) [of a] m(1) have "(\<forall>f \<in> set (trail (snd (k a (snd (m d))))). I f) \<and>
        (case fst (k a (snd (m d))) of Inr b \<Rightarrow> Q b (files (snd (k a (snd (m d)))))
         | Inl _ \<Rightarrow> E (files (snd (k a (snd (m d))))))"
      unfolding triple_def by blast
    with Inr show ?thesis
      by (cases "fst (k a (snd (m d)))") (simp_all add: io_bind_def case_prod_beta)
  qed
qed

lemma triple_ignore:
  assumes "triple I P m (\<lambda>_. Q) Q" shows "triple I P (ignore_result m) (\<lambda>_. Q) E"
  unfolding triple_def
proof (intro allI impI)
  fix d :: disk
  assume "P (files d)" "\<forall>f \<in> set (trail d). I f"
  with assms have "\<forall>f \<in> set (trail (snd (m d))). I f"
    "case fst (m d) of Inr a \<Rightarrow> Q (files (snd (m d))) | Inl _ \<Rightarrow> Q (files (snd (m d)))"
    unfolding triple_def by blast+
  then show "(\<forall>f \<in> set (trail (snd (ignore_result m d))). I f) \<and> (case fst (ignore_result m d) of
      Inr a \<Rightarrow> Q (files (snd (ignore_result m d))) | Inl _ \<Rightarrow> E (files (snd (ignore_result m d))))"
    by (cases "fst (m d)") (simp_all add: ignore_result_def)
qed

lemma triple_on_error:
  assumes "triple I P m Q R" and "triple I R c (\<lambda>_. E) E"
  shows "triple I P (on_error m c) Q E"
  unfolding triple_def
proof (intro allI impI)
  fix d :: disk
  assume "P (files d)" "\<forall>f \<in> set (trail d). I f"
  with assms(1) have m: "\<forall>f \<in> set (trail (snd (m d))). I f"
    "case fst (m d) of Inr a \<Rightarrow> Q a (files (snd (m d))) | Inl _ \<Rightarrow> R (files (snd (m d)))"
    unfolding triple_def by blast+
  show "(\<forall>f \<in> set (trail (snd (on_error m c d))). I f) \<and> (case fst (on_error m c d) of
      Inr a \<Rightarrow> Q a (files (snd (on_error m c d))) | Inl _ \<Rightarrow> E (files (snd (on_error m c d))))"
  proof (cases "fst (m d)")
    case (Inl e)
    with m have "R (files (snd (m d)))" by simp
    with assms(2) m(1) have "\<forall>f \<in> set (trail (snd (c (snd (m d))))). I f"
      "case fst (c (snd (m d))) of Inr _ \<Rightarrow> E (files (snd (c (snd (m d)))))
        | Inl _ \<Rightarrow> E (files (snd (c (snd (m d)))))"
      unfolding triple_def by blast+
    with Inl show ?thesis by (cases "fst (c (snd (m d)))") (simp_all add: on_error_def case_prod_beta)
  next
    case (Inr a)
    with m show ?thesis by (simp add: on_error_def case_prod_beta)
  qed
qed

lemma triple_return: "(\<And>f. P f \<Longrightarrow> Q a f) \<Longrightarrow> triple I P (\<lambda>d. (Inr a, d)) Q E"
  by (simp add: triple_def)

lemma triple_pre: "triple I P' m Q E \<Longrightarrow> (\<And>f. P f \<Longrightarrow> P' f) \<Longrightarrow> triple I P m Q E"
  by (auto simp: triple_def)

lemma triple_err: "triple I P m Q E' \<Longrightarrow> (\<And>f. E' f \<Longrightarrow> E f) \<Longrightarrow> triple I P m Q E"
  unfolding triple_def by (fastforce split: sum.splits)

section \<open>What the operations keep\<close>

text \<open>Files that agree with given ones everywhere but on some (temporary) paths.\<close>

definition agrees :: "path set \<Rightarrow> files \<Rightarrow> files \<Rightarrow> bool" where
  "agrees S f0 f \<longleftrightarrow> (\<forall>q. q \<notin> S \<longrightarrow> f q = f0 q)"

lemma agreesD: "agrees S f0 f \<Longrightarrow> q \<notin> S \<Longrightarrow> f q = f0 q"
  unfolding agrees_def by blast

lemma agrees_refl [simp]: "agrees S f f"
  by (simp add: agrees_def)

lemma agrees_update: "p \<in> S \<Longrightarrow> agrees S f0 f \<Longrightarrow> agrees S f0 (f(p := x))"
  by (simp add: agrees_def)

lemma append_all_triple:
  assumes S: "p \<in> S" and I: "\<And>f. agrees S f0 f \<Longrightarrow> I f"
  shows "triple I (\<lambda>f. agrees S f0 f \<and> f p = Some pre) (append_all p bytes)
     (\<lambda>_ f. agrees S f0 f \<and> f p = Some (pre @ bytes)) (agrees S f0)"
proof (induction bytes arbitrary: pre)
  case Nil
  show ?case by (simp add: triple_def)
next
  case (Cons c cs)
  have "triple I (\<lambda>f. agrees S f0 f \<and> f p = Some pre) (step (Append p c))
      (\<lambda>_ f. agrees S f0 f \<and> f p = Some (pre @ [c])) (agrees S f0)"
    by (rule triple_step) (auto simp: S I agrees_update)
  from triple_bind [OF this] Cons.IH [of "pre @ [c]"] show ?case by simp
qed

lemma write_synced_triple:
  assumes S: "p \<in> S" and I: "\<And>f. agrees S f0 f \<Longrightarrow> I f"
  shows "triple I (agrees S f0) (write_synced p bytes)
     (\<lambda>_ f. agrees S f0 f \<and> f p = Some bytes) (agrees S f0)"
  unfolding write_synced_def
proof (intro triple_bind)
  show "triple I (agrees S f0) (step (Create p)) (\<lambda>_ f. agrees S f0 f \<and> f p = Some []) (agrees S f0)"
    by (rule triple_step) (auto simp: S I agrees_update)
  show "triple I (\<lambda>f. agrees S f0 f \<and> f p = Some []) (append_all p bytes)
      (\<lambda>_ f. agrees S f0 f \<and> f p = Some bytes) (agrees S f0)"
    using append_all_triple [of p S f0 I "[]" bytes, OF S I] by simp
  show "triple I (\<lambda>f. agrees S f0 f \<and> f p = Some bytes) (step (SyncFile p))
      (\<lambda>_ f. agrees S f0 f \<and> f p = Some bytes) (agrees S f0)"
    by (rule triple_step) (auto simp: I)
qed

lemma remove_triple:
  assumes S: "p \<in> S" and I: "\<And>f. agrees S f0 f \<Longrightarrow> I f"
  shows "triple I (agrees S f0) (ignore_result (step (RemoveFile p))) (\<lambda>_. agrees S f0) (agrees S f0)"
  by (rule triple_ignore, rule triple_step) (auto simp: S I agrees_update)

lemma rename_agrees:
  "p \<in> S \<Longrightarrow> agrees S f0 f \<Longrightarrow> f p = Some bytes \<Longrightarrow>
    agrees S (f0(t := Some bytes)) (f(t := f p, p := None))"
  by (auto simp: agrees_def)

lemma sync_parent_triple:
  assumes I: "\<And>f. agrees S f1 f \<Longrightarrow> I f"
  shows "triple I (agrees S f1) (sync_parent t) (\<lambda>_. agrees S f1) E"
  unfolding sync_parent_def by (rule triple_ignore, rule triple_step) (auto simp: I)

text \<open>Success puts the new contents there, an error leaves everything but the temporary file.\<close>

lemma write_atomic_triple:
  assumes S: "incoming_path t \<in> S"
    and I: "\<And>f. agrees S f0 f \<Longrightarrow> I f" and J: "\<And>f. agrees S (f0(t := Some bytes)) f \<Longrightarrow> I f"
  shows "triple I (agrees S f0) (write_atomic t bytes)
     (\<lambda>_. agrees S (f0(t := Some bytes))) (agrees S f0)"
  unfolding write_atomic_def Let_def
proof (intro triple_bind triple_on_error)
  let ?p = "incoming_path t"
  show "triple I (agrees S f0) (step (MakeDir (fst t))) (\<lambda>_. agrees S f0) (agrees S f0)"
    by (rule triple_step) (auto simp: I)
  show "triple I (agrees S f0) (write_synced ?p bytes)
      (\<lambda>_ f. agrees S f0 f \<and> f ?p = Some bytes) (agrees S f0)"
    by (rule write_synced_triple) (auto simp: S I)
  show "triple I (\<lambda>f. agrees S f0 f \<and> f ?p = Some bytes) (step (Rename ?p t))
      (\<lambda>_. agrees S (f0(t := Some bytes))) (agrees S f0)"
    by (rule triple_step) (use rename_agrees [OF S] J in \<open>auto simp del: fun_upd_apply\<close>)
  show "triple I (agrees S f0) (ignore_result (step (RemoveFile ?p))) (\<lambda>_. agrees S f0) (agrees S f0)"
    by (rule remove_triple) (auto simp: S I)
  show "triple I (agrees S (f0(t := Some bytes))) (sync_parent t)
      (\<lambda>_. agrees S (f0(t := Some bytes))) (agrees S f0)"
    by (rule sync_parent_triple) (rule J)
qed

lemma stage_bytes_triple:
  assumes S: "incoming_path t \<in> S" and I: "\<And>f. agrees S f0 f \<Longrightarrow> I f"
  shows "triple I (agrees S f0) (stage_bytes sha t bytes expd name)
     (\<lambda>p f. p = incoming_path t \<and> agrees S f0 f \<and> f p = Some bytes
        \<and> is_ok (check_hash_bytes sha name bytes expd))
     (agrees S f0)"
  unfolding stage_bytes_def Let_def
proof (intro triple_bind triple_on_error)
  let ?p = "incoming_path t"
  let ?A = "\<lambda>f. agrees S f0 f \<and> f ?p = Some bytes"
  show "triple I (agrees S f0) (step (MakeDir (fst t))) (\<lambda>_. agrees S f0) (agrees S f0)"
    by (rule triple_step) (auto simp: I)
  show "triple I (agrees S f0) (write_synced ?p bytes) (\<lambda>_. ?A) (agrees S f0)"
    by (rule write_synced_triple) (auto simp: S I)
  have "triple I ?A (step (ReadFile ?p)) (\<lambda>_. ?A) (agrees S f0)"
    by (rule triple_step) (auto simp: I)
  moreover have "triple I ?A (\<lambda>d. (check_hash_bytes sha name (the (files d ?p)) expd, d))
      (\<lambda>_ f. ?A f \<and> is_ok (check_hash_bytes sha name bytes expd)) (agrees S f0)"
    by (cases "check_hash_bytes sha name bytes expd") (auto simp: triple_def)
  ultimately show "triple I ?A (check_file_hash sha name ?p expd)
      (\<lambda>_ f. ?A f \<and> is_ok (check_hash_bytes sha name bytes expd)) (agrees S f0)"
    unfolding check_file_hash_def by (rule triple_bind)
  show "triple I (\<lambda>f. ?A f \<and> is_ok (check_hash_bytes sha name bytes expd)) (\<lambda>d. (Inr ?p, d))
      (\<lambda>p f. p = ?p \<and> agrees S f0 f \<and> f p = Some bytes
        \<and> is_ok (check_hash_bytes sha name bytes expd)) (agrees S f0)"
    by (rule triple_return) simp
  show "triple I (agrees S f0) (ignore_result (step (RemoveFile ?p))) (\<lambda>_. agrees S f0) (agrees S f0)"
    by (rule remove_triple) (auto simp: S I)
qed

lemma install_to_triple:
  assumes S: "p \<in> S"
    and I: "\<And>f. agrees S f0 f \<Longrightarrow> I f" and J: "\<And>f. agrees S (f0(t := Some bytes)) f \<Longrightarrow> I f"
  shows "triple I (\<lambda>f. agrees S f0 f \<and> f p = Some bytes) (install_to p t)
     (\<lambda>_. agrees S (f0(t := Some bytes))) (agrees S f0)"
  unfolding install_to_def
proof (intro triple_bind triple_on_error)
  show "triple I (\<lambda>f. agrees S f0 f \<and> f p = Some bytes) (step (Chmod p))
      (\<lambda>_ f. agrees S f0 f \<and> f p = Some bytes) (agrees S f0)"
    by (rule triple_step) (auto simp: I)
  show "triple I (\<lambda>f. agrees S f0 f \<and> f p = Some bytes) (step (Rename p t))
      (\<lambda>_. agrees S (f0(t := Some bytes))) (agrees S f0)"
    by (rule triple_step) (use rename_agrees [OF S] J in \<open>auto simp del: fun_upd_apply\<close>)
  show "triple I (agrees S f0) (ignore_result (step (RemoveFile p))) (\<lambda>_. agrees S f0) (agrees S f0)"
    by (rule remove_triple) (auto simp: S I)
  show "triple I (agrees S (f0(t := Some bytes))) (sync_parent t)
      (\<lambda>_. agrees S (f0(t := Some bytes))) (agrees S f0)"
    by (rule sync_parent_triple) (rule J)
qed

section \<open>Properties\<close>

definition mounted :: "files \<Rightarrow> bool list \<Rightarrow> disk" where
  "mounted f0 fl = \<lparr>files = f0, faults = fl, trail = [f0]\<rparr>"

lemma incoming_differs: "incoming_path t \<noteq> t"
  by (cases t) (auto simp: incoming_path_def dest: arg_cong [where f = length])

text \<open>What a triple says of a run from given files.\<close>

lemma triple_run:
  assumes "triple I (agrees S f0) m Q E" and "I f0" and "m (mounted f0 fl) = (r, d')"
  shows "(\<forall>f \<in> set (trail d'). I f) \<and> (case r of Inr a \<Rightarrow> Q a (files d') | Inl _ \<Rightarrow> E (files d'))"
  using assms(1) [unfolded triple_def, rule_format, of "mounted f0 fl"] assms(2,3)
  by (cases r) (simp_all add: mounted_def)

text \<open>
  A file written atomically holds its old or its new contents in every state a kill can leave,
  nothing else changes but the temporary file beside it, and the result tells which contents are
  there.
\<close>

theorem write_atomic_crash_safe:
  assumes "write_atomic t bytes (mounted f0 fl) = (r, d')"
  shows "(\<forall>f \<in> set (trail d'). (f t = f0 t \<or> f t = Some bytes)
            \<and> (\<forall>q. q \<noteq> t \<longrightarrow> q \<noteq> incoming_path t \<longrightarrow> f q = f0 q))
    \<and> files d' t = (if r = Inr () then Some bytes else f0 t)"
proof -
  let ?S = "{incoming_path t}"
  let ?I = "\<lambda>f. agrees ?S f0 f \<or> agrees ?S (f0(t := Some bytes)) f"
  have "triple ?I (agrees ?S f0) (write_atomic t bytes)
      (\<lambda>_. agrees ?S (f0(t := Some bytes))) (agrees ?S f0)"
    by (rule write_atomic_triple) auto
  from triple_run [OF this _ assms] have "\<forall>f \<in> set (trail d'). ?I f"
    "case r of Inr _ \<Rightarrow> agrees ?S (f0(t := Some bytes)) (files d') | Inl _ \<Rightarrow> agrees ?S f0 (files d')"
    by auto
  moreover from this(2) have "files d' t = (if r = Inr () then Some bytes else f0 t)"
    using incoming_differs [of t] agreesD [of ?S _ "files d'" t] by (cases r) auto
  moreover have "(f t = f0 t \<or> f t = Some bytes) \<and> (\<forall>q. q \<noteq> t \<longrightarrow> q \<noteq> incoming_path t \<longrightarrow> f q = f0 q)"
    if "?I f" for f
    using that
  proof
    assume "agrees ?S f0 f"
    from agreesD [OF this] show ?thesis
      using incoming_differs [of t] by (simp del: split_paired_All)
  next
    assume "agrees ?S (f0(t := Some bytes)) f"
    from agreesD [OF this] show ?thesis
      using incoming_differs [of t] by (simp del: split_paired_All)
  qed
  ultimately show ?thesis by blast
qed

section \<open>The tosu swap\<close>

definition TOSU_BINARY :: "bool \<Rightarrow> string" where
  "TOSU_BINARY windows = (if windows then ''tosu.exe'' else ''tosu'')"

text \<open>The files after each of the four replacements, and the temporary paths.\<close>

definition swap_files :: "string \<Rightarrow> string \<Rightarrow> string \<Rightarrow> artifact \<Rightarrow> string \<Rightarrow> u32 \<Rightarrow> string option
    \<Rightarrow> files \<Rightarrow> nat \<Rightarrow> files" where
  "swap_files bin dir bytes a ver r upstream f0 n =
     foldl (\<lambda>f (p, c). f(p := Some c)) f0
       (take n [((dir, bin), bytes), ((dir, NOTICE_FILE), notice_text ver upstream (url a)),
          ((dir, REVISION_FILE), dec_digits (unat r) @ newline), ((dir, VERSION_FILE), ver @ newline)])"

definition swap_temps :: "string \<Rightarrow> string \<Rightarrow> path set" where
  "swap_temps bin dir = incoming_path ` {(dir, bin), (dir, NOTICE_FILE), (dir, REVISION_FILE), (dir, VERSION_FILE)}"

lemma install_tosu_triple:
  fixes sha bin dir bytes a ver r upstream f0
  defines "F \<equiv> swap_files bin dir bytes a ver r upstream f0" and "S \<equiv> swap_temps bin dir"
  defines "ok \<equiv> is_ok (check_hash_bytes sha ''tosu'' bytes (Feed.sha256 a))"
  defines "I \<equiv> \<lambda>f. agrees S f0 f \<or> ok \<and> (\<exists>n \<in> {1, 2, 3, 4}. agrees S (F n) f)"
  shows "triple I (agrees S f0) (install_tosu sha bin dir bytes a ver r upstream)
     (\<lambda>_ f. ok \<and> agrees S (F 4) f) (\<lambda>f. agrees S f0 f \<or> ok \<and> (\<exists>n \<in> {1, 2, 3}. agrees S (F n) f))"
    (is "triple I _ _ _ ?E")
proof -
  have F: "F (Suc 0) = f0((dir, bin) := Some bytes)"
    "F 2 = (F (Suc 0))((dir, NOTICE_FILE) := Some (notice_text ver upstream (url a)))"
    "F 3 = (F 2)((dir, REVISION_FILE) := Some (dec_digits (unat r) @ newline))"
    "F 4 = (F 3)((dir, VERSION_FILE) := Some (ver @ newline))"
    by (simp_all add: F_def swap_files_def)
  have S: "incoming_path (dir, bin) \<in> S" "incoming_path (dir, NOTICE_FILE) \<in> S"
    "incoming_path (dir, REVISION_FILE) \<in> S" "incoming_path (dir, VERSION_FILE) \<in> S"
    by (simp_all add: S_def swap_temps_def)
  let ?p = "incoming_path (dir, bin)"
  have stage: "triple I (agrees S f0) (stage_bytes sha (dir, bin) bytes (Feed.sha256 a) ''tosu'')
      (\<lambda>p f. p = ?p \<and> agrees S f0 f \<and> f p = Some bytes \<and> ok) ?E"
    unfolding ok_def by (rule triple_err, rule stage_bytes_triple) (auto simp: S I_def)
  have swap: "triple I (\<lambda>f. p = ?p \<and> agrees S f0 f \<and> f p = Some bytes \<and> ok) (install_to p (dir, bin))
      (\<lambda>_ f. ok \<and> agrees S (F (Suc 0)) f) ?E" for p
  proof (cases "p = ?p \<and> ok")
    case True
    then have "triple I (\<lambda>f. agrees S f0 f \<and> f ?p = Some bytes) (install_to ?p (dir, bin))
        (\<lambda>_. agrees S (F (Suc 0))) (agrees S f0)"
      unfolding F(1) by (intro install_to_triple) (auto simp: S I_def F(1))
    then show ?thesis using True
      by (auto intro: triple_err)
  qed (auto simp: triple_def)
  have put: "triple I (\<lambda>f. ok \<and> agrees S (F n) f) (write_atomic t c)
      (\<lambda>_ f. ok \<and> agrees S (F m) f) ?E"
    if "(n, m) \<in> {(Suc 0, 2), (2, 3), (3, 4)}" "F m = (F n)(t := Some c)" "incoming_path t \<in> S"
    for n m t c
  proof (cases ok)
    case True
    then have "triple I (agrees S (F n)) (write_atomic t c) (\<lambda>_. agrees S (F m)) (agrees S (F n))"
      unfolding that(2) by (intro write_atomic_triple) (use that in \<open>auto simp: I_def\<close>)
    then show ?thesis using True that(1)
      by (auto intro: triple_err)
  qed (simp add: triple_def)
  have "triple I (\<lambda>f. ok \<and> agrees S (F (Suc 0)) f) (write_atomic (dir, NOTICE_FILE) (notice_text ver upstream (url a)))
      (\<lambda>_ f. ok \<and> agrees S (F 2) f) ?E"
    using put [of "Suc 0" 2] F S by simp
  moreover have "triple I (\<lambda>f. ok \<and> agrees S (F 2) f)
      (write_atomic (dir, REVISION_FILE) (dec_digits (unat r) @ newline)) (\<lambda>_ f. ok \<and> agrees S (F 3) f) ?E"
    using put [of 2 3] F S by simp
  moreover have "triple I (\<lambda>f. ok \<and> agrees S (F 3) f)
      (write_atomic (dir, VERSION_FILE) (ver @ newline)) (\<lambda>_ f. ok \<and> agrees S (F 4) f) ?E"
    using put [of 3 4] F S by simp
  ultimately show ?thesis
    unfolding install_tosu_def by (intro triple_bind [OF stage] triple_bind [OF swap] triple_bind)
qed

lemma swap_temps_names:
  "(dir, TOSU_BINARY w) \<notin> swap_temps bin dir" "(dir, VERSION_FILE) \<notin> swap_temps bin dir"
  "(dir, REVISION_FILE) \<notin> swap_temps bin dir" "(dir, NOTICE_FILE) \<notin> swap_temps bin dir"
  "fst q \<noteq> dir \<Longrightarrow> q \<notin> swap_temps bin dir"
  by (auto simp: swap_temps_def incoming_path_def TOSU_BINARY_def VERSION_FILE_def
      REVISION_FILE_def NOTICE_FILE_def)

lemma swap_files_steps:
  "swap_files bin dir bytes a ver r up f0 1 = f0((dir, bin) := Some bytes)"
  "swap_files bin dir bytes a ver r up f0 2 = f0((dir, bin) := Some bytes,
     (dir, NOTICE_FILE) := Some (notice_text ver up (url a)))"
  "swap_files bin dir bytes a ver r up f0 3 = f0((dir, bin) := Some bytes,
     (dir, NOTICE_FILE) := Some (notice_text ver up (url a)),
     (dir, REVISION_FILE) := Some (dec_digits (unat r) @ newline))"
  "swap_files bin dir bytes a ver r up f0 4 = f0((dir, bin) := Some bytes,
     (dir, NOTICE_FILE) := Some (notice_text ver up (url a)),
     (dir, REVISION_FILE) := Some (dec_digits (unat r) @ newline),
     (dir, VERSION_FILE) := Some (ver @ newline))"
  by (simp_all add: swap_files_def)

lemma swap_names:
  "TOSU_BINARY w \<noteq> NOTICE_FILE" "TOSU_BINARY w \<noteq> REVISION_FILE" "TOSU_BINARY w \<noteq> VERSION_FILE"
  "NOTICE_FILE \<noteq> REVISION_FILE" "NOTICE_FILE \<noteq> VERSION_FILE" "REVISION_FILE \<noteq> VERSION_FILE"
  by (simp_all add: TOSU_BINARY_def VERSION_FILE_def REVISION_FILE_def NOTICE_FILE_def)

lemma swap_files_at:
  assumes "n \<in> {1, 2, 3, 4}"
  shows "swap_files (TOSU_BINARY w) dir bytes a ver r up f0 n (dir, TOSU_BINARY w) = Some bytes"
    "swap_files (TOSU_BINARY w) dir bytes a ver r up f0 n (dir, VERSION_FILE)
       = (if n = 4 then Some (ver @ newline) else f0 (dir, VERSION_FILE))"
    "swap_files (TOSU_BINARY w) dir bytes a ver r up f0 4 (dir, REVISION_FILE)
       = Some (dec_digits (unat r) @ newline)"
    "swap_files (TOSU_BINARY w) dir bytes a ver r up f0 4 (dir, NOTICE_FILE)
       = Some (notice_text ver up (url a))"
    "fst q \<noteq> dir \<Longrightarrow> swap_files (TOSU_BINARY w) dir bytes a ver r up f0 n q = f0 q"
  using assms swap_names swap_names [symmetric] swap_files_steps
    [of "TOSU_BINARY w" dir bytes a ver r up f0]
  by (elim insertE; simp; force)+

text \<open>
  C5: in every state a kill can leave, the tosu binary is the old one or the verified new one;
  VERSION only ever changes to the new version, and then the new binary, its REVISION and its
  NOTICE are in place, so a version is never recorded that did not reach the disk; and no other
  directory is touched. A file that fails its hash changes none of this.
\<close>

theorem tosu_swap_crash_safe:
  assumes "install_tosu sha (TOSU_BINARY w) dir bytes a ver r up (mounted f0 fl) = (res, d')"
    and "f \<in> set (trail d') \<or> f = files d'"
  shows "(f (dir, TOSU_BINARY w) = f0 (dir, TOSU_BINARY w)
        \<or> f (dir, TOSU_BINARY w) = Some bytes \<and> is_ok (check_hash_bytes sha ''tosu'' bytes (Feed.sha256 a)))
    \<and> (f (dir, VERSION_FILE) = f0 (dir, VERSION_FILE)
        \<or> f (dir, VERSION_FILE) = Some (ver @ newline) \<and> f (dir, TOSU_BINARY w) = Some bytes
          \<and> f (dir, REVISION_FILE) = Some (dec_digits (unat r) @ newline)
          \<and> f (dir, NOTICE_FILE) = Some (notice_text ver up (url a)))
    \<and> (fst q \<noteq> dir \<longrightarrow> f q = f0 q)
    \<and> (res = Inr () \<longrightarrow> files d' (dir, VERSION_FILE) = Some (ver @ newline))"
proof -
  let ?F = "swap_files (TOSU_BINARY w) dir bytes a ver r up f0"
  let ?S = "swap_temps (TOSU_BINARY w) dir"
  let ?ok = "is_ok (check_hash_bytes sha ''tosu'' bytes (Feed.sha256 a))"
  let ?I = "\<lambda>f. agrees ?S f0 f \<or> ?ok \<and> (\<exists>n \<in> {1, 2, 3, 4}. agrees ?S (?F n) f)"
  from triple_run [OF install_tosu_triple _ assms(1)]
  have I: "\<forall>f \<in> set (trail d'). ?I f"
    and res: "case res of Inr _ \<Rightarrow> ?ok \<and> agrees ?S (?F 4) (files d')
      | Inl _ \<Rightarrow> agrees ?S f0 (files d') \<or> ?ok \<and> (\<exists>n \<in> {1, 2, 3}. agrees ?S (?F n) (files d'))"
    by auto
  have "?I (files d')" using res by (cases res) auto
  with I assms(2) have "?I f" by auto
  moreover have "files d' (dir, VERSION_FILE) = Some (ver @ newline)" if "res = Inr ()"
    using that res agreesD [of ?S "?F 4" "files d'" "(dir, VERSION_FILE)"]
    by (simp add: swap_temps_names swap_files_at [where n = 4])
  ultimately show ?thesis
  proof (elim disjE conjE bexE, goal_cases)
    case 1
    then show ?case
      using agreesD [of ?S f0 f] by (simp add: swap_temps_names)
  next
    case (2 n)
    then show ?case
      using agreesD [of ?S "?F n" f] swap_files_at [of n]
      by (auto simp: swap_temps_names)
  qed
qed

text \<open>The disk fails after the binary has been swapped: VERSION still names the old one.\<close>

theorem tosu_swap_crash_safe_witness:
  "\<exists>res d'. install_tosu rev (TOSU_BINARY False) ''D'' ''AB'' (demo_artifact ''linux-x86_64'' Binary\<lparr>sha256 := ''4241''\<rparr>)
      ''2.0'' 1 None (mounted [(''D'', VERSION_FILE) \<mapsto> ''1.0''] (replicate 9 False @ [True])) = (res, d')
    \<and> files d' (''D'', TOSU_BINARY False) = Some ''AB'' \<and> files d' (''D'', VERSION_FILE) = Some ''1.0''
    \<and> files d' (''E'', ''x'') = None"
proof -
  let ?m = "mounted [(''D'', VERSION_FILE) \<mapsto> ''1.0''] (replicate 9 False @ [True])"
  let ?a = "demo_artifact ''linux-x86_64'' Binary\<lparr>sha256 := ''4241''\<rparr>"
  let ?run = "install_tosu rev (TOSU_BINARY False) ''D'' ''AB'' ?a ''2.0'' 1 None ?m"
  have t: "trim ''4241'' = ''4241''" by (rule trim_printable) (simp add: printable_def byte_def)
  have h: "check_hash_bytes rev ''tosu'' ''AB'' ''4241'' = Inr ()"
    by (simp add: check_hash_bytes_def compare_hash_def t sha256_bytes_def hex_lower_def byte_def
        hex_digit_def eq_ignore_ascii_case_def ascii_lowercase_def to_ascii_lower_def char_of_def bit_0)
  have "files (snd ?run) (''D'', TOSU_BINARY False) = Some ''AB''
      \<and> files (snd ?run) (''D'', VERSION_FILE) = Some ''1.0''"
    by (simp add: install_tosu_def io_bind_def stage_bytes_def step_def mounted_def on_error_def
        write_synced_def incoming_path_def TOSU_BINARY_def check_file_hash_def h install_to_def
        sync_parent_def ignore_result_def write_atomic_def Let_def demo_artifact_def
        VERSION_FILE_def NOTICE_FILE_def numeral_eq_Suc)
  moreover obtain res d' where run: "?run = (res, d')" by fastforce
  ultimately show ?thesis
    using tosu_swap_crash_safe [OF run, of "files d'" "(''E'', ''x'')"]
    by (intro exI [of _ res] exI [of _ d']) (auto simp: VERSION_FILE_def)
qed

theorem write_atomic_crash_safe_witness:
  "files (snd (write_atomic (''D'', ''x'') ''AB'' (mounted [(''D'', ''x'') \<mapsto> ''old''] [False, False, True])))
     (''D'', ''x'') = Some ''old''"
proof -
  obtain r d' where run: "write_atomic (''D'', ''x'') ''AB''
      (mounted [(''D'', ''x'') \<mapsto> ''old''] [False, False, True]) = (r, d')" by fastforce
  have "fst (write_atomic (''D'', ''x'') ''AB'' (mounted [(''D'', ''x'') \<mapsto> ''old''] [False, False, True])) = Inl Io"
    by (simp add: write_atomic_def io_bind_def step_def mounted_def on_error_def write_synced_def Let_def)
  with write_atomic_crash_safe [OF run] run show ?thesis by simp
qed

end
