(* ===== verification/Config.thy ===== *)
theory Config
  imports Complex_Main Prelude
begin

text \<open>
  The data the pad is configured with: \<open>crates/opad-model/src/lib.rs\<close> (key pins, HID usages,
  swipe actions, the device configuration and its validation, the Hall Effect thresholds, the
  portable backup) and \<open>result_anim.rs\<close>. Rejected values are kept as constructors where the
  code formats a message. The Hall Effect thresholds are rational shares of the span: the
  rounding of the \<open>f32\<close> the app shows is not modelled, every decision is made on integers.
\<close>

section \<open>Key pins\<close>

record key_pin =
  gpio :: u32
  pin_header :: string
  pin :: u8

definition KEY_PINS :: "key_pin list" where
  "KEY_PINS = map (\<lambda>(g, h, p). \<lparr>gpio = g, pin_header = h, pin = p\<rparr>)
     [(2, ''P1'', 1), (4, ''P1'', 2), (6, ''P1'', 3), (7, ''P1'', 9), (8, ''P1'', 8),
      (9, ''P2'', 12), (10, ''P1'', 10), (11, ''P2'', 9), (12, ''P2'', 10), (13, ''P2'', 8),
      (14, ''P2'', 11), (15, ''P2'', 7), (16, ''P1'', 4), (18, ''P1'', 6), (21, ''P1'', 7)]"

definition DEFAULT_KEY1_GPIO :: u32 where "DEFAULT_KEY1_GPIO = 14"
definition DEFAULT_KEY2_GPIO :: u32 where "DEFAULT_KEY2_GPIO = 9"

definition find_key_pin :: "u32 \<Rightarrow> key_pin option" where
  "find_key_pin g = find (\<lambda>p. gpio p = g) KEY_PINS"

datatype config_error =
    UnsupportedPin nat u32 | SharedPin u32
  | BadSwipeKey string u32 | SwipeNeedsKey string | BadModifiers string u32
  | BadHidUsage nat u32 | BadDebounce u32 | BadBrightness u32 | BadSleep u32 | BadHz u32
  | BadHe string
  | BackupVersion u32 | BackupBoard string | BackupCounter nat | BackupFuture | BackupKey nat string

definition validate_key_gpios :: "u32 \<Rightarrow> u32 \<Rightarrow> (config_error, unit) result" where
  "validate_key_gpios key1 key2 =
     (if find_key_pin key1 = None then Inl (UnsupportedPin 1 key1)
      else if find_key_pin key2 = None then Inl (UnsupportedPin 2 key2)
      else if key1 = key2 then Inl (SharedPin key1)
      else Inr ())"

section \<open>Swipe actions\<close>

datatype swipe_action = SwipeNone | VolumeUp | VolumeDown | PrevTrack | NextTrack | PlayPause
  | Mute | SwipeKey

definition ALL_SWIPES :: "swipe_action list" where
  "ALL_SWIPES = [SwipeNone, VolumeUp, VolumeDown, PrevTrack, NextTrack, PlayPause, Mute, SwipeKey]"

fun swipe_to_wire :: "swipe_action \<Rightarrow> u32" where
  "swipe_to_wire SwipeNone = 1"
| "swipe_to_wire PrevTrack = 2"
| "swipe_to_wire NextTrack = 3"
| "swipe_to_wire PlayPause = 4"
| "swipe_to_wire Mute = 5"
| "swipe_to_wire SwipeKey = 6"
| "swipe_to_wire VolumeUp = 7"
| "swipe_to_wire VolumeDown = 8"

definition swipe_from_wire :: "u32 \<Rightarrow> swipe_action option" where
  "swipe_from_wire value = find (\<lambda>a. swipe_to_wire a = value) ALL_SWIPES"

fun swipe_label :: "swipe_action \<Rightarrow> string" where
  "swipe_label SwipeNone = ''Nothing''"
| "swipe_label VolumeUp = ''Volume up''"
| "swipe_label VolumeDown = ''Volume down''"
| "swipe_label PrevTrack = ''Previous track''"
| "swipe_label NextTrack = ''Next track''"
| "swipe_label PlayPause = ''Play / pause''"
| "swipe_label Mute = ''Mute''"
| "swipe_label SwipeKey = ''Keyboard key''"

definition DEFAULT_SWIPE_LEFT :: swipe_action where "DEFAULT_SWIPE_LEFT = PrevTrack"
definition DEFAULT_SWIPE_RIGHT :: swipe_action where "DEFAULT_SWIPE_RIGHT = NextTrack"
definition DEFAULT_SWIPE_UP :: swipe_action where "DEFAULT_SWIPE_UP = VolumeUp"
definition DEFAULT_SWIPE_DOWN :: swipe_action where "DEFAULT_SWIPE_DOWN = VolumeDown"

definition validate_swipe :: "string \<Rightarrow> swipe_action \<Rightarrow> u32 \<Rightarrow> (config_error, unit) result" where
  "validate_swipe side action key =
     (if key \<noteq> 0 \<and> \<not> (0x04 \<le> key \<and> key \<le> 0xE7) then Inl (BadSwipeKey side key)
      else if action = SwipeKey \<and> key = 0 then Inl (SwipeNeedsKey side)
      else Inr ())"

section \<open>Result animations\<close>

definition ANIM_NONE :: u32 where "ANIM_NONE = 0"
definition ANIM_POP :: u32 where "ANIM_POP = 1"
definition ANIM_DROP :: u32 where "ANIM_DROP = 2"
definition ANIM_BURST :: u32 where "ANIM_BURST = 3"
definition CUSTOM_BASE :: u32 where "CUSTOM_BASE = 128"

definition BUILTINS :: "(u32 \<times> string) list" where
  "BUILTINS = [(ANIM_POP, ''Pop''), (ANIM_DROP, ''Drop''), (ANIM_BURST, ''Burst'')]"

definition anim_name :: "u32 \<Rightarrow> string" where
  "anim_name i =
     (if i = ANIM_NONE then ''None''
      else case find (\<lambda>(b, _). b = i) BUILTINS of Some (_, n) \<Rightarrow> n | None \<Rightarrow> ''Custom'')"

datatype trigger = TrigSS | TrigS | TrigA | TrigB | TrigC | TrigD

definition ALL_TRIGGERS :: "trigger list" where
  "ALL_TRIGGERS = [TrigSS, TrigS, TrigA, TrigB, TrigC, TrigD]"

fun trigger_index :: "trigger \<Rightarrow> nat" where
  "trigger_index TrigSS = 0"
| "trigger_index TrigS = 1"
| "trigger_index TrigA = 2"
| "trigger_index TrigB = 3"
| "trigger_index TrigC = 4"
| "trigger_index TrigD = 5"

fun trigger_label :: "trigger \<Rightarrow> string" where
  "trigger_label TrigSS = ''SS''"
| "trigger_label TrigS = ''S''"
| "trigger_label TrigA = ''A''"
| "trigger_label TrigB = ''B''"
| "trigger_label TrigC = ''C''"
| "trigger_label TrigD = ''D''"

definition from_grade :: "string \<Rightarrow> trigger option" where
  "from_grade rank =
     (let r = ascii_uppercase (trim rank) in
      if r \<in> set [''X'', ''XH'', ''SS'', ''SSH''] then Some TrigSS
      else if r \<in> set [''S'', ''SH''] then Some TrigS
      else if r = ''A'' then Some TrigA
      else if r = ''B'' then Some TrigB
      else if r = ''C'' then Some TrigC
      else if r = ''D'' then Some TrigD
      else None)"

text \<open>\<open>[u32; 6]\<close>, indexed by \<open>Trigger::index\<close>.\<close>

type_synonym result_animations = "u32 list"

definition default_animations :: result_animations where
  "default_animations = [ANIM_BURST, ANIM_BURST, ANIM_POP, ANIM_POP, ANIM_DROP, ANIM_DROP]"

definition anim_get :: "result_animations \<Rightarrow> trigger \<Rightarrow> u32" where
  "anim_get a t = a ! trigger_index t"

definition anim_set :: "result_animations \<Rightarrow> trigger \<Rightarrow> u32 \<Rightarrow> result_animations" where
  "anim_set a t i = a[trigger_index t := i]"

definition to_storage :: "result_animations \<Rightarrow> string" where
  "to_storage a = join_with (CHR '','') (map (\<lambda>i. dec_digits (unat i)) a)"

fun zip_slots :: "u32 list \<Rightarrow> string list \<Rightarrow> u32 list" where
  "zip_slots (slot # slots) (p # ps) =
     (case parse_uint 32 (trim p) of Some i \<Rightarrow> of_nat i | None \<Rightarrow> slot) # zip_slots slots ps"
| "zip_slots slots _ = slots"

definition from_storage :: "string \<Rightarrow> result_animations" where
  "from_storage s = zip_slots default_animations (split_on (CHR '','') s)"

section \<open>Hall Effect settings\<close>

datatype he_rt_mode = RtOff | RtNormal | RtContinuous

fun rt_to_wire :: "he_rt_mode \<Rightarrow> u32" where
  "rt_to_wire RtOff = 1"
| "rt_to_wire RtNormal = 2"
| "rt_to_wire RtContinuous = 3"

definition rt_from_wire :: "u32 \<Rightarrow> he_rt_mode option" where
  "rt_from_wire value =
     (if value = 1 then Some RtOff
      else if value = 2 then Some RtNormal
      else if value = 3 then Some RtContinuous
      else None)"

record he_key_config =
  actuation :: u32
  release_hyst :: u32
  he_top_reset :: u32
  rt_press :: u32
  rt_release :: u32
  bottom_dead_zone :: u32
  rt_mode :: he_rt_mode
  allow_below_noise_floor :: bool

definition default_he_key :: he_key_config where
  "default_he_key = \<lparr>actuation = 500, release_hyst = 100, he_top_reset = 100, rt_press = 150,
     rt_release = 150, bottom_dead_zone = 0, rt_mode = RtOff, allow_below_noise_floor = False\<rparr>"

record he_effective =
  eff_press :: rat
  eff_release :: rat
  eff_top_reset :: rat
  press_raised :: bool

text \<open>
  The arithmetic is on \<open>i64\<close>; the largest product is below 2^32 * 1000, so nothing overflows
  and integers say the same.
\<close>

definition he_counts :: "int \<Rightarrow> u32 \<Rightarrow> int" where
  "he_counts width pct = (width * min (uint pct) 1000 + 500) div 1000"

definition he_effective :: "he_key_config \<Rightarrow> u32 \<Rightarrow> u32 \<Rightarrow> (u32 \<times> u32) option \<Rightarrow> he_effective option" where
  "he_effective s rest full floors =
     (if full \<le> rest then None
      else
        let width = uint (full - rest);
            (rest_floor, move_floor, legacy) =
              (case floors of
                 Some (r, m) \<Rightarrow>
                   if r > 0 \<and> m > 0 then
                     (if allow_below_noise_floor s then (1, 1, False) else (uint r, uint m, False))
                   else (32, 32, True)
               | None \<Rightarrow> (32, 32, True));
            continuous = (rt_mode s = RtContinuous);
            top = max (he_counts width (he_top_reset s)) rest_floor;
            hyst = max (he_counts width (release_hyst s)) move_floor;
            asked = he_counts width (actuation s);
            release_min = (if legacy \<or> continuous then top else rest_floor);
            press = max asked (release_min + hyst);
            release = press - hyst;
            share = (\<lambda>c. Fract c width)
        in Some \<lparr>eff_press = share press, eff_release = share release,
                 eff_top_reset = share (min top release), press_raised = (press > asked)\<rparr>)"

definition he_raised :: "he_key_config \<Rightarrow> u32 \<Rightarrow> u32 \<Rightarrow> (u32 \<times> u32) option \<Rightarrow> u32 \<Rightarrow> bool option" where
  "he_raised s rest full floors pct =
     map_option press_raised (he_effective (s\<lparr>actuation := pct\<rparr>) rest full floors)"

text \<open>The binary search, \<open>lo\<close> and \<open>hi\<close> at most 1000.\<close>

function he_search :: "(u32 \<Rightarrow> bool option) \<Rightarrow> nat \<Rightarrow> nat \<Rightarrow> nat" where
  "he_search raised lo hi =
     (if lo < hi then
        let mid = (lo + hi) div 2 in
        if raised (of_nat mid) = Some True then he_search raised (mid + 1) hi
        else he_search raised lo mid
      else lo)"
  by pat_completeness auto
termination
  by (relation "measure (\<lambda>(raised, lo, hi). hi - lo)") auto

declare he_search.simps [simp del]

definition he_min_actuation :: "he_key_config \<Rightarrow> u32 \<Rightarrow> u32 \<Rightarrow> (u32 \<times> u32) option \<Rightarrow> u32 option" where
  "he_min_actuation s rest full floors =
     (case he_raised s rest full floors 1000 of
        None \<Rightarrow> None
      | Some _ \<Rightarrow> Some (of_nat (he_search (he_raised s rest full floors) 0 1000)))"

definition validate_he :: "he_key_config \<Rightarrow> string \<Rightarrow> (config_error, unit) result" where
  "validate_he h name =
     (if actuation h > 1000 \<or> release_hyst h > 1000 \<or> he_top_reset h > 1000 \<or> rt_press h > 1000
         \<or> rt_release h > 1000 \<or> bottom_dead_zone h > 1000
      then Inl (BadHe name) else Inr ())"

section \<open>The device configuration\<close>

record device_config =
  key1_hid_usage :: u32
  key2_hid_usage :: u32
  debounce_us :: u32
  brightness :: u32
  display_sleep_seconds :: u32
  gameplay_display_hz :: u32
  tosu_endpoint :: string
  key1_gpio :: u32
  key2_gpio :: u32
  swipe_left_action :: swipe_action
  swipe_right_action :: swipe_action
  swipe_left_key :: u32
  swipe_right_key :: u32
  swipe_up_action :: swipe_action
  swipe_down_action :: swipe_action
  swipe_up_key :: u32
  swipe_down_key :: u32
  swipe_up_modifiers :: u32
  swipe_down_modifiers :: u32
  swipe_left_modifiers :: u32
  swipe_right_modifiers :: u32
  result_animations :: result_animations
  key1_he :: "he_key_config option"
  key2_he :: "he_key_config option"

definition default_config :: device_config where
  "default_config = \<lparr>key1_hid_usage = 0x1D, key2_hid_usage = 0x1B, debounce_us = 5000,
     brightness = 100, display_sleep_seconds = 600, gameplay_display_hz = 10,
     tosu_endpoint = ''ws://127.0.0.1:24050/websocket/v2'',
     key1_gpio = DEFAULT_KEY1_GPIO, key2_gpio = DEFAULT_KEY2_GPIO,
     swipe_left_action = DEFAULT_SWIPE_LEFT, swipe_right_action = DEFAULT_SWIPE_RIGHT,
     swipe_left_key = 0, swipe_right_key = 0,
     swipe_up_action = DEFAULT_SWIPE_UP, swipe_down_action = DEFAULT_SWIPE_DOWN,
     swipe_up_key = 0, swipe_down_key = 0,
     swipe_up_modifiers = 0, swipe_down_modifiers = 0, swipe_left_modifiers = 0,
     swipe_right_modifiers = 0, result_animations = default_animations,
     key1_he = None, key2_he = None\<rparr>"

definition check :: "bool \<Rightarrow> config_error \<Rightarrow> (config_error, unit) result" where
  "check bad e = (if bad then Inl e else Inr ())"

fun check_modifiers :: "(string \<times> u32) list \<Rightarrow> (config_error, unit) result" where
  "check_modifiers [] = Inr ()"
| "check_modifiers ((side, mods) # rest) =
     (if mods > 0xFF then Inl (BadModifiers side mods) else check_modifiers rest)"

definition validate_config :: "device_config \<Rightarrow> (config_error, unit) result" where
  "validate_config c =
     and_then (check (key1_hid_usage c < 0x04 \<or> key1_hid_usage c > 0xE7) (BadHidUsage 1 (key1_hid_usage c))) (\<lambda>_.
     and_then (check (key2_hid_usage c < 0x04 \<or> key2_hid_usage c > 0xE7) (BadHidUsage 2 (key2_hid_usage c))) (\<lambda>_.
     and_then (check (debounce_us c < 500 \<or> debounce_us c > 20000) (BadDebounce (debounce_us c))) (\<lambda>_.
     and_then (check (brightness c > 100) (BadBrightness (brightness c))) (\<lambda>_.
     and_then (check (display_sleep_seconds c \<noteq> 0
         \<and> (display_sleep_seconds c < 10 \<or> display_sleep_seconds c > 86400)) (BadSleep (display_sleep_seconds c))) (\<lambda>_.
     and_then (check (gameplay_display_hz c < 1 \<or> gameplay_display_hz c > 30) (BadHz (gameplay_display_hz c))) (\<lambda>_.
     and_then (validate_swipe ''left'' (swipe_left_action c) (swipe_left_key c)) (\<lambda>_.
     and_then (validate_swipe ''right'' (swipe_right_action c) (swipe_right_key c)) (\<lambda>_.
     and_then (validate_swipe ''up'' (swipe_up_action c) (swipe_up_key c)) (\<lambda>_.
     and_then (validate_swipe ''down'' (swipe_down_action c) (swipe_down_key c)) (\<lambda>_.
     and_then (check_modifiers [(''up'', swipe_up_modifiers c), (''down'', swipe_down_modifiers c),
         (''left'', swipe_left_modifiers c), (''right'', swipe_right_modifiers c)]) (\<lambda>_.
     and_then (case key1_he c of Some he \<Rightarrow> validate_he he ''key 1'' | None \<Rightarrow> Inr ()) (\<lambda>_.
     and_then (case key2_he c of Some he \<Rightarrow> validate_he he ''key 2'' | None \<Rightarrow> Inr ()) (\<lambda>_.
       validate_key_gpios (key1_gpio c) (key2_gpio c))))))))))))))"

section \<open>HID usages as text\<close>

definition upper_hex :: "nat \<Rightarrow> char" where
  "upper_hex n = (if n < 10 then char_of (48 + n) else char_of (55 + n))"

text \<open>\<open>{:X}\<close>, and padded to two digits, \<open>{:02X}\<close>.\<close>

fun hex_digits :: "nat \<Rightarrow> string" where
  "hex_digits n = (if n < 16 then [upper_hex n] else hex_digits (n div 16) @ [upper_hex (n mod 16)])"

declare hex_digits.simps [simp del]

definition hex02 :: "nat \<Rightarrow> string" where
  "hex02 n = (if n < 16 then CHR ''0'' # hex_digits n else hex_digits n)"

definition hid_usage_to_char :: "u32 \<Rightarrow> string" where
  "hid_usage_to_char usage =
     (if 0x04 \<le> usage \<and> usage \<le> 0x1D then [char_of (65 + (unat usage - 0x04))]
      else if 0x1E \<le> usage \<and> usage \<le> 0x27 then dec_digits ((unat usage - 0x1E + 1) mod 10)
      else ''0x'' @ hex02 (unat usage))"

text \<open>
  \<open>str::to_uppercase\<close>, as far as its result can be ASCII: the ASCII letters, dotless i, long s,
  sharp s and the seven Latin ligatures are the only characters whose upper case is ASCII. Any other
  character's upper case has a non-ASCII byte in it, and is kept; the code below answers \<open>None\<close>
  for a string with such a byte whichever it is.
\<close>

fun to_uppercase :: "string \<Rightarrow> string" where
  "to_uppercase [] = []"
| "to_uppercase (a # s) =
     (if byte a = 0xC4 \<and> s \<noteq> [] \<and> byte (hd s) = 0xB1 then CHR ''I'' # to_uppercase (tl s)
      else if byte a = 0xC5 \<and> s \<noteq> [] \<and> byte (hd s) = 0xBF then CHR ''S'' # to_uppercase (tl s)
      else if byte a = 0xC3 \<and> s \<noteq> [] \<and> byte (hd s) = 0x9F then ''SS'' @ to_uppercase (tl s)
      else if byte a = 0xEF \<and> 2 \<le> length s \<and> byte (hd s) = 0xAC \<and> 0x80 \<le> byte (s ! 1) \<and> byte (s ! 1) \<le> 0x86
      then [''FF'', ''FI'', ''FL'', ''FFI'', ''FFL'', ''ST'', ''ST''] ! (byte (s ! 1) - 0x80)
             @ to_uppercase (tl (tl s))
      else to_ascii_upper a # to_uppercase s)"

definition hex_val :: "char \<Rightarrow> nat option" where
  "hex_val c =
     (if is_ascii_digit c then Some (byte c - 48)
      else if 65 \<le> byte c \<and> byte c \<le> 70 then Some (byte c - 55)
      else if 97 \<le> byte c \<and> byte c \<le> 102 then Some (byte c - 87)
      else None)"

definition hex_number :: "string \<Rightarrow> nat" where
  "hex_number ds = foldl (\<lambda>a c. 16 * a + (case hex_val c of Some v \<Rightarrow> v | None \<Rightarrow> 0)) 0 ds"

text \<open>\<open>u32::from_str_radix(_, 16)\<close>.\<close>

definition parse_hex_u32 :: "string \<Rightarrow> u32 option" where
  "parse_hex_u32 s =
     (let ds = (case s of c # cs \<Rightarrow> if c = CHR ''+'' then cs else s | [] \<Rightarrow> s) in
      if ds = [] \<or> \<not> list_all (\<lambda>c. hex_val c \<noteq> None) ds then None
      else if hex_number ds < 2 ^ 32 then Some (of_nat (hex_number ds)) else None)"

definition is_ascii_alphabetic :: "char \<Rightarrow> bool" where
  "is_ascii_alphabetic c \<longleftrightarrow> 65 \<le> byte c \<and> byte c \<le> 90 \<or> 97 \<le> byte c \<and> byte c \<le> 122"

text \<open>One ASCII letter or digit, else the hexadecimal form.\<close>

definition char_to_hid_usage :: "string \<Rightarrow> u32 option" where
  "char_to_hid_usage ch =
     (let s = to_uppercase (trim ch) in
      if length s = 1 \<and> is_ascii_alphabetic (hd s) then Some (0x04 + of_nat (byte (hd s) - 65))
      else if length s = 1 \<and> is_ascii_digit (hd s) then
        (if hd s = CHR ''0'' then Some 0x27 else Some (0x1E + of_nat (byte (hd s) - 49)))
      else if take 2 s = ''0X'' then parse_hex_u32 (drop 2 s)
      else None)"

section \<open>The portable backup\<close>

record device_info =
  device_id :: string
  board_profile :: string
  firmware_version :: string
  protocol_version :: u32
  running_partition :: "string option"
  he_input :: bool
  he_calibration :: bool

record counter_state =
  counter_device :: string
  counter_generation :: u32
  lifetime_key1 :: u64
  lifetime_key2 :: u64
  map_key1 :: u32
  map_key2 :: u32

definition total_lifetime_presses :: "counter_state \<Rightarrow> u64" where
  "total_lifetime_presses c = sat_add (lifetime_key1 c) (lifetime_key2 c)"

record json_backup_config =
  bk_key1 :: string
  bk_key2 :: string
  bk_debounce_us :: u32
  bk_brightness :: u32
  bk_display_sleep_seconds :: u32
  bk_gameplay_display_hz :: u32
  bk_key1_gpio :: u32
  bk_key2_gpio :: u32
  bk_swipe_left_action :: swipe_action
  bk_swipe_right_action :: swipe_action
  bk_swipe_left_key :: u32
  bk_swipe_right_key :: u32
  bk_swipe_up_action :: swipe_action
  bk_swipe_down_action :: swipe_action
  bk_swipe_up_key :: u32
  bk_swipe_down_key :: u32
  bk_swipe_up_modifiers :: u32
  bk_swipe_down_modifiers :: u32
  bk_swipe_left_modifiers :: u32
  bk_swipe_right_modifiers :: u32
  bk_result_animations :: result_animations

record json_backup =
  format_version :: u32
  exported_at :: int
  bk_device_id :: string
  bk_board_profile :: string
  bk_generation :: u32
  bk_lifetime_key1 :: u64
  bk_lifetime_key2 :: u64
  bk_config :: json_backup_config

definition new_backup :: "int \<Rightarrow> device_info \<Rightarrow> counter_state \<Rightarrow> device_config \<Rightarrow> json_backup" where
  "new_backup now info counters c =
     \<lparr>format_version = 1, exported_at = now, bk_device_id = device_id info,
      bk_board_profile = board_profile info, bk_generation = counter_generation counters,
      bk_lifetime_key1 = lifetime_key1 counters, bk_lifetime_key2 = lifetime_key2 counters,
      bk_config = \<lparr>bk_key1 = hid_usage_to_char (key1_hid_usage c),
        bk_key2 = hid_usage_to_char (key2_hid_usage c), bk_debounce_us = debounce_us c,
        bk_brightness = brightness c, bk_display_sleep_seconds = display_sleep_seconds c,
        bk_gameplay_display_hz = gameplay_display_hz c, bk_key1_gpio = key1_gpio c,
        bk_key2_gpio = key2_gpio c, bk_swipe_left_action = swipe_left_action c,
        bk_swipe_right_action = swipe_right_action c, bk_swipe_left_key = swipe_left_key c,
        bk_swipe_right_key = swipe_right_key c, bk_swipe_up_action = swipe_up_action c,
        bk_swipe_down_action = swipe_down_action c, bk_swipe_up_key = swipe_up_key c,
        bk_swipe_down_key = swipe_down_key c, bk_swipe_up_modifiers = swipe_up_modifiers c,
        bk_swipe_down_modifiers = swipe_down_modifiers c,
        bk_swipe_left_modifiers = swipe_left_modifiers c,
        bk_swipe_right_modifiers = swipe_right_modifiers c,
        bk_result_animations = result_animations c\<rparr>\<rparr>"

text \<open>The configuration a backup stands for, with the usages its two key names gave.\<close>

definition config_of_backup :: "json_backup_config \<Rightarrow> u32 \<Rightarrow> u32 \<Rightarrow> device_config" where
  "config_of_backup b key1 key2 = default_config\<lparr>key1_hid_usage := key1, key2_hid_usage := key2,
     debounce_us := bk_debounce_us b, brightness := bk_brightness b,
     display_sleep_seconds := bk_display_sleep_seconds b,
     gameplay_display_hz := bk_gameplay_display_hz b, key1_gpio := bk_key1_gpio b,
     key2_gpio := bk_key2_gpio b, swipe_left_action := bk_swipe_left_action b,
     swipe_right_action := bk_swipe_right_action b, swipe_left_key := bk_swipe_left_key b,
     swipe_right_key := bk_swipe_right_key b, swipe_up_action := bk_swipe_up_action b,
     swipe_down_action := bk_swipe_down_action b, swipe_up_key := bk_swipe_up_key b,
     swipe_down_key := bk_swipe_down_key b, swipe_up_modifiers := bk_swipe_up_modifiers b,
     swipe_down_modifiers := bk_swipe_down_modifiers b,
     swipe_left_modifiers := bk_swipe_left_modifiers b,
     swipe_right_modifiers := bk_swipe_right_modifiers b,
     result_animations := bk_result_animations b\<rparr>"

definition ONE_DAY :: int where "ONE_DAY = 24 * 60 * 60 * 1000000000"
definition I64_MAX :: nat where "I64_MAX = 2 ^ 63 - 1"
definition BOARD_PROFILE :: string where "BOARD_PROFILE = ''waveshare_esp32s3_touch_lcd_2''"

definition validate_backup :: "int \<Rightarrow> json_backup \<Rightarrow> (config_error, unit) result" where
  "validate_backup now b =
     and_then (check (format_version b \<noteq> 1) (BackupVersion (format_version b))) (\<lambda>_.
     and_then (check (bk_board_profile b \<noteq> BOARD_PROFILE) (BackupBoard (bk_board_profile b))) (\<lambda>_.
     and_then (check (unat (bk_lifetime_key1 b) > I64_MAX) (BackupCounter 1)) (\<lambda>_.
     and_then (check (unat (bk_lifetime_key2 b) > I64_MAX) (BackupCounter 2)) (\<lambda>_.
     and_then (check (exported_at b > now + ONE_DAY) BackupFuture) (\<lambda>_.
       (case char_to_hid_usage (bk_key1 (bk_config b)) of
          None \<Rightarrow> Inl (BackupKey 1 (bk_key1 (bk_config b)))
        | Some key1 \<Rightarrow>
            (case char_to_hid_usage (bk_key2 (bk_config b)) of
               None \<Rightarrow> Inl (BackupKey 2 (bk_key2 (bk_config b)))
             | Some key2 \<Rightarrow> validate_config (config_of_backup (bk_config b) key1 key2))))))))"

section \<open>Round trips\<close>

lemma swipe_wire_roundtrip: "swipe_from_wire (swipe_to_wire a) = Some a"
  by (cases a) (simp_all add: swipe_from_wire_def ALL_SWIPES_def)

lemma rt_wire_roundtrip: "rt_from_wire (rt_to_wire m) = Some m"
  by (cases m) (simp_all add: rt_from_wire_def)

lemma from_grade_label: "from_grade (trigger_label t) = Some t"
  by (cases t) (simp_all add: from_grade_def printable_def byte_def ascii_uppercase_def
      to_ascii_upper_def)

lemma dec_digits_printable: "printable (dec_digits n)"
  using dec_digits_are_digits [of n]
  by (auto simp: printable_def list_all_iff is_ascii_digit_def)

lemma dec_digits_no_comma: "CHR '','' \<notin> set (dec_digits n)"
  using dec_digits_are_digits [of n] by (auto simp: list_all_iff is_ascii_digit_def byte_def)

lemma zip_slots_written:
  "length slots = length a \<Longrightarrow> zip_slots slots (map (\<lambda>i. dec_digits (unat i)) a) = a"
proof (induction slots a rule: list_induct2)
  case (Cons x xs y ys)
  have "unat y < 2 ^ 32" using unsigned_less [of y] by simp
  then show ?case
    using Cons by (simp add: dec_digits_printable parse_uint_dec_digits)
qed simp

lemma stored_animations_read:
  assumes "length a = 6"
  shows "from_storage (to_storage a) = a"
proof -
  have "split_on (CHR '','') (to_storage a) = map (\<lambda>i. dec_digits (unat i)) a"
    unfolding to_storage_def
    by (rule split_on_join) (use assms dec_digits_no_comma in auto)
  then show ?thesis
    using assms by (simp add: from_storage_def zip_slots_written default_animations_def)
qed

text \<open>What is stored of the result animations is what is read back.\<close>

theorem animations_roundtrip:
  assumes "length a = 6"
  shows "from_storage (to_storage a) = a"
  using assms by (rule stored_animations_read)

theorem animations_roundtrip_witness:
  "from_storage (to_storage [3, 0, 133, 4294967295, 2, 1]) = [3, 0, 133, 4294967295, 2, 1]"
  by (rule animations_roundtrip) simp

text \<open>Hexadecimal.\<close>

lemma to_uppercase_ascii: "list_all (\<lambda>c. byte c < 128) s \<Longrightarrow> to_uppercase s = ascii_uppercase s"
  by (induction s rule: to_uppercase.induct) (auto simp: ascii_uppercase_def)

lemma byte_upper_hex: "n < 16 \<Longrightarrow> byte (upper_hex n) = (if n < 10 then 48 + n else 55 + n)"
  by (simp add: upper_hex_def)

lemma hex_val_upper_hex: "n < 16 \<Longrightarrow> hex_val (upper_hex n) = Some n"
  by (simp add: hex_val_def is_ascii_digit_def byte_upper_hex)

lemma upper_hex_kept: "n < 16 \<Longrightarrow> to_ascii_upper (upper_hex n) = upper_hex n"
  by (simp add: to_ascii_upper_def byte_upper_hex)

lemma hex_digits_set: "c \<in> set (hex_digits n) \<Longrightarrow> \<exists>k < 16. c = upper_hex k"
proof (induction n rule: hex_digits.induct)
  case (1 n)
  have last: "\<exists>k < 16. upper_hex (n mod 16) = upper_hex k"
    by (rule exI [of _ "n mod 16"]) simp
  show ?case
    using 1 last by (subst (asm) (2) hex_digits.simps) (auto split: if_splits)
qed

lemma hex_digits_nonempty [simp]: "hex_digits n \<noteq> []"
  by (subst hex_digits.simps) simp

lemma hex_number_hex_digits: "hex_number (hex_digits n) = n"
proof (induction n rule: hex_digits.induct)
  case (1 n)
  show ?case
  proof (cases "n < 16")
    case True
    then show ?thesis by (subst hex_digits.simps) (simp add: hex_number_def hex_val_upper_hex)
  next
    case False
    with "1.IH" have "hex_number (hex_digits (n div 16)) = n div 16" by simp
    with False show ?thesis
      by (subst hex_digits.simps) (simp add: hex_number_def hex_val_upper_hex)
  qed
qed

lemma hex_number_leading_zero: "hex_number (CHR ''0'' # ds) = hex_number ds"
  by (simp add: hex_number_def hex_val_def is_ascii_digit_def byte_def)

lemma upper_hex_0: "upper_hex 0 = CHR ''0''"
  by (simp add: upper_hex_def char_of_def bit_0)

lemma hex02_set: "c \<in> set (hex02 n) \<Longrightarrow> \<exists>k < 16. c = upper_hex k"
proof -
  have zero: "\<exists>k < 16. CHR ''0'' = upper_hex k"
    by (rule exI [of _ 0]) (simp add: upper_hex_0)
  assume "c \<in> set (hex02 n)"
  then show ?thesis
    using hex_digits_set [of c n] zero by (auto simp: hex02_def split: if_splits)
qed

lemma hex02_number: "hex_number (hex02 n) = n"
  by (simp add: hex02_def hex_number_leading_zero hex_number_hex_digits)

lemma length_hex02: "2 \<le> length (hex02 n)"
proof (cases "n < 16")
  case True
  then show ?thesis
    by (cases "hex_digits n") (auto simp: hex02_def)
next
  case False
  then have "2 \<le> length (hex_digits n)"
    by (subst hex_digits.simps) (cases "hex_digits (n div 16)"; simp)
  then show ?thesis using False by (simp add: hex02_def)
qed

lemma hex02_bytes: "c \<in> set (hex02 n) \<Longrightarrow> 48 \<le> byte c \<and> byte c \<le> 70 \<and> to_ascii_upper c = c \<and> hex_val c \<noteq> None"
  using hex02_set [of c n] by (auto simp: byte_upper_hex upper_hex_kept hex_val_upper_hex)

lemma parse_hex_hex02: "n < 2 ^ 32 \<Longrightarrow> parse_hex_u32 (hex02 n) = Some (of_nat n)"
proof -
  assume n: "n < 2 ^ 32"
  obtain c cs where cs: "hex02 n = c # cs" using length_hex02 [of n] by (cases "hex02 n") auto
  then have "c \<noteq> CHR ''+''" using hex02_bytes [of c n] by (auto simp: byte_def)
  moreover have "list_all (\<lambda>c. hex_val c \<noteq> None) (hex02 n)"
    using hex02_bytes by (auto simp: list_all_iff)
  ultimately show ?thesis
    using cs n hex02_number [of n] by (simp add: parse_hex_u32_def Let_def)
qed

lemma digit_usage: "n < 10 \<Longrightarrow> dec_digits n = [char_of (48 + n)]"
  by (subst dec_digits.simps) simp

lemma letter_usage:
  "n < 26 \<Longrightarrow> char_to_hid_usage [char_of (65 + n)] = Some (0x04 + of_nat n)"
  by (simp add: char_to_hid_usage_def printable_def to_ascii_upper_def is_ascii_alphabetic_def)

lemma number_usage:
  "n < 10 \<Longrightarrow> char_to_hid_usage [char_of (48 + n)] = Some (if n = 0 then 0x27 else 0x1D + of_nat n)"
proof -
  assume n: "n < 10"
  have "char_of (48 + n) = CHR ''0'' \<longleftrightarrow> n = 0"
  proof
    assume "char_of (48 + n) = CHR ''0''"
    then have "byte (char_of (48 + n)) = 48" by (simp add: byte_def)
    with n show "n = 0" by simp
  qed (simp add: char_of_def bit_0)
  moreover have "(0x1E :: u32) + of_nat (n - 1) = 0x1D + of_nat n" if "n \<noteq> 0"
    using that by (cases n) simp_all
  ultimately show ?thesis
    using n by (simp add: char_to_hid_usage_def printable_def to_ascii_upper_def
        is_ascii_alphabetic_def is_ascii_digit_def)
qed

lemma hex_usage: "char_to_hid_usage (''0x'' @ hex02 (unat u)) = Some u"
proof -
  let ?h = "hex02 (unat u)"
  have h: "list_all (\<lambda>c. 48 \<le> byte c \<and> byte c \<le> 70 \<and> to_ascii_upper c = c) ?h"
    using hex02_bytes by (auto simp: list_all_iff)
  then have "printable (''0x'' @ ?h)" "list_all (\<lambda>c. byte c < 128) (''0x'' @ ?h)"
    by (auto simp: printable_def list_all_iff byte_def)
  then have up: "to_uppercase (''0x'' @ ?h) = ascii_uppercase (''0x'' @ ?h)"
    and tr: "trim (''0x'' @ ?h) = ''0x'' @ ?h"
    by (simp_all add: to_uppercase_ascii del: to_uppercase.simps)
  have "ascii_uppercase ?h = ?h"
    unfolding ascii_uppercase_def by (rule map_idI) (use h in \<open>auto simp: list_all_iff\<close>)
  then have "ascii_uppercase (''0x'' @ ?h) = ''0X'' @ ?h"
    by (simp only: ascii_uppercase_def map_append append_same_eq)
      (simp add: to_ascii_upper_def byte_def char_of_def bit_0)
  moreover have "unat u < 2 ^ 32" using unsigned_less [of u] by simp
  ultimately show ?thesis
    using length_hex02 [of "unat u"]
    unfolding char_to_hid_usage_def tr up Let_def by (simp add: parse_hex_hex02)
qed

text \<open>The name shown for a usage is read back.\<close>

lemma hid_usage_roundtrip': "char_to_hid_usage (hid_usage_to_char u) = Some u"
proof -
  have u: "of_nat (unat u) = u" by simp
  consider "4 \<le> unat u" "unat u \<le> 29" | "30 \<le> unat u" "unat u \<le> 39" | "unat u < 4 \<or> 39 < unat u"
    by linarith
  then show ?thesis
  proof cases
    case 1
    then have "u = 4 + of_nat (unat u - 4)"
      using u by (metis add.commute le_add_diff_inverse2 of_nat_add of_nat_numeral)
    then show ?thesis
      using 1 letter_usage [of "unat u - 4"] by (simp add: hid_usage_to_char_def word_le_nat_alt)
  next
    case 2
    define n where "n = (unat u - 0x1E + 1) mod 10"
    have n: "n < 10" "n = 0 \<longleftrightarrow> unat u = 39" "n \<noteq> 0 \<Longrightarrow> unat u = 29 + n"
    proof -
      have "unat u = 39 \<or> unat u - 0x1E + 1 < 10" using 2 by linarith
      then have "unat u = 39 \<and> n = 0 \<or> unat u < 39 \<and> n = unat u - 29"
        using 2 by (elim disjE) (simp_all add: n_def mod_less [of "unat u - 0x1E + 1"] del: Suc_eq_plus1 add_Suc_right)
      then show "n < 10" "n = 0 \<longleftrightarrow> unat u = 39" "n \<noteq> 0 \<Longrightarrow> unat u = 29 + n"
        using 2 by auto
    qed
    have "u = (if n = 0 then 0x27 else 0x1D + of_nat n)"
      using n(2,3) u by (metis of_nat_add of_nat_numeral)
    moreover have "hid_usage_to_char u = [char_of (48 + n)]"
    proof -
      have "hid_usage_to_char u = dec_digits n"
        using 2 by (simp add: hid_usage_to_char_def word_le_nat_alt n_def)
      then show ?thesis using n(1) by (simp add: digit_usage)
    qed
    ultimately show ?thesis using number_usage [OF n(1)] by simp
  next
    case 3
    then show ?thesis
      using hex_usage [of u] by (auto simp: hid_usage_to_char_def word_le_nat_alt)
  qed
qed

text \<open>The name shown for a HID usage, whatever the usage, is read back as that usage.\<close>

theorem hid_usage_roundtrip: "char_to_hid_usage (hid_usage_to_char u) = Some u"
  by (rule hid_usage_roundtrip')

section \<open>The least actuation the pad keeps\<close>

lemma he_search_least:
  assumes "lo \<le> hi" and "\<And>i j. i \<le> j \<Longrightarrow> j \<le> hi \<Longrightarrow> raised (of_nat j) = Some True \<Longrightarrow> raised (of_nat i) = Some True"
  shows "lo \<le> he_search raised lo hi \<and> he_search raised lo hi \<le> hi
    \<and> (\<forall>i. lo \<le> i \<longrightarrow> i < he_search raised lo hi \<longrightarrow> raised (of_nat i) = Some True)
    \<and> (he_search raised lo hi < hi \<longrightarrow> raised (of_nat (he_search raised lo hi)) \<noteq> Some True)"
  using assms
proof (induction raised lo hi rule: he_search.induct)
  case (1 raised lo hi)
  define mid where "mid = (lo + hi) div 2"
  show ?case
  proof (cases "lo < hi")
    case False
    then have "he_search raised lo hi = lo" by (simp add: he_search.simps [of raised lo hi])
    with False "1.prems"(1) show ?thesis by simp
  next
    case lt: True
    then have mid: "lo \<le> mid" "mid < hi" by (auto simp: mid_def)
    show ?thesis
    proof (cases "raised (of_nat mid) = Some True")
      case True
      then have eq: "he_search raised lo hi = he_search raised (mid + 1) hi"
        using lt by (simp add: he_search.simps [of raised lo hi] mid_def Let_def)
      have low: "raised (of_nat i) = Some True" if "i \<le> mid" for i
        using "1.prems"(2) [of i mid] that True mid by simp
      have "mid + 1 \<le> hi" using mid by simp
      then have ih: "mid + 1 \<le> he_search raised (mid + 1) hi \<and> he_search raised (mid + 1) hi \<le> hi
        \<and> (\<forall>i. mid + 1 \<le> i \<longrightarrow> i < he_search raised (mid + 1) hi \<longrightarrow> raised (of_nat i) = Some True)
        \<and> (he_search raised (mid + 1) hi < hi \<longrightarrow>
            raised (of_nat (he_search raised (mid + 1) hi)) \<noteq> Some True)"
        by (rule "1.IH"(1) [OF lt mid_def True]) (rule "1.prems"(2))
      have "raised (of_nat i) = Some True" if "i < he_search raised (mid + 1) hi" for i
      proof (cases "i \<le> mid")
        case False
        then have "mid + 1 \<le> i" by linarith
        with ih that show ?thesis by blast
      qed (rule low)
      moreover have "lo \<le> he_search raised (mid + 1) hi" using ih mid by linarith
      ultimately show ?thesis using ih unfolding eq by blast
    next
      case False
      then have eq: "he_search raised lo hi = he_search raised lo mid"
        using lt by (simp add: he_search.simps [of raised lo hi] mid_def Let_def)
      have ih: "lo \<le> he_search raised lo mid \<and> he_search raised lo mid \<le> mid
        \<and> (\<forall>i. lo \<le> i \<longrightarrow> i < he_search raised lo mid \<longrightarrow> raised (of_nat i) = Some True)
        \<and> (he_search raised lo mid < mid \<longrightarrow> raised (of_nat (he_search raised lo mid)) \<noteq> Some True)"
        using "1.IH"(2) [OF lt mid_def False] "1.prems"(2) mid by simp
      have ne: "raised (of_nat (he_search raised lo mid)) \<noteq> Some True"
      proof (cases "he_search raised lo mid < mid")
        case True
        with ih show ?thesis by blast
      next
        case False
        with ih have "he_search raised lo mid = mid" by linarith
        with \<open>raised (of_nat mid) \<noteq> Some True\<close> show ?thesis by simp
      qed
      have "he_search raised lo mid \<le> hi" using ih mid by linarith
      with ih ne show ?thesis unfolding eq by blast
    qed
  qed
qed

text \<open>Whether the press point is raised is a threshold on the asked depth.\<close>

lemma he_raised_threshold:
  assumes "\<not> full \<le> rest"
  obtains t where "\<And>pct. he_raised s rest full floors pct = Some (he_counts (uint (full - rest)) pct < t)"
proof -
  define t where "t =
    (let width = uint (full - rest);
         (rest_floor, move_floor, legacy) =
           (case floors of
              Some (r, m) \<Rightarrow>
                if r > 0 \<and> m > 0 then
                  (if allow_below_noise_floor s then (1, 1, False) else (uint r, uint m, False))
                else (32, 32, True)
            | None \<Rightarrow> (32, 32, True));
         top = max (he_counts width (he_top_reset s)) rest_floor;
         hyst = max (he_counts width (release_hyst s)) move_floor
     in (if legacy \<or> rt_mode s = RtContinuous then top else rest_floor) + hyst)"
  have "he_raised s rest full floors pct = Some (he_counts (uint (full - rest)) pct < t)" for pct
    using assms by (auto simp: he_raised_def he_effective_def t_def Let_def less_max_iff_disj
        split: option.split prod.split)
  then show thesis by (rule that)
qed

lemma he_counts_mono: "0 \<le> w \<Longrightarrow> p \<le> q \<Longrightarrow> he_counts w p \<le> he_counts w q"
  unfolding he_counts_def
  by (intro zdiv_mono1 add_right_mono mult_left_mono min.mono) (simp_all add: word_le_def)

text \<open>
  With a usable calibration the answer exists, every smaller setting would be raised by the
  pad, and the answer and everything above it is used as is - unless the answer is the whole
  travel, which the search returns without looking at it.
\<close>

lemma he_min_actuation_facts:
  "(he_min_actuation s rest full floors = None \<longleftrightarrow> full \<le> rest)
    \<and> (\<forall>m. he_min_actuation s rest full floors = Some m \<longrightarrow> m \<le> 1000
        \<and> (\<forall>p < m. he_raised s rest full floors p = Some True)
        \<and> (m < 1000 \<longrightarrow> (\<forall>p \<ge> m. he_raised s rest full floors p = Some False)))"
proof (cases "full \<le> rest")
  case True
  then show ?thesis by (simp add: he_min_actuation_def he_raised_def he_effective_def)
next
  case False
  then obtain t where t: "\<And>pct. he_raised s rest full floors pct = Some (he_counts (uint (full - rest)) pct < t)"
    using he_raised_threshold by blast
  let ?r = "he_raised s rest full floors" and ?n = "he_search (he_raised s rest full floors) 0 1000"
  have down: "?r p = Some True" if "p \<le> q" "?r q = Some True" for p q
    using that he_counts_mono [of "uint (full - rest)" p q] by (simp add: t)
  have nat_le: "(of_nat i :: u32) \<le> of_nat j" if "i \<le> j" "j \<le> 1000" for i j
    using that by (simp add: word_le_nat_alt unat_of_nat)
  have s: "?n \<le> 1000" "\<forall>i < ?n. ?r (of_nat i) = Some True" "?n < 1000 \<longrightarrow> ?r (of_nat ?n) \<noteq> Some True"
    using he_search_least [of 0 1000 ?r] down nat_le by (metis le0)+
  have un: "unat (of_nat ?n :: u32) = ?n" using s(1) by (simp add: unat_of_nat)
  have below: "?r p = Some True" if "p < of_nat ?n" for p
  proof -
    have "unat p < ?n" using that un by (simp add: word_less_nat_alt)
    with s(2) have "?r (of_nat (unat p)) = Some True" by blast
    then show ?thesis by simp
  qed
  have above: "?r p = Some False" if "?n < 1000" "of_nat ?n \<le> p" for p
    using that s(3) down [of "of_nat ?n" p] by (auto simp: t)
  have "he_min_actuation s rest full floors = Some (of_nat ?n)"
    by (simp add: he_min_actuation_def t)
  moreover have "(of_nat ?n :: u32) \<le> 1000" "of_nat ?n < (1000 :: u32) \<longleftrightarrow> ?n < 1000"
    using s(1) un by (simp_all add: word_le_nat_alt word_less_nat_alt)
  ultimately show ?thesis using False below above by simp
qed

text \<open>
  With a usable calibration the least kept actuation is found: every smaller setting would be
  raised by the pad, and it and everything above it is used as is - unless it is the whole travel,
  which the search returns without looking at it.
\<close>

theorem he_min_actuation_least:
  "(he_min_actuation s rest full floors = None \<longleftrightarrow> full \<le> rest)
    \<and> (\<forall>m. he_min_actuation s rest full floors = Some m \<longrightarrow> m \<le> 1000
        \<and> (\<forall>p < m. he_raised s rest full floors p = Some True)
        \<and> (m < 1000 \<longrightarrow> (\<forall>p \<ge> m. he_raised s rest full floors p = Some False)))"
  by (rule he_min_actuation_facts)

text \<open>
  The whole travel can be returned although the pad raises it as well: here the key is asked to
  release a full travel above where it presses.
\<close>

lemma he_min_actuation_may_be_raised:
  "he_min_actuation (default_he_key\<lparr>release_hyst := 1000\<rparr>) 0 1000 (Some (10, 10)) = Some 1000
    \<and> he_raised (default_he_key\<lparr>release_hyst := 1000\<rparr>) 0 1000 (Some (10, 10)) 1000 = Some True"
proof -
  let ?s = "default_he_key\<lparr>release_hyst := 1000\<rparr>"
  have r: "he_raised ?s 0 1000 (Some (10, 10)) p = Some True" if "p \<le> 1000" for p
  proof -
    have "uint p \<le> 1000" using that by (simp add: word_le_def)
    then show ?thesis
      by (simp add: he_raised_def he_effective_def he_counts_def default_he_key_def Let_def)
  qed
  obtain m where m: "he_min_actuation ?s 0 1000 (Some (10, 10)) = Some m"
    using he_min_actuation_facts [of ?s 0 1000 "Some (10, 10)"] by (cases "he_min_actuation ?s 0 1000 (Some (10, 10))") auto
  with he_min_actuation_facts [of ?s 0 1000 "Some (10, 10)"] have "m \<le> 1000"
    "m < 1000 \<longrightarrow> he_raised ?s 0 1000 (Some (10, 10)) m = Some False" by auto
  then have "m = 1000" using r [of m] by (auto simp: order_le_less)
  with m r [of 1000] show ?thesis by simp
qed

theorem he_min_actuation_least_witness:
  "\<exists>m. he_min_actuation default_he_key 100 1100 (Some (10, 10)) = Some m \<and> m \<le> 1000
     \<and> (\<forall>p < m. he_raised default_he_key 100 1100 (Some (10, 10)) p = Some True)"
proof -
  obtain m where "he_min_actuation default_he_key 100 1100 (Some (10, 10)) = Some m"
    using he_min_actuation_least [of default_he_key 100 1100 "Some (10, 10)"]
    by (cases "he_min_actuation default_he_key 100 1100 (Some (10, 10))") auto
  then show ?thesis
    using he_min_actuation_least [of default_he_key 100 1100 "Some (10, 10)"] by auto
qed

section \<open>Valid configurations\<close>

lemma check_ok [simp]: "check b e = Inr () \<longleftrightarrow> \<not> b"
  by (simp add: check_def)

text \<open>What a validated configuration is.\<close>

definition swipe_ok :: "swipe_action \<Rightarrow> u32 \<Rightarrow> bool" where
  "swipe_ok a k \<longleftrightarrow> (k = 0 \<or> 0x04 \<le> k \<and> k \<le> 0xE7) \<and> (a = SwipeKey \<longrightarrow> k \<noteq> 0)"

definition he_ok :: "he_key_config \<Rightarrow> bool" where
  "he_ok h \<longleftrightarrow> actuation h \<le> 1000 \<and> release_hyst h \<le> 1000 \<and> he_top_reset h \<le> 1000
     \<and> rt_press h \<le> 1000 \<and> rt_release h \<le> 1000 \<and> bottom_dead_zone h \<le> 1000"

definition gpios_ok :: "u32 \<Rightarrow> u32 \<Rightarrow> bool" where
  "gpios_ok a b \<longleftrightarrow> a \<noteq> b \<and> a \<in> gpio ` set KEY_PINS \<and> b \<in> gpio ` set KEY_PINS"

definition config_ok :: "device_config \<Rightarrow> bool" where
  "config_ok c \<longleftrightarrow>
     (0x04 \<le> key1_hid_usage c \<and> key1_hid_usage c \<le> 0xE7)
     \<and> (0x04 \<le> key2_hid_usage c \<and> key2_hid_usage c \<le> 0xE7)
     \<and> (500 \<le> debounce_us c \<and> debounce_us c \<le> 20000) \<and> brightness c \<le> 100
     \<and> (display_sleep_seconds c = 0 \<or> 10 \<le> display_sleep_seconds c \<and> display_sleep_seconds c \<le> 86400)
     \<and> (1 \<le> gameplay_display_hz c \<and> gameplay_display_hz c \<le> 30)
     \<and> swipe_ok (swipe_left_action c) (swipe_left_key c) \<and> swipe_ok (swipe_right_action c) (swipe_right_key c)
     \<and> swipe_ok (swipe_up_action c) (swipe_up_key c) \<and> swipe_ok (swipe_down_action c) (swipe_down_key c)
     \<and> (swipe_up_modifiers c \<le> 0xFF \<and> swipe_down_modifiers c \<le> 0xFF
         \<and> swipe_left_modifiers c \<le> 0xFF \<and> swipe_right_modifiers c \<le> 0xFF)
     \<and> (\<forall>h \<in> set_option (key1_he c). he_ok h) \<and> (\<forall>h \<in> set_option (key2_he c). he_ok h)
     \<and> gpios_ok (key1_gpio c) (key2_gpio c)"

lemma validate_swipe_ok: "validate_swipe side a k = Inr () \<longleftrightarrow> swipe_ok a k"
  by (auto simp: validate_swipe_def swipe_ok_def)

lemma check_modifiers_ok: "check_modifiers ms = Inr () \<longleftrightarrow> (\<forall>(s, m) \<in> set ms. m \<le> 0xFF)"
  by (induction ms rule: check_modifiers.induct) (auto simp: not_less)

lemma validate_he_ok:
  "(case h of Some he \<Rightarrow> validate_he he n | None \<Rightarrow> Inr ()) = Inr () \<longleftrightarrow> (\<forall>x \<in> set_option h. he_ok x)"
  by (cases h) (auto simp: validate_he_def he_ok_def)

lemma find_key_pin_iff: "find_key_pin g \<noteq> None \<longleftrightarrow> g \<in> gpio ` set KEY_PINS"
  by (auto simp: find_key_pin_def find_None_iff)

lemma validate_gpios_ok: "validate_key_gpios a b = Inr () \<longleftrightarrow> gpios_ok a b"
  using find_key_pin_iff [of a] find_key_pin_iff [of b]
  by (auto simp: validate_key_gpios_def gpios_ok_def)

lemma one_le_iff: "1 \<le> x \<longleftrightarrow> x \<noteq> (0 :: u32)"
  using word_less_1 [of x] by (simp add: not_less [symmetric])

lemma then_unit: "and_then r f = Inr () \<longleftrightarrow> r = Inr () \<and> f () = Inr ()" for r :: "('e, unit) result"
  by (cases r) auto

lemma validate_config_ok: "validate_config c = Inr () \<longleftrightarrow> config_ok c"
  unfolding validate_config_def config_ok_def then_unit check_ok validate_swipe_ok validate_he_ok
    validate_gpios_ok check_modifiers_ok
  by (simp add: not_less not_le one_le_iff)

text \<open>A configuration passes validation exactly when every setting is in its range, every
  key swipe has a key, and the two keys are on two pins the board has.\<close>

theorem validate_config_iff: "validate_config c = Inr () \<longleftrightarrow> config_ok c"
  by (rule validate_config_ok)

lemma default_config_ok: "config_ok default_config"
  by (simp add: config_ok_def default_config_def swipe_ok_def gpios_ok_def DEFAULT_SWIPE_LEFT_def
      DEFAULT_SWIPE_RIGHT_def DEFAULT_SWIPE_UP_def DEFAULT_SWIPE_DOWN_def DEFAULT_KEY1_GPIO_def
      DEFAULT_KEY2_GPIO_def KEY_PINS_def)

section \<open>Backups of valid configurations\<close>

lemma config_of_new_backup:
  "config_of_backup (bk_config (new_backup now info counters c)) (key1_hid_usage c) (key2_hid_usage c)
     = c\<lparr>tosu_endpoint := tosu_endpoint default_config, key1_he := None, key2_he := None\<rparr>"
  by (cases c) (simp add: config_of_backup_def new_backup_def default_config_def)

text \<open>
  The backup of a valid configuration is accepted again at any later time on the same board,
  and stands for the same configuration but for the tosu address and the Hall Effect settings,
  which a backup does not hold.
\<close>

theorem backup_roundtrip:
  assumes "config_ok c" "board_profile info = BOARD_PROFILE" "now \<le> later"
    and "unat (lifetime_key1 counters) \<le> I64_MAX" "unat (lifetime_key2 counters) \<le> I64_MAX"
  shows "validate_backup later (new_backup now info counters c) = Inr ()
    \<and> (\<exists>k1 k2. char_to_hid_usage (bk_key1 (bk_config (new_backup now info counters c))) = Some k1
        \<and> char_to_hid_usage (bk_key2 (bk_config (new_backup now info counters c))) = Some k2
        \<and> config_of_backup (bk_config (new_backup now info counters c)) k1 k2
            = c\<lparr>tosu_endpoint := tosu_endpoint default_config, key1_he := None, key2_he := None\<rparr>)"
proof -
  let ?b = "new_backup now info counters c"
  have keys: "char_to_hid_usage (bk_key1 (bk_config ?b)) = Some (key1_hid_usage c)"
    "char_to_hid_usage (bk_key2 (bk_config ?b)) = Some (key2_hid_usage c)"
    by (simp_all add: new_backup_def hid_usage_roundtrip')
  have "config_ok (config_of_backup (bk_config ?b) (key1_hid_usage c) (key2_hid_usage c))"
    using assms(1) unfolding config_of_new_backup by (simp add: config_ok_def)
  moreover have "format_version ?b = 1" "bk_board_profile ?b = BOARD_PROFILE" "exported_at ?b = now"
    "bk_lifetime_key1 ?b = lifetime_key1 counters" "bk_lifetime_key2 ?b = lifetime_key2 counters"
    using assms(2) by (simp_all add: new_backup_def)
  moreover have "now \<le> later + ONE_DAY" using assms(3) by (simp add: ONE_DAY_def)
  ultimately have "validate_backup later ?b = Inr ()"
    unfolding validate_backup_def then_unit check_ok
    using assms keys by (simp add: validate_config_ok not_less)
  then show ?thesis using keys config_of_new_backup by blast
qed

theorem backup_roundtrip_witness:
  "validate_backup 5 (new_backup 0 \<lparr>device_id = ''d'', board_profile = BOARD_PROFILE,
      firmware_version = [], protocol_version = 1, running_partition = None, he_input = False,
      he_calibration = False\<rparr>
    \<lparr>counter_device = ''d'', counter_generation = 1, lifetime_key1 = 7, lifetime_key2 = 9,
      map_key1 = 0, map_key2 = 0\<rparr> default_config) = Inr ()"
  by (rule backup_roundtrip [THEN conjunct1]) (simp_all add: default_config_ok I64_MAX_def)

end
