(* ===== verification/Sources.thy ===== *)
theory Sources
  imports Complex_Main Prelude
begin

text \<open>
  The catalogue of data sources a widget can show (\<open>crates/opad-model/src/ui_source.rs\<close>)
  and the pad's diagnostic events (\<open>crates/opad-model/src/diag.rs\<close>). The numbers are wire
  format. A value is a rational here, an \<open>f64\<close> in the code.
\<close>

section \<open>Values\<close>

datatype source_value = Number rat | Text string | Clear

type_synonym ui_value = "u8 \<times> source_value"

section \<open>Source ids\<close>

definition MAP_TITLE :: u8 where "MAP_TITLE = 1"
definition MAP_ARTIST :: u8 where "MAP_ARTIST = 2"
definition MAP_MAPPER :: u8 where "MAP_MAPPER = 3"
definition MAP_DIFFICULTY :: u8 where "MAP_DIFFICULTY = 4"
definition MAP_STATUS :: u8 where "MAP_STATUS = 5"
definition MAP_STARS :: u8 where "MAP_STARS = 6"
definition MAP_STARS_LIVE :: u8 where "MAP_STARS_LIVE = 7"
definition MAP_AR :: u8 where "MAP_AR = 8"
definition MAP_CS :: u8 where "MAP_CS = 9"
definition MAP_OD :: u8 where "MAP_OD = 10"
definition MAP_HP :: u8 where "MAP_HP = 11"
definition MAP_BPM :: u8 where "MAP_BPM = 12"
definition MAP_OBJECTS :: u8 where "MAP_OBJECTS = 13"
definition MAP_MAX_COMBO :: u8 where "MAP_MAX_COMBO = 14"
definition MAP_LENGTH :: u8 where "MAP_LENGTH = 15"
definition MAP_TIME_ELAPSED :: u8 where "MAP_TIME_ELAPSED = 16"
definition MAP_TIME_REMAINING :: u8 where "MAP_TIME_REMAINING = 17"
definition MAP_PROGRESS :: u8 where "MAP_PROGRESS = 18"
definition MAP_KIAI :: u8 where "MAP_KIAI = 19"
definition PLAY_PP :: u8 where "PLAY_PP = 20"
definition PLAY_PP_FC :: u8 where "PLAY_PP_FC = 21"
definition PLAY_PP_MAX :: u8 where "PLAY_PP_MAX = 22"
definition PLAY_ACCURACY :: u8 where "PLAY_ACCURACY = 23"
definition PLAY_SCORE :: u8 where "PLAY_SCORE = 24"
definition PLAY_COMBO :: u8 where "PLAY_COMBO = 25"
definition PLAY_MAX_COMBO :: u8 where "PLAY_MAX_COMBO = 26"
definition PLAY_GRADE :: u8 where "PLAY_GRADE = 27"
definition PLAY_HITS_300 :: u8 where "PLAY_HITS_300 = 28"
definition PLAY_HITS_100 :: u8 where "PLAY_HITS_100 = 29"
definition PLAY_HITS_50 :: u8 where "PLAY_HITS_50 = 30"
definition PLAY_HITS_MISS :: u8 where "PLAY_HITS_MISS = 31"
definition PLAY_SLIDER_BREAKS :: u8 where "PLAY_SLIDER_BREAKS = 32"
definition PLAY_UR :: u8 where "PLAY_UR = 33"
definition PLAY_HEALTH :: u8 where "PLAY_HEALTH = 34"
definition PLAY_MODS :: u8 where "PLAY_MODS = 35"
definition PLAY_PLAYER :: u8 where "PLAY_PLAYER = 36"
definition PLAY_FAILED :: u8 where "PLAY_FAILED = 37"
definition PROFILE_NAME :: u8 where "PROFILE_NAME = 40"
definition PROFILE_RANK :: u8 where "PROFILE_RANK = 41"
definition PROFILE_PP :: u8 where "PROFILE_PP = 43"
definition PROFILE_ACCURACY :: u8 where "PROFILE_ACCURACY = 44"
definition PROFILE_PLAYCOUNT :: u8 where "PROFILE_PLAYCOUNT = 45"
definition PROFILE_LEVEL :: u8 where "PROFILE_LEVEL = 46"
definition PROFILE_COUNTRY :: u8 where "PROFILE_COUNTRY = 47"
definition SESSION_PLAYTIME :: u8 where "SESSION_PLAYTIME = 48"
definition SESSION_PLAYCOUNT :: u8 where "SESSION_PLAYCOUNT = 49"
definition GAME_STATE :: u8 where "GAME_STATE = 50"
definition PLAY_PPM :: u8 where "PLAY_PPM = 51"
definition PLAY_PPM_AVG :: u8 where "PLAY_PPM_AVG = 52"
definition PLAY_PPM_PEAK :: u8 where "PLAY_PPM_PEAK = 53"
definition PLAY_K1_PPM :: u8 where "PLAY_K1_PPM = 54"
definition PLAY_K1_PPM_AVG :: u8 where "PLAY_K1_PPM_AVG = 55"
definition PLAY_K1_PPM_PEAK :: u8 where "PLAY_K1_PPM_PEAK = 56"
definition PLAY_K2_PPM :: u8 where "PLAY_K2_PPM = 57"
definition PLAY_K2_PPM_AVG :: u8 where "PLAY_K2_PPM_AVG = 58"
definition PLAY_K2_PPM_PEAK :: u8 where "PLAY_K2_PPM_PEAK = 59"
definition PAD_K1_MAP :: u8 where "PAD_K1_MAP = 60"
definition PAD_K2_MAP :: u8 where "PAD_K2_MAP = 61"
definition PAD_TOTAL_MAP :: u8 where "PAD_TOTAL_MAP = 62"
definition PAD_K1_LIFETIME :: u8 where "PAD_K1_LIFETIME = 63"
definition PAD_K2_LIFETIME :: u8 where "PAD_K2_LIFETIME = 64"
definition PAD_TOTAL_LIFETIME :: u8 where "PAD_TOTAL_LIFETIME = 65"
definition PAD_KPS :: u8 where "PAD_KPS = 66"
definition PAD_K1_LABEL :: u8 where "PAD_K1_LABEL = 67"
definition PAD_K2_LABEL :: u8 where "PAD_K2_LABEL = 68"
definition PAD_CLOCK :: u8 where "PAD_CLOCK = 69"
definition PAD_DATE :: u8 where "PAD_DATE = 70"
definition PAD_UPTIME :: u8 where "PAD_UPTIME = 71"
definition PAD_K1_DOWN :: u8 where "PAD_K1_DOWN = 72"
definition PAD_K2_DOWN :: u8 where "PAD_K2_DOWN = 73"
definition HISTORY_PPM_AVG :: u8 where "HISTORY_PPM_AVG = 74"
definition HISTORY_PPM_PEAK :: u8 where "HISTORY_PPM_PEAK = 75"
definition HISTORY_K1_PPM_AVG :: u8 where "HISTORY_K1_PPM_AVG = 76"
definition HISTORY_K1_PPM_PEAK :: u8 where "HISTORY_K1_PPM_PEAK = 77"
definition HISTORY_K2_PPM_AVG :: u8 where "HISTORY_K2_PPM_AVG = 78"
definition HISTORY_K2_PPM_PEAK :: u8 where "HISTORY_K2_PPM_PEAK = 79"
definition STATUS_PC :: u8 where "STATUS_PC = 80"
definition STATUS_TOSU :: u8 where "STATUS_TOSU = 81"
definition STATUS_OSU :: u8 where "STATUS_OSU = 82"
definition HISTORY_PERIOD :: u8 where "HISTORY_PERIOD = 83"
definition PLAY_PPM_SONG :: u8 where "PLAY_PPM_SONG = 84"
definition HISTORY_PPM_SONG :: u8 where "HISTORY_PPM_SONG = 85"
definition PLAY_PPM_SONG_PEAK :: u8 where "PLAY_PPM_SONG_PEAK = 86"
definition HISTORY_PPM_SONG_PEAK :: u8 where "HISTORY_PPM_SONG_PEAK = 87"

text \<open>Every source, with its stable name.\<close>

definition ALL_SOURCES :: "(u8 \<times> string) list" where
  "ALL_SOURCES =
    [(MAP_TITLE, ''map.title''),
     (MAP_ARTIST, ''map.artist''),
     (MAP_MAPPER, ''map.mapper''),
     (MAP_DIFFICULTY, ''map.difficulty''),
     (MAP_STATUS, ''map.status''),
     (MAP_STARS, ''map.stars''),
     (MAP_STARS_LIVE, ''map.stars_live''),
     (MAP_AR, ''map.ar''),
     (MAP_CS, ''map.cs''),
     (MAP_OD, ''map.od''),
     (MAP_HP, ''map.hp''),
     (MAP_BPM, ''map.bpm''),
     (MAP_OBJECTS, ''map.objects''),
     (MAP_MAX_COMBO, ''map.max_combo''),
     (MAP_LENGTH, ''map.length''),
     (MAP_TIME_ELAPSED, ''map.time_elapsed''),
     (MAP_TIME_REMAINING, ''map.time_remaining''),
     (MAP_PROGRESS, ''map.progress''),
     (MAP_KIAI, ''map.kiai''),
     (PLAY_PP, ''play.pp''),
     (PLAY_PP_FC, ''play.pp_fc''),
     (PLAY_PP_MAX, ''play.pp_max''),
     (PLAY_ACCURACY, ''play.accuracy''),
     (PLAY_SCORE, ''play.score''),
     (PLAY_COMBO, ''play.combo''),
     (PLAY_MAX_COMBO, ''play.max_combo''),
     (PLAY_GRADE, ''play.grade''),
     (PLAY_HITS_300, ''play.hits_300''),
     (PLAY_HITS_100, ''play.hits_100''),
     (PLAY_HITS_50, ''play.hits_50''),
     (PLAY_HITS_MISS, ''play.hits_miss''),
     (PLAY_SLIDER_BREAKS, ''play.slider_breaks''),
     (PLAY_UR, ''play.ur''),
     (PLAY_HEALTH, ''play.health''),
     (PLAY_MODS, ''play.mods''),
     (PLAY_PLAYER, ''play.player''),
     (PLAY_FAILED, ''play.failed''),
     (PROFILE_NAME, ''profile.name''),
     (PROFILE_RANK, ''profile.rank''),
     (PROFILE_PP, ''profile.pp''),
     (PROFILE_ACCURACY, ''profile.accuracy''),
     (PROFILE_PLAYCOUNT, ''profile.playcount''),
     (PROFILE_LEVEL, ''profile.level''),
     (PROFILE_COUNTRY, ''profile.country''),
     (SESSION_PLAYTIME, ''session.playtime''),
     (SESSION_PLAYCOUNT, ''session.playcount''),
     (GAME_STATE, ''game.state''),
     (PLAY_PPM, ''play.ppm''),
     (PLAY_PPM_AVG, ''play.ppm_avg''),
     (PLAY_PPM_PEAK, ''play.ppm_peak''),
     (PLAY_K1_PPM, ''play.k1_ppm''),
     (PLAY_K1_PPM_AVG, ''play.k1_ppm_avg''),
     (PLAY_K1_PPM_PEAK, ''play.k1_ppm_peak''),
     (PLAY_K2_PPM, ''play.k2_ppm''),
     (PLAY_K2_PPM_AVG, ''play.k2_ppm_avg''),
     (PLAY_K2_PPM_PEAK, ''play.k2_ppm_peak''),
     (PAD_K1_MAP, ''pad.k1_map''),
     (PAD_K2_MAP, ''pad.k2_map''),
     (PAD_TOTAL_MAP, ''pad.total_map''),
     (PAD_K1_LIFETIME, ''pad.k1_lifetime''),
     (PAD_K2_LIFETIME, ''pad.k2_lifetime''),
     (PAD_TOTAL_LIFETIME, ''pad.total_lifetime''),
     (PAD_KPS, ''pad.kps''),
     (PAD_K1_LABEL, ''pad.k1_label''),
     (PAD_K2_LABEL, ''pad.k2_label''),
     (PAD_CLOCK, ''pad.clock''),
     (PAD_DATE, ''pad.date''),
     (PAD_UPTIME, ''pad.uptime''),
     (PAD_K1_DOWN, ''pad.k1_down''),
     (PAD_K2_DOWN, ''pad.k2_down''),
     (HISTORY_PPM_AVG, ''history.ppm_avg''),
     (HISTORY_PPM_PEAK, ''history.ppm_peak''),
     (HISTORY_K1_PPM_AVG, ''history.k1_ppm_avg''),
     (HISTORY_K1_PPM_PEAK, ''history.k1_ppm_peak''),
     (HISTORY_K2_PPM_AVG, ''history.k2_ppm_avg''),
     (HISTORY_K2_PPM_PEAK, ''history.k2_ppm_peak''),
     (STATUS_PC, ''status.pc''),
     (STATUS_TOSU, ''status.tosu''),
     (STATUS_OSU, ''status.osu''),
     (HISTORY_PERIOD, ''history.period''),
     (PLAY_PPM_SONG, ''play.ppm_song''),
     (HISTORY_PPM_SONG, ''history.ppm_song''),
     (PLAY_PPM_SONG_PEAK, ''play.ppm_song_peak''),
     (HISTORY_PPM_SONG_PEAK, ''history.ppm_song_peak'')]"

lemmas source_id_defs =
  MAP_TITLE_def MAP_ARTIST_def MAP_MAPPER_def MAP_DIFFICULTY_def MAP_STATUS_def MAP_STARS_def
  MAP_STARS_LIVE_def MAP_AR_def MAP_CS_def MAP_OD_def MAP_HP_def MAP_BPM_def MAP_OBJECTS_def
  MAP_MAX_COMBO_def MAP_LENGTH_def MAP_TIME_ELAPSED_def MAP_TIME_REMAINING_def MAP_PROGRESS_def
  MAP_KIAI_def PLAY_PP_def PLAY_PP_FC_def PLAY_PP_MAX_def PLAY_ACCURACY_def PLAY_SCORE_def
  PLAY_COMBO_def PLAY_MAX_COMBO_def PLAY_GRADE_def PLAY_HITS_300_def PLAY_HITS_100_def
  PLAY_HITS_50_def PLAY_HITS_MISS_def PLAY_SLIDER_BREAKS_def PLAY_UR_def PLAY_HEALTH_def
  PLAY_MODS_def PLAY_PLAYER_def PLAY_FAILED_def PROFILE_NAME_def PROFILE_RANK_def PROFILE_PP_def
  PROFILE_ACCURACY_def PROFILE_PLAYCOUNT_def PROFILE_LEVEL_def PROFILE_COUNTRY_def
  SESSION_PLAYTIME_def SESSION_PLAYCOUNT_def GAME_STATE_def PLAY_PPM_def PLAY_PPM_AVG_def
  PLAY_PPM_PEAK_def PLAY_K1_PPM_def PLAY_K1_PPM_AVG_def PLAY_K1_PPM_PEAK_def PLAY_K2_PPM_def
  PLAY_K2_PPM_AVG_def PLAY_K2_PPM_PEAK_def PAD_K1_MAP_def PAD_K2_MAP_def PAD_TOTAL_MAP_def
  PAD_K1_LIFETIME_def PAD_K2_LIFETIME_def PAD_TOTAL_LIFETIME_def PAD_KPS_def PAD_K1_LABEL_def
  PAD_K2_LABEL_def PAD_CLOCK_def PAD_DATE_def PAD_UPTIME_def PAD_K1_DOWN_def PAD_K2_DOWN_def
  HISTORY_PPM_AVG_def HISTORY_PPM_PEAK_def HISTORY_K1_PPM_AVG_def HISTORY_K1_PPM_PEAK_def
  HISTORY_K2_PPM_AVG_def HISTORY_K2_PPM_PEAK_def STATUS_PC_def STATUS_TOSU_def STATUS_OSU_def
  HISTORY_PERIOD_def PLAY_PPM_SONG_def HISTORY_PPM_SONG_def PLAY_PPM_SONG_PEAK_def
  HISTORY_PPM_SONG_PEAK_def

section \<open>Diagnostic events\<close>

definition DIAG_EVENT_NONE :: u32 where "DIAG_EVENT_NONE = 0"
definition DIAG_EVENT_BOOT :: u32 where "DIAG_EVENT_BOOT = 1"
definition DIAG_EVENT_HID_MOUNTED :: u32 where "DIAG_EVENT_HID_MOUNTED = 2"
definition DIAG_EVENT_HID_UNMOUNTED :: u32 where "DIAG_EVENT_HID_UNMOUNTED = 3"
definition DIAG_EVENT_HID_SUSPENDED :: u32 where "DIAG_EVENT_HID_SUSPENDED = 4"
definition DIAG_EVENT_CDC_OPENED :: u32 where "DIAG_EVENT_CDC_OPENED = 5"
definition DIAG_EVENT_CDC_CLOSED :: u32 where "DIAG_EVENT_CDC_CLOSED = 6"
definition DIAG_EVENT_NVS_INIT_FAILED :: u32 where "DIAG_EVENT_NVS_INIT_FAILED = 7"
definition DIAG_EVENT_NVS_ERASED :: u32 where "DIAG_EVENT_NVS_ERASED = 8"
definition DIAG_EVENT_LCD_INIT_FAILED :: u32 where "DIAG_EVENT_LCD_INIT_FAILED = 9"
definition DIAG_EVENT_DECODE_FAILED :: u32 where "DIAG_EVENT_DECODE_FAILED = 10"
definition DIAG_EVENT_FRAME_TOO_LARGE :: u32 where "DIAG_EVENT_FRAME_TOO_LARGE = 11"
definition DIAG_EVENT_CONFIG_REJECTED :: u32 where "DIAG_EVENT_CONFIG_REJECTED = 12"
definition DIAG_EVENT_COUNTER_SYNC_REJECTED :: u32 where "DIAG_EVENT_COUNTER_SYNC_REJECTED = 13"
definition DIAG_EVENT_LAYOUT_REJECTED :: u32 where "DIAG_EVENT_LAYOUT_REJECTED = 14"
definition DIAG_EVENT_DEFERRED_WRITE_FLUSHED :: u32 where "DIAG_EVENT_DEFERRED_WRITE_FLUSHED = 15"
definition DIAG_EVENT_DISPLAY_SLEEP :: u32 where "DIAG_EVENT_DISPLAY_SLEEP = 16"
definition DIAG_EVENT_DISPLAY_WAKE :: u32 where "DIAG_EVENT_DISPLAY_WAKE = 17"
definition DIAG_EVENT_LATENCY_OUTLIER :: u32 where "DIAG_EVENT_LATENCY_OUTLIER = 18"
definition DIAG_EVENT_CDC_WRITE_DROPPED :: u32 where "DIAG_EVENT_CDC_WRITE_DROPPED = 19"
definition DIAG_EVENT_BUFFER_OVERFLOW :: u32 where "DIAG_EVENT_BUFFER_OVERFLOW = 20"
definition DIAG_EVENT_UNKNOWN_HOST_MSG :: u32 where "DIAG_EVENT_UNKNOWN_HOST_MSG = 21"

lemmas diag_event_defs =
  DIAG_EVENT_NONE_def DIAG_EVENT_BOOT_def DIAG_EVENT_HID_MOUNTED_def DIAG_EVENT_HID_UNMOUNTED_def
  DIAG_EVENT_HID_SUSPENDED_def DIAG_EVENT_CDC_OPENED_def DIAG_EVENT_CDC_CLOSED_def
  DIAG_EVENT_NVS_INIT_FAILED_def DIAG_EVENT_NVS_ERASED_def DIAG_EVENT_LCD_INIT_FAILED_def
  DIAG_EVENT_DECODE_FAILED_def DIAG_EVENT_FRAME_TOO_LARGE_def DIAG_EVENT_CONFIG_REJECTED_def
  DIAG_EVENT_COUNTER_SYNC_REJECTED_def DIAG_EVENT_LAYOUT_REJECTED_def
  DIAG_EVENT_DEFERRED_WRITE_FLUSHED_def DIAG_EVENT_DISPLAY_SLEEP_def DIAG_EVENT_DISPLAY_WAKE_def
  DIAG_EVENT_LATENCY_OUTLIER_def DIAG_EVENT_CDC_WRITE_DROPPED_def DIAG_EVENT_BUFFER_OVERFLOW_def
  DIAG_EVENT_UNKNOWN_HOST_MSG_def

definition reset_reason_to_str :: "u32 \<Rightarrow> string" where
  "reset_reason_to_str r =
     (if r = 1 then ''POWERON_RESET''
      else if r = 2 then ''EXT_RESET''
      else if r = 3 then ''SW_RESET''
      else if r = 4 then ''PANIC''
      else if r = 5 then ''INT_WDT''
      else if r = 6 then ''TASK_WDT''
      else if r = 7 then ''WDT''
      else if r = 8 then ''DEEPSLEEP''
      else if r = 9 then ''BROWNOUT''
      else if r = 10 then ''SDIO''
      else if r = 11 then ''USB''
      else if r = 12 then ''JTAG''
      else if r = 13 then ''EFUSE''
      else if r = 14 then ''PWR_GLITCH''
      else if r = 15 then ''CPU_LOCKUP''
      else ''UNKNOWN'')"

text \<open>Rust's \<open>{:04x}\<close>.\<close>

definition lower_hex :: "nat \<Rightarrow> char" where
  "lower_hex n = (if n < 10 then char_of (48 + n) else char_of (87 + n))"

fun hex_lower_digits :: "nat \<Rightarrow> string" where
  "hex_lower_digits n = (if n < 16 then [lower_hex n] else hex_lower_digits (n div 16) @ [lower_hex (n mod 16)])"

declare hex_lower_digits.simps [simp del]

definition hex04 :: "nat \<Rightarrow> string" where
  "hex04 n = (let d = hex_lower_digits n in replicate (4 - length d) CHR ''0'' @ d)"

definition show_u32 :: "u32 \<Rightarrow> string" where "show_u32 x = dec_digits (unat x)"

text \<open>The micro sign is two bytes of UTF-8.\<close>

definition MICRO :: string where "MICRO = [char_of (194 :: nat), char_of (181 :: nat)]"

definition format_diag_event :: "u32 \<Rightarrow> u32 \<Rightarrow> u32 \<Rightarrow> string" where
  "format_diag_event event_id arg0 arg1 =
     (if event_id = DIAG_EVENT_BOOT then ''Device boot (reset reason: '' @ reset_reason_to_str arg0 @ '' ['' @ show_u32 arg0 @ ''])''
      else if event_id = DIAG_EVENT_HID_MOUNTED then ''USB HID mounted''
      else if event_id = DIAG_EVENT_HID_UNMOUNTED then ''USB HID unmounted''
      else if event_id = DIAG_EVENT_HID_SUSPENDED then ''USB HID suspended''
      else if event_id = DIAG_EVENT_CDC_OPENED then ''CDC serial port opened''
      else if event_id = DIAG_EVENT_CDC_CLOSED then ''CDC serial port closed''
      else if event_id = DIAG_EVENT_NVS_INIT_FAILED then ''NVS initialization failed (esp_err: 0x'' @ hex04 (unat arg0) @ '')''
      else if event_id = DIAG_EVENT_NVS_ERASED then ''NVS flash partition erased/recovered''
      else if event_id = DIAG_EVENT_LCD_INIT_FAILED then ''LCD initialization failed (esp_err: 0x'' @ hex04 (unat arg0) @ '')''
      else if event_id = DIAG_EVENT_DECODE_FAILED then ''Protobuf frame decode failed (code: '' @ show_u32 arg0 @ '')''
      else if event_id = DIAG_EVENT_FRAME_TOO_LARGE then ''CDC RX frame exceeds max buffer (size: '' @ show_u32 arg0 @ '' bytes)''
      else if event_id = DIAG_EVENT_CONFIG_REJECTED then ''Device configuration rejected (reason code: '' @ show_u32 arg0 @ '')''
      else if event_id = DIAG_EVENT_COUNTER_SYNC_REJECTED then ''Counter sync rejected (reason code: '' @ show_u32 arg0 @ '')''
      else if event_id = DIAG_EVENT_LAYOUT_REJECTED then ''Screen layout rejected (screen_id: '' @ show_u32 arg0 @ '')''
      else if event_id = DIAG_EVENT_DEFERRED_WRITE_FLUSHED then ''Flushed '' @ show_u32 arg0 @ '' deferred flash writes to NVS''
      else if event_id = DIAG_EVENT_DISPLAY_SLEEP then ''Display entered sleep mode''
      else if event_id = DIAG_EVENT_DISPLAY_WAKE then ''Display woke up''
      else if event_id = DIAG_EVENT_LATENCY_OUTLIER then ''Key latency outlier detected: '' @ show_u32 arg0 @ '' '' @ MICRO @ ''s (count: '' @ show_u32 arg1 @ '')''
      else if event_id = DIAG_EVENT_CDC_WRITE_DROPPED then ''CDC write buffer dropped bytes (tried '' @ show_u32 arg0 @ '', dropped '' @ show_u32 arg1 @ '')''
      else if event_id = DIAG_EVENT_BUFFER_OVERFLOW then ''Diagnostic buffer overflow: '' @ show_u32 arg0 @ '' events dropped''
      else if event_id = DIAG_EVENT_UNKNOWN_HOST_MSG then ''Unhandled host message payload tag: '' @ show_u32 arg0
      else ''Unknown diagnostic event (id: '' @ show_u32 event_id @ '', arg0: '' @ show_u32 arg0
        @ '', arg1: '' @ show_u32 arg1 @ '')'')"

end
