(* ===== verification/Tap_Rate.thy ===== *)
theory Tap_Rate
  imports Complex_Main Sources
begin

text \<open>
  The player's tap rate: \<open>crates/opad-model/src/tap_rate.rs\<close>. Times are rational
  milliseconds and rates rational presses per minute: the calculation is the code's, done exactly,
  and the rounding of \<open>f64\<close> is not modelled. No division by zero happens (every divisor is
  guarded, or is a window's positive sum), so the special values of \<open>f64\<close> never arise from it.
  Counts are machine integers; the sums of counts wrap as in the release build.
\<close>

section \<open>Data\<close>

definition WINDOW_INTERVALS :: nat where "WINDOW_INTERVALS = 6"
definition STOP_GAP_MS :: rat where "STOP_GAP_MS = 600"
definition SEQUENCE_BREAK_MS :: rat where "SEQUENCE_BREAK_MS = 1000"
definition COARSE_PEAK_MIN_SPAN_MS :: rat where "COARSE_PEAK_MIN_SPAN_MS = 400"
definition SONG_HIT_MARGIN_MS :: rat where "SONG_HIT_MARGIN_MS = 200"
definition MIN_SONG_MS :: rat where "MIN_SONG_MS = 5000"
definition SONG_PEAK_WINDOW_MS :: rat where "SONG_PEAK_WINDOW_MS = 10000"
definition SONG_CLOCK_CARRY_MS :: rat where "SONG_CLOCK_CARRY_MS = 250"
definition MIN_RECORDED_PRESSES :: u32 where "MIN_RECORDED_PRESSES = 10"
definition DEFAULT_HISTORY_DAYS :: u32 where "DEFAULT_HISTORY_DAYS = 30"
definition HISTORY_PERIOD_CHOICES :: "u32 list" where "HISTORY_PERIOD_CHOICES = [7, 30, 90, 0]"
definition MAX_HISTORY_DAYS :: u32 where "MAX_HISTORY_DAYS = 3650"

definition ppm_from_interval_ms :: "rat \<Rightarrow> rat" where
  "ppm_from_interval_ms i = 60000 / i"

definition history_period_label :: "u32 \<Rightarrow> string" where
  "history_period_label days =
     (if days = 0 then ''All time''
      else if days = 1 then ''Last day''
      else ''Last '' @ dec_digits (unat days) @ '' days'')"

definition validate_history_days :: "u32 \<Rightarrow> (string, unit) result" where
  "validate_history_days days =
     (if days > MAX_HISTORY_DAYS
      then Inl (''History period must be at most '' @ dec_digits (unat MAX_HISTORY_DAYS)
             @ '' days (or 0 for all time)'')
      else Inr ())"

record channel_stats =
  current_ppm :: "rat option"
  average_ppm :: "rat option"
  peak_ppm :: "rat option"
  presses_count :: u32
  valid_intervals :: u32
  interval_ms_sum :: rat

definition no_channel :: channel_stats where
  "no_channel = \<lparr>current_ppm = None, average_ppm = None, peak_ppm = None, presses_count = 0,
     valid_intervals = 0, interval_ms_sum = 0\<rparr>"

record beatmap_ref =
  bm_title :: string
  bm_artist :: string
  bm_difficulty :: string
  bm_id :: "int option"
  bm_checksum :: "string option"
  bm_ruleset :: "string option"
  bm_mods :: "string option"

record song_clock =
  live_ms :: rat
  first_object_ms :: rat
  last_object_ms :: rat
  song_rate :: rat

record song_stats =
  song_presses :: u32
  song_ms :: rat
  song_peak :: "rat option"

definition song_ppm :: "song_stats \<Rightarrow> rat option" where
  "song_ppm s =
     (if song_ms s \<ge> MIN_SONG_MS then Some (60000 * of_nat (unat (song_presses s)) / song_ms s)
      else None)"

record attempt_stats =
  started_at :: int
  ended_at :: "int option"
  beatmap :: beatmap_ref
  st_k1 :: channel_stats
  st_k2 :: channel_stats
  st_combined :: channel_stats
  st_song :: song_stats
  st_replay :: bool

text \<open>Both times are nanoseconds; \<open>num_milliseconds\<close> rounds toward zero.\<close>

definition duration_ms :: "attempt_stats \<Rightarrow> int option" where
  "duration_ms s = map_option (\<lambda>e. max (if e \<ge> started_at s then (e - started_at s) div 1000000
     else - ((started_at s - e) div 1000000)) 0) (ended_at s)"

definition is_recordable :: "attempt_stats \<Rightarrow> bool" where
  "is_recordable s \<longleftrightarrow> \<not> st_replay s \<and> presses_count (st_combined s) \<ge> MIN_RECORDED_PRESSES
     \<and> valid_intervals (st_combined s) > 0"

datatype tap_channel = K1 | K2 | Combined

definition stats_channel :: "attempt_stats \<Rightarrow> tap_channel \<Rightarrow> channel_stats" where
  "stats_channel s ch = (case ch of K1 \<Rightarrow> st_k1 s | K2 \<Rightarrow> st_k2 s | Combined \<Rightarrow> st_combined s)"

record channel_history =
  h_average_ppm :: "rat option"
  h_average_peak_ppm :: "rat option"
  h_best_peak_ppm :: "rat option"
  h_total_presses :: u64

record tap_history =
  period_days :: u32
  h_attempts :: u64
  h_k1 :: channel_history
  h_k2 :: channel_history
  h_combined :: channel_history
  h_song_ppm :: "rat option"
  h_best_song_peak_ppm :: "rat option"

section \<open>One channel\<close>

record channel_tracker =
  last_press_ms :: "rat option"
  now_ms :: rat
  window :: "rat list"
  tr_peak :: "rat option"
  tr_presses :: u32
  tr_valid :: u32
  tr_sum :: rat
  min_peak_span_ms :: rat
  recent :: "rat list"

definition new_tracker :: channel_tracker where
  "new_tracker = \<lparr>last_press_ms = None, now_ms = 0, window = [], tr_peak = None, tr_presses = 0,
     tr_valid = 0, tr_sum = 0, min_peak_span_ms = 0, recent = []\<rparr>"

definition coarse_timing :: "channel_tracker \<Rightarrow> channel_tracker" where
  "coarse_timing c = c\<lparr>min_peak_span_ms := COARSE_PEAK_MIN_SPAN_MS\<rparr>"

definition window_interval_ms :: "rat list \<Rightarrow> rat option" where
  "window_interval_ms w =
     (if w \<noteq> [] \<and> sum_list w > 0 then Some (sum_list w / of_nat (length w)) else None)"

text \<open>The latest start that leaves enough presses and spans enough time.\<close>

definition spanned_ppm :: "channel_tracker \<Rightarrow> rat option" where
  "spanned_ppm c =
     (if recent c = [] then None
      else let r = recent c; l = last r; n = length r in
        if n \<le> WINDOW_INTERVALS then None
        else (case find (\<lambda>i. l - r ! i \<ge> min_peak_span_ms c) (rev [0..<n - WINDOW_INTERVALS]) of
            None \<Rightarrow> None
          | Some i \<Rightarrow> Some (ppm_from_interval_ms ((l - r ! i) / of_nat (n - 1 - i)))))"

definition end_sequence :: "channel_tracker \<Rightarrow> channel_tracker" where
  "end_sequence c = c\<lparr>window := [], recent := []\<rparr>"

text \<open>\<open>map_or(ppm, |p| p.max(ppm))\<close>.\<close>

definition raise_peak :: "rat option \<Rightarrow> rat \<Rightarrow> rat option" where
  "raise_peak old ppm = Some (case old of None \<Rightarrow> ppm | Some p \<Rightarrow> max p ppm)"

text \<open>The interval window after one more interval.\<close>

definition slid_window :: "channel_tracker \<Rightarrow> rat \<Rightarrow> rat list" where
  "slid_window c i = (if length (window c) = WINDOW_INTERVALS then tl (window c) else window c) @ [i]"

text \<open>A press that continues the sequence of \<open>prev\<close>, before its rate is taken.\<close>

definition extended :: "rat \<Rightarrow> rat \<Rightarrow> channel_tracker \<Rightarrow> channel_tracker" where
  "extended prev at_ms c =
     (let interval = max (at_ms - prev) 0;
          r = (if recent c = [] then [prev] else recent c) @ [at_ms]
      in c\<lparr>recent := drop (length r - 128) r, tr_valid := tr_valid c + 1,
           tr_sum := tr_sum c + interval, window := slid_window c interval\<rparr>)"

definition measured_peak :: "channel_tracker \<Rightarrow> rat option" where
  "measured_peak c =
     (if min_peak_span_ms c > 0 then spanned_ppm c
      else if length (window c) = WINDOW_INTERVALS
      then map_option ppm_from_interval_ms (window_interval_ms (window c))
      else None)"

definition press :: "rat \<Rightarrow> channel_tracker \<Rightarrow> channel_tracker" where
  "press at_ms c0 =
     (let c = c0\<lparr>now_ms := max (now_ms c0) at_ms, tr_presses := sat_add (tr_presses c0) 1,
                 last_press_ms := Some at_ms\<rparr> in
      case last_press_ms c0 of
        None \<Rightarrow> c
      | Some prev \<Rightarrow>
          if max (at_ms - prev) 0 > SEQUENCE_BREAK_MS then (end_sequence c)\<lparr>recent := [at_ms]\<rparr>
          else let c = extended prev at_ms c in
            (case measured_peak c of
               None \<Rightarrow> c
             | Some ppm \<Rightarrow> c\<lparr>tr_peak := raise_peak (tr_peak c) ppm\<rparr>))"

definition advance :: "rat \<Rightarrow> channel_tracker \<Rightarrow> channel_tracker" where
  "advance now c0 =
     (let c = c0\<lparr>now_ms := max (now_ms c0) now\<rparr> in
      case last_press_ms c of
        Some l \<Rightarrow> if now_ms c - l > SEQUENCE_BREAK_MS then end_sequence c else c
      | None \<Rightarrow> c)"

definition tracker_current_ppm :: "channel_tracker \<Rightarrow> rat" where
  "tracker_current_ppm c =
     (case (last_press_ms c, window_interval_ms (window c)) of
        (Some l, Some interval) \<Rightarrow>
          let gap = now_ms c - l;
              stopped = gap > max (2 * interval) STOP_GAP_MS
          in ppm_from_interval_ms (if stopped then gap else interval)
      | _ \<Rightarrow> 0)"

definition stats :: "channel_tracker \<Rightarrow> channel_stats" where
  "stats c = \<lparr>current_ppm = Some (tracker_current_ppm c),
     average_ppm = (if tr_valid c > 0 \<and> tr_sum c > 0
       then Some (ppm_from_interval_ms (tr_sum c / of_nat (unat (tr_valid c)))) else None),
     peak_ppm = tr_peak c, presses_count = tr_presses c, valid_intervals = tr_valid c,
     interval_ms_sum = tr_sum c\<rparr>"

section \<open>An attempt\<close>

record attempt_tracker =
  origin :: instant
  at_started :: int
  at_beatmap :: beatmap_ref
  at_k1 :: channel_tracker
  at_k2 :: channel_tracker
  at_combined :: channel_tracker
  at_song :: song_stats
  in_song :: bool
  song_at :: "(rat \<times> instant) option"
  song_window :: "rat list"
  at_replay :: bool

definition new_attempt :: "beatmap_ref \<Rightarrow> instant \<Rightarrow> int \<Rightarrow> attempt_tracker" where
  "new_attempt bm o' started = \<lparr>origin = o', at_started = started, at_beatmap = bm,
     at_k1 = new_tracker, at_k2 = new_tracker, at_combined = new_tracker,
     at_song = \<lparr>song_presses = 0, song_ms = 0, song_peak = None\<rparr>, in_song = False,
     song_at = None, song_window = [], at_replay = False\<rparr>"

definition mark_replay :: "attempt_tracker \<Rightarrow> attempt_tracker" where
  "mark_replay a = a\<lparr>at_replay := True\<rparr>"

definition ms_between :: "instant \<Rightarrow> instant \<Rightarrow> rat" where
  "ms_between from to = of_nat (to - from) / 1000000"

definition move_song_clock :: "song_clock \<Rightarrow> instant \<Rightarrow> attempt_tracker \<Rightarrow> attempt_tracker" where
  "move_song_clock k tm a =
     (if last_object_ms k \<le> first_object_ms k \<or> song_rate k \<le> 0 then a
      else
        let first = first_object_ms k; lst = last_object_ms k;
            ms = (min (max (live_ms k) first) lst - first) / song_rate k
        in a\<lparr>in_song := live_ms k \<ge> first - SONG_HIT_MARGIN_MS \<and> live_ms k \<le> lst + SONG_HIT_MARGIN_MS,
             at_song := (at_song a)\<lparr>song_ms := ms\<rparr>,
             song_at := Some (ms, tm)\<rparr>)"

definition song_time :: "attempt_tracker \<Rightarrow> instant \<Rightarrow> rat" where
  "song_time a tm =
     (case song_at a of
        Some (ms, clock_at) \<Rightarrow> ms + min (ms_between clock_at tm) SONG_CLOCK_CARRY_MS
      | None \<Rightarrow> song_ms (at_song a))"

definition song_press :: "instant \<Rightarrow> attempt_tracker \<Rightarrow> attempt_tracker" where
  "song_press tm a =
     (let t = song_time a tm;
          w = dropWhile (\<lambda>x. x \<le> t - SONG_PEAK_WINDOW_MS) (song_window a @ [t]);
          s = (at_song a)\<lparr>song_presses := sat_add (song_presses (at_song a)) 1\<rparr>;
          s = (if t \<ge> SONG_PEAK_WINDOW_MS
               then s\<lparr>song_peak := raise_peak (song_peak s)
                        (60000 * of_nat (length w) / SONG_PEAK_WINDOW_MS)\<rparr>
               else s)
      in a\<lparr>at_song := s, song_window := w\<rparr>)"

definition attempt_coarse :: "attempt_tracker \<Rightarrow> attempt_tracker" where
  "attempt_coarse a = a\<lparr>at_k1 := coarse_timing (at_k1 a), at_k2 := coarse_timing (at_k2 a),
     at_combined := coarse_timing (at_combined a)\<rparr>"

definition press_k1 :: "rat \<Rightarrow> attempt_tracker \<Rightarrow> attempt_tracker" where
  "press_k1 t a = a\<lparr>at_k1 := press t (at_k1 a), at_combined := press t (at_combined a)\<rparr>"

definition press_k2 :: "rat \<Rightarrow> attempt_tracker \<Rightarrow> attempt_tracker" where
  "press_k2 t a = a\<lparr>at_k2 := press t (at_k2 a), at_combined := press t (at_combined a)\<rparr>"

definition attempt_presses :: "u32 \<Rightarrow> u32 \<Rightarrow> instant \<Rightarrow> attempt_tracker \<Rightarrow> attempt_tracker" where
  "attempt_presses k1 k2 tm a0 =
     (let t = ms_between (origin a0) tm;
          a1 = (if in_song a0 then ((song_press tm) ^^ unat (min (k1 + k2) 128)) a0 else a0);
          a2 = ((press_k1 t) ^^ unat (min k1 64)) a1
      in ((press_k2 t) ^^ unat (min k2 64)) a2)"

definition attempt_advance :: "instant \<Rightarrow> attempt_tracker \<Rightarrow> attempt_tracker" where
  "attempt_advance now a =
     (let t = ms_between (origin a) now in
      a\<lparr>at_k1 := advance t (at_k1 a), at_k2 := advance t (at_k2 a),
        at_combined := advance t (at_combined a)\<rparr>)"

definition update_beatmap :: "beatmap_ref \<Rightarrow> attempt_tracker \<Rightarrow> attempt_tracker" where
  "update_beatmap bm a = a\<lparr>at_beatmap := bm\<rparr>"

definition snapshot :: "attempt_tracker \<Rightarrow> attempt_stats" where
  "snapshot a = \<lparr>started_at = at_started a, ended_at = None, beatmap = at_beatmap a,
     st_k1 = stats (at_k1 a), st_k2 = stats (at_k2 a), st_combined = stats (at_combined a),
     st_song = at_song a, st_replay = at_replay a\<rparr>"

definition finish :: "int \<Rightarrow> attempt_tracker \<Rightarrow> attempt_stats" where
  "finish ended a =
     (let s = snapshot a in
      s\<lparr>ended_at := Some ended, st_k1 := (st_k1 s)\<lparr>current_ppm := Some 0\<rparr>,
        st_k2 := (st_k2 s)\<lparr>current_ppm := Some 0\<rparr>,
        st_combined := (st_combined s)\<lparr>current_ppm := Some 0\<rparr>\<rparr>)"

section \<open>Values for the pad\<close>

text \<open>\<open>f64::round\<close>: half away from zero.\<close>

definition round_half_away :: "rat \<Rightarrow> rat" where
  "round_half_away p = (if p \<ge> 0 then of_int \<lfloor>p + 1 / 2\<rfloor> else - of_int \<lfloor>- p + 1 / 2\<rfloor>)"

definition ppm_value :: "rat option \<Rightarrow> source_value" where
  "ppm_value v = (case v of None \<Rightarrow> Clear | Some p \<Rightarrow> Number (round_half_away p))"

definition attempt_ui_values :: "attempt_stats option \<Rightarrow> ui_value list" where
  "attempt_ui_values s =
     (let c = (\<lambda>ch. case s of Some st \<Rightarrow> stats_channel st ch | None \<Rightarrow> no_channel);
          k1 = c K1; k2 = c K2; all = c Combined
      in [(PLAY_PPM, ppm_value (current_ppm all)),
          (PLAY_PPM_AVG, ppm_value (average_ppm all)),
          (PLAY_PPM_PEAK, ppm_value (peak_ppm all)),
          (PLAY_K1_PPM, ppm_value (current_ppm k1)),
          (PLAY_K1_PPM_AVG, ppm_value (average_ppm k1)),
          (PLAY_K1_PPM_PEAK, ppm_value (peak_ppm k1)),
          (PLAY_K2_PPM, ppm_value (current_ppm k2)),
          (PLAY_K2_PPM_AVG, ppm_value (average_ppm k2)),
          (PLAY_K2_PPM_PEAK, ppm_value (peak_ppm k2)),
          (PLAY_PPM_SONG, (case s of
              Some st \<Rightarrow> ppm_value (Some (case song_ppm (st_song st) of Some p \<Rightarrow> p | None \<Rightarrow> 0))
            | None \<Rightarrow> Clear)),
          (PLAY_PPM_SONG_PEAK, ppm_value (case s of Some st \<Rightarrow> song_peak (st_song st) | None \<Rightarrow> None))])"

definition history_channel :: "tap_history \<Rightarrow> tap_channel \<Rightarrow> channel_history" where
  "history_channel h ch = (case ch of K1 \<Rightarrow> h_k1 h | K2 \<Rightarrow> h_k2 h | Combined \<Rightarrow> h_combined h)"

definition no_history :: channel_history where
  "no_history = \<lparr>h_average_ppm = None, h_average_peak_ppm = None, h_best_peak_ppm = None,
     h_total_presses = 0\<rparr>"

definition history_ui_values :: "tap_history option \<Rightarrow> ui_value list" where
  "history_ui_values h =
     (let c = (\<lambda>ch. case h of Some t \<Rightarrow> history_channel t ch | None \<Rightarrow> no_history);
          k1 = c K1; k2 = c K2; all = c Combined
      in [(HISTORY_PPM_AVG, ppm_value (h_average_ppm all)),
          (HISTORY_PPM_PEAK, ppm_value (h_best_peak_ppm all)),
          (HISTORY_K1_PPM_AVG, ppm_value (h_average_ppm k1)),
          (HISTORY_K1_PPM_PEAK, ppm_value (h_best_peak_ppm k1)),
          (HISTORY_K2_PPM_AVG, ppm_value (h_average_ppm k2)),
          (HISTORY_K2_PPM_PEAK, ppm_value (h_best_peak_ppm k2)),
          (HISTORY_PPM_SONG, ppm_value (case h of Some t \<Rightarrow> h_song_ppm t | None \<Rightarrow> None)),
          (HISTORY_PPM_SONG_PEAK, ppm_value (case h of Some t \<Rightarrow> h_best_song_peak_ppm t | None \<Rightarrow> None)),
          (HISTORY_PERIOD, (case h of
              Some t \<Rightarrow> Text (ascii_uppercase (history_period_label (period_days t)))
            | None \<Rightarrow> Clear))])"

section \<open>The tracker's invariant\<close>

text \<open>
  The window holds at most the last six intervals, each between 0 and the sequence break, and
  nothing when no press was seen; the recent presses are bounded; a peak is positive.
\<close>

definition tracker_ok :: "channel_tracker \<Rightarrow> bool" where
  "tracker_ok c \<longleftrightarrow> length (window c) \<le> WINDOW_INTERVALS
     \<and> (\<forall>i \<in> set (window c). 0 \<le> i \<and> i \<le> SEQUENCE_BREAK_MS)
     \<and> length (recent c) \<le> 128 \<and> 0 \<le> tr_sum c \<and> 0 \<le> min_peak_span_ms c
     \<and> (\<forall>p. tr_peak c = Some p \<longrightarrow> 0 < p)
     \<and> (\<forall>l. last_press_ms c = Some l \<longrightarrow> l \<le> now_ms c)"

lemma new_tracker_ok: "tracker_ok new_tracker"
  by (simp add: tracker_ok_def new_tracker_def)

lemma coarse_timing_ok: "tracker_ok c \<Longrightarrow> tracker_ok (coarse_timing c)"
  by (simp add: tracker_ok_def coarse_timing_def COARSE_PEAK_MIN_SPAN_MS_def)

lemma advance_ok: "tracker_ok c \<Longrightarrow> tracker_ok (advance now c)"
  by (auto simp: tracker_ok_def advance_def end_sequence_def Let_def le_max_iff_disj split: option.split)

lemma window_interval_pos: "window_interval_ms w = Some i \<Longrightarrow> 0 < i"
  by (auto simp: window_interval_ms_def split: if_splits)

lemma spanned_ppm_pos:
  assumes "spanned_ppm c = Some p" "0 < min_peak_span_ms c"
  shows "0 < p"
proof -
  let ?r = "recent c" let ?n = "length (recent c)"
  from assms(1) obtain i where i: "find (\<lambda>i. last ?r - ?r ! i \<ge> min_peak_span_ms c)
        (rev [0..<?n - WINDOW_INTERVALS]) = Some i"
    and p: "p = ppm_from_interval_ms ((last ?r - ?r ! i) / of_nat (?n - 1 - i))"
    by (auto simp: spanned_ppm_def Let_def split: if_splits option.splits)
  from find_SomeD [OF i] have "min_peak_span_ms c \<le> last ?r - ?r ! i" "i < ?n - WINDOW_INTERVALS"
    by auto
  then show ?thesis
    using assms(2) p by (auto simp: ppm_from_interval_ms_def WINDOW_INTERVALS_def intro!: divide_pos_pos)
qed

lemma measured_peak_pos:
  assumes "measured_peak c = Some p"
  shows "0 < p"
  using assms spanned_ppm_pos [of c] window_interval_pos [of "window c"]
  by (auto simp: measured_peak_def ppm_from_interval_ms_def split: if_splits)

lemma slid_window_mem: "x \<in> set (slid_window c i) \<Longrightarrow> x \<in> set (window c) \<or> x = i"
  by (cases "window c") (auto simp: slid_window_def split: if_splits)

lemma slid_window_length:
  "length (window c) \<le> WINDOW_INTERVALS \<Longrightarrow> length (slid_window c i) \<le> WINDOW_INTERVALS"
  by (auto simp: slid_window_def WINDOW_INTERVALS_def)

lemma extended_ok:
  assumes "tracker_ok c" "\<not> SEQUENCE_BREAK_MS < max (t - prev) 0"
  shows "tracker_ok (extended prev t c)"
  using assms slid_window_length [of c] slid_window_mem [of _ c]
  by (fastforce simp: tracker_ok_def extended_def Let_def)

lemma raised_ok: "tracker_ok c \<Longrightarrow> 0 < p \<Longrightarrow> tracker_ok (c\<lparr>tr_peak := raise_peak (tr_peak c) p\<rparr>)"
  by (auto simp: tracker_ok_def raise_peak_def less_max_iff_disj split: option.split)

lemma press_ok:
  assumes "tracker_ok c"
  shows "tracker_ok (press t c)"
proof -
  let ?c = "c\<lparr>now_ms := max (now_ms c) t, tr_presses := sat_add (tr_presses c) 1, last_press_ms := Some t\<rparr>"
  have ok: "tracker_ok ?c" using assms by (simp add: tracker_ok_def)
  then have ended: "tracker_ok ((end_sequence ?c)\<lparr>recent := [t]\<rparr>)"
    by (simp add: tracker_ok_def end_sequence_def)
  show ?thesis
    unfolding press_def Let_def
    by (auto split: option.split intro!: ok ended raised_ok extended_ok dest: measured_peak_pos)
qed

text \<open>Whatever the times, the tracker keeps its invariant: the live rate is never negative,
  its divisors are positive, and the memory it uses is bounded.\<close>

theorem tracker_invariant:
  "tracker_ok (fold (\<lambda>(is_press, t). if is_press then press t else advance t) evs
      (if coarse then coarse_timing new_tracker else new_tracker))"
proof -
  have "tracker_ok c \<Longrightarrow> tracker_ok (fold (\<lambda>(is_press, t). if is_press then press t else advance t) evs c)" for c
    by (induction evs arbitrary: c) (auto simp: press_ok advance_ok)
  then show ?thesis by (simp add: new_tracker_ok coarse_timing_ok)
qed

lemma current_ppm_nonneg: "tracker_ok c \<Longrightarrow> 0 \<le> tracker_current_ppm c"
  using window_interval_pos [of "window c"]
  by (auto simp: tracker_ok_def tracker_current_ppm_def ppm_from_interval_ms_def Let_def
      split: option.split intro!: divide_nonneg_nonneg less_imp_le)

section \<open>Steady tapping\<close>

text \<open>A press with exact times that continues the sequence, field by field.\<close>

lemma press_continues:
  assumes "last_press_ms c = Some prev" "\<not> SEQUENCE_BREAK_MS < max (t - prev) 0"
  shows "press t c =
     (let c' = extended prev t (c\<lparr>now_ms := max (now_ms c) t, tr_presses := sat_add (tr_presses c) 1,
                 last_press_ms := Some t\<rparr>) in
      case measured_peak c' of None \<Rightarrow> c' | Some ppm \<Rightarrow> c'\<lparr>tr_peak := raise_peak (tr_peak c') ppm\<rparr>)"
  by (simp only: press_def Let_def assms option.case if_False)

lemma press_in_sequence:
  assumes "last_press_ms c = Some prev" "max (t - prev) 0 = i" "i \<le> SEQUENCE_BREAK_MS"
    and "min_peak_span_ms c = 0"
  shows "last_press_ms (press t c) = Some t \<and> now_ms (press t c) = max (now_ms c) t
    \<and> window (press t c) = slid_window c i
    \<and> tr_presses (press t c) = sat_add (tr_presses c) 1 \<and> tr_valid (press t c) = tr_valid c + 1
    \<and> tr_sum (press t c) = tr_sum c + i \<and> min_peak_span_ms (press t c) = 0
    \<and> tr_peak (press t c) = (if length (slid_window c i) = WINDOW_INTERVALS
        then (case window_interval_ms (slid_window c i) of
                None \<Rightarrow> tr_peak c
              | Some x \<Rightarrow> raise_peak (tr_peak c) (ppm_from_interval_ms x))
        else tr_peak c)"
proof -
  have not_break: "\<not> SEQUENCE_BREAK_MS < max (t - prev) 0" using assms(2,3) by simp
  show ?thesis
    unfolding press_continues [OF assms(1) not_break] Let_def measured_peak_def extended_def
    using assms(2,4) by (simp add: slid_window_def WINDOW_INTERVALS_def split: option.split)
qed

fun tapped :: "rat \<Rightarrow> nat \<Rightarrow> channel_tracker" where
  "tapped gap 0 = press 0 new_tracker"
| "tapped gap (Suc n) = press (of_nat (Suc n) * gap) (tapped gap n)"

lemma tapped_state:
  assumes "0 < gap" "gap \<le> SEQUENCE_BREAK_MS" "n < 2 ^ 32 - 1"
  shows "last_press_ms (tapped gap n) = Some (of_nat n * gap) \<and> now_ms (tapped gap n) = of_nat n * gap
    \<and> window (tapped gap n) = replicate (min n WINDOW_INTERVALS) gap
    \<and> tr_peak (tapped gap n) = (if n < WINDOW_INTERVALS then None else Some (60000 / gap))
    \<and> unat (tr_presses (tapped gap n)) = Suc n \<and> unat (tr_valid (tapped gap n)) = n
    \<and> tr_sum (tapped gap n) = of_nat n * gap \<and> min_peak_span_ms (tapped gap n) = 0"
  using assms(3)
proof (induction n)
  case 0
  show ?case by (simp add: press_def new_tracker_def unat_sat_add WINDOW_INTERVALS_def)
next
  case (Suc n)
  let ?c = "tapped gap n"
  have ih: "last_press_ms ?c = Some (of_nat n * gap)" "now_ms ?c = of_nat n * gap"
    "window ?c = replicate (min n WINDOW_INTERVALS) gap"
    "tr_peak ?c = (if n < WINDOW_INTERVALS then None else Some (60000 / gap))"
    "unat (tr_presses ?c) = Suc n" "unat (tr_valid ?c) = n" "tr_sum ?c = of_nat n * gap"
    "min_peak_span_ms ?c = 0"
    using Suc by auto
  have gap: "max (of_nat (Suc n) * gap - of_nat n * gap) 0 = gap"
    using assms(1) by (simp add: algebra_simps)
  have now: "max (of_nat n * gap) (of_nat (Suc n) * gap) = of_nat (Suc n) * gap"
    using assms(1) by (simp add: algebra_simps)
  have w: "slid_window ?c gap = replicate (min (Suc n) WINDOW_INTERVALS) gap"
    by (cases "n < WINDOW_INTERVALS")
      (auto simp: slid_window_def ih min_def replicate_append_same [symmetric] WINDOW_INTERVALS_def
        numeral_eq_Suc)
  have rate: "window_interval_ms (replicate WINDOW_INTERVALS gap) = Some gap"
    using assms(1) by (simp add: window_interval_ms_def WINDOW_INTERVALS_def sum_list_replicate)
  have valid: "unat (tr_valid ?c + 1) = Suc n"
    using ih(6) Suc.prems by (simp add: unat_word_ariths)
  have presses: "unat (sat_add (tr_presses ?c) 1) = Suc (Suc n)"
    using ih(5) Suc.prems by (simp add: unat_sat_add)
  show ?case
    using press_in_sequence [OF ih(1) gap assms(2) ih(8)] ih valid presses now w rate
    by (auto simp: ppm_from_interval_ms_def raise_peak_def algebra_simps less_Suc_eq)
qed

text \<open>
  Tapping one key every \<open>gap\<close> milliseconds, seven times or more, reads the true rate
  60000 / gap as the live rate, the average and the peak.
\<close>

theorem steady_tapping_rate:
  assumes "0 < gap" "gap \<le> SEQUENCE_BREAK_MS" "WINDOW_INTERVALS \<le> n" "n < 2 ^ 32 - 1"
  shows "current_ppm (stats (tapped gap n)) = Some (60000 / gap)
    \<and> average_ppm (stats (tapped gap n)) = Some (60000 / gap)
    \<and> peak_ppm (stats (tapped gap n)) = Some (60000 / gap)
    \<and> unat (presses_count (stats (tapped gap n))) = Suc n"
proof -
  note st = tapped_state [OF assms(1,2,4)]
  have "window_interval_ms (replicate WINDOW_INTERVALS gap) = Some gap"
    using assms(1) by (simp add: window_interval_ms_def WINDOW_INTERVALS_def sum_list_replicate)
  then have cur: "tracker_current_ppm (tapped gap n) = 60000 / gap"
    using st assms(3) by (simp add: tracker_current_ppm_def ppm_from_interval_ms_def STOP_GAP_MS_def
        min_absorb2 less_max_iff_disj Let_def)
  have n: "0 < n" using assms(3) by (simp add: WINDOW_INTERVALS_def)
  then have "0 < tr_valid (tapped gap n)"
    using st by (metis unat_gt_0 word_gt_0)
  with st n assms cur show ?thesis
    by (simp add: stats_def ppm_from_interval_ms_def)
qed

theorem steady_tapping_rate_witness:
  "average_ppm (stats (tapped 300 20)) = Some 200 \<and> peak_ppm (stats (tapped 300 20)) = Some 200"
  using steady_tapping_rate [of 300 20] by (simp add: SEQUENCE_BREAK_MS_def WINDOW_INTERVALS_def)

end
