(* ===== verification/Layouts.thy ===== *)
theory Layouts
  imports Sources
begin

text \<open>
  Screen layouts: \<open>crates/opad-layout/src/lib.rs\<close>. Positions and sizes are 16-bit two's
  complement words, read with \<open>sint\<close> and compared with \<open><s\<close>. The JSON form (serde) is not
  modelled.
\<close>

section \<open>Wire enumerations\<close>

type_synonym i16 = "16 word"

datatype screen = ScreenIdle | ScreenPlaying
datatype widget_kind = KText | KProgress | KKeyCard | KStatusDot | KRect | KGrade
datatype font = Px12 | Px14 | Px16 | Px20 | Px24 | Px32 | Px48
datatype align = AlignLeft | AlignCenter | AlignRight

text \<open>The macro \<open>wire_enum\<close>: a value per variant, read back by the first that has it.\<close>

definition ALL_SCREENS :: "(screen \<times> u8 \<times> string) list" where
  "ALL_SCREENS = [(ScreenIdle, 0, ''Idle''), (ScreenPlaying, 1, ''Playing'')]"
definition ALL_KINDS :: "(widget_kind \<times> u8 \<times> string) list" where
  "ALL_KINDS = [(KText, 0, ''Text''), (KProgress, 1, ''Progress bar''), (KKeyCard, 2, ''Key card''),
     (KStatusDot, 3, ''Status dot''), (KRect, 4, ''Rectangle''), (KGrade, 5, ''Grade'')]"
definition ALL_FONTS :: "(font \<times> u8 \<times> string) list" where
  "ALL_FONTS = [(Px12, 0, ''12 px''), (Px14, 1, ''14 px''), (Px16, 2, ''16 px''), (Px20, 3, ''20 px''),
     (Px24, 4, ''24 px''), (Px32, 5, ''32 px''), (Px48, 6, ''48 px'')]"
definition ALL_ALIGNS :: "(align \<times> u8 \<times> string) list" where
  "ALL_ALIGNS = [(AlignLeft, 0, ''Left''), (AlignCenter, 1, ''Center''), (AlignRight, 2, ''Right'')]"

definition enum_to_wire :: "('a \<times> u8 \<times> string) list \<Rightarrow> 'a \<Rightarrow> u8 option" where
  "enum_to_wire table v = map_option fst (map_of table v)"

definition enum_from_wire :: "('a \<times> u8 \<times> string) list \<Rightarrow> u8 \<Rightarrow> 'a option" where
  "enum_from_wire table n = map_option fst (find (\<lambda>(v, w, l). w = n) table)"

definition enum_label :: "('a \<times> u8 \<times> string) list \<Rightarrow> 'a \<Rightarrow> string option" where
  "enum_label table v = map_option snd (map_of table v)"

section \<open>Widgets\<close>

definition SCREEN_W :: i16 where "SCREEN_W = 320"
definition SCREEN_H :: i16 where "SCREEN_H = 240"
definition MAX_WIDGETS :: nat where "MAX_WIDGETS = 32"
definition LABEL_MAX_BYTES :: nat where "LABEL_MAX_BYTES = 31"
definition SUFFIX_MAX_BYTES :: nat where "SUFFIX_MAX_BYTES = 11"
definition DECIMALS_DEFAULT :: u8 where "DECIMALS_DEFAULT = 0xFF"
definition FLAG_BG_FILL :: u8 where "FLAG_BG_FILL = 0x01"
definition FLAG_HIDE_WHEN_EMPTY :: u8 where "FLAG_HIDE_WHEN_EMPTY = 0x02"
definition FLAG_BORDER :: u8 where "FLAG_BORDER = 0x04"
definition FLAG_KEY_RATE :: u8 where "FLAG_KEY_RATE = 0x08"
definition FLAG_PER_SECOND :: u8 where "FLAG_PER_SECOND = 0x10"

datatype tap_rate_unit = Kpm | Kps

fun abbreviation_of :: "tap_rate_unit \<Rightarrow> string" where
  "abbreviation_of Kpm = ''KPM''"
| "abbreviation_of Kps = ''KPS''"

definition is_tap_rate :: "u8 \<Rightarrow> bool" where
  "is_tap_rate s \<longleftrightarrow> (PLAY_PPM \<le> s \<and> s \<le> PLAY_K2_PPM_PEAK)
     \<or> (HISTORY_PPM_AVG \<le> s \<and> s \<le> HISTORY_K2_PPM_PEAK)
     \<or> (PLAY_PPM_SONG \<le> s \<and> s \<le> HISTORY_PPM_SONG_PEAK)"

record widget =
  w_kind :: widget_kind
  w_source :: u8
  w_font :: font
  w_align :: align
  w_x :: i16
  w_y :: i16
  w_w :: i16
  w_h :: i16
  w_fg :: u32
  w_bg :: u32
  w_accent :: u32
  w_radius :: u8
  w_decimals :: u8
  w_flags :: u8
  w_label :: string
  w_suffix :: string

definition new_widget :: "widget_kind \<Rightarrow> widget" where
  "new_widget kind =
     (let w = \<lparr>w_kind = kind, w_source = 0, w_font = Px16, w_align = AlignCenter, w_x = 110,
                w_y = 100, w_w = 100, w_h = 24, w_fg = 0xFFFFFF, w_bg = 0x1B1B28,
                w_accent = 0xFF66AA, w_radius = 0, w_decimals = DECIMALS_DEFAULT, w_flags = 0,
                w_label = '''', w_suffix = ''''\<rparr> in
      case kind of
        KText \<Rightarrow> w\<lparr>w_label := ''Text''\<rparr>
      | KProgress \<Rightarrow> w\<lparr>w_source := MAP_PROGRESS, w_x := 60, w_w := 200, w_h := 8, w_radius := 4\<rparr>
      | KKeyCard \<Rightarrow> w\<lparr>w_source := PAD_K1_MAP, w_font := Px24, w_w := 144, w_h := 52, w_radius := 12,
          w_flags := FLAG_BORDER, w_label := ''K1''\<rparr>
      | KStatusDot \<Rightarrow> w\<lparr>w_source := STATUS_TOSU, w_font := Px14, w_w := 64, w_h := 22,
          w_fg := 0x8C8CA6, w_bg := 0x3A3A4C, w_accent := 0x44DD88, w_label := ''tosu''\<rparr>
      | KRect \<Rightarrow> w\<lparr>w_w := 120, w_h := 40, w_radius := 12\<rparr>
      | KGrade \<Rightarrow> w\<lparr>w_source := PLAY_GRADE, w_font := Px24, w_h := 28\<rparr>)"

unbundle bit_operations_syntax

definition has_flag :: "widget \<Rightarrow> u8 \<Rightarrow> bool" where
  "has_flag w flag \<longleftrightarrow> w_flags w AND flag \<noteq> 0"

definition set_flag :: "u8 \<Rightarrow> bool \<Rightarrow> widget \<Rightarrow> widget" where
  "set_flag flag on w =
     (if on then w\<lparr>w_flags := w_flags w OR flag\<rparr> else w\<lparr>w_flags := w_flags w AND NOT flag\<rparr>)"

text \<open>Whether the widget draws a tap rate, so the unit applies to it.\<close>

definition shows_tap_rate :: "widget \<Rightarrow> bool" where
  "shows_tap_rate w = (case w_kind w of
      KKeyCard \<Rightarrow> has_flag w FLAG_KEY_RATE
    | KText \<Rightarrow> is_tap_rate (w_source w)
    | KGrade \<Rightarrow> is_tap_rate (w_source w)
    | _ \<Rightarrow> False)"

definition tap_rate_unit :: "widget \<Rightarrow> tap_rate_unit" where
  "tap_rate_unit w = (if has_flag w FLAG_PER_SECOND then Kps else Kpm)"

text \<open>
  The characters of a UTF-8 text: a lead byte and its continuation bytes. Which characters beyond
  ASCII are letters or digits is Unicode's table, the parameter \<open>uni\<close>.
\<close>

definition is_continuation :: "char \<Rightarrow> bool" where
  "is_continuation c \<longleftrightarrow> 128 \<le> byte c \<and> byte c < 192"

function utf8_chars :: "string \<Rightarrow> string list" where
  "utf8_chars [] = []"
| "utf8_chars (c # s) = (c # takeWhile is_continuation s) # utf8_chars (dropWhile is_continuation s)"
  by pat_completeness auto
termination by (relation "measure length") (auto simp: less_Suc_eq_le length_dropWhile_le)

definition is_alphanumeric :: "(string \<Rightarrow> bool) \<Rightarrow> string \<Rightarrow> bool" where
  "is_alphanumeric uni ch =
     (case ch of
        [c] \<Rightarrow> if byte c < 128 then is_ascii_digit c \<or> (65 \<le> byte c \<and> byte c \<le> 90)
                 \<or> (97 \<le> byte c \<and> byte c \<le> 122)
               else uni ch
      | _ \<Rightarrow> uni ch)"

definition UNIT_WORDS :: "string list" where "UNIT_WORDS = [''KPM'', ''PPM'', ''KPS'']"

text \<open>The closure \<open>flush\<close>: what a finished word adds to the output.\<close>

definition flush :: "string \<Rightarrow> string list \<Rightarrow> string list" where
  "flush unit word = (if list_ex (eq_ignore_ascii_case (concat word)) UNIT_WORDS
     then map (\<lambda>c. [c]) unit else word)"

fun replace_words :: "(string \<Rightarrow> bool) \<Rightarrow> string \<Rightarrow> string list \<Rightarrow> string list \<Rightarrow> string list" where
  "replace_words uni unit word [] = flush unit word"
| "replace_words uni unit word (c # cs) =
     (if is_alphanumeric uni c then replace_words uni unit (word @ [c]) cs
      else flush unit word @ c # replace_words uni unit [] cs)"

definition replace_unit_word :: "(string \<Rightarrow> bool) \<Rightarrow> string \<Rightarrow> string \<Rightarrow> string" where
  "replace_unit_word uni text unit = concat (replace_words uni unit [] (utf8_chars text))"

definition set_tap_rate_unit :: "(string \<Rightarrow> bool) \<Rightarrow> tap_rate_unit \<Rightarrow> widget \<Rightarrow> widget" where
  "set_tap_rate_unit uni u w0 =
     (let w = set_flag FLAG_PER_SECOND (u = Kps) w0 in
      w\<lparr>w_label := replace_unit_word uni (w_label w) (abbreviation_of u),
        w_suffix := replace_unit_word uni (w_suffix w) (abbreviation_of u)\<rparr>)"

text \<open>The sums wrap in 16 bits, as in the release build.\<close>

definition widget_contains :: "widget \<Rightarrow> i16 \<Rightarrow> i16 \<Rightarrow> bool" where
  "widget_contains w x y \<longleftrightarrow> w_x w \<le>s x \<and> x <s w_x w + w_w w \<and> w_y w \<le>s y \<and> y <s w_y w + w_h w"

section \<open>The source catalogue\<close>

datatype source_category =
  CatStatic | CatMap | CatPlay | CatProfile | CatPad | CatHistory | CatStatus

fun category_label :: "source_category \<Rightarrow> string" where
  "category_label CatStatic = ''Static text''"
| "category_label CatMap = ''Map''"
| "category_label CatPlay = ''Live play''"
| "category_label CatProfile = ''Profile & session''"
| "category_label CatPad = ''Pad''"
| "category_label CatHistory = ''History''"
| "category_label CatStatus = ''Connection''"

record source_info =
  si_id :: u8
  si_key :: string
  si_category :: source_category

definition tap_rate_label :: "string \<Rightarrow> string option" where
  "tap_rate_label key = map_of
     [(''play.ppm_song'', ''AVG KPM''), (''history.ppm_song'', ''AVG KPM''),
      (''play.ppm_song_peak'', ''Best 10 s KPM''), (''history.ppm_song_peak'', ''Best 10 s KPM''),
      (''play.ppm'', ''Live KPM''), (''play.k1_ppm'', ''K1 live KPM''),
      (''play.k2_ppm'', ''K2 live KPM''), (''play.ppm_avg'', ''Tapping avg KPM''),
      (''history.ppm_avg'', ''Tapping avg KPM''), (''play.k1_ppm_avg'', ''K1 tapping avg KPM''),
      (''history.k1_ppm_avg'', ''K1 tapping avg KPM''),
      (''play.k2_ppm_avg'', ''K2 tapping avg KPM''),
      (''history.k2_ppm_avg'', ''K2 tapping avg KPM''), (''play.ppm_peak'', ''PEAK KPM''),
      (''play.k1_ppm_peak'', ''K1 peak KPM''), (''play.k2_ppm_peak'', ''K2 peak KPM''),
      (''history.ppm_peak'', ''Best PEAK KPM''), (''history.k1_ppm_peak'', ''K1 best peak KPM''),
      (''history.k2_ppm_peak'', ''K2 best peak KPM''), (''history.period'', ''Period'')] key"

definition ACRONYMS :: "string list" where
  "ACRONYMS = [''pp'', ''ppm'', ''ur'', ''bpm'', ''ar'', ''cs'', ''od'', ''hp'', ''kps'', ''pc'', ''k1'', ''k2'']"

definition source_label :: "source_info \<Rightarrow> string" where
  "source_label i =
     (if si_id i = 0 then ''None (static text)''
      else (case tap_rate_label (si_key i) of
          Some l \<Rightarrow> l
        | None \<Rightarrow>
            let short = (case split_once CHR ''.'' (si_key i) of None \<Rightarrow> si_key i | Some (_, s) \<Rightarrow> s);
                ws = map (\<lambda>w. if List.member ACRONYMS w then ascii_uppercase w else w)
                         (split_on CHR ''_'' short);
                label = join_with CHR '' '' ws
            in (case label of [] \<Rightarrow> [] | c # cs \<Rightarrow> to_ascii_upper c # cs)))"

definition STATIC_SOURCE :: source_info where
  "STATIC_SOURCE = \<lparr>si_id = 0, si_key = ''none'', si_category = CatStatic\<rparr>"

definition category_of :: "string \<Rightarrow> source_category" where
  "category_of key =
     (let group = hd (split_on CHR ''.'' key) in
      if group = ''map'' then CatMap
      else if group = ''play'' then CatPlay
      else if group = ''profile'' \<or> group = ''session'' \<or> group = ''game'' then CatProfile
      else if group = ''pad'' then CatPad
      else if group = ''history'' then CatHistory
      else CatStatus)"

definition source_info :: "u8 \<Rightarrow> source_info option" where
  "source_info i =
     (if i = 0 then Some STATIC_SOURCE
      else map_option (\<lambda>(i, key). \<lparr>si_id = i, si_key = key, si_category = category_of key\<rparr>)
             (find (\<lambda>(sid, key). sid = i) ALL_SOURCES))"

definition display_source :: "source_info \<Rightarrow> string" where
  "display_source i = (if si_id i = 0 then source_label i
     else category_label (si_category i) @ '': '' @ source_label i)"

definition all_sources :: "source_info list" where
  "all_sources = filter (\<lambda>s. si_id s \<noteq> PAD_K1_DOWN \<and> si_id s \<noteq> PAD_K2_DOWN)
     (STATIC_SOURCE # List.map_filter (\<lambda>(i, key). source_info i) ALL_SOURCES)"

section \<open>Layouts\<close>

record layout =
  l_background :: u32
  l_widgets :: "widget list"

datatype layout_error = TooManyWidgets nat | WidgetError nat string

text \<open>A signed number as \<open>format!\<close> prints it.\<close>

definition show_i16 :: "i16 \<Rightarrow> string" where
  "show_i16 x = (if sint x < 0 then CHR ''-'' # dec_digits (nat (- sint x)) else dec_digits (nat (sint x)))"

definition widget_problem :: "widget \<Rightarrow> string option" where
  "widget_problem w =
     (if w_source w \<noteq> 0 \<and> source_info (w_source w) = None
      then Some (''unknown data source '' @ dec_digits (unat (w_source w)))
      else if w_w w \<le>s 0 \<or> w_h w \<le>s 0 \<or> 2 * SCREEN_W <s w_w w \<or> 2 * SCREEN_H <s w_h w
      then Some (''bad size '' @ show_i16 (w_w w) @ ''x'' @ show_i16 (w_h w))
      else if w_x w <s - SCREEN_W \<or> 2 * SCREEN_W <s w_x w \<or> w_y w <s - SCREEN_H \<or> 2 * SCREEN_H <s w_y w
      then Some ''position out of range''
      else if length (w_label w) > LABEL_MAX_BYTES
      then Some (''label longer than '' @ dec_digits LABEL_MAX_BYTES @ '' bytes'')
      else if length (w_suffix w) > SUFFIX_MAX_BYTES
      then Some (''suffix longer than '' @ dec_digits SUFFIX_MAX_BYTES @ '' bytes'')
      else None)"

fun check_widgets :: "nat \<Rightarrow> widget list \<Rightarrow> (layout_error, unit) result" where
  "check_widgets index [] = Inr ()"
| "check_widgets index (w # ws) =
     (case widget_problem w of
        Some reason \<Rightarrow> Inl (WidgetError index reason)
      | None \<Rightarrow> check_widgets (Suc index) ws)"

definition validate_layout :: "layout \<Rightarrow> (layout_error, unit) result" where
  "validate_layout l =
     (if length (l_widgets l) > MAX_WIDGETS then Inl (TooManyWidgets (length (l_widgets l)))
      else check_widgets 0 (l_widgets l))"

definition uses_per_second :: "layout \<Rightarrow> bool" where
  "uses_per_second l = list_ex (\<lambda>w. has_flag w FLAG_PER_SECOND \<and> shows_tap_rate w) (l_widgets l)"

section \<open>Validation\<close>

text \<open>The rules of a layout in plain numbers.\<close>

definition widget_ok :: "widget \<Rightarrow> bool" where
  "widget_ok w \<longleftrightarrow> (w_source w = 0 \<or> w_source w \<in> fst ` set ALL_SOURCES)
     \<and> 0 < sint (w_w w) \<and> sint (w_w w) \<le> 640 \<and> 0 < sint (w_h w) \<and> sint (w_h w) \<le> 480
     \<and> \<bar>sint (w_x w) - 160\<bar> \<le> 480 \<and> \<bar>sint (w_y w) - 120\<bar> \<le> 360
     \<and> length (w_label w) \<le> 31 \<and> length (w_suffix w) \<le> 11"

definition layout_ok :: "layout \<Rightarrow> bool" where
  "layout_ok l \<longleftrightarrow> length (l_widgets l) \<le> 32 \<and> list_all widget_ok (l_widgets l)"

lemma source_info_None: "source_info i = None \<longleftrightarrow> i \<noteq> 0 \<and> i \<notin> fst ` set ALL_SOURCES"
  by (force simp: source_info_def find_None_iff)

lemma screen_bounds:
  "sint (2 * SCREEN_W) = 640" "sint (2 * SCREEN_H) = 480" "sint (- SCREEN_W) = - 320"
  "sint (- SCREEN_H) = - 240"
  by (simp_all add: SCREEN_W_def SCREEN_H_def)

lemma widget_problem_None: "widget_problem w = None \<longleftrightarrow> widget_ok w"
  unfolding widget_problem_def widget_ok_def word_sless_alt word_sle_eq screen_bounds
    source_info_None LABEL_MAX_BYTES_def SUFFIX_MAX_BYTES_def
  by (auto simp: abs_le_iff)

lemma check_widgets_ok: "check_widgets n ws = Inr () \<longleftrightarrow> list_all widget_ok ws"
  by (induction n ws rule: check_widgets.induct)
    (auto simp: widget_problem_None [symmetric] split: option.split)

text \<open>A layout passes validation exactly when it obeys the rules of the screen, checked here on
  plain integers: at most 32 widgets, known sources, sizes and positions within twice the screen,
  and texts that fit the pad's buffers.\<close>

theorem validate_layout_iff: "validate_layout l = Inr () \<longleftrightarrow> layout_ok l"
  by (simp add: validate_layout_def layout_ok_def MAX_WIDGETS_def check_widgets_ok)

lemma sint_sum:
  assumes "- 320 \<le> sint a" "sint a \<le> 640" "0 < sint b" "sint b \<le> 640"
  shows "sint (a + b :: i16) = sint a + sint b"
  using assms by (simp add: sint_word_ariths signed_take_bit_int_eq_self)

text \<open>
  On a widget that passed validation the hit test's 16-bit sums do not wrap: a point is in the
  widget exactly when it lies in its rectangle.
\<close>

theorem hit_test_exact:
  assumes "widget_problem w = None"
  shows "widget_contains w x y \<longleftrightarrow>
     sint (w_x w) \<le> sint x \<and> sint x < sint (w_x w) + sint (w_w w)
     \<and> sint (w_y w) \<le> sint y \<and> sint y < sint (w_y w) + sint (w_h w)"
proof -
  have ok: "widget_ok w" using assms by (simp add: widget_problem_None)
  have "sint (w_x w + w_w w) = sint (w_x w) + sint (w_w w)"
    "sint (w_y w + w_h w) = sint (w_y w) + sint (w_h w)"
    using ok by (auto simp: widget_ok_def abs_le_iff intro!: sint_sum)
  then show ?thesis by (simp add: widget_contains_def word_sless_alt word_sle_eq)
qed

theorem hit_test_exact_witness: "widget_contains (new_widget KText) 150 110"
proof -
  have "widget_problem (new_widget KText) = None" by code_simp
  from hit_test_exact [OF this, of 150 110] show ?thesis by (simp add: new_widget_def)
qed

section \<open>The tap rate unit\<close>

text \<open>Characters as \<open>utf8_chars\<close> cuts them: a leading byte and continuation bytes.\<close>

definition one_char :: "string \<Rightarrow> bool" where
  "one_char ch \<longleftrightarrow> ch \<noteq> [] \<and> list_all is_continuation (tl ch)"

definition starts_char :: "string \<Rightarrow> bool" where
  "starts_char ch \<longleftrightarrow> ch \<noteq> [] \<and> \<not> is_continuation (hd ch)"

definition cut :: "string list \<Rightarrow> bool" where
  "cut cs \<longleftrightarrow> list_all one_char cs \<and> list_all starts_char (tl cs)"

lemma cut_Cons: "cut (c # cs) \<longleftrightarrow> one_char c \<and> list_all one_char cs \<and> list_all starts_char cs"
  by (simp add: cut_def)

lemma cut_tl: "cut (c # cs) \<Longrightarrow> cut cs"
  by (cases cs) (simp_all add: cut_def)

lemma utf8_chars_append:
  assumes "list_all is_continuation a" "b = [] \<or> \<not> is_continuation (hd b)"
  shows "utf8_chars ((c # a) @ b) = (c # a) # utf8_chars b"
proof -
  have a: "\<forall>x \<in> set a. is_continuation x" using assms(1) by (simp add: list_all_iff)
  then have "takeWhile is_continuation (a @ b) = a" "dropWhile is_continuation (a @ b) = b"
    using assms(2) by (cases b; simp)+
  then show ?thesis by simp
qed

lemma utf8_chars_concat: "cut cs \<Longrightarrow> utf8_chars (concat cs) = cs"
proof (induction cs)
  case (Cons ch cs)
  have boundary: "concat cs = [] \<or> \<not> is_continuation (hd (concat cs))"
    using Cons.prems by (cases cs) (auto simp: cut_Cons starts_char_def hd_append)
  obtain c a where ch: "ch = c # a" and a: "list_all is_continuation a"
    using Cons.prems by (cases ch) (auto simp: cut_Cons one_char_def)
  have "utf8_chars (concat cs) = cs" using Cons cut_tl by blast
  with utf8_chars_append [OF a boundary, of c] ch show ?case by simp
qed (simp add: cut_def)

lemma utf8_chars_starts:
  "s = [] \<or> \<not> is_continuation (hd s) \<Longrightarrow> list_all starts_char (utf8_chars s)"
proof (induction s rule: utf8_chars.induct)
  case (2 c s)
  have "dropWhile is_continuation s = [] \<or> \<not> is_continuation (hd (dropWhile is_continuation s))"
    using hd_dropWhile by blast
  with 2 show ?case by (simp add: starts_char_def)
qed simp

lemma utf8_chars_one: "list_all one_char (utf8_chars s)"
  by (induction s rule: utf8_chars.induct)
    (auto simp: one_char_def list_all_iff dest: set_takeWhileD)

lemma cut_utf8_chars: "cut (utf8_chars s)"
proof (cases s)
  case (Cons c t)
  have "list_all starts_char (utf8_chars (dropWhile is_continuation t))"
    using hd_dropWhile by (intro utf8_chars_starts) blast
  then show ?thesis using utf8_chars_one [of s] by (simp add: Cons cut_Cons)
qed (simp add: cut_def)

text \<open>A word that was already a unit is replaced once and for all.\<close>

definition ascii_unit :: "string \<Rightarrow> bool" where
  "ascii_unit u \<longleftrightarrow> u \<in> {''KPM'', ''KPS''}"

lemma ascii_unit_chars:
  assumes "ascii_unit u"
  shows "list_all (is_alphanumeric uni) (map (\<lambda>c. [c]) u)" "list_all one_char (map (\<lambda>c. [c]) u)"
    "list_all starts_char (map (\<lambda>c. [c]) u)" "list_ex (eq_ignore_ascii_case u) UNIT_WORDS" "u \<noteq> []"
  using assms by (auto simp: ascii_unit_def is_alphanumeric_def one_char_def starts_char_def
      is_continuation_def byte_def UNIT_WORDS_def eq_ignore_ascii_case_def)

lemma flush_all:
  assumes "ascii_unit u"
  shows "list_all (is_alphanumeric uni) w \<Longrightarrow> list_all (is_alphanumeric uni) (flush u w)"
    and "list_all one_char w \<Longrightarrow> list_all one_char (flush u w)"
    and "list_all starts_char w \<Longrightarrow> list_all starts_char (flush u w)"
    and "list_all starts_char (tl w) \<Longrightarrow> list_all starts_char (tl (flush u w))"
  using ascii_unit_chars [OF assms] by (cases u; simp add: flush_def)+

lemma flush_flush: "ascii_unit u \<Longrightarrow> flush v (flush u w) = flush v w"
  using ascii_unit_chars(4) [of u] by (simp add: flush_def comp_def)

lemma flush_Nil: "flush u w = [] \<longleftrightarrow> w = []" if "ascii_unit u"
  using ascii_unit_chars(5) [OF that]
  by (auto simp: flush_def UNIT_WORDS_def eq_ignore_ascii_case_def ascii_lowercase_def split: if_splits)

lemma replace_words_word:
  "list_all (is_alphanumeric uni) ws \<Longrightarrow>
     replace_words uni v w (ws @ cs) = replace_words uni v (w @ ws) cs"
  by (induction ws arbitrary: w) simp_all

lemma replace_words_twice:
  assumes "ascii_unit u"
  shows "list_all (is_alphanumeric uni) w \<Longrightarrow>
     replace_words uni v [] (replace_words uni u w cs) = replace_words uni v w cs"
proof (induction cs arbitrary: w)
  case Nil
  then show ?case
    using replace_words_word [OF flush_all(1) [OF assms Nil], of v "[]" "[]"] flush_flush [OF assms]
    by simp
next
  case (Cons c cs)
  then show ?case
    using replace_words_word [OF flush_all(1) [OF assms Cons.prems], of v "[]"] flush_flush [OF assms]
    by simp
qed

lemma replace_words_all:
  assumes "ascii_unit u"
  shows "list_all one_char (w @ cs) \<Longrightarrow> list_all one_char (replace_words uni u w cs)"
    and "list_all starts_char (w @ cs) \<Longrightarrow> list_all starts_char (replace_words uni u w cs)"
  by (induction cs arbitrary: w) (auto simp: flush_all [OF assms])

lemma replace_words_cut:
  assumes "ascii_unit u"
  shows "cut (w @ cs) \<Longrightarrow> cut (replace_words uni u w cs)"
proof (induction cs arbitrary: w)
  case Nil
  then show ?case using flush_all [OF assms] by (simp add: cut_def)
next
  case (Cons c cs)
  show ?case
  proof (cases "is_alphanumeric uni c")
    case True
    then show ?thesis using Cons.IH [of "w @ [c]"] Cons.prems by simp
  next
    case False
    have rest: "list_all starts_char cs" "list_all one_char cs"
      using Cons.prems by (cases w; simp add: cut_def)+
    have "starts_char c \<or> w = []" "list_all starts_char (tl w)" "list_all one_char w" "one_char c"
      using Cons.prems by (cases w; simp add: cut_def)+
    then show ?thesis
      using False flush_all(2,4) [OF assms, of w] replace_words_all [OF assms, of "[]" cs uni] rest
        flush_Nil [OF assms, of w]
      by (cases "flush u w") (auto simp: cut_def)
  qed
qed

lemma replace_unit_word_twice:
  assumes "ascii_unit u"
  shows "replace_unit_word uni (replace_unit_word uni t u) v = replace_unit_word uni t v"
proof -
  have "utf8_chars (concat (replace_words uni u [] (utf8_chars t))) = replace_words uni u [] (utf8_chars t)"
    using replace_words_cut [OF assms, of "[]"] cut_utf8_chars by (simp add: utf8_chars_concat)
  then show ?thesis by (simp add: replace_unit_word_def replace_words_twice [OF assms])
qed

lemma abbreviation_ascii [simp]: "ascii_unit (abbreviation_of u)"
  by (cases u) (simp_all add: ascii_unit_def)

lemma per_second_bit: "FLAG_PER_SECOND \<noteq> 0"
  "(f OR FLAG_PER_SECOND) AND FLAG_PER_SECOND = FLAG_PER_SECOND"
  "(f AND NOT FLAG_PER_SECOND) AND FLAG_PER_SECOND = 0"
  "(f OR FLAG_PER_SECOND) OR FLAG_PER_SECOND = f OR FLAG_PER_SECOND"
  "(f OR FLAG_PER_SECOND) AND NOT FLAG_PER_SECOND = f AND NOT FLAG_PER_SECOND"
  "(f AND NOT FLAG_PER_SECOND) OR FLAG_PER_SECOND = f OR FLAG_PER_SECOND"
  "(f AND NOT FLAG_PER_SECOND) AND NOT FLAG_PER_SECOND = f AND NOT FLAG_PER_SECOND"
  by (simp add: FLAG_PER_SECOND_def, (auto simp: bit_eq_iff bit_simps)+)

text \<open>The unit of a widget is what it was last set to, and an earlier setting leaves no trace in
  its flags, its label or its suffix, whatever words and characters the texts hold.\<close>

theorem last_unit_wins:
  "tap_rate_unit (set_tap_rate_unit uni u w) = u
   \<and> set_tap_rate_unit uni v (set_tap_rate_unit uni u w) = set_tap_rate_unit uni v w"
  by (cases u; cases v)
    (simp_all add: set_tap_rate_unit_def set_flag_def Let_def tap_rate_unit_def has_flag_def
      replace_unit_word_twice per_second_bit del: abbreviation_of.simps)

section \<open>The catalogue\<close>

definition rate_labelled :: "u8 \<Rightarrow> bool" where
  "rate_labelled i = (case source_info i of
      None \<Rightarrow> False
    | Some s \<Rightarrow> tap_rate_label (si_key s) \<noteq> None \<and> i \<noteq> HISTORY_PERIOD)"

lemma catalogue_rates:
  "list_all (\<lambda>(i, key). i \<noteq> 0 \<and> is_tap_rate i = (tap_rate_label key \<noteq> None \<and> i \<noteq> HISTORY_PERIOD)) ALL_SOURCES"
  by code_simp

lemma tap_rates_known:
  assumes "is_tap_rate i"
  shows "i \<in> fst ` set ALL_SOURCES"
proof -
  have "unat i \<in> set ([51..<60] @ [74..<80] @ [84..<88])"
    using assms by (auto simp: is_tap_rate_def source_id_defs word_le_nat_alt)
  moreover have "i = of_nat (unat i)" by simp
  ultimately have "i \<in> of_nat ` set ([51..<60] @ [74..<80] @ [84..<88])"
    by (rule rev_image_eqI)
  then show ?thesis
    by (simp add: upt_rec ALL_SOURCES_def source_id_defs) auto
qed

lemma source_info_known:
  "source_info i = Some s \<Longrightarrow> i \<noteq> 0 \<Longrightarrow> (i, si_key s) \<in> set ALL_SOURCES"
  by (auto simp: source_info_def dest!: find_SomeD)

text \<open>The sources a unit switch applies to are exactly the ones the catalogue labels as tap rates;
  the remaining label is the history period's.\<close>

theorem tap_rates_are_labelled: "is_tap_rate i \<longleftrightarrow> rate_labelled i"
proof (cases "source_info i")
  case None
  then have "i \<notin> fst ` set ALL_SOURCES" by (simp add: source_info_None)
  then show ?thesis using None tap_rates_known by (auto simp: rate_labelled_def)
next
  case (Some s)
  show ?thesis
  proof (cases "i = 0")
    case True
    then show ?thesis
      by (simp add: rate_labelled_def source_info_def STATIC_SOURCE_def tap_rate_label_def
          is_tap_rate_def source_id_defs)
  next
    case False
    from source_info_known [OF Some False] catalogue_rates Some show ?thesis
      by (auto simp: list_all_iff rate_labelled_def)
  qed
qed

end
