(* ===== verification/Runtime.thy ===== *)
theory Runtime
  imports Feed Config Layouts Tap_Rate "HOL-Library.AList"
begin

text \<open>
  The daemon's controller: \<open>daemon/src/runtime.rs\<close>, with \<open>telemetry.rs\<close> (what goes to the
  pad's screen) and \<open>identity.rs\<close> (who owns a pad). One definition per arm of \<open>on_event\<close>, a
  function from the controller to the controller and the actions the daemon's loop then carries
  out. The readings of clocks other than the event's own \<open>now\<close>, and the UUID parser, come from
  an environment. Hash maps and sets that are iterated are lists here, in whatever order the
  program finds their entries.
\<close>

section \<open>What the pad shows\<close>

record env =
  uuid_parse :: "string \<Rightarrow> u8 list option"
  sys_now :: instant
  utc_now :: int

definition FLUSH_INTERVAL_IDLE :: duration where "FLUSH_INTERVAL_IDLE = from_millis 500"

definition flush_interval_playing :: "u32 \<Rightarrow> duration" where
  "flush_interval_playing hz = from_millis (1000 div unat (min (max hz 1) 30))"

record data_sync =
  ds_latest :: "u8 \<rightharpoonup> source_value"
  ds_sent :: "u8 \<rightharpoonup> source_value"
  ds_last_flush :: "instant option"

definition new_data_sync :: data_sync where
  "new_data_sync = \<lparr>ds_latest = Map.empty, ds_sent = Map.empty, ds_last_flush = None\<rparr>"

definition ingest :: "ui_value list \<Rightarrow> data_sync \<Rightarrow> data_sync" where
  "ingest vs d = d\<lparr>ds_latest := fold (\<lambda>(k, v) m. m(k \<mapsto> v)) vs (ds_latest d)\<rparr>"

definition ALL_U8 :: "u8 list" where "ALL_U8 = map of_nat [0..<256]"

text \<open>The entries of \<open>latest\<close> that differ from what was sent, in the order of their ids.\<close>

definition changed_values :: "data_sync \<Rightarrow> ui_value list" where
  "changed_values d = List.map_filter (\<lambda>s. case ds_latest d s of
       None \<Rightarrow> None
     | Some v \<Rightarrow> if ds_sent d s \<noteq> Some v then Some (s, v) else None) ALL_U8"

definition take_changes :: "instant \<Rightarrow> bool \<Rightarrow> u32 \<Rightarrow> bool \<Rightarrow> data_sync \<Rightarrow> data_sync \<times> ui_value list" where
  "take_changes clock playing playing_hz force d =
     (let interval = (if playing then flush_interval_playing playing_hz else FLUSH_INTERVAL_IDLE) in
      if \<not> force \<and> (case ds_last_flush d of Some t \<Rightarrow> clock - t < interval | None \<Rightarrow> False) then (d, [])
      else let changes = changed_values d in
        (d\<lparr>ds_last_flush := Some clock, ds_sent := fold (\<lambda>(k, v) m. m(k \<mapsto> v)) changes (ds_sent d)\<rparr>,
         changes))"

definition reset_sent :: "data_sync \<Rightarrow> data_sync" where
  "reset_sent d = d\<lparr>ds_sent := Map.empty\<rparr>"

definition clear_sync :: "data_sync \<Rightarrow> data_sync" where
  "clear_sync d = d\<lparr>ds_latest := Map.empty, ds_sent := Map.empty\<rparr>"

section \<open>Identity\<close>

definition OWNER_ID_LEN :: nat where "OWNER_ID_LEN = 16"

definition parse_owner_id :: "env \<Rightarrow> string \<Rightarrow> u8 list option" where
  "parse_owner_id e install_id = uuid_parse e install_id"

definition is_unclaimed :: "u8 list \<Rightarrow> bool" where
  "is_unclaimed owner_id = list_all (\<lambda>b. b = 0) owner_id"

definition owns :: "env \<Rightarrow> string option \<Rightarrow> u8 list \<Rightarrow> bool" where
  "owns e install_id owner_id =
     (case Option.bind install_id (parse_owner_id e) of
        Some ours \<Rightarrow> owner_id = ours
      | None \<Rightarrow> False)"

section \<open>State\<close>

definition COOLDOWN_DURATION :: duration where "COOLDOWN_DURATION = from_secs 5"
definition HOST_STATUS_INTERVAL :: duration where "HOST_STATUS_INTERVAL = from_secs 1"
definition STATUS_POLL_INTERVAL :: duration where "STATUS_POLL_INTERVAL = from_secs 1"
definition RETRY_REWIND_MS :: rat where "RETRY_REWIND_MS = 2000"
definition AUTO_BACKUP_DELAY :: duration where "AUTO_BACKUP_DELAY = from_secs 20"
definition TAP_HISTORY_REFRESH :: duration where "TAP_HISTORY_REFRESH = from_secs 3600"
definition MAX_UNSAVED_ATTEMPTS :: nat where "MAX_UNSAVED_ATTEMPTS = 500"
definition TOSU_ONLY_PRESSES :: u32 where "TOSU_ONLY_PRESSES = 8"
definition DEVICE_PROTOCOL_VERSION :: u32 where "DEVICE_PROTOCOL_VERSION = 1"

datatype press_source = Undecided | FromPad | FromTosu

datatype counter_source = SourceDevice | SourcePc

record latency_stats =
  lat_samples :: u32
  lat_p50_us :: u32
  lat_p99_us :: u32
  lat_p999_us :: u32
  lat_max_us :: u32
  lat_deferred_reports :: u32

record he_calibration_status =
  key1_calibrated :: bool
  key2_calibrated :: bool
  cal_key1_rest :: u32
  cal_key1_full :: u32
  cal_key2_rest :: u32
  cal_key2_full :: u32
  is_locked :: bool
  is_calibrating :: bool
  noise_floor_rest :: u32
  noise_floor_movement :: u32

datatype he_cal_stage = CalNone | CalRest | CalKey1 | CalKey2 | CalSuccess | CalFailed

datatype he_cal_error = CalErrNone | RestNotStill | RestOutOfRange | RestPressed | SignalNotRising
  | SpanTooSmall | PeaksInconsistent | TooFewPeaks | TooManyPeaks | CalTimeout

record he_progress =
  prog_stage :: he_cal_stage
  prog_key_index :: u32
  prog_presses_done :: u32
  prog_error :: he_cal_error
  prog_error_message :: string
  prog_raw_value :: u32
  prog_key1_rest :: u32
  prog_key1_full :: u32
  prog_key2_rest :: u32
  prog_key2_full :: u32

record incompatible_device =
  inc_firmware_version :: string
  inc_protocol_version :: u32

record pending_takeover =
  pt_device_id :: string
  pt_device_key1 :: u64
  pt_device_key2 :: u64

record tap_snapshot =
  ts_current :: "attempt_stats option"
  ts_last :: "attempt_stats option"
  ts_history :: "tap_history option"
  ts_period_days :: u32
  ts_unsaved_attempts :: nat

record tap_state =
  tap_snapshot :: tap_snapshot
  period_unsaved :: bool

record daemon_state =
  mode :: runtime_mode
  device_connected :: bool
  the_device :: "device_info option"
  counters :: counter_state
  counters_source :: counter_source
  pc_counters :: "counter_state option"
  esp_counters :: "counter_state option"
  config :: device_config
  last_sync_time :: "string option"
  last_sync_error :: "string option"
  storage_error :: "string option"
  tosu_connected :: bool
  osu_active :: bool
  latency :: "latency_stats option"
  pending_replacement :: "string option"
  install_id :: "string option"
  takeover :: "pending_takeover option"
  foreign_pad :: bool
  incompatible :: "incompatible_device option"
  ui_values :: "ui_value list"
  custom_layouts :: "(screen \<times> layout) list"
  last_backup :: "string option"
  nvs_restore_pending :: bool
  tap :: tap_state
  he_status :: "he_calibration_status option"
  latest_he_progress :: "he_progress option"

definition pad_guard :: "daemon_state \<Rightarrow> string option" where
  "pad_guard s =
     (if foreign_pad s \<or> takeover s \<noteq> None
      then Some ''Pad belongs to another install; resolve the takeover prompt first''
      else if pending_replacement s \<noteq> None
      then Some ''A replacement pad is waiting on your answer; resolve that prompt first''
      else None)"

definition may_touch_pad :: "daemon_state \<Rightarrow> bool" where
  "may_touch_pad s \<longleftrightarrow> pad_guard s = None"

datatype ownership = NoIdentity | Unclaimed | Ours | Someone

record pending_counter_reset =
  reset_device_id :: "string option"

definition applies_to :: "pending_counter_reset \<Rightarrow> string \<Rightarrow> bool" where
  "applies_to r device = (case reset_device_id r of None \<Rightarrow> True | Some i \<Rightarrow> i = device)"

record pending_operations =
  pending_config :: "device_config option"
  pending_layouts :: "(screen \<times> layout option) list"
  pending_device_push :: "pending_counter_reset option"
  pending_last_seen :: "string option"

definition no_pending :: pending_operations where
  "no_pending = \<lparr>pending_config = None, pending_layouts = [], pending_device_push = None,
     pending_last_seen = None\<rparr>"

section \<open>Events and actions\<close>

record log_event =
  ev_timestamp_ms :: u32
  ev_level :: u32
  ev_event_id :: u32
  ev_arg0 :: u32
  ev_arg1 :: u32
  ev_tag :: string
  ev_message :: string

record telemetry =
  tl_is_playing :: bool
  tl_live_ms :: rat
  tl_title :: string
  tl_values :: "ui_value list"
  tl_beatmap :: beatmap_ref
  tl_failed :: bool
  tl_clock :: "song_clock option"
  tl_other_player :: bool
  tl_grade :: "string option"

record key_counts =
  kc_k1 :: u32
  kc_k2 :: u32
  kc_at :: instant

datatype runtime_event =
    DeviceConnected device_info "device_config option"
  | DeviceOwnership "u8 list"
  | DeviceDisconnected
  | DeviceCounters counter_state
  | DeviceStatus latency_stats "he_calibration_status option"
  | DeviceHeCalibrationProgress he_progress
  | DeviceLayoutAck u8 bool string
  | DeviceLogBatch "log_event list"
  | TosuTelemetry telemetry
  | TosuKeys key_counts
  | PadPressTimes bool
  | PadPresses u64 "(u8 \<times> u64) list" u32 instant
  | TosuConnectionChanged bool
  | OsuActiveChanged bool
  | Tick instant
  | SyncCompleted bool counter_state "string option" "string option"
  | SqliteReconnected "device_config option" "(screen \<times> layout) list" "counter_state option"
  | SqliteError string

datatype log_level = LevelDebug | LevelInfo | LevelWarn | LevelError

datatype runtime_action =
    TakeOverIfPadIsAhead
  | SendTimeSync
  | SendConfig device_config
  | SaveDeviceConfig device_config
  | SendHostStatus bool bool u32 bool
  | SendDataUpdate "ui_value list"
  | PlayAnimation u32 string
  | SendLayout screen layout
  | TriggerSync
  | ClaimOwnership
  | RequestDeviceStatus
  | SetStorageWritesAllowed bool
  | SaveInitialDeviceState device_info counter_state
  | TouchDeviceLastSeen string
  | PushEspLog log_level string string
  | WriteAutoBackup
  | SaveTapStats "attempt_stats list" "u32 option"
  | RefreshTapHistory
  | LaunchGuiCalibration

section \<open>The controller\<close>

record controller =
  state :: daemon_state
  pending_ops :: pending_operations
  cooldown_deadline :: "instant option"
  backup_deadline :: "instant option"
  backup_after_sync :: bool
  last_host_status :: instant
  last_status_poll :: instant
  last_periodic_sync :: instant
  last_periodic_time_sync :: instant
  last_synced_counters :: "counter_state option"
  play_id :: u32
  last_live_ms :: "rat option"
  data_sync :: data_sync
  known_devices :: "string list"
  has_initial_db_entry :: bool
  reported_owner :: "u8 list option"
  pre_hello_counters :: "counter_state option"
  replacement_was_pending :: bool
  tap_attempt :: "attempt_tracker option"
  last_keys :: "(u32 \<times> u32) option"
  last_failed :: bool
  tap_unsaved :: "attempt_stats list"
  tap_published_history :: "tap_history option"
  last_tap_history_refresh :: instant
  pad_press_times :: bool
  pad_epoch :: "instant option"
  press_source :: press_source
  tosu_pending :: "(u32 \<times> u32 \<times> instant) list"
  results_armed :: bool
  on_results_screen :: bool
  cal_gui_launched :: bool

text \<open>A step of the controller and what it asks the daemon to do; two steps in a row.\<close>

type_synonym step = "controller \<Rightarrow> controller \<times> runtime_action list"

definition seq :: "step \<Rightarrow> step \<Rightarrow> step" where
  "seq f g c = (let (c1, a) = f c; (c2, b) = g c1 in (c2, a @ b))"

lemma fst_seq: "fst (seq f g c) = fst (g (fst (f c)))"
  by (simp add: seq_def split_beta Let_def)

lemma snd_seq: "snd (seq f g c) = snd (f c) @ snd (g (fst (f c)))"
  by (simp add: seq_def split_beta Let_def)

definition remember :: "string \<Rightarrow> string list \<Rightarrow> string list" where
  "remember i ids = (if List.member ids i then ids else ids @ [i])"

abbreviation update_state :: "(daemon_state \<Rightarrow> daemon_state) \<Rightarrow> controller \<Rightarrow> controller" where
  "update_state f c \<equiv> c\<lparr>state := f (state c)\<rparr>"

definition new_state :: "device_config \<Rightarrow> device_info option \<Rightarrow> counter_state
    \<Rightarrow> (screen \<times> layout) list \<Rightarrow> string option \<Rightarrow> daemon_state" where
  "new_state cfg dev ctrs layouts err =
     \<lparr>mode = Idle, device_connected = False, the_device = dev, counters = ctrs,
      counters_source = SourcePc,
      pc_counters = (if counter_device ctrs = [] then None else Some ctrs), esp_counters = None,
      config = cfg, last_sync_time = None, last_sync_error = None, storage_error = err,
      tosu_connected = False, osu_active = False, latency = None, pending_replacement = None,
      install_id = None, takeover = None, foreign_pad = False, incompatible = None,
      ui_values = [], custom_layouts = layouts, last_backup = None, nvs_restore_pending = False,
      tap = \<lparr>tap_snapshot = \<lparr>ts_current = None, ts_last = None, ts_history = None,
              ts_period_days = DEFAULT_HISTORY_DAYS, ts_unsaved_attempts = 0\<rparr>,
             period_unsaved = False\<rparr>,
      he_status = None, latest_he_progress = None\<rparr>"

definition new_controller :: "env \<Rightarrow> device_config \<Rightarrow> device_info option \<Rightarrow> counter_state
    \<Rightarrow> (screen \<times> layout) list \<Rightarrow> string option \<Rightarrow> string list \<Rightarrow> instant \<Rightarrow> controller" where
  "new_controller e cfg dev ctrs layouts err existing now =
     (let known = fold remember existing [];
          known = (case dev of Some d \<Rightarrow> remember (device_id d) known | None \<Rightarrow> known)
      in \<lparr>state = new_state cfg dev ctrs layouts err, pending_ops = no_pending,
          cooldown_deadline = None, backup_deadline = None, backup_after_sync = False,
          last_host_status = now - HOST_STATUS_INTERVAL, last_status_poll = now,
          last_periodic_sync = now, last_periodic_time_sync = now, last_synced_counters = None,
          play_id = word_of_int (utc_now e div 1000000000), last_live_ms = None,
          data_sync = new_data_sync, known_devices = known,
          has_initial_db_entry = (existing \<noteq> [] \<or> dev \<noteq> None), reported_owner = None,
          pre_hello_counters = None, replacement_was_pending = False, tap_attempt = None,
          last_keys = None, last_failed = False, tap_unsaved = [], tap_published_history = None,
          last_tap_history_refresh = now, pad_press_times = False, pad_epoch = None,
          press_source = Undecided, tosu_pending = [], results_armed = False,
          on_results_screen = False, cal_gui_launched = False\<rparr>)"

section \<open>Tap rate attempts\<close>

abbreviation update_snapshot :: "(tap_snapshot \<Rightarrow> tap_snapshot) \<Rightarrow> controller \<Rightarrow> controller" where
  "update_snapshot f \<equiv> update_state (\<lambda>s. s\<lparr>tap := (tap s)\<lparr>tap_snapshot := f (tap_snapshot (tap s))\<rparr>\<rparr>)"

definition ingest_values :: "ui_value list \<Rightarrow> controller \<Rightarrow> controller" where
  "ingest_values vs c = c\<lparr>data_sync := ingest vs (data_sync c)\<rparr>"

definition publish_tap_attempt :: "controller \<Rightarrow> controller" where
  "publish_tap_attempt c =
     (let s = map_option snapshot (tap_attempt c) in
      update_snapshot (\<lambda>t. t\<lparr>ts_current := s\<rparr>) (ingest_values (attempt_ui_values s) c))"

definition publish_tap_history :: "bool \<Rightarrow> controller \<Rightarrow> controller" where
  "publish_tap_history force c =
     (let h = ts_history (tap_snapshot (tap (state c))) in
      if force \<or> h \<noteq> tap_published_history c
      then (ingest_values (history_ui_values h) c)\<lparr>tap_published_history := h\<rparr> else c)"

definition cap_unsaved :: "controller \<Rightarrow> controller" where
  "cap_unsaved c = c\<lparr>tap_unsaved := drop (length (tap_unsaved c) - MAX_UNSAVED_ATTEMPTS) (tap_unsaved c)\<rparr>"

definition requeue_tap_attempts :: "attempt_stats list \<Rightarrow> controller \<Rightarrow> controller" where
  "requeue_tap_attempts attempts c = cap_unsaved (c\<lparr>tap_unsaved := attempts @ tap_unsaved c\<rparr>)"

definition finish_tap_attempt :: "env \<Rightarrow> controller \<Rightarrow> controller" where
  "finish_tap_attempt e c =
     (case tap_attempt c of
        None \<Rightarrow> c
      | Some tracker \<Rightarrow>
          let s = finish (utc_now e) tracker;
              c = ingest_values (attempt_ui_values (Some s)) (c\<lparr>tap_attempt := None\<rparr>);
              c = (if is_recordable s then cap_unsaved (c\<lparr>tap_unsaved := tap_unsaved c @ [s]\<rparr>) else c)
          in update_snapshot (\<lambda>t. t\<lparr>ts_current := None, ts_last := Some s,
                ts_unsaved_attempts := length (tap_unsaved c)\<rparr>) c)"

definition start_tap_attempt :: "env \<Rightarrow> beatmap_ref \<Rightarrow> instant \<Rightarrow> controller \<Rightarrow> controller" where
  "start_tap_attempt e bm now c =
     publish_tap_attempt ((finish_tap_attempt e c)\<lparr>press_source := Undecided, tosu_pending := [],
       tap_attempt := Some (new_attempt bm now (utc_now e))\<rparr>)"

definition pad_times_presses :: "controller \<Rightarrow> bool" where
  "pad_times_presses c \<longleftrightarrow> pad_press_times c \<and> device_connected (state c) \<and> \<not> foreign_pad (state c)"

definition feed_presses :: "(u32 \<times> u32 \<times> instant) list \<Rightarrow> attempt_tracker \<Rightarrow> attempt_tracker" where
  "feed_presses ps a = fold (\<lambda>(d1, d2, tm) a. attempt_presses d1 d2 tm a) ps a"

definition watch_replay :: "controller \<Rightarrow> controller" where
  "watch_replay c =
     (case tap_attempt c of
        None \<Rightarrow> c
      | Some tracker \<Rightarrow>
          if at_replay tracker then c
          else
            let tracker = mark_replay tracker;
                c = (if press_source c \<noteq> FromTosu
                     then c\<lparr>press_source := FromTosu, tosu_pending := [],
                            tap_attempt := Some (feed_presses (tosu_pending c) (attempt_coarse tracker))\<rparr>
                     else c\<lparr>tap_attempt := Some tracker\<rparr>)
            in publish_tap_attempt c)"

text \<open>The end of \<open>tosu_presses\<close>: the presses go to the attempt being played.\<close>

definition count_presses :: "u32 \<Rightarrow> u32 \<Rightarrow> instant \<Rightarrow> controller \<Rightarrow> controller" where
  "count_presses d1 d2 tm c =
     (case tap_attempt c of
        Some tracker \<Rightarrow> publish_tap_attempt (c\<lparr>tap_attempt := Some (attempt_presses d1 d2 tm tracker)\<rparr>)
      | None \<Rightarrow> c)"

definition tosu_presses :: "u32 \<Rightarrow> u32 \<Rightarrow> instant \<Rightarrow> controller \<Rightarrow> controller" where
  "tosu_presses d1 d2 tm c =
     (case press_source c of
        FromPad \<Rightarrow> c
      | FromTosu \<Rightarrow> count_presses d1 d2 tm c
      | Undecided \<Rightarrow>
          if \<not> pad_times_presses c
          then count_presses d1 d2 tm
                 (c\<lparr>press_source := FromTosu, tap_attempt := map_option attempt_coarse (tap_attempt c)\<rparr>)
          else
            let pending = tosu_pending c @ [(d1, d2, tm)] in
            if sum_list (map (\<lambda>(a, b, _). a + b) pending) < TOSU_ONLY_PRESSES
            then c\<lparr>tosu_pending := pending\<rparr>
            else publish_tap_attempt
              (case tap_attempt c of
                 None \<Rightarrow> c\<lparr>press_source := FromTosu, tosu_pending := pending\<rparr>
               | Some tracker \<Rightarrow> c\<lparr>press_source := FromTosu, tosu_pending := [],
                   tap_attempt := Some (feed_presses pending (mark_replay (attempt_coarse tracker)))\<rparr>))"

text \<open>The presses of a batch made since the attempt began, at their time on this host's clock.\<close>

definition own_presses :: "instant \<Rightarrow> instant \<Rightarrow> (u8 \<times> u64) list \<Rightarrow> (u32 \<times> u32 \<times> instant) list" where
  "own_presses epoch start ps = List.map_filter (\<lambda>(key, t_us).
       let tm = epoch + from_micros (unat t_us) in
       if tm < start then None
       else Some (if key = 1 then (1, 0, tm) else (0, 1, tm))) ps"

definition pad_presses :: "u64 \<Rightarrow> (u8 \<times> u64) list \<Rightarrow> instant \<Rightarrow> controller \<Rightarrow> controller" where
  "pad_presses now_us ps received c0 =
     (if received < from_micros (unat now_us) then c0
      else
        let zero = received - from_micros (unat now_us);
            epoch = min (case pad_epoch c0 of Some t \<Rightarrow> t | None \<Rightarrow> zero) zero;
            c = c0\<lparr>pad_epoch := Some epoch\<rparr>
        in if mode (state c) \<noteq> Playing \<or> press_source c = FromTosu then c
           else (case tap_attempt c of
               None \<Rightarrow> c
             | Some tracker \<Rightarrow>
                 let fed = own_presses epoch (origin tracker) ps in
                 if fed = [] then c
                 else publish_tap_attempt (c\<lparr>tap_attempt := Some (feed_presses fed tracker),
                        press_source := FromPad, tosu_pending := []\<rparr>)))"

section \<open>Result animations\<close>

definition results_animation :: "bool \<Rightarrow> bool \<Rightarrow> bool \<Rightarrow> string option \<Rightarrow> step" where
  "results_animation is_playing failed other_player results_grade c =
     (if is_playing
      then (c\<lparr>results_armed := (\<not> other_player \<and> \<not> failed), on_results_screen := False\<rparr>, [])
      else (case results_grade of
          None \<Rightarrow> (c\<lparr>results_armed := False, on_results_screen := False\<rparr>, [])
        | Some grade \<Rightarrow>
            if on_results_screen c then (c, [])
            else
              let c' = c\<lparr>on_results_screen := True, results_armed := False\<rparr> in
              if \<not> results_armed c then (c', [])
              else (case from_grade grade of
                  None \<Rightarrow> (c', [])
                | Some trig \<Rightarrow>
                    let animation = anim_get (result_animations (config (state c))) trig in
                    if animation = ANIM_NONE then (c', [])
                    else if device_connected (state c) \<and> \<not> foreign_pad (state c)
                    then (c', [PlayAnimation animation grade])
                    else (c', []))))"

section \<open>A pad connects\<close>

definition pc_is_ahead :: "counter_state option \<Rightarrow> counter_state \<Rightarrow> bool" where
  "pc_is_ahead pc pad = (case pc of
      None \<Rightarrow> False
    | Some pc \<Rightarrow> lifetime_key1 pc > lifetime_key1 pad \<or> lifetime_key2 pc > lifetime_key2 pad)"

definition ownership_of :: "env \<Rightarrow> daemon_state \<Rightarrow> u8 list \<Rightarrow> ownership" where
  "ownership_of e s owner_id =
     (if install_id s = None then NoIdentity
      else if is_unclaimed owner_id then Unclaimed
      else if owns e (install_id s) owner_id then Ours
      else Someone)"

definition set_install_id :: "string option \<Rightarrow> controller \<Rightarrow> controller" where
  "set_install_id i = update_state (\<lambda>s. s\<lparr>install_id := i\<rparr>)"

definition connect_incompatible :: "device_info \<Rightarrow> step" where
  "connect_incompatible info c =
     (update_state (\<lambda>s. s\<lparr>incompatible := Some \<lparr>inc_firmware_version = firmware_version info,
            inc_protocol_version = protocol_version info\<rparr>,
          device_connected := False, counters_source := SourcePc, esp_counters := None,
          counters := (case pre_hello_counters c of Some k \<Rightarrow> k | None \<Rightarrow> counters s)\<rparr>)
        (c\<lparr>pre_hello_counters := None, reported_owner := None\<rparr>), [])"

text \<open>A pad we have counters for that reports a factory-fresh NVS.\<close>

definition nvs_wiped :: "device_info \<Rightarrow> controller \<Rightarrow> bool" where
  "nvs_wiped info c =
     (let k = counters (state c) in
      List.member (known_devices c) (device_id info) \<and> counter_generation k \<le> 1
      \<and> lifetime_key1 k = 0 \<and> lifetime_key2 k = 0
      \<and> (case pc_counters (state c) of
           None \<Rightarrow> False
         | Some pc \<Rightarrow> counter_device pc = device_id info \<and> (lifetime_key1 pc > 0 \<or> lifetime_key2 pc > 0)))"

definition adopted_config :: "device_config \<Rightarrow> device_config \<Rightarrow> device_config" where
  "adopted_config cfg own =
     (let a = (if trim (tosu_endpoint cfg) = []
               then cfg\<lparr>tosu_endpoint := (if trim (tosu_endpoint own) = []
                      then tosu_endpoint default_config else tosu_endpoint own)\<rparr>
               else cfg)
      in a\<lparr>result_animations := result_animations own\<rparr>)"

definition connect_adopt :: "device_info \<Rightarrow> device_config option \<Rightarrow> step" where
  "connect_adopt info dev_cfg c0 =
     (let wiped = nvs_wiped info c0;
          c = update_state (\<lambda>s. s\<lparr>incompatible := None, device_connected := True,
                counters_source := SourceDevice, nvs_restore_pending := wiped\<rparr>)
              (c0\<lparr>pre_hello_counters := None\<rparr>)
      in case dev_cfg of
           Some cfg \<Rightarrow>
             if wiped then (c, [])
             else let a = adopted_config cfg (config (state c)) in
               (update_state (\<lambda>s. s\<lparr>config := a\<rparr>) c, [SaveDeviceConfig a])
         | None \<Rightarrow> (c, []))"

definition connect_owner :: "env \<Rightarrow> device_info \<Rightarrow> step" where
  "connect_owner e info c0 =
     (let owner = (case reported_owner c0 of Some x \<Rightarrow> x | None \<Rightarrow> []);
          c = update_state (\<lambda>s. s\<lparr>the_device := Some info, esp_counters := Some (counters s)\<rparr>)
                (c0\<lparr>reported_owner := None\<rparr>);
          ours = update_state (\<lambda>s. s\<lparr>takeover := None, foreign_pad := False\<rparr>) c
      in case ownership_of e (state c) owner of
           NoIdentity \<Rightarrow> (ours, [])
         | Ours \<Rightarrow> (ours, [])
         | Unclaimed \<Rightarrow> (ours, [ClaimOwnership])
         | Someone \<Rightarrow>
             (update_state (\<lambda>s. s\<lparr>takeover := Some \<lparr>pt_device_id = device_id info,
                  pt_device_key1 = lifetime_key1 (counters s),
                  pt_device_key2 = lifetime_key2 (counters s)\<rparr>, foreign_pad := True\<rparr>) c,
              [TakeOverIfPadIsAhead]))"

text \<open>A pad joins the known ones, and its state is saved (in IDLE) or noted for later.\<close>

definition touch_last_seen :: "device_info \<Rightarrow> step" where
  "touch_last_seen info c =
     (if mode (state c) = Idle then (c, [TouchDeviceLastSeen (device_id info)])
      else (c\<lparr>pending_ops := (pending_ops c)\<lparr>pending_last_seen := Some (device_id info)\<rparr>\<rparr>, []))"

definition save_initial :: "device_info \<Rightarrow> step" where
  "save_initial info c =
     (if mode (state c) = Idle then (c, [SaveInitialDeviceState info (counters (state c))]) else (c, []))"

definition learn_device :: "device_info \<Rightarrow> step" where
  "learn_device info c =
     seq (save_initial info) (touch_last_seen info)
       (c\<lparr>known_devices := remember (device_id info) (known_devices c)\<rparr>)"

definition connect_known :: "device_info \<Rightarrow> step" where
  "connect_known info c =
     (if \<not> List.member (known_devices c) (device_id info) then
        if known_devices c = [] \<and> \<not> has_initial_db_entry c
        then learn_device info (c\<lparr>has_initial_db_entry := True\<rparr>)
        else if counter_generation (counters (state c)) \<le> 1
          \<and> lifetime_key1 (counters (state c)) < 1000 \<and> lifetime_key2 (counters (state c)) < 1000
          \<and> pc_is_ahead (pc_counters (state c)) (counters (state c))
        then (update_state (\<lambda>s. s\<lparr>pending_replacement :=
                Some (case known_devices c of i # _ \<Rightarrow> i | [] \<Rightarrow> ''previous'')\<rparr>) c, [])
        else learn_device info c
      else touch_last_seen info c)"

definition host_status :: "controller \<Rightarrow> runtime_action" where
  "host_status c = SendHostStatus (tosu_connected (state c)) (mode (state c) = Playing) (play_id c)
     (osu_active (state c))"

definition connect_send :: "device_config option \<Rightarrow> instant \<Rightarrow> step" where
  "connect_send dev_cfg now c =
     (c\<lparr>data_sync := reset_sent (data_sync c), last_periodic_sync := now,
        last_periodic_time_sync := now, last_synced_counters := Some (counters (state c))\<rparr>,
      [SendTimeSync, RequestDeviceStatus]
      @ (if (dev_cfg = None \<or> nvs_restore_pending (state c)) \<and> \<not> foreign_pad (state c)
         then [SendConfig (config (state c))] else [])
      @ [host_status c]
      @ (if \<not> foreign_pad (state c) then map (\<lambda>(scr, l). SendLayout scr l) (custom_layouts (state c)) else [])
      @ (if storage_error (state c) = None \<and> may_touch_pad (state c) \<and> mode (state c) = Idle
         then [TriggerSync] else []))"

definition on_connected :: "env \<Rightarrow> instant \<Rightarrow> device_info \<Rightarrow> device_config option \<Rightarrow> step" where
  "on_connected e now info dev_cfg c =
     (if protocol_version info \<noteq> DEVICE_PROTOCOL_VERSION then connect_incompatible info c
      else seq (connect_adopt info dev_cfg) (seq (connect_owner e info)
             (seq (connect_known info) (connect_send dev_cfg now))) c)"

section \<open>The other events\<close>

definition on_ownership :: "u8 list \<Rightarrow> step" where
  "on_ownership owner_id c =
     (c\<lparr>reported_owner := Some owner_id, pre_hello_counters := Some (counters (state c))\<rparr>, [])"

definition on_disconnected :: step where
  "on_disconnected c =
     (update_state (\<lambda>s. s\<lparr>device_connected := False, counters_source := SourcePc, esp_counters := None,
          incompatible := None, takeover := None, foreign_pad := False, he_status := None,
          latest_he_progress := None\<rparr>)
        (c\<lparr>pad_press_times := False, pad_epoch := None, reported_owner := None,
           pre_hello_counters := None, cal_gui_launched := False\<rparr>), [])"

definition take_counters :: "counter_state \<Rightarrow> counter_state \<Rightarrow> counter_state" where
  "take_counters k own =
     (let own = own\<lparr>lifetime_key1 := lifetime_key1 k, lifetime_key2 := lifetime_key2 k\<rparr> in
      if counter_device k \<noteq> []
      then own\<lparr>counter_device := counter_device k, counter_generation := counter_generation k\<rparr>
      else own\<lparr>map_key1 := map_key1 k, map_key2 := map_key2 k\<rparr>)"

definition on_counters :: "counter_state \<Rightarrow> step" where
  "on_counters k = (\<lambda>c.
     (update_state (\<lambda>s. s\<lparr>counters := take_counters k (counters s),
          esp_counters := Some (take_counters k (counters s))\<rparr>) c, []))"

definition can_calibrate :: "controller \<Rightarrow> bool" where
  "can_calibrate c = (case the_device (state c) of Some i \<Rightarrow> he_calibration i | None \<Rightarrow> False)"

definition on_status :: "latency_stats \<Rightarrow> he_calibration_status option \<Rightarrow> step" where
  "on_status lat cal c0 =
     (let c = update_state (\<lambda>s. s\<lparr>latency := Some lat\<rparr>) c0 in
      if \<not> can_calibrate c then (update_state (\<lambda>s. s\<lparr>he_status := None\<rparr>) c, [])
      else
        let uncalibrated = (case cal of
              Some k \<Rightarrow> is_locked k \<or> \<not> key1_calibrated k \<or> \<not> key2_calibrated k
            | None \<Rightarrow> False);
            c = update_state (\<lambda>s. s\<lparr>he_status := cal\<rparr>) c
        in if uncalibrated \<and> \<not> cal_gui_launched c
           then (c\<lparr>cal_gui_launched := True\<rparr>, [LaunchGuiCalibration]) else (c, []))"

definition on_calibration_progress :: "he_progress \<Rightarrow> step" where
  "on_calibration_progress prog c =
     (if \<not> device_connected (state c) \<or> \<not> can_calibrate c then (c, [])
      else (update_state (\<lambda>s. s\<lparr>latest_he_progress := Some prog\<rparr>) c,
            if prog_stage prog = CalSuccess then [RequestDeviceStatus] else []))"

definition log_level_of :: "u32 \<Rightarrow> log_level" where
  "log_level_of n = (if n = 0 then LevelDebug else if n = 1 then LevelInfo else if n = 2 then LevelWarn
     else if n = 3 then LevelError else LevelInfo)"

text \<open>\<open>{:>9}\<close>.\<close>

definition pad9 :: "string \<Rightarrow> string" where
  "pad9 d = replicate (9 - length d) CHR '' '' @ d"

definition log_line :: "log_event \<Rightarrow> runtime_action" where
  "log_line ev =
     (let msg = (if ev_event_id ev \<noteq> 0
                 then format_diag_event (ev_event_id ev) (ev_arg0 ev) (ev_arg1 ev)
                 else if ev_message ev \<noteq> [] then ev_message ev
                 else ''ESP event '' @ show_u32 (ev_event_id ev))
      in if take 3 (ev_tag ev) = ''he.''
         then PushEspLog (log_level_of (ev_level ev)) (ev_tag ev)
           (''['' @ pad9 (show_u32 (ev_timestamp_ms ev)) @ '' ms] '' @ msg)
         else PushEspLog (log_level_of (ev_level ev)) ''firmware'' msg)"

definition on_log_event :: "log_event \<Rightarrow> step" where
  "on_log_event ev c =
     (if ev_event_id ev = DIAG_EVENT_NVS_ERASED \<and> device_connected (state c)
        \<and> \<not> foreign_pad (state c) \<and> \<not> nvs_restore_pending (state c)
      then (update_state (\<lambda>s. s\<lparr>nvs_restore_pending := True\<rparr>) c,
            (if mode (state c) = Idle \<and> may_touch_pad (state c) then [TriggerSync] else []) @ [log_line ev])
      else (c, [log_line ev]))"

primrec on_log_batch :: "log_event list \<Rightarrow> step" where
  "on_log_batch [] c = (c, [])"
| "on_log_batch (ev # evs) c = seq (on_log_event ev) (on_log_batch evs) c"

section \<open>tosu\<close>

text \<open>The attempt a play frame belongs to: a new one, a failed one, or the one under way.\<close>

definition is_new_attempt :: "telemetry \<Rightarrow> controller \<Rightarrow> bool" where
  "is_new_attempt t c \<longleftrightarrow> mode (state c) \<noteq> Playing
     \<or> (case last_live_ms c of Some prev \<Rightarrow> tl_live_ms t < prev - RETRY_REWIND_MS | None \<Rightarrow> False)"

definition play_attempt :: "env \<Rightarrow> instant \<Rightarrow> telemetry \<Rightarrow> controller \<Rightarrow> controller" where
  "play_attempt e now t c0 =
     (let c = c0\<lparr>last_live_ms := Some (tl_live_ms t)\<rparr> in
      if is_new_attempt t c0
      then start_tap_attempt e (tl_beatmap t) now (c\<lparr>play_id := play_id c + 1, last_failed := tl_failed t\<rparr>)
      else if tl_failed t \<and> \<not> last_failed c
      then finish_tap_attempt e (c\<lparr>last_failed := True\<rparr>)
      else c\<lparr>tap_attempt := map_option (update_beatmap (tl_beatmap t)) (tap_attempt c)\<rparr>)"

definition play_clock :: "instant \<Rightarrow> telemetry \<Rightarrow> controller \<Rightarrow> controller" where
  "play_clock now t c =
     (case (tap_attempt c, tl_clock t) of
        (Some tracker, Some clock) \<Rightarrow> c\<lparr>tap_attempt := Some (move_song_clock clock now tracker)\<rparr>
      | _ \<Rightarrow> c)"

definition enter_play :: step where
  "enter_play c =
     (if mode (state c) \<noteq> Playing
      then (update_state (\<lambda>s. s\<lparr>mode := Playing\<rparr>)
              (c\<lparr>cooldown_deadline := None, backup_deadline := None, backup_after_sync := False\<rparr>),
            [SetStorageWritesAllowed False])
      else (c, []))"

definition announce_attempt :: "env \<Rightarrow> instant \<Rightarrow> bool \<Rightarrow> step" where
  "announce_attempt e now is_new c =
     (if is_new \<and> device_connected (state c)
      then let (d, changes) = take_changes (sys_now e) True (gameplay_display_hz (config (state c))) True
                 (data_sync c)
           in (c\<lparr>last_host_status := now, data_sync := d\<rparr>,
               SendHostStatus True True (play_id c) (osu_active (state c))
               # (if changes \<noteq> [] \<and> \<not> foreign_pad (state c) then [SendDataUpdate changes] else []))
      else (c, []))"

definition play_frame :: "env \<Rightarrow> instant \<Rightarrow> telemetry \<Rightarrow> step" where
  "play_frame e now t c =
     seq enter_play (announce_attempt e now (is_new_attempt t c))
       ((if tl_other_player t then watch_replay else id) (play_clock now t (play_attempt e now t c)))"

definition leave_play :: "env \<Rightarrow> instant \<Rightarrow> step" where
  "leave_play e now c0 =
     (let c = update_state (\<lambda>s. s\<lparr>mode := Cooldown\<rparr>)
                ((finish_tap_attempt e c0)\<lparr>last_live_ms := None, cooldown_deadline := Some (now + COOLDOWN_DURATION)\<rparr>)
      in (c, SetStorageWritesAllowed False
             # (if device_connected (state c)
                then [SendHostStatus True False (play_id c) (osu_active (state c))] else [])))"

definition on_telemetry :: "env \<Rightarrow> instant \<Rightarrow> telemetry \<Rightarrow> step" where
  "on_telemetry e now t c =
     seq (if tl_is_playing t then play_frame e now t
          else if mode (state c) = Playing then leave_play e now
          else (\<lambda>c. (c, [])))
         (results_animation (tl_is_playing t) (tl_failed t) (tl_other_player t) (tl_grade t))
       (update_state (\<lambda>s. s\<lparr>ui_values := tl_values t\<rparr>) (ingest_values (tl_values t) c))"

text \<open>osu! restarts its counters with every play.\<close>

definition key_delta :: "u32 \<Rightarrow> u32 \<Rightarrow> u32" where
  "key_delta new old = (if new \<ge> old then new - old else new)"

definition on_keys :: "key_counts \<Rightarrow> step" where
  "on_keys k c0 =
     (let c = c0\<lparr>last_keys := Some (kc_k1 k, kc_k2 k)\<rparr> in
      if mode (state c) = Playing \<and> tap_attempt c \<noteq> None
      then (case last_keys c0 of
          None \<Rightarrow> (c, [])
        | Some (k1, k2) \<Rightarrow>
            let d1 = key_delta (kc_k1 k) k1; d2 = key_delta (kc_k2 k) k2 in
            (if d1 > 0 \<or> d2 > 0 then tosu_presses d1 d2 (kc_at k) c else c, []))
      else (c, []))"

definition on_press_times :: "bool \<Rightarrow> step" where
  "on_press_times on c = (c\<lparr>pad_press_times := on, pad_epoch := None\<rparr>, [])"

definition on_pad_presses :: "u64 \<Rightarrow> (u8 \<times> u64) list \<Rightarrow> u32 \<Rightarrow> instant \<Rightarrow> step" where
  "on_pad_presses now_us ps dropped received c = (pad_presses now_us ps received c, [])"

definition on_tosu_connection :: "env \<Rightarrow> instant \<Rightarrow> bool \<Rightarrow> step" where
  "on_tosu_connection e now up c0 =
     (let was_playing = (mode (state c0) = Playing);
          c = update_state (\<lambda>s. s\<lparr>tosu_connected := up\<rparr>) c0;
          c = (if \<not> up then (finish_tap_attempt e c)\<lparr>last_keys := None\<rparr> else c);
          stop = (\<not> up \<and> was_playing);
          c = (if stop then update_state (\<lambda>s. s\<lparr>mode := Cooldown\<rparr>)
                 (c\<lparr>cooldown_deadline := Some (now + COOLDOWN_DURATION), last_live_ms := None\<rparr>) else c);
          c = (if \<not> up
               then publish_tap_history True (ingest_values (attempt_ui_values None)
                      (c\<lparr>data_sync := clear_sync (data_sync c)\<rparr>)) else c)
      in (c\<lparr>last_host_status := now\<rparr>,
          (if stop then [SetStorageWritesAllowed False] else [])
          @ (if device_connected (state c)
             then [SendHostStatus up False (play_id c) (osu_active (state c))] else [])))"

definition on_osu_active :: "instant \<Rightarrow> bool \<Rightarrow> step" where
  "on_osu_active now active c0 =
     (let c = update_state (\<lambda>s. s\<lparr>osu_active := active\<rparr>) c0 in
      if device_connected (state c) then (c\<lparr>last_host_status := now\<rparr>, [host_status c]) else (c, []))"

section \<open>The clock tick\<close>

definition tick_cooldown :: "instant \<Rightarrow> step" where
  "tick_cooldown now c =
     (case cooldown_deadline c of
        Some deadline \<Rightarrow>
          if mode (state c) = Cooldown \<and> now \<ge> deadline \<and> \<not> may_touch_pad (state c)
          then (update_state (\<lambda>s. s\<lparr>mode := Idle\<rparr>) (c\<lparr>cooldown_deadline := None\<rparr>),
                [SetStorageWritesAllowed True])
          else if mode (state c) = Cooldown \<and> now \<ge> deadline
          then (update_state (\<lambda>s. s\<lparr>mode := Sync\<rparr>) (c\<lparr>cooldown_deadline := None, backup_after_sync := True\<rparr>),
                [SetStorageWritesAllowed True, TriggerSync])
          else (c, [])
      | None \<Rightarrow> (c, []))"

definition tick_status_poll :: "instant \<Rightarrow> step" where
  "tick_status_poll now c =
     (if now - last_status_poll c \<ge> STATUS_POLL_INTERVAL
      then (c\<lparr>last_status_poll := now\<rparr>, if device_connected (state c) then [RequestDeviceStatus] else [])
      else (c, []))"

definition tick_heartbeat :: "instant \<Rightarrow> step" where
  "tick_heartbeat now c =
     (if device_connected (state c) \<and> now - last_host_status c \<ge> HOST_STATUS_INTERVAL
      then (c\<lparr>last_host_status := now\<rparr>, [host_status c]) else (c, []))"

definition tick_values :: "env \<Rightarrow> instant \<Rightarrow> step" where
  "tick_values e now c0 =
     (let c = (case tap_attempt c0 of
            Some tracker \<Rightarrow> publish_tap_attempt (c0\<lparr>tap_attempt := Some (attempt_advance now tracker)\<rparr>)
          | None \<Rightarrow> c0);
          c = publish_tap_history False c;
          c = update_snapshot (\<lambda>t. t\<lparr>ts_unsaved_attempts := length (tap_unsaved c)\<rparr>) c
      in if device_connected (state c) \<and> \<not> foreign_pad (state c)
         then let (d, changes) = take_changes (sys_now e) (mode (state c) = Playing)
                    (gameplay_display_hz (config (state c))) False (data_sync c)
              in (c\<lparr>data_sync := d\<rparr>, if changes \<noteq> [] then [SendDataUpdate changes] else [])
         else (c, []))"

definition counters_changed :: "controller \<Rightarrow> bool" where
  "counters_changed c = (case last_synced_counters c of
      Some prev \<Rightarrow> lifetime_key1 prev \<noteq> lifetime_key1 (counters (state c))
         \<or> lifetime_key2 prev \<noteq> lifetime_key2 (counters (state c))
    | None \<Rightarrow> True)"

definition tick_time_sync :: "instant \<Rightarrow> step" where
  "tick_time_sync now c =
     (if now - last_periodic_time_sync c \<ge> from_secs 600
      then (c\<lparr>last_periodic_time_sync := now\<rparr>, [SendTimeSync, RequestDeviceStatus]) else (c, []))"

definition tick_counter_sync :: "instant \<Rightarrow> step" where
  "tick_counter_sync now c =
     (if now - last_periodic_sync c \<ge> from_secs 300
      then (c\<lparr>last_periodic_sync := now\<rparr>,
            if counters_changed c \<and> storage_error (state c) = None \<and> may_touch_pad (state c)
            then [TriggerSync] else [])
      else (c, []))"

definition tick_periodic :: "instant \<Rightarrow> step" where
  "tick_periodic now c =
     (if device_connected (state c) \<and> \<not> foreign_pad (state c) \<and> mode (state c) = Idle
      then seq (tick_time_sync now) (tick_counter_sync now) c else (c, []))"

definition tick_tap_stats :: "instant \<Rightarrow> step" where
  "tick_tap_stats now c =
     (if mode (state c) = Idle \<and> storage_error (state c) = None
      then
        let t = tap (state c);
            days = (if period_unsaved t then Some (ts_period_days (tap_snapshot t)) else None)
        in if tap_unsaved c \<noteq> [] \<or> days \<noteq> None
           then (update_snapshot (\<lambda>t. t\<lparr>ts_unsaved_attempts := 0\<rparr>)
                   (update_state (\<lambda>s. s\<lparr>tap := (tap s)\<lparr>period_unsaved := False\<rparr>\<rparr>)
                     (c\<lparr>tap_unsaved := [], last_tap_history_refresh := now\<rparr>)),
                 [SaveTapStats (tap_unsaved c) days])
           else if now - last_tap_history_refresh c \<ge> TAP_HISTORY_REFRESH
           then (c\<lparr>last_tap_history_refresh := now\<rparr>, [RefreshTapHistory])
           else (c, [])
      else (c, []))"

definition tick_backup :: "instant \<Rightarrow> step" where
  "tick_backup now c =
     (case backup_deadline c of
        None \<Rightarrow> (c, [])
      | Some deadline \<Rightarrow>
          if mode (state c) \<noteq> Idle then (c\<lparr>backup_deadline := None\<rparr>, [])
          else if now \<ge> deadline then (c\<lparr>backup_deadline := None\<rparr>, [WriteAutoBackup])
          else (c, []))"

definition on_tick :: "env \<Rightarrow> instant \<Rightarrow> step" where
  "on_tick e now =
     seq (tick_cooldown now) (seq (tick_status_poll now) (seq (tick_heartbeat now)
       (seq (tick_values e now) (seq (tick_periodic now) (seq (tick_tap_stats now) (tick_backup now))))))"

section \<open>Syncs and storage\<close>

definition sync_outcome :: "bool \<Rightarrow> counter_state \<Rightarrow> string option \<Rightarrow> string option \<Rightarrow> instant
    \<Rightarrow> controller \<Rightarrow> controller" where
  "sync_outcome success k time_str err now c =
     (if success
      then update_state (\<lambda>s. s\<lparr>counters := k, pc_counters := Some k, esp_counters := Some k,
               last_sync_time := time_str, last_sync_error := None, nvs_restore_pending := False\<rparr>)
             (c\<lparr>last_synced_counters := Some k, last_periodic_sync := now, last_periodic_time_sync := now,
                known_devices := (case the_device (state c) of
                    Some i \<Rightarrow> remember (device_id i) (known_devices c)
                  | None \<Rightarrow> known_devices c)\<rparr>)
      else update_state (\<lambda>s. s\<lparr>last_sync_error := err\<rparr>) c)"

definition on_sync_completed :: "bool \<Rightarrow> counter_state \<Rightarrow> string option \<Rightarrow> string option \<Rightarrow> instant \<Rightarrow> step" where
  "on_sync_completed success k time_str err now c0 =
     (let c = sync_outcome success k time_str err now c0;
          c = (if mode (state c) = Sync then update_state (\<lambda>s. s\<lparr>mode := Idle\<rparr>) c else c);
          idle = (mode (state c) = Idle)
      in (c\<lparr>backup_after_sync := False,
            backup_deadline := (if backup_after_sync c \<and> idle then Some (now + AUTO_BACKUP_DELAY)
                                else backup_deadline c)\<rparr>,
          if idle then [SetStorageWritesAllowed True] else []))"

definition put_layout :: "screen \<times> layout \<Rightarrow> (screen \<times> layout) list \<Rightarrow> (screen \<times> layout) list" where
  "put_layout sl ls = AList.update (fst sl) (snd sl) ls"

definition on_sqlite_reconnected :: "device_config option \<Rightarrow> (screen \<times> layout) list
    \<Rightarrow> counter_state option \<Rightarrow> step" where
  "on_sqlite_reconnected cfg layouts stored c =
     (update_state (\<lambda>s. s\<lparr>storage_error := None,
        config := (case cfg of Some x \<Rightarrow> x | None \<Rightarrow> config s),
        custom_layouts := fold put_layout layouts (custom_layouts s),
        pc_counters := (case stored of Some st \<Rightarrow> Some st | None \<Rightarrow> pc_counters s)\<rparr>) c,
      [RefreshTapHistory])"

section \<open>One event\<close>

fun on_event :: "env \<Rightarrow> runtime_event \<Rightarrow> instant \<Rightarrow> step" where
  "on_event e (DeviceConnected info dev_cfg) now c = on_connected e now info dev_cfg c"
| "on_event e (DeviceOwnership owner_id) now c = on_ownership owner_id c"
| "on_event e DeviceDisconnected now c = on_disconnected c"
| "on_event e (DeviceCounters k) now c = on_counters k c"
| "on_event e (DeviceStatus lat cal) now c = on_status lat cal c"
| "on_event e (DeviceHeCalibrationProgress prog) now c = on_calibration_progress prog c"
| "on_event e (DeviceLayoutAck scr success message) now c = (c, [])"
| "on_event e (DeviceLogBatch evs) now c = on_log_batch evs c"
| "on_event e (TosuTelemetry t) now c = on_telemetry e now t c"
| "on_event e (TosuKeys k) now c = on_keys k c"
| "on_event e (PadPressTimes on) now c = on_press_times on c"
| "on_event e (PadPresses now_us ps dropped received) now c = on_pad_presses now_us ps dropped received c"
| "on_event e (TosuConnectionChanged up) now c = on_tosu_connection e now up c"
| "on_event e (OsuActiveChanged active) now c = on_osu_active now active c"
| "on_event e (Tick tm) now c = on_tick e tm c"
| "on_event e (SyncCompleted success k time_str err) now c = on_sync_completed success k time_str err now c"
| "on_event e (SqliteReconnected cfg layouts stored) now c = on_sqlite_reconnected cfg layouts stored c"
| "on_event e (SqliteError err) now c = (update_state (\<lambda>s. s\<lparr>storage_error := Some err\<rparr>) c, [])"

text \<open>
  One event against the shared state: what IPC handlers and syncs wrote to \<open>shared\<close> since the
  last event is what the controller sees, and what it leaves behind is shared again.
\<close>

definition apply_event :: "env \<Rightarrow> runtime_event \<Rightarrow> instant \<Rightarrow> controller \<times> daemon_state \<times> pending_operations
    \<Rightarrow> (controller \<times> daemon_state \<times> pending_operations) \<times> runtime_action list" where
  "apply_event e ev now = (\<lambda>(c0, shared, pending).
     (let c = (if replacement_was_pending c0 \<and> pending_replacement shared = None
               then (case the_device shared of
                   Some i \<Rightarrow> c0\<lparr>known_devices := remember (device_id i) (known_devices c0)\<rparr>
                 | None \<Rightarrow> c0)
               else c0);
          spare = state c;
          (c, actions) = on_event e ev now (c\<lparr>state := shared\<rparr>);
          shared = state c;
          c = c\<lparr>state := spare, replacement_was_pending := (pending_replacement shared \<noteq> None)\<rparr>;
          pending = (case pending_last_seen (pending_ops c) of
              Some i \<Rightarrow> pending\<lparr>pending_last_seen := Some i\<rparr>
            | None \<Rightarrow> pending);
          c = c\<lparr>pending_ops := (pending_ops c)\<lparr>pending_last_seen := None\<rparr>\<rparr>
      in ((c, shared, pending), actions)))"

end
