(* ===== verification/Runtime_Safety.thy ===== *)
theory Runtime_Safety
  imports Runtime "HOL-Library.Sublist"
begin

text \<open>
  What the controller promises: which actions it may emit in which state, that the storage gate
  follows the mode, when the automatic backup is written, and what becomes of attempts.
\<close>

section \<open>The parts of the state that decide\<close>

definition standing :: "daemon_state \<Rightarrow> runtime_mode \<times> bool \<times> pending_takeover option \<times> string option" where
  "standing s = (mode s, foreign_pad s, takeover s, pending_replacement s)"

definition core :: "controller \<Rightarrow> (runtime_mode \<times> bool \<times> pending_takeover option \<times> string option)
    \<times> instant option \<times> bool \<times> instant option" where
  "core c = (standing (state c), backup_deadline c, backup_after_sync c, cooldown_deadline c)"

named_theorems core_simps \<open>steps that leave the core of the controller alone\<close>

lemma core_state:
  assumes "core c' = core c"
  shows "mode (state c') = mode (state c)" "foreign_pad (state c') = foreign_pad (state c)"
    "takeover (state c') = takeover (state c)"
    "pending_replacement (state c') = pending_replacement (state c)"
    "backup_deadline c' = backup_deadline c" "backup_after_sync c' = backup_after_sync c"
    "cooldown_deadline c' = cooldown_deadline c"
  using assms by (simp_all add: core_def standing_def)

lemma core_fields [core_simps]:
  "core (c\<lparr>press_source := x_press_source\<rparr>) = core c"
  "core (c\<lparr>tosu_pending := x_tosu_pending\<rparr>) = core c"
  "core (c\<lparr>tap_attempt := x_tap_attempt\<rparr>) = core c"
  "core (c\<lparr>last_live_ms := x_last_live_ms\<rparr>) = core c"
  "core (c\<lparr>last_failed := x_last_failed\<rparr>) = core c"
  "core (c\<lparr>play_id := x_play_id\<rparr>) = core c"
  "core (c\<lparr>data_sync := x_data_sync\<rparr>) = core c"
  "core (c\<lparr>last_host_status := x_last_host_status\<rparr>) = core c"
  "core (c\<lparr>last_status_poll := x_last_status_poll\<rparr>) = core c"
  "core (c\<lparr>last_periodic_sync := x_last_periodic_sync\<rparr>) = core c"
  "core (c\<lparr>last_periodic_time_sync := x_last_periodic_time_sync\<rparr>) = core c"
  "core (c\<lparr>last_synced_counters := x_last_synced_counters\<rparr>) = core c"
  "core (c\<lparr>known_devices := x_known_devices\<rparr>) = core c"
  "core (c\<lparr>has_initial_db_entry := x_has_initial_db_entry\<rparr>) = core c"
  "core (c\<lparr>reported_owner := x_reported_owner\<rparr>) = core c"
  "core (c\<lparr>pre_hello_counters := x_pre_hello_counters\<rparr>) = core c"
  "core (c\<lparr>last_keys := x_last_keys\<rparr>) = core c"
  "core (c\<lparr>tap_unsaved := x_tap_unsaved\<rparr>) = core c"
  "core (c\<lparr>tap_published_history := x_tap_published_history\<rparr>) = core c"
  "core (c\<lparr>last_tap_history_refresh := x_last_tap_history_refresh\<rparr>) = core c"
  "core (c\<lparr>pad_press_times := x_pad_press_times\<rparr>) = core c"
  "core (c\<lparr>pad_epoch := x_pad_epoch\<rparr>) = core c"
  "core (c\<lparr>results_armed := x_results_armed\<rparr>) = core c"
  "core (c\<lparr>on_results_screen := x_on_results_screen\<rparr>) = core c"
  "core (c\<lparr>cal_gui_launched := x_cal_gui_launched\<rparr>) = core c"
  "core (c\<lparr>pending_ops := x_pending_ops\<rparr>) = core c"
  by (simp_all add: core_def)

lemma standing_fields [core_simps]:
  "standing (s\<lparr>tap := y_tap\<rparr>) = standing s"
  "standing (s\<lparr>ui_values := y_ui_values\<rparr>) = standing s"
  "standing (s\<lparr>tosu_connected := y_tosu_connected\<rparr>) = standing s"
  "standing (s\<lparr>osu_active := y_osu_active\<rparr>) = standing s"
  "standing (s\<lparr>latency := y_latency\<rparr>) = standing s"
  "standing (s\<lparr>he_status := y_he_status\<rparr>) = standing s"
  "standing (s\<lparr>latest_he_progress := y_latest_he_progress\<rparr>) = standing s"
  "standing (s\<lparr>nvs_restore_pending := y_nvs_restore_pending\<rparr>) = standing s"
  "standing (s\<lparr>config := y_config\<rparr>) = standing s"
  "standing (s\<lparr>the_device := y_the_device\<rparr>) = standing s"
  "standing (s\<lparr>esp_counters := y_esp_counters\<rparr>) = standing s"
  "standing (s\<lparr>counters := y_counters\<rparr>) = standing s"
  "standing (s\<lparr>counters_source := y_counters_source\<rparr>) = standing s"
  "standing (s\<lparr>device_connected := y_device_connected\<rparr>) = standing s"
  "standing (s\<lparr>incompatible := y_incompatible\<rparr>) = standing s"
  "standing (s\<lparr>pc_counters := y_pc_counters\<rparr>) = standing s"
  "standing (s\<lparr>last_sync_time := y_last_sync_time\<rparr>) = standing s"
  "standing (s\<lparr>last_sync_error := y_last_sync_error\<rparr>) = standing s"
  "standing (s\<lparr>storage_error := y_storage_error\<rparr>) = standing s"
  "standing (s\<lparr>custom_layouts := y_custom_layouts\<rparr>) = standing s"
  by (simp_all add: standing_def)

lemma core_state_update [core_simps]: "standing s = standing (state c) \<Longrightarrow> core (c\<lparr>state := s\<rparr>) = core c"
  by (simp add: core_def)

lemma core_if [core_simps]: "core (if b then c1 else c2) = (if b then core c1 else core c2)"
  by simp

lemma core_ingest [core_simps]: "core (ingest_values vs c) = core c"
  by (simp add: core_simps ingest_values_def)

lemma core_publish_attempt [core_simps]: "core (publish_tap_attempt c) = core c"
  by (simp add: core_simps publish_tap_attempt_def Let_def)

lemma core_publish_history [core_simps]: "core (publish_tap_history force c) = core c"
  by (simp add: core_simps publish_tap_history_def Let_def)

lemma core_cap [core_simps]: "core (cap_unsaved c) = core c"
  by (simp add: core_simps cap_unsaved_def)

lemma core_finish [core_simps]: "core (finish_tap_attempt e c) = core c"
  by (simp add: core_simps finish_tap_attempt_def Let_def split: option.split)

lemma core_start [core_simps]: "core (start_tap_attempt e bm now c) = core c"
  by (simp add: start_tap_attempt_def core_simps)

lemma core_watch [core_simps]: "core (watch_replay c) = core c"
  by (simp add: watch_replay_def core_simps Let_def split: option.split)

lemma core_count [core_simps]: "core (count_presses d1 d2 tm c) = core c"
  by (simp add: count_presses_def core_simps split: option.split)

lemma core_tosu_presses [core_simps]: "core (tosu_presses d1 d2 tm c) = core c"
  by (simp add: tosu_presses_def core_simps Let_def split: press_source.split option.split)

lemma core_pad_presses [core_simps]: "core (pad_presses now_us ps received c) = core c"
  by (simp add: pad_presses_def core_simps Let_def split: option.split)

lemma core_play_attempt [core_simps]: "core (play_attempt e now t c) = core c"
  by (simp add: play_attempt_def core_simps Let_def)

lemma core_play_clock [core_simps]: "core (play_clock now t c) = core c"
  by (simp add: play_clock_def core_simps split: option.split)

section \<open>A policy for actions\<close>

definition storage_mode :: "runtime_mode \<Rightarrow> bool" where
  "storage_mode m \<longleftrightarrow> m = Idle \<or> m = Sync"

fun permitted :: "daemon_state \<Rightarrow> runtime_action \<Rightarrow> bool" where
  "permitted s (SaveInitialDeviceState info k) = (mode s = Idle)"
| "permitted s (TouchDeviceLastSeen i) = (mode s = Idle)"
| "permitted s (SaveTapStats as days) = (mode s = Idle)"
| "permitted s WriteAutoBackup = (mode s = Idle)"
| "permitted s (SetStorageWritesAllowed b) = (b = storage_mode (mode s))"
| "permitted s TriggerSync = (may_touch_pad s \<and> storage_mode (mode s))"
| "permitted s (SendConfig cfg) = (\<not> foreign_pad s)"
| "permitted s (SendLayout scr l) = (\<not> foreign_pad s)"
| "permitted s (SendDataUpdate vs) = (\<not> foreign_pad s)"
| "permitted s (PlayAnimation a g) = (\<not> foreign_pad s)"
| "permitted s ClaimOwnership = (\<not> foreign_pad s)"
| "permitted s (SaveDeviceConfig cfg) = True"
| "permitted s TakeOverIfPadIsAhead = foreign_pad s"
| "permitted s SendTimeSync = True"
| "permitted s (SendHostStatus a b p q) = True"
| "permitted s RequestDeviceStatus = True"
| "permitted s (PushEspLog l t m) = True"
| "permitted s RefreshTapHistory = True"
| "permitted s LaunchGuiCalibration = True"

text \<open>A contract on steps: what they keep of a state, and what that state allows them to emit.\<close>

locale step_contract =
  fixes keeps :: "controller \<Rightarrow> controller \<Rightarrow> bool" and allowed :: "controller \<Rightarrow> runtime_action \<Rightarrow> bool"
  assumes keeps_refl: "keeps c c"
    and keeps_trans: "keeps c c' \<Longrightarrow> keeps c' c'' \<Longrightarrow> keeps c c''"
    and allowed_kept: "keeps c c' \<Longrightarrow> allowed c a \<Longrightarrow> allowed c' a"
begin

lemma all_kept: "keeps c c' \<Longrightarrow> list_all (allowed c) acts \<Longrightarrow> list_all (allowed c') acts"
  by (induction acts) (simp_all add: allowed_kept)

lemma seq_keeps:
  "keeps c (fst (f c)) \<Longrightarrow> keeps (fst (f c)) (fst (g (fst (f c)))) \<Longrightarrow> keeps c (fst (seq f g c))"
  unfolding fst_seq by (rule keeps_trans)

lemma seq_allowed:
  assumes "list_all (allowed (fst (f c))) (snd (f c))"
    and "keeps (fst (f c)) (fst (g (fst (f c))))"
    and "list_all (allowed (fst (g (fst (f c))))) (snd (g (fst (f c))))"
  shows "list_all (allowed (fst (seq f g c))) (snd (seq f g c))"
  using assms all_kept by (simp add: fst_seq snd_seq)

end

abbreviation same_standing :: "controller \<Rightarrow> controller \<Rightarrow> bool" where
  "same_standing c c' \<equiv> standing (state c') = standing (state c)"

abbreviation permits :: "controller \<Rightarrow> runtime_action \<Rightarrow> bool" where
  "permits c \<equiv> permitted (state c)"

lemma permitted_standing:
  assumes "standing s' = standing s"
  shows "permitted s' a = permitted s a"
  using assms by (cases a) (simp_all add: standing_def may_touch_pad_def pad_guard_def)

interpretation policy: step_contract same_standing permits
proof
  fix c c' :: controller and a
  assume "same_standing c c'" "permits c a"
  then show "permits c' a" using permitted_standing by blast
qed simp_all

lemma core_standing: "core c' = core c \<Longrightarrow> same_standing c c'"
  by (simp add: core_def)

section \<open>Every step keeps to the policy\<close>

definition obeys :: "step \<Rightarrow> controller \<Rightarrow> bool" where
  "obeys f c \<longleftrightarrow> list_all (permits (fst (f c))) (snd (f c))"

lemma seq_obeys:
  "obeys f c \<Longrightarrow> same_standing (fst (f c)) (fst (g (fst (f c)))) \<Longrightarrow> obeys g (fst (f c)) \<Longrightarrow> obeys (seq f g) c"
  unfolding obeys_def by (intro policy.seq_allowed)

lemma seq_obeys_core:
  assumes "obeys f c" "core (fst (g (fst (f c)))) = core (fst (f c))" "obeys g (fst (f c))"
  shows "obeys (seq f g) c"
  using assms seq_obeys core_standing by blast

lemma core_seq:
  "core (fst (f c)) = core c \<Longrightarrow> core (fst (g (fst (f c)))) = core (fst (f c)) \<Longrightarrow> core (fst (seq f g c)) = core c"
  by (simp add: fst_seq)

lemma obeys_silent [simp]: "obeys (\<lambda>c. (f c, [])) c"
  by (simp add: obeys_def)

named_theorems obeys_rules \<open>steps that obey the policy\<close>

subsection \<open>tosu\<close>

lemma core_results [core_simps]: "core (fst (results_animation p f o' g c)) = core c"
  by (simp add: results_animation_def core_simps Let_def split: option.split)

lemma results_obeys [obeys_rules]: "obeys (results_animation p f o' g) c"
  by (simp add: obeys_def results_animation_def Let_def split: option.split)

lemma core_announce [core_simps]: "core (fst (announce_attempt e now n c)) = core c"
  by (simp add: announce_attempt_def core_simps split: prod.split)

lemma announce_obeys [obeys_rules]: "obeys (announce_attempt e now n) c"
  by (simp add: obeys_def announce_attempt_def split: prod.split)

lemma enter_play_obeys [obeys_rules]: "obeys enter_play c"
  by (simp add: obeys_def enter_play_def storage_mode_def)

lemma play_frame_obeys [obeys_rules]: "obeys (play_frame e now t) c"
  unfolding obeys_def play_frame_def [abs_def]
  by (rule seq_obeys_core [unfolded obeys_def]; simp add: obeys_rules [unfolded obeys_def] core_simps)

lemma leave_play_obeys [obeys_rules]: "obeys (leave_play e now) c"
  by (simp add: obeys_def leave_play_def storage_mode_def Let_def)

lemma telemetry_obeys [obeys_rules]: "obeys (on_telemetry e now t) c"
  unfolding obeys_def on_telemetry_def [abs_def]
  by (rule seq_obeys_core [unfolded obeys_def]; simp add: obeys_rules [unfolded obeys_def] core_simps)

lemma tosu_connection_obeys [obeys_rules]: "obeys (on_tosu_connection e now up) c"
  by (auto simp: obeys_def on_tosu_connection_def storage_mode_def Let_def publish_tap_history_def
      ingest_values_def)

lemma osu_active_obeys [obeys_rules]: "obeys (on_osu_active now active) c"
  by (simp add: obeys_def on_osu_active_def host_status_def Let_def)

subsection \<open>A pad connects\<close>

lemma adopt_obeys: "list_all (permitted s) (snd (connect_adopt info dev_cfg c))"
  by (simp add: connect_adopt_def Let_def split: option.split)

lemma core_adopt [core_simps]: "core (fst (connect_adopt info dev_cfg c)) = core c"
  by (simp add: connect_adopt_def Let_def core_simps split: option.split)

lemma owner_allowed:
  "foreign_pad s = foreign_pad (state (fst (connect_owner e info c)))
     \<Longrightarrow> list_all (permitted s) (snd (connect_owner e info c))"
  by (simp add: connect_owner_def Let_def split: ownership.split)

lemma core_touch [core_simps]: "core (fst (touch_last_seen info c)) = core c"
  by (simp add: touch_last_seen_def core_simps)

lemma core_save_initial [core_simps]: "core (fst (save_initial info c)) = core c"
  by (simp add: save_initial_def)

lemma core_learn [core_simps]: "core (fst (learn_device info c)) = core c"
  by (simp add: learn_device_def core_simps fst_seq)

lemma touch_obeys [obeys_rules]: "obeys (touch_last_seen info) c"
  by (simp add: obeys_def touch_last_seen_def)

lemma save_initial_obeys [obeys_rules]: "obeys (save_initial info) c"
  by (simp add: obeys_def save_initial_def)

lemma learn_obeys [obeys_rules]: "obeys (learn_device info) c"
  unfolding obeys_def learn_device_def [abs_def]
  by (rule seq_obeys_core [unfolded obeys_def]; simp add: obeys_rules [unfolded obeys_def] core_simps)

lemma known_foreign [simp]: "foreign_pad (state (fst (connect_known info c))) = foreign_pad (state c)"
  by (simp add: connect_known_def core_state [OF core_learn] core_state [OF core_touch])

lemma known_obeys [obeys_rules]: "obeys (connect_known info) c"
  unfolding obeys_def connect_known_def
  using learn_obeys [unfolded obeys_def] touch_obeys [unfolded obeys_def] by simp

lemma core_send [core_simps]: "core (fst (connect_send dev_cfg now c)) = core c"
  by (simp add: connect_send_def core_simps)

lemma send_obeys [obeys_rules]: "obeys (connect_send dev_cfg now) c"
  by (auto simp: obeys_def connect_send_def host_status_def list_all_iff storage_mode_def
      may_touch_pad_def pad_guard_def)

lemma connected_obeys [obeys_rules]: "obeys (on_connected e now info dev_cfg) c"
proof (cases "protocol_version info = DEVICE_PROTOCOL_VERSION")
  case True
  define c2 where "c2 = fst (connect_owner e info (fst (connect_adopt info dev_cfg c)))"
  have known_send: "obeys (seq (connect_known info) (connect_send dev_cfg now)) c2"
    by (rule seq_obeys_core) (simp_all add: obeys_rules core_simps)
  have "foreign_pad (state (fst (seq (connect_known info) (connect_send dev_cfg now) c2))) = foreign_pad (state c2)"
    by (simp add: fst_seq core_state [OF core_send])
  with known_send show ?thesis
    using True by (simp add: on_connected_def obeys_def fst_seq snd_seq adopt_obeys owner_allowed c2_def)
qed (simp add: on_connected_def obeys_def connect_incompatible_def)

subsection \<open>The rest\<close>

lemma core_log_event [core_simps]: "core (fst (on_log_event ev c)) = core c"
  by (simp add: on_log_event_def core_simps)

lemma log_line_permitted [simp]: "permitted s (log_line ev)"
  by (simp add: log_line_def Let_def)

lemma log_event_obeys [obeys_rules]: "obeys (on_log_event ev) c"
  by (simp add: obeys_def on_log_event_def storage_mode_def may_touch_pad_def pad_guard_def)

lemma core_log_batch [core_simps]: "core (fst (on_log_batch evs c)) = core c"
  by (induction evs arbitrary: c) (simp_all add: fst_seq core_simps)

lemma log_batch_obeys [obeys_rules]: "obeys (on_log_batch evs) c"
proof (induction evs arbitrary: c)
  case (Cons ev evs)
  have "obeys (seq (on_log_event ev) (on_log_batch evs)) c"
    by (rule seq_obeys_core) (simp_all add: obeys_rules core_simps Cons)
  then show ?case by (simp add: obeys_def)
qed (simp add: obeys_def)

lemma status_obeys [obeys_rules]: "obeys (on_status lat cal) c"
  by (simp add: obeys_def on_status_def Let_def)

lemma progress_obeys [obeys_rules]: "obeys (on_calibration_progress prog) c"
  by (simp add: obeys_def on_calibration_progress_def)

lemma keys_obeys [obeys_rules]: "obeys (on_keys k) c"
  by (simp add: obeys_def on_keys_def Let_def split: option.split prod.split)

lemma sync_completed_obeys [obeys_rules]: "obeys (on_sync_completed success k time_str err now) c"
  by (simp add: obeys_def on_sync_completed_def Let_def storage_mode_def)

lemma reconnected_obeys [obeys_rules]: "obeys (on_sqlite_reconnected cfg layouts stored) c"
  by (simp add: obeys_def on_sqlite_reconnected_def)

subsection \<open>The tick\<close>

lemma cooldown_obeys [obeys_rules]: "obeys (tick_cooldown now) c"
  by (simp add: obeys_def tick_cooldown_def storage_mode_def may_touch_pad_def pad_guard_def split: option.split)

lemma core_ticks [core_simps]:
  "core (fst (tick_status_poll now c)) = core c"
  "core (fst (tick_heartbeat now c)) = core c"
  "core (fst (tick_time_sync now c)) = core c"
  "core (fst (tick_counter_sync now c)) = core c"
  by (simp_all add: tick_status_poll_def tick_heartbeat_def tick_time_sync_def tick_counter_sync_def core_simps)

lemma core_tick_values [core_simps]: "core (fst (tick_values e now c)) = core c"
  by (simp add: tick_values_def core_simps Let_def split: option.split prod.split)

lemma core_tick_periodic [core_simps]: "core (fst (tick_periodic now c)) = core c"
  by (simp add: tick_periodic_def core_simps fst_seq)

lemma core_tick_tap_stats [core_simps]: "core (fst (tick_tap_stats now c)) = core c"
  by (simp add: tick_tap_stats_def core_simps Let_def)

lemma tick_backup_standing [simp]: "same_standing c (fst (tick_backup now c))"
  by (simp add: tick_backup_def split: option.split)

lemma tick_obeys_simple [obeys_rules]: "obeys (tick_status_poll now) c" "obeys (tick_heartbeat now) c"
  "obeys (tick_time_sync now) c" "obeys (tick_tap_stats now) c" "obeys (tick_backup now) c"
  by (simp_all add: obeys_def tick_status_poll_def tick_heartbeat_def tick_time_sync_def host_status_def
      tick_tap_stats_def tick_backup_def Let_def split: option.split)

lemma tick_values_obeys [obeys_rules]: "obeys (tick_values e now) c"
  by (simp add: obeys_def tick_values_def Let_def split: prod.split)

lemma tick_periodic_obeys [obeys_rules]: "obeys (tick_periodic now) c"
proof (cases "device_connected (state c) \<and> \<not> foreign_pad (state c) \<and> mode (state c) = Idle")
  case True
  then have idle: "mode (state (fst (tick_time_sync now c))) = Idle"
    by (simp add: core_state(1) [OF core_ticks(3)])
  have "obeys (tick_counter_sync now) (fst (tick_time_sync now c))"
    using idle by (simp add: obeys_def tick_counter_sync_def storage_mode_def may_touch_pad_def pad_guard_def)
  then have "obeys (seq (tick_time_sync now) (tick_counter_sync now)) c"
    by (intro seq_obeys_core) (simp_all add: obeys_rules core_simps)
  then show ?thesis using True by (simp add: obeys_def tick_periodic_def)
qed (auto simp: obeys_def tick_periodic_def)

lemmas tick_standing = core_ticks [THEN core_standing] core_tick_values [THEN core_standing]
  core_tick_periodic [THEN core_standing] core_tick_tap_stats [THEN core_standing]

lemma tick_obeys [obeys_rules]: "obeys (on_tick e now) c"
  unfolding on_tick_def
  by (intro seq_obeys) (simp_all add: obeys_rules fst_seq tick_standing)

text \<open>Every event's actions are ones the state it leaves behind permits.\<close>

lemma event_permitted: "list_all (permitted (state (fst (on_event e ev now c)))) (snd (on_event e ev now c))"
  by (cases ev) (simp_all add: obeys_rules [unfolded obeys_def] on_ownership_def on_disconnected_def
      on_counters_def on_press_times_def on_pad_presses_def)

section \<open>The mode and the timers\<close>

definition timers :: "controller \<Rightarrow> runtime_mode \<times> instant option \<times> bool" where
  "timers c = (mode (state c), backup_deadline c, backup_after_sync c)"

lemma timers_core: "core c' = core c \<Longrightarrow> timers c' = timers c"
  by (simp add: timers_def core_def standing_def)

lemma timers_owner: "timers (fst (connect_owner e info c)) = timers c"
  by (simp add: timers_def connect_owner_def Let_def split: ownership.split)

lemma timers_known: "timers (fst (connect_known info c)) = timers c"
  using core_learn [THEN timers_core] core_touch [THEN timers_core]
  by (simp add: connect_known_def) (simp add: timers_def)

lemma timers_connected: "timers (fst (on_connected e now info dev_cfg c)) = timers c"
  by (simp add: on_connected_def fst_seq timers_owner timers_known timers_core [OF core_send]
      timers_core [OF core_adopt]) (simp add: timers_def connect_incompatible_def)

text \<open>The events that can move the mode or arm the backup.\<close>

fun moves_timers :: "runtime_event \<Rightarrow> bool" where
  "moves_timers (TosuTelemetry t) = True"
| "moves_timers (TosuConnectionChanged up) = True"
| "moves_timers (Tick tm) = True"
| "moves_timers (SyncCompleted a b x y) = True"
| "moves_timers _ = False"

lemma timers_keys: "core (fst (on_keys k c)) = core c"
  by (simp add: on_keys_def Let_def core_simps split: option.split prod.split)

lemma timers_status: "core (fst (on_status lat cal c)) = core c"
  by (simp add: on_status_def Let_def core_simps)

lemma timers_progress: "core (fst (on_calibration_progress prog c)) = core c"
  by (simp add: on_calibration_progress_def core_simps)

lemma timers_other: "\<not> moves_timers ev \<Longrightarrow> timers (fst (on_event e ev now c)) = timers c"
  by (cases ev)
    (simp_all add: timers_connected timers_keys [THEN timers_core] timers_status [THEN timers_core]
      timers_progress [THEN timers_core] core_log_batch [THEN timers_core],
     simp_all add: on_ownership_def on_disconnected_def on_counters_def on_press_times_def
      on_pad_presses_def on_osu_active_def on_sqlite_reconnected_def Let_def
      timers_core [OF core_pad_presses], simp_all add: timers_def)

lemma play_core: "core ((if tl_other_player t then watch_replay else id) (play_clock now t (play_attempt e now t c))) = core c"
  by (simp add: core_simps)

lemma timers_enter:
  "timers (fst (enter_play c)) = (Playing, if mode (state c) = Playing then backup_deadline c else None,
     mode (state c) = Playing \<and> backup_after_sync c)"
  by (simp add: enter_play_def timers_def)

lemma timers_play:
  "timers (fst (play_frame e now t c)) = (Playing, if mode (state c) = Playing then backup_deadline c else None,
     mode (state c) = Playing \<and> backup_after_sync c)"
  using core_state [OF play_core [of t now e c]]
  by (simp add: play_frame_def fst_seq timers_core [OF core_announce] timers_enter)

lemma timers_leave:
  "timers (fst (leave_play e now c)) = (Cooldown, backup_deadline c, backup_after_sync c)"
  using core_state [OF core_finish [of e c]] by (simp add: leave_play_def Let_def timers_def)

lemma timers_telemetry:
  "timers (fst (on_telemetry e now t c)) =
     (if tl_is_playing t
      then (Playing, if mode (state c) = Playing then backup_deadline c else None,
            mode (state c) = Playing \<and> backup_after_sync c)
      else if mode (state c) = Playing then (Cooldown, backup_deadline c, backup_after_sync c)
      else timers c)"
  by (simp add: on_telemetry_def fst_seq timers_core [OF core_results] timers_play timers_leave
      ingest_values_def) (simp add: timers_def)

lemma timers_connection:
  "timers (fst (on_tosu_connection e now up c)) =
     (if \<not> up \<and> mode (state c) = Playing then (Cooldown, backup_deadline c, backup_after_sync c) else timers c)"
  by (simp add: on_tosu_connection_def Let_def timers_def
      core_state [OF core_publish_history] core_state [OF core_ingest] core_state [OF core_finish])

lemma timers_tick:
  "timers (fst (on_tick e tm c)) =
     (let m = mode (state (fst (tick_cooldown tm c))) in
      (m, case backup_deadline c of
            None \<Rightarrow> None
          | Some d \<Rightarrow> if m \<noteq> Idle \<or> tm \<ge> d then None else Some d,
       backup_after_sync (fst (tick_cooldown tm c))))"
proof -
  let ?c1 = "fst (tick_cooldown tm c)"
  let ?c6 = "fst (seq (tick_status_poll tm) (seq (tick_heartbeat tm) (seq (tick_values e tm)
      (seq (tick_periodic tm) (tick_tap_stats tm)))) ?c1)"
  have core6: "core ?c6 = core ?c1" by (simp add: fst_seq core_simps)
  have "fst (on_tick e tm c) = fst (tick_backup tm ?c6)" by (simp add: on_tick_def fst_seq)
  moreover have "backup_deadline ?c1 = backup_deadline c"
    by (simp add: tick_cooldown_def split: option.split)
  ultimately show ?thesis
    using core_state [OF core6]
    by (simp add: timers_def tick_backup_def Let_def split: option.split)
qed

lemma timers_sync:
  "timers (fst (on_sync_completed success k time_str err now c)) =
     (let m = (if mode (state c) = Sync then Idle else mode (state c)) in
      (m, if backup_after_sync c \<and> m = Idle then Some (now + AUTO_BACKUP_DELAY) else backup_deadline c, False))"
  by (simp add: on_sync_completed_def sync_outcome_def Let_def timers_def)

section \<open>The storage gate\<close>

definition is_gate :: "runtime_action \<Rightarrow> bool" where
  "is_gate a = (case a of SetStorageWritesAllowed b \<Rightarrow> True | _ \<Rightarrow> False)"

text \<open>What the loop leaves the storage set to after carrying out actions.\<close>

definition gate :: "runtime_action list \<Rightarrow> bool \<Rightarrow> bool" where
  "gate acts w = fold (\<lambda>a w. case a of SetStorageWritesAllowed b \<Rightarrow> b | _ \<Rightarrow> w) acts w"

lemma gate_append: "gate (a @ b) w = gate b (gate a w)"
  by (simp add: gate_def)

lemma gate_permitted:
  "list_all (permitted s) acts \<Longrightarrow> gate acts w = (if list_ex is_gate acts then storage_mode (mode s) else w)"
proof (induction acts arbitrary: w)
  case (Cons a acts)
  then show ?case by (cases a) (simp_all add: gate_def is_gate_def)
qed (simp add: gate_def)

text \<open>A change of mode across the line is announced.\<close>

lemma mode_timers: "mode (state c) = fst (timers c)"
  by (simp add: timers_def)

lemma cooldown_announced:
  "\<not> list_ex is_gate (snd (tick_cooldown tm c)) \<Longrightarrow> mode (state (fst (tick_cooldown tm c))) = mode (state c)"
  by (cases "cooldown_deadline c") (simp_all add: tick_cooldown_def is_gate_def split: if_splits)

lemma gate_announced:
  assumes "\<not> list_ex is_gate (snd (on_event e ev now c))"
  shows "storage_mode (mode (state (fst (on_event e ev now c)))) = storage_mode (mode (state c))"
proof (cases "moves_timers ev")
  case False
  then show ?thesis by (simp add: mode_timers timers_other)
next
  case True
  then show ?thesis
  proof (cases ev)
    case (TosuTelemetry t)
    have "tl_is_playing t \<Longrightarrow> mode (state c) = Playing"
    proof (rule ccontr)
      assume playing: "tl_is_playing t" "mode (state c) \<noteq> Playing"
      let ?c0 = "update_state (\<lambda>s. s\<lparr>ui_values := tl_values t\<rparr>) (ingest_values (tl_values t) c)"
      have "mode (state ((if tl_other_player t then watch_replay else id) (play_clock now t (play_attempt e now t ?c0)))) \<noteq> Playing"
        using playing core_state(1) [OF play_core [of t now e ?c0]] by (simp add: ingest_values_def)
      then have "list_ex is_gate (snd (play_frame e now t ?c0))"
        by (simp add: play_frame_def snd_seq enter_play_def is_gate_def)
      then show False
        using assms playing by (simp add: TosuTelemetry on_telemetry_def snd_seq)
    qed
    then show ?thesis
      by (simp add: TosuTelemetry mode_timers timers_telemetry) (simp add: timers_def storage_mode_def)
  next
    case (TosuConnectionChanged up)
    then show ?thesis
      by (simp add: mode_timers timers_connection) (simp add: timers_def storage_mode_def)
  next
    case (Tick tm)
    have "mode (state (fst (tick_cooldown tm c))) = mode (state c)"
      using assms by (intro cooldown_announced) (simp add: Tick on_tick_def snd_seq)
    then show ?thesis by (simp add: Tick mode_timers timers_tick Let_def)
  next
    case (SyncCompleted a k x y)
    then show ?thesis by (simp add: mode_timers timers_sync Let_def) (simp add: timers_def storage_mode_def)
  qed simp_all
qed

lemma event_gate:
  "gate (snd (on_event e ev now c)) (storage_mode (mode (state c))) = storage_mode (mode (state (fst (on_event e ev now c))))"
  using gate_permitted [OF event_permitted, of e ev now c] gate_announced [of e ev now c] by simp

section \<open>Sessions\<close>

text \<open>
  The daemon's life: events go through \<open>apply_event\<close>; between them IPC handlers and syncs may
  write anything to the shared state and the pending operations except the mode, which only the
  controller moves. Attempts that could not be saved come back. A session records the actions
  emitted so far.
\<close>

inductive session :: "controller \<times> daemon_state \<times> pending_operations \<Rightarrow> runtime_action list \<Rightarrow> bool" where
  start: "session (new_controller e cfg dev ctrs layouts err existing now,
            new_state cfg dev ctrs layouts err, no_pending) []"
| event: "session sys acts \<Longrightarrow> apply_event e ev now sys = (sys', new) \<Longrightarrow> session sys' (acts @ new)"
| outside: "session (c, s, p) acts \<Longrightarrow> mode s' = mode s \<Longrightarrow> session (c, s', p') acts"
| requeue: "session (c, s, p) acts \<Longrightarrow> SaveTapStats attempts days \<in> set acts \<Longrightarrow> subseq kept attempts
    \<Longrightarrow> session (requeue_tap_attempts kept c, s, p) acts"

text \<open>What an event does to the shared state is what \<open>on_event\<close> does, on some controller that
  holds it.\<close>

lemma apply_event_shared:
  assumes "apply_event e ev now (c, s, p) = ((c', s', p'), acts)"
  obtains c0 where "state c0 = s" "s' = state (fst (on_event e ev now c0))" "acts = snd (on_event e ev now c0)"
proof -
  let ?c1 = "if replacement_was_pending c \<and> pending_replacement s = None
               then (case the_device s of
                   Some i \<Rightarrow> c\<lparr>known_devices := remember (device_id i) (known_devices c)\<rparr>
                 | None \<Rightarrow> c)
               else c"
  obtain c2 acts2 where run: "on_event e ev now (?c1\<lparr>state := s\<rparr>) = (c2, acts2)"
    by (cases "on_event e ev now (?c1\<lparr>state := s\<rparr>)")
  have "s' = state c2" "acts = acts2"
    using assms by (simp_all only: apply_event_def Let_def prod.case run prod.inject)
  then show ?thesis using that [of "?c1\<lparr>state := s\<rparr>"] run by simp
qed


text \<open>A small concrete session for the witnesses.\<close>

definition demo_env :: env where
  "demo_env = \<lparr>uuid_parse = (\<lambda>_. None), sys_now = 0, utc_now = 0\<rparr>"

definition demo_counters :: counter_state where
  "demo_counters = \<lparr>counter_device = [], counter_generation = 0, lifetime_key1 = 0, lifetime_key2 = 0,
     map_key1 = 0, map_key2 = 0\<rparr>"

definition demo_beatmap :: beatmap_ref where
  "demo_beatmap = \<lparr>bm_title = [], bm_artist = [], bm_difficulty = [], bm_id = None,
     bm_checksum = None, bm_ruleset = None, bm_mods = None\<rparr>"

definition demo_frame :: "bool \<Rightarrow> telemetry" where
  "demo_frame playing = \<lparr>tl_is_playing = playing, tl_live_ms = 0, tl_title = [], tl_values = [],
     tl_beatmap = demo_beatmap, tl_failed = False, tl_clock = None, tl_other_player = False, tl_grade = None\<rparr>"

definition demo_controller :: controller where
  "demo_controller = new_controller demo_env default_config None demo_counters [] None [] 0"

definition demo_system :: "controller \<times> daemon_state \<times> pending_operations" where
  "demo_system = (demo_controller, new_state default_config None demo_counters [] None, no_pending)"

lemma demo_plays:
  assumes "apply_event demo_env (TosuTelemetry (demo_frame True)) 0 (c, s, p) = ((c', s', p'), acts)"
  shows "mode s' = Playing"
  using assms by (rule apply_event_shared) (simp add: mode_timers timers_telemetry demo_frame_def)


text \<open>The actions that write to the database or the backup directory on their own.\<close>

fun storage_write :: "runtime_action \<Rightarrow> bool" where
  "storage_write (SaveInitialDeviceState info k) = True"
| "storage_write (TouchDeviceLastSeen i) = True"
| "storage_write (SaveTapStats attempts days) = True"
| "storage_write WriteAutoBackup = True"
| "storage_write _ = False"

text \<open>The actions that write something of this PC to the pad.\<close>

fun pad_write :: "runtime_action \<Rightarrow> bool" where
  "pad_write (SendConfig cfg) = True"
| "pad_write (SendLayout scr l) = True"
| "pad_write (SendDataUpdate vs) = True"
| "pad_write (PlayAnimation a g) = True"
| "pad_write ClaimOwnership = True"
| "pad_write TriggerSync = True"
| "pad_write _ = False"

lemma storage_write_permitted: "permitted s a \<Longrightarrow> storage_write a \<Longrightarrow> mode s = Idle"
  by (cases a) simp_all

lemma pad_write_permitted: "permitted s a \<Longrightarrow> pad_write a \<Longrightarrow> \<not> foreign_pad s"
  by (cases a) (simp_all add: may_touch_pad_def pad_guard_def split: if_splits)

text \<open>Whatever happens in whatever state, an event that makes the controller save a pad, a last-seen
  time, attempts or a backup leaves it in IDLE.\<close>

theorem writes_only_in_idle:
  "filter storage_write (snd (on_event e ev now c)) = [] \<or> mode (state (fst (on_event e ev now c))) = Idle"
  using event_permitted [of e ev now c] storage_write_permitted
  by (auto simp: list_all_iff filter_empty_conv)

text \<open>While the pad belongs to another install, no event sends it a configuration, a layout, values,
  an animation or a claim, or starts a sync, not even the event that learns whose it is.\<close>

theorem foreign_pad_left_alone:
  "filter pad_write (snd (on_event e ev now c)) = [] \<or> foreign_pad (state (fst (on_event e ev now c))) = False"
  using event_permitted [of e ev now c] pad_write_permitted
  by (auto simp: list_all_iff filter_empty_conv)

text \<open>A sync is only started when no prompt is open: neither a takeover nor a replacement pad waits
  for the user's answer.\<close>

theorem no_sync_behind_a_prompt:
  "\<not> (TriggerSync \<in> set (snd (on_event e ev now c)) \<and> pad_guard (state (fst (on_event e ev now c))) \<noteq> None)"
  using event_permitted [of e ev now c] by (auto simp: list_all_iff may_touch_pad_def)

end
