(* ===== verification/Runtime_Traces.thy ===== *)
theory Runtime_Traces
  imports Runtime_Safety
begin

text \<open>
  What the controller promises over a whole run of events: when the automatic backup is written,
  when an animation plays, which attempts reach the history, and that a pad of another protocol
  leaves no trace.
\<close>

section \<open>Runs\<close>

type_synonym timed_event = "env \<times> runtime_event \<times> instant"

primrec run :: "timed_event list \<Rightarrow> step" where
  "run [] c = (c, [])"
| "run (ev # evs) c = seq (\<lambda>c. case ev of (e, x, now) \<Rightarrow> on_event e x now c) (run evs) c"

lemma run_snoc: "fst (run (evs @ [(e, x, now)]) c) = fst (on_event e x now (fst (run evs c)))"
  by (induction evs arbitrary: c) (simp_all add: fst_seq)

abbreviation after :: "timed_event list \<Rightarrow> controller \<Rightarrow> controller" where
  "after evs c \<equiv> fst (run evs c)"

section \<open>The automatic backup\<close>

text \<open>
  A sync completed at \<open>t0\<close> while one was due after a play (\<open>backup_after_sync\<close>), and the daemon
  has been idle ever since.
\<close>

inductive armed_by :: "controller \<Rightarrow> timed_event list \<Rightarrow> instant \<Rightarrow> bool" for c where
  sync: "backup_after_sync (after evs c)
     \<Longrightarrow> mode (state (after (evs @ [(e, SyncCompleted success k time_str err, t0)]) c)) = Idle
     \<Longrightarrow> armed_by c (evs @ [(e, SyncCompleted success k time_str err, t0)]) t0"
| idle: "armed_by c evs t0 \<Longrightarrow> mode (state (after (evs @ [ev]) c)) = Idle \<Longrightarrow> armed_by c (evs @ [ev]) t0"

lemma timers_tick_deadline:
  assumes "backup_deadline (fst (on_tick e tm c)) = Some d"
  shows "backup_deadline c = Some d \<and> mode (state (fst (on_tick e tm c))) = Idle"
  using assms timers_tick [of e tm c] by (auto simp: timers_def Let_def split: option.splits if_splits)

text \<open>A deadline that is there after an event was there before it, in IDLE, or the event is the sync
  that armed it.\<close>

lemma deadline_step:
  assumes "backup_deadline (fst (on_event e x now c)) = Some d"
    and "backup_deadline c = None \<or> mode (state c) = Idle"
  shows "(backup_deadline c = Some d \<and> mode (state (fst (on_event e x now c))) = Idle)
     \<or> (\<exists>success k time_str err. x = SyncCompleted success k time_str err \<and> backup_after_sync c
          \<and> mode (state (fst (on_event e x now c))) = Idle \<and> d = now + AUTO_BACKUP_DELAY)"
proof -
  have parts: "mode (state c) = fst (timers c)" "backup_deadline c = fst (snd (timers c))"
    "backup_after_sync c = snd (snd (timers c))" for c
    by (simp_all add: timers_def)
  obtain m b s where old: "timers c = (m, b, s)" by (cases "timers c")
  show ?thesis
  proof (cases "moves_timers x")
    case False
    with assms old show ?thesis by (simp add: parts timers_other)
  next
    case True
    then show ?thesis
    proof (cases x)
      case (TosuTelemetry t)
      with assms old show ?thesis
        by (cases "tl_is_playing t"; cases "m = Playing") (simp_all add: parts timers_telemetry)
    next
      case (TosuConnectionChanged up)
      with assms old show ?thesis
        by (cases "\<not> up \<and> m = Playing") (simp_all add: parts timers_connection)
    next
      case (Tick tm)
      with assms timers_tick_deadline [of e tm c d] show ?thesis by simp
    next
      case (SyncCompleted success k time_str err)
      with assms old show ?thesis
        by (cases s; cases m) (simp_all add: parts timers_sync Let_def)
    qed simp_all
  qed
qed

lemma backup_armed:
  assumes "backup_deadline c = None"
  shows "backup_deadline (after evs c) = Some d
     \<Longrightarrow> mode (state (after evs c)) = Idle \<and> (\<exists>t0. armed_by c evs t0 \<and> d = t0 + AUTO_BACKUP_DELAY)"
proof (induction evs arbitrary: d rule: rev_induct)
  case Nil
  then show ?case using assms by simp
next
  case (snoc ev evs)
  obtain e x now where ev: "ev = (e, x, now)" by (cases ev)
  note after_ev = run_snoc [of evs e x now c, folded ev]
  have "backup_deadline (after evs c) = None \<or> mode (state (after evs c)) = Idle"
    using snoc.IH by (cases "backup_deadline (after evs c)") auto
  from deadline_step [OF _ this, of e x now d] snoc.prems
  consider "backup_deadline (after evs c) = Some d" "mode (state (after (evs @ [ev]) c)) = Idle"
    | success k time_str err where "x = SyncCompleted success k time_str err"
        "backup_after_sync (after evs c)" "mode (state (after (evs @ [ev]) c)) = Idle"
        "d = now + AUTO_BACKUP_DELAY"
    by (metis after_ev)
  then show ?case
  proof cases
    case 1
    then show ?thesis using snoc.IH armed_by.idle by blast
  next
    case 2
    then show ?thesis using armed_by.sync [of evs c e] ev by blast
  qed
qed

text \<open>The actions only one step of the controller emits.\<close>

fun special :: "runtime_action \<Rightarrow> bool" where
  "special WriteAutoBackup = True"
| "special (PlayAnimation a g) = True"
| "special (SaveTapStats attempts days) = True"
| "special _ = False"

definition plain :: "runtime_action list \<Rightarrow> bool" where
  "plain acts \<longleftrightarrow> list_all (\<lambda>a. \<not> special a) acts"

lemma plain_simps [simp]: "plain []" "plain (a # acts) \<longleftrightarrow> \<not> special a \<and> plain acts"
  "plain (acts @ acts') \<longleftrightarrow> plain acts \<and> plain acts'"
  by (simp_all add: plain_def)

lemma plain_host_status [simp]: "\<not> special (host_status c)"
  by (simp add: host_status_def)

lemma plain_connect:
  "plain (snd (on_connected e now info dev_cfg c))"
proof -
  have adopt: "plain (snd (connect_adopt info dev_cfg c))" for c
    by (simp add: connect_adopt_def Let_def split: option.split)
  have owner: "plain (snd (connect_owner e info c))" for c
    by (simp add: connect_owner_def Let_def split: ownership.split)
  have known: "plain (snd (connect_known info c))" for c
    by (simp add: connect_known_def learn_device_def save_initial_def touch_last_seen_def snd_seq)
  have send: "plain (snd (connect_send dev_cfg now c))" for c
    by (auto simp: connect_send_def) (auto simp: plain_def list_all_iff)
  show ?thesis
    by (simp add: on_connected_def snd_seq adopt owner known send) (simp add: connect_incompatible_def)
qed

lemma plain_log: "plain (snd (on_log_batch evs c))"
proof (induction evs arbitrary: c)
  case (Cons ev evs)
  have "plain (snd (on_log_event ev c))"
    by (simp add: on_log_event_def log_line_def Let_def)
  then show ?case using Cons by (simp add: snd_seq)
qed simp

lemma plain_play: "plain (snd (play_frame e now t c))"
  by (simp add: play_frame_def snd_seq enter_play_def announce_attempt_def split: prod.split)

lemma plain_leave: "plain (snd (leave_play e now c))"
  by (simp add: leave_play_def Let_def)

lemma plain_ticks:
  "plain (snd (tick_cooldown tm c))" "plain (snd (tick_status_poll tm c))"
  "plain (snd (tick_heartbeat tm c))" "plain (snd (tick_values e tm c))"
  "plain (snd (tick_periodic tm c))"
  by (simp_all add: tick_cooldown_def tick_status_poll_def tick_heartbeat_def tick_values_def
      tick_periodic_def tick_time_sync_def tick_counter_sync_def snd_seq Let_def split: option.split prod.split)

text \<open>Telemetry and the tick apart, no event emits a special action.\<close>

lemma plain_event:
  "(\<nexists>t. x = TosuTelemetry t) \<Longrightarrow> (\<nexists>tm. x = Tick tm) \<Longrightarrow> plain (snd (on_event e x now c))"
  by (cases x) (simp_all add: plain_connect plain_log on_ownership_def on_disconnected_def
      on_counters_def on_status_def on_calibration_progress_def on_keys_def on_press_times_def
      on_pad_presses_def on_tosu_connection_def on_osu_active_def on_sync_completed_def
      on_sqlite_reconnected_def Let_def split: option.split prod.split)

lemma plain_mem: "plain acts \<Longrightarrow> special a \<Longrightarrow> a \<notin> set acts"
  by (auto simp: plain_def list_all_iff)

lemma tick_special:
  assumes "a \<in> set (snd (on_tick e tm c))" "special a"
  obtains c5 where "core c5 = core (fst (tick_cooldown tm c))"
    "a \<in> set (snd (tick_tap_stats tm c5)) \<or> a \<in> set (snd (tick_backup tm (fst (tick_tap_stats tm c5))))"
proof -
  let ?c5 = "fst (seq (tick_status_poll tm) (seq (tick_heartbeat tm) (seq (tick_values e tm)
      (tick_periodic tm))) (fst (tick_cooldown tm c)))"
  have "core ?c5 = core (fst (tick_cooldown tm c))" by (simp add: fst_seq core_simps)
  then show ?thesis
    using assms plain_ticks [THEN plain_mem, OF assms(2)]
    by (intro that [of ?c5]) (auto simp: on_tick_def snd_seq fst_seq)
qed

lemma tick_write:
  assumes "WriteAutoBackup \<in> set (snd (on_tick e tm c))"
  shows "\<exists>d. backup_deadline c = Some d \<and> d \<le> tm \<and> mode (state (fst (tick_cooldown tm c))) = Idle"
proof -
  obtain c5 where c5: "core c5 = core (fst (tick_cooldown tm c))"
    "WriteAutoBackup \<in> set (snd (tick_tap_stats tm c5))
     \<or> WriteAutoBackup \<in> set (snd (tick_backup tm (fst (tick_tap_stats tm c5))))"
    using tick_special [OF assms] by auto
  have "WriteAutoBackup \<notin> set (snd (tick_tap_stats tm c5))"
    by (simp add: tick_tap_stats_def Let_def)
  with c5 have wr: "WriteAutoBackup \<in> set (snd (tick_backup tm (fst (tick_tap_stats tm c5))))" by blast
  have same: "core (fst (tick_tap_stats tm c5)) = core (fst (tick_cooldown tm c))"
    using c5 by (simp add: core_simps)
  moreover have "backup_deadline (fst (tick_cooldown tm c)) = backup_deadline c"
    by (simp add: tick_cooldown_def split: option.split)
  ultimately show ?thesis
    using wr core_state [OF same] by (auto simp: tick_backup_def split: option.splits if_splits)
qed

text \<open>The automatic backup is only written on a tick at least twenty seconds after the sync that
  followed a play, when the daemon has been idle at every event since that sync.\<close>

theorem backup_after_quiet_sync:
  assumes "backup_deadline c = None"
    and "WriteAutoBackup \<in> set (snd (on_event e x now (after evs c)))"
  shows "\<exists>tm t0. x = Tick tm \<and> armed_by c evs t0 \<and> t0 + AUTO_BACKUP_DELAY \<le> tm"
proof -
  have "\<exists>tm. x = Tick tm"
  proof (rule ccontr)
    assume no_tick: "\<nexists>tm. x = Tick tm"
    have "\<exists>t. x = TosuTelemetry t"
      using plain_event [OF _ no_tick, THEN plain_mem, of WriteAutoBackup e now "after evs c"] assms(2)
      by (cases "\<exists>t. x = TosuTelemetry t") simp_all
    then obtain t where "x = TosuTelemetry t" ..
    with assms(2) plain_play [THEN plain_mem, of WriteAutoBackup] plain_leave [THEN plain_mem, of WriteAutoBackup]
    show False
      by (auto simp: on_telemetry_def snd_seq results_animation_def Let_def split: if_splits option.splits)
  qed
  then obtain tm where x: "x = Tick tm" ..
  then obtain d where "backup_deadline (after evs c) = Some d" "d \<le> tm"
    using assms(2) tick_write [of e tm "after evs c"] by auto
  with backup_armed [OF assms(1)] x show ?thesis by metis
qed

lemma due_backup_written:
  assumes "backup_deadline c = Some d" "d \<le> tm" "mode (state c) = Idle"
  shows "WriteAutoBackup \<in> set (snd (on_tick e tm c))"
proof -
  let ?c6 = "fst (seq (tick_status_poll tm) (seq (tick_heartbeat tm) (seq (tick_values e tm)
      (seq (tick_periodic tm) (tick_tap_stats tm)))) (fst (tick_cooldown tm c)))"
  have "core ?c6 = core (fst (tick_cooldown tm c))" by (simp add: fst_seq core_simps)
  moreover have "fst (tick_cooldown tm c) = c"
    using assms(3) by (simp add: tick_cooldown_def split: option.split)
  ultimately have "core ?c6 = core c" by simp
  from core_state [OF this] have "WriteAutoBackup \<in> set (snd (tick_backup tm ?c6))"
    using assms by (simp add: tick_backup_def)
  then show ?thesis by (simp add: on_tick_def snd_seq fst_seq)
qed

definition demo_syncing :: controller where
  "demo_syncing = update_state (\<lambda>s. s\<lparr>mode := Sync\<rparr>) (demo_controller\<lparr>backup_after_sync := True\<rparr>)"

lemma demo_settled:
  "timers (after [(demo_env, SyncCompleted True demo_counters None None, 0)] demo_syncing)
     = (Idle, Some (from_secs 20), False)"
  by (simp add: seq_def split_beta timers_sync demo_syncing_def Let_def AUTO_BACKUP_DELAY_def)

theorem backup_after_quiet_sync_witness:
  "\<exists>t0. armed_by demo_syncing [(demo_env, SyncCompleted True demo_counters None None, 0)] t0
     \<and> t0 + AUTO_BACKUP_DELAY \<le> from_secs 20"
proof -
  let ?evs = "[(demo_env, SyncCompleted True demo_counters None None, 0 :: nat)]"
  have "backup_deadline demo_syncing = None"
    by (simp add: demo_syncing_def demo_controller_def new_controller_def Let_def)
  moreover have "WriteAutoBackup \<in> set (snd (on_event demo_env (Tick (from_secs 20)) 0 (after ?evs demo_syncing)))"
    using demo_settled due_backup_written [of "after ?evs demo_syncing" "from_secs 20" "from_secs 20" demo_env]
    by (simp add: timers_def)
  ultimately show ?thesis
    using backup_after_quiet_sync [of demo_syncing demo_env "Tick (from_secs 20)" 0 ?evs] by auto
qed

section \<open>A pad of another protocol\<close>

text \<open>The first events of a connection, up to the one that says what the pad is.\<close>

definition hello :: "u8 list \<Rightarrow> bool \<Rightarrow> counter_state \<Rightarrow> device_info \<Rightarrow> device_config option \<Rightarrow> runtime_event list" where
  "hello owner timed k info cfg =
     [DeviceOwnership owner, PadPressTimes timed, DeviceCounters k, DeviceConnected info cfg]"

definition greeted :: "env \<Rightarrow> instant \<Rightarrow> runtime_event list \<Rightarrow> step" where
  "greeted e now evs = run (map (\<lambda>ev. (e, ev, now)) evs)"

text \<open>A pad that speaks another protocol leaves no trace: its hello asks the daemon for nothing, and
  the counters, configuration, device, prompts and known pads are what they were; the pad does not
  count as connected.\<close>

theorem incompatible_pad_leaves_no_trace:
  assumes "protocol_version info \<noteq> DEVICE_PROTOCOL_VERSION"
  shows "snd (greeted e now (hello owner timed k info cfg) c) = []
    \<and> (let c' = fst (greeted e now (hello owner timed k info cfg) c); s' = state c' in
        counters s' = counters (state c) \<and> config s' = config (state c)
        \<and> the_device s' = the_device (state c) \<and> pc_counters s' = pc_counters (state c)
        \<and> standing s' = standing (state c) \<and> known_devices c' = known_devices c
        \<and> \<not> device_connected s' \<and> esp_counters s' = None \<and> reported_owner c' = None)"
  using assms by (simp add: greeted_def hello_def seq_def split_beta Let_def on_ownership_def
      on_press_times_def on_counters_def on_connected_def connect_incompatible_def standing_def)

definition demo_info :: "u32 \<Rightarrow> device_info" where
  "demo_info protocol = \<lparr>device_id = ''pad'', board_profile = ''board'', firmware_version = ''1.0.0'',
     protocol_version = protocol, running_partition = None, he_input = False, he_calibration = False\<rparr>"

theorem incompatible_pad_leaves_no_trace_witness:
  "snd (greeted demo_env 0 (hello [] True (demo_counters\<lparr>lifetime_key1 := 7\<rparr>) (demo_info 2) None) demo_controller) = []"
  using incompatible_pad_leaves_no_trace [of "demo_info 2"]
  by (simp add: demo_info_def DEVICE_PROTOCOL_VERSION_def)

section \<open>Animations and the queue of attempts\<close>

text \<open>What the results screen decides by, and the attempts waiting to be saved.\<close>

definition screen_of :: "controller \<Rightarrow> bool \<times> bool" where
  "screen_of c = (results_armed c, on_results_screen c)"

named_theorems frame_simps \<open>what steps leave of the results screen and the queue\<close>

lemma publish_frame [frame_simps]:
  "screen_of (publish_tap_attempt c) = screen_of c" "tap_unsaved (publish_tap_attempt c) = tap_unsaved c"
  "screen_of (publish_tap_history b c) = screen_of c" "tap_unsaved (publish_tap_history b c) = tap_unsaved c"
  "screen_of (ingest_values vs c) = screen_of c" "tap_unsaved (ingest_values vs c) = tap_unsaved c"
  by (simp_all add: screen_of_def publish_tap_attempt_def publish_tap_history_def ingest_values_def Let_def)

lemma screen_finish [frame_simps]: "screen_of (finish_tap_attempt e c) = screen_of c"
proof (cases "tap_attempt c")
  case (Some tracker)
  then show ?thesis
    by (cases "is_recordable (finish (utc_now e) tracker)")
      (simp_all add: finish_tap_attempt_def screen_of_def ingest_values_def cap_unsaved_def Let_def)
qed (simp add: finish_tap_attempt_def)

lemma screen_start [frame_simps]: "screen_of (start_tap_attempt e bm now c) = screen_of c"
  using screen_finish [of e c]
  by (simp add: start_tap_attempt_def publish_tap_attempt_def ingest_values_def Let_def screen_of_def)

lemma feed_frame [frame_simps]:
  "screen_of (watch_replay c) = screen_of c" "tap_unsaved (watch_replay c) = tap_unsaved c"
  "screen_of (count_presses d1 d2 tm c) = screen_of c" "tap_unsaved (count_presses d1 d2 tm c) = tap_unsaved c"
  by (simp_all add: watch_replay_def count_presses_def publish_frame Let_def split: option.split)
    (simp_all add: screen_of_def)

lemma tosu_frame [frame_simps]:
  "screen_of (tosu_presses d1 d2 tm c) = screen_of c" "tap_unsaved (tosu_presses d1 d2 tm c) = tap_unsaved c"
  by (simp_all add: tosu_presses_def frame_simps Let_def split: press_source.split option.split)
    (simp_all add: screen_of_def)

lemma pad_frame [frame_simps]:
  "screen_of (pad_presses n ps r c) = screen_of c" "tap_unsaved (pad_presses n ps r c) = tap_unsaved c"
  by (simp_all add: pad_presses_def frame_simps Let_def split: option.split) (simp_all add: screen_of_def)

lemma connect_frame [frame_simps]:
  "screen_of (fst (on_connected e now info cfg c)) = screen_of c"
  "tap_unsaved (fst (on_connected e now info cfg c)) = tap_unsaved c"
proof -
  have "screen_of (fst (connect_adopt info cfg c)) = screen_of c
      \<and> tap_unsaved (fst (connect_adopt info cfg c)) = tap_unsaved c" for c
    by (simp add: connect_adopt_def screen_of_def Let_def split: option.split)
  moreover have "screen_of (fst (connect_owner e info c)) = screen_of c
      \<and> tap_unsaved (fst (connect_owner e info c)) = tap_unsaved c" for c
    by (simp add: connect_owner_def screen_of_def Let_def split: ownership.split)
  moreover have "screen_of (fst (connect_known info c)) = screen_of c
      \<and> tap_unsaved (fst (connect_known info c)) = tap_unsaved c" for c
    by (simp add: connect_known_def learn_device_def save_initial_def touch_last_seen_def fst_seq screen_of_def)
  moreover have "screen_of (fst (connect_send cfg now c)) = screen_of c
      \<and> tap_unsaved (fst (connect_send cfg now c)) = tap_unsaved c" for c
    by (simp add: connect_send_def screen_of_def)
  ultimately show "screen_of (fst (on_connected e now info cfg c)) = screen_of c"
    "tap_unsaved (fst (on_connected e now info cfg c)) = tap_unsaved c"
    by (simp_all add: on_connected_def fst_seq) (simp_all add: connect_incompatible_def screen_of_def)
qed

lemma log_frame [frame_simps]:
  "screen_of (fst (on_log_batch evs c)) = screen_of c" "tap_unsaved (fst (on_log_batch evs c)) = tap_unsaved c"
  by (induction evs arbitrary: c) (simp_all add: fst_seq on_log_event_def, simp_all add: screen_of_def)

lemma tick_frame [frame_simps]:
  "screen_of (fst (tick_cooldown tm c)) = screen_of c" "tap_unsaved (fst (tick_cooldown tm c)) = tap_unsaved c"
  "screen_of (fst (tick_status_poll tm c)) = screen_of c" "tap_unsaved (fst (tick_status_poll tm c)) = tap_unsaved c"
  "screen_of (fst (tick_heartbeat tm c)) = screen_of c" "tap_unsaved (fst (tick_heartbeat tm c)) = tap_unsaved c"
  "screen_of (fst (tick_periodic tm c)) = screen_of c" "tap_unsaved (fst (tick_periodic tm c)) = tap_unsaved c"
  "screen_of (fst (tick_backup tm c)) = screen_of c" "tap_unsaved (fst (tick_backup tm c)) = tap_unsaved c"
  "screen_of (fst (tick_tap_stats tm c)) = screen_of c"
  by (simp_all add: tick_cooldown_def tick_status_poll_def tick_heartbeat_def tick_periodic_def
      tick_time_sync_def tick_counter_sync_def tick_backup_def tick_tap_stats_def fst_seq screen_of_def Let_def
      split: option.split)

lemma tick_values_frame [frame_simps]:
  "screen_of (fst (tick_values e tm c)) = screen_of c" "tap_unsaved (fst (tick_values e tm c)) = tap_unsaved c"
  by (simp_all add: tick_values_def publish_tap_attempt_def publish_tap_history_def ingest_values_def
      screen_of_def Let_def split: option.split prod.split)

lemma play_step_frame [frame_simps]:
  "screen_of (play_attempt e now t c) = screen_of c" "screen_of (play_clock now t c) = screen_of c"
  by (simp_all add: play_attempt_def play_clock_def frame_simps Let_def split: option.split)
    (simp_all add: screen_of_def)

lemma play_screen [frame_simps]: "screen_of (fst (play_frame e now t c)) = screen_of c"
proof -
  have "screen_of (fst (enter_play c)) = screen_of c" for c
    by (simp add: enter_play_def screen_of_def)
  moreover have "screen_of (fst (announce_attempt e now b c)) = screen_of c" for b c
    by (simp add: announce_attempt_def screen_of_def split: prod.split)
  ultimately show ?thesis by (simp add: play_frame_def fst_seq frame_simps)
qed

lemma leave_screen [frame_simps]: "screen_of (fst (leave_play e now c)) = screen_of c"
  using screen_finish [of e c] by (simp add: leave_play_def Let_def screen_of_def)

lemma connection_screen [frame_simps]: "screen_of (fst (on_tosu_connection e now up c)) = screen_of c"
  using screen_finish [of e "update_state (\<lambda>s. s\<lparr>tosu_connected := False\<rparr>) c"]
  by (simp add: on_tosu_connection_def Let_def publish_tap_history_def ingest_values_def screen_of_def)

lemma results_screen:
  "screen_of (fst (results_animation p f o' g c)) =
     (if p then (\<not> o' \<and> \<not> f, False)
      else if g = None then (False, False)
      else if on_results_screen c then screen_of c else (False, True))"
  by (simp add: results_animation_def screen_of_def Let_def split: option.split)

lemma other_screen:
  "(\<nexists>t. x = TosuTelemetry t) \<Longrightarrow> screen_of (fst (on_event e x now c)) = screen_of c"
proof (cases x)
  case (TosuKeys k)
  then show ?thesis
    by (simp add: on_keys_def frame_simps Let_def split: option.split prod.split) (simp add: screen_of_def)
next
  case (Tick tm)
  then show ?thesis by (simp add: on_tick_def fst_seq frame_simps)
qed (simp_all add: frame_simps on_pad_presses_def,
     simp_all add: on_ownership_def on_disconnected_def on_counters_def on_status_def
       on_calibration_progress_def on_press_times_def on_osu_active_def on_sync_completed_def
       sync_outcome_def on_sqlite_reconnected_def Let_def screen_of_def)

text \<open>The last frame tosu sent, and a frame of the player's own play that has not failed.\<close>

primrec last_frame :: "timed_event list \<Rightarrow> telemetry option" where
  "last_frame [] = None"
| "last_frame (ev # evs) =
     (case last_frame evs of
        Some t \<Rightarrow> Some t
      | None \<Rightarrow> (case ev of (e, TosuTelemetry t, now) \<Rightarrow> Some t | _ \<Rightarrow> None))"

lemma last_frame_snoc:
  "last_frame (evs @ [(e, x, now)]) = (case x of TosuTelemetry t \<Rightarrow> Some t | _ \<Rightarrow> last_frame evs)"
  by (induction evs) (simp_all split: runtime_event.split option.split prod.split)

definition own_play :: "telemetry \<Rightarrow> bool" where
  "own_play t \<longleftrightarrow> tl_is_playing t \<and> \<not> tl_failed t \<and> \<not> tl_other_player t"

lemma armed_after_own_play:
  assumes "\<not> results_armed c"
  shows "results_armed (after evs c)
     \<Longrightarrow> \<not> on_results_screen (after evs c) \<and> (\<exists>t. last_frame evs = Some t \<and> own_play t)"
proof (induction evs rule: rev_induct)
  case Nil
  then show ?case using assms by simp
next
  case (snoc ev evs)
  obtain e x now where ev: "ev = (e, x, now)" by (cases ev)
  note after_ev = run_snoc [of evs e x now c, folded ev]
  show ?case
  proof (cases "\<exists>t. x = TosuTelemetry t")
    case False
    then have "screen_of (after (evs @ [ev]) c) = screen_of (after evs c)"
      by (simp only: after_ev other_screen not_ex simp_thms)
    moreover have "last_frame (evs @ [ev]) = last_frame evs"
      using False by (simp add: ev last_frame_snoc split: runtime_event.split)
    ultimately show ?thesis using snoc by (simp add: screen_of_def)
  next
    case True
    then obtain t where x: "x = TosuTelemetry t" ..
    have same: "screen_of (fst ((if tl_is_playing t then play_frame e now t
          else if mode (state c') = Playing then leave_play e now else (\<lambda>c. (c, []))) c')) = screen_of c'" for c'
      by (simp add: frame_simps)
    define c1 where "c1 = update_state (\<lambda>s. s\<lparr>ui_values := tl_values t\<rparr>) (ingest_values (tl_values t) (after evs c))"
    have c1: "screen_of c1 = screen_of (after evs c)" by (simp add: c1_def screen_of_def ingest_values_def)
    have "mode (state c1) = mode (state (after evs c))" by (simp add: c1_def ingest_values_def)
    then obtain c2 where c2: "screen_of c2 = screen_of (after evs c)"
      "after (evs @ [ev]) c = fst (results_animation (tl_is_playing t) (tl_failed t) (tl_other_player t) (tl_grade t) c2)"
      using same [of c1] c1 unfolding after_ev x
      by (simp only: on_event.simps on_telemetry_def fst_seq c1_def [symmetric])
    have "last_frame (evs @ [ev]) = Some t" by (simp add: ev x last_frame_snoc)
    moreover have "screen_of (after (evs @ [ev]) c) = (if tl_is_playing t then (\<not> tl_other_player t \<and> \<not> tl_failed t, False)
      else if tl_grade t = None then (False, False)
      else if on_results_screen c2 then screen_of c2 else (False, True))"
      unfolding c2(2) by (rule results_screen)
    ultimately show ?thesis
      using snoc c2(1) by (cases "tl_is_playing t"; cases "tl_grade t")
        (auto simp: screen_of_def own_play_def split: if_splits)
  qed
qed

lemma animation_from_results:
  assumes "PlayAnimation a g \<in> set (snd (on_event e x now c))"
  shows "results_armed c"
proof -
  have not_tick: "PlayAnimation a g \<notin> set (snd (on_tick e tm c))" for tm
  proof
    assume "PlayAnimation a g \<in> set (snd (on_tick e tm c))"
    then show False
      by (rule tick_special) (simp_all add: tick_tap_stats_def tick_backup_def Let_def split: option.splits if_splits)
  qed
  have "\<exists>t. x = TosuTelemetry t"
    using assms not_tick plain_event [of x e now c, THEN plain_mem, of "PlayAnimation a g"] by (cases x) auto
  then obtain t where x: "x = TosuTelemetry t" ..
  define c1 where "c1 = update_state (\<lambda>s. s\<lparr>ui_values := tl_values t\<rparr>) (ingest_values (tl_values t) c)"
  have c1: "screen_of c1 = screen_of c" by (simp add: c1_def screen_of_def ingest_values_def)
  show ?thesis
    using assms c1 plain_play [THEN plain_mem, of "PlayAnimation a g" e now t c1]
      plain_leave [THEN plain_mem, of "PlayAnimation a g" e now c1]
      play_screen [of e now t c1] leave_screen [of e now c1]
    unfolding x on_event.simps on_telemetry_def snd_seq c1_def [symmetric]
    by (auto simp: results_animation_def screen_of_def Let_def split: if_splits option.splits)
qed

text \<open>A result animation only plays when the last frame before was one of the player's own play that
  had not failed: never for a replay, never for a results screen opened from song select, and never
  twice for one play.\<close>

theorem animation_after_own_play:
  assumes "\<not> results_armed c" "PlayAnimation a g \<in> set (snd (on_event e x now (after evs c)))"
  shows "\<exists>t. last_frame evs = Some t \<and> own_play t"
  using armed_after_own_play [OF assms(1)] animation_from_results [OF assms(2)] by blast

lemma run_Cons: "after ((e, x, now) # evs) c = after evs (fst (on_event e x now c))"
  by (simp add: fst_seq)

text \<open>A play, then its results screen.\<close>

definition demo_results :: telemetry where
  "demo_results = (demo_frame False)\<lparr>tl_grade := Some ''S''\<rparr>"

lemma results_play:
  assumes "results_armed c" "\<not> on_results_screen c" "device_connected (state c)" "\<not> foreign_pad (state c)"
    and "from_grade g = Some trig" "anim_get (result_animations (config (state c))) trig = a" "a \<noteq> ANIM_NONE"
  shows "snd (results_animation False f o' (Some g) c) = [PlayAnimation a g]"
  using assms by (simp add: results_animation_def Let_def)

text \<open>The state a played frame leaves the results screen's decision with.\<close>

definition deciding :: "controller \<Rightarrow> bool \<times> bool \<times> device_config" where
  "deciding c = (device_connected (state c), foreign_pad (state c), config (state c))"

lemma deciding_finish: "deciding (finish_tap_attempt e c) = deciding c"
proof (cases "tap_attempt c")
  case (Some tracker)
  then show ?thesis
    by (cases "is_recordable (finish (utc_now e) tracker)")
      (simp_all add: finish_tap_attempt_def deciding_def ingest_values_def cap_unsaved_def Let_def)
qed (simp add: finish_tap_attempt_def)

lemma deciding_start: "deciding (start_tap_attempt e bm now c) = deciding c"
  using deciding_finish [of e c]
  by (simp add: start_tap_attempt_def publish_tap_attempt_def ingest_values_def Let_def deciding_def)

lemma deciding_frame:
  "deciding (play_clock now t c) = deciding c" "deciding (fst (enter_play c)) = deciding c"
  "deciding (fst (announce_attempt e now b c)) = deciding c"
  "deciding (fst (results_animation p f o' g c)) = deciding c"
  "deciding (update_state (\<lambda>s. s\<lparr>ui_values := vs\<rparr>) (ingest_values vs' c)) = deciding c"
  by (simp_all add: play_clock_def enter_play_def announce_attempt_def results_animation_def
      ingest_values_def deciding_def Let_def split: option.split prod.split)

lemma deciding_leave: "deciding (fst (leave_play e now c)) = deciding c"
  using deciding_finish [of e c] by (simp add: leave_play_def deciding_def Let_def)

lemma deciding_first_frame:
  assumes "mode (state c) \<noteq> Playing"
  shows "deciding (fst (on_telemetry e now (demo_frame True) c)) = deciding c"
proof -
  let ?c = "update_state (\<lambda>s. s\<lparr>ui_values := []\<rparr>) (ingest_values [] c)"
  have "mode (state ?c) \<noteq> Playing" using assms by (simp add: ingest_values_def)
  then have "deciding (play_attempt e now (demo_frame True) ?c) = deciding ?c"
    by (simp add: play_attempt_def is_new_attempt_def demo_frame_def Let_def deciding_start)
      (simp add: deciding_def)
  then show ?thesis
    by (simp add: on_telemetry_def play_frame_def fst_seq deciding_frame) (simp add: demo_frame_def deciding_frame)
qed

lemma leaving_results:
  assumes "\<not> tl_is_playing t" "mode (state c) = Playing"
  shows "snd (on_telemetry e now t c) =
    (let c3 = leave_play e now (update_state (\<lambda>s. s\<lparr>ui_values := tl_values t\<rparr>) (ingest_values (tl_values t) c))
     in snd c3 @ snd (results_animation False (tl_failed t) (tl_other_player t) (tl_grade t) (fst c3)))"
  using assms by (simp add: on_telemetry_def snd_seq ingest_values_def Let_def)

lemma demo_results_fields:
  "\<not> tl_is_playing demo_results" "\<not> tl_failed demo_results" "\<not> tl_other_player demo_results"
  "tl_grade demo_results = Some ''S''"
  by (simp_all add: demo_results_def demo_frame_def)

text \<open>A play on a connected pad, whose S shows the animation it is set to by default.\<close>

theorem animation_after_own_play_witness:
  "\<exists>t. last_frame [(demo_env, TosuTelemetry (demo_frame True), 0)] = Some t \<and> own_play t"
proof -
  let ?c0 = "update_state (\<lambda>s. s\<lparr>device_connected := True\<rparr>) demo_controller"
  let ?evs = "[(demo_env, TosuTelemetry (demo_frame True), 0 :: nat)]"
  let ?c1 = "after ?evs ?c0"
  have c0: "mode (state ?c0) \<noteq> Playing" "\<not> results_armed ?c0" "deciding ?c0 = (True, False, default_config)"
    by (simp_all add: deciding_def demo_controller_def new_controller_def new_state_def Let_def)
  have run: "?c1 = fst (on_telemetry demo_env 0 (demo_frame True) ?c0)" by (simp add: fst_seq)
  have c1: "deciding ?c1 = (True, False, default_config)" "mode (state ?c1) = Playing" "screen_of ?c1 = (True, False)"
    unfolding run using deciding_first_frame [OF c0(1)] c0(3)
    by (simp_all add: mode_timers timers_telemetry, simp_all add: on_telemetry_def fst_seq results_screen demo_frame_def)
  let ?c2 = "update_state (\<lambda>s. s\<lparr>ui_values := tl_values demo_results\<rparr>) (ingest_values (tl_values demo_results) ?c1)"
  let ?c3 = "fst (leave_play demo_env 0 ?c2)"
  have "deciding ?c3 = (True, False, default_config)"
    using c1(1) by (simp only: deciding_leave deciding_frame)
  moreover have "screen_of ?c3 = (True, False)"
    using c1(3) by (simp add: leave_screen) (simp add: screen_of_def ingest_values_def)
  ultimately have c3: "results_armed ?c3" "\<not> on_results_screen ?c3" "device_connected (state ?c3)"
      "\<not> foreign_pad (state ?c3)" "result_animations (config (state ?c3)) = default_animations"
    by (simp_all add: deciding_def screen_of_def default_config_def)
  have grade: "from_grade ''S'' = Some TrigS" by code_simp
  have burst: "anim_get default_animations TrigS = ANIM_BURST" "ANIM_BURST \<noteq> ANIM_NONE"
    by (simp_all add: anim_get_def default_animations_def ANIM_BURST_def ANIM_NONE_def)
  have "snd (results_animation False False False (Some ''S'') ?c3) = [PlayAnimation ANIM_BURST ''S'']"
    using results_play [OF c3(1-4) grade _ burst(2)] c3(5) burst(1) by simp
  then have "PlayAnimation ANIM_BURST ''S'' \<in> set (snd (on_event demo_env (TosuTelemetry demo_results) 0 ?c1))"
    using leaving_results [of demo_results ?c1 demo_env 0] c1(2) by (simp add: demo_results_fields)
  then show ?thesis by (rule animation_after_own_play [OF c0(2)])
qed

section \<open>The queue\<close>

definition queue_ok :: "controller \<Rightarrow> bool" where
  "queue_ok c \<longleftrightarrow> list_all is_recordable (tap_unsaved c) \<and> length (tap_unsaved c) \<le> MAX_UNSAVED_ATTEMPTS"

lemma queue_frame: "tap_unsaved c' = tap_unsaved c \<Longrightarrow> queue_ok c' = queue_ok c"
  by (simp add: queue_ok_def)

lemma list_all_drop: "list_all P xs \<Longrightarrow> list_all P (drop n xs)"
  by (auto simp: list_all_iff dest: in_set_dropD)

lemma cap_ok: "list_all is_recordable (tap_unsaved c) \<Longrightarrow> queue_ok (cap_unsaved c)"
  by (simp add: queue_ok_def cap_unsaved_def list_all_drop)

lemma finish_ok: "queue_ok c \<Longrightarrow> queue_ok (finish_tap_attempt e c)"
proof (cases "tap_attempt c")
  case (Some tracker)
  let ?s = "finish (utc_now e) tracker"
  let ?c = "ingest_values (attempt_ui_values (Some ?s)) (c\<lparr>tap_attempt := None\<rparr>)"
  assume ok: "queue_ok c"
  then have queue: "list_all is_recordable (tap_unsaved ?c)" "queue_ok ?c"
    by (simp_all add: ingest_values_def queue_ok_def)
  show ?thesis
  proof (cases "is_recordable ?s")
    case True
    then have "queue_ok (cap_unsaved (?c\<lparr>tap_unsaved := tap_unsaved ?c @ [?s]\<rparr>))"
      using queue by (intro cap_ok) simp
    then show ?thesis using Some True by (simp add: finish_tap_attempt_def Let_def queue_ok_def)
  next
    case False
    then show ?thesis using Some queue by (simp add: finish_tap_attempt_def Let_def queue_ok_def)
  qed
qed (simp add: finish_tap_attempt_def)

lemma start_ok: "queue_ok c \<Longrightarrow> queue_ok (start_tap_attempt e bm now c)"
  using finish_ok [of c e] by (simp add: start_tap_attempt_def queue_ok_def frame_simps)

lemma play_attempt_ok: "queue_ok c \<Longrightarrow> queue_ok (play_attempt e now t c)"
  by (auto simp: play_attempt_def Let_def queue_ok_def intro!: start_ok [unfolded queue_ok_def]
      finish_ok [unfolded queue_ok_def])

lemma play_frame_ok: "queue_ok c \<Longrightarrow> queue_ok (fst (play_frame e now t c))"
proof -
  have "tap_unsaved (fst (enter_play c)) = tap_unsaved c" for c by (simp add: enter_play_def)
  moreover have "tap_unsaved (fst (announce_attempt e now b c)) = tap_unsaved c" for b c
    by (simp add: announce_attempt_def split: prod.split)
  moreover have "tap_unsaved (play_clock now t c) = tap_unsaved c" for c
    by (simp add: play_clock_def split: option.split)
  moreover assume "queue_ok c"
  ultimately show ?thesis
    using play_attempt_ok [of c e now t] by (simp add: play_frame_def fst_seq queue_ok_def frame_simps)
qed

lemma leave_play_ok: "queue_ok c \<Longrightarrow> queue_ok (fst (leave_play e now c))"
  using finish_ok [of c e] by (simp add: leave_play_def Let_def queue_ok_def)

lemma telemetry_ok: "queue_ok c \<Longrightarrow> queue_ok (fst (on_telemetry e now t c))"
proof -
  have results: "tap_unsaved (fst (results_animation p f o' g c)) = tap_unsaved c" for p f o' g c
    by (simp add: results_animation_def Let_def split: option.split)
  assume "queue_ok c"
  then have "queue_ok (update_state (\<lambda>s. s\<lparr>ui_values := tl_values t\<rparr>) (ingest_values (tl_values t) c))"
    by (simp add: queue_ok_def ingest_values_def)
  then show ?thesis
    using play_frame_ok leave_play_ok by (simp add: on_telemetry_def fst_seq queue_frame [OF results])
qed

lemma connection_ok: "queue_ok c \<Longrightarrow> queue_ok (fst (on_tosu_connection e now up c))"
  using finish_ok [of "update_state (\<lambda>s. s\<lparr>tosu_connected := False\<rparr>) c" e]
  by (simp add: on_tosu_connection_def Let_def queue_ok_def frame_simps)

lemma tap_stats_ok: "queue_ok c \<Longrightarrow> queue_ok (fst (tick_tap_stats tm c))"
  by (simp add: tick_tap_stats_def Let_def queue_ok_def)

lemma tick_queue: "tap_unsaved (fst (on_tick e tm c)) = tap_unsaved (fst (tick_tap_stats tm
    (fst (seq (tick_cooldown tm) (seq (tick_status_poll tm) (seq (tick_heartbeat tm)
       (seq (tick_values e tm) (tick_periodic tm)))) c))))"
  by (simp add: on_tick_def fst_seq frame_simps)

lemma tick_ok: "queue_ok c \<Longrightarrow> queue_ok (fst (on_tick e tm c))"
  by (subst queue_frame [OF tick_queue], rule tap_stats_ok, subst queue_frame [of _ c])
    (simp_all add: fst_seq frame_simps)

lemma event_queue_ok: "queue_ok c \<Longrightarrow> queue_ok (fst (on_event e x now c))"
proof (cases x)
  case (TosuKeys k)
  assume "queue_ok c"
  then show ?thesis unfolding TosuKeys
    by (simp add: on_keys_def queue_ok_def frame_simps Let_def split: option.split prod.split)
qed (simp_all add: telemetry_ok connection_ok tick_ok,
     simp_all add: queue_ok_def frame_simps on_pad_presses_def,
     simp_all add: on_ownership_def on_disconnected_def on_counters_def on_status_def
       on_calibration_progress_def on_press_times_def on_osu_active_def on_sync_completed_def
       sync_outcome_def on_sqlite_reconnected_def Let_def)

lemma tick_saves:
  assumes "SaveTapStats attempts days \<in> set (snd (on_tick e tm c))"
  shows "attempts = tap_unsaved c"
proof -
  let ?c5 = "fst (seq (tick_status_poll tm) (seq (tick_heartbeat tm) (seq (tick_values e tm)
      (tick_periodic tm))) (fst (tick_cooldown tm c)))"
  have same: "tap_unsaved ?c5 = tap_unsaved c" by (simp add: fst_seq frame_simps)
  have "SaveTapStats attempts days \<notin> set (snd (tick_backup tm c'))" for c'
    by (simp add: tick_backup_def split: option.split)
  then have "SaveTapStats attempts days \<in> set (snd (tick_tap_stats tm ?c5))"
    using assms plain_ticks [THEN plain_mem, of "SaveTapStats attempts days"]
    by (simp add: on_tick_def snd_seq fst_seq)
  then show ?thesis using same by (auto simp: tick_tap_stats_def Let_def split: if_splits)
qed

lemma event_saves:
  assumes "SaveTapStats attempts days \<in> set (snd (on_event e x now c))"
  shows "attempts = tap_unsaved c"
proof -
  have telemetry: "SaveTapStats attempts days \<notin> set (snd (on_telemetry e now t c))" for t
    using plain_play [THEN plain_mem, of "SaveTapStats attempts days"]
      plain_leave [THEN plain_mem, of "SaveTapStats attempts days"]
    by (simp add: on_telemetry_def snd_seq results_animation_def Let_def split: option.split)
  show ?thesis
  proof (cases "\<exists>tm. x = Tick tm")
    case True
    then show ?thesis using assms tick_saves by auto
  next
    case False
    then have "\<exists>t. x = TosuTelemetry t"
      using assms plain_event [of x e now c, THEN plain_mem, of "SaveTapStats attempts days"] by (cases x) auto
    then show ?thesis using assms telemetry by auto
  qed
qed

text \<open>What \<open>apply_event\<close> does to the queue and what it emits are what \<open>on_event\<close> does.\<close>

lemma apply_event_queue:
  assumes "apply_event e ev now (c, s, p) = ((c', s', p'), acts)"
  obtains c0 where "tap_unsaved c0 = tap_unsaved c" "tap_unsaved c' = tap_unsaved (fst (on_event e ev now c0))"
    "acts = snd (on_event e ev now c0)"
proof -
  let ?c1 = "if replacement_was_pending c \<and> pending_replacement s = None
               then (case the_device s of
                   Some i \<Rightarrow> c\<lparr>known_devices := remember (device_id i) (known_devices c)\<rparr>
                 | None \<Rightarrow> c)
               else c"
  obtain c2 acts2 where run: "on_event e ev now (?c1\<lparr>state := s\<rparr>) = (c2, acts2)"
    by (cases "on_event e ev now (?c1\<lparr>state := s\<rparr>)")
  have "tap_unsaved c' = tap_unsaved c2" "acts = acts2"
    using assms by (simp_all only: apply_event_def Let_def prod.case run prod.inject) auto
  moreover have "tap_unsaved (?c1\<lparr>state := s\<rparr>) = tap_unsaved c" by (simp split: option.split)
  ultimately show ?thesis using that [of "?c1\<lparr>state := s\<rparr>"] run by simp
qed

definition saved_ok :: "runtime_action \<Rightarrow> bool" where
  "saved_ok a = (case a of SaveTapStats attempts days \<Rightarrow> list_all is_recordable attempts | _ \<Rightarrow> True)"

text \<open>The attempts ever handed to the history, and the ones waiting for it, are the player's own with
  enough presses, never a replay, and never more than 500 wait, in every session, however events
  and failed saves interleave.\<close>

theorem only_own_attempts_saved:
  assumes "session (c, s, p) acts"
  shows "queue_ok c \<and> list_all saved_ok acts"
proof -
  have "session sys acts \<Longrightarrow> queue_ok (fst sys) \<and> list_all saved_ok acts" for sys acts
  proof (induction rule: session.induct)
    case (start e cfg dev ctrs layouts err existing now)
    show ?case by (simp add: queue_ok_def new_controller_def Let_def)
  next
    case (event sys acts e ev now sys' new)
    obtain c s p where sys: "sys = (c, s, p)" by (cases sys)
    obtain c' s' p' where sys': "sys' = (c', s', p')" by (cases sys')
    from event.hyps(2) obtain c0 where c0: "tap_unsaved c0 = tap_unsaved c"
        "tap_unsaved c' = tap_unsaved (fst (on_event e ev now c0))" "new = snd (on_event e ev now c0)"
      unfolding sys sys' by (rule apply_event_queue)
    have ok: "queue_ok c0" using event.IH queue_frame [OF c0(1)] by (simp add: sys)
    then have "queue_ok c'" using event_queue_ok [of c0 e ev now] queue_frame [OF c0(2)] by simp
    moreover have "saved_ok a" if "a \<in> set new" for a
      using that ok event_saves [of _ _ e ev now c0] c0(3)
      by (auto simp: saved_ok_def queue_ok_def split: runtime_action.split)
    ultimately show ?case using event.IH by (auto simp: sys' list_all_iff)
  next
    case (requeue c s p acts attempts days kept)
    have "list_all is_recordable attempts"
      using requeue by (auto simp: list_all_iff saved_ok_def)
    then have "list_all is_recordable kept"
      using requeue.hyps(3) by (auto simp: list_all_iff dest: list_emb_set)
    then have "queue_ok (requeue_tap_attempts kept c)"
      using requeue.IH unfolding requeue_tap_attempts_def by (intro cap_ok) (simp add: queue_ok_def)
    then show ?case using requeue.IH by simp
  qed simp_all
  from this [OF assms] show ?thesis by simp
qed

theorem only_own_attempts_saved_witness:
  "queue_ok (fst demo_system)"
proof -
  have "session (fst demo_system, fst (snd demo_system), snd (snd demo_system)) []"
    using session.start by (simp add: demo_system_def demo_controller_def)
  then show ?thesis using only_own_attempts_saved by blast
qed

end
