(* ===== verification/Mode_Machine.thy ===== *)
theory Mode_Machine
  imports Runtime_Traces
begin

text \<open>
  The mode machine of the daemon, IDLE, PLAYING, COOLDOWN and SYNC, as its design states it, and
  that the controller of \<open>daemon/src/runtime.rs\<close> implements it: every event moves the mode and the
  cooldown's deadline exactly as the machine does for what the event means to it.
\<close>

section \<open>The machine\<close>

datatype mode_input = SeePlay | SeeRest instant | ClockRead instant bool | SyncEnd | Unrelated

type_synonym mode_state = "runtime_mode \<times> instant option"

fun machine :: "mode_state \<Rightarrow> mode_input \<Rightarrow> mode_state" where
  "machine (m, d) SeePlay = (Playing, if m = Playing then d else None)"
| "machine (m, d) (SeeRest now) = (if m = Playing then (Cooldown, Some (now + COOLDOWN_DURATION)) else (m, d))"
| "machine (m, d) (ClockRead now may_sync) =
     (case d of
        None \<Rightarrow> (m, d)
      | Some t \<Rightarrow> if m = Cooldown \<and> now \<ge> t then (if may_sync then Sync else Idle, None) else (m, d))"
| "machine (m, d) SyncEnd = (if m = Sync then Idle else m, d)"
| "machine (m, d) Unrelated = (m, d)"

text \<open>What the controller holds of it, and what an event means to it.\<close>

definition mode_clock :: "controller \<Rightarrow> mode_state" where
  "mode_clock c = (mode (state c), cooldown_deadline c)"

fun mode_input_of :: "runtime_event \<Rightarrow> instant \<Rightarrow> controller \<Rightarrow> mode_input" where
  "mode_input_of (TosuTelemetry t) now c = (if tl_is_playing t then SeePlay else SeeRest now)"
| "mode_input_of (TosuConnectionChanged up) now c = (if up then Unrelated else SeeRest now)"
| "mode_input_of (Tick t) now c = ClockRead t (may_touch_pad (state c))"
| "mode_input_of (SyncCompleted a b x y) now c = SyncEnd"
| "mode_input_of _ now c = Unrelated"

section \<open>The controller implements it\<close>

lemma mode_clock_core: "core c' = core c \<Longrightarrow> mode_clock c' = mode_clock c"
  by (simp add: mode_clock_def core_def standing_def)

lemma mode_clock_owner: "mode_clock (fst (connect_owner e info c)) = mode_clock c"
  by (simp add: mode_clock_def connect_owner_def Let_def split: ownership.split)

lemma mode_clock_known: "mode_clock (fst (connect_known info c)) = mode_clock c"
  using core_learn [THEN mode_clock_core] core_touch [THEN mode_clock_core]
  by (simp add: connect_known_def) (simp add: mode_clock_def)

lemma mode_clock_connected: "mode_clock (fst (on_connected e now info dev_cfg c)) = mode_clock c"
  by (simp add: on_connected_def fst_seq mode_clock_owner mode_clock_known mode_clock_core [OF core_send]
      mode_clock_core [OF core_adopt]) (simp add: mode_clock_def connect_incompatible_def)

lemma mode_clock_other: "\<not> moves_timers ev \<Longrightarrow> mode_clock (fst (on_event e ev now c)) = mode_clock c"
  by (cases ev)
    (simp_all add: mode_clock_connected timers_keys [THEN mode_clock_core] timers_status [THEN mode_clock_core]
      timers_progress [THEN mode_clock_core] core_log_batch [THEN mode_clock_core],
     simp_all add: on_ownership_def on_disconnected_def on_counters_def on_press_times_def
      on_pad_presses_def on_osu_active_def on_sqlite_reconnected_def Let_def
      mode_clock_core [OF core_pad_presses], simp_all add: mode_clock_def)

lemma mode_clock_enter:
  "mode_clock (fst (enter_play c)) = (Playing, if mode (state c) = Playing then cooldown_deadline c else None)"
  by (simp add: enter_play_def mode_clock_def)

lemma mode_clock_play:
  "mode_clock (fst (play_frame e now t c)) = (Playing, if mode (state c) = Playing then cooldown_deadline c else None)"
  using core_state [OF play_core [of t now e c]]
  by (simp add: play_frame_def fst_seq mode_clock_core [OF core_announce] mode_clock_enter)

lemma mode_clock_leave:
  "mode_clock (fst (leave_play e now c)) = (Cooldown, Some (now + COOLDOWN_DURATION))"
  using core_state [OF core_finish [of e c]] by (simp add: leave_play_def Let_def mode_clock_def)

lemma mode_clock_telemetry:
  "mode_clock (fst (on_telemetry e now t c)) =
     (if tl_is_playing t then (Playing, if mode (state c) = Playing then cooldown_deadline c else None)
      else if mode (state c) = Playing then (Cooldown, Some (now + COOLDOWN_DURATION))
      else mode_clock c)"
  by (simp add: on_telemetry_def fst_seq mode_clock_core [OF core_results] mode_clock_play mode_clock_leave
      ingest_values_def) (simp add: mode_clock_def)

lemma mode_clock_connection:
  "mode_clock (fst (on_tosu_connection e now up c)) =
     (if \<not> up \<and> mode (state c) = Playing then (Cooldown, Some (now + COOLDOWN_DURATION)) else mode_clock c)"
  by (simp add: on_tosu_connection_def Let_def mode_clock_def
      core_state [OF core_publish_history] core_state [OF core_ingest] core_state [OF core_finish])

lemma mode_clock_cooldown:
  "mode_clock (fst (tick_cooldown tm c)) = machine (mode_clock c) (ClockRead tm (may_touch_pad (state c)))"
  by (simp add: tick_cooldown_def mode_clock_def split: option.split)

lemma mode_clock_tick:
  "mode_clock (fst (on_tick e tm c)) = machine (mode_clock c) (ClockRead tm (may_touch_pad (state c)))"
proof -
  let ?c1 = "fst (tick_cooldown tm c)"
  let ?c6 = "fst (seq (tick_status_poll tm) (seq (tick_heartbeat tm) (seq (tick_values e tm)
      (seq (tick_periodic tm) (tick_tap_stats tm)))) ?c1)"
  have "fst (on_tick e tm c) = fst (tick_backup tm ?c6)" by (simp add: on_tick_def fst_seq)
  moreover have "mode_clock (fst (tick_backup tm c')) = mode_clock c'" for c'
    by (simp add: tick_backup_def mode_clock_def Let_def split: option.split)
  moreover have "core ?c6 = core ?c1" by (simp add: fst_seq core_simps)
  then have "mode_clock ?c6 = mode_clock ?c1" by (rule mode_clock_core)
  ultimately show ?thesis by (simp only: mode_clock_cooldown)
qed

lemma mode_clock_sync:
  "mode_clock (fst (on_sync_completed success k time_str err now c)) =
     (if mode (state c) = Sync then Idle else mode (state c), cooldown_deadline c)"
  by (simp add: on_sync_completed_def sync_outcome_def Let_def mode_clock_def)

lemma mode_clock_event:
  "mode_clock (fst (on_event e ev now c)) = machine (mode_clock c) (mode_input_of ev now c)"
proof (cases "moves_timers ev")
  case False
  then have "mode_input_of ev now c = Unrelated" by (cases ev) simp_all
  with False show ?thesis by (cases "mode_clock c") (simp add: mode_clock_other)
next
  case True
  then show ?thesis
    by (cases ev) (simp_all add: mode_clock_telemetry mode_clock_connection mode_clock_tick mode_clock_sync,
      simp_all add: mode_clock_def)
qed

text \<open>
  C8: The controller refines the mode machine: whatever the event and the state, mode and deadline after
  it are those of the machine, so IDLE is only left for PLAYING, PLAYING only for COOLDOWN, and SYNC
  is only entered from a cooldown that is over.
\<close>

theorem controller_refines_machine:
  "mode_clock (fst (on_event e ev now c)) = machine (mode_clock c) (mode_input_of ev now c)
   \<and> (mode (state (fst (on_event e ev now c))), mode (state c)) \<notin>
       {(Cooldown, Idle), (Sync, Idle), (Idle, Playing), (Sync, Playing), (Cooldown, Sync)}"
proof (intro conjI)
  show "mode_clock (fst (on_event e ev now c)) = machine (mode_clock c) (mode_input_of ev now c)"
    by (rule mode_clock_event)
  have "(fst (machine x i), fst x) \<notin>
      {(Cooldown, Idle), (Sync, Idle), (Idle, Playing), (Sync, Playing), (Cooldown, Sync)}" for x i
    by (cases x; cases i) (auto split: option.splits if_splits)
  from this [of "mode_clock c" "mode_input_of ev now c"]
  show "(mode (state (fst (on_event e ev now c))), mode (state c)) \<notin>
      {(Cooldown, Idle), (Sync, Idle), (Idle, Playing), (Sync, Playing), (Cooldown, Sync)}"
    using mode_clock_event [of e ev now c] by (metis fst_conv mode_clock_def)
qed

section \<open>Every play settles\<close>

fun shows_play :: "timed_event \<Rightarrow> bool" where
  "shows_play (e, TosuTelemetry t, now) = tl_is_playing t"
| "shows_play _ = False"

lemma rest_input: "\<not> shows_play (e, ev, now) \<Longrightarrow> mode_input_of ev now c \<noteq> SeePlay"
  by (cases ev) auto

text \<open>On the way from a cooldown that ends at \<open>d\<close> to IDLE; past its end; and settled.\<close>

definition on_the_way :: "instant \<Rightarrow> mode_state \<Rightarrow> bool" where
  "on_the_way d x \<longleftrightarrow> x \<in> {(Cooldown, Some d), (Sync, None), (Idle, None)}"

lemma way_step:
  assumes "i \<noteq> SeePlay"
  shows "on_the_way d x \<Longrightarrow> on_the_way d (machine x i)"
    "x \<in> {(Sync, None), (Idle, None)} \<Longrightarrow> machine x i \<in> {(Sync, None), (Idle, None)}"
    "x = (Idle, None) \<Longrightarrow> machine x i = (Idle, None)"
proof -
  show "on_the_way d x \<Longrightarrow> on_the_way d (machine x i)"
    unfolding on_the_way_def
  proof (elim insertE emptyE)
    assume "x = (Cooldown, Some d)"
    then show "machine x i \<in> {(Cooldown, Some d), (Sync, None), (Idle, None)}"
      using assms by (cases i) simp_all
  qed (use assms in \<open>cases i; simp\<close>)+
  show "x \<in> {(Sync, None), (Idle, None)} \<Longrightarrow> machine x i \<in> {(Sync, None), (Idle, None)}"
    using assms by (cases i) auto
  show "x = (Idle, None) \<Longrightarrow> machine x i = (Idle, None)"
    using assms by (cases i) auto
qed

lemma way_run:
  assumes "list_all (\<lambda>ev. \<not> shows_play ev) evs" "\<And>x i. i \<noteq> SeePlay \<Longrightarrow> P x \<Longrightarrow> P (machine x i)"
    "P (mode_clock c)"
  shows "P (mode_clock (after evs c))"
  using assms(1,3)
proof (induction evs arbitrary: c)
  case (Cons x evs)
  obtain e ev now where x: "x = (e, ev, now)" by (cases x)
  have "P (mode_clock (fst (on_event e ev now c)))"
    unfolding mode_clock_event using Cons.prems assms(2) rest_input [of e ev now c] by (auto simp: x)
  with Cons show ?case by (simp add: x fst_seq)
qed simp

lemma run_append: "after (as @ bs) c = after bs (after as c)"
  by (induction as arbitrary: c) (auto simp: fst_seq)

text \<open>
  C15: Every play settles: once play is over or tosu is gone, and no new play is seen, the first tick five
  seconds later or more ends the cooldown, and when the sync it may have started reports back, in
  whatever way, the daemon is IDLE and stays so.
\<close>

theorem play_settles:
  assumes "mode (state c) = Playing" "\<not> shows_play (e1, over, t1)" "mode_input_of over t1 c = SeeRest t1"
    "list_all (\<lambda>ev. \<not> shows_play ev) (evs1 @ evs2 @ evs3)" "t2 \<ge> t1 + COOLDOWN_DURATION"
  shows "mode (state (after ([(e1, over, t1)] @ evs1 @ [(e2, Tick t2, t2')] @ evs2
      @ [(e3, SyncCompleted ok k time_str err, t3)] @ evs3) c)) = Idle"
proof -
  let ?c1 = "after [(e1, over, t1)] c" let ?c2 = "after evs1 ?c1"
  let ?c3 = "after [(e2, Tick t2, t2')] ?c2" let ?c4 = "after evs2 ?c3"
  let ?c5 = "after [(e3, SyncCompleted ok k time_str err, t3)] ?c4"
  have "mode_clock ?c1 = (Cooldown, Some (t1 + COOLDOWN_DURATION))"
    using assms(1,3) mode_clock_event [of e1 over t1 c] by (simp add: fst_seq mode_clock_def)
  then have "on_the_way (t1 + COOLDOWN_DURATION) (mode_clock ?c1)" by (simp add: on_the_way_def)
  then have "on_the_way (t1 + COOLDOWN_DURATION) (mode_clock ?c2)"
    by (rule way_run [rotated -1]) (use assms(4) way_step(1) in auto)
  then have "mode_clock ?c3 \<in> {(Sync, None), (Idle, None)}"
    using assms(5) mode_clock_event [of e2 "Tick t2" t2' ?c2] by (auto simp: fst_seq on_the_way_def split: if_splits)
  then have "mode_clock ?c4 \<in> {(Sync, None), (Idle, None)}"
    by (rule way_run [where P = "\<lambda>x. x \<in> {(Sync, None), (Idle, None)}", rotated -1]) (use assms(4) way_step(2) in auto)
  then have "mode_clock ?c5 = (Idle, None)"
    using mode_clock_event [of e3 "SyncCompleted ok k time_str err" t3 ?c4] by (auto simp: fst_seq)
  then have "mode_clock (after evs3 ?c5) = (Idle, None)"
    by (rule way_run [where P = "\<lambda>x. x = (Idle, None)", rotated -1]) (use assms(4) way_step(3) in auto)
  then show ?thesis by (simp add: run_append mode_clock_def del: append.simps)
qed

theorem play_settles_witness:
  "mode (state (after ([(demo_env, TosuTelemetry (demo_frame False), 7)] @ [] @ [(demo_env, Tick (from_secs 9), 0)] @ []
     @ [(demo_env, SyncCompleted False demo_counters None None, 0)] @ [(demo_env, DeviceDisconnected, 0)])
     (after [(demo_env, TosuTelemetry (demo_frame True), 0)] demo_controller))) = Idle"
proof (rule play_settles)
  show "mode (state (after [(demo_env, TosuTelemetry (demo_frame True), 0)] demo_controller)) = Playing"
    using mode_clock_event [of demo_env "TosuTelemetry (demo_frame True)" 0 demo_controller]
    by (simp add: fst_seq mode_clock_def demo_frame_def)
qed (simp_all add: demo_frame_def COOLDOWN_DURATION_def from_secs_def)

end
