(* ===== verification/Storage.thy ===== *)
theory Storage
  imports Config Tap_Rate
begin

text \<open>
  The database: \<open>crates/opad-storage/src/lib.rs\<close> and \<open>tap_stats.rs\<close>. SQLite carries out the
  statements as documented; the tables are lists of rows and the one row of \<open>config\<close> is a list of
  its columns. A statement fails on a missing table or column and on a column that is there
  already; that the disk fails is not modelled. Each migration is one transaction, so a failed one
  changes nothing. The value columns of tap attempts are rationals, \<open>f64\<close> in the code; the times
  of the row's own bookkeeping (\<open>updated_at\<close>, \<open>recorded_at\<close>) are left out.
\<close>

section \<open>Tables\<close>

datatype storage_error = Sqlite string | Migration string | WritesBlocked

datatype sql_value = SqlInt int | SqlText string

type_synonym config_columns = "(string \<times> sql_value) list"

record device_row =
  row_board_profile :: string
  row_firmware_version :: "string option"
  row_generation :: u32
  row_key1 :: int
  row_key2 :: int
  row_last_seen_at :: string
  row_last_sync_at :: string

record attempt_row =
  ar_started_ms :: int
  ar_ended_ms :: int
  ar_duration_ms :: int
  ar_beatmap :: beatmap_ref
  ar_k1 :: channel_stats
  ar_k2 :: channel_stats
  ar_combined :: channel_stats
  ar_song :: song_stats

record storage =
  schema_migrations :: "nat list"
  config_table :: "config_columns option"
  device_table :: "(string \<times> device_row) list option"
  layout_table :: "(u8 \<times> string) list option"
  app_state_table :: "(string \<times> string) list option"
  attempt_columns :: "string list option"
  attempt_rows :: "attempt_row list"
  writes_allowed :: bool

definition empty_database :: storage where
  "empty_database = \<lparr>schema_migrations = [], config_table = None, device_table = None,
     layout_table = None, app_state_table = None, attempt_columns = None, attempt_rows = [],
     writes_allowed = True\<rparr>"

type_synonym 'a stored = "(storage_error, 'a) result"

definition no_table :: "string \<Rightarrow> 'a stored" where
  "no_table name = Inl (Sqlite (''no such table: '' @ name))"

section \<open>Statements of the migrations\<close>

text \<open>\<open>ALTER TABLE config ADD COLUMN\<close>, several in a row.\<close>

fun add_columns :: "config_columns \<Rightarrow> storage \<Rightarrow> storage stored" where
  "add_columns [] s = Inr s"
| "add_columns ((c, v) # cs) s =
     (case config_table s of
        None \<Rightarrow> no_table ''config''
      | Some row \<Rightarrow>
          if List.member (map fst row) c then Inl (Sqlite (''duplicate column name: '' @ c))
          else add_columns cs (s\<lparr>config_table := Some (row @ [(c, v)])\<rparr>))"

definition put :: "'k \<Rightarrow> 'v \<Rightarrow> ('k \<times> 'v) list \<Rightarrow> ('k \<times> 'v) list" where
  "put k v t = (if List.member (map fst t) k then map (\<lambda>(k', v'). if k' = k then (k', v) else (k', v')) t
     else t @ [(k, v)])"

text \<open>\<open>UPDATE config SET c = v WHERE \<dots>\<close> on the one row.\<close>

definition update_config :: "(config_columns \<Rightarrow> bool) \<Rightarrow> config_columns \<Rightarrow> storage \<Rightarrow> storage stored" where
  "update_config cond sets s =
     (case config_table s of
        None \<Rightarrow> no_table ''config''
      | Some row \<Rightarrow>
          if list_all (\<lambda>(c, v). List.member (map fst row) c) sets
          then Inr (if cond row then s\<lparr>config_table := Some (fold (\<lambda>(c, v). put c v) sets row)\<rparr> else s)
          else Inl (Sqlite ''no such column''))"

definition drop_column :: "string \<Rightarrow> storage \<Rightarrow> storage stored" where
  "drop_column c s =
     (case config_table s of
        None \<Rightarrow> no_table ''config''
      | Some row \<Rightarrow> Inr (s\<lparr>config_table := Some (filter (\<lambda>(c', v). c' \<noteq> c) row)\<rparr>))"

definition record_migration :: "nat \<Rightarrow> storage \<Rightarrow> storage stored" where
  "record_migration n s =
     (if List.member (schema_migrations s) n
      then Inl (Sqlite ''UNIQUE constraint failed: schema_migrations.version'')
      else Inr (s\<lparr>schema_migrations := schema_migrations s @ [n]\<rparr>))"

text \<open>\<open>SELECT COUNT(*) > 0 FROM pragma_table_info(\<dots>)\<close>: a missing table has no columns.\<close>

definition has_column :: "string \<Rightarrow> storage \<Rightarrow> bool" where
  "has_column c s = (case config_table s of Some row \<Rightarrow> List.member (map fst row) c | None \<Rightarrow> False)"

section \<open>Migrations\<close>

definition DEFAULT_ENDPOINT :: string where "DEFAULT_ENDPOINT = ''ws://127.0.0.1:24050/websocket/v2''"

definition INITIAL_CONFIG :: config_columns where
  "INITIAL_CONFIG = [(''key1_hid_usage'', SqlInt 29), (''key2_hid_usage'', SqlInt 27),
     (''debounce_us'', SqlInt 5000), (''brightness'', SqlInt 100),
     (''display_sleep_seconds'', SqlInt 600), (''gameplay_display_hz'', SqlInt 10),
     (''tosu_endpoint'', SqlText DEFAULT_ENDPOINT)]"

definition apply_v1 :: "storage \<Rightarrow> storage stored" where
  "apply_v1 s = record_migration 1
     (s\<lparr>device_table := Some (case device_table s of Some t \<Rightarrow> t | None \<Rightarrow> []),
        config_table := Some (case config_table s of Some row \<Rightarrow> row | None \<Rightarrow> INITIAL_CONFIG)\<rparr>)"

definition apply_v2 :: "storage \<Rightarrow> storage stored" where
  "apply_v2 s = and_then (add_columns [(''press_color_rgb'', SqlInt 16711680)] s) (record_migration 2)"

definition apply_v3 :: "storage \<Rightarrow> storage stored" where
  "apply_v3 s = record_migration 3
     (s\<lparr>layout_table := Some (case layout_table s of Some t \<Rightarrow> t | None \<Rightarrow> [])\<rparr>)"

definition column_is :: "string \<Rightarrow> sql_value \<Rightarrow> config_columns \<Rightarrow> bool" where
  "column_is c v row \<longleftrightarrow> map_of row c = Some v"

definition apply_v4 :: "storage \<Rightarrow> storage stored" where
  "apply_v4 s = and_then (update_config (column_is ''gameplay_display_hz'' (SqlInt 5))
     [(''gameplay_display_hz'', SqlInt 10)] s) (record_migration 4)"

definition apply_v5 :: "storage \<Rightarrow> storage stored" where
  "apply_v5 s = and_then (update_config (column_is ''tosu_endpoint'' (SqlText ''ws://127.0.0.1:24050/ws''))
     [(''tosu_endpoint'', SqlText DEFAULT_ENDPOINT)] s) (record_migration 5)"

definition apply_v6 :: "storage \<Rightarrow> storage stored" where
  "apply_v6 s = and_then (add_columns [(''key1_gpio'', SqlInt 14), (''key2_gpio'', SqlInt 9)] s)
     (record_migration 6)"

definition apply_v7 :: "storage \<Rightarrow> storage stored" where
  "apply_v7 s = record_migration 7
     (s\<lparr>app_state_table := Some (case app_state_table s of Some t \<Rightarrow> t | None \<Rightarrow> [])\<rparr>)"

definition apply_v8 :: "storage \<Rightarrow> storage stored" where
  "apply_v8 s = and_then (update_config (column_is ''debounce_us'' (SqlInt 3000))
     [(''debounce_us'', SqlInt 5000)] s) (record_migration 8)"

definition CHANNELS :: "string list" where "CHANNELS = [''k1'', ''k2'', ''combined'']"

definition ATTEMPT_COLUMNS :: "string list" where
  "ATTEMPT_COLUMNS =
     [''id'', ''started_at'', ''ended_at'', ''attempt_duration_ms'', ''beatmap_id'', ''beatmap_md5'',
      ''ruleset'', ''mods'', ''title'', ''artist'', ''difficulty'']
     @ concat (map (\<lambda>c. map (\<lambda>x. c @ x) [''_press_count'', ''_valid_intervals'', ''_interval_ms_sum'',
          ''_average_ppm'', ''_peak_ppm'']) CHANNELS)
     @ [''recorded_at'']"

definition apply_v9 :: "storage \<Rightarrow> storage stored" where
  "apply_v9 s = record_migration 9
     (s\<lparr>attempt_columns := Some (case attempt_columns s of Some t \<Rightarrow> t | None \<Rightarrow> ATTEMPT_COLUMNS)\<rparr>)"

definition attempts_have :: "string \<Rightarrow> storage \<Rightarrow> bool" where
  "attempts_have c s = (case attempt_columns s of Some cs \<Rightarrow> List.member cs c | None \<Rightarrow> False)"

fun add_attempt_columns :: "string list \<Rightarrow> storage \<Rightarrow> storage stored" where
  "add_attempt_columns [] s = Inr s"
| "add_attempt_columns (c # cs) s =
     (case attempt_columns s of
        None \<Rightarrow> no_table ''tap_attempts''
      | Some t \<Rightarrow>
          if List.member t c then Inl (Sqlite (''duplicate column name: '' @ c))
          else add_attempt_columns cs (s\<lparr>attempt_columns := Some (t @ [c])\<rparr>))"

definition apply_v10 :: "storage \<Rightarrow> storage stored" where
  "apply_v10 s = and_then
     (if attempts_have ''song_ms'' s then Inr s else add_attempt_columns [''song_press_count'', ''song_ms''] s)
     (record_migration 10)"

definition apply_v11 :: "storage \<Rightarrow> storage stored" where
  "apply_v11 s = and_then
     (if attempts_have ''song_peak_ppm'' s then Inr s else add_attempt_columns [''song_peak_ppm''] s)
     (record_migration 11)"

definition apply_v12 :: "storage \<Rightarrow> storage stored" where
  "apply_v12 s = and_then
     (if has_column ''swipe_left_action'' s then Inr s
      else add_columns [(''swipe_left_action'', SqlInt 2), (''swipe_right_action'', SqlInt 3),
             (''swipe_left_key'', SqlInt 0), (''swipe_right_key'', SqlInt 0)] s)
     (record_migration 12)"

definition apply_v13 :: "storage \<Rightarrow> storage stored" where
  "apply_v13 s = and_then
     (if has_column ''swipe_invert_vertical'' s then Inr s
      else add_columns [(''swipe_invert_vertical'', SqlInt 0)] s)
     (record_migration 13)"

text \<open>The inverted flag becomes swapped volume actions, then goes.\<close>

definition apply_v14 :: "storage \<Rightarrow> storage stored" where
  "apply_v14 s = and_then
     (if has_column ''swipe_up_action'' s then Inr s
      else add_columns [(''swipe_up_action'', SqlInt 7), (''swipe_down_action'', SqlInt 8),
             (''swipe_up_key'', SqlInt 0), (''swipe_down_key'', SqlInt 0)] s) (\<lambda>t.
     and_then
     (if has_column ''swipe_invert_vertical'' s
      then and_then (update_config (\<lambda>row. \<not> column_is ''swipe_invert_vertical'' (SqlInt 0) row)
               [(''swipe_up_action'', SqlInt 8), (''swipe_down_action'', SqlInt 7)] t)
             (drop_column ''swipe_invert_vertical'')
      else Inr t)
     (record_migration 14))"

definition apply_v15 :: "storage \<Rightarrow> storage stored" where
  "apply_v15 s = and_then
     (if has_column ''swipe_up_modifiers'' s then Inr s
      else add_columns [(''swipe_up_modifiers'', SqlInt 0), (''swipe_down_modifiers'', SqlInt 0),
             (''swipe_left_modifiers'', SqlInt 0), (''swipe_right_modifiers'', SqlInt 0)] s)
     (record_migration 15)"

definition apply_v16 :: "storage \<Rightarrow> storage stored" where
  "apply_v16 s = and_then
     (if has_column ''result_animations'' s then Inr s
      else add_columns [(''result_animations'', SqlText [])] s)
     (record_migration 16)"

definition MIGRATIONS :: "(nat \<times> (storage \<Rightarrow> storage stored)) list" where
  "MIGRATIONS = [(1, apply_v1), (2, apply_v2), (3, apply_v3), (4, apply_v4), (5, apply_v5),
     (6, apply_v6), (7, apply_v7), (8, apply_v8), (9, apply_v9), (10, apply_v10), (11, apply_v11),
     (12, apply_v12), (13, apply_v13), (14, apply_v14), (15, apply_v15), (16, apply_v16)]"

text \<open>\<open>SELECT MAX(version)\<close>, 0 for none.\<close>

definition current_version :: "storage \<Rightarrow> nat" where
  "current_version s = fold max (schema_migrations s) 0"

fun run_migrations :: "nat \<Rightarrow> (nat \<times> (storage \<Rightarrow> storage stored)) list \<Rightarrow> storage \<Rightarrow> storage stored" where
  "run_migrations v [] s = Inr s"
| "run_migrations v ((n, f) # ms) s =
     (if v < n then and_then (f s) (run_migrations v ms) else run_migrations v ms s)"

definition migrate :: "storage \<Rightarrow> storage stored" where
  "migrate s = run_migrations (current_version s) MIGRATIONS s"

text \<open>Opening a database: a new connection starts with writes allowed.\<close>

definition open_storage :: "storage \<Rightarrow> storage stored" where
  "open_storage s = migrate (s\<lparr>writes_allowed := True\<rparr>)"

section \<open>Reading and writing\<close>

text \<open>The P1-3 write guard: a write goes through only while writes are allowed.\<close>

definition set_writes_allowed :: "bool \<Rightarrow> storage \<Rightarrow> storage" where
  "set_writes_allowed allowed s = s\<lparr>writes_allowed := allowed\<rparr>"

definition check_writes_allowed :: "storage \<Rightarrow> unit stored" where
  "check_writes_allowed s = (if \<not> writes_allowed s then Inl WritesBlocked else Inr ())"

definition guarded :: "(storage \<Rightarrow> 'a stored) \<Rightarrow> storage \<Rightarrow> 'a stored" where
  "guarded f s = and_then (check_writes_allowed s) (\<lambda>_. f s)"

definition get_app_state :: "string \<Rightarrow> storage \<Rightarrow> string option stored" where
  "get_app_state key s = (case app_state_table s of
      None \<Rightarrow> no_table ''app_state'' | Some t \<Rightarrow> Inr (map_of t key))"

definition set_app_state :: "string \<Rightarrow> string \<Rightarrow> storage \<Rightarrow> storage stored" where
  "set_app_state key v = guarded (\<lambda>s. case app_state_table s of
      None \<Rightarrow> no_table ''app_state'' | Some t \<Rightarrow> Inr (s\<lparr>app_state_table := Some (put key v t)\<rparr>))"

definition delete_app_state :: "string \<Rightarrow> storage \<Rightarrow> storage stored" where
  "delete_app_state key = guarded (\<lambda>s. case app_state_table s of
      None \<Rightarrow> no_table ''app_state''
    | Some t \<Rightarrow> Inr (s\<lparr>app_state_table := Some (filter (\<lambda>(k, v). k \<noteq> key) t)\<rparr>))"

definition load_layout :: "u8 \<Rightarrow> storage \<Rightarrow> string option stored" where
  "load_layout scr s = (case layout_table s of
      None \<Rightarrow> no_table ''layouts'' | Some t \<Rightarrow> Inr (map_of t scr))"

definition save_layout :: "u8 \<Rightarrow> string \<Rightarrow> storage \<Rightarrow> storage stored" where
  "save_layout scr json = guarded (\<lambda>s. case layout_table s of
      None \<Rightarrow> no_table ''layouts'' | Some t \<Rightarrow> Inr (s\<lparr>layout_table := Some (put scr json t)\<rparr>))"

definition delete_layout :: "u8 \<Rightarrow> storage \<Rightarrow> storage stored" where
  "delete_layout scr = guarded (\<lambda>s. case layout_table s of
      None \<Rightarrow> no_table ''layouts''
    | Some t \<Rightarrow> Inr (s\<lparr>layout_table := Some (filter (\<lambda>(k, v). k \<noteq> scr) t)\<rparr>))"

subsection \<open>The configuration\<close>

text \<open>\<open>row.get\<close>: a column of another type, or a number that is no \<open>u32\<close>, is an error.\<close>

definition column :: "string \<Rightarrow> config_columns \<Rightarrow> sql_value stored" where
  "column c row = (case map_of row c of None \<Rightarrow> Inl (Sqlite (''no such column: '' @ c)) | Some v \<Rightarrow> Inr v)"

definition get_u32 :: "string \<Rightarrow> config_columns \<Rightarrow> u32 stored" where
  "get_u32 c row = and_then (column c row) (\<lambda>v. case v of
      SqlInt i \<Rightarrow> if 0 \<le> i \<and> i < 2 ^ 32 then Inr (word_of_int i) else Inl (Sqlite ''integral value out of range'')
    | SqlText t \<Rightarrow> Inl (Sqlite ''invalid column type''))"

definition get_text :: "string \<Rightarrow> config_columns \<Rightarrow> string stored" where
  "get_text c row = and_then (column c row) (\<lambda>v. case v of
      SqlText t \<Rightarrow> Inr t | SqlInt i \<Rightarrow> Inl (Sqlite ''invalid column type''))"

definition get_swipe :: "string \<Rightarrow> swipe_action \<Rightarrow> config_columns \<Rightarrow> swipe_action stored" where
  "get_swipe c def row = and_then (get_u32 c row)
     (\<lambda>w. Inr (case swipe_from_wire w of Some a \<Rightarrow> a | None \<Rightarrow> def))"

definition get_endpoint :: "config_columns \<Rightarrow> string stored" where
  "get_endpoint row = and_then (get_text ''tosu_endpoint'' row)
     (\<lambda>ep. Inr (if trim ep = [] then DEFAULT_ENDPOINT else ep))"

definition read_config :: "config_columns \<Rightarrow> device_config stored" where
  "read_config row =
     and_then (get_u32 ''key1_hid_usage'' row) (\<lambda>a1.
     and_then (get_u32 ''key2_hid_usage'' row) (\<lambda>a2.
     and_then (get_u32 ''debounce_us'' row) (\<lambda>a3.
     and_then (get_u32 ''brightness'' row) (\<lambda>a4.
     and_then (get_u32 ''display_sleep_seconds'' row) (\<lambda>a5.
     and_then (get_u32 ''gameplay_display_hz'' row) (\<lambda>a6.
     and_then (get_endpoint row) (\<lambda>a7.
     and_then (get_u32 ''key1_gpio'' row) (\<lambda>a8.
     and_then (get_u32 ''key2_gpio'' row) (\<lambda>a9.
     and_then (get_swipe ''swipe_left_action'' DEFAULT_SWIPE_LEFT row) (\<lambda>b1.
     and_then (get_swipe ''swipe_right_action'' DEFAULT_SWIPE_RIGHT row) (\<lambda>b2.
     and_then (get_u32 ''swipe_left_key'' row) (\<lambda>b3.
     and_then (get_u32 ''swipe_right_key'' row) (\<lambda>b4.
     and_then (get_swipe ''swipe_up_action'' DEFAULT_SWIPE_UP row) (\<lambda>b5.
     and_then (get_swipe ''swipe_down_action'' DEFAULT_SWIPE_DOWN row) (\<lambda>b6.
     and_then (get_u32 ''swipe_up_key'' row) (\<lambda>b7.
     and_then (get_u32 ''swipe_down_key'' row) (\<lambda>b8.
     and_then (get_u32 ''swipe_up_modifiers'' row) (\<lambda>c1.
     and_then (get_u32 ''swipe_down_modifiers'' row) (\<lambda>c2.
     and_then (get_u32 ''swipe_left_modifiers'' row) (\<lambda>c3.
     and_then (get_u32 ''swipe_right_modifiers'' row) (\<lambda>c4.
     and_then (get_text ''result_animations'' row) (\<lambda>c5.
       Inr \<lparr>key1_hid_usage = a1, key2_hid_usage = a2, debounce_us = a3, brightness = a4,
         display_sleep_seconds = a5, gameplay_display_hz = a6, tosu_endpoint = a7, key1_gpio = a8,
         key2_gpio = a9, swipe_left_action = b1, swipe_right_action = b2, swipe_left_key = b3,
         swipe_right_key = b4, swipe_up_action = b5, swipe_down_action = b6, swipe_up_key = b7,
         swipe_down_key = b8, swipe_up_modifiers = c1, swipe_down_modifiers = c2,
         swipe_left_modifiers = c3, swipe_right_modifiers = c4,
         result_animations = from_storage c5, key1_he = None, key2_he = None\<rparr>))))))))))))))))))))))"

definition load_config :: "storage \<Rightarrow> device_config stored" where
  "load_config s = (case config_table s of None \<Rightarrow> no_table ''config'' | Some row \<Rightarrow> read_config row)"

definition sql_u32 :: "u32 \<Rightarrow> sql_value" where "sql_u32 w = SqlInt (uint w)"

definition config_values :: "device_config \<Rightarrow> config_columns" where
  "config_values c =
     [(''key1_hid_usage'', sql_u32 (key1_hid_usage c)), (''key2_hid_usage'', sql_u32 (key2_hid_usage c)),
      (''debounce_us'', sql_u32 (debounce_us c)), (''brightness'', sql_u32 (brightness c)),
      (''display_sleep_seconds'', sql_u32 (display_sleep_seconds c)),
      (''gameplay_display_hz'', sql_u32 (gameplay_display_hz c)),
      (''tosu_endpoint'', SqlText (tosu_endpoint c)),
      (''key1_gpio'', sql_u32 (key1_gpio c)), (''key2_gpio'', sql_u32 (key2_gpio c)),
      (''swipe_left_action'', sql_u32 (swipe_to_wire (swipe_left_action c))),
      (''swipe_right_action'', sql_u32 (swipe_to_wire (swipe_right_action c))),
      (''swipe_left_key'', sql_u32 (swipe_left_key c)), (''swipe_right_key'', sql_u32 (swipe_right_key c)),
      (''swipe_up_action'', sql_u32 (swipe_to_wire (swipe_up_action c))),
      (''swipe_down_action'', sql_u32 (swipe_to_wire (swipe_down_action c))),
      (''swipe_up_key'', sql_u32 (swipe_up_key c)), (''swipe_down_key'', sql_u32 (swipe_down_key c)),
      (''swipe_up_modifiers'', sql_u32 (swipe_up_modifiers c)),
      (''swipe_down_modifiers'', sql_u32 (swipe_down_modifiers c)),
      (''swipe_left_modifiers'', sql_u32 (swipe_left_modifiers c)),
      (''swipe_right_modifiers'', sql_u32 (swipe_right_modifiers c)),
      (''result_animations'', SqlText (to_storage (result_animations c)))]"

definition save_config :: "device_config \<Rightarrow> storage \<Rightarrow> storage stored" where
  "save_config c = guarded (update_config (\<lambda>_. True) (config_values c))"

subsection \<open>Pads\<close>

text \<open>A \<open>u64\<close> counter is stored as the \<open>i64\<close> with its bits.\<close>

definition counters_of_row :: "string \<Rightarrow> device_row \<Rightarrow> counter_state" where
  "counters_of_row i r = \<lparr>counter_device = i, counter_generation = row_generation r,
     lifetime_key1 = word_of_int (row_key1 r), lifetime_key2 = word_of_int (row_key2 r),
     map_key1 = 0, map_key2 = 0\<rparr>"

definition load_device_state :: "string \<Rightarrow> storage \<Rightarrow> counter_state option stored" where
  "load_device_state i s = (case device_table s of
      None \<Rightarrow> no_table ''device_state''
    | Some t \<Rightarrow> Inr (map_option (counters_of_row i) (map_of t i)))"

text \<open>\<open>ORDER BY last_seen_at DESC\<close>: later texts first; rows seen at the same time keep their order.\<close>

fun insert_seen :: "string \<times> device_row \<Rightarrow> (string \<times> device_row) list \<Rightarrow> (string \<times> device_row) list" where
  "insert_seen x [] = [x]"
| "insert_seen x (y # ys) =
     (if str_cmp (row_last_seen_at (snd x)) (row_last_seen_at (snd y)) = Less
      then y # insert_seen x ys else x # y # ys)"

definition by_last_seen :: "(string \<times> device_row) list \<Rightarrow> (string \<times> device_row) list" where
  "by_last_seen t = foldr insert_seen t []"

definition info_of_row :: "string \<Rightarrow> device_row \<Rightarrow> device_info" where
  "info_of_row i r = \<lparr>device_id = i, board_profile = row_board_profile r,
     firmware_version = (case row_firmware_version r of Some v \<Rightarrow> v | None \<Rightarrow> []),
     protocol_version = 1, running_partition = None, he_input = False, he_calibration = False\<rparr>"

definition list_device_states :: "storage \<Rightarrow> (device_info \<times> counter_state) list stored" where
  "list_device_states s = (case device_table s of
      None \<Rightarrow> no_table ''device_state''
    | Some t \<Rightarrow> Inr (map (\<lambda>(i, r). (info_of_row i r, counters_of_row i r)) (by_last_seen t)))"

definition load_latest_device_state :: "storage \<Rightarrow> (device_info \<times> counter_state) option stored" where
  "load_latest_device_state s = and_then (list_device_states s)
     (\<lambda>l. Inr (case l of [] \<Rightarrow> None | x # _ \<Rightarrow> Some x))"

definition touch_device_last_seen :: "string \<Rightarrow> string \<Rightarrow> storage \<Rightarrow> storage stored" where
  "touch_device_last_seen now i = guarded (\<lambda>s. case device_table s of
      None \<Rightarrow> no_table ''device_state''
    | Some t \<Rightarrow> Inr (s\<lparr>device_table := Some (map (\<lambda>(k, r).
          if k = i then (k, r\<lparr>row_last_seen_at := now\<rparr>) else (k, r)) t)\<rparr>))"

definition save_device_state :: "string \<Rightarrow> device_info \<Rightarrow> counter_state \<Rightarrow> storage \<Rightarrow> storage stored" where
  "save_device_state now info k = guarded (\<lambda>s. case device_table s of
      None \<Rightarrow> no_table ''device_state''
    | Some t \<Rightarrow> Inr (s\<lparr>device_table := Some (put (device_id info)
         \<lparr>row_board_profile = board_profile info, row_firmware_version = Some (firmware_version info),
          row_generation = counter_generation k, row_key1 = sint (lifetime_key1 k),
          row_key2 = sint (lifetime_key2 k), row_last_seen_at = now, row_last_sync_at = now\<rparr> t)\<rparr>))"

subsection \<open>Tap attempts\<close>

definition timestamp_millis :: "int \<Rightarrow> int" where "timestamp_millis t = t div 1000000"

text \<open>A row for a finished attempt; one still being played has none.\<close>

definition attempt_row_of :: "attempt_stats \<Rightarrow> attempt_row option" where
  "attempt_row_of a =
     (case (ended_at a, duration_ms a) of
        (Some e, Some d) \<Rightarrow> Some \<lparr>ar_started_ms = timestamp_millis (started_at a),
          ar_ended_ms = timestamp_millis e, ar_duration_ms = d, ar_beatmap = beatmap a,
          ar_k1 = (st_k1 a)\<lparr>current_ppm := None\<rparr>, ar_k2 = (st_k2 a)\<lparr>current_ppm := None\<rparr>,
          ar_combined = (st_combined a)\<lparr>current_ppm := None\<rparr>, ar_song = st_song a\<rparr>
      | _ \<Rightarrow> None)"

definition save_tap_attempts :: "attempt_stats list \<Rightarrow> storage \<Rightarrow> (storage \<times> nat) stored" where
  "save_tap_attempts as = guarded (\<lambda>s.
     if attempt_columns s = None then no_table ''tap_attempts''
     else let rows = List.map_filter attempt_row_of as in
       Inr (s\<lparr>attempt_rows := attempt_rows s @ rows\<rparr>, length rows))"

text \<open>SQL aggregates: NULL values are skipped, and nothing to aggregate gives NULL.\<close>

definition sql_sum :: "'a::comm_monoid_add list \<Rightarrow> 'a option" where
  "sql_sum xs = (if xs = [] then None else Some (sum_list xs))"

definition sql_max :: "'a::linorder list \<Rightarrow> 'a option" where
  "sql_max xs = (case xs of [] \<Rightarrow> None | x # ys \<Rightarrow> Some (fold max ys x))"

definition sql_avg :: "rat list \<Rightarrow> rat option" where
  "sql_avg xs = (if xs = [] then None else Some (sum_list xs / of_nat (length xs)))"

definition somes :: "'a option list \<Rightarrow> 'a list" where
  "somes xs = List.map_filter (\<lambda>x. x) xs"

definition history_of :: "channel_stats list \<Rightarrow> channel_history" where
  "history_of cs =
     (let intervals = sql_sum (map (\<lambda>c. uint (valid_intervals c)) cs);
          interval_ms = sql_sum (map interval_ms_sum cs);
          peaks = somes (map peak_ppm cs)
      in \<lparr>h_average_ppm = (case (intervals, interval_ms) of
            (Some n, Some ms) \<Rightarrow> if n > 0 \<and> ms > 0 then Some (60000 * of_int n / ms) else None
          | _ \<Rightarrow> None),
          h_average_peak_ppm = sql_avg peaks, h_best_peak_ppm = sql_max peaks,
          h_total_presses = word_of_int (max (case sql_sum (map (\<lambda>c. uint (presses_count c)) cs) of
              Some n \<Rightarrow> n | None \<Rightarrow> 0) 0)\<rparr>)"

text \<open>\<open>now\<close> is in nanoseconds.\<close>

definition rows_since :: "u32 \<Rightarrow> int \<Rightarrow> attempt_row list \<Rightarrow> attempt_row list" where
  "rows_since days now rows =
     (if days = 0 then rows
      else filter (\<lambda>r. ar_started_ms r \<ge> timestamp_millis (now - uint days * 86400000000000)) rows)"

definition song_history :: "attempt_row list \<Rightarrow> rat option \<times> rat option" where
  "song_history rows =
     (let songs = filter (\<lambda>s. song_ms s > 0) (map ar_song rows) in
      ((case (sql_sum (map (\<lambda>s. uint (song_presses s)) songs), sql_sum (map song_ms songs)) of
          (Some n, Some ms) \<Rightarrow> if ms > 0 then Some (60000 * of_int n / ms) else None
        | _ \<Rightarrow> None),
       sql_max (somes (map song_peak songs))))"

definition read_tap_history :: "u32 \<Rightarrow> int \<Rightarrow> storage \<Rightarrow> tap_history stored" where
  "read_tap_history days now s =
     (if attempt_columns s = None then no_table ''tap_attempts''
      else let rows = rows_since days now (attempt_rows s); (song, peak) = song_history rows in
        Inr \<lparr>period_days = days, h_attempts = of_nat (length rows), h_k1 = history_of (map ar_k1 rows),
             h_k2 = history_of (map ar_k2 rows), h_combined = history_of (map ar_combined rows),
             h_song_ppm = song, h_best_song_peak_ppm = peak\<rparr>)"

text \<open>\<open>ORDER BY started_at DESC, id DESC\<close>: rows are kept in the order of their ids.\<close>

fun insert_recent :: "attempt_row \<Rightarrow> attempt_row list \<Rightarrow> attempt_row list" where
  "insert_recent x [] = [x]"
| "insert_recent x (y # ys) =
     (if ar_started_ms x < ar_started_ms y then y # insert_recent x ys else x # y # ys)"

definition attempt_of_row :: "attempt_row \<Rightarrow> attempt_stats" where
  "attempt_of_row r = \<lparr>started_at = ar_started_ms r * 1000000, ended_at = Some (ar_ended_ms r * 1000000),
     beatmap = ar_beatmap r, st_k1 = ar_k1 r, st_k2 = ar_k2 r, st_combined = ar_combined r,
     st_song = ar_song r, st_replay = False\<rparr>"

definition recent_tap_attempts :: "nat \<Rightarrow> storage \<Rightarrow> attempt_stats list stored" where
  "recent_tap_attempts limit s =
     (if attempt_columns s = None then no_table ''tap_attempts''
      else Inr (map attempt_of_row (take limit (fold insert_recent (attempt_rows s) []))))"

definition HISTORY_DAYS_KEY :: string where "HISTORY_DAYS_KEY = ''stats.history_days''"

definition tap_history_days :: "storage \<Rightarrow> u32 stored" where
  "tap_history_days s = and_then (get_app_state HISTORY_DAYS_KEY s) (\<lambda>v.
     Inr (case Option.bind v (parse_uint 32) of
        Some n \<Rightarrow> if is_ok (validate_history_days (of_nat n)) then of_nat n else DEFAULT_HISTORY_DAYS
      | None \<Rightarrow> DEFAULT_HISTORY_DAYS))"

definition set_tap_history_days :: "u32 \<Rightarrow> storage \<Rightarrow> storage stored" where
  "set_tap_history_days days s =
     (case validate_history_days days of
        Inl e \<Rightarrow> Inl (Migration e)
      | Inr _ \<Rightarrow> set_app_state HISTORY_DAYS_KEY (dec_digits (unat days)) s)"

section \<open>Reconciliation\<close>

definition reconcile_counters :: "counter_state \<Rightarrow> counter_state \<Rightarrow> counter_state" where
  "reconcile_counters pc esp =
     (if counter_generation pc > counter_generation esp then pc
      else if counter_generation esp > counter_generation pc then esp
      else \<lparr>counter_device = (if counter_device pc \<noteq> [] then counter_device pc else counter_device esp),
            counter_generation = counter_generation pc,
            lifetime_key1 = max (lifetime_key1 pc) (lifetime_key1 esp),
            lifetime_key2 = max (lifetime_key2 pc) (lifetime_key2 esp),
            map_key1 = map_key1 esp, map_key2 = map_key2 esp\<rparr>)"

section \<open>The shape of the configuration row\<close>

text \<open>
  The columns of \<open>config\<close> after migration \<open>n\<close>, with \<open>True\<close> for those that hold a number.
\<close>

definition fits :: "bool \<Rightarrow> sql_value \<Rightarrow> bool" where
  "fits num v = (case v of SqlInt i \<Rightarrow> num \<and> 0 \<le> i \<and> i < 2 ^ 32 | SqlText t \<Rightarrow> \<not> num)"

definition BASE_COLUMNS :: "(string \<times> bool) list" where
  "BASE_COLUMNS = [(''key1_hid_usage'', True), (''key2_hid_usage'', True), (''debounce_us'', True),
     (''brightness'', True), (''display_sleep_seconds'', True), (''gameplay_display_hz'', True),
     (''tosu_endpoint'', False)]"

definition added_columns :: "nat \<Rightarrow> (string \<times> bool) list" where
  "added_columns n =
     (if n = 2 then [(''press_color_rgb'', True)]
      else if n = 6 then [(''key1_gpio'', True), (''key2_gpio'', True)]
      else if n = 12 then [(''swipe_left_action'', True), (''swipe_right_action'', True),
        (''swipe_left_key'', True), (''swipe_right_key'', True)]
      else if n = 13 then [(''swipe_invert_vertical'', True)]
      else if n = 14 then [(''swipe_up_action'', True), (''swipe_down_action'', True),
        (''swipe_up_key'', True), (''swipe_down_key'', True)]
      else if n = 15 then [(''swipe_up_modifiers'', True), (''swipe_down_modifiers'', True),
        (''swipe_left_modifiers'', True), (''swipe_right_modifiers'', True)]
      else if n = 16 then [(''result_animations'', False)]
      else [])"

fun columns_at :: "nat \<Rightarrow> (string \<times> bool) list" where
  "columns_at 0 = []"
| "columns_at (Suc n) =
     (if n = 0 then BASE_COLUMNS
      else filter (\<lambda>(c, num). Suc n \<noteq> 14 \<or> c \<noteq> ''swipe_invert_vertical'')
             (columns_at n @ added_columns (Suc n)))"

declare columns_at.simps [simp del]

definition row_has :: "(string \<times> bool) list \<Rightarrow> config_columns \<Rightarrow> bool" where
  "row_has cs row = list_all2 (\<lambda>(c, num) (c', v). c = c' \<and> fits num v) cs row"

definition attempt_columns_at :: "nat \<Rightarrow> string list option" where
  "attempt_columns_at n =
     (if n < 9 then None
      else Some (ATTEMPT_COLUMNS @ (if n < 10 then [] else [''song_press_count'', ''song_ms''])
        @ (if n < 11 then [] else [''song_peak_ppm''])))"

text \<open>A database that the migrations up to \<open>n\<close> have made and that was used since.\<close>

definition at_version :: "nat \<Rightarrow> storage \<Rightarrow> bool" where
  "at_version n s \<longleftrightarrow>
     schema_migrations s = [1..<Suc n]
   \<and> (case config_table s of None \<Rightarrow> n = 0 | Some row \<Rightarrow> n > 0 \<and> row_has (columns_at n) row)
   \<and> (device_table s = None \<longleftrightarrow> n = 0) \<and> (layout_table s = None \<longleftrightarrow> n < 3)
   \<and> (app_state_table s = None \<longleftrightarrow> n < 7) \<and> attempt_columns s = attempt_columns_at n"

text \<open>What the user's data was before stays.\<close>

definition CARRIED :: "string list" where
  "CARRIED = [''key1_hid_usage'', ''key2_hid_usage'', ''brightness'', ''display_sleep_seconds'',
     ''key1_gpio'', ''key2_gpio'', ''swipe_left_action'', ''swipe_right_action'', ''swipe_left_key'',
     ''swipe_right_key'']"

definition column_value :: "string \<Rightarrow> storage \<Rightarrow> sql_value option" where
  "column_value c s = (case config_table s of None \<Rightarrow> None | Some row \<Rightarrow> map_of row c)"

definition user_data_kept :: "storage \<Rightarrow> storage \<Rightarrow> bool" where
  "user_data_kept s t \<longleftrightarrow>
     (device_table s \<noteq> None \<longrightarrow> device_table t = device_table s)
   \<and> (layout_table s \<noteq> None \<longrightarrow> layout_table t = layout_table s)
   \<and> (app_state_table s \<noteq> None \<longrightarrow> app_state_table t = app_state_table s)
   \<and> attempt_rows t = attempt_rows s
   \<and> (\<forall>c \<in> set CARRIED. column_value c s \<noteq> None \<longrightarrow> column_value c t = column_value c s)"

lemma user_data_kept_refl: "user_data_kept s s"
  by (simp add: user_data_kept_def)

lemma user_data_kept_trans: "user_data_kept s t \<Longrightarrow> user_data_kept t u \<Longrightarrow> user_data_kept s u"
  unfolding user_data_kept_def by (metis (no_types, lifting))

section \<open>One migration at a time\<close>

lemma row_has_names: "row_has cs row \<Longrightarrow> map fst row = map fst cs"
  unfolding row_has_def by (induction cs row rule: list_all2_induct) auto

lemma row_has_lookup:
  "row_has cs row \<Longrightarrow> map_of cs c = Some num \<Longrightarrow> \<exists>v. map_of row c = Some v \<and> fits num v"
  unfolding row_has_def by (induction cs row rule: list_all2_induct) (auto split: if_splits)

lemma row_has_append: "row_has cs row \<Longrightarrow> row_has ds new \<Longrightarrow> row_has (cs @ ds) (row @ new)"
  by (simp add: row_has_def list_all2_appendI)

lemma row_has_filter:
  "row_has cs row \<Longrightarrow> row_has (filter (\<lambda>(c, num). P c) cs) (filter (\<lambda>(c, v). P c) row)"
  unfolding row_has_def by (induction cs row rule: list_all2_induct) auto

lemma map_of_put: "map_of (put k v t) = (map_of t)(k \<mapsto> v)"
proof -
  have "map_of (map (\<lambda>(k', v'). if k' = k then (k', v) else (k', v')) t)
      = (if k \<in> fst ` set t then (map_of t)(k \<mapsto> v) else map_of t)"
    by (induction t) auto
  moreover have "k \<notin> fst ` set t \<Longrightarrow> map_of (t @ [(k, v)]) = (map_of t)(k \<mapsto> v)"
    by (rule ext) (auto simp: map_of_eq_None_iff[symmetric] map_add_def split: option.splits)
  ultimately show ?thesis by (auto simp: put_def)
qed

lemma row_has_replace:
  "row_has cs row \<Longrightarrow> \<forall>num'. (c, num') \<in> set cs \<longrightarrow> fits num' v \<Longrightarrow>
   row_has cs (map (\<lambda>(k', v'). if k' = c then (k', v) else (k', v')) row)"
  unfolding row_has_def by (induction cs row rule: list_all2_induct) (auto split: prod.splits)

lemma row_has_put:
  assumes "row_has cs row" "(c, num) \<in> set cs" "distinct (map fst cs)" "fits num v"
  shows "row_has cs (put c v row)"
proof -
  have "\<forall>num'. (c, num') \<in> set cs \<longrightarrow> fits num' v"
    using assms(2-4) by (auto dest: eq_key_imp_eq_value)
  with assms(1) have "row_has cs (map (\<lambda>(k', v'). if k' = c then (k', v) else (k', v')) row)"
    by (rule row_has_replace)
  moreover have "c \<in> set (map fst row)"
    using assms(1,2) by (force simp: row_has_names)
  ultimately show ?thesis by (simp add: put_def image_image)
qed

lemma row_has_fold_put:
  assumes "row_has cs row" "\<And>c v. (c, v) \<in> set sets \<Longrightarrow> \<exists>num. (c, num) \<in> set cs \<and> fits num v"
    "distinct (map fst cs)"
  shows "row_has cs (fold (\<lambda>(c, v). put c v) sets row)"
  using assms
proof (induction sets arbitrary: row)
  case (Cons x xs)
  obtain c v where x: "x = (c, v)" by force
  have "\<exists>num. (c, num) \<in> set cs \<and> fits num v" by (rule Cons.prems(2)) (simp add: x)
  then have "row_has cs (put c v row)" using Cons.prems(1,3) row_has_put by blast
  then have "row_has cs (fold (\<lambda>(c, v). put c v) xs (put c v row))"
    by (rule Cons.IH) (use Cons.prems in auto)
  then show ?case by (simp add: x)
qed simp

lemma map_of_fold_put:
  "distinct (map fst sets) \<Longrightarrow> map_of (fold (\<lambda>(c, v). put c v) sets row) = map_of row ++ map_of sets"
proof (induction sets arbitrary: row)
  case (Cons x xs)
  obtain c v where x: "x = (c, v)" by force
  have "c \<notin> dom (map_of xs)" using Cons.prems by (simp add: x dom_map_of_conv_image_fst)
  then show ?case using Cons by (simp add: x map_of_put map_add_upd_left fun_upd_def[symmetric])
qed simp

lemma add_columns_ok:
  assumes "config_table s = Some row" "set (map fst cs) \<inter> set (map fst row) = {}" "distinct (map fst cs)"
  shows "add_columns cs s = Inr (s\<lparr>config_table := Some (row @ cs)\<rparr>)"
  using assms
proof (induction cs s arbitrary: row rule: add_columns.induct)
  case (2 c v cs s)
  have "\<not> List.member (map fst row) c" using "2.prems" by auto
  then show ?case
    using "2.IH"[of row "row @ [(c, v)]"] "2.prems" by auto
qed simp

lemma record_next: "schema_migrations s = [1..<Suc n] \<Longrightarrow>
    record_migration (Suc n) s = Inr (s\<lparr>schema_migrations := [1..<Suc (Suc n)]\<rparr>)"
  by (simp add: record_migration_def)

definition migrates :: "nat \<Rightarrow> (storage \<Rightarrow> storage stored) \<Rightarrow> bool" where
  "migrates n f \<longleftrightarrow> (\<forall>s. at_version n s \<longrightarrow>
     (\<exists>t. f s = Inr t \<and> at_version (Suc n) t \<and> user_data_kept s t))"

text \<open>The tables that appear and the columns that attempts gain do not change at version \<open>n\<close>.\<close>

definition quiet :: "nat \<Rightarrow> bool" where
  "quiet n \<longleftrightarrow> 0 < n \<and> n \<noteq> 2 \<and> n \<noteq> 6 \<and> n \<notin> {8, 9, 10}"

lemma quiet_tables:
  assumes "quiet n" "at_version n s" "config_table s = Some row"
    "row_has (columns_at (Suc n)) row'"
  shows "at_version (Suc n) (s\<lparr>config_table := Some row', schema_migrations := [1..<Suc (Suc n)]\<rparr>)"
  using assms unfolding at_version_def quiet_def
  by (auto simp: attempt_columns_at_def)

lemma config_row:
  assumes "at_version n s" "0 < n"
  obtains row where "config_table s = Some row" "row_has (columns_at n) row"
  using assms by (cases "config_table s") (auto simp: at_version_def)

lemma migrates_add:
  assumes "quiet n" "columns_at (Suc n) = columns_at n @ ds" "distinct (map fst (columns_at (Suc n)))"
    "row_has ds cs"
  shows "migrates n (\<lambda>s. and_then (add_columns cs s) (record_migration (Suc n)))"
  unfolding migrates_def
proof (intro allI impI)
  fix s assume v: "at_version n s"
  have "0 < n" using assms(1) by (simp add: quiet_def)
  with v obtain row where row: "config_table s = Some row" "row_has (columns_at n) row"
    by (rule config_row)
  have names: "map fst row = map fst (columns_at n)" "map fst cs = map fst ds"
    using row(2) assms(4) by (simp_all add: row_has_names)
  have "add_columns cs s = Inr (s\<lparr>config_table := Some (row @ cs)\<rparr>)"
    using assms(2,3) names by (intro add_columns_ok[OF row(1)]) auto
  then have "and_then (add_columns cs s) (record_migration (Suc n))
      = Inr (s\<lparr>config_table := Some (row @ cs), schema_migrations := [1..<Suc (Suc n)]\<rparr>)"
    using v by (simp add: at_version_def record_next)
  moreover have "user_data_kept s (s\<lparr>config_table := Some (row @ cs), schema_migrations := [1..<Suc (Suc n)]\<rparr>)"
    by (auto simp: user_data_kept_def column_value_def row(1) map_add_def split: option.splits)
  moreover have "at_version (Suc n) (s\<lparr>config_table := Some (row @ cs), schema_migrations := [1..<Suc (Suc n)]\<rparr>)"
    using row(2) assms(2,4) by (intro quiet_tables[OF assms(1) v row(1)]) (simp add: row_has_append)
  ultimately show "\<exists>t. and_then (add_columns cs s) (record_migration (Suc n)) = Inr t
      \<and> at_version (Suc n) t \<and> user_data_kept s t" by blast
qed

lemma migrates_update:
  assumes "quiet n" "columns_at (Suc n) = columns_at n" "(c, num) \<in> set (columns_at n)"
    "distinct (map fst (columns_at n))" "fits num v" "c \<notin> set CARRIED"
  shows "migrates n (\<lambda>s. and_then (update_config cond [(c, v)] s) (record_migration (Suc n)))"
  unfolding migrates_def
proof (intro allI impI)
  fix s assume v: "at_version n s"
  have "0 < n" using assms(1) by (simp add: quiet_def)
  with v obtain row where row: "config_table s = Some row" "row_has (columns_at n) row"
    by (rule config_row)
  define row' where "row' = (if cond row then put c v row else row)"
  have "c \<in> set (map fst row)" using assms(3) row(2) by (force simp: row_has_names)
  then have "update_config cond [(c, v)] s = Inr (s\<lparr>config_table := Some row'\<rparr>)"
    using row(1) by (simp add: update_config_def row'_def)
  then have "and_then (update_config cond [(c, v)] s) (record_migration (Suc n))
      = Inr (s\<lparr>config_table := Some row', schema_migrations := [1..<Suc (Suc n)]\<rparr>)"
    using v by (simp add: at_version_def record_next)
  moreover have "user_data_kept s (s\<lparr>config_table := Some row', schema_migrations := [1..<Suc (Suc n)]\<rparr>)"
    using assms(6) by (auto simp: user_data_kept_def column_value_def row(1) row'_def map_of_put)
  moreover have "row_has (columns_at (Suc n)) row'"
    using assms(2-5) row(2) by (auto simp: row'_def intro: row_has_put)
  ultimately show "\<exists>t. and_then (update_config cond [(c, v)] s) (record_migration (Suc n)) = Inr t
      \<and> at_version (Suc n) t \<and> user_data_kept s t"
    using quiet_tables[OF assms(1) v row(1)] by blast
qed

text \<open>The columns at each version, and what the migrations add.\<close>

lemma columns_at_next:
  "0 < n \<Longrightarrow> Suc n \<noteq> 14 \<Longrightarrow> columns_at (Suc n) = columns_at n @ added_columns (Suc n)"
  by (simp add: columns_at.simps filter_id_conv)

lemma columns_distinct: "n \<le> 16 \<Longrightarrow> distinct (map fst (columns_at n))"
proof -
  have "list_all (\<lambda>n. distinct (map fst (columns_at n))) [0..<17]" by code_simp
  then show "n \<le> 16 \<Longrightarrow> distinct (map fst (columns_at n))" by (auto simp: list_all_iff)
qed

lemma columns_hold:
  "(''debounce_us'', True) \<in> set (columns_at 7)"
  "(''gameplay_display_hz'', True) \<in> set (columns_at 3)" "(''tosu_endpoint'', False) \<in> set (columns_at 4)"
  by code_simp+

lemma migrates_v1: "migrates 0 apply_v1"
  unfolding migrates_def
proof (intro allI impI)
  fix s assume "at_version 0 s"
  moreover have "row_has (columns_at 1) INITIAL_CONFIG" by code_simp
  ultimately show "\<exists>t. apply_v1 s = Inr t \<and> at_version (Suc 0) t \<and> user_data_kept s t"
    by (auto simp: apply_v1_def record_migration_def at_version_def user_data_kept_def column_value_def
      attempt_columns_at_def split: option.splits)
qed

lemma add_step:
  assumes "quiet n" "m = Suc n" "m \<noteq> 14" "m \<le> 16" "row_has (added_columns m) cs"
    "\<And>s. at_version n s \<Longrightarrow> f s = and_then (add_columns cs s) (record_migration m)"
  shows "migrates n f"
proof -
  have "0 < n" using assms(1) by (simp add: quiet_def)
  then have "columns_at (Suc n) = columns_at n @ added_columns (Suc n)"
    using assms(2,3) by (intro columns_at_next) auto
  then have "migrates n (\<lambda>s. and_then (add_columns cs s) (record_migration (Suc n)))"
    using assms columns_distinct[of m] by (intro migrates_add) simp_all
  with assms(2,6) show ?thesis by (simp add: migrates_def)
qed

lemma update_step:
  assumes "quiet n" "m = Suc n" "m \<noteq> 14" "m \<le> 16" "added_columns m = []"
    "(c, num) \<in> set (columns_at n)" "fits num v" "c \<notin> set CARRIED"
    "\<And>s. f s = and_then (update_config cond [(c, v)] s) (record_migration m)"
  shows "migrates n f"
proof -
  have "0 < n" using assms(1) by (simp add: quiet_def)
  then have "columns_at (Suc n) = columns_at n"
    using assms(2,3,5) by (subst columns_at_next) auto
  then have "migrates n (\<lambda>s. and_then (update_config cond [(c, v)] s) (record_migration (Suc n)))"
    using assms columns_distinct by (intro migrates_update) auto
  with assms(2,9) show ?thesis by (simp add: migrates_def)
qed

lemma has_column_at:
  "at_version n s \<Longrightarrow> 0 < n \<Longrightarrow> has_column c s \<longleftrightarrow> c \<in> set (map fst (columns_at n))"
  by (erule (1) config_row) (auto simp: has_column_def simp flip: row_has_names)

lemma columns_missing:
  "''swipe_left_action'' \<notin> set (map fst (columns_at 11))"
  "''swipe_invert_vertical'' \<notin> set (map fst (columns_at 12))"
  "''swipe_up_action'' \<notin> set (map fst (columns_at 13))"
  "''swipe_invert_vertical'' \<in> set (map fst (columns_at 13))"
  "''swipe_up_modifiers'' \<notin> set (map fst (columns_at 14))"
  "''result_animations'' \<notin> set (map fst (columns_at 15))"
  by code_simp+

lemma migrates_v2: "migrates 1 apply_v2"
  by (rule add_step[where m = 2, OF _ _ _ _ _ apply_v2_def]) (simp_all add: quiet_def added_columns_def row_has_def fits_def)

lemma columns_same:
  "columns_at 3 = columns_at 2" "columns_at 7 = columns_at 6" "columns_at 9 = columns_at 8"
  "columns_at 10 = columns_at 9" "columns_at 11 = columns_at 10"
  by code_simp+

lemmas table_step_simps = migrates_def record_migration_def at_version_def user_data_kept_def
  column_value_def attempt_columns_at_def upt_rec columns_same

lemma migrates_v3: "migrates 2 apply_v3"
  by (auto simp: table_step_simps apply_v3_def split: option.splits)

lemma migrates_v7: "migrates 6 apply_v7"
  by (auto simp: table_step_simps apply_v7_def split: option.splits)

lemma migrates_v9: "migrates 8 apply_v9"
  by (auto simp: table_step_simps apply_v9_def split: option.splits)

lemma attempt_columns_missing:
  "''song_ms'' \<notin> set ATTEMPT_COLUMNS" "''song_press_count'' \<notin> set ATTEMPT_COLUMNS"
  "''song_peak_ppm'' \<notin> set (ATTEMPT_COLUMNS @ [''song_press_count'', ''song_ms''])"
  by code_simp+

lemma migrates_v10: "migrates 9 apply_v10"
  using attempt_columns_missing
  by (auto simp: table_step_simps apply_v10_def attempts_have_def split: option.splits)

lemma migrates_v11: "migrates 10 apply_v11"
  using attempt_columns_missing
  by (auto simp: table_step_simps apply_v11_def attempts_have_def split: option.splits)

lemma migrates_v4: "migrates 3 apply_v4"
  by (rule update_step[where m = 4, OF _ _ _ _ _ columns_hold(2) _ _ apply_v4_def])
    (simp_all add: quiet_def added_columns_def fits_def CARRIED_def)

lemma migrates_v5: "migrates 4 apply_v5"
  by (rule update_step[where m = 5, OF _ _ _ _ _ columns_hold(3) _ _ apply_v5_def])
    (simp_all add: quiet_def added_columns_def fits_def CARRIED_def)

lemma migrates_v6: "migrates 5 apply_v6"
  by (rule add_step[where m = 6, OF _ _ _ _ _ apply_v6_def]) (simp_all add: quiet_def added_columns_def row_has_def fits_def)

lemma migrates_v8: "migrates 7 apply_v8"
  by (rule update_step[where m = 8, OF _ _ _ _ _ columns_hold(1) _ _ apply_v8_def])
    (simp_all add: quiet_def added_columns_def fits_def CARRIED_def)

lemma migrates_v12: "migrates 11 apply_v12"
  by (rule add_step[where m = 12]) (simp_all only: apply_v12_def has_column_at columns_missing if_False
      quiet_def, simp_all add: quiet_def added_columns_def row_has_def fits_def)

lemma migrates_v13: "migrates 12 apply_v13"
  by (rule add_step[where m = 13]) (simp_all only: apply_v13_def has_column_at columns_missing if_False
      quiet_def, simp_all add: quiet_def added_columns_def row_has_def fits_def)

lemma migrates_v15: "migrates 14 apply_v15"
  by (rule add_step[where m = 15]) (simp_all only: apply_v15_def has_column_at columns_missing if_False
      quiet_def, simp_all add: quiet_def added_columns_def row_has_def fits_def)

lemma migrates_v16: "migrates 15 apply_v16"
  by (rule add_step[where m = 16]) (simp_all only: apply_v16_def has_column_at columns_missing if_False
      quiet_def, simp_all add: quiet_def added_columns_def row_has_def fits_def)

lemma map_of_drop: "map_of (filter (\<lambda>(c', v). c' \<noteq> x) row) c = (if c = x then None else map_of row c)"
  by (induction row) auto

text \<open>Version 14 replaces the inverted flag by the swapped actions.\<close>

lemma columns_14:
  "columns_at 14 = filter (\<lambda>(c, num). c \<noteq> ''swipe_invert_vertical'') (columns_at 13 @ added_columns 14)"
  by code_simp

lemma migrates_v14: "migrates 13 apply_v14"
  unfolding migrates_def
proof (intro allI impI)
  fix s assume v: "at_version 13 s"
  obtain row where row: "config_table s = Some row" "row_has (columns_at 13) row"
    using v by (rule config_row) simp
  define new where "new = [(''swipe_up_action'', SqlInt 7), (''swipe_down_action'', SqlInt 8),
    (''swipe_up_key'', SqlInt 0), (''swipe_down_key'', SqlInt 0)]"
  define swapped where "swapped = [(''swipe_up_action'', SqlInt 8), (''swipe_down_action'', SqlInt 7)]"
  let ?cond = "\<lambda>row. \<not> column_is ''swipe_invert_vertical'' (SqlInt 0) row"
  define r1 where "r1 = row @ new"
  define r2 where "r2 = (if ?cond r1 then fold (\<lambda>(c, v). put c v) swapped r1 else r1)"
  define r3 where "r3 = filter (\<lambda>(c, v). c \<noteq> ''swipe_invert_vertical'') r2"
  have names: "map fst row = map fst (columns_at 13)" using row(2) by (rule row_has_names)
  have "set (map fst new) \<inter> set (map fst (columns_at 13)) = {}" "distinct (map fst new)"
    unfolding new_def by code_simp+
  then have add: "add_columns new s = Inr (s\<lparr>config_table := Some r1\<rparr>)"
    unfolding r1_def using row(1) names by (intro add_columns_ok) auto
  have upd: "update_config ?cond swapped (s\<lparr>config_table := Some r1\<rparr>) = Inr (s\<lparr>config_table := Some r2\<rparr>)"
    by (simp add: update_config_def r2_def r1_def new_def swapped_def)
  have h1: "row_has (columns_at 13 @ added_columns 14) r1"
    unfolding r1_def by (rule row_has_append[OF row(2)]) (simp add: row_has_def new_def added_columns_def fits_def)
  have "distinct (map fst (columns_at 13 @ added_columns 14))" by code_simp
  then have h2: "row_has (columns_at 13 @ added_columns 14) r2"
    unfolding r2_def using h1 by (auto simp: swapped_def added_columns_def fits_def intro!: row_has_put)
  have h3: "row_has (columns_at 14) r3"
    unfolding columns_14 r3_def using h2 by (rule row_has_filter)
  have "apply_v14 s = Inr (s\<lparr>config_table := Some r3, schema_migrations := [1..<15]\<rparr>)"
    using v add upd columns_missing has_column_at[OF v]
    by (simp add: apply_v14_def new_def[symmetric] swapped_def[symmetric] drop_column_def r3_def
      at_version_def record_next[of _ 13, simplified])
  moreover have "user_data_kept s (s\<lparr>config_table := Some r3, schema_migrations := [1..<15]\<rparr>)"
    unfolding user_data_kept_def
  proof (intro conjI ballI impI)
    fix c assume c: "c \<in> set CARRIED" and "column_value c s \<noteq> None"
    then have "map_of r1 c = map_of row c"
      using row(1) by (auto simp: column_value_def r1_def map_add_def)
    moreover have "c \<noteq> ''swipe_invert_vertical'' \<and> c \<noteq> ''swipe_up_action'' \<and> c \<noteq> ''swipe_down_action''"
      using c by (auto simp: CARRIED_def)
    ultimately show "column_value c (s\<lparr>config_table := Some r3, schema_migrations := [1..<15]\<rparr>) = column_value c s"
      using row(1) by (simp add: column_value_def r3_def map_of_drop r2_def swapped_def map_of_put)
  qed auto
  moreover have "at_version (Suc 13) (s\<lparr>config_table := Some r3, schema_migrations := [1..<15]\<rparr>)"
    using quiet_tables[of 13 s row r3] v row(1) h3 by (simp add: quiet_def)
  ultimately show "\<exists>t. apply_v14 s = Inr t \<and> at_version (Suc 13) t \<and> user_data_kept s t" by blast
qed

section \<open>Upgrading\<close>

lemma MIGRATIONS_migrate:
  "map fst MIGRATIONS = [Suc 0..<17]" "\<forall>(m, f) \<in> set MIGRATIONS. migrates (m - 1) f"
proof -
  show "map fst MIGRATIONS = [Suc 0..<17]" by (simp add: MIGRATIONS_def upt_rec)
  show "\<forall>(m, f) \<in> set MIGRATIONS. migrates (m - 1) f"
    using migrates_v1 migrates_v2 migrates_v3 migrates_v4 migrates_v5 migrates_v6 migrates_v7 migrates_v8
      migrates_v9 migrates_v10 migrates_v11 migrates_v12 migrates_v13 migrates_v14 migrates_v15 migrates_v16
    by (simp add: MIGRATIONS_def)
qed

lemma migrates_run:
  assumes "map fst ms = [Suc m..<17]" "\<forall>(k, f) \<in> set ms. migrates (k - 1) f" "m \<le> 16" "v \<le> 16"
    "at_version (max v m) s"
  shows "\<exists>t. run_migrations v ms s = Inr t \<and> at_version 16 t \<and> user_data_kept s t"
  using assms
proof (induction ms arbitrary: m s)
  case Nil
  then have "max v m = 16" by (auto simp: eq_commute[of "[]"])
  with Nil show ?case by (auto simp: user_data_kept_refl)
next
  case (Cons x ms)
  then have m: "m < 16" by (cases "m < 16") auto
  obtain f where x: "x = (Suc m, f)" and ms: "map fst ms = [Suc (Suc m)..<17]"
    using Cons.prems(1) m by (cases x) (auto simp: upt_conv_Cons)
  have f: "migrates m f" using Cons.prems(2) by (auto simp: x)
  show ?case
  proof (cases "v \<le> m")
    case True
    then have "at_version m s" using Cons.prems(5) by (simp add: max_def split: if_splits)
    with f obtain t where t: "f s = Inr t" "at_version (Suc m) t" "user_data_kept s t"
      unfolding migrates_def by blast
    have "\<exists>u. run_migrations v ms t = Inr u \<and> at_version 16 u \<and> user_data_kept t u"
      using Cons.prems(2,4) m ms t(2) True by (intro Cons.IH[of "Suc m"]) (auto simp: max_def)
    then show ?thesis using t True by (auto simp: x intro: user_data_kept_trans)
  next
    case False
    then have "max v (Suc m) = max v m" by simp
    then have "\<exists>u. run_migrations v ms s = Inr u \<and> at_version 16 u \<and> user_data_kept s u"
      using Cons.prems m ms by (intro Cons.IH[of "Suc m"]) auto
    then show ?thesis using False by (auto simp: x)
  qed
qed

lemma fold_max_upt: "fold max [1..<Suc n] 0 = n"
  by (induction n) auto

lemma current_version_at: "at_version n s \<Longrightarrow> current_version s = n"
  unfolding current_version_def by (simp only: at_version_def fold_max_upt)

lemma get_u32_ok: "row_has cs row \<Longrightarrow> map_of cs c = Some True \<Longrightarrow> \<exists>w. get_u32 c row = Inr w"
  by (drule (1) row_has_lookup) (force simp: get_u32_def column_def fits_def split: sql_value.splits)

lemma get_text_ok: "row_has cs row \<Longrightarrow> map_of cs c = Some False \<Longrightarrow> \<exists>t. get_text c row = Inr t"
  by (drule (1) row_has_lookup) (force simp: get_text_def column_def fits_def split: sql_value.splits)

lemma and_then_ok:
  "\<exists>x. r = Inr x \<Longrightarrow> (\<And>x. \<exists>y. f x = Inr y) \<Longrightarrow> \<exists>y. and_then r f = Inr y"
  by auto

lemma COLUMNS:
  "list_all (\<lambda>c. map_of (columns_at 16) c = Some True)
     [''key1_hid_usage'', ''key2_hid_usage'', ''debounce_us'', ''brightness'', ''display_sleep_seconds'',
      ''gameplay_display_hz'', ''key1_gpio'', ''key2_gpio'', ''swipe_left_action'', ''swipe_right_action'',
      ''swipe_left_key'', ''swipe_right_key'', ''swipe_up_action'', ''swipe_down_action'', ''swipe_up_key'',
      ''swipe_down_key'', ''swipe_up_modifiers'', ''swipe_down_modifiers'', ''swipe_left_modifiers'',
      ''swipe_right_modifiers'']"
  "list_all (\<lambda>c. map_of (columns_at 16) c = Some False) [''tosu_endpoint'', ''result_animations'']"
  by code_simp+

lemma config_readable:
  assumes "row_has (columns_at 16) row"
  shows "\<exists>c. read_config row = Inr c"
  unfolding read_config_def get_swipe_def get_endpoint_def
  by (intro and_then_ok get_u32_ok[OF assms] get_text_ok[OF assms])
    (use COLUMNS in \<open>simp_all add: list_all_iff\<close>)


definition old_database :: storage where
  "old_database = \<lparr>schema_migrations = [1, 2, 3, 4, 5], config_table = Some
     [(''key1_hid_usage'', SqlInt 4), (''key2_hid_usage'', SqlInt 22), (''debounce_us'', SqlInt 3000),
      (''brightness'', SqlInt 60), (''display_sleep_seconds'', SqlInt 0), (''gameplay_display_hz'', SqlInt 20),
      (''tosu_endpoint'', SqlText DEFAULT_ENDPOINT), (''press_color_rgb'', SqlInt 255)],
     device_table = Some [(''pad'', \<lparr>row_board_profile = BOARD_PROFILE, row_firmware_version = None,
       row_generation = 1, row_key1 = -1, row_key2 = 7, row_last_seen_at = ''2025'', row_last_sync_at = ''2025''\<rparr>)],
     layout_table = Some [], app_state_table = None, attempt_columns = None, attempt_rows = [],
     writes_allowed = True\<rparr>"


lemma fresh_database_loads_defaults: "and_then (open_storage empty_database) load_config = Inr default_config"
  by code_simp

section \<open>Round trips\<close>

definition stored_config :: "device_config \<Rightarrow> device_config" where
  "stored_config c = c\<lparr>tosu_endpoint := (if trim (tosu_endpoint c) = [] then DEFAULT_ENDPOINT else tosu_endpoint c),
     key1_he := None, key2_he := None\<rparr>"

lemma get_u32_stored: "map_of row c = Some (sql_u32 w) \<Longrightarrow> get_u32 c row = Inr w"
  using uint_lt2p[of w] by (simp add: get_u32_def column_def sql_u32_def)

lemma get_text_stored: "map_of row c = Some (SqlText t) \<Longrightarrow> get_text c row = Inr t"
  by (simp add: get_text_def column_def)

lemma config_values_distinct: "distinct (map fst (config_values c))"
proof -
  have "map fst (config_values c) = map fst (config_values default_config)" by (simp add: config_values_def)
  moreover have "distinct (map fst (config_values default_config))" by code_simp
  ultimately show ?thesis by simp
qed

lemma config_values_shape:
  "(k, v) \<in> set (config_values c) \<Longrightarrow> \<exists>num. (k, num) \<in> set (columns_at 16) \<and> fits num v"
proof -
  assume "(k, v) \<in> set (config_values c)"
  moreover have "list_all (\<lambda>(k, v). List.member (columns_at 16) (k, case v of SqlInt i \<Rightarrow> True | SqlText t \<Rightarrow> False))
      (config_values default_config)" by code_simp
  then have "list_all (\<lambda>(k, v). (k, case v of SqlInt i \<Rightarrow> True | SqlText t \<Rightarrow> False) \<in> set (columns_at 16))
      (config_values c)"
    unfolding config_values_def by (simp add: sql_u32_def)
  moreover have "list_all (\<lambda>(k, v). fits (case v of SqlInt i \<Rightarrow> True | SqlText t \<Rightarrow> False) v) (config_values c)"
    using uint_lt2p[where 'a = 32] by (simp add: config_values_def sql_u32_def fits_def)
  ultimately show ?thesis unfolding list_all_iff by fast
qed

lemma config_value_of:
  "map_of (config_values c) ''key1_hid_usage'' = Some (sql_u32 (key1_hid_usage c))"
  "map_of (config_values c) ''key2_hid_usage'' = Some (sql_u32 (key2_hid_usage c))"
  "map_of (config_values c) ''debounce_us'' = Some (sql_u32 (debounce_us c))"
  "map_of (config_values c) ''brightness'' = Some (sql_u32 (brightness c))"
  "map_of (config_values c) ''display_sleep_seconds'' = Some (sql_u32 (display_sleep_seconds c))"
  "map_of (config_values c) ''gameplay_display_hz'' = Some (sql_u32 (gameplay_display_hz c))"
  "map_of (config_values c) ''key1_gpio'' = Some (sql_u32 (key1_gpio c))"
  "map_of (config_values c) ''key2_gpio'' = Some (sql_u32 (key2_gpio c))"
  "map_of (config_values c) ''swipe_left_key'' = Some (sql_u32 (swipe_left_key c))"
  "map_of (config_values c) ''swipe_left_modifiers'' = Some (sql_u32 (swipe_left_modifiers c))"
  "map_of (config_values c) ''swipe_right_key'' = Some (sql_u32 (swipe_right_key c))"
  "map_of (config_values c) ''swipe_right_modifiers'' = Some (sql_u32 (swipe_right_modifiers c))"
  "map_of (config_values c) ''swipe_up_key'' = Some (sql_u32 (swipe_up_key c))"
  "map_of (config_values c) ''swipe_up_modifiers'' = Some (sql_u32 (swipe_up_modifiers c))"
  "map_of (config_values c) ''swipe_down_key'' = Some (sql_u32 (swipe_down_key c))"
  "map_of (config_values c) ''swipe_down_modifiers'' = Some (sql_u32 (swipe_down_modifiers c))"
  by (simp_all add: config_values_def)

lemma config_swipe_of:
  "map_of (config_values c) ''swipe_left_action'' = Some (sql_u32 (swipe_to_wire (swipe_left_action c)))"
  "map_of (config_values c) ''swipe_right_action'' = Some (sql_u32 (swipe_to_wire (swipe_right_action c)))"
  "map_of (config_values c) ''swipe_up_action'' = Some (sql_u32 (swipe_to_wire (swipe_up_action c)))"
  "map_of (config_values c) ''swipe_down_action'' = Some (sql_u32 (swipe_to_wire (swipe_down_action c)))"
  by (simp_all add: config_values_def)

lemma config_text_of:
  "map_of (config_values c) ''tosu_endpoint'' = Some (SqlText (tosu_endpoint c))"
  "map_of (config_values c) ''result_animations'' = Some (SqlText (to_storage (result_animations c)))"
  by (simp_all add: config_values_def)

lemma and_then_eq: "r = Inr x \<Longrightarrow> f x = y \<Longrightarrow> and_then r f = y"
  by simp

lemma get_swipe_stored: "map_of row c = Some (sql_u32 (swipe_to_wire a)) \<Longrightarrow> get_swipe c def row = Inr a"
  by (simp add: get_swipe_def get_u32_stored swipe_wire_roundtrip)

lemma get_endpoint_stored:
  "map_of row ''tosu_endpoint'' = Some (SqlText t) \<Longrightarrow>
   get_endpoint row = Inr (if trim t = [] then DEFAULT_ENDPOINT else t)"
  by (simp add: get_endpoint_def get_text_stored)

lemma read_saved:
  assumes "map_of row = r ++ map_of (config_values c)" "length (result_animations c) = 6"
  shows "read_config row = Inr (stored_config c)"
proof -
  have saved: "map_of row k = Some v" if "map_of (config_values c) k = Some v" for k v
    using assms(1) that by simp
  note read = config_value_of[THEN saved, THEN get_u32_stored] config_swipe_of[THEN saved, THEN get_swipe_stored]
    config_text_of(1)[THEN saved, THEN get_endpoint_stored] config_text_of(2)[THEN saved, THEN get_text_stored]
  show ?thesis
    unfolding read_config_def
    by (rule and_then_eq, rule read)+ (simp add: stored_animations_read assms(2) stored_config_def)
qed

text \<open>
  A configuration saved in an up-to-date database is what is loaded afterwards, except that an empty
  endpoint reads as the default one and the magnetic settings, which live on the pad, are not kept.
\<close>

theorem saved_config_is_loaded:
  assumes "at_version 16 s" "writes_allowed s" "length (result_animations c) = 6"
  shows "\<exists>t. save_config c s = Inr t \<and> load_config t = Inr (stored_config c) \<and> at_version 16 t
    \<and> device_table t = device_table s"
proof -
  obtain row where row: "config_table s = Some row" "row_has (columns_at 16) row"
    using assms(1) by (rule config_row) simp
  define row' where "row' = fold (\<lambda>(c, v). put c v) (config_values c) row"
  have names: "fst ` set row = fst ` set (columns_at 16)"
    using arg_cong[OF row_has_names[OF row(2)], of set] by simp
  have "k \<in> fst ` set row" if "(k, v) \<in> set (config_values c)" for k v
    using config_values_shape[OF that] unfolding names by (metis fst_conv image_eqI)
  then have "list_all (\<lambda>(k, v). List.member (map fst row) k) (config_values c)"
    by (auto simp: list_all_iff)
  then have "save_config c s = Inr (s\<lparr>config_table := Some row'\<rparr>)"
    using assms(2) row(1)
    by (simp add: save_config_def guarded_def check_writes_allowed_def update_config_def row'_def)
  moreover have "row_has (columns_at 16) row'"
    unfolding row'_def using row(2) config_values_shape columns_distinct[of 16]
    by (intro row_has_fold_put) auto
  moreover have "read_config row' = Inr (stored_config c)"
    by (rule read_saved[OF _ assms(3)]) (simp add: row'_def map_of_fold_put config_values_distinct)
  ultimately show ?thesis using assms(1) row(1) by (auto simp: load_config_def at_version_def)
qed

theorem saved_config_is_loaded_witness:
  "\<exists>s t. open_storage empty_database = Inr s
    \<and> save_config (default_config\<lparr>brightness := 40, tosu_endpoint := '' '', result_animations := [0, 1, 2, 3, 128, 5]\<rparr>) s = Inr t
    \<and> load_config t = Inr (stored_config (default_config\<lparr>brightness := 40, tosu_endpoint := '' '', result_animations := [0, 1, 2, 3, 128, 5]\<rparr>))"
proof -
  have "case open_storage empty_database of Inr s \<Rightarrow> at_version 16 s \<and> writes_allowed s | Inl e \<Rightarrow> False"
    by code_simp
  then obtain s where s: "open_storage empty_database = Inr s" "at_version 16 s" "writes_allowed s"
    by (auto split: sum.splits)
  with saved_config_is_loaded[OF s(2,3), of "default_config\<lparr>brightness := 40, tosu_endpoint := '' '',
      result_animations := [0, 1, 2, 3, 128, 5]\<rparr>"]
  show ?thesis by auto
qed

lemma saved_pad_is_loaded:
  assumes "save_device_state now info k s = Inr t"
  shows "load_device_state (device_id info) t
      = Inr (Some (k\<lparr>counter_device := device_id info, map_key1 := 0, map_key2 := 0\<rparr>))
    \<and> (\<forall>i. i \<noteq> device_id info \<longrightarrow> load_device_state i t = load_device_state i s)"
proof -
  obtain rows where "device_table s = Some rows"
    using assms by (auto simp: save_device_state_def guarded_def check_writes_allowed_def no_table_def
      split: if_splits option.splits)
  then show ?thesis
    using assms by (auto simp: save_device_state_def guarded_def check_writes_allowed_def load_device_state_def
      map_of_put counters_of_row_def split: if_splits)
qed

text \<open>
  What is saved of a pad's counters is what is loaded, up to the largest \<open>u64\<close>, and no other pad's
  row changes; only the counts of the current map are not kept.
\<close>

theorem pad_state_roundtrip:
  assumes "save_device_state now info k s = Inr t"
  shows "load_device_state (device_id info) t
      = Inr (Some (k\<lparr>counter_device := device_id info, map_key1 := 0, map_key2 := 0\<rparr>))
    \<and> (\<forall>i. i \<noteq> device_id info \<longrightarrow> load_device_state i t = load_device_state i s)"
  using assms by (rule saved_pad_is_loaded)

theorem pad_state_roundtrip_witness:
  "\<exists>t. save_device_state ''2026'' \<lparr>device_id = ''b'', board_profile = [], firmware_version = ''1'', protocol_version = 1,
        running_partition = None, he_input = False, he_calibration = False\<rparr>
      \<lparr>counter_device = [], counter_generation = 2, lifetime_key1 = -1, lifetime_key2 = 5, map_key1 = 9, map_key2 = 9\<rparr>
      old_database = Inr t
    \<and> load_device_state ''b'' t = Inr (Some \<lparr>counter_device = ''b'', counter_generation = 2, lifetime_key1 = -1,
        lifetime_key2 = 5, map_key1 = 0, map_key2 = 0\<rparr>)
    \<and> load_device_state ''pad'' t = load_device_state ''pad'' old_database"
  (is "\<exists>t. save_device_state _ ?i ?k _ = _ \<and> _")
proof -
  obtain t where t: "save_device_state ''2026'' ?i ?k old_database = Inr t"
    by (simp add: save_device_state_def guarded_def check_writes_allowed_def old_database_def)
  with pad_state_roundtrip[OF t] show ?thesis by simp
qed

section \<open>Reconciliation joins the two counter states\<close>

text \<open>One state is behind another when its generation is older, or equal with no key ahead.\<close>

definition counters_behind :: "counter_state \<Rightarrow> counter_state \<Rightarrow> bool" where
  "counters_behind a b \<longleftrightarrow> counter_generation a < counter_generation b
     \<or> counter_generation a = counter_generation b \<and> lifetime_key1 a \<le> lifetime_key1 b
       \<and> lifetime_key2 a \<le> lifetime_key2 b"

lemma behind_reconciled_pc: "counters_behind pc (reconcile_counters pc esp)"
  by (simp add: counters_behind_def reconcile_counters_def)

lemma behind_reconciled_esp: "counters_behind esp (reconcile_counters pc esp)"
  by (auto simp: counters_behind_def reconcile_counters_def)

lemma reconciled_least:
  "counters_behind pc c \<Longrightarrow> counters_behind esp c \<Longrightarrow> counters_behind (reconcile_counters pc esp) c"
  by (auto simp: counters_behind_def reconcile_counters_def)

text \<open>
  C14: Reconciling gives the least state neither side is ahead of: no press of the newest generation is
  lost on either side and none is made up, and the map counts are those of the pad unless the
  database's generation is newer.
\<close>

theorem reconcile_is_join:
  "counters_behind pc (reconcile_counters pc esp) \<and> counters_behind esp (reconcile_counters pc esp)
   \<and> (\<forall>c. counters_behind pc c \<and> counters_behind esp c \<longrightarrow> counters_behind (reconcile_counters pc esp) c)
   \<and> (counter_generation pc \<le> counter_generation esp \<longrightarrow>
        map_key1 (reconcile_counters pc esp) = map_key1 esp \<and> map_key2 (reconcile_counters pc esp) = map_key2 esp)"
  using behind_reconciled_pc behind_reconciled_esp reconciled_least
  by (auto simp: reconcile_counters_def)

theorem reconcile_is_join_witness:
  "map_key1 (reconcile_counters \<lparr>counter_device = ''a'', counter_generation = 2, lifetime_key1 = 500, lifetime_key2 = 800,
       map_key1 = 0, map_key2 = 0\<rparr> \<lparr>counter_device = ''a'', counter_generation = 2, lifetime_key1 = 750,
       lifetime_key2 = 600, map_key1 = 50, map_key2 = 30\<rparr>) = 50"
  (is "map_key1 (reconcile_counters ?p ?e) = _")
  using reconcile_is_join[of ?p ?e] by simp

end
