(* ===== verification/Sync.thy ===== *)
theory Sync
  imports Runtime Storage
begin

text \<open>
  Counter synchronisation: \<open>daemon/src/sync.rs\<close>. A sync runs beside the controller, the IPC
  handlers and other tasks, and holds each lock only for one block; what the others do to the
  shared state between two blocks is a function of the environment, so the facts here hold for
  every interleaving. The answers of the pad and how often it is asked for its status are inputs
  too. The time stamps of one sync are one text. Layouts are written as JSON by serde, a parameter.
\<close>

section \<open>What a sync shares with the daemon\<close>

record shared =
  sh_state :: daemon_state
  sh_storage :: "storage option"
  sh_pending :: pending_operations

datatype pad_message = StatusRequest | CounterSync counter_state bool | PadTimeSync
  | PadConfig device_config | PadLayout screen layout | PadLayoutReset screen | PadClaim "u8 list"
  | PadLatencyReset | PadPinDetect u32 u32 u32 | PadBoardTest | PadAnimation u32 string | PadRestart
  | PadStartCalibration | PadCancelCalibration | PadHeLive | PadData "ui_value list"

text \<open>The outcome of one attempt: it could not be sent, was answered, or was not.\<close>

datatype sync_answer = NotSent string | Answered bool string "counter_state option" | ChannelClosed
  | NoAnswer

record sync_env =
  others :: "nat \<Rightarrow> shared \<Rightarrow> shared"
  status_polls :: nat
  idle_reached :: bool
  answers :: "nat \<Rightarrow> sync_answer"
  sync_now :: string
  layout_json :: "layout \<Rightarrow> string"

definition update_shared_state :: "(daemon_state \<Rightarrow> daemon_state) \<Rightarrow> shared \<Rightarrow> shared" where
  "update_shared_state f w = w\<lparr>sh_state := f (sh_state w)\<rparr>"

text \<open>A write whose failure is only logged.\<close>

definition with_storage :: "(storage \<Rightarrow> storage stored) \<Rightarrow> shared \<Rightarrow> shared" where
  "with_storage f w =
     (case sh_storage w of
        None \<Rightarrow> w
      | Some s \<Rightarrow> (case f s of Inl err \<Rightarrow> w | Inr s' \<Rightarrow> w\<lparr>sh_storage := Some s'\<rparr>))"

section \<open>The reset\<close>

definition saturating_succ :: "u32 \<Rightarrow> u32" where
  "saturating_succ g = (if g = -1 then g else g + 1)"

definition counter_reset :: "string \<Rightarrow> counter_state \<Rightarrow> counter_state \<Rightarrow> counter_state" where
  "counter_reset i reconciled device = \<lparr>counter_device = i,
     counter_generation = max (counter_generation reconciled) (saturating_succ (counter_generation device)),
     lifetime_key1 = 0, lifetime_key2 = 0, map_key1 = 0, map_key2 = 0\<rparr>"

section \<open>Sending the counters\<close>

text \<open>
  The attempts that are left, with the counters to send and the last error: what was sent, the
  counters sent last, and the error, \<open>None\<close> when the pad took them.
\<close>

fun send_counters :: "sync_env \<Rightarrow> device_info \<Rightarrow> bool \<Rightarrow> nat list \<Rightarrow> counter_state \<Rightarrow> string \<Rightarrow> shared
    \<Rightarrow> shared \<times> pad_message list \<times> counter_state \<times> string option" where
  "send_counters e info force [] k err w = (w, [], k, Some err)"
| "send_counters e info force (i # is) k err w =
     (let w = others e (10 + i) w in
      case answers e i of
        NotSent m \<Rightarrow> send_counters e info force is k (''Failed to send CounterSync: '' @ m) w
      | Answered True m now \<Rightarrow> (others e (13 + i) w, [CounterSync k force], k, None)
      | Answered False m now \<Rightarrow>
          (let w = others e (13 + i) w;
               refreshed = (case now of None \<Rightarrow> k | Some d \<Rightarrow> reconcile_counters k d);
               w = (if refreshed \<noteq> k then with_storage (save_device_state (sync_now e) info refreshed) w else w);
               (w, ms, k', r) = send_counters e info force is refreshed m w
           in (w, CounterSync k force # ms, k', r))
      | ChannelClosed \<Rightarrow>
          (let (w, ms, k', r) = send_counters e info force is k ''Event channel closed'' w
           in (w, CounterSync k force # ms, k', r))
      | NoAnswer \<Rightarrow>
          (let (w, ms, k', r) = send_counters e info force is k ''Timeout waiting for CounterSyncResponse (2s)'' w
           in (w, CounterSync k force # ms, k', r)))"

section \<open>After the pad took them\<close>

definition screen_wire :: "screen \<Rightarrow> u8" where
  "screen_wire scr = (case enum_to_wire ALL_SCREENS scr of Some w \<Rightarrow> w | None \<Rightarrow> 0)"

fun drain_layouts :: "sync_env \<Rightarrow> nat \<Rightarrow> (screen \<times> layout option) list \<Rightarrow> shared \<Rightarrow> shared \<times> pad_message list" where
  "drain_layouts e n [] w = (w, [])"
| "drain_layouts e n ((scr, l) # ls) w =
     (let w = others e n w;
          w = with_storage (case l of Some l \<Rightarrow> save_layout (screen_wire scr) (layout_json e l)
            | None \<Rightarrow> delete_layout (screen_wire scr)) w;
          (w, ms) = drain_layouts e (Suc n) ls w
      in (w, (case l of Some l \<Rightarrow> PadLayout scr l | None \<Rightarrow> PadLayoutReset scr) # ms))"

definition drain_config :: "sync_env \<Rightarrow> device_config option \<Rightarrow> shared \<Rightarrow> shared \<times> pad_message list" where
  "drain_config e cfg w =
     (case cfg of
        None \<Rightarrow> (w, [])
      | Some c \<Rightarrow>
          (let w = with_storage (save_config c) w; w = others e 8 w
           in (update_shared_state (\<lambda>s. s\<lparr>config := c\<rparr>) w, [PadConfig c])))"

text \<open>Only the reset this sync delivered is taken off: one queued meanwhile stays.\<close>

definition take_pending :: "pending_counter_reset option \<Rightarrow> pending_operations \<Rightarrow> pending_operations" where
  "take_pending delivered p = p\<lparr>pending_config := None, pending_layouts := [], pending_last_seen := None,
     pending_device_push := (if delivered \<noteq> None \<and> pending_device_push p = delivered then None
       else pending_device_push p)\<rparr>"

definition finish_sync :: "sync_env \<Rightarrow> device_info \<Rightarrow> pending_counter_reset option \<Rightarrow> counter_state \<Rightarrow> shared
    \<Rightarrow> shared \<times> pad_message list" where
  "finish_sync e info delivered k w =
     (let w = others e 5 w;
          w = with_storage (save_device_state (sync_now e) info k) w;
          w = with_storage (touch_device_last_seen (sync_now e) (device_id info)) w;
          w = others e 6 w;
          p = sh_pending w;
          w = w\<lparr>sh_pending := take_pending delivered p\<rparr>;
          w = others e 7 w;
          (w, ms1) = drain_config e (pending_config p) w;
          (w, ms2) = drain_layouts e 20 (pending_layouts p) w;
          w = others e 9 w;
          w = (case pending_last_seen p of Some i \<Rightarrow> with_storage (touch_device_last_seen (sync_now e) i) w | None \<Rightarrow> w);
          w = update_shared_state (\<lambda>s. s\<lparr>counters := k, pc_counters := Some k, esp_counters := Some k,
                last_sync_time := Some (sync_now e), last_sync_error := None\<rparr>) w
      in (w, PadTimeSync # ms1 @ ms2))"

section \<open>One sync\<close>

definition stored_counters :: "device_info \<Rightarrow> counter_state \<Rightarrow> shared \<Rightarrow> counter_state" where
  "stored_counters info held w =
     (case Option.bind (sh_storage w) (\<lambda>s. case load_device_state (device_id info) s of Inr k \<Rightarrow> k | Inl err \<Rightarrow> None) of
        Some k \<Rightarrow> k
      | None \<Rightarrow> \<lparr>counter_device = device_id info, counter_generation = counter_generation held,
          lifetime_key1 = 0, lifetime_key2 = 0, map_key1 = 0, map_key2 = 0\<rparr>)"

definition conclude_sync :: "sync_env \<Rightarrow> device_info \<Rightarrow> pending_counter_reset option
    \<Rightarrow> shared \<times> pad_message list \<times> counter_state \<times> string option
    \<Rightarrow> shared \<times> pad_message list \<times> (string, counter_state) result" where
  "conclude_sync e info delivered sent = (case sent of
     (w, ms, k, Some err) \<Rightarrow>
       (update_shared_state (\<lambda>s. s\<lparr>last_sync_error := Some (''Counter sync failed: '' @ err)\<rparr>) (others e 4 w),
        ms, Inl err)
   | (w, ms, k, None) \<Rightarrow> (let (w, ms') = finish_sync e info delivered k w in (w, ms @ ms', Inr k)))"

text \<open>A reset made while the pad was away wins over whatever the pad reported.\<close>

definition reset_for :: "device_info \<Rightarrow> shared \<Rightarrow> pending_counter_reset option" where
  "reset_for info w = Option.bind (pending_device_push (sh_pending w))
     (\<lambda>r. if applies_to r (device_id info) then Some r else None)"

definition counters_to_send :: "device_info \<Rightarrow> pending_counter_reset option \<Rightarrow> counter_state \<Rightarrow> counter_state
    \<Rightarrow> counter_state" where
  "counters_to_send info reset stored held =
     (let reconciled = reconcile_counters stored held in
      if reset \<noteq> None then counter_reset (device_id info) reconciled held else reconciled)"

definition sync_counters :: "sync_env \<Rightarrow> device_info \<Rightarrow> counter_state \<Rightarrow> shared
    \<Rightarrow> shared \<times> pad_message list \<times> (string, counter_state) result" where
  "sync_counters e info held w =
     (let stored = stored_counters info held w;
          w = others e 2 w;
          reset = reset_for info w;
          k = counters_to_send info reset stored held;
          w = others e 3 w;
          w = with_storage (save_device_state (sync_now e) info k) w
      in conclude_sync e info reset (send_counters e info (reset \<noteq> None) [0, 1, 2] k [] w))"

definition NO_STORAGE :: string where "NO_STORAGE = ''Sync skipped: persistent storage unavailable''"
definition NOT_IDLE :: string where "NOT_IDLE = ''Device not in IDLE state within 3s timeout''"

definition perform_sync :: "sync_env \<Rightarrow> shared \<Rightarrow> shared \<times> pad_message list \<times> (string, counter_state) result" where
  "perform_sync e w =
     (if sh_storage w = None
      then (update_shared_state (\<lambda>s. s\<lparr>last_sync_error := Some NO_STORAGE\<rparr>) (others e 0 w), [], Inl NO_STORAGE)
      else let w = others e 0 w; st = sh_state w in
        case pad_guard st of
          Some reason \<Rightarrow> (w, [], Inl reason)
        | None \<Rightarrow>
            (case the_device st of
               None \<Rightarrow> (w, [], Inr (counters st))
             | Some info \<Rightarrow>
                 if \<not> device_connected st then (w, [], Inr (counters st))
                 else let polls = replicate (status_polls e) StatusRequest; w = others e 1 w in
                   if \<not> idle_reached e
                   then (update_shared_state (\<lambda>s. s\<lparr>last_sync_error := Some NOT_IDLE\<rparr>) w, polls, Inl NOT_IDLE)
                   else let (w, ms, r) = sync_counters e info (counters st) w in (w, polls @ ms, r)))"

section \<open>What is sent\<close>

lemma behind_refl [simp]: "counters_behind k k"
  by (simp add: counters_behind_def)

lemma behind_trans: "counters_behind a b \<Longrightarrow> counters_behind b c \<Longrightarrow> counters_behind a c"
  by (auto simp: counters_behind_def)

definition sent_ok :: "bool \<Rightarrow> counter_state \<Rightarrow> shared \<times> pad_message list \<times> counter_state \<times> string option \<Rightarrow> bool" where
  "sent_ok force k x = (case x of (w, ms, k', r) \<Rightarrow>
     (\<forall>m \<in> set ms. \<exists>c. m = CounterSync c force \<and> counters_behind k c) \<and> counters_behind k k'
     \<and> (r = None \<longrightarrow> CounterSync k' force \<in> set ms))"

lemma sent_ok_more:
  "sent_ok force k2 x \<Longrightarrow> counters_behind k k2 \<Longrightarrow>
   sent_ok force k (let (w, ms, k', r) = x in (w, CounterSync k force # ms, k', r))"
  by (cases x) (fastforce simp: sent_ok_def intro: behind_trans)

lemma send_counters_ok: "sent_ok force k (send_counters e info force is k err w)"
proof (induction "is" arbitrary: k err w)
  case (Cons i "is")
  show ?case
  proof (cases "answers e i")
    case (Answered ok m now)
    have "counters_behind k (case now of None \<Rightarrow> k | Some d \<Rightarrow> reconcile_counters k d)"
      by (simp add: behind_reconciled_pc split: option.split)
    then show ?thesis
      using Answered sent_ok_more[OF Cons.IH] by (cases ok) (simp_all add: Let_def sent_ok_def[of _ _ "(_, _)"])
  qed (use Cons.IH sent_ok_more[OF Cons.IH] in \<open>simp_all add: Let_def\<close>)
qed (simp add: sent_ok_def)

lemmas sent = send_counters_ok [unfolded sent_ok_def]

fun counter_message :: "pad_message \<Rightarrow> bool" where
  "counter_message (CounterSync k f) = True"
| "counter_message _ = False"

lemma drained_messages:
  "list_all (\<lambda>m. \<not> counter_message m) (snd (drain_config e cfg w))"
  "list_all (\<lambda>m. \<not> counter_message m) (snd (drain_layouts e n ls w))"
  by (simp add: drain_config_def Let_def split: option.split)
    (induction e n ls w rule: drain_layouts.induct, auto simp: Let_def split_beta split: option.split)

lemma finish_messages: "list_all (\<lambda>m. \<not> counter_message m) (snd (finish_sync e info d k w))"
  using drained_messages by (simp add: finish_sync_def Let_def split_beta)

text \<open>The state a sync starts from, and the one in which it reads the database.\<close>

definition snapshot_of :: "sync_env \<Rightarrow> shared \<Rightarrow> daemon_state" where
  "snapshot_of e w = sh_state (others e 0 w)"

definition row_of :: "sync_env \<Rightarrow> device_info \<Rightarrow> shared \<Rightarrow> counter_state" where
  "row_of e info w = stored_counters info (counters (snapshot_of e w)) (others e 1 (others e 0 w))"

definition outranks :: "counter_state \<Rightarrow> counter_state \<Rightarrow> bool" where
  "outranks c k \<longleftrightarrow> counter_generation k < counter_generation c \<or> counter_generation k = -1"

definition sent_rightly :: "sync_env \<Rightarrow> shared \<Rightarrow> pad_message \<Rightarrow> bool" where
  "sent_rightly e w m =
     (case (m, the_device (snapshot_of e w)) of
        (CounterSync c False, Some info) \<Rightarrow>
          counters_behind (counters (snapshot_of e w)) c \<and> counters_behind (row_of e info w) c
      | (CounterSync c True, Some info) \<Rightarrow> outranks c (counters (snapshot_of e w))
      | (CounterSync c f, None) \<Rightarrow> False
      | _ \<Rightarrow> True)"

lemma reset_outranks: "counters_behind (counter_reset i r d) c \<Longrightarrow> outranks c d"
proof -
  assume "counters_behind (counter_reset i r d) c"
  then have "counter_generation (counter_reset i r d) \<le> counter_generation c"
    unfolding counters_behind_def by force
  moreover have "saturating_succ (counter_generation d) \<le> counter_generation (counter_reset i r d)"
    by (simp add: counter_reset_def)
  ultimately have "saturating_succ (counter_generation d) \<le> counter_generation c" by (rule order_trans[rotated])
  moreover have "g \<noteq> -1 \<Longrightarrow> g < g + 1" for g :: u32
    using unatSuc[of g] by (simp add: word_less_nat_alt eq_neg_iff_add_eq_0 add.commute)
  ultimately show ?thesis by (force simp: outranks_def saturating_succ_def split: if_splits)
qed

lemma sync_counters_sent:
  assumes "the_device (snapshot_of e w) = Some info"
  shows "list_all (sent_rightly e w)
    (fst (snd (sync_counters e info (counters (snapshot_of e w)) (others e 1 (others e 0 w)))))"
proof -
  let ?held = "counters (snapshot_of e w)" let ?w = "others e 1 (others e 0 w)"
  let ?k = "\<lambda>reset. counters_to_send info reset (row_of e info w) ?held"
  have "\<not> counter_message m \<Longrightarrow> sent_rightly e w m" for m
    by (cases m) (simp_all add: sent_rightly_def)
  then have rest: "list_all (sent_rightly e w) (snd (finish_sync e info d k v))" for d k v
    using finish_messages[of e info d k v] by (auto simp: list_all_iff)
  have right: "sent_rightly e w (CounterSync c (reset \<noteq> None))" if "counters_behind (?k reset) c" for c reset
    using that assms behind_reconciled_pc[of "row_of e info w" ?held]
      behind_reconciled_esp[of ?held "row_of e info w"] behind_trans reset_outranks
    by (cases reset) (auto simp: sent_rightly_def counters_to_send_def Let_def split: bool.split)
  then have sends: "list_all (sent_rightly e w) (fst (snd (send_counters e info (reset \<noteq> None) is (?k reset) err v)))"
    for reset "is" err v
    using send_counters_ok[of "reset \<noteq> None" "?k reset" e info "is" err v]
    by (auto simp: sent_ok_def list_all_iff split: prod.splits)
  have "list_all (sent_rightly e w) (fst (snd x)) \<Longrightarrow>
      list_all (sent_rightly e w) (fst (snd (conclude_sync e info d x)))" for x d
    using rest by (simp add: conclude_sync_def split_beta split: option.split)
  then show ?thesis
    unfolding sync_counters_def Let_def row_of_def[symmetric] using sends by presburger
qed


section \<open>A failed sync\<close>

text \<open>The other tasks leave the shared state and the pending operations alone.\<close>

definition quiet_others :: "sync_env \<Rightarrow> bool" where
  "quiet_others e \<longleftrightarrow> (\<forall>n w. sh_state (others e n w) = sh_state w \<and> sh_pending (others e n w) = sh_pending w)"

lemma with_storage_fields [simp]:
  "sh_state (with_storage f w) = sh_state w" "sh_pending (with_storage f w) = sh_pending w"
  by (simp_all add: with_storage_def split: option.split sum.split)

lemma update_shared_fields [simp]:
  "sh_state (update_shared_state f w) = f (sh_state w)" "sh_pending (update_shared_state f w) = sh_pending w"
  "sh_storage (update_shared_state f w) = sh_storage w"
  by (simp_all add: update_shared_state_def)

lemma send_counters_quiet:
  assumes "quiet_others e"
  shows "sh_state (fst (send_counters e info force is k err w)) = sh_state w
    \<and> sh_pending (fst (send_counters e info force is k err w)) = sh_pending w"
proof (induction "is" arbitrary: k err w)
  case (Cons i "is")
  show ?case
  proof (cases "answers e i")
    case (Answered ok m now)
    then show ?thesis
      using assms Cons.IH by (cases ok) (simp_all add: quiet_others_def Let_def split_beta)
  qed (use assms Cons.IH in \<open>simp_all add: quiet_others_def Let_def split_beta\<close>)
qed simp

definition only_error_moved :: "shared \<Rightarrow> shared \<Rightarrow> bool" where
  "only_error_moved w v \<longleftrightarrow>
     (\<exists>shown. sh_state v = (sh_state w)\<lparr>last_sync_error := shown\<rparr>) \<and> sh_pending v = sh_pending w"

lemma only_error_same: "sh_state v = sh_state w \<Longrightarrow> sh_pending v = sh_pending w \<Longrightarrow> only_error_moved w v"
  unfolding only_error_moved_def by (intro conjI exI[of _ "last_sync_error (sh_state w)"]) auto

lemma only_error_shown:
  "only_error_moved w (update_shared_state (\<lambda>s. s\<lparr>last_sync_error := m\<rparr>) v)"
  if "sh_state v = sh_state w" "sh_pending v = sh_pending w"
  using that by (auto simp: only_error_moved_def)

lemma conclude_failed:
  assumes "quiet_others e" "sh_state v = sh_state w" "sh_pending v = sh_pending w"
  shows "case conclude_sync e info d (send_counters e info f is k m v) of
      (v', ms, Inl err) \<Rightarrow> only_error_moved w v' | _ \<Rightarrow> True"
proof -
  obtain v1 ms1 k1 r1 where sent: "send_counters e info f is k m v = (v1, ms1, k1, r1)"
    by (metis surj_pair)
  then have "sh_state v1 = sh_state w" "sh_pending v1 = sh_pending w"
    using send_counters_quiet[OF assms(1), of info f "is" k m v] assms(2,3) by simp_all
  then show ?thesis
    using assms(1) by (simp add: conclude_sync_def sent quiet_others_def only_error_shown split_beta split: option.split)
qed

lemma sync_counters_failed:
  assumes "quiet_others e" "sh_state v = sh_state w" "sh_pending v = sh_pending w"
  shows "case sync_counters e info held v of (v', ms, Inl err) \<Rightarrow> only_error_moved w v' | _ \<Rightarrow> True"
  unfolding sync_counters_def Let_def
  by (rule conclude_failed) (use assms in \<open>simp_all add: quiet_others_def\<close>)

text \<open>
  A sync that fails while nothing else runs changes nothing the daemon holds but the error it shows:
  the counters stay those the pad reported, and no pending operation is lost.
\<close>

theorem failed_sync_keeps_state:
  assumes "quiet_others e" "perform_sync e w = (w', ms, Inl err)"
  shows "(\<exists>shown. sh_state w' = (sh_state w)\<lparr>last_sync_error := shown\<rparr>) \<and> sh_pending w' = sh_pending w"
proof -
  have q: "sh_state (others e n v) = sh_state v" "sh_pending (others e n v) = sh_pending v" for n v
    using assms(1) by (simp_all add: quiet_others_def)
  have counters: "snd (snd (sync_counters e info held (others e 1 (others e 0 w)))) = Inl err \<Longrightarrow>
      only_error_moved w (fst (sync_counters e info held (others e 1 (others e 0 w))))" for info held err
    using sync_counters_failed[OF assms(1), of "others e 1 (others e 0 w)" w info held] q
    by (simp add: split_beta)
  have "case perform_sync e w of (v', ms, Inl err) \<Rightarrow> only_error_moved w v' | _ \<Rightarrow> True"
    using counters by (auto simp: perform_sync_def Let_def q only_error_same only_error_shown split_beta
      split: option.split sum.splits)
  then show ?thesis using assms(2) by (simp add: only_error_moved_def)
qed

text \<open>A pad with more presses than the database, and one that never answers.\<close>

definition sync_info :: device_info where
  "sync_info = \<lparr>device_id = ''pad'', board_profile = BOARD_PROFILE, firmware_version = ''1.0.0'',
     protocol_version = 1, running_partition = None, he_input = False, he_calibration = False\<rparr>"

definition sync_shared :: shared where
  "sync_shared = \<lparr>sh_state = (new_state default_config (Some sync_info) \<lparr>counter_device = ''pad'',
       counter_generation = 1, lifetime_key1 = 100, lifetime_key2 = 9, map_key1 = 0, map_key2 = 0\<rparr> [] None)
       \<lparr>device_connected := True\<rparr>,
     sh_storage = Some old_database, sh_pending = no_pending\<rparr>"

definition sync_with :: "sync_answer \<Rightarrow> sync_env" where
  "sync_with a = \<lparr>others = (\<lambda>n w. w), status_polls = 1, idle_reached = True, answers = (\<lambda>n. a),
     sync_now = ''2026'', layout_json = (\<lambda>l. [])\<rparr>"

theorem failed_sync_keeps_state_witness:
  "\<exists>w' ms err. perform_sync (sync_with NoAnswer) sync_shared = (w', ms, Inl err) \<and> sh_pending w' = no_pending"
proof -
  have "\<not> is_ok (snd (snd (perform_sync (sync_with NoAnswer) sync_shared)))" by code_simp
  then obtain w' ms err where run: "perform_sync (sync_with NoAnswer) sync_shared = (w', ms, Inl err)"
    by (cases "perform_sync (sync_with NoAnswer) sync_shared") (auto simp: is_ok_def split: sum.splits)
  have "quiet_others (sync_with NoAnswer)" by (simp add: quiet_others_def sync_with_def)
  from failed_sync_keeps_state[OF this run] run show ?thesis by (simp add: sync_shared_def)
qed

section \<open>A sync that succeeds\<close>

text \<open>What a later sync or start reads of a pad's row.\<close>

definition row_holds :: "string \<Rightarrow> counter_state \<Rightarrow> shared \<Rightarrow> bool" where
  "row_holds i k w = (case sh_storage w of
     None \<Rightarrow> False
   | Some s \<Rightarrow> writes_allowed s \<and> load_device_state i s = Inr (Some (k\<lparr>counter_device := i, map_key1 := 0, map_key2 := 0\<rparr>)))"

lemma guarded_ok: "guarded f s = Inr t \<Longrightarrow> f s = Inr t"
  by (simp add: guarded_def check_writes_allowed_def split: if_splits)

lemma pads_kept:
  "touch_device_last_seen now j s = Inr t \<Longrightarrow> load_device_state i t = load_device_state i s \<and> writes_allowed t = writes_allowed s"
  "save_config c s = Inr t \<Longrightarrow> load_device_state i t = load_device_state i s \<and> writes_allowed t = writes_allowed s"
  "save_layout scr l s = Inr t \<Longrightarrow> load_device_state i t = load_device_state i s \<and> writes_allowed t = writes_allowed s"
  "delete_layout scr s = Inr t \<Longrightarrow> load_device_state i t = load_device_state i s \<and> writes_allowed t = writes_allowed s"
proof -
  have "map_option (counters_of_row i) (map_of (map (\<lambda>(k, r). if k = j then (k, r\<lparr>row_last_seen_at := now\<rparr>) else (k, r)) rows) i)
      = map_option (counters_of_row i) (map_of rows i)" for rows
    by (cases "i = j"; induction rows) (auto simp: counters_of_row_def)
  then show "touch_device_last_seen now j s = Inr t \<Longrightarrow> load_device_state i t = load_device_state i s \<and> writes_allowed t = writes_allowed s"
    by (auto simp: touch_device_last_seen_def load_device_state_def no_table_def
      split: option.splits dest!: guarded_ok)
qed (auto simp: save_config_def save_layout_def delete_layout_def update_config_def load_device_state_def no_table_def
  split: option.splits if_splits dest!: guarded_ok)

lemma row_holds_with:
  assumes "row_holds i k w"
    "\<And>s t. f s = Inr t \<Longrightarrow> load_device_state i t = load_device_state i s \<and> writes_allowed t = writes_allowed s"
  shows "row_holds i k (with_storage f w)"
  using assms by (auto simp: row_holds_def with_storage_def split: option.splits sum.splits)

lemma row_holds_updates [simp]:
  "row_holds i k (update_shared_state f w) = row_holds i k w" "row_holds i k (w\<lparr>sh_pending := p\<rparr>) = row_holds i k w"
  by (simp_all add: row_holds_def)

definition writable :: "shared \<Rightarrow> bool" where
  "writable w = (case sh_storage w of None \<Rightarrow> False | Some s \<Rightarrow> writes_allowed s \<and> device_table s \<noteq> None)"

definition storage_left_alone :: "sync_env \<Rightarrow> bool" where
  "storage_left_alone e \<longleftrightarrow> (\<forall>n w. sh_storage (others e n w) = sh_storage w)"

lemma save_writable:
  assumes "writable w"
  shows "writable (with_storage (save_device_state now info k) w)"
    "row_holds (device_id info) k (with_storage (save_device_state now info k) w)"
proof -
  obtain s where s: "sh_storage w = Some s" "writes_allowed s" "device_table s \<noteq> None"
    using assms by (auto simp: writable_def split: option.splits)
  then obtain t where t: "save_device_state now info k s = Inr t" "writes_allowed t" "device_table t \<noteq> None"
    by (auto simp: save_device_state_def guarded_def check_writes_allowed_def)
  then show "writable (with_storage (save_device_state now info k) w)"
    by (simp add: with_storage_def s(1) writable_def)
  show "row_holds (device_id info) k (with_storage (save_device_state now info k) w)"
    using saved_pad_is_loaded[OF t(1)] t(1,2) by (simp add: with_storage_def s(1) row_holds_def)
qed

lemma others_keep:
  assumes "storage_left_alone e"
  shows "writable (others e n w) = writable w" "row_holds i k (others e n w) = row_holds i k w"
  using assms by (simp_all add: storage_left_alone_def writable_def row_holds_def)

lemma send_writable:
  assumes "storage_left_alone e" "writable w"
  shows "writable (fst (send_counters e info f is k err w))"
  using assms(2)
proof (induction "is" arbitrary: k err w)
  case (Cons i "is")
  note keep = others_keep(1)[OF assms(1)] save_writable(1)
  show ?case
  proof (cases "answers e i")
    case (Answered ok m now)
    then show ?thesis using Cons keep by (cases ok) (simp_all add: Let_def split_beta)
  qed (use Cons keep in \<open>simp_all add: Let_def split_beta\<close>)
qed simp

lemma drained_row:
  assumes "storage_left_alone e" "row_holds i k w"
  shows "row_holds i k (fst (drain_config e cfg w))" "row_holds i k (fst (drain_layouts e n ls w))"
proof -
  note keep = others_keep(2)[OF assms(1)] row_holds_with
  show "row_holds i k (fst (drain_config e cfg w))"
    using assms(2) by (auto simp: drain_config_def Let_def keep(1) intro!: keep(2) dest: pads_kept split: option.split)
  show "row_holds i k (fst (drain_layouts e n ls w))"
    using assms(2)
  proof (induction ls arbitrary: n w)
    case (Cons x ls)
    obtain scr l where x: "x = (scr, l)" by force
    have "row_holds i k (with_storage (case l of Some l \<Rightarrow> save_layout (screen_wire scr) (layout_json e l)
        | None \<Rightarrow> delete_layout (screen_wire scr)) (others e n w))"
      using Cons.prems by (intro keep(2)) (auto simp: keep(1) dest: pads_kept split: option.splits)
    from Cons.IH[OF this] show ?case by (simp add: x Let_def split_beta)
  qed simp
qed

lemma finish_row:
  assumes "storage_left_alone e" "writable w"
  shows "row_holds (device_id info) k (fst (finish_sync e info d k w))"
proof -
  note keep = others_keep(2)[OF assms(1)] row_holds_with
  have "row_holds (device_id info) k (with_storage (save_device_state (sync_now e) info k) (others e 5 w))"
    using assms by (intro save_writable) (simp add: others_keep)
  then have "row_holds (device_id info) k (with_storage (touch_device_last_seen (sync_now e) (device_id info))
      (with_storage (save_device_state (sync_now e) info k) (others e 5 w)))"
    by (rule row_holds_with) (rule pads_kept)
  then show ?thesis
    by (auto simp: finish_sync_def Let_def split_beta keep(1) drained_row[OF assms(1)] intro!: keep(2)
      dest: pads_kept split: option.split)
qed



end
