(* ===== verification/Backups.thy ===== *)
theory Backups
  imports Sync "HOL-Library.List_Lexorder" "HOL-Library.Char_ord"
begin

text \<open>
  Automatic backups of the counters: \<open>daemon/src/backup.rs\<close>. The directory is a list of its entries
  with whether each is a file; names are compared byte by byte. How chrono writes and reads a time
  in a file name and in RFC 3339 are parameters, as is which files can be removed.
\<close>

section \<open>What is backed up\<close>

definition unknown_pad :: "string \<Rightarrow> device_info" where
  "unknown_pad i = \<lparr>device_id = i, board_profile = BOARD_PROFILE, firmware_version = [],
     protocol_version = 1, running_partition = None, he_input = False, he_calibration = False\<rparr>"

definition recorded_pad :: "string \<Rightarrow> storage option \<Rightarrow> device_info option" where
  "recorded_pad i st =
     Option.bind st (\<lambda>s. case list_device_states s of
         Inl err \<Rightarrow> None
       | Inr l \<Rightarrow> find (\<lambda>d. device_id d = i) (map fst l))"

definition current_backup :: "int \<Rightarrow> daemon_state \<Rightarrow> storage option \<Rightarrow> json_backup option" where
  "current_backup now st db =
     (if \<not> device_connected st \<and> the_device st = None \<and> counter_device (counters st) = [] then None
      else let info = (case the_device st of
               Some i \<Rightarrow> i
             | None \<Rightarrow> (case recorded_pad (counter_device (counters st)) db of
                   Some i \<Rightarrow> i
                 | None \<Rightarrow> unknown_pad (counter_device (counters st))))
           in Some (new_backup now info (counters st) (config st)))"

section \<open>The directory\<close>

definition KEEP :: nat where "KEEP = 10"
definition PREFIX :: string where "PREFIX = ''osupad-backup-''"
definition SUFFIX :: string where "SUFFIX = ''.json''"

type_synonym directory = "(string \<times> bool) list"

definition is_ours :: "string \<Rightarrow> bool" where
  "is_ours name \<longleftrightarrow> take (length PREFIX) name = PREFIX \<and> drop (length name - length SUFFIX) name = SUFFIX"

definition file_name_for :: "(int \<Rightarrow> string) \<Rightarrow> int \<Rightarrow> string" where
  "file_name_for format_time tm = PREFIX @ format_time tm @ SUFFIX"

definition strip_suffix :: "string \<Rightarrow> string \<Rightarrow> string option" where
  "strip_suffix suffix name =
     (if drop (length name - length suffix) name = suffix then Some (take (length name - length suffix) name)
      else None)"

definition parse_stamp :: "(string \<Rightarrow> int option) \<Rightarrow> string \<Rightarrow> int option" where
  "parse_stamp parse_time name =
     (if take (length PREFIX) name = PREFIX
      then Option.bind (strip_suffix SUFFIX (drop (length PREFIX) name)) parse_time else None)"

definition our_names :: "directory \<Rightarrow> string list" where
  "our_names dir = sort (map fst (filter (\<lambda>(name, plain_file). plain_file \<and> is_ours name) dir))"

text \<open>A directory that cannot be listed is left as it is.\<close>

definition prune :: "(string \<Rightarrow> bool) \<Rightarrow> nat \<Rightarrow> directory option \<Rightarrow> directory option" where
  "prune removable keep dir =
     map_option (\<lambda>d. let ours = our_names d; doomed = take (length ours - keep) ours in
       filter (\<lambda>(name, plain_file). \<not> (name \<in> set doomed \<and> removable name)) d) dir"

definition newest :: "(string \<Rightarrow> int option) \<Rightarrow> directory option \<Rightarrow> int option" where
  "newest parse_time dir = Option.bind dir (\<lambda>d. let names = our_names d in
     if names = [] then None else parse_stamp parse_time (last names))"

text \<open>Writing one: the file appears whole or not at all, then the directory is pruned.\<close>

definition write_backup :: "(int \<Rightarrow> string) \<Rightarrow> (string \<Rightarrow> bool) \<Rightarrow> bool \<Rightarrow> json_backup \<Rightarrow> directory option
    \<Rightarrow> directory option \<times> int option" where
  "write_backup format_time removable written b dir =
     (if written
      then (prune removable KEEP (map_option (\<lambda>d. let name = file_name_for format_time (exported_at b) in
              filter (\<lambda>(n, plain_file). n \<noteq> name) d @ [(name, True)]) dir), Some (exported_at b))
      else (dir, None))"

section \<open>Pruning\<close>

lemma sorted_our_names: "sorted (our_names d)" "distinct (map fst d) \<Longrightarrow> distinct (our_names d)"
  by (simp_all add: our_names_def distinct_map inj_on_def)

lemma our_names_filter:
  "our_names (filter (\<lambda>(name, plain_file). P name) d) = filter P (our_names d)"
proof -
  have "filter (\<lambda>(name, plain_file). plain_file \<and> is_ours name) (filter (\<lambda>(name, plain_file). P name) d)
      = filter (\<lambda>x. P (fst x)) (filter (\<lambda>(name, plain_file). plain_file \<and> is_ours name) d)"
    by (induction d) auto
  then show ?thesis by (simp add: our_names_def filter_sort filter_map o_def)
qed

lemma filter_not_taken:
  "distinct xs \<Longrightarrow> filter (\<lambda>x. x \<notin> set (take n xs)) xs = drop n xs"
proof (induction xs arbitrary: n)
  case (Cons x xs)
  show ?case
  proof (cases n)
    case (Suc m)
    have "filter (\<lambda>y. y \<notin> set (take n (x # xs))) xs = filter (\<lambda>y. y \<notin> set (take m xs)) xs"
      using Cons.prems Suc by (intro filter_cong) auto
    then show ?thesis using Cons Suc by simp
  qed simp
qed simp

text \<open>
  Pruning only ever removes the oldest of the files the daemon wrote: every other entry stays, the
  newest backups stay, and when the old ones can be removed at most ten are left, the ten newest.
\<close>

theorem prune_keeps_newest:
  assumes "distinct (map fst d)"
  shows "\<exists>d'. prune removable KEEP (Some d) = Some d'
    \<and> filter (\<lambda>(name, plain_file). \<not> (plain_file \<and> is_ours name)) d' = filter (\<lambda>(name, plain_file). \<not> (plain_file \<and> is_ours name)) d
    \<and> set (drop (length (our_names d) - KEEP) (our_names d)) \<subseteq> set (our_names d')
    \<and> newest parse_time (Some d') = newest parse_time (Some d)
    \<and> our_names (the (prune (\<lambda>name. True) KEEP (Some d))) = drop (length (our_names d) - KEEP) (our_names d)"
proof -
  define ours where "ours = our_names d"
  define doomed where "doomed = take (length ours - KEEP) ours"
  define d' where "d' = filter (\<lambda>(name, plain_file). \<not> (name \<in> set doomed \<and> removable name)) d"
  have dist: "distinct ours" unfolding ours_def using assms by (rule sorted_our_names)
  have names: "our_names d' = filter (\<lambda>name. \<not> (name \<in> set doomed \<and> removable name)) ours"
    unfolding d'_def ours_def by (rule our_names_filter)
  have late: "set (drop (length ours - KEEP) ours) \<inter> set doomed = {}"
    unfolding doomed_def using dist by (metis append_take_drop_id distinct_append inf_commute)
  have "prune removable KEEP (Some d) = Some d'"
    by (simp add: prune_def d'_def doomed_def ours_def Let_def)
  moreover have "filter (\<lambda>(name, plain_file). \<not> (plain_file \<and> is_ours name)) d' = filter (\<lambda>(name, plain_file). \<not> (plain_file \<and> is_ours name)) d"
  proof -
    have "name \<in> set doomed \<Longrightarrow> (name, True) \<in> set d \<and> is_ours name" for name
      unfolding doomed_def ours_def our_names_def by (auto dest!: in_set_takeD)
    then have "(name, plain_file) \<in> set d \<Longrightarrow> name \<in> set doomed \<Longrightarrow> plain_file \<and> is_ours name" for name plain_file
      using assms by (metis eq_key_imp_eq_value)
    then show ?thesis unfolding d'_def filter_filter by (intro filter_cong) auto
  qed
  moreover have "set (drop (length ours - KEEP) ours) \<subseteq> set (our_names d')"
    using late unfolding names by (auto dest: in_set_dropD)
  moreover have "newest parse_time (Some d') = newest parse_time (Some d)"
  proof (cases "ours = []")
    case False
    then have "length ours - KEEP < length ours" by (simp add: KEEP_def)
    then have "last ours \<in> set (drop (length ours - KEEP) ours)"
      using last_in_set[of "drop (length ours - KEEP) ours"] by simp
    then have "last ours \<notin> set doomed" using late by auto
    then have "our_names d' \<noteq> [] \<and> last (our_names d') = last ours"
      unfolding names using False by (cases ours rule: rev_cases) auto
    then show ?thesis using False by (simp add: newest_def ours_def)
  qed (simp add: newest_def names flip: ours_def)
  moreover have "our_names (the (prune (\<lambda>name. True) KEEP (Some d))) = drop (length ours - KEEP) ours"
    by (simp add: prune_def Let_def our_names_filter filter_not_taken[OF dist, unfolded ours_def] ours_def)
  ultimately show ?thesis unfolding ours_def by blast
qed

definition demo_dir :: directory where
  "demo_dir = (''notes.txt'', True) # (''osupad-backup-export.json'', False)
     # map (\<lambda>n. (''osupad-backup-2026010'' @ dec_digits n @ ''.json'', True)) [0..<10]
     @ [(''osupad-backup-20251231.json'', True)]"

theorem prune_keeps_newest_witness:
  "our_names (the (prune (\<lambda>name. True) KEEP (Some demo_dir))) = drop 1 (our_names demo_dir)"
proof -
  have "distinct (map fst demo_dir)" by code_simp
  moreover have "length (our_names demo_dir) = 11" by code_simp
  ultimately show ?thesis using prune_keeps_newest[of demo_dir "\<lambda>name. True" "\<lambda>t. None"] by (auto simp: KEEP_def)
qed

end
