(* ===== verification/Ports.thy ===== *)
theory Ports
  imports Framing
begin

text \<open>
  Finding the pad among the serial ports: the discovery of \<open>crates/opad-device/src/lib.rs\<close> and the
  choice of the bootloader's port after a reboot. What the system lists is an argument; a port is
  its name with its USB descriptor.
\<close>

section \<open>Classes of ports\<close>

type_synonym u16 = "16 word"

definition ESPRESSIF_VID :: u16 where "ESPRESSIF_VID = 0x303A"
definition PIDCODES_VID :: u16 where "PIDCODES_VID = 0x1209"
definition DEVICE_ID_PREFIX :: string where "DEVICE_ID_PREFIX = ''OSUPAD-''"
definition ESP_ROM_BOOTLOADER_PID :: u16 where "ESP_ROM_BOOTLOADER_PID = 0x1001"

record usb_info =
  vid :: u16
  pid :: u16
  product :: "string option"
  serial_number :: "string option"

datatype port_type = UsbPort usb_info | UnknownPort | BluetoothPort | PciPort

record serial_port =
  port_name :: string
  port_type :: port_type

datatype port_class = Opad | Probe bool | Skip

definition starts_with :: "string \<Rightarrow> string \<Rightarrow> bool" where
  "starts_with prefix s \<longleftrightarrow> take (length prefix) s = prefix"

fun text_contains :: "string \<Rightarrow> string \<Rightarrow> bool" where
  "text_contains needle [] = (needle = [])"
| "text_contains needle (c # cs) = (starts_with needle (c # cs) \<or> text_contains needle cs)"

definition is_opad_device_id :: "string \<Rightarrow> bool" where
  "is_opad_device_id i = starts_with DEVICE_ID_PREFIX i"

definition is_system_port :: "string \<Rightarrow> bool" where
  "is_system_port name \<longleftrightarrow> (let upper = ascii_uppercase name in
     upper = ''COM1'' \<or> upper = ''COM2'' \<or> starts_with ''/dev/ttyS'' name)"

definition is_rom_bootloader :: "usb_info \<Rightarrow> bool" where
  "is_rom_bootloader u \<longleftrightarrow> vid u = ESPRESSIF_VID \<and> pid u = ESP_ROM_BOOTLOADER_PID"

definition classify_port :: "string \<Rightarrow> port_type \<Rightarrow> port_class" where
  "classify_port name t =
     (if is_system_port name then Skip
      else case t of
        UsbPort u \<Rightarrow>
          if is_rom_bootloader u then Skip
          else let known_vid = (vid u = ESPRESSIF_VID \<or> vid u = PIDCODES_VID);
                   product_says = map_option (text_contains ''OPad'') (product u);
                   serial_says = map_option is_opad_device_id (serial_number u)
            in if known_vid \<and> (product_says = Some True \<or> serial_says = Some True) then Opad
               else if product_says = None \<and> serial_says = None then Probe known_vid
               else Skip
      | UnknownPort \<Rightarrow> Probe False
      | BluetoothPort \<Rightarrow> Skip
      | PciPort \<Rightarrow> Skip)"

text \<open>\<open>None\<close> is a system that could not list its ports.\<close>

definition find_target_port :: "serial_port list option \<Rightarrow> string option" where
  "find_target_port ports = Option.bind ports
     (\<lambda>ps. map_option port_name (find (\<lambda>p. classify_port (port_name p) (port_type p) = Opad) ps))"

section \<open>Discovery\<close>

definition PROBE_RETRY_KNOWN_VID :: duration where "PROBE_RETRY_KNOWN_VID = from_secs 5"

type_synonym probe_history = "string \<rightharpoonup> instant"

definition probe_due :: "probe_history \<Rightarrow> instant \<Rightarrow> string \<Rightarrow> bool \<Rightarrow> bool" where
  "probe_due h now name known_vid =
     (case h name of None \<Rightarrow> True | Some t \<Rightarrow> known_vid \<and> PROBE_RETRY_KNOWN_VID \<le> now - t)"

definition known_ports :: "serial_port list \<Rightarrow> string set" where
  "known_ports ps = set (map port_name ps)"

definition probe_candidates :: "probe_history \<Rightarrow> instant \<Rightarrow> serial_port list \<Rightarrow> string list" where
  "probe_candidates h now ps = map port_name (filter (\<lambda>p. case classify_port (port_name p) (port_type p) of
       Probe known_vid \<Rightarrow> probe_due h now (port_name p) known_vid | _ \<Rightarrow> False) ps)"

text \<open>
  Each candidate is opened and asked in turn; \<open>probe\<close> is how that ends, \<open>at\<close> the clock then.
\<close>

fun probe_all :: "(string \<Rightarrow> bool) \<Rightarrow> (string \<Rightarrow> instant) \<Rightarrow> string list \<Rightarrow> probe_history
    \<Rightarrow> string option \<times> probe_history" where
  "probe_all probe tm [] h = (None, h)"
| "probe_all probe tm (n # ns) h =
     (let h = h(n \<mapsto> tm n) in if probe n then (Some n, h) else probe_all probe tm ns h)"

definition discover_port :: "(string \<Rightarrow> bool) \<Rightarrow> (string \<Rightarrow> instant) \<Rightarrow> instant \<Rightarrow> serial_port list option
    \<Rightarrow> probe_history \<Rightarrow> string option \<times> probe_history" where
  "discover_port probe tm now ports h =
     (case ports of
        None \<Rightarrow> (None, h)
      | Some ps \<Rightarrow>
          let h = (\<lambda>n. if List.member (map port_name ps) n then h n else None) in
          case find (\<lambda>p. classify_port (port_name p) (port_type p) = Opad) ps of
            Some p \<Rightarrow> (Some (port_name p), h)
          | None \<Rightarrow> probe_all probe tm (probe_candidates h now ps) h)"

section \<open>The bootloader's port\<close>

record pad_location =
  mac :: "string option"
  usb_path :: "string option"

record bootloader_port =
  boot_name :: string
  location :: pad_location

datatype bootloader_match = BootFound string | BootNone | BootAmbiguous "string list"

definition is_hex_digit :: "char \<Rightarrow> bool" where
  "is_hex_digit c \<longleftrightarrow> is_ascii_digit c \<or> (65 \<le> byte c \<and> byte c \<le> 70) \<or> (97 \<le> byte c \<and> byte c \<le> 102)"

definition normalize_mac :: "string \<Rightarrow> string option" where
  "normalize_mac s =
     (let hex = filter (\<lambda>c. c \<noteq> CHR '':'' \<and> c \<noteq> CHR ''-'') s in
      if length hex = 12 \<and> list_all is_hex_digit hex then Some (ascii_uppercase hex) else None)"

definition mac_of :: "string option \<Rightarrow> string option" where
  "mac_of i = Option.bind i (\<lambda>s. if starts_with DEVICE_ID_PREFIX s
     then normalize_mac (drop (length DEVICE_ID_PREFIX) s) else None)"

definition pad_mac :: "string option \<Rightarrow> string option \<Rightarrow> string option" where
  "pad_mac serial dev = (case mac_of serial of Some m \<Rightarrow> Some m | None \<Rightarrow> mac_of dev)"

text \<open>\<open>path_of\<close> is the physical USB path, which only some systems tell.\<close>

definition locate_pad :: "(string \<Rightarrow> string option) \<Rightarrow> serial_port list option \<Rightarrow> string \<Rightarrow> string option \<Rightarrow> pad_location" where
  "locate_pad path_of ports app_port dev =
     (let serial = Option.bind ports (\<lambda>ps. Option.bind (find (\<lambda>p. port_name p = app_port) ps)
            (\<lambda>p. case port_type p of UsbPort u \<Rightarrow> serial_number u | _ \<Rightarrow> None))
      in \<lparr>mac = pad_mac serial dev, usb_path = path_of app_port\<rparr>)"

definition bootloader_ports :: "(string \<Rightarrow> string option) \<Rightarrow> serial_port list option \<Rightarrow> bootloader_port list" where
  "bootloader_ports path_of ports = List.map_filter (\<lambda>p. case port_type p of
       UsbPort u \<Rightarrow> if is_rom_bootloader u
         then Some \<lparr>boot_name = port_name p,
           location = \<lparr>mac = Option.bind (serial_number u) normalize_mac, usb_path = path_of (port_name p)\<rparr>\<rparr>
         else None
     | _ \<Rightarrow> None) (case ports of Some ps \<Rightarrow> ps | None \<Rightarrow> [])"

definition differs :: "string option \<Rightarrow> string option \<Rightarrow> bool" where
  "differs a b = (case (a, b) of (Some x, Some y) \<Rightarrow> x \<noteq> y | _ \<Rightarrow> False)"

definition same :: "string option \<Rightarrow> string option \<Rightarrow> bool" where
  "same a b = (case (a, b) of (Some x, Some y) \<Rightarrow> x = y | _ \<Rightarrow> False)"

definition proven :: "pad_location \<Rightarrow> bootloader_port \<Rightarrow> bool" where
  "proven pad c \<longleftrightarrow> same (mac (location c)) (mac pad) \<or> same (usb_path (location c)) (usb_path pad)"

definition contradicted :: "pad_location \<Rightarrow> bootloader_port \<Rightarrow> bool" where
  "contradicted pad c \<longleftrightarrow> differs (mac (location c)) (mac pad) \<or> differs (usb_path (location c)) (usb_path pad)"

definition select_bootloader_port :: "bootloader_port list \<Rightarrow> pad_location \<Rightarrow> string list \<Rightarrow> bootloader_match" where
  "select_bootloader_port candidates pad preexisting =
     (case find (proven pad) candidates of
        Some c \<Rightarrow> BootFound (boot_name c)
      | None \<Rightarrow>
          (case filter (\<lambda>c. \<not> List.member preexisting (boot_name c)) (filter (\<lambda>c. \<not> contradicted pad c) candidates) of
             [] \<Rightarrow> BootNone
           | [one] \<Rightarrow> BootFound (boot_name one)
           | many \<Rightarrow> BootAmbiguous (map boot_name many)))"

end
