(* ===== verification/Daemon.thy ===== *)
theory Daemon
  imports Backups Runtime_Traces Ports
begin

text \<open>
  The daemon around the controller: \<open>daemon/src/main.rs\<close> with \<open>tap_stats.rs\<close>, \<open>device_actor.rs\<close> and the
  identity of \<open>identity.rs\<close>. One turn of the loop takes an event through \<open>apply_event\<close> and carries
  out the actions in order on the controller, the shared state, the database, the backup directory
  and the queue towards the pad; syncs and take-overs are started as tasks. Log lines, and the GUI
  the loop launches for a calibration, are left out.
\<close>

section \<open>The queue towards the pad\<close>

datatype device_command = CmdTimeSync | CmdClaimOwnership "u8 list" | CmdConfig device_config
  | CmdHostStatus bool bool u32 bool | CmdDataUpdate "ui_value list" | CmdLayout screen layout
  | CmdRequestStatus | CmdPlayAnimation u32 string

datatype send_result = Sent | Busy | NotConnected | SendFailed

definition BUSY_RETRIES :: nat where "BUSY_RETRIES = 5"

text \<open>
  The outcomes of the sends are a list, one for each time the command is sent. The result is how
  often it was sent, whether it reached the pad, and whether the loop is asked to resend everything.
  An animation for a pad without any counts as sent.
\<close>

fun execute_from :: "nat \<Rightarrow> (nat \<Rightarrow> send_result) \<Rightarrow> bool \<Rightarrow> nat \<times> bool \<times> bool" where
  "execute_from 0 outcome data = (1, outcome BUSY_RETRIES = Sent, data \<and> outcome BUSY_RETRIES = Busy)"
| "execute_from (Suc left) outcome data =
     (case outcome (BUSY_RETRIES - Suc left) of
        Sent \<Rightarrow> (1, True, False)
      | Busy \<Rightarrow>
          if data then (1, False, True)
          else (case execute_from left outcome data of (n, ok, again) \<Rightarrow> (Suc n, ok, again))
      | NotConnected \<Rightarrow> (1, False, False)
      | SendFailed \<Rightarrow> (1, False, False))"

fun is_data_update :: "device_command \<Rightarrow> bool" where
  "is_data_update (CmdDataUpdate vs) = True"
| "is_data_update _ = False"

definition execute :: "(nat \<Rightarrow> send_result) \<Rightarrow> device_command \<Rightarrow> nat \<times> bool \<times> bool" where
  "execute outcome cmd = execute_from BUSY_RETRIES outcome (is_data_update cmd)"

definition send_once :: "u32 \<Rightarrow> (device_command \<Rightarrow> send_result) \<Rightarrow> device_command \<Rightarrow> send_result" where
  "send_once animations link cmd =
     (case cmd of
        CmdPlayAnimation a g \<Rightarrow> if animations = 0 then Sent else link cmd
      | _ \<Rightarrow> link cmd)"

section \<open>The install's identity\<close>

definition INSTALL_ID_KEY :: string where "INSTALL_ID_KEY = ''install.id''"

text \<open>\<open>fresh\<close> is the random UUID made for a new identity. The database may be missing.\<close>

definition load_or_create :: "env \<Rightarrow> string \<Rightarrow> storage option \<Rightarrow> string option \<times> storage option" where
  "load_or_create e fresh db =
     (case db of
        None \<Rightarrow> (None, None)
      | Some s \<Rightarrow>
          (case get_app_state INSTALL_ID_KEY s of
             Inl err \<Rightarrow> (None, db)
           | Inr found \<Rightarrow>
               if (case found of Some i \<Rightarrow> parse_owner_id e i \<noteq> None | None \<Rightarrow> False) then (found, db)
               else (case set_app_state INSTALL_ID_KEY fresh s of
                   Inr s' \<Rightarrow> (Some fresh, Some s')
                 | Inl err \<Rightarrow> (None, db))))"

section \<open>The loop's state\<close>

datatype task = SyncTask | TakeOverTask

record daemon =
  dm_controller :: controller
  dm_shared :: shared
  dm_queue :: "device_command list"
  dm_tasks :: "task list"
  dm_backups :: "directory option"

record loop_env =
  le_env :: env
  le_now :: string
  le_owner :: "u8 list option"
  le_backup_written :: bool
  le_removable :: "string \<Rightarrow> bool"
  le_file_time :: "int \<Rightarrow> string"
  le_stamp :: "int \<Rightarrow> string"

definition enqueue :: "device_command \<Rightarrow> daemon \<Rightarrow> daemon" where
  "enqueue cmd d = d\<lparr>dm_queue := dm_queue d @ [cmd]\<rparr>"

definition on_shared :: "(shared \<Rightarrow> shared) \<Rightarrow> daemon \<Rightarrow> daemon" where
  "on_shared f d = d\<lparr>dm_shared := f (dm_shared d)\<rparr>"

text \<open>
  \<open>tap_stats::refresh_history\<close>: the two locks are never held together, so other tasks may act in
  between; a period changed meanwhile brought its own history.
\<close>

definition refresh_history :: "(shared \<Rightarrow> shared) \<Rightarrow> int \<Rightarrow> shared \<Rightarrow> shared" where
  "refresh_history meanwhile now w =
     (let days = ts_period_days (tap_snapshot (tap (sh_state w))) in
      case sh_storage w of
        None \<Rightarrow> w
      | Some s \<Rightarrow> (case read_tap_history days now s of
          Inl err \<Rightarrow> w
        | Inr h \<Rightarrow> let w = meanwhile w in
            if ts_period_days (tap_snapshot (tap (sh_state w))) = days
            then update_shared_state (\<lambda>st. st\<lparr>tap := (tap st)\<lparr>tap_snapshot :=
              (tap_snapshot (tap st))\<lparr>ts_history := Some h\<rparr>\<rparr>\<rparr>) w
            else w))"

text \<open>Saving attempts and the period: what could not be saved, and whether the period was.\<close>

definition save_tap_stats :: "attempt_stats list \<Rightarrow> u32 option \<Rightarrow> storage option
    \<Rightarrow> attempt_stats list option \<times> bool \<times> storage option" where
  "save_tap_stats attempts days db =
     (case db of
        None \<Rightarrow> (Some attempts, days = None, None)
      | Some s \<Rightarrow>
          let (unsaved, s) = (case save_tap_attempts attempts s of
                Inr (s', n) \<Rightarrow> (None, s') | Inl err \<Rightarrow> (Some attempts, s));
              (saved, s) = (case days of
                None \<Rightarrow> (True, s)
              | Some n \<Rightarrow> (case set_tap_history_days n s of Inr s' \<Rightarrow> (True, s') | Inl err \<Rightarrow> (False, s)))
          in (unsaved, saved, Some s))"

definition run_save_tap_stats :: "loop_env \<Rightarrow> attempt_stats list \<Rightarrow> u32 option \<Rightarrow> daemon \<Rightarrow> daemon" where
  "run_save_tap_stats le attempts days d =
     (let (unsaved, saved, db) = save_tap_stats attempts days (sh_storage (dm_shared d));
          d = on_shared (\<lambda>w. w\<lparr>sh_storage := db\<rparr>) d;
          d = (case unsaved of None \<Rightarrow> d
            | Some as \<Rightarrow> d\<lparr>dm_controller := requeue_tap_attempts as (dm_controller d)\<rparr>);
          d = (if saved then d else on_shared (update_shared_state (\<lambda>st. st\<lparr>tap := (tap st)\<lparr>period_unsaved := True\<rparr>\<rparr>)) d)
      in on_shared (refresh_history id (utc_now (le_env le))) d)"

definition run_auto_backup :: "loop_env \<Rightarrow> daemon \<Rightarrow> daemon" where
  "run_auto_backup le d =
     (case current_backup (utc_now (le_env le)) (sh_state (dm_shared d)) (sh_storage (dm_shared d)) of
        None \<Rightarrow> d
      | Some b \<Rightarrow>
          let (dir, wrote) = write_backup (le_file_time le) (le_removable le) (le_backup_written le) b (dm_backups d);
              d = d\<lparr>dm_backups := dir\<rparr>
          in case wrote of
               None \<Rightarrow> d
             | Some tm \<Rightarrow> on_shared (update_shared_state (\<lambda>st. st\<lparr>last_backup := Some (le_stamp le tm)\<rparr>)) d)"

section \<open>Carrying out an action\<close>

fun run_action :: "loop_env \<Rightarrow> runtime_action \<Rightarrow> daemon \<Rightarrow> daemon" where
  "run_action le SendTimeSync d = enqueue CmdTimeSync d"
| "run_action le ClaimOwnership d =
     (case le_owner le of Some owner \<Rightarrow> enqueue (CmdClaimOwnership owner) d | None \<Rightarrow> d)"
| "run_action le (SendConfig cfg) d = enqueue (CmdConfig cfg) d"
| "run_action le (SaveDeviceConfig cfg) d = on_shared (with_storage (save_config cfg)) d"
| "run_action le (SendHostStatus up playing play active) d = enqueue (CmdHostStatus up playing play active) d"
| "run_action le (SendDataUpdate changes) d = enqueue (CmdDataUpdate changes) d"
| "run_action le (PlayAnimation animation grade) d = enqueue (CmdPlayAnimation animation grade) d"
| "run_action le (SendLayout scr l) d = enqueue (CmdLayout scr l) d"
| "run_action le TakeOverIfPadIsAhead d = d\<lparr>dm_tasks := dm_tasks d @ [TakeOverTask]\<rparr>"
| "run_action le TriggerSync d = d\<lparr>dm_tasks := dm_tasks d @ [SyncTask]\<rparr>"
| "run_action le RequestDeviceStatus d = enqueue CmdRequestStatus d"
| "run_action le (SetStorageWritesAllowed allowed) d =
     on_shared (\<lambda>w. w\<lparr>sh_storage := map_option (set_writes_allowed allowed) (sh_storage w)\<rparr>) d"
| "run_action le (SaveInitialDeviceState info k) d = on_shared (with_storage (save_device_state (le_now le) info k)) d"
| "run_action le (TouchDeviceLastSeen i) d = on_shared (with_storage (touch_device_last_seen (le_now le) i)) d"
| "run_action le (PushEspLog level tg msg) d = d"
| "run_action le (SaveTapStats attempts days) d = run_save_tap_stats le attempts days d"
| "run_action le RefreshTapHistory d = on_shared (refresh_history id (utc_now (le_env le))) d"
| "run_action le WriteAutoBackup d = run_auto_backup le d"
| "run_action le LaunchGuiCalibration d = d"

definition run_actions :: "loop_env \<Rightarrow> runtime_action list \<Rightarrow> daemon \<Rightarrow> daemon" where
  "run_actions le acts d = fold (run_action le) acts d"

text \<open>One event: the controller first, then its actions.\<close>

definition loop_event :: "loop_env \<Rightarrow> runtime_event \<Rightarrow> instant \<Rightarrow> daemon \<Rightarrow> daemon" where
  "loop_event le ev now d =
     (let w = dm_shared d;
          ((c, st, p), acts) = apply_event (le_env le) ev now (dm_controller d, sh_state w, sh_pending w)
      in run_actions le acts (d\<lparr>dm_controller := c, dm_shared := w\<lparr>sh_state := st, sh_pending := p\<rparr>\<rparr>))"

section \<open>A tick of the loop\<close>

text \<open>
  Before a tick is an event, the loop sends the time after a clock jump, has everything sent to the
  screen again after a loss, and every minute tries to open a database it could not open. The
  actions of the event that tells the controller are dropped. \<open>opened\<close> is what \<open>Storage::open\<close>
  gives and \<open>from_json\<close> reads a layout.
\<close>

definition load_layouts :: "(string \<Rightarrow> layout option) \<Rightarrow> storage \<Rightarrow> (screen \<times> layout) list" where
  "load_layouts from_json s = List.map_filter (\<lambda>(scr, wire, lbl).
     case load_layout wire s of
       Inr (Some json) \<Rightarrow> map_option (\<lambda>l. (scr, l)) (from_json json)
     | _ \<Rightarrow> None) ALL_SCREENS"

definition ok_of :: "('e, 'a) result \<Rightarrow> 'a option" where
  "ok_of r = (case r of Inr x \<Rightarrow> Some x | Inl err \<Rightarrow> None)"

definition quiet_event :: "loop_env \<Rightarrow> runtime_event \<Rightarrow> instant \<Rightarrow> daemon \<Rightarrow> daemon" where
  "quiet_event le ev now d =
     (let w = dm_shared d;
          ((c, st, p), acts) = apply_event (le_env le) ev now (dm_controller d, sh_state w, sh_pending w)
      in d\<lparr>dm_controller := c, dm_shared := w\<lparr>sh_state := st, sh_pending := p\<rparr>\<rparr>)"

definition reopen :: "loop_env \<Rightarrow> (string \<Rightarrow> layout option) \<Rightarrow> (string, storage) result \<Rightarrow> instant \<Rightarrow> daemon \<Rightarrow> daemon" where
  "reopen le from_json opened now d =
     (case opened of
        Inr s \<Rightarrow>
          let cfg = ok_of (load_config s);
              layouts = load_layouts from_json s;
              stored = Option.bind (the_device (sh_state (dm_shared d)))
                (\<lambda>i. case load_device_state (device_id i) s of Inr k \<Rightarrow> k | Inl err \<Rightarrow> None);
              d = on_shared (\<lambda>w. w\<lparr>sh_storage := Some s\<rparr>) d
          in quiet_event le (SqliteReconnected cfg layouts stored) now d
      | Inl err \<Rightarrow> quiet_event le (SqliteError err) now d)"

definition loop_tick :: "loop_env \<Rightarrow> (string \<Rightarrow> layout option) \<Rightarrow> bool \<Rightarrow> bool \<Rightarrow> (string, storage) result option
    \<Rightarrow> instant \<Rightarrow> daemon \<Rightarrow> daemon" where
  "loop_tick le from_json clock_jump lost retry now d =
     (let st = sh_state (dm_shared d);
          d = (if clock_jump \<and> device_connected st \<and> mode st = Idle then enqueue CmdTimeSync d else d);
          d = (if lost then d\<lparr>dm_controller := (dm_controller d)\<lparr>data_sync := reset_sent (data_sync (dm_controller d))\<rparr>\<rparr>
               else d);
          d = (case retry of
              Some opened \<Rightarrow> if sh_storage (dm_shared d) = None then reopen le from_json opened now d else d
            | None \<Rightarrow> d)
      in loop_event le (Tick now) now d)"

section \<open>Start-up\<close>

definition start_daemon :: "loop_env \<Rightarrow> (string \<Rightarrow> layout option) \<Rightarrow> string \<Rightarrow> (string \<Rightarrow> int option) \<Rightarrow> directory option
    \<Rightarrow> (string, storage) result \<Rightarrow> instant \<Rightarrow> daemon" where
  "start_daemon le from_json fresh parse_time backups opened now =
     (let db = ok_of opened;
          err = (case opened of Inl e \<Rightarrow> Some e | Inr s \<Rightarrow> None);
          cfg = (case db of Some s \<Rightarrow> (case load_config s of Inr c \<Rightarrow> c | Inl e \<Rightarrow> default_config) | None \<Rightarrow> default_config);
          latest = Option.bind db (\<lambda>s. case load_latest_device_state s of Inr l \<Rightarrow> l | Inl e \<Rightarrow> None);
          dev = map_option fst latest;
          ctrs = (case latest of Some (i, k) \<Rightarrow> k | None \<Rightarrow> \<lparr>counter_device = [], counter_generation = 0,
            lifetime_key1 = 0, lifetime_key2 = 0, map_key1 = 0, map_key2 = 0\<rparr>);
          layouts = (case db of Some s \<Rightarrow> load_layouts from_json s | None \<Rightarrow> []);
          existing = (case db of Some s \<Rightarrow> (case list_device_states s of Inr l \<Rightarrow> map (\<lambda>(i, k). device_id i) l | Inl e \<Rightarrow> [])
            | None \<Rightarrow> []);
          (identity, db) = load_or_create (le_env le) fresh db;
          c = set_install_id identity (new_controller (le_env le) cfg dev ctrs layouts err existing now);
          c = c\<lparr>state := (state c)\<lparr>last_backup := map_option (le_stamp le) (newest parse_time backups)\<rparr>\<rparr>;
          days = (case db of Some s \<Rightarrow> (case tap_history_days s of Inr n \<Rightarrow> n | Inl e \<Rightarrow> DEFAULT_HISTORY_DAYS)
            | None \<Rightarrow> DEFAULT_HISTORY_DAYS);
          history = Option.bind db (\<lambda>s. ok_of (read_tap_history days (utc_now (le_env le)) s));
          c = c\<lparr>state := (state c)\<lparr>tap := (tap (state c))\<lparr>tap_snapshot := (tap_snapshot (tap (state c)))
                \<lparr>ts_period_days := days, ts_history := history\<rparr>\<rparr>\<rparr>\<rparr>
      in \<lparr>dm_controller = c,
          dm_shared = \<lparr>sh_state = state c, sh_storage = db, sh_pending = no_pending\<rparr>,
          dm_queue = [], dm_tasks = [], dm_backups = backups\<rparr>)"

section \<open>Calibration messages and tosu's log\<close>

definition cal_stage_of :: "int \<Rightarrow> he_cal_stage" where
  "cal_stage_of n = (if n = 1 then CalRest else if n = 2 then CalKey1 else if n = 3 then CalKey2
     else if n = 4 then CalSuccess else if n = 5 then CalFailed else CalNone)"

definition cal_error_of :: "int \<Rightarrow> he_cal_error" where
  "cal_error_of n = (if n = 1 then RestNotStill else if n = 2 then RestOutOfRange else if n = 3 then RestPressed
     else if n = 4 then SignalNotRising else if n = 5 then SpanTooSmall else if n = 6 then PeaksInconsistent
     else if n = 7 then TooFewPeaks else if n = 8 then TooManyPeaks else if n = 9 then CalTimeout
     else CalErrNone)"

definition classify_tosu_line :: "string \<Rightarrow> log_level" where
  "classify_tosu_line line =
     (if text_contains ''error'' line \<or> text_contains ''Error'' line then LevelError
      else if text_contains ''warn'' line \<or> text_contains ''Warn'' line then LevelWarn
      else LevelInfo)"

end
