(* ===== verification/Daemon_Safety.thy ===== *)
theory Daemon_Safety
  imports Daemon
begin

text \<open>
  What the loop as a whole guarantees: the controller's contract, the storage's write guard and the
  execution of the actions together keep the database untouched while a map is played.
\<close>

section \<open>Actions that save the pad's configuration\<close>

fun saves_config :: "runtime_action \<Rightarrow> bool" where
  "saves_config (SaveDeviceConfig cfg) = True"
| "saves_config _ = False"

definition saveless :: "runtime_action list \<Rightarrow> bool" where
  "saveless acts \<longleftrightarrow> list_all (\<lambda>a. \<not> saves_config a) acts"

lemma saveless_simps [simp]: "saveless []" "saveless (a # acts) \<longleftrightarrow> \<not> saves_config a \<and> saveless acts"
  "saveless (acts @ acts') \<longleftrightarrow> saveless acts \<and> saveless acts'"
  by (simp_all add: saveless_def)

lemma saveless_host_status [simp]: "\<not> saves_config (host_status c)"
  by (simp add: host_status_def)

lemma saveless_results: "saveless (snd (results_animation p f o' g c))"
  by (simp add: results_animation_def Let_def split: option.split)

lemma saveless_telemetry: "saveless (snd (on_telemetry e now t c))"
  by (simp add: on_telemetry_def snd_seq saveless_results play_frame_def enter_play_def announce_attempt_def
    leave_play_def Let_def split: prod.split)

lemma saveless_ticks:
  "saveless (snd (tick_cooldown tm c))" "saveless (snd (tick_status_poll tm c))"
  "saveless (snd (tick_heartbeat tm c))" "saveless (snd (tick_values e tm c))"
  "saveless (snd (tick_periodic tm c))" "saveless (snd (tick_backup tm c))" "saveless (snd (tick_tap_stats tm c))"
  by (simp_all add: tick_cooldown_def tick_status_poll_def tick_heartbeat_def tick_values_def
      tick_periodic_def tick_time_sync_def tick_counter_sync_def tick_backup_def tick_tap_stats_def
      snd_seq Let_def split: option.split prod.split)

lemma saveless_tick: "saveless (snd (on_tick e tm c))"
  by (simp add: on_tick_def snd_seq saveless_ticks)

lemma saveless_moving:
  "moves_timers ev \<Longrightarrow> saveless (snd (on_event e ev now c))"
  by (cases ev) (simp_all add: saveless_telemetry saveless_tick on_tosu_connection_def on_sync_completed_def Let_def)

text \<open>Only an event that leaves the mode as it is makes the daemon save a configuration.\<close>

lemma config_saved_in_same_mode:
  assumes "\<not> saveless (snd (on_event e ev now c))"
  shows "mode (state (fst (on_event e ev now c))) = mode (state c)"
  using assms saveless_moving[of ev e now c] timers_other[of ev e now c] by (auto simp: timers_def)

section \<open>The guard in the loop\<close>

definition database :: "daemon \<Rightarrow> storage option" where
  "database d = sh_storage (dm_shared d)"

definition guard_closed :: "daemon \<Rightarrow> bool" where
  "guard_closed d \<longleftrightarrow> (case database d of None \<Rightarrow> True | Some s \<Rightarrow> \<not> writes_allowed s)"

text \<open>The tables, whatever the guard.\<close>

definition tables :: "daemon \<Rightarrow> storage option" where
  "tables d = map_option (set_writes_allowed False) (database d)"

lemma guarded_closed: "\<not> writes_allowed s \<Longrightarrow> guarded f s = Inl WritesBlocked"
  by (simp add: guarded_def check_writes_allowed_def)

lemma with_storage_closed:
  assumes "\<And>s. \<not> writes_allowed s \<Longrightarrow> f s = Inl WritesBlocked"
    "case sh_storage w of None \<Rightarrow> True | Some s \<Rightarrow> \<not> writes_allowed s"
  shows "with_storage f w = w"
  using assms by (auto simp: with_storage_def split: option.splits)

lemma writes_closed:
  "\<not> writes_allowed s \<Longrightarrow> save_config cfg s = Inl WritesBlocked"
  "\<not> writes_allowed s \<Longrightarrow> save_device_state now info k s = Inl WritesBlocked"
  "\<not> writes_allowed s \<Longrightarrow> touch_device_last_seen now i s = Inl WritesBlocked"
  "\<not> writes_allowed s \<Longrightarrow> save_tap_attempts as s = Inl WritesBlocked"
  "\<not> writes_allowed s \<Longrightarrow> set_app_state k1 v s = Inl WritesBlocked"
  by (simp_all add: save_config_def save_device_state_def touch_device_last_seen_def save_tap_attempts_def
    set_app_state_def guarded_closed)

lemma refresh_storage [simp]: "sh_storage (refresh_history id now w) = sh_storage w"
  by (simp add: refresh_history_def Let_def split: option.split sum.split)

lemma database_simps [simp]:
  "database (enqueue cmd d) = database d" "database (d\<lparr>dm_tasks := ts\<rparr>) = database d"
  "database (d\<lparr>dm_controller := c\<rparr>) = database d" "database (d\<lparr>dm_backups := b\<rparr>) = database d"
  "database (on_shared (refresh_history id now) d) = database d"
  "database (on_shared (update_shared_state f) d) = database d"
  by (simp_all add: database_def enqueue_def on_shared_def)

lemma set_writes_twice: "set_writes_allowed a (set_writes_allowed b s) = set_writes_allowed a s"
  by (simp add: set_writes_allowed_def)

text \<open>With the guard closed no action changes the database but one that opens the guard.\<close>

lemma save_stats_closed:
  assumes "\<not> writes_allowed s"
  shows "snd (snd (save_tap_stats attempts days (Some s))) = Some s"
  using assms by (auto simp: save_tap_stats_def writes_closed set_tap_history_days_def Let_def
    split: option.split sum.split prod.splits)

lemma stats_database:
  "database (run_save_tap_stats le attempts days d) = snd (snd (save_tap_stats attempts days (database d)))"
  by (simp add: run_save_tap_stats_def Let_def split_beta split: option.split)
    (simp add: database_def on_shared_def)

lemma backup_database: "database (run_auto_backup le d) = database d"
  by (simp add: run_auto_backup_def Let_def split_beta split: option.split)

lemma action_closed:
  assumes "guard_closed d" "a \<noteq> SetStorageWritesAllowed True"
  shows "database (run_action le a d) = database d"
proof (cases a)
  case (SetStorageWritesAllowed b)
  then show ?thesis
    using assms by (auto simp: guard_closed_def database_def on_shared_def set_writes_allowed_def split: option.splits)
next
  case (SaveTapStats attempts days)
  then show ?thesis
    using assms(1) save_stats_closed by (auto simp: stats_database guard_closed_def save_tap_stats_def split: option.splits)
qed (use assms(1) in \<open>simp_all add: backup_database split: option.split\<close>,
  auto simp: database_def on_shared_def guard_closed_def with_storage_closed writes_closed split: option.split)

text \<open>Without a configuration to save, what a state outside IDLE permits leaves the tables alone.\<close>

lemma action_permitted:
  assumes "permitted s a" "\<not> storage_mode (mode s)" "\<not> saves_config a"
  shows "tables (run_action le a d) = tables d" "guard_closed d \<Longrightarrow> guard_closed (run_action le a d)"
proof -
  show "tables (run_action le a d) = tables d"
  proof (cases a)
    case (SetStorageWritesAllowed b)
    then show ?thesis
      by (simp add: tables_def database_def on_shared_def option.map_comp o_def set_writes_twice)
  qed (use assms in \<open>auto simp: tables_def storage_mode_def split: option.split\<close>)
  have "a \<noteq> SetStorageWritesAllowed True" using assms by auto
  then show "guard_closed d \<Longrightarrow> guard_closed (run_action le a d)"
    using action_closed[of d a le] by (simp add: guard_closed_def)
qed

section \<open>The guard follows the mode\<close>

abbreviation mode_of :: "daemon \<Rightarrow> runtime_mode" where
  "mode_of d \<equiv> mode (sh_state (dm_shared d))"

definition guard_flag :: "daemon \<Rightarrow> bool option" where
  "guard_flag d = map_option writes_allowed (database d)"

definition guard_matches :: "daemon \<Rightarrow> bool" where
  "guard_matches d \<longleftrightarrow> guard_flag d \<in> {None, Some (storage_mode (mode_of d))}"

lemma writes_keep_flag:
  "save_config cfg s = Inr t \<Longrightarrow> writes_allowed t = writes_allowed s"
  "save_device_state now info k s = Inr t \<Longrightarrow> writes_allowed t = writes_allowed s"
  "touch_device_last_seen now i s = Inr t \<Longrightarrow> writes_allowed t = writes_allowed s"
  "save_tap_attempts as s = Inr (t, n) \<Longrightarrow> writes_allowed t = writes_allowed s"
  "set_app_state k1 v s = Inr t \<Longrightarrow> writes_allowed t = writes_allowed s"
  "set_tap_history_days days s = Inr t \<Longrightarrow> writes_allowed t = writes_allowed s"
  by (auto simp: save_config_def save_device_state_def touch_device_last_seen_def save_tap_attempts_def
    set_app_state_def set_tap_history_days_def update_config_def no_table_def Let_def
    dest!: guarded_ok split: option.splits if_splits sum.splits)

lemma with_storage_flag:
  assumes "\<And>s t. f s = Inr t \<Longrightarrow> writes_allowed t = writes_allowed s"
  shows "map_option writes_allowed (sh_storage (with_storage f w)) = map_option writes_allowed (sh_storage w)"
  using assms by (auto simp: with_storage_def split: option.split sum.split)

lemma save_stats_flag:
  "map_option writes_allowed (snd (snd (save_tap_stats attempts days db))) = map_option writes_allowed db"
  by (auto simp: save_tap_stats_def Let_def dest: writes_keep_flag split: option.split sum.split prod.splits)

lemma storage_write_flag:
  assumes "\<And>s t. f s = Inr t \<Longrightarrow> writes_allowed t = writes_allowed s"
  shows "guard_flag (on_shared (with_storage f) d) = guard_flag d"
  using with_storage_flag[of f "dm_shared d"] assms by (simp add: guard_flag_def database_def on_shared_def)

lemma stats_flag: "guard_flag (run_save_tap_stats le attempts days d) = guard_flag d"
  by (simp add: guard_flag_def stats_database save_stats_flag)

lemma flag_simps [simp]:
  "guard_flag (enqueue cmd d) = guard_flag d" "guard_flag (d\<lparr>dm_tasks := ts\<rparr>) = guard_flag d"
  "guard_flag (on_shared (refresh_history id now) d) = guard_flag d" "guard_flag (run_auto_backup le d) = guard_flag d"
  by (simp_all add: guard_flag_def backup_database)

lemma action_flag:
  "guard_flag (run_action le a d) =
     (case a of SetStorageWritesAllowed b \<Rightarrow> map_option (\<lambda>x. b) (guard_flag d) | _ \<Rightarrow> guard_flag d)"
proof (cases a)
  case (SetStorageWritesAllowed b)
  then show ?thesis by (simp add: guard_flag_def database_def on_shared_def option.map_comp o_def set_writes_allowed_def)
qed (simp_all add: stats_flag storage_write_flag writes_keep_flag split: option.split)

lemma action_mode: "mode_of (run_action le a d) = mode_of d"
proof -
  have "mode (sh_state (refresh_history id now w)) = mode (sh_state w)" for now w
    by (simp add: refresh_history_def Let_def split: option.split sum.split)
  then show ?thesis
    by (cases a) (auto simp: run_save_tap_stats_def run_auto_backup_def enqueue_def on_shared_def Let_def split_beta
      split: option.split)
qed

lemma actions_mode: "mode_of (run_actions le acts d) = mode_of d"
  by (induction acts arbitrary: d) (simp_all add: run_actions_def action_mode)

lemma actions_flag: "guard_flag (run_actions le acts d) = map_option (gate acts) (guard_flag d)"
proof (induction acts arbitrary: d)
  case (Cons a acts)
  have "gate (a # acts) = gate acts \<circ> (\<lambda>x. case a of SetStorageWritesAllowed b \<Rightarrow> b | _ \<Rightarrow> x)"
    by (simp add: gate_def fun_eq_iff)
  moreover have "guard_flag (run_action le a d)
      = map_option (\<lambda>x. case a of SetStorageWritesAllowed b \<Rightarrow> b | _ \<Rightarrow> x) (guard_flag d)"
    unfolding action_flag by (cases a) (simp_all add: option.map_ident)
  ultimately show ?case using Cons[of "run_action le a d"] by (simp add: run_actions_def option.map_comp o_def)
qed (simp add: run_actions_def gate_def [abs_def] option.map_id)

text \<open>What one turn of the loop is made of.\<close>

lemma loop_event_parts:
  obtains c0 c p where "state c0 = sh_state (dm_shared d)"
    "loop_event le ev now d = run_actions le (snd (on_event (le_env le) ev now c0))
       (d\<lparr>dm_controller := c, dm_shared := (dm_shared d)
          \<lparr>sh_state := state (fst (on_event (le_env le) ev now c0)), sh_pending := p\<rparr>\<rparr>)"
proof -
  let ?w = "dm_shared d"
  obtain c st p acts where run: "apply_event (le_env le) ev now (dm_controller d, sh_state ?w, sh_pending ?w) = ((c, st, p), acts)"
    by (metis surj_pair)
  from run obtain c0 where "state c0 = sh_state ?w" "st = state (fst (on_event (le_env le) ev now c0))"
      "acts = snd (on_event (le_env le) ev now c0)"
    by (rule apply_event_shared)
  with run show ?thesis by (intro that[of c0 p c]) (simp_all add: loop_event_def Let_def)
qed

lemma loop_event_matches:
  assumes "guard_matches d"
  shows "guard_matches (loop_event le ev now d)"
proof -
  obtain c0 c p where c0: "state c0 = sh_state (dm_shared d)"
    and run: "loop_event le ev now d = run_actions le (snd (on_event (le_env le) ev now c0))
       (d\<lparr>dm_controller := c, dm_shared := (dm_shared d)
          \<lparr>sh_state := state (fst (on_event (le_env le) ev now c0)), sh_pending := p\<rparr>\<rparr>)"
    by (rule loop_event_parts)
  have "guard_flag (d\<lparr>dm_controller := c, dm_shared := (dm_shared d)\<lparr>sh_state := s', sh_pending := p\<rparr>\<rparr>) = guard_flag d" for s'
    by (simp add: guard_flag_def database_def)
  then show ?thesis
    using assms event_gate[of "le_env le" ev now c0] c0
    by (auto simp: guard_matches_def run actions_flag actions_mode)
qed

section \<open>Opening a database\<close>

definition same_flag :: "storage \<Rightarrow> storage \<Rightarrow> bool" where
  "same_flag s t \<longleftrightarrow> writes_allowed t = writes_allowed s"

lemma statement_keeps_flag:
  "add_columns cs s = Inr t \<Longrightarrow> same_flag s t" "add_attempt_columns as s = Inr t \<Longrightarrow> same_flag s t"
  "update_config cond sets s = Inr t \<Longrightarrow> same_flag s t" "drop_column c s = Inr t \<Longrightarrow> same_flag s t"
  "record_migration n s = Inr t \<Longrightarrow> same_flag s t"
proof -
  show "add_columns cs s = Inr t \<Longrightarrow> same_flag s t"
    by (induction cs s rule: add_columns.induct) (auto simp: same_flag_def no_table_def split: option.splits if_splits)
  show "add_attempt_columns as s = Inr t \<Longrightarrow> same_flag s t"
    by (induction as s rule: add_attempt_columns.induct)
      (auto simp: same_flag_def no_table_def split: option.splits if_splits)
qed (auto simp: same_flag_def update_config_def drop_column_def record_migration_def no_table_def
  split: option.splits if_splits)

lemma same_flag_refl: "same_flag s s"
  by (simp add: same_flag_def)

lemma then_keeps_flag:
  "and_then r g = Inr t \<Longrightarrow> (\<And>u. r = Inr u \<Longrightarrow> same_flag s u) \<Longrightarrow> (\<And>u. g u = Inr t \<Longrightarrow> same_flag u t)
   \<Longrightarrow> same_flag s t"
  by (cases r) (auto simp: same_flag_def)

lemma table_keeps_flag:
  "same_flag (s\<lparr>layout_table := x\<rparr>) t = same_flag s t" "same_flag (s\<lparr>app_state_table := y\<rparr>) t = same_flag s t"
  "same_flag (s\<lparr>attempt_columns := z\<rparr>) t = same_flag s t"
  "same_flag (s\<lparr>device_table := v, config_table := w\<rparr>) t = same_flag s t"
  by (simp_all add: same_flag_def)

lemmas migration_defs = apply_v1_def apply_v2_def apply_v3_def apply_v4_def apply_v5_def apply_v6_def
  apply_v7_def apply_v8_def apply_v9_def apply_v10_def apply_v11_def apply_v12_def apply_v13_def apply_v14_def
  apply_v15_def apply_v16_def

lemma migration_keeps_flag:
  assumes "(n, f) \<in> set MIGRATIONS" "f s = Inr t"
  shows "same_flag s t"
proof -
  note recorded = statement_keeps_flag(5)[of _ "s\<lparr>layout_table := x\<rparr>" for x, unfolded table_keeps_flag]
    statement_keeps_flag(5)[of _ "s\<lparr>app_state_table := x\<rparr>" for x, unfolded table_keeps_flag]
    statement_keeps_flag(5)[of _ "s\<lparr>attempt_columns := x\<rparr>" for x, unfolded table_keeps_flag]
    statement_keeps_flag(5)[of _ "s\<lparr>device_table := x, config_table := y\<rparr>" for x y, unfolded table_keeps_flag]
  show ?thesis
    using assms unfolding MIGRATIONS_def
    by (auto simp: migration_defs same_flag_refl simp del: add_columns.simps add_attempt_columns.simps
      elim!: then_keeps_flag dest: recorded intro: statement_keeps_flag split: if_splits)
      (erule statement_keeps_flag)+
qed

lemma open_allows_writes:
  assumes "open_storage f = Inr s"
  shows "writes_allowed s"
proof -
  have "set ms \<subseteq> set MIGRATIONS \<Longrightarrow> run_migrations v ms r = Inr t \<Longrightarrow> writes_allowed t = writes_allowed r" for v ms r t
  proof (induction ms arbitrary: r)
    case (Cons x ms)
    obtain n g where x: "x = (n, g)" by force
    then show ?case
      using Cons migration_keeps_flag[of n g r] by (cases "g r") (auto simp: same_flag_def split: if_splits)
  qed simp
  from this[of MIGRATIONS] assms show ?thesis by (auto simp: open_storage_def migrate_def)
qed

section \<open>The daemon's life\<close>

text \<open>
  The daemon starts on the database it could open, or on none. Events and ticks follow; between
  them syncs and IPC handlers may change everything shared but the mode and the guard: they write
  only through the guard and never set it. A database that comes back while the daemon is IDLE or
  in SYNC is part of this; one that comes back during a play is not (see below).
\<close>

inductive daemon_run :: "daemon \<Rightarrow> bool" where
  start: "(\<forall>s. opened = Inr s \<longrightarrow> (\<exists>f. open_storage f = Inr s))
     \<Longrightarrow> daemon_run (start_daemon le from_json fresh parse_time backups opened now)"
| event: "daemon_run d \<Longrightarrow> daemon_run (loop_event le ev now d)"
| tick: "daemon_run d \<Longrightarrow> retry = None \<or> storage_mode (mode (sh_state (dm_shared d)))
     \<Longrightarrow> (\<forall>s. retry = Some (Inr s) \<longrightarrow> (\<exists>f. open_storage f = Inr s))
     \<Longrightarrow> daemon_run (loop_tick le from_json clock_jump lost retry now d)"
| outside: "daemon_run d \<Longrightarrow> mode (sh_state w) = mode (sh_state (dm_shared d))
     \<Longrightarrow> map_option writes_allowed (sh_storage w) = map_option writes_allowed (sh_storage (dm_shared d))
     \<Longrightarrow> daemon_run (d\<lparr>dm_shared := w\<rparr>)"

lemma start_matches:
  assumes "\<forall>s. opened = Inr s \<longrightarrow> (\<exists>f. open_storage f = Inr s)"
  shows "guard_matches (start_daemon le from_json fresh parse_time backups opened now)"
proof -
  have "ok_of opened = Some s \<Longrightarrow> writes_allowed s" for s
    using assms open_allows_writes by (auto simp: ok_of_def split: sum.splits)
  then have "snd (load_or_create (le_env le) fresh (ok_of opened)) = Some s \<Longrightarrow> writes_allowed s" for s
    by (auto simp: load_or_create_def dest: writes_keep_flag split: option.splits sum.splits if_splits)
  then show ?thesis
    by (auto simp: start_daemon_def Let_def split_beta guard_matches_def guard_flag_def database_def
      set_install_id_def new_controller_def new_state_def storage_mode_def)
qed

lemma quiet_event_shared:
  obtains c0 c p where "state c0 = sh_state (dm_shared d)"
    "quiet_event le ev now d = d\<lparr>dm_controller := c, dm_shared := (dm_shared d)
       \<lparr>sh_state := state (fst (on_event (le_env le) ev now c0)), sh_pending := p\<rparr>\<rparr>"
proof -
  let ?w = "dm_shared d"
  obtain c st p acts where run: "apply_event (le_env le) ev now (dm_controller d, sh_state ?w, sh_pending ?w) = ((c, st, p), acts)"
    by (metis surj_pair)
  from run obtain c0 where "state c0 = sh_state ?w" "st = state (fst (on_event (le_env le) ev now c0))"
    by (rule apply_event_shared)
  with run show ?thesis by (intro that[of c0 p c]) (simp_all add: quiet_event_def Let_def)
qed

lemma quiet_event_mode: "\<not> moves_timers ev \<Longrightarrow> mode_of (quiet_event le ev now d) = mode_of d"
  by (rule quiet_event_shared[of d le ev now]) (use timers_other[of ev "le_env le" now] in \<open>simp add: timers_def\<close>)

lemma quiet_event_database: "database (quiet_event le ev now d) = database d"
  by (rule quiet_event_shared[of d le ev now]) (simp add: database_def)

lemma reopen_shape:
  "mode_of (reopen le from_json opened now d) = mode_of d"
  "database (reopen le from_json opened now d) = (case opened of Inr s \<Rightarrow> Some s | Inl err \<Rightarrow> database d)"
  by (simp_all add: reopen_def Let_def quiet_event_mode quiet_event_database split: sum.split)
    (simp_all add: on_shared_def database_def)

lemma reopen_matches:
  assumes "guard_matches d" "storage_mode (mode_of d)" "\<forall>s. opened = Inr s \<longrightarrow> (\<exists>f. open_storage f = Inr s)"
  shows "guard_matches (reopen le from_json opened now d)"
  using assms open_allows_writes
  by (auto simp: guard_matches_def guard_flag_def reopen_shape split: sum.split)

lemma loop_tick_matches:
  assumes "guard_matches d" "retry = None \<or> storage_mode (mode_of d)"
    "\<forall>s. retry = Some (Inr s) \<longrightarrow> (\<exists>f. open_storage f = Inr s)"
  shows "guard_matches (loop_tick le from_json clock_jump lost retry now d)"
proof -
  have [simp]: "guard_matches (enqueue cmd d) = guard_matches d" "mode_of (enqueue cmd d) = mode_of d"
    "guard_matches (d\<lparr>dm_controller := c\<rparr>) = guard_matches d" for cmd d c
    by (simp_all add: guard_matches_def guard_flag_def enqueue_def database_def)
  show ?thesis
    using assms unfolding loop_tick_def Let_def
    by (intro loop_event_matches) (auto intro!: reopen_matches split: option.split)
qed

lemma daemon_guard: "daemon_run d \<Longrightarrow> guard_matches d"
proof (induction rule: daemon_run.induct)
  case (outside d w)
  then show ?case by (auto simp: guard_matches_def guard_flag_def database_def)
qed (simp_all add: start_matches loop_event_matches loop_tick_matches)

text \<open>A sync is such a change from outside: it moves neither the mode nor the guard.\<close>

definition standing_of :: "shared \<Rightarrow> runtime_mode \<times> bool option" where
  "standing_of w = (mode (sh_state w), map_option writes_allowed (sh_storage w))"

lemma standing_with:
  "(\<And>s t. f s = Inr t \<Longrightarrow> writes_allowed t = writes_allowed s) \<Longrightarrow> standing_of (with_storage f w) = standing_of w"
  using with_storage_flag[of f w] by (simp add: standing_of_def)

lemma layout_keeps_flag:
  "save_layout scr l s = Inr t \<Longrightarrow> writes_allowed t = writes_allowed s"
  "delete_layout scr s = Inr t \<Longrightarrow> writes_allowed t = writes_allowed s"
  by (auto simp: save_layout_def delete_layout_def no_table_def dest!: guarded_ok split: option.splits)

lemma standing_update:
  "(\<And>s. mode (f s) = mode s) \<Longrightarrow> standing_of (update_shared_state f w) = standing_of w"
  "standing_of (w\<lparr>sh_pending := p\<rparr>) = standing_of w"
  by (simp_all add: standing_of_def)

lemmas standing_simps = standing_with[OF writes_keep_flag(1)] standing_with[OF writes_keep_flag(2)]
  standing_with[OF writes_keep_flag(3)] standing_with[OF layout_keeps_flag(1)] standing_with[OF layout_keeps_flag(2)]
  standing_update

lemma sync_keeps_standing:
  assumes "\<And>n w. standing_of (others e n w) = standing_of w"
  shows "standing_of (fst (perform_sync e w)) = standing_of w"
proof -
  note keep = assms standing_simps
  have send: "standing_of (fst (send_counters e info f is k err w)) = standing_of w" for info f "is" k err w
  proof (induction "is" arbitrary: k err w)
    case (Cons i "is")
    show ?case
    proof (cases "answers e i")
      case (Answered ok m now)
      then show ?thesis using Cons keep by (cases ok) (simp_all add: Let_def split_beta)
    qed (use Cons keep in \<open>simp_all add: Let_def split_beta\<close>)
  qed simp
  have config: "standing_of (fst (drain_config e cfg w)) = standing_of w" for cfg w
    by (simp add: drain_config_def Let_def keep split: option.split)
  have layouts: "standing_of (fst (drain_layouts e n ls w)) = standing_of w" for n ls w
    by (induction ls arbitrary: n w) (auto simp: Let_def split_beta keep split: option.split)
  have finish: "standing_of (fst (finish_sync e info d k w)) = standing_of w" for info d k w
    by (simp add: finish_sync_def Let_def split_beta keep config layouts split: option.split)
  have conclude: "standing_of (fst (conclude_sync e info d x)) = standing_of (fst x)" for info d x
    by (simp add: conclude_sync_def split_beta finish keep split: option.split)
  have counters: "standing_of (fst (sync_counters e info held w)) = standing_of w" for info held w
    by (simp add: sync_counters_def Let_def conclude send keep del: send_counters.simps)
  show ?thesis
    by (simp add: perform_sync_def Let_def split_beta counters keep split: option.split)
qed

lemma sync_is_outside:
  assumes "daemon_run d" "\<And>n w. standing_of (others e n w) = standing_of w"
  shows "daemon_run (d\<lparr>dm_shared := fst (perform_sync e (dm_shared d))\<rparr>)"
  using sync_keeps_standing[OF assms(2), where w = "dm_shared d"]
  by (intro daemon_run.outside[OF assms(1)]) (simp_all add: standing_of_def)

section \<open>The database during a play\<close>

lemma permitted_tables:
  assumes "list_all (permitted s) acts" "\<not> storage_mode (mode s)" "saveless acts"
  shows "tables (run_actions le acts d) = tables d"
  using assms(1,3)
proof (induction acts arbitrary: d)
  case (Cons a acts)
  then show ?case using action_permitted(1)[OF _ assms(2), of a le d] by (simp add: run_actions_def)
qed (simp add: run_actions_def)

lemma closed_tables:
  assumes "list_all (permitted s) acts" "\<not> storage_mode (mode s)" "guard_closed d"
  shows "database (run_actions le acts d) = database d"
  using assms(1,3)
proof (induction acts arbitrary: d)
  case (Cons a acts)
  have "a \<noteq> SetStorageWritesAllowed True" using Cons.prems(1) assms(2) by auto
  then have "database (run_action le a d) = database d" by (rule action_closed[OF Cons.prems(2)])
  moreover have "guard_closed (run_action le a d)"
    using calculation Cons.prems(2) by (simp add: guard_closed_def)
  ultimately show ?case using Cons by (simp add: run_actions_def)
qed (simp add: run_actions_def)

lemma loop_event_tables:
  assumes "guard_matches d" "\<not> storage_mode (mode_of (loop_event le ev now d))"
  shows "tables (loop_event le ev now d) = tables d"
proof -
  obtain c0 c p where c0: "state c0 = sh_state (dm_shared d)"
    and run: "loop_event le ev now d = run_actions le (snd (on_event (le_env le) ev now c0))
       (d\<lparr>dm_controller := c, dm_shared := (dm_shared d)
          \<lparr>sh_state := state (fst (on_event (le_env le) ev now c0)), sh_pending := p\<rparr>\<rparr>)"
    by (rule loop_event_parts)
  let ?s = "state (fst (on_event (le_env le) ev now c0))" let ?acts = "snd (on_event (le_env le) ev now c0)"
  let ?d = "d\<lparr>dm_controller := c, dm_shared := (dm_shared d)\<lparr>sh_state := ?s, sh_pending := p\<rparr>\<rparr>"
  have same: "database ?d = database d" by (simp add: database_def)
  have closed: "\<not> storage_mode (mode ?s)" using assms(2) by (simp add: run actions_mode)
  note allowed = event_permitted[of "le_env le" ev now c0]
  show ?thesis
  proof (cases "saveless ?acts")
    case True
    have "tables (run_actions le ?acts ?d) = tables ?d" by (rule permitted_tables[OF allowed closed True])
    then show ?thesis by (simp add: run tables_def same)
  next
    case False
    then have "mode ?s = mode_of d" using config_saved_in_same_mode[OF False] by (simp add: c0)
    then have "guard_closed ?d"
      using assms(1) closed by (auto simp: guard_matches_def guard_flag_def guard_closed_def same split: option.splits)
    then have "database (run_actions le ?acts ?d) = database ?d" by (rule closed_tables[OF allowed closed])
    then show ?thesis by (simp add: run tables_def same)
  qed
qed


definition demo_loop :: loop_env where
  "demo_loop = \<lparr>le_env = demo_env, le_now = ''2026'', le_owner = None, le_backup_written = True,
     le_removable = (\<lambda>n. True), le_file_time = (\<lambda>t. []), le_stamp = (\<lambda>t. [])\<rparr>"

definition demo_daemon :: "storage \<Rightarrow> daemon" where
  "demo_daemon s = start_daemon demo_loop (\<lambda>t. None) ''id'' (\<lambda>t. None) None (Inr s) 0"

lemma loop_event_mode:
  obtains c0 where "state c0 = sh_state (dm_shared d)"
    "mode_of (loop_event le ev now d) = mode (state (fst (on_event (le_env le) ev now c0)))"
  by (rule loop_event_parts[of d le ev now]) (simp add: actions_mode)

lemma demo_daemon_runs: "open_storage f = Inr s \<Longrightarrow> daemon_run (demo_daemon s)"
  unfolding demo_daemon_def by (rule daemon_run.start) auto

lemma demo_daemon_plays: "mode_of (loop_event demo_loop (TosuTelemetry (demo_frame True)) 0 d) = Playing"
  by (rule loop_event_mode[of d demo_loop "TosuTelemetry (demo_frame True)" 0])
    (simp add: mode_timers timers_telemetry demo_frame_def)


text \<open>
  A database that comes back is installed with writes allowed in every mode, a play included, and
  stays so until the next change of mode: the actions of the event that announces it are dropped,
  and nothing sets the guard. This is the one way around the guard of plays.
\<close>

theorem reopened_database_is_unguarded:
  assumes "open_storage f = Inr s"
  shows "mode (sh_state (dm_shared (reopen le from_json (Inr s) now d))) = mode (sh_state (dm_shared d))
    \<and> sh_storage (dm_shared (reopen le from_json (Inr s) now d)) = Some s \<and> writes_allowed s"
  using reopen_shape[of le from_json "Inr s" now d] open_allows_writes[OF assms] by (simp add: database_def)

theorem reopened_database_is_unguarded_witness:
  "\<exists>s d. open_storage empty_database = Inr s \<and> mode (sh_state (dm_shared d)) = Playing
    \<and> mode (sh_state (dm_shared (reopen demo_loop (\<lambda>t. None) (Inr s) 0 d))) = Playing \<and> writes_allowed s"
proof -
  have "is_ok (open_storage empty_database)" by code_simp
  then obtain s where s: "open_storage empty_database = Inr s" by (auto simp: is_ok_def split: sum.splits)
  let ?d = "loop_event demo_loop (TosuTelemetry (demo_frame True)) 0 (demo_daemon s)"
  have "mode_of ?d = Playing" by (rule demo_daemon_plays)
  with s reopened_database_is_unguarded[OF s, of demo_loop "\<lambda>t. None" 0 ?d] show ?thesis by auto
qed

section \<open>The identity\<close>

text \<open>
  The identity is generated once: what one start returns the next returns too, from the database as
  the first left it, without writing again; an identity that could not be saved is not handed out.
\<close>

theorem identity_is_stable:
  assumes "load_or_create e fresh db = (Some i, db')" "parse_owner_id e fresh \<noteq> None"
  shows "load_or_create e other db' = (Some i, db')"
proof -
  obtain s where db: "db = Some s" using assms(1) by (auto simp: load_or_create_def split: option.splits)
  obtain found where found: "get_app_state INSTALL_ID_KEY s = Inr found"
    using assms(1) by (auto simp: load_or_create_def db split: sum.splits)
  show ?thesis
  proof (cases "case found of Some i \<Rightarrow> parse_owner_id e i \<noteq> None | None \<Rightarrow> False")
    case True
    then show ?thesis using assms(1) found by (auto simp: load_or_create_def db split: option.splits)
  next
    case False
    then obtain s' where s': "set_app_state INSTALL_ID_KEY fresh s = Inr s'" "i = fresh" "db' = Some s'"
      using assms(1) found by (auto simp: load_or_create_def db split: option.splits sum.splits if_splits)
    then have "get_app_state INSTALL_ID_KEY s' = Inr (Some fresh)"
      by (auto simp: set_app_state_def get_app_state_def no_table_def map_of_put dest!: guarded_ok split: option.splits)
    then show ?thesis using assms(2) s' by (simp add: load_or_create_def split: option.split)
  qed
qed

theorem identity_is_stable_witness:
  "\<exists>s t. open_storage empty_database = Inr s
    \<and> load_or_create (demo_env\<lparr>uuid_parse := (\<lambda>t. if t = ''id'' then Some [1] else None)\<rparr>) ''id'' (Some s) = (Some ''id'', Some t)
    \<and> load_or_create (demo_env\<lparr>uuid_parse := (\<lambda>t. if t = ''id'' then Some [1] else None)\<rparr>) ''new'' (Some t) = (Some ''id'', Some t)"
  (is "\<exists>s t. _ \<and> load_or_create ?e _ _ = _ \<and> _")
proof -
  have "case open_storage empty_database of Inl err \<Rightarrow> False
      | Inr s \<Rightarrow> get_app_state INSTALL_ID_KEY s = Inr None \<and> is_ok (set_app_state INSTALL_ID_KEY ''id'' s)" by code_simp
  then obtain s t where "open_storage empty_database = Inr s" "get_app_state INSTALL_ID_KEY s = Inr None"
      "set_app_state INSTALL_ID_KEY ''id'' s = Inr t"
    by (auto simp: is_ok_def split: sum.splits)
  moreover from this have "load_or_create ?e ''id'' (Some s) = (Some ''id'', Some t)" by (simp add: load_or_create_def)
  from identity_is_stable[OF this, of "''new''"]
  have "load_or_create ?e ''new'' (Some t) = (Some ''id'', Some t)" by (simp add: parse_owner_id_def)
  ultimately show ?thesis using \<open>load_or_create ?e ''id'' (Some s) = (Some ''id'', Some t)\<close> by blast
qed

end
