(* ===== verification/Log_Hub.thy ===== *)
theory Log_Hub
  imports Runtime
begin

text \<open>
  The daemon's log in memory, \<open>daemon/src/log_hub.rs\<close> with \<open>opad-model/src/log.rs\<close>, and how the GUI
  and the command line poll it. Times are wall-clock instants of nanoseconds, read by the caller.
\<close>

datatype log_source = SourceHost | SourceEsp | SourceProgram | SourceTosu

record log_entry =
  le_seq :: u64
  le_ts :: int
  le_source :: log_source
  le_level :: log_level
  le_target :: string
  le_message :: string

record log_hub =
  hub_entries :: "log_entry list"
  hub_next_seq :: u64

definition LOG_HUB_CAPACITY :: nat where "LOG_HUB_CAPACITY = 2000"

definition new_log_hub :: log_hub where "new_log_hub = \<lparr>hub_entries = [], hub_next_seq = 1\<rparr>"

definition DAY_AGO :: int where "DAY_AGO = 24 * 60 * 60 * 1000000000"

text \<open>The clock is read for the cut-off and again for the entry.\<close>

definition hub_push :: "log_source \<Rightarrow> log_level \<Rightarrow> string \<Rightarrow> string \<Rightarrow> int \<Rightarrow> int \<Rightarrow> log_hub \<Rightarrow> log_hub" where
  "hub_push src level tgt msg cut_clock clock h =
     (let kept = (if LOG_HUB_CAPACITY \<le> length (hub_entries h) then tl (hub_entries h) else hub_entries h);
          kept = filter (\<lambda>e. cut_clock - DAY_AGO \<le> le_ts e) kept
      in \<lparr>hub_entries = kept @ [\<lparr>le_seq = hub_next_seq h, le_ts = clock, le_source = src, le_level = level,
           le_target = tgt, le_message = msg\<rparr>],
         hub_next_seq = hub_next_seq h + 1\<rparr>)"

fun level_rank :: "log_level \<Rightarrow> nat" where
  "level_rank LevelDebug = 0"
| "level_rank LevelInfo = 1"
| "level_rank LevelWarn = 2"
| "level_rank LevelError = 3"

definition entry_matches :: "log_level option \<Rightarrow> log_source option \<Rightarrow> log_entry \<Rightarrow> bool" where
  "entry_matches level src e \<longleftrightarrow>
     (case level of None \<Rightarrow> True | Some l \<Rightarrow> level_rank l \<le> level_rank (le_level e))
     \<and> (case src of None \<Rightarrow> True | Some s \<Rightarrow> le_source e = s)"

text \<open>\<open>next_seq.saturating_sub(1)\<close>.\<close>

definition hub_latest :: "log_hub \<Rightarrow> u64" where
  "hub_latest h = (if hub_next_seq h = 0 then 0 else hub_next_seq h - 1)"

definition get_matching_entries :: "u64 option \<Rightarrow> nat \<Rightarrow> log_level option \<Rightarrow> log_source option \<Rightarrow> log_hub
    \<Rightarrow> log_entry list \<times> u64" where
  "get_matching_entries since limit level src h =
     ((case since of
         Some n \<Rightarrow> take limit (filter (entry_matches level src) (filter (\<lambda>e. n < le_seq e) (hub_entries h)))
       | None \<Rightarrow> let matching = filter (entry_matches level src) (hub_entries h)
           in drop (length matching - limit) matching),
      hub_latest h)"

definition get_entries :: "u64 option \<Rightarrow> nat \<Rightarrow> log_hub \<Rightarrow> log_entry list \<times> u64" where
  "get_entries since limit h = get_matching_entries since limit None None h"

section \<open>Polling\<close>

definition next_log_cursor :: "u64 \<Rightarrow> log_entry list \<Rightarrow> u64 \<Rightarrow> u64" where
  "next_log_cursor cursor es latest =
     (if es \<noteq> [] then le_seq (last es) else if 0 < latest then latest else cursor)"

definition next_since_seq :: "u64 option \<Rightarrow> log_entry list \<Rightarrow> u64 option" where
  "next_since_seq since es = (if es \<noteq> [] then Some (le_seq (last es)) else since)"

text \<open>What the GUI shows: an entry with the source and number of one already shown is left out.\<close>

definition GUI_LOG_CAPACITY :: nat where "GUI_LOG_CAPACITY = 5000"

definition add_shown :: "log_entry \<Rightarrow> log_entry list \<Rightarrow> log_entry list" where
  "add_shown e shown =
     (if list_ex (\<lambda>d. le_source d = le_source e \<and> le_seq d = le_seq e) shown then shown else shown @ [e])"

definition prune_logs :: "int \<Rightarrow> log_entry list \<Rightarrow> log_entry list" where
  "prune_logs clock shown =
     (let shown = filter (\<lambda>e. clock - DAY_AGO \<le> le_ts e) shown in drop (length shown - GUI_LOG_CAPACITY) shown)"

definition gui_logs_received :: "int \<Rightarrow> log_entry list \<Rightarrow> log_entry list \<Rightarrow> log_entry list" where
  "gui_logs_received clock es shown = prune_logs clock (fold add_shown es shown)"

text \<open>Polls of the command line with one filter, until the limit times the polls is reached.\<close>

fun poll_log :: "nat \<Rightarrow> nat \<Rightarrow> log_level option \<Rightarrow> log_source option \<Rightarrow> log_hub \<Rightarrow> u64 \<Rightarrow> log_entry list \<times> u64" where
  "poll_log 0 limit level src h c = ([], c)"
| "poll_log (Suc k) limit level src h c =
     (let (es, latest) = get_matching_entries (Some c) limit level src h;
          (rest, c') = poll_log k limit level src h (next_log_cursor c es latest)
      in (es @ rest, c'))"

section \<open>The log's invariant\<close>

definition hub_ok :: "log_hub \<Rightarrow> bool" where
  "hub_ok h \<longleftrightarrow> length (hub_entries h) \<le> LOG_HUB_CAPACITY \<and> sorted_wrt (<) (map le_seq (hub_entries h))
     \<and> (\<forall>e \<in> set (hub_entries h). 0 < le_seq e \<and> le_seq e < hub_next_seq h)"

lemma hub_ok_push:
  assumes "hub_ok h" "hub_next_seq h \<noteq> -1" "hub_next_seq h \<noteq> 0"
  shows "hub_ok (hub_push src level tgt msg c1 c2 h)"
proof -
  define kept where "kept = filter (\<lambda>e. c1 - DAY_AGO \<le> le_ts e)
      (if LOG_HUB_CAPACITY \<le> length (hub_entries h) then tl (hub_entries h) else hub_entries h)"
  have "1 + hub_next_seq h \<noteq> 0" using assms(2) by (metis add_eq_0_iff minus_minus)
  then have up: "hub_next_seq h < hub_next_seq h + 1"
    unfolding word_less_nat_alt by (simp add: unatSuc add.commute)
  have "length kept < LOG_HUB_CAPACITY"
    unfolding kept_def by (rule le_less_trans[OF length_filter_le]) (use assms(1) in \<open>auto simp: hub_ok_def LOG_HUB_CAPACITY_def\<close>)
  moreover have "set kept \<subseteq> set (hub_entries h)"
    unfolding kept_def by (cases "hub_entries h") auto
  moreover have "sorted_wrt (<) (map le_seq kept)"
    using assms(1) unfolding kept_def hub_ok_def
    by (cases "hub_entries h") (auto simp: sorted_wrt_map intro!: sorted_wrt_filter)
  ultimately show ?thesis
    using assms up unfolding hub_ok_def hub_push_def Let_def kept_def[symmetric]
    by (auto simp: sorted_wrt_append word_gt_0 dest: less_trans)
qed


lemma hub_ok_new: "hub_ok new_log_hub"
  by (simp add: hub_ok_def new_log_hub_def)

section \<open>Polling misses nothing\<close>

text \<open>What lies ahead of a cursor.\<close>

definition ahead :: "log_level option \<Rightarrow> log_source option \<Rightarrow> log_hub \<Rightarrow> u64 \<Rightarrow> log_entry list" where
  "ahead level src h c = filter (\<lambda>e. entry_matches level src e \<and> c < le_seq e) (hub_entries h)"

lemma sorted_ahead: "hub_ok h \<Longrightarrow> sorted_wrt (<) (map le_seq (ahead level src h c))"
  by (auto simp: hub_ok_def ahead_def sorted_wrt_map intro!: sorted_wrt_filter)

lemma get_ahead: "get_matching_entries (Some c) limit level src h = (take limit (ahead level src h c), hub_latest h)"
  by (simp add: get_matching_entries_def ahead_def filter_filter conj_commute)

lemma latest_ahead:
  assumes "hub_ok h" "hub_next_seq h \<noteq> 0" shows "ahead level src h (hub_latest h) = []"
proof -
  have "le_seq e \<le> hub_next_seq h - 1" if "e \<in> set (hub_entries h)" for e
  proof -
    have "unat (le_seq e) < unat (hub_next_seq h)" using assms(1) that unfolding hub_ok_def word_less_nat_alt by blast
    then show ?thesis using assms(2) by (simp add: word_le_nat_alt unat_minus_one)
  qed
  then show ?thesis using assms(2) by (auto simp: ahead_def hub_latest_def filter_empty_conv not_less)
qed

text \<open>The entries ahead of the last one taken are those not taken.\<close>

lemma filter_after_take:
  fixes f :: "'a \<Rightarrow> 'b::linorder"
  assumes "sorted_wrt (<) (map f xs)" "take n xs \<noteq> []"
  shows "filter (\<lambda>e. f (last (take n xs)) < f e) xs = drop n xs"
proof -
  have "sorted_wrt (<) (map f (take n xs @ drop n xs))" using assms(1) by simp
  then have "\<forall>x \<in> set (take n xs). \<forall>y \<in> set (drop n xs). f x < f y" "sorted_wrt (<) (map f (take n xs))"
    unfolding map_append sorted_wrt_append by auto
  moreover obtain ys y where split: "take n xs = ys @ [y]" using assms(2) rev_exhaust by blast
  ultimately have "\<forall>x \<in> set (take n xs). \<not> f y < f x" "\<forall>x \<in> set (drop n xs). f y < f x"
    by (auto simp: sorted_wrt_append)
  moreover have "filter (\<lambda>e. f y < f e) xs = filter (\<lambda>e. f y < f e) (take n xs) @ filter (\<lambda>e. f y < f e) (drop n xs)"
    by (metis append_take_drop_id filter_append)
  ultimately show ?thesis using split by (simp add: filter_False filter_True)
qed

lemma ahead_of_last:
  assumes "hub_ok h" "take limit (ahead level src h c) \<noteq> []"
  shows "ahead level src h (le_seq (last (take limit (ahead level src h c)))) = drop limit (ahead level src h c)"
proof -
  let ?l = "last (take limit (ahead level src h c))"
  have "?l \<in> set (ahead level src h c)" using in_set_takeD[OF last_in_set[OF assms(2)]] .
  then have "c < le_seq ?l" by (simp add: ahead_def)
  then have "ahead level src h (le_seq ?l) = filter (\<lambda>e. le_seq ?l < le_seq e) (ahead level src h c)"
    unfolding ahead_def filter_filter using less_trans by (intro filter_cong refl) blast
  then show ?thesis using filter_after_take[OF sorted_ahead[OF assms(1)] assms(2)] by simp
qed

lemma poll_log_ahead:
  assumes "hub_ok h" "hub_next_seq h \<noteq> 0"
  shows "fst (poll_log k limit level src h c) = take (k * limit) (ahead level src h c)"
proof (induction k arbitrary: c)
  case (Suc k)
  let ?es = "take limit (ahead level src h c)"
  let ?c = "next_log_cursor c ?es (hub_latest h)"
  have "?es @ take (k * limit) (ahead level src h ?c) = take (Suc k * limit) (ahead level src h c)"
  proof (cases "?es = []")
    case True
    then have "ahead level src h c = [] \<or> limit = 0" by auto
    moreover have "ahead level src h c = [] \<Longrightarrow> ahead level src h ?c = []"
      using latest_ahead[OF assms] True by (auto simp: next_log_cursor_def)
    ultimately show ?thesis using True by auto
  next
    case False
    then have "ahead level src h ?c = drop limit (ahead level src h c)"
      using ahead_of_last[OF assms(1)] by (simp add: next_log_cursor_def)
    then show ?thesis by (simp add: take_add)
  qed
  with Suc show ?case by (simp add: get_ahead split_beta)
qed simp

text \<open>
  A reader that polls with its cursor, any filter and any limit above zero gets every matching entry
  that the log still holds after its cursor, each once and in order, however many polls that takes.
\<close>

lemma polling_misses_nothing:
  assumes "hub_ok h" and "hub_next_seq h \<noteq> 0" and "length (ahead level src h c) \<le> k * limit"
  shows "fst (poll_log k limit level src h c) = ahead level src h c
    \<and> sorted_wrt (<) (map le_seq (fst (poll_log k limit level src h c)))"
  using poll_log_ahead[OF assms(1,2), of k limit level src c] assms(3) sorted_ahead[OF assms(1)] by simp

definition demo_log :: log_hub where
  "demo_log = hub_push SourceEsp LevelWarn ''c'' ''3'' 0 2 (hub_push SourceHost LevelDebug ''b'' ''2'' 0 1
     (hub_push SourceHost LevelError ''a'' ''1'' 0 0 new_log_hub))"

lemma polling_misses_nothing_witness:
  "map le_message (fst (poll_log 2 1 (Some LevelWarn) None demo_log 0)) = [''1'', ''3'']"
proof -
  have ok: "hub_ok demo_log" "hub_next_seq demo_log \<noteq> 0"
    unfolding demo_log_def by (intro hub_ok_push hub_ok_new; simp add: hub_push_def new_log_hub_def Let_def)
      (simp add: hub_push_def new_log_hub_def Let_def)
  have entries: "map le_message (ahead (Some LevelWarn) None demo_log 0) = [''1'', ''3'']"
    by (simp add: demo_log_def hub_push_def new_log_hub_def Let_def ahead_def entry_matches_def DAY_AGO_def
        LOG_HUB_CAPACITY_def)
  then have "length (map le_message (ahead (Some LevelWarn) None demo_log 0)) = 2" by simp
  then have "length (ahead (Some LevelWarn) None demo_log 0) \<le> 2 * 1" by simp
  from polling_misses_nothing[OF ok this] entries show ?thesis by simp
qed

end
