(* ===== verification/Flash.thy ===== *)
theory Flash
  imports Ports Install
begin

text \<open>
  Flashing: \<open>crates/opad-device/src/flash.rs\<close>. The update goes into the slot that does not run,
  and \<open>otadata\<close> selects it for one trial boot. The external flasher, the pad's bootloader and the
  serial port are parameters; what they are documented to do is a named predicate. Files are those
  of \<open>Install\<close>, whose bytes are characters.
\<close>

section \<open>Boot selection\<close>

definition APP_PARTITION_OFFSET :: u32 where "APP_PARTITION_OFFSET = 0x20000"
definition OTA_1_OFFSET :: u32 where "OTA_1_OFFSET = 0x220000"
definition OTADATA_OFFSET :: u32 where "OTADATA_OFFSET = 0xf000"
definition OTADATA_SIZE :: nat where "OTADATA_SIZE = 0x2000"
definition OTADATA_SECTOR :: nat where "OTADATA_SECTOR = 0x1000"
definition OTA_IMG_NEW :: u32 where "OTA_IMG_NEW = 0"
definition OTA_IMG_VALID :: u32 where "OTA_IMG_VALID = 2"

definition le32 :: "u32 \<Rightarrow> u8 list" where "le32 w = le_bytes 4 (unat w)"

definition crc_bit :: "u32 \<Rightarrow> u32" where
  "crc_bit crc = (if bit crc 0 then xor (drop_bit 1 crc) 0xEDB88320 else drop_bit 1 crc)"

definition crc_byte :: "u8 \<Rightarrow> u32 \<Rightarrow> u32" where
  "crc_byte b crc = (crc_bit ^^ 8) (xor crc (ucast b))"

definition otadata_crc :: "u32 \<Rightarrow> u32" where
  "otadata_crc sq = not (fold crc_byte (le32 sq) (not 0xFFFFFFFF))"

definition copy_at :: "nat \<Rightarrow> u8 list \<Rightarrow> u8 list \<Rightarrow> u8 list" where
  "copy_at off xs out = take off out @ xs @ drop (off + length xs) out"

definition ota_entry :: "nat \<Rightarrow> u32 \<Rightarrow> u32 \<Rightarrow> u8 list \<Rightarrow> u8 list" where
  "ota_entry sector sq st out =
     (let e = sector * OTADATA_SECTOR in
      copy_at (e + 28) (le32 (otadata_crc sq)) (copy_at (e + 24) (le32 st) (copy_at e (le32 sq) out)))"

definition old_seq :: "u8 \<Rightarrow> u32" where "old_seq old_slot = ucast old_slot + 1"

definition new_seq :: "u8 \<Rightarrow> u8 \<Rightarrow> u32" where
  "new_seq old_slot new_slot =
     (if old_seq old_slot < ucast new_slot + 1 then ucast new_slot + 1 else ucast new_slot + 3)"

definition otadata_image :: "u8 \<Rightarrow> u8 \<Rightarrow> u8 list" where
  "otadata_image old_slot new_slot =
     ota_entry 1 (new_seq old_slot new_slot) OTA_IMG_NEW
       (ota_entry 0 (old_seq old_slot) OTA_IMG_VALID (replicate OTADATA_SIZE 0xFF))"

section \<open>The plan\<close>

datatype flash_error = NoDevice | PortBusy string string | NoBootloader | AmbiguousBootloader "string list"
  | EspflashMissing string | EspflashFailed path u32 "int option" | ResetFailed string | FlashIo

record app_update_plan =
  images :: "(u32 \<times> path) list"
  target_slot :: "string option"

definition OTADATA_FILE :: string where "OTADATA_FILE = ''opad-otadata.bin''"

definition text_of :: "u8 list \<Rightarrow> string" where "text_of bs = map (\<lambda>b. char_of (unat b)) bs"
definition bytes_of :: "string \<Rightarrow> u8 list" where "bytes_of s = map (\<lambda>c. word_of_nat (byte c)) s"

text \<open>The slots the update leaves and goes to.\<close>

definition slots_for :: "string option \<Rightarrow> (u8 \<times> u8) option" where
  "slots_for running =
     (if running = Some ''ota_0'' then Some (0, 1)
      else if running = Some ''ota_1'' then Some (1, 0) else None)"

text \<open>\<open>std::fs::write\<close>: the file is created and written, without a sync.\<close>

definition write_plain :: "path \<Rightarrow> string \<Rightarrow> unit io" where
  "write_plain p bytes = io_bind (step (Create p)) (\<lambda>_. append_all p bytes)"

definition plan_app_update :: "path \<Rightarrow> string option \<Rightarrow> string
    \<Rightarrow> disk \<Rightarrow> (flash_error, app_update_plan) result \<times> disk" where
  "plan_app_update app running scratch d =
     (case slots_for running of
        None \<Rightarrow> (Inr \<lparr>images = [(APP_PARTITION_OFFSET, app)], target_slot = None\<rparr>, d)
      | Some (old, new) \<Rightarrow>
          (let otadata = (scratch, OTADATA_FILE);
               off = (if new = 0 then APP_PARTITION_OFFSET else OTA_1_OFFSET)
           in case write_plain otadata (text_of (otadata_image old new)) d of
                (Inl err, d) \<Rightarrow> (Inl FlashIo, d)
              | (Inr _, d) \<Rightarrow> (Inr \<lparr>images = [(off, app), (OTADATA_OFFSET, otadata)],
                    target_slot = Some (if new = 0 then ''ota_0'' else ''ota_1'')\<rparr>, d)))"

section \<open>Writing the images\<close>

text \<open>
  The memory of the pad, by address, and the flasher: from the offset and the file's bytes to
  whether the process exited with success, its exit code, and the memory it leaves.
\<close>

type_synonym memory = "nat \<Rightarrow> u8"

datatype flasher_exit = CannotRun string | Exited bool "int option"

type_synonym flasher = "u32 \<Rightarrow> u8 list option \<Rightarrow> memory \<Rightarrow> flasher_exit \<times> memory"

fun write_images :: "flasher \<Rightarrow> files \<Rightarrow> (u32 \<times> path) list \<Rightarrow> memory \<Rightarrow> (flash_error, unit) result \<times> memory" where
  "write_images run f [] m = (Inr (), m)"
| "write_images run f ((off, p) # ps) m =
     (case run off (map_option bytes_of (f p)) m of
        (CannotRun why, m) \<Rightarrow> (Inl (EspflashMissing why), m)
      | (Exited success code, m) \<Rightarrow>
          if success then write_images run f ps m else (Inl (EspflashFailed p off code), m))"

text \<open>The whole sequence: \<open>entered\<close> is how the reboot into the bootloader ends, \<open>left\<close> the way back.\<close>

definition run_flash :: "flasher \<Rightarrow> (flash_error, string) result \<Rightarrow> (string \<Rightarrow> (flash_error, unit) result) \<Rightarrow> files
    \<Rightarrow> (u32 \<times> path) list \<Rightarrow> memory \<Rightarrow> (flash_error, unit) result \<times> memory" where
  "run_flash run entered left f ps m =
     (case entered of
        Inl err \<Rightarrow> (Inl err, m)
      | Inr boot_port \<Rightarrow>
          (case write_images run f ps m of
             (Inl err, m) \<Rightarrow> (Inl err, m)
           | (Inr _, m) \<Rightarrow> (left boot_port, m)))"

section \<open>The image\<close>

definition ESP32S3_CHIP_ID :: nat where "ESP32S3_CHIP_ID = 9"

datatype image_fault = TooSmall | WrongMagic u8 | WrongChip nat

definition check_esp32s3_image :: "u8 list \<Rightarrow> (image_fault, unit) result" where
  "check_esp32s3_image h =
     (if length h < 16 then Inl TooSmall
      else if h ! 0 \<noteq> 0xE9 then Inl (WrongMagic (h ! 0))
      else let chip_id = of_le [h ! 12, h ! 13] in
        if chip_id \<noteq> ESP32S3_CHIP_ID then Inl (WrongChip chip_id) else Inr ())"

definition check_esp32s3_image_file :: "files \<Rightarrow> path \<Rightarrow> (image_fault option, unit) result" where
  "check_esp32s3_image_file f p =
     (case f p of
        None \<Rightarrow> Inl None
      | Some text \<Rightarrow> (case check_esp32s3_image (take 16 (bytes_of text)) of Inl e \<Rightarrow> Inl (Some e) | Inr u \<Rightarrow> Inr u))"


section \<open>Into the bootloader\<close>

text \<open>
  What the world shows while the pad is rebooted: the ports at each look, whether the app's port can
  be opened before a trigger and the trigger sent, and how often the ports are looked at after it.
\<close>

datatype boot_trigger = Command | BaudTouch

definition BOOT_TRIGGERS :: "boot_trigger list" where "BOOT_TRIGGERS = [Command, BaudTouch]"

record boot_env =
  look :: "nat \<Rightarrow> serial_port list option"
  path_of :: "string \<Rightarrow> string option"
  openable :: "boot_trigger \<Rightarrow> (flash_error, unit) result"
  pulse_trigger :: "boot_trigger \<Rightarrow> (flash_error, unit) result"
  polls :: "boot_trigger \<Rightarrow> nat"

definition boot_ports_at :: "boot_env \<Rightarrow> nat \<Rightarrow> bootloader_port list" where
  "boot_ports_at e n = bootloader_ports (path_of e) (look e n)"

definition is_bootloader_port :: "boot_env \<Rightarrow> nat \<Rightarrow> string \<Rightarrow> bool" where
  "is_bootloader_port e n p \<longleftrightarrow> list_ex (\<lambda>b. boot_name b = p) (boot_ports_at e n)"

definition pick :: "boot_env \<Rightarrow> pad_location \<Rightarrow> string list \<Rightarrow> nat \<Rightarrow> (flash_error, string option) result" where
  "pick e pad preexisting n =
     (case select_bootloader_port (boot_ports_at e n) pad preexisting of
        BootFound p \<Rightarrow> Inr (Some p)
      | BootNone \<Rightarrow> Inr None
      | BootAmbiguous ps \<Rightarrow> Inl (AmbiguousBootloader ps))"

definition port_present :: "boot_env \<Rightarrow> nat \<Rightarrow> string \<Rightarrow> bool" where
  "port_present e n p = (case look e n of None \<Rightarrow> True | Some ps \<Rightarrow> list_ex (\<lambda>q. port_name q = p) ps)"

definition unusable_app_port_error :: "flash_error \<Rightarrow> bool \<Rightarrow> bool \<Rightarrow> flash_error" where
  "unusable_app_port_error err fired present = (if fired \<and> \<not> present then NoBootloader else err)"

text \<open>A pick that ends the search: the port, or the error; \<open>None\<close> when it goes on.\<close>

definition decided :: "(flash_error, string option) result \<Rightarrow> (flash_error, string) result option" where
  "decided r = (case r of Inl e \<Rightarrow> Some (Inl e) | Inr (Some p) \<Rightarrow> Some (Inr p) | Inr None \<Rightarrow> None)"

fun poll_ports :: "boot_env \<Rightarrow> pad_location \<Rightarrow> string list \<Rightarrow> nat \<Rightarrow> nat \<Rightarrow> (flash_error, string) result option \<times> nat" where
  "poll_ports e pad preexisting 0 n = (None, n)"
| "poll_ports e pad preexisting (Suc k) n =
     (case decided (pick e pad preexisting n) of
        Some r \<Rightarrow> (Some r, Suc n)
      | None \<Rightarrow> poll_ports e pad preexisting k (Suc n))"

definition look_if :: "bool \<Rightarrow> boot_env \<Rightarrow> pad_location \<Rightarrow> string list \<Rightarrow> nat \<Rightarrow> (flash_error, string) result option \<times> nat" where
  "look_if fired e pad preexisting n = poll_ports e pad preexisting (if fired then 1 else 0) n"

fun try_triggers :: "boot_env \<Rightarrow> pad_location \<Rightarrow> string list \<Rightarrow> string \<Rightarrow> boot_trigger list \<Rightarrow> bool \<Rightarrow> flash_error option
    \<Rightarrow> nat \<Rightarrow> (flash_error, string) result" where
  "try_triggers e pad preexisting app [] fired last_err n =
     (case look_if fired e pad preexisting n of
        (Some r, n) \<Rightarrow> r
      | (None, n) \<Rightarrow> Inl (case last_err of Some err \<Rightarrow> err | None \<Rightarrow> NoBootloader))"
| "try_triggers e pad preexisting app (t # ts) fired last_err n =
     (case look_if fired e pad preexisting n of
        (Some r, n) \<Rightarrow> r
      | (None, n) \<Rightarrow>
          (case openable e t of
             Inl err \<Rightarrow>
               (case look_if fired e pad preexisting n of
                  (Some r, n) \<Rightarrow> r
                | (None, n) \<Rightarrow> try_triggers e pad preexisting app ts fired
                    (Some (unusable_app_port_error err fired (port_present e n app))) (Suc n))
           | Inr _ \<Rightarrow>
               (case pulse_trigger e t of
                  Inl err \<Rightarrow> try_triggers e pad preexisting app ts fired
                    (Some (unusable_app_port_error err fired (port_present e n app))) (Suc n)
                | Inr _ \<Rightarrow>
                    (case poll_ports e pad preexisting (polls e t) n of
                       (Some r, n) \<Rightarrow> r
                     | (None, n) \<Rightarrow> try_triggers e pad preexisting app ts True None n))))"

definition enter_bootloader :: "boot_env \<Rightarrow> string option \<Rightarrow> string option \<Rightarrow> (flash_error, string) result" where
  "enter_bootloader e app_port dev =
     (case app_port of
        None \<Rightarrow> (case decided (pick e \<lparr>mac = None, usb_path = None\<rparr> [] 0) of Some r \<Rightarrow> r | None \<Rightarrow> Inl NoDevice)
      | Some app \<Rightarrow>
          if is_bootloader_port e 0 app then Inr app
          else let pad = locate_pad (path_of e) (look e 1) app dev;
                   preexisting = map boot_name (boot_ports_at e 2)
            in try_triggers e pad preexisting app BOOT_TRIGGERS False None 3)"

section \<open>Leaving the bootloader\<close>

definition CMD_WRITE_REG :: u8 where "CMD_WRITE_REG = 9"
definition RTC_CNTL_OPTION1_REG :: u32 where "RTC_CNTL_OPTION1_REG = 0x6000812C"
definition RTC_CNTL_WDTCONFIG0_REG :: u32 where "RTC_CNTL_WDTCONFIG0_REG = 0x60008098"
definition RTC_CNTL_WDTCONFIG1_REG :: u32 where "RTC_CNTL_WDTCONFIG1_REG = 0x6000809C"
definition RTC_CNTL_WDTWPROTECT_REG :: u32 where "RTC_CNTL_WDTWPROTECT_REG = 0x600080B0"
definition RTC_CNTL_WDT_WKEY :: u32 where "RTC_CNTL_WDT_WKEY = 0x50D83AA1"
definition RTC_WDT_CONFIG0_RESET_RTC :: u32 where
  "RTC_WDT_CONFIG0_RESET_RTC = or (or (push_bit 31 1) (push_bit 28 5)) (or (push_bit 8 1) 2)"

fun slip_byte :: "u8 \<Rightarrow> u8 list" where
  "slip_byte b = (if b = 0xC0 then [0xDB, 0xDC] else if b = 0xDB then [0xDB, 0xDD] else [b])"

definition slip_encode :: "u8 list \<Rightarrow> u8 list" where
  "slip_encode packet = 0xC0 # concat (map slip_byte packet) @ [0xC0]"

text \<open>The bytes that come before the deadline; \<open>None\<close> when no frame is complete by then.\<close>

fun slip_read :: "u8 list \<Rightarrow> bool \<Rightarrow> bool \<Rightarrow> u8 list \<Rightarrow> (u8 list \<times> u8 list) option" where
  "slip_read frame in_frame escaped [] = None"
| "slip_read frame in_frame escaped (b # bs) =
     (if b = 0xC0 then
        (if \<not> in_frame then slip_read frame True escaped bs
         else if frame = [] then slip_read frame True escaped bs
         else Some (frame, bs))
      else if \<not> in_frame then slip_read frame in_frame escaped bs
      else if b = 0xDB \<and> \<not> escaped then slip_read frame True True bs
      else if b = 0xDC \<and> escaped then slip_read (frame @ [0xC0]) True False bs
      else if b = 0xDD \<and> escaped then slip_read (frame @ [0xDB]) True False bs
      else slip_read (frame @ [b]) True False bs)"

definition read_slip_frame :: "u8 list \<Rightarrow> (string, u8 list) result" where
  "read_slip_frame bs = (case slip_read [] False False bs of
      Some (frame, rest) \<Rightarrow> Inr frame
    | None \<Rightarrow> Inl ''timed out waiting for a bootloader reply'')"

definition register_packet :: "u32 \<Rightarrow> u32 \<Rightarrow> u8 list" where
  "register_packet addr value =
     (let body = concat (map le32 [addr, value, 0xFFFFFFFF, 0])
      in [0, CMD_WRITE_REG] @ le_bytes 2 (length body) @ le32 0 @ body)"

datatype register_fault = LinkFailed string | UnexpectedReply u32 "u8 list" | RegisterRejected u32 u8

definition check_reply :: "u32 \<Rightarrow> (string, u8 list) result \<Rightarrow> (register_fault, unit) result" where
  "check_reply addr r =
     (case r of
        Inl e \<Rightarrow> Inl (LinkFailed e)
      | Inr reply \<Rightarrow>
          if length reply < 10 \<or> reply ! 0 \<noteq> 1 \<or> reply ! 1 \<noteq> CMD_WRITE_REG then Inl (UnexpectedReply addr reply)
          else if reply ! 8 \<noteq> 0 then Inl (RegisterRejected addr (reply ! 8))
          else Inr ())"

text \<open>
  One register after the other, each with whether its answer is awaited; what was written and how it
  ended. \<open>link\<close> is how each write goes out and what comes back after it.
\<close>

fun write_regs :: "(nat \<Rightarrow> (string, u8 list) result) \<Rightarrow> nat \<Rightarrow> (u32 \<times> u32 \<times> bool) list
    \<Rightarrow> u8 list list \<times> (register_fault, unit) result" where
  "write_regs link n [] = ([], Inr ())"
| "write_regs link n ((addr, value, expect_reply) # rs) =
     (case link n of
        Inl e \<Rightarrow> ([], Inl (LinkFailed e))
      | Inr reply \<Rightarrow>
          let sent = slip_encode (register_packet addr value) in
          (case (if expect_reply then check_reply addr (read_slip_frame reply) else Inr ()) of
             Inl e \<Rightarrow> ([sent], Inl e)
           | Inr _ \<Rightarrow> (case write_regs link (Suc n) rs of (out, r) \<Rightarrow> (sent # out, r))))"

definition RESET_STEPS :: "(u32 \<times> u32 \<times> bool) list" where
  "RESET_STEPS = [(RTC_CNTL_OPTION1_REG, 0, True),
     (RTC_CNTL_WDTWPROTECT_REG, RTC_CNTL_WDT_WKEY, True),
     (RTC_CNTL_WDTCONFIG1_REG, 2000, True),
     (RTC_CNTL_WDTCONFIG0_REG, RTC_WDT_CONFIG0_RESET_RTC, True),
     (RTC_CNTL_WDTWPROTECT_REG, 0, False)]"

definition reset_to_app :: "(flash_error, unit) result \<Rightarrow> (nat \<Rightarrow> (string, u8 list) result) \<Rightarrow> (register_fault \<Rightarrow> string)
    \<Rightarrow> u8 list list \<times> (flash_error, unit) result" where
  "reset_to_app opened link message =
     (case opened of
        Inl e \<Rightarrow> ([], Inl e)
      | Inr _ \<Rightarrow> (case write_regs link 0 RESET_STEPS of
          (out, Inl e) \<Rightarrow> (out, Inl (ResetFailed (message e)))
        | (out, Inr _) \<Rightarrow> (out, Inr ())))"

end
