(* ===== verification/Flash_Safety.thy ===== *)
theory Flash_Safety
  imports Flash
begin

text \<open>
  What flashing promises, for every flasher and bootloader that do what they are documented to do:
  an update never touches the slot that runs, a finished one boots the new slot with the old one
  valid behind it, and only the pad's own bootloader is written to.
\<close>

section \<open>SLIP\<close>

lemma slip_read_byte:
  "slip_read frame True False (slip_byte b @ bs) = slip_read (frame @ [b]) True False bs"
  by simp

lemma slip_read_bytes:
  "slip_read frame True False (concat (map slip_byte p) @ bs) = slip_read (frame @ p) True False bs"
proof (induction p arbitrary: frame)
  case (Cons b p)
  have "slip_read frame True False (slip_byte b @ concat (map slip_byte p) @ bs)
      = slip_read (frame @ [b]) True False (concat (map slip_byte p) @ bs)"
    by (rule slip_read_byte)
  with Cons.IH[of "frame @ [b]"] show ?case by (simp del: slip_byte.simps slip_read.simps)
qed simp

lemma slip_read_noise: "0xC0 \<notin> set noise \<Longrightarrow> slip_read [] False False (noise @ bs) = slip_read [] False False bs"
  by (induction noise) auto

text \<open>
  What \<open>slip_encode\<close> writes is read back, whatever bytes without a delimiter come before it and
  whatever follows.
\<close>

lemma slip_roundtrip:
  assumes "p \<noteq> []" and "0xC0 \<notin> set noise"
  shows "read_slip_frame (noise @ slip_encode p @ follow) = Inr p"
proof -
  have "slip_read [] True False (concat (map slip_byte p) @ 0xC0 # follow) = Some (p, follow)"
    using assms(1) by (simp add: slip_read_bytes)
  with slip_read_noise[OF assms(2)] show ?thesis
    by (simp add: read_slip_frame_def slip_encode_def)
qed

lemma slip_roundtrip_witness:
  "read_slip_frame ([1, 2] @ slip_encode [0xC0, 7, 0xDB] @ [0xC0]) = Inr [0xC0, 7, 0xDB]"
  by (rule slip_roundtrip) auto

section \<open>The images\<close>

lemma length_copy_at: "off + length xs \<le> length out \<Longrightarrow> length (copy_at off xs out) = length out"
  by (simp add: copy_at_def)

lemma nth_copy_at:
  "off + length xs \<le> length out \<Longrightarrow> i < length out \<Longrightarrow>
   copy_at off xs out ! i = (if off \<le> i \<and> i < off + length xs then xs ! (i - off) else out ! i)"
  by (auto simp: copy_at_def nth_append min_def)

lemma length_le32 [simp]: "length (le32 w) = 4"
  by (simp add: le32_def)

lemma of_le_le32 [simp]: "of_le (le32 w) = unat w"
proof -
  have "unat w < 2 ^ 32" using unsigned_less[of w] by simp
  then show ?thesis by (simp add: le32_def of_le_le_bytes)
qed

lemma length_ota_entry: "length out = OTADATA_SIZE \<Longrightarrow> sector \<le> 1 \<Longrightarrow> length (ota_entry sector sq st out) = OTADATA_SIZE"
  by (simp add: ota_entry_def Let_def length_copy_at OTADATA_SIZE_def OTADATA_SECTOR_def)

lemma nth_ota_entry:
  assumes "length out = OTADATA_SIZE" and "sector \<le> 1" and "i < OTADATA_SIZE"
  shows "ota_entry sector sq st out ! i =
    (let e = sector * OTADATA_SECTOR in
     if e \<le> i \<and> i < e + 4 then le32 sq ! (i - e)
     else if e + 24 \<le> i \<and> i < e + 28 then le32 st ! (i - (e + 24))
     else if e + 28 \<le> i \<and> i < e + 32 then le32 (otadata_crc sq) ! (i - (e + 28))
     else out ! i)"
  using assms
  by (auto simp: ota_entry_def Let_def nth_copy_at length_copy_at OTADATA_SIZE_def OTADATA_SECTOR_def)

lemma length_otadata_image [simp]: "length (otadata_image old new) = OTADATA_SIZE"
  by (simp add: otadata_image_def length_ota_entry)


section \<open>The pad's memory\<close>

definition word_at :: "memory \<Rightarrow> nat \<Rightarrow> nat" where
  "word_at m a = of_le (map (\<lambda>i. m (a + i)) [0..<4])"

definition boot_entry :: "memory \<Rightarrow> nat \<Rightarrow> nat \<times> nat \<times> nat" where
  "boot_entry m sector = (let e = unat OTADATA_OFFSET + sector * OTADATA_SECTOR in
     (word_at m e, word_at m (e + 24), word_at m (e + 28)))"

definition SLOT_SIZE :: nat where "SLOT_SIZE = 0x200000"

definition slot_offset :: "u8 \<Rightarrow> nat" where
  "slot_offset n = unat (if n = 0 then APP_PARTITION_OFFSET else OTA_1_OFFSET)"

definition in_slot :: "u8 \<Rightarrow> nat \<Rightarrow> bool" where
  "in_slot n a \<longleftrightarrow> slot_offset n \<le> a \<and> a < slot_offset n + SLOT_SIZE"

definition in_otadata :: "nat \<Rightarrow> bool" where
  "in_otadata a \<longleftrightarrow> unat OTADATA_OFFSET \<le> a \<and> a < unat OTADATA_OFFSET + OTADATA_SIZE"

text \<open>
  What the flasher is documented to do: it touches only the 4 KB sectors the file covers, and on
  success the file is there. A file that is missing is not written.
\<close>

definition flasher_ok :: "flasher \<Rightarrow> bool" where
  "flasher_ok run \<longleftrightarrow> (\<forall>off bytes m res m'. run off bytes m = (res, m') \<longrightarrow>
     (let n = (case bytes of Some bs \<Rightarrow> length bs | None \<Rightarrow> 0) in
      (\<forall>a. a < unat off \<or> unat off + (n + 4095) div 4096 * 4096 \<le> a \<longrightarrow> m' a = m a)
      \<and> (\<forall>code. res = Exited True code \<longrightarrow> bytes \<noteq> None \<and> (\<forall>i < n. m' (unat off + i) = the bytes ! i))))"

text \<open>
  The bootloader's documented rule: of two entries with the right check sum that are new or valid it
  boots the slot of the higher sequence number.
\<close>

definition entry_boots :: "nat \<times> nat \<times> nat \<Rightarrow> bool" where
  "entry_boots e = (case e of (sq, st, crc) \<Rightarrow> crc = unat (otadata_crc (word_of_nat sq))
     \<and> (st = unat OTA_IMG_NEW \<or> st = unat OTA_IMG_VALID))"

definition bootloader_ok :: "(memory \<Rightarrow> nat option) \<Rightarrow> bool" where
  "bootloader_ok boot \<longleftrightarrow> (\<forall>m. entry_boots (boot_entry m 0) \<and> entry_boots (boot_entry m 1)
     \<and> fst (boot_entry m 0) \<noteq> fst (boot_entry m 1) \<longrightarrow>
     boot m = Some ((max (fst (boot_entry m 0)) (fst (boot_entry m 1)) - 1) mod 2))"

lemma flasher_keeps:
  assumes "flasher_ok run" "run off bytes m = (res, m')"
    "a < unat off \<or> unat off + ((case bytes of Some bs \<Rightarrow> length bs | None \<Rightarrow> 0) + 4095) div 4096 * 4096 \<le> a"
  shows "m' a = m a"
  using assms unfolding flasher_ok_def Let_def by blast

lemma flasher_writes:
  assumes "flasher_ok run" "run off bytes m = (Exited True code, m')"
  obtains bs where "bytes = Some bs" "\<And>i. i < length bs \<Longrightarrow> m' (unat off + i) = bs ! i"
proof -
  have "bytes \<noteq> None \<and> (\<forall>i < (case bytes of Some bs \<Rightarrow> length bs | None \<Rightarrow> 0). m' (unat off + i) = the bytes ! i)"
    using assms unfolding flasher_ok_def Let_def by blast
  then show thesis using that by (cases bytes) auto
qed

lemma flash_addresses:
  "unat APP_PARTITION_OFFSET = 0x20000" "unat OTA_1_OFFSET = 0x220000" "unat OTADATA_OFFSET = 0xf000"
  by (simp_all add: APP_PARTITION_OFFSET_def OTA_1_OFFSET_def OTADATA_OFFSET_def)

lemmas flash_layout = flash_addresses SLOT_SIZE_def OTADATA_SIZE_def OTADATA_SECTOR_def slot_offset_def
  in_slot_def in_otadata_def

section \<open>The plan\<close>

lemma write_plain_triple:
  "triple (\<lambda>_. True) (agrees {p} f0) (write_plain p bytes) (\<lambda>_ f. agrees {p} f0 f \<and> f p = Some bytes) (agrees {p} f0)"
  unfolding write_plain_def
proof (rule triple_bind)
  show "triple (\<lambda>_. True) (agrees {p} f0) (step (Create p)) (\<lambda>_ f. agrees {p} f0 f \<and> f p = Some []) (agrees {p} f0)"
    by (rule triple_step) (auto simp: agrees_update)
  show "triple (\<lambda>_. True) (\<lambda>f. agrees {p} f0 f \<and> f p = Some []) (append_all p bytes)
      (\<lambda>_ f. agrees {p} f0 f \<and> f p = Some bytes) (agrees {p} f0)"
    using append_all_triple[of p "{p}" f0 "\<lambda>_. True" "[]" bytes] by simp
qed

lemma write_plain_result:
  assumes "write_plain p bytes d = (Inr u, d')"
  shows "files d' p = Some bytes" and "q \<noteq> p \<Longrightarrow> files d' q = files d q"
  using assms write_plain_triple[of p "files d" bytes, unfolded triple_def, rule_format, of d]
  by (auto dest: agreesD)

lemma slots_for_cases:
  assumes "slots_for running = Some (old, new)"
  obtains "old = 0" "new = 1" "running = Some ''ota_0''" | "old = 1" "new = 0" "running = Some ''ota_1''"
  using assms by (auto simp: slots_for_def split: if_splits)

lemma slots_differ: "slots_for running = Some (old, new) \<Longrightarrow> old \<noteq> new"
  by (erule slots_for_cases) auto

lemma bytes_of_text_of [simp]: "bytes_of (text_of bs) = bs"
proof -
  have "word_of_nat (byte (char_of (unat b))) = b" for b :: u8
  proof -
    have "unat b < 2 ^ LENGTH(8)" by (rule unsigned_less)
    then show ?thesis by (simp add: byte_def)
  qed
  then show ?thesis by (induction bs) (simp_all add: bytes_of_def text_of_def)
qed

lemma plan_images:
  assumes "plan_app_update app running scratch d = (Inr plan, d')" "slots_for running = Some (old, new)"
    "app \<noteq> (scratch, OTADATA_FILE)"
  shows "images plan = [(if new = 0 then APP_PARTITION_OFFSET else OTA_1_OFFSET, app),
      (OTADATA_OFFSET, (scratch, OTADATA_FILE))]"
    and "target_slot plan = Some (if new = 0 then ''ota_0'' else ''ota_1'')"
    and "files d' app = files d app"
    and "map_option bytes_of (files d' (scratch, OTADATA_FILE)) = Some (otadata_image old new)"
  using assms write_plain_result[of "(scratch, OTADATA_FILE)" "text_of (otadata_image old new)" d]
  by (auto simp: plan_app_update_def Let_def split: prod.splits sum.splits)


section \<open>What is written\<close>

text \<open>The two writes of an update, with the memory between them.\<close>

lemma two_writes:
  assumes "write_images run f [(o1, p1), (o2, p2)] m = (r, m')"
  obtains (first) res where "run o1 (map_option bytes_of (f p1)) m = (res, m')" "r \<noteq> Inr ()"
  | (both) m1 code res where "run o1 (map_option bytes_of (f p1)) m = (Exited True code, m1)"
      "run o2 (map_option bytes_of (f p2)) m1 = (res, m')" "r = Inr () \<longleftrightarrow> (\<exists>c. res = Exited True c)"
proof -
  obtain res m1 where 1: "run o1 (map_option bytes_of (f p1)) m = (res, m1)" by (metis surj_pair)
  obtain res2 m2 where 2: "run o2 (map_option bytes_of (f p2)) m1 = (res2, m2)" by (metis surj_pair)
  show thesis
  proof (cases "\<exists>code. res = Exited True code")
    case True
    then show thesis using assms 1 2 both by (cases res2) (auto split: if_splits)
  next
    case False
    then show thesis using assms 1 first by (cases res) auto
  qed
qed

lemma word_at_eq: "length xs = 4 \<Longrightarrow> (\<And>i. i < 4 \<Longrightarrow> m (a + i) = xs ! i) \<Longrightarrow> word_at m a = of_le xs"
  unfolding word_at_def by (rule arg_cong[where f = of_le]) (auto intro!: nth_equalityI)

lemma otadata_entries:
  assumes "\<And>i. i < OTADATA_SIZE \<Longrightarrow> m (unat OTADATA_OFFSET + i) = otadata_image old new ! i"
  shows "boot_entry m 0 = (unat (old_seq old), unat OTA_IMG_VALID, unat (otadata_crc (old_seq old)))"
    and "boot_entry m 1 = (unat (new_seq old new), unat OTA_IMG_NEW, unat (otadata_crc (new_seq old new)))"
proof -
  have nth: "i < OTADATA_SIZE \<Longrightarrow> m (unat OTADATA_OFFSET + i) = ota_entry 1 (new_seq old new) OTA_IMG_NEW
      (ota_entry 0 (old_seq old) OTA_IMG_VALID (replicate OTADATA_SIZE 0xFF)) ! i" for i
    using assms by (simp add: otadata_image_def)
  have word: "a + 4 \<le> OTADATA_SIZE \<Longrightarrow> length xs = 4 \<Longrightarrow>
      (\<And>i. i < 4 \<Longrightarrow> ota_entry 1 (new_seq old new) OTA_IMG_NEW
        (ota_entry 0 (old_seq old) OTA_IMG_VALID (replicate OTADATA_SIZE 0xFF)) ! (a + i) = xs ! i) \<Longrightarrow>
      word_at m (unat OTADATA_OFFSET + a) = of_le xs" for a xs
    by (rule word_at_eq) (simp_all add: nth add.assoc)
  note facts = boot_entry_def Let_def OTADATA_SECTOR_def OTADATA_SIZE_def
  have "word_at m (unat OTADATA_OFFSET) = unat (old_seq old)"
    using word[of 0 "le32 (old_seq old)"]
    by (simp add: nth_ota_entry length_ota_entry OTADATA_SECTOR_def OTADATA_SIZE_def)
  moreover have "word_at m (unat OTADATA_OFFSET + 24) = unat OTA_IMG_VALID"
    using word[of 24 "le32 OTA_IMG_VALID"]
    by (simp add: nth_ota_entry length_ota_entry OTADATA_SECTOR_def OTADATA_SIZE_def)
  moreover have "word_at m (unat OTADATA_OFFSET + 28) = unat (otadata_crc (old_seq old))"
    using word[of 28 "le32 (otadata_crc (old_seq old))"]
    by (simp add: nth_ota_entry length_ota_entry OTADATA_SECTOR_def OTADATA_SIZE_def)
  ultimately show "boot_entry m 0 = (unat (old_seq old), unat OTA_IMG_VALID, unat (otadata_crc (old_seq old)))"
    by (simp add: facts)
  have "word_at m (unat OTADATA_OFFSET + 4096) = unat (new_seq old new)"
    using word[of 4096 "le32 (new_seq old new)"]
    by (simp add: nth_ota_entry length_ota_entry OTADATA_SECTOR_def OTADATA_SIZE_def)
  moreover have "word_at m (unat OTADATA_OFFSET + 4120) = unat OTA_IMG_NEW"
    using word[of 4120 "le32 OTA_IMG_NEW"]
    by (simp add: nth_ota_entry length_ota_entry OTADATA_SECTOR_def OTADATA_SIZE_def)
  moreover have "word_at m (unat OTADATA_OFFSET + 4124) = unat (otadata_crc (new_seq old new))"
    using word[of 4124 "le32 (otadata_crc (new_seq old new))"]
    by (simp add: nth_ota_entry length_ota_entry OTADATA_SECTOR_def OTADATA_SIZE_def)
  ultimately show "boot_entry m 1 = (unat (new_seq old new), unat OTA_IMG_NEW, unat (otadata_crc (new_seq old new)))"
    by (simp add: facts ac_simps)
qed

lemma seq_values: "slots_for running = Some (old, new) \<Longrightarrow>
    (old = 0 \<and> new = 1 \<and> old_seq old = 1 \<and> new_seq old new = 2)
    \<or> (old = 1 \<and> new = 0 \<and> old_seq old = 2 \<and> new_seq old new = 3)"
  by (erule slots_for_cases) (simp_all add: old_seq_def new_seq_def)

lemma otadata_boots_new:
  assumes "bootloader_ok boot" "slots_for running = Some (old, new)"
    "\<And>i. i < OTADATA_SIZE \<Longrightarrow> m (unat OTADATA_OFFSET + i) = otadata_image old new ! i"
  shows "boot m = Some (unat new)"
proof -
  have e: "boot_entry m 0 = (unat (old_seq old), unat OTA_IMG_VALID, unat (otadata_crc (old_seq old)))"
    "boot_entry m 1 = (unat (new_seq old new), unat OTA_IMG_NEW, unat (otadata_crc (new_seq old new)))"
    using assms(3) by (blast intro: otadata_entries)+
  have "entry_boots (boot_entry m 0)" unfolding e(1) by (simp add: entry_boots_def)
  moreover have "entry_boots (boot_entry m 1)" unfolding e(2) by (simp add: entry_boots_def)
  moreover have "fst (boot_entry m 0) \<noteq> fst (boot_entry m 1)"
    "(max (fst (boot_entry m 0)) (fst (boot_entry m 1)) - 1) mod 2 = unat new"
    using seq_values[OF assms(2)] unfolding e by auto
  ultimately show ?thesis using assms(1) unfolding bootloader_ok_def by metis
qed


section \<open>Updates\<close>

lemma rounded_up: "(n :: nat) \<le> SLOT_SIZE \<Longrightarrow> (n + 4095) div 4096 * 4096 \<le> SLOT_SIZE"
proof -
  assume "n \<le> SLOT_SIZE"
  then have "(n + 4095) div 4096 \<le> (SLOT_SIZE + 4095) div 4096" by (intro div_le_mono) simp
  then show ?thesis by (simp add: SLOT_SIZE_def)
qed

definition fits_slot :: "files \<Rightarrow> path \<Rightarrow> bool" where
  "fits_slot f app \<longleftrightarrow> (case f app of Some text \<Rightarrow> length text \<le> SLOT_SIZE | None \<Rightarrow> True)"

lemma length_bytes_of [simp]: "length (bytes_of s) = length s"
  by (simp add: bytes_of_def)

text \<open>One image at the slot, and the boot selection: neither write leaves its place.\<close>

lemma app_write_confined:
  assumes "flasher_ok run" "fits_slot f app"
    "run (if new = 0 then APP_PARTITION_OFFSET else OTA_1_OFFSET) (map_option bytes_of (f app)) m = (res, m')"
    "\<not> in_slot new a"
  shows "m' a = m a"
proof (rule flasher_keeps[OF assms(1,3)])
  let ?n = "case map_option bytes_of (f app) of Some bs \<Rightarrow> length bs | None \<Rightarrow> 0"
  have "?n \<le> SLOT_SIZE" using assms(2) by (cases "f app") (auto simp: fits_slot_def)
  from rounded_up[OF this] show "a < unat (if new = 0 then APP_PARTITION_OFFSET else OTA_1_OFFSET) \<or>
      unat (if new = 0 then APP_PARTITION_OFFSET else OTA_1_OFFSET) + (?n + 4095) div 4096 * 4096 \<le> a"
    using assms(4) unfolding in_slot_def slot_offset_def by linarith
qed

lemma otadata_write_confined:
  assumes "flasher_ok run" "run OTADATA_OFFSET (Some (otadata_image old new)) m = (res, m')" "\<not> in_otadata a"
  shows "m' a = m a"
  by (rule flasher_keeps[OF assms(1,2)])
    (use assms(3) in \<open>auto simp: in_otadata_def OTADATA_SIZE_def\<close>)

definition image_in :: "memory \<Rightarrow> u8 \<Rightarrow> string option \<Rightarrow> bool" where
  "image_in m slot content = (case content of
     Some text \<Rightarrow> \<forall>i < length text. m (slot_offset slot + i) = bytes_of text ! i
   | None \<Rightarrow> False)"

lemma app_written:
  assumes "flasher_ok run"
    "run (if new = 0 then APP_PARTITION_OFFSET else OTA_1_OFFSET) (map_option bytes_of content) m = (Exited True code, m')"
  shows "image_in m' new content"
  by (rule flasher_writes[OF assms]) (auto simp: image_in_def slot_offset_def)

lemma image_stays:
  assumes "image_in m new content" "\<And>a. in_slot new a \<Longrightarrow> m' a = m a" "\<And>text. content = Some text \<Longrightarrow> length text \<le> SLOT_SIZE"
  shows "image_in m' new content"
  using assms by (auto simp: image_in_def in_slot_def split: option.splits)

lemma slot_not_otadata: "in_slot n a \<Longrightarrow> \<not> in_otadata a"
  by (auto simp: flash_layout split: if_splits)

lemma slots_disjoint: "slots_for running = Some (old, new) \<Longrightarrow> in_slot old a \<Longrightarrow> \<not> in_slot new a"
  by (erule slots_for_cases) (auto simp: flash_layout)

lemma update_writes:
  assumes run: "flasher_ok run"
    and plan: "plan_app_update app running scratch d = (Inr plan, d')" "slots_for running = Some (old, new)"
      "app \<noteq> (scratch, OTADATA_FILE)"
    and fits: "fits_slot (files d) app"
    and flashed: "write_images run (files d') (images plan) m = (r, m')"
  shows "\<not> in_slot new a \<Longrightarrow> \<not> in_otadata a \<Longrightarrow> m' a = m a"
    and "(\<forall>a. in_otadata a \<longrightarrow> m' a = m a) \<or> image_in m' new (files d app)"
    and "r = Inr () \<Longrightarrow> image_in m' new (files d app)
      \<and> (\<forall>i < OTADATA_SIZE. m' (unat OTADATA_OFFSET + i) = otadata_image old new ! i)"
proof -
  note p = plan_images[OF plan]
  have fits': "fits_slot (files d') app" using fits p(3) by (simp add: fits_slot_def)
  have small: "files d app = Some cs \<Longrightarrow> length cs \<le> SLOT_SIZE" for cs
    using fits by (simp add: fits_slot_def)
  show "m' a = m a" if "\<not> in_slot new a" "\<not> in_otadata a"
    using flashed[unfolded p(1)]
  proof (cases rule: two_writes)
    case (first res)
    then show ?thesis using app_write_confined[OF run fits'] that(1) by metis
  next
    case (both m1 code res)
    then have "m' a = m1 a" using otadata_write_confined[OF run] that(2) p(4) by metis
    also have "m1 a = m a" using app_write_confined[OF run fits'] both(1) that(1) by metis
    finally show ?thesis .
  qed
  from flashed[unfolded p(1)] show "(\<forall>a. in_otadata a \<longrightarrow> m' a = m a) \<or> image_in m' new (files d app)"
  proof (cases rule: two_writes)
    case (first res)
    then show ?thesis using app_write_confined[OF run fits'] slot_not_otadata by metis
  next
    case (both m1 code res)
    have "image_in m1 new (files d app)" using app_written[OF run both(1)] p(3) by simp
    moreover have "in_slot new a \<Longrightarrow> m' a = m1 a" for a
      using otadata_write_confined[OF run] both(2) p(4) slot_not_otadata by metis
    ultimately show ?thesis using image_stays small by blast
  qed
  assume "r = Inr ()"
  with flashed[unfolded p(1)] show "image_in m' new (files d app)
      \<and> (\<forall>i < OTADATA_SIZE. m' (unat OTADATA_OFFSET + i) = otadata_image old new ! i)"
  proof (cases rule: two_writes)
    case (both m1 code res)
    have "image_in m1 new (files d app)" using app_written[OF run both(1)] p(3) by simp
    moreover have "in_slot new a \<Longrightarrow> m' a = m1 a" for a
      using otadata_write_confined[OF run] both(2) p(4) slot_not_otadata by metis
    ultimately have "image_in m' new (files d app)" using image_stays small by blast
    moreover obtain c where "res = Exited True c" using both(3) \<open>r = Inr ()\<close> by blast
    then obtain bs where "Some (otadata_image old new) = Some bs"
      "\<And>i. i < length bs \<Longrightarrow> m' (unat OTADATA_OFFSET + i) = bs ! i"
      using flasher_writes[OF run] both(2) p(4) by metis
    then have "\<forall>i < OTADATA_SIZE. m' (unat OTADATA_OFFSET + i) = otadata_image old new ! i"
      using length_otadata_image by (metis option.inject)
    ultimately show ?thesis by blast
  qed simp
qed




definition demo_flasher :: flasher where
  "demo_flasher off bytes m = (case bytes of
     None \<Rightarrow> (Exited False (Some 1), m)
   | Some bs \<Rightarrow> (Exited True (Some 0),
       (\<lambda>a. if unat off \<le> a \<and> a < unat off + length bs then bs ! (a - unat off) else m a)))"

definition demo_boot :: "memory \<Rightarrow> nat option" where
  "demo_boot m = (if fst (boot_entry m 0) < fst (boot_entry m 1) then Some ((fst (boot_entry m 1) - 1) mod 2)
     else Some ((fst (boot_entry m 0) - 1) mod 2))"

lemma demo_flasher_ok: "flasher_ok demo_flasher"
proof -
  have "(n :: nat) \<le> (n + 4095) div 4096 * 4096" for n
    using div_mult_mod_eq[of "n + 4095" 4096] mod_less_divisor[of 4096 "n + 4095"] by linarith
  then show ?thesis
    unfolding flasher_ok_def demo_flasher_def Let_def
    by (force split: option.splits if_splits)
qed

lemma demo_boot_ok: "bootloader_ok demo_boot"
proof -
  have "(if a < b then Some ((b - 1) mod 2) else Some ((a - 1) mod 2)) = Some ((max a b - 1) mod 2)" for a b :: nat
    by (simp add: max_def)
  then show ?thesis unfolding bootloader_ok_def demo_boot_def by blast
qed

lemma append_all_no_faults:
  "faults d = [] \<Longrightarrow> \<exists>d'. append_all p bytes d = (Inr (), d') \<and> faults d' = []"
  by (induction bytes arbitrary: d) (simp_all add: io_bind_def step_def Let_def)

lemma write_plain_no_faults: "faults d = [] \<Longrightarrow> \<exists>d'. write_plain p bytes d = (Inr (), d')"
  using append_all_no_faults[of "d\<lparr>faults := [], files := apply_op (Create p) (files d),
      trail := trail d @ [apply_op (Create p) (files d)]\<rparr>" p bytes]
  by (auto simp: write_plain_def io_bind_def step_def Let_def)

definition demo_disk :: disk where
  "demo_disk = \<lparr>files = Map.empty((''u'', ''opad-firmware.bin'') \<mapsto> ''image''), faults = [], trail = []\<rparr>"

lemma demo_update:
  obtains plan d' m' where
    "plan_app_update (''u'', ''opad-firmware.bin'') (Some ''ota_0'') ''u'' demo_disk = (Inr plan, d')"
    "write_images demo_flasher (files d') (images plan) (\<lambda>a. 0) = (Inr (), m')"
proof -
  obtain d' where d': "write_plain (''u'', OTADATA_FILE) (text_of (otadata_image 0 1)) demo_disk = (Inr (), d')"
    using write_plain_no_faults[of demo_disk "(''u'', OTADATA_FILE)" "text_of (otadata_image 0 1)"]
    by (auto simp: demo_disk_def)
  obtain plan where plan: "plan_app_update (''u'', ''opad-firmware.bin'') (Some ''ota_0'') ''u'' demo_disk = (Inr plan, d')"
    using d' by (auto simp: plan_app_update_def slots_for_def Let_def)
  have img: "images plan = [(OTA_1_OFFSET, ''u'', ''opad-firmware.bin''), (OTADATA_OFFSET, ''u'', OTADATA_FILE)]"
    "files d' (''u'', ''opad-firmware.bin'') = Some ''image''"
    "map_option bytes_of (files d' (''u'', OTADATA_FILE)) = Some (otadata_image 0 1)"
    using plan_images[OF plan, of 0 1] by (simp_all add: slots_for_def OTADATA_FILE_def demo_disk_def)
  have "fst (write_images demo_flasher (files d') (images plan) (\<lambda>a. 0)) = Inr ()"
    unfolding img(1) by (simp add: img(2,3) demo_flasher_def del: length_otadata_image)
  with plan that show thesis by (metis prod.collapse)
qed




section \<open>The right bootloader\<close>

definition rightful :: "boot_env \<Rightarrow> pad_location \<Rightarrow> string list \<Rightarrow> string \<Rightarrow> bool" where
  "rightful e pad preexisting p \<longleftrightarrow> (\<exists>n c. c \<in> set (boot_ports_at e n) \<and> boot_name c = p
     \<and> (proven pad c \<or> \<not> contradicted pad c \<and> p \<notin> set preexisting
         \<and> (\<forall>c' \<in> set (boot_ports_at e n). \<not> contradicted pad c' \<and> boot_name c' \<notin> set preexisting \<longrightarrow> c' = c)))"

lemma member_set: "List.member xs x \<longleftrightarrow> x \<in> set xs"
  by (induction xs) auto

lemma selected_port:
  assumes "select_bootloader_port cs pad preexisting = BootFound p"
  obtains c where "c \<in> set cs" "boot_name c = p"
    "proven pad c \<or> \<not> contradicted pad c \<and> p \<notin> set preexisting
      \<and> (\<forall>c' \<in> set cs. \<not> contradicted pad c' \<and> boot_name c' \<notin> set preexisting \<longrightarrow> c' = c)"
proof (cases "find (proven pad) cs")
  case (Some c)
  then have "c \<in> set cs" "proven pad c" by (auto simp: find_Some_iff)
  then show thesis using that assms Some by (simp add: select_bootloader_port_def)
next
  case None
  let ?left = "filter (\<lambda>c. \<not> List.member preexisting (boot_name c)) (filter (\<lambda>c. \<not> contradicted pad c) cs)"
  from None assms obtain c where c: "?left = [c]" "boot_name c = p"
    by (auto simp: select_bootloader_port_def split: list.splits)
  have "c' \<in> set cs \<and> \<not> contradicted pad c' \<and> boot_name c' \<notin> set preexisting \<longleftrightarrow> c' = c" for c'
    using arg_cong[OF c(1), of "\<lambda>l. c' \<in> set l"] by (auto simp: member_set)
  then show thesis using that c(2) by metis
qed

lemma picked: "decided (pick e pad preexisting n) = Some (Inr p) \<Longrightarrow> rightful e pad preexisting p"
  unfolding rightful_def pick_def decided_def
  by (auto split: bootloader_match.splits elim!: selected_port)

lemma polled: "poll_ports e pad preexisting k n = (Some (Inr p), n') \<Longrightarrow> rightful e pad preexisting p"
  by (induction k arbitrary: n) (auto split: option.splits dest: picked)

lemma tried: "try_triggers e pad preexisting app ts fired err n = Inr p \<Longrightarrow> rightful e pad preexisting p"
  by (induction e pad preexisting app ts fired err n rule: try_triggers.induct)
    (auto simp: look_if_def split: prod.splits option.splits sum.splits dest: polled)

text \<open>
  A pad on a known port is only ever flashed through a port of the ROM bootloader that is the one
  asked for, has the pad's address or place, or came up after the reboot, contradicts neither and is
  the only such port.
\<close>

lemma only_this_pad_is_entered:
  assumes "enter_bootloader e (Some app) dev = Inr p"
  shows "(p = app \<and> is_bootloader_port e 0 app)
    \<or> rightful e (locate_pad (path_of e) (look e 1) app dev) (map boot_name (boot_ports_at e 2)) p"
  using assms tried by (auto simp: enter_bootloader_def Let_def split: if_splits)

definition demo_boot_port :: serial_port where
  "demo_boot_port = \<lparr>port_name = ''COM7'', port_type = UsbPort \<lparr>vid = ESPRESSIF_VID, pid = ESP_ROM_BOOTLOADER_PID,
     product = None, serial_number = None\<rparr>\<rparr>"

definition demo_boot_env :: boot_env where
  "demo_boot_env = \<lparr>look = (\<lambda>n. if n < 4 then Some [] else Some [demo_boot_port]), path_of = (\<lambda>p. Some ''1-3''),
     openable = (\<lambda>t. Inr ()), pulse_trigger = (\<lambda>t. Inr ()), polls = (\<lambda>t. 30)\<rparr>"

lemma only_this_pad_is_entered_witness:
  "enter_bootloader demo_boot_env (Some ''COM3'') None = Inr ''COM7''
   \<and> (\<exists>n c. c \<in> set (boot_ports_at demo_boot_env n) \<and> boot_name c = ''COM7'')"
proof -
  have entered: "enter_bootloader demo_boot_env (Some ''COM3'') None = Inr ''COM7''"
    by code_simp
  have "rightful demo_boot_env (locate_pad (path_of demo_boot_env) (look demo_boot_env 1) ''COM3'' None) (map boot_name (boot_ports_at demo_boot_env 2)) ''COM7''"
    using only_this_pad_is_entered[OF entered] by simp
  with entered show ?thesis unfolding rightful_def by blast
qed

end
