(* ===== verification/Firmware_Update.thy ===== *)
theory Firmware_Update
  imports Sync Flash_Safety Client
begin

text \<open>
  The host-driven firmware update: \<open>daemon/src/firmware_update.rs\<close>, from the offer to the pad that
  comes back. It joins the planner of \<open>Plans\<close>, the counter sync of \<open>Sync\<close>, the download of
  \<open>Client\<close>, the staging of \<open>Install\<close> and the flashing of \<open>Flash\<close>. What the other tasks do to the
  shared state while it waits is \<open>others\<close> of the sync's environment, from the fortieth call on. The
  sentences shown to a person are values here; their wording is left out.
\<close>

section \<open>The offer\<close>

datatype sentence = BlockerSentence blocker | GuardSentence string | ErrorSentence update_error
  | NeedsAppSentence string string | NothingSentence firmware_action

record firmware_offer =
  offer_installed :: "string option"
  offer_available :: "string option"
  offer_notes :: "string option"
  offer_partition :: "string option"
  offer_blockers :: "sentence list"
  offer_consent :: "(string \<times> string) option"
  offer_outage_seconds :: nat
  offer_needs_app :: "string option"

definition offer_preconditions :: "daemon_state \<Rightarrow> bool \<Rightarrow> preconditions" where
  "offer_preconditions st available = \<lparr>connected = device_connected st, gate = may_update_now (mode st) True,
     counters_synced = True, storage_available = available, consented = True,
     running_from_ota_0 = is_ota_0 (Option.bind (the_device st) running_partition)\<rparr>"

definition base_offer :: "daemon_state \<Rightarrow> bool \<Rightarrow> firmware_offer" where
  "base_offer st available = \<lparr>offer_installed = map_option firmware_version (the_device st),
     offer_available = None, offer_notes = None,
     offer_partition = Option.bind (the_device st) running_partition,
     offer_blockers = map BlockerSentence (blockers (offer_preconditions st available))
       @ (case pad_guard st of Some reason \<Rightarrow> [GuardSentence reason] | None \<Rightarrow> []),
     offer_consent = None, offer_outage_seconds = TYPICAL_OUTAGE_SECONDS, offer_needs_app = None\<rparr>"

definition plan_for_pad :: "release_manifest \<Rightarrow> string \<Rightarrow> daemon_state \<Rightarrow> (update_error, firmware_action) result" where
  "plan_for_pad manifest app_version st = firmware_plan manifest (map_option firmware_version (the_device st))
     (map_option board_profile (the_device st)) app_version (may_update_now (mode st) True)"

definition firmware_offer :: "release_manifest option \<Rightarrow> string \<Rightarrow> daemon_state \<Rightarrow> bool \<Rightarrow> firmware_offer" where
  "firmware_offer manifest app_version st available =
     (let out = base_offer st available in
      case manifest of
        None \<Rightarrow> out
      | Some m \<Rightarrow>
          (case plan_for_pad m app_version st of
             Inl e \<Rightarrow> out\<lparr>offer_blockers := offer_blockers out @ [ErrorSentence e]\<rparr>
           | Inr (FwAvailable inst avail notes_text a) \<Rightarrow>
               out\<lparr>offer_consent := Some (inst, avail), offer_available := Some avail, offer_notes := notes_text\<rparr>
           | Inr (FwNeedsNewerApp avail m) \<Rightarrow>
               out\<lparr>offer_blockers := offer_blockers out @ [NeedsAppSentence avail m],
                 offer_available := Some avail, offer_needs_app := Some m\<rparr>
           | Inr _ \<Rightarrow> out))"

section \<open>The install\<close>

datatype flash_refusal = MapStarted | StillBusy defer_reason | PadGuarded string | PadGone

datatype firmware_update_error = FwUpdate update_error | FwSync string | FwFlash flash_error
  | PortNotReleased | NoLongerSafe flash_refusal | WrongVersionBack string string | NoReconnect
  | RolledBack string

datatype firmware_outcome = FwInstalled string string device_info | FwRefused "sentence list"

record flash_world =
  fw_shared :: shared
  fw_disk :: disk
  fw_memory :: memory
  fw_paused :: bool
  fw_sent :: "pad_message list"

record ('k, 's) flash_env =
  fe_packages :: "('k, 's) packages"
  fe_sync :: sync_env
  fe_app_version :: string
  fe_network :: network
  fe_state_dir :: "string option"
  fe_released :: bool
  fe_flasher :: flasher
  fe_entered :: "string option \<Rightarrow> (flash_error, string) result"
  fe_left :: "string \<Rightarrow> (flash_error, unit) result"
  fe_back :: "device_info option"

abbreviation interfere :: "('k, 's) flash_env \<Rightarrow> nat \<Rightarrow> flash_world \<Rightarrow> flash_world" where
  "interfere e n w \<equiv> w\<lparr>fw_shared := others (fe_sync e) n (fw_shared w)\<rparr>"

definition install_preconditions :: "daemon_state \<Rightarrow> bool \<Rightarrow> bool \<Rightarrow> preconditions" where
  "install_preconditions st available consent = \<lparr>connected = device_connected st,
     gate = may_update_now (mode st) True, counters_synced = False, storage_available = available,
     consented = consent, running_from_ota_0 = is_ota_0 (Option.bind (the_device st) running_partition)\<rparr>"

definition still_safe_to_flash :: "daemon_state \<Rightarrow> (flash_refusal, unit) result" where
  "still_safe_to_flash st =
     (case may_update_now (mode st) True of
        Inl DeferPlaying \<Rightarrow> Inl MapStarted
      | Inl DeferCooldown \<Rightarrow> Inl MapStarted
      | Inl defer \<Rightarrow> Inl (StillBusy defer)
      | Inr _ \<Rightarrow>
          (case pad_guard st of
             Some reason \<Rightarrow> Inl (PadGuarded reason)
           | None \<Rightarrow> if \<not> device_connected st then Inl PadGone else Inr ()))"

text \<open>
  The port is released, the image planned beside the running one and written, and the pad waited for.
  The worker's port is given back on every path.
\<close>

definition await_pad :: "('k, 's) flash_env \<Rightarrow> string option \<Rightarrow> string \<Rightarrow> string
    \<Rightarrow> (firmware_update_error, firmware_outcome) result" where
  "await_pad e slot installed available =
     (case fe_back e of
        None \<Rightarrow> Inl NoReconnect
      | Some info \<Rightarrow>
          (case (slot, running_partition info) of
             (Some wanted, Some back) \<Rightarrow>
               if back \<noteq> wanted then Inl (RolledBack back)
               else if firmware_version info \<noteq> available then Inl (WrongVersionBack available (firmware_version info))
               else Inr (FwInstalled installed available info)
           | _ \<Rightarrow>
               if firmware_version info \<noteq> available then Inl (WrongVersionBack available (firmware_version info))
               else Inr (FwInstalled installed available info)))"

definition flash_and_verify :: "('k, 's) flash_env \<Rightarrow> path \<Rightarrow> string \<Rightarrow> string \<Rightarrow> flash_world
    \<Rightarrow> (firmware_update_error, firmware_outcome) result \<times> flash_world" where
  "flash_and_verify e img installed available w =
     (let w = w\<lparr>fw_paused := True\<rparr> in
      if \<not> fe_released e then (Inl PortNotReleased, w\<lparr>fw_paused := False\<rparr>)
      else
        let w = interfere e 42 w;
            w = w\<lparr>fw_shared := update_shared_state (\<lambda>s. s\<lparr>device_connected := False\<rparr>) (fw_shared w)\<rparr>;
            w = interfere e 43 w;
            info = the_device (sh_state (fw_shared w)) in
        (case plan_app_update img (Option.bind info running_partition) (fst img) (fw_disk w) of
           (Inl err, d) \<Rightarrow> (Inl (FwFlash err), w\<lparr>fw_disk := d, fw_paused := False\<rparr>)
         | (Inr plan, d) \<Rightarrow>
             let w = w\<lparr>fw_disk := d\<rparr>;
                 (r, m) = run_flash (fe_flasher e) (fe_entered e (map_option device_id info)) (fe_left e)
                   (files d) (images plan) (fw_memory w);
                 w = w\<lparr>fw_memory := m, fw_paused := False\<rparr>
             in (case r of
                  Inl err \<Rightarrow> (Inl (FwFlash err), w)
                | Inr _ \<Rightarrow> (await_pad e (target_slot plan) installed available, w))))"

definition FIRMWARE_IMAGE :: string where "FIRMWARE_IMAGE = ''opad-firmware.bin''"
definition UPDATES_DIR :: string where "UPDATES_DIR = ''/updates''"

text \<open>
  Downloading and staging: the bytes are fetched, their hash is checked in memory and again on the
  disk, and the header of the image decides whether it is for this chip. The staged file goes with
  an error.
\<close>

definition stage_image :: "('k, 's) flash_env \<Rightarrow> artifact \<Rightarrow> string \<Rightarrow> disk \<Rightarrow> (update_error, path) result \<times> disk" where
  "stage_image e a bytes d =
     (case fe_state_dir e of
        None \<Rightarrow> (Inl Io, d)
      | Some dir \<Rightarrow>
          let img = (dir @ UPDATES_DIR, FIRMWARE_IMAGE) in
          io_bind (stage_bytes (sha (fe_packages e)) img bytes (Feed.sha256 a) (url a)) (\<lambda>staged.
            if is_ok (check_esp32s3_image (bytes_of bytes))
            then io_bind (install_to staged img) (\<lambda>_ d. (Inr img, d))
            else on_error (\<lambda>d. (Inl (HttpError (RequestFailed ''image'')), d)) (ignore_result (step (RemoveFile staged)))) d)"

text \<open>Up to the last check: everything that can refuse the flash without the pad noticing.\<close>

definition prepare_flash :: "('k, 's) flash_env \<Rightarrow> artifact \<Rightarrow> flash_world
    \<Rightarrow> (firmware_update_error, path) result \<times> flash_world" where
  "prepare_flash e a w =
     (let (synced, sent, r) = perform_sync (fe_sync e) (fw_shared w);
          w = w\<lparr>fw_shared := synced, fw_sent := fw_sent w @ sent\<rparr>
      in case r of
        Inl msg \<Rightarrow> (Inl (FwSync msg), w)
      | Inr k \<Rightarrow>
          (case fetch_artifact (fe_packages e) (fe_network e) a of
             Inl err \<Rightarrow> (Inl (FwUpdate err), w)
           | Inr bytes \<Rightarrow>
               (case stage_image e a bytes (fw_disk w) of
                  (Inl err, d) \<Rightarrow> (Inl (FwUpdate err), w\<lparr>fw_disk := d\<rparr>)
                | (Inr img, d) \<Rightarrow>
                    let w = interfere e 41 (w\<lparr>fw_disk := d\<rparr>) in
                    (case still_safe_to_flash (sh_state (fw_shared w)) of
                       Inl reason \<Rightarrow> (Inl (NoLongerSafe reason),
                         w\<lparr>fw_disk := snd (ignore_result (step (RemoveFile img)) (fw_disk w))\<rparr>)
                     | Inr _ \<Rightarrow> (Inr img, w)))))"

definition install_firmware :: "('k, 's) flash_env \<Rightarrow> release_manifest option \<Rightarrow> bool \<Rightarrow> flash_world
    \<Rightarrow> (firmware_update_error, firmware_outcome) result \<times> flash_world" where
  "install_firmware e manifest consent w =
     (let available = (sh_storage (fw_shared w) \<noteq> None);
          w = interfere e 40 w;
          st = sh_state (fw_shared w);
          stopping = blockers (install_preconditions st available consent)
      in case pad_guard st of
           Some reason \<Rightarrow> (Inr (FwRefused [GuardSentence reason]), w)
         | None \<Rightarrow>
             if \<exists>b \<in> set stopping. b \<noteq> CountersNotSynced
             then (Inr (FwRefused (map BlockerSentence stopping)), w)
             else (case manifest of
                 None \<Rightarrow> (Inl (FwUpdate (HttpError (RequestFailed ''No verified release manifest yet; check for updates first''))), w)
               | Some m \<Rightarrow>
                   (case plan_for_pad m (fe_app_version e) st of
                      Inl err \<Rightarrow> (Inl (FwUpdate err), w)
                    | Inr (FwAvailable installed ver notes_text a) \<Rightarrow>
                        (case prepare_flash e a w of
                           (Inl err, w) \<Rightarrow> (Inl err, w)
                         | (Inr img, w) \<Rightarrow>
                             let (r, w) = flash_and_verify e img installed ver w
                             in (r, w\<lparr>fw_disk := snd (ignore_result (step (RemoveFile img)) (fw_disk w))\<rparr>))
                    | Inr action \<Rightarrow> (Inr (FwRefused [NothingSentence action]), w))))"

end
