(* ===== verification/Firmware_Safety.thy ===== *)
theory Firmware_Safety
  imports Firmware_Update
begin

text \<open>
  What a firmware update promises: the pad's memory changes only after every check, the worker gets
  its port back, and what a finished update means for the next one.
\<close>

section \<open>Facts about the parts\<close>

lemma blockers_clear:
  assumes "\<not> (\<exists>b \<in> set (blockers (install_preconditions st available consent)). b \<noteq> CountersNotSynced)"
  shows "device_connected st" "consent" "available" "mode st = Idle"
    "is_ota_0 (Option.bind (the_device st) running_partition)"
  using assms
  by (auto simp: blockers_def install_preconditions_def may_update_now_def split: if_splits runtime_mode.splits sum.splits)

lemma still_safe:
  "still_safe_to_flash st = Inr u \<longleftrightarrow> mode st = Idle \<and> pad_guard st = None \<and> device_connected st"
  by (auto simp: still_safe_to_flash_def may_update_now_def split: runtime_mode.splits option.splits)

lemma flash_and_verify_releases [simp]: "\<not> fw_paused (snd (flash_and_verify e img i v w))"
  by (auto simp: flash_and_verify_def Let_def split: prod.splits sum.splits)

lemma prepare_flash_keeps [simp]:
  "fw_paused (snd (prepare_flash e a w)) = fw_paused w"
  "fw_memory (snd (prepare_flash e a w)) = fw_memory w"
  by (auto simp: prepare_flash_def Let_def split: prod.splits sum.splits)

lemma staged_image_checked:
  "stage_image e a bytes d = (Inr img, d') \<Longrightarrow> is_ok (check_esp32s3_image (bytes_of bytes))"
  by (auto simp: stage_image_def Let_def io_bind_def on_error_def split: option.splits prod.splits sum.splits if_splits)

lemma fetched_hash:
  "fetch_artifact pk net a = Inr bytes \<Longrightarrow> is_ok (check_hash_bytes (sha pk) (url a) bytes (Feed.sha256 a))"
  by (cases "http_get net (url a) None MAX_ARTIFACT_BYTES")
    (auto simp: fetch_artifact_def is_ok_def split: fetched.splits if_splits sum.splits elim: and_then.elims)

text \<open>What a prepared flash has behind it, from the state the update began in.\<close>

definition prepared :: "('k, 's) flash_env \<Rightarrow> artifact \<Rightarrow> shared \<Rightarrow> bool" where
  "prepared e a w \<longleftrightarrow> (\<exists>synced sent k bytes.
     perform_sync (fe_sync e) w = (synced, sent, Inr k)
     \<and> fetch_artifact (fe_packages e) (fe_network e) a = Inr bytes
     \<and> is_ok (check_hash_bytes (sha (fe_packages e)) (url a) bytes (Feed.sha256 a))
     \<and> is_ok (check_esp32s3_image (bytes_of bytes))
     \<and> is_ok (still_safe_to_flash (sh_state (others (fe_sync e) 41 synced))))"

lemma prepare_flash_prepared:
  assumes "prepare_flash e a w = (Inr img, w')"
  shows "prepared e a (fw_shared w)"
proof -
  obtain synced sent r where s: "perform_sync (fe_sync e) (fw_shared w) = (synced, sent, r)" by (metis surj_pair)
  obtain k where r: "r = Inr k" using assms s by (cases r) (auto simp: prepare_flash_def Let_def)
  obtain bytes where b: "fetch_artifact (fe_packages e) (fe_network e) a = Inr bytes"
    using assms s r by (cases "fetch_artifact (fe_packages e) (fe_network e) a") (auto simp: prepare_flash_def Let_def)
  obtain staged d where st: "stage_image e a bytes (fw_disk w) = (staged, d)" by (metis surj_pair)
  obtain img' where staged: "staged = Inr img'" using assms s r b st by (cases staged) (auto simp: prepare_flash_def Let_def)
  have "is_ok (still_safe_to_flash (sh_state (others (fe_sync e) 41 synced)))"
    using assms s r b st staged by (auto simp: prepare_flash_def Let_def is_ok_def split: sum.splits)
  with s r b st staged show ?thesis
    unfolding prepared_def using fetched_hash staged_image_checked by blast
qed

section \<open>The update\<close>

text \<open>
  C4: The pad's memory changes only in an update that a person consented to, of a connected, unguarded
  pad in idle mode with a database, to a newer version in the feed for this chip and board, after the
  counters were synced, with the bytes the feed's hash names and a header for this chip, and only when
  the mode is still idle, the pad connected and unguarded after the download.
\<close>

lemma flash_needs_everything:
  assumes "fw_memory (snd (install_firmware e manifest consent w)) \<noteq> fw_memory w"
  shows "\<exists>m installed available notes_text a.
    let w0 = others (fe_sync e) 40 (fw_shared w); st = sh_state w0 in
    consent \<and> manifest = Some m \<and> sh_storage (fw_shared w) \<noteq> None
    \<and> pad_guard st = None \<and> mode st = Idle \<and> device_connected st
    \<and> plan_for_pad m (fe_app_version e) st = Inr (FwAvailable installed available notes_text a)
    \<and> is_newer available installed \<and> target a = FIRMWARE_TARGET \<and> kind a = Firmware
    \<and> prepared e a w0"
proof -
  let ?w0 = "others (fe_sync e) 40 (fw_shared w)"
  let ?st = "sh_state ?w0"
  let ?available = "sh_storage (fw_shared w) \<noteq> None"
  note d = install_firmware_def Let_def
  have guard: "pad_guard ?st = None" using assms by (cases "pad_guard ?st") (auto simp: d)
  have ready: "\<not> (\<exists>b \<in> set (blockers (install_preconditions ?st ?available consent)). b \<noteq> CountersNotSynced)"
    using assms guard by (auto simp: d split: if_splits)
  obtain m where m: "manifest = Some m" using assms guard ready by (cases manifest) (auto simp: d)
  obtain installed available notes_text a where
    a: "plan_for_pad m (fe_app_version e) ?st = Inr (FwAvailable installed available notes_text a)"
    using assms guard ready m by (auto simp: d split: sum.splits firmware_action.splits)
  obtain r w1 where p: "prepare_flash e a (interfere e 40 w) = (r, w1)" by (metis surj_pair)
  have "fw_memory w1 = fw_memory w" using prepare_flash_keeps(2)[of e a "interfere e 40 w"] p by simp
  then obtain img where "r = Inr img" using assms guard ready m a p by (cases r) (auto simp: d)
  with p have "prepared e a ?w0" using prepare_flash_prepared by fastforce
  moreover have "is_newer available installed \<and> target a = FIRMWARE_TARGET \<and> kind a = Firmware"
    using a firmware_offer_sound unfolding plan_for_pad_def by blast
  ultimately show ?thesis
    using blockers_clear[OF ready] guard m a unfolding Let_def by blast
qed

text \<open>
  However a firmware update ends, refused, failed at any point or done, the worker gets the serial
  port back.
\<close>

lemma update_releases_port: "\<not> fw_paused w \<Longrightarrow> \<not> fw_paused (snd (install_firmware e manifest consent w))"
  unfolding install_firmware_def Let_def
  by (auto simp: split_beta split: option.splits sum.splits firmware_action.splits)

section \<open>The next update\<close>

text \<open>Other tasks that leave the identity of the connected pad as it is.\<close>

definition pad_stays :: "sync_env \<Rightarrow> bool" where
  "pad_stays e \<longleftrightarrow> (\<forall>n w. the_device (sh_state (others e n w)) = the_device (sh_state w))"

abbreviation pad_of :: "shared \<Rightarrow> device_info option" where "pad_of w \<equiv> the_device (sh_state w)"

lemma pad_of_with_storage [simp]: "pad_of (with_storage f w) = pad_of w"
  by (simp add: with_storage_def split: option.split sum.split)

lemma pad_of_send:
  "pad_stays e \<Longrightarrow> pad_of (fst (send_counters e info force is k err w)) = pad_of w"
  by (induction e info force "is" k err w rule: send_counters.induct)
    (auto simp: Let_def split_beta pad_stays_def split: sync_answer.split bool.split option.split)

lemma pad_of_drains:
  "pad_stays e \<Longrightarrow> pad_of (fst (drain_config e c w)) = pad_of w"
  "pad_stays e \<Longrightarrow> pad_of (fst (drain_layouts e n ls w)) = pad_of w"
  by (simp add: drain_config_def Let_def update_shared_state_def pad_stays_def split: option.split)
    (induction e n ls w rule: drain_layouts.induct, auto simp: Let_def split_beta pad_stays_def)

lemma pad_of_finish: "pad_stays e \<Longrightarrow> pad_of (fst (finish_sync e info d k w)) = pad_of w"
  using pad_of_drains
  by (simp add: finish_sync_def Let_def split_beta update_shared_state_def)
    (simp add: pad_stays_def split: option.split)


lemma pad_of_conclude: "pad_stays e \<Longrightarrow> pad_of (fst (conclude_sync e info d x)) = pad_of (fst x)"
  using pad_of_finish by (cases x) (auto simp: conclude_sync_def split_beta Let_def update_shared_state_def pad_stays_def
      split: option.split)

lemma pad_of_sync: "pad_stays e \<Longrightarrow> pad_of (fst (perform_sync e w)) = pad_of w"
proof -
  assume e: "pad_stays e"
  have "pad_of (fst (sync_counters e info held v)) = pad_of v" for info held v
    using e by (simp add: sync_counters_def Let_def pad_of_conclude pad_of_send del: send_counters.simps)
      (simp add: pad_stays_def)
  then show ?thesis
    using e by (simp add: perform_sync_def Let_def split_beta update_shared_state_def split: option.split)
      (simp add: pad_stays_def)
qed

lemma pad_of_prepare:
  "pad_stays (fe_sync e) \<Longrightarrow> pad_of (fw_shared (snd (prepare_flash e a w))) = pad_of (fw_shared w)"
  using pad_of_sync[of "fe_sync e" "fw_shared w"]
  by (auto simp: prepare_flash_def Let_def pad_stays_def split: prod.splits sum.splits)

lemma plan_target:
  "plan_app_update img (Some ''ota_0'') dir d = (Inr plan, d') \<Longrightarrow> target_slot plan = Some ''ota_1''"
  by (auto simp: plan_app_update_def slots_for_def Let_def split: prod.splits sum.splits)

lemma installed_back:
  assumes "flash_and_verify e img installed available w = (Inr (FwInstalled from to info), w')"
    and "pad_stays (fe_sync e)" and "is_ota_0 (Option.bind (pad_of (fw_shared w)) running_partition)"
  shows "\<not> is_ota_0 (running_partition info)"
proof -
  have "pad_of (others (fe_sync e) 43 (update_shared_state (\<lambda>s. s\<lparr>device_connected := False\<rparr>)
      (others (fe_sync e) 42 (fw_shared w)))) = pad_of (fw_shared w)"
    using assms(2) by (simp add: pad_stays_def update_shared_state_def)
  then obtain d plan d' where "plan_app_update img (Some ''ota_0'') (fst img) d = (Inr plan, d')"
      "await_pad e (target_slot plan) installed available = Inr (FwInstalled from to info)"
    using assms(1,3) by (auto simp: flash_and_verify_def Let_def is_ota_0_def split: if_splits prod.splits sum.splits)
  then have "await_pad e (Some ''ota_1'') installed available = Inr (FwInstalled from to info)"
    using plan_target by metis
  then show ?thesis
    by (auto simp: await_pad_def is_ota_0_def split: option.splits if_splits)
qed

lemma refused_off_ota_0:
  assumes "pad_of (others (fe_sync e) 40 (fw_shared w)) = Some info" "\<not> is_ota_0 (running_partition info)"
    "device_connected (sh_state (others (fe_sync e) 40 (fw_shared w)))"
  shows "\<exists>reasons. install_firmware e manifest consent w = (Inr (FwRefused reasons), interfere e 40 w)"
proof -
  have "NeedsFullReflash \<in> set (blockers (install_preconditions (sh_state (others (fe_sync e) 40 (fw_shared w))) v consent))" for v
    using assms by (simp add: blockers_def install_preconditions_def)
  then have "\<exists>b \<in> set (blockers (install_preconditions (sh_state (others (fe_sync e) 40 (fw_shared w))) v consent)).
      b \<noteq> CountersNotSynced" for v
    by blast
  then show ?thesis by (simp add: install_firmware_def Let_def split: option.split)
qed

text \<open>
  After an update that succeeded the pad runs the other slot, and from then on every update of that
  pad by the daemon is refused before anything is downloaded: only a pad on the first slot is updated,
  although the image would go to whichever slot does not run.
\<close>

lemma updated_pad_is_refused:
  assumes "install_firmware e manifest consent w = (Inr (FwInstalled from to info), w')"
    and "pad_stays (fe_sync e)"
    and "pad_of (others (fe_sync e2) 40 (fw_shared w2)) = Some info"
    and "device_connected (sh_state (others (fe_sync e2) 40 (fw_shared w2)))"
  shows "\<exists>reasons. install_firmware e2 manifest2 consent2 w2 = (Inr (FwRefused reasons), interfere e2 40 w2)"
proof (rule refused_off_ota_0[OF assms(3) _ assms(4)])
  let ?w0 = "interfere e 40 w"
  let ?st = "sh_state (fw_shared ?w0)"
  let ?stopping = "blockers (install_preconditions ?st (sh_storage (fw_shared w) \<noteq> None) consent)"
  note d = install_firmware_def Let_def
  have ready: "pad_guard ?st = None" "\<not> (\<exists>b \<in> set ?stopping. b \<noteq> CountersNotSynced)"
    using assms(1) by (auto simp: d split: if_splits option.splits)
  obtain m installed ver notes_text a where a: "manifest = Some m"
    "plan_for_pad m (fe_app_version e) ?st = Inr (FwAvailable installed ver notes_text a)"
    using assms(1) ready by (auto simp: d split: option.splits sum.splits firmware_action.splits)
  obtain r w1 where p: "prepare_flash e a ?w0 = (r, w1)" by (metis surj_pair)
  obtain img where img: "r = Inr img" using assms(1) ready a p by (cases r) (auto simp: d)
  then have "\<exists>v. flash_and_verify e img installed ver w1 = (Inr (FwInstalled from to info), v)"
    using assms(1) ready a p by (auto simp: d split: prod.splits)
  moreover have "pad_of (fw_shared w1) = pad_of (fw_shared ?w0)"
    using pad_of_prepare[OF assms(2), of a ?w0] p by simp
  moreover note blockers_clear(5)[OF ready(2)]
  ultimately show "\<not> is_ota_0 (running_partition info)" using installed_back[OF _ assms(2)] by metis
qed

section \<open>A concrete update\<close>

definition demo_image :: string where
  "demo_image = map char_of [0xE9, 1, 2, 3, 4, 5, 6, 7, 8, 9, 10, 11, 9, 0, 14, 15 :: nat]"

definition demo_firmware :: artifact where
  "demo_firmware = \<lparr>target = FIRMWARE_TARGET, kind = Firmware, url = ''https://x/f'', sha256 = ''4142'',
     file_size = None, board = None\<rparr>"

definition demo_pad :: device_info where
  "demo_pad = sync_info\<lparr>firmware_version := ''v1-rc9'', running_partition := Some ''ota_0''\<rparr>"

definition demo_world :: flash_world where
  "demo_world = \<lparr>fw_shared = update_shared_state (\<lambda>s. s\<lparr>the_device := Some demo_pad\<rparr>) sync_shared,
     fw_disk = \<lparr>files = Map.empty, faults = [], trail = []\<rparr>, fw_memory = (\<lambda>a. 0), fw_paused = False, fw_sent = []\<rparr>"

definition demo_back :: device_info where
  "demo_back = demo_pad\<lparr>firmware_version := ''1.0.0'', running_partition := Some ''ota_1''\<rparr>"

abbreviation demo_sync_env :: sync_env where "demo_sync_env \<equiv> sync_with (Answered True [] None)"

lemma demo_others [simp]: "others demo_sync_env n w = w"
  by (simp add: sync_with_def)

definition demo_env :: "(unit, string) flash_env" where
  "demo_env = \<lparr>fe_packages = demo_packages\<lparr>sha := \<lambda>b. ''AB''\<rparr>, fe_sync = demo_sync_env, fe_app_version = ''1.0.0'',
     fe_network = (\<lambda>u t. Some (demo_answer demo_image)), fe_state_dir = Some ''/s'', fe_released = True,
     fe_flasher = (\<lambda>off bytes m. (Exited True (Some 0), \<lambda>a. 1)), fe_entered = (\<lambda>i. Inr ''COM7''),
     fe_left = (\<lambda>p. Inr ()), fe_back = Some demo_back\<rparr>"

definition demo_fw_manifest :: release_manifest where
  "demo_fw_manifest = demo_manifest FIRMWARE (demo_component ''1.0.0'' demo_firmware)"

lemma demo_fetched: "fetch_artifact (fe_packages demo_env) (fe_network demo_env) demo_firmware = Inr demo_image"
proof -
  have t: "trim ''4142'' = ''4142''" by (rule trim_printable) (simp add: printable_def byte_def)
  have "http_get (fe_network demo_env) ''https://x/f'' None MAX_ARTIFACT_BYTES = Inr (Body demo_image None)"
    by (simp add: http_get_def require_https_def strip_prefix_def demo_env_def demo_answer_def MAX_ARTIFACT_BYTES_def
        demo_image_def)
  moreover have "check_hash_bytes (sha (fe_packages demo_env)) ''https://x/f'' demo_image ''4142'' = Inr ()"
    by (simp add: check_hash_bytes_def compare_hash_def t sha256_bytes_def demo_env_def demo_packages_def
        hex_lower_def byte_def hex_digit_def eq_ignore_ascii_case_def ascii_lowercase_def to_ascii_lower_def
        char_of_def bit_0)
  ultimately show ?thesis by (simp add: fetch_artifact_def demo_firmware_def)
qed

lemma demo_staged:
  "case stage_image demo_env demo_firmware demo_image (fw_disk demo_world) of (r, d) \<Rightarrow> is_ok r \<and> faults d = []"
  by code_simp

lemma demo_synced:
  "case perform_sync demo_sync_env (fw_shared demo_world) of (w', ms, r) \<Rightarrow>
     is_ok r \<and> is_ok (still_safe_to_flash (sh_state w')) \<and> pad_of w' = Some demo_pad"
  by code_simp

lemma demo_prepared:
  "\<exists>img w'. prepare_flash demo_env demo_firmware demo_world = (Inr img, w')
     \<and> faults (fw_disk w') = [] \<and> pad_of (fw_shared w') = Some demo_pad"
proof -
  obtain w' ms k where s: "perform_sync demo_sync_env (fw_shared demo_world) = (w', ms, Inr k)"
    "is_ok (still_safe_to_flash (sh_state w'))" "pad_of w' = Some demo_pad"
    using demo_synced by (cases "perform_sync demo_sync_env (fw_shared demo_world)") (auto simp: is_ok_def split: sum.splits)
  obtain img d where st: "stage_image demo_env demo_firmware demo_image (fw_disk demo_world) = (Inr img, d)" "faults d = []"
    using demo_staged by (cases "stage_image demo_env demo_firmware demo_image (fw_disk demo_world)")
      (auto simp: is_ok_def split: sum.splits)
  have e: "fe_sync demo_env = demo_sync_env" by (simp add: demo_env_def)
  show ?thesis
    using s st demo_fetched by (auto simp: prepare_flash_def Let_def e is_ok_def split: sum.splits)
qed

lemma demo_written: "write_images (\<lambda>off bytes m. (Exited True code, m')) f ps m = (Inr (), if ps = [] then m else m')"
  by (induction ps arbitrary: m) auto

lemma demo_flashed:
  assumes "faults (fw_disk w) = []" "pad_of (fw_shared w) = Some demo_pad"
  shows "\<exists>w'. flash_and_verify demo_env img v ''1.0.0'' w = (Inr (FwInstalled v ''1.0.0'' demo_back), w')
    \<and> fw_memory w' = (\<lambda>a. 1)"
proof -
  obtain d' where d: "write_plain (fst img, OTADATA_FILE) (text_of (otadata_image 0 1)) (fw_disk w) = (Inr (), d')"
    using write_plain_no_faults assms(1) by blast
  have pad: "running_partition demo_pad = Some ''ota_0''" by (simp add: demo_pad_def)
  show ?thesis
    by (simp add: flash_and_verify_def Let_def demo_env_def update_shared_state_def plan_app_update_def slots_for_def
        run_flash_def demo_written assms(2) pad d await_pad_def demo_back_def)
qed

lemma demo_installed:
  "\<exists>w'. install_firmware demo_env (Some demo_fw_manifest) True demo_world
      = (Inr (FwInstalled ''v1-rc9'' ''1.0.0'' demo_back), w') \<and> fw_memory w' = (\<lambda>a. 1)"
proof -
  obtain img w' where p: "prepare_flash demo_env demo_firmware demo_world = (Inr img, w')"
    "faults (fw_disk w') = []" "pad_of (fw_shared w') = Some demo_pad"
    using demo_prepared by blast
  obtain w2 where w2: "flash_and_verify demo_env img ''v1-rc9'' ''1.0.0'' w' = (Inr (FwInstalled ''v1-rc9'' ''1.0.0'' demo_back), w2)"
    "fw_memory w2 = (\<lambda>a. 1)"
    using demo_flashed[OF p(2,3)] by blast
  have e: "fe_sync demo_env = demo_sync_env" by (simp add: demo_env_def)
  have plan: "plan_for_pad demo_fw_manifest (fe_app_version demo_env) (sh_state (fw_shared demo_world))
      = Inr (FwAvailable ''v1-rc9'' ''1.0.0'' None demo_firmware)"
    by (simp add: plan_for_pad_def firmware_plan_def demo_fw_manifest_def demo_manifest_def demo_component_def
        demo_world_def update_shared_state_def sync_shared_def new_state_def demo_pad_def sync_info_def trimmed_def
        demo_newer demo_trims demo_firmware_def may_update_now_def demo_env_def)
  have ready: "blockers (install_preconditions (sh_state (fw_shared demo_world)) True True) = [CountersNotSynced]"
    "pad_guard (sh_state (fw_shared demo_world)) = None" "sh_storage (fw_shared demo_world) \<noteq> None"
    by (simp_all add: blockers_def install_preconditions_def demo_world_def update_shared_state_def sync_shared_def
        new_state_def demo_pad_def sync_info_def may_update_now_def is_ota_0_def pad_guard_def)
  show ?thesis using p plan ready w2 by (simp add: install_firmware_def Let_def e)
qed

lemma flash_needs_everything_witness:
  "fw_memory (snd (install_firmware demo_env (Some demo_fw_manifest) True demo_world)) = (\<lambda>a. 1)
   \<and> (\<exists>a. prepared demo_env a (fw_shared demo_world))"
proof -
  have w0: "others (fe_sync demo_env) 40 (fw_shared demo_world) = fw_shared demo_world"
    by (simp add: demo_env_def)
  have changed: "fw_memory (snd (install_firmware demo_env (Some demo_fw_manifest) True demo_world)) = (\<lambda>a. 1)"
    using demo_installed by auto
  have "fw_memory demo_world = (\<lambda>a. 0)" by (simp add: demo_world_def)
  then have "fw_memory (snd (install_firmware demo_env (Some demo_fw_manifest) True demo_world)) \<noteq> fw_memory demo_world"
    unfolding changed by (auto dest: fun_cong[of _ _ 0])
  from flash_needs_everything[OF this] changed show ?thesis unfolding Let_def w0 by blast
qed

lemma updated_pad_is_refused_witness:
  "\<exists>w' reasons. install_firmware demo_env (Some demo_fw_manifest) True demo_world
      = (Inr (FwInstalled ''v1-rc9'' ''1.0.0'' demo_back), w')
    \<and> fst (install_firmware demo_env (Some demo_fw_manifest) True
        (demo_world\<lparr>fw_shared := update_shared_state (\<lambda>s. s\<lparr>the_device := Some demo_back\<rparr>) sync_shared\<rparr>))
      = Inr (FwRefused reasons)"
proof -
  obtain w' where i: "install_firmware demo_env (Some demo_fw_manifest) True demo_world
      = (Inr (FwInstalled ''v1-rc9'' ''1.0.0'' demo_back), w')"
    using demo_installed by blast
  let ?w2 = "demo_world\<lparr>fw_shared := update_shared_state (\<lambda>s. s\<lparr>the_device := Some demo_back\<rparr>) sync_shared\<rparr>"
  have "pad_stays (fe_sync demo_env)" "pad_of (others (fe_sync demo_env) 40 (fw_shared ?w2)) = Some demo_back"
    "device_connected (sh_state (others (fe_sync demo_env) 40 (fw_shared ?w2)))"
    by (simp_all add: pad_stays_def demo_env_def update_shared_state_def sync_shared_def)
  from updated_pad_is_refused[OF i this] i show ?thesis by (metis fst_conv)
qed

end
