(* ===== verification/Board_Test.thy ===== *)
theory Board_Test
  imports Config
begin

text \<open>
  The board test: \<open>opad-model/src/board_test.rs\<close>. The pad only measures; the checks and what each
  means are decided here. Each message is a constructor with the values that are written into it;
  its wording is left out.
\<close>

unbundle bit_operations_syntax

definition CARRIER_KEY1_GPIO :: u32 where "CARRIER_KEY1_GPIO = 10"
definition CARRIER_KEY2_GPIO :: u32 where "CARRIER_KEY2_GPIO = 7"

text \<open>The module's lines that carry no key: the GPIO and the pin of the connector.\<close>

definition SPARE_LINES :: "(u32 \<times> u32) list" where "SPARE_LINES = [(6, 6), (4, 7), (2, 8)]"

definition REVERSE_PROBE_MIN_MV :: u32 where "REVERSE_PROBE_MIN_MV = 700"
definition ID_PRESENT_MIN_MV :: u32 where "ID_PRESENT_MIN_MV = 120"
definition ID_TOO_HIGH_MV :: u32 where "ID_TOO_HIGH_MV = 1600"
definition MX_ID_MIN_MV :: u32 where "MX_ID_MIN_MV = 200"
definition MX_ID_MAX_MV :: u32 where "MX_ID_MAX_MV = 450"

datatype input_module = ModuleUnknown | ModuleNone | ModuleMx | ModuleHallEffect

record board_report =
  ran :: bool
  refusal :: string
  boot_module :: input_module
  present_module :: input_module
  id_mv :: "u32 option"
  id_loaded_mv :: "u32 option"
  reverse_probe_mv :: "u32 option"
  report_key1_gpio :: u32
  report_key2_gpio :: u32
  keys_enabled :: bool
  tested_gpios :: u64
  high_with_pullup :: u64
  high_with_pulldown :: u64
  bridged_gpios :: u64

datatype check_status = Skipped | Passed | Warned | Failed

datatype board_fix = UseCarrierKeyPins

datatype spare_issue = ShortedToGround u32 u32 | ShortedToSupply u32 u32 | Bridged u32 u32 u32 u32

datatype check_detail = NotRun string | ChangedSinceBoot input_module input_module | NoKeyInput
  | IdUnreadable | MxFound u32 | MxIdOff u32 | HallEffectFound u32 | ReversedCable | IdTooHigh u32
  | NoModuleAnswers u32 | OnCarrierPins | OffCarrierPins u32 u32 | LineNotTested u32 | LineLow u32
  | PullUpReaches u32 | PullUpMissing u32 | NotACarrierPin u32 | ExternalPullUp u32 | PadPullUp u32
  | SparesFree "u32 list" | SpareIssues "spare_issue list"

record board_check =
  check_name :: string
  check_status :: check_status
  check_detail :: check_detail
  check_fix :: "board_fix option"

definition new_check :: "string \<Rightarrow> check_status \<Rightarrow> check_detail \<Rightarrow> board_check" where
  "new_check name st detail =
     \<lparr>check_name = name, check_status = st, check_detail = detail, check_fix = None\<rparr>"

section \<open>The worst status\<close>

fun status_rank :: "check_status \<Rightarrow> nat" where
  "status_rank Skipped = 0"
| "status_rank Passed = 1"
| "status_rank Warned = 2"
| "status_rank Failed = 3"

instantiation check_status :: linorder
begin

definition less_eq_check_status :: "check_status \<Rightarrow> check_status \<Rightarrow> bool" where
  "less_eq_check_status a b \<longleftrightarrow> status_rank a \<le> status_rank b"

definition less_check_status :: "check_status \<Rightarrow> check_status \<Rightarrow> bool" where
  "less_check_status a b \<longleftrightarrow> status_rank a < status_rank b"

instance
proof
  fix a b c :: check_status
  show "(a < b) = (a \<le> b \<and> \<not> b \<le> a)" by (auto simp: less_eq_check_status_def less_check_status_def)
  show "a \<le> b \<Longrightarrow> b \<le> a \<Longrightarrow> a = b"
    unfolding less_eq_check_status_def by (cases a; cases b) auto
qed (auto simp: less_eq_check_status_def)

end

definition overall :: "board_check list \<Rightarrow> check_status" where
  "overall checks = fold max (map check_status checks) Skipped"

lemma status_top [simp]: "s \<le> Failed" "max Failed s = Failed" "max s Failed = Failed"
  by (cases s; simp add: less_eq_check_status_def max_def)+

lemma top_only [simp]: "Failed \<le> s \<longleftrightarrow> s = Failed"
  by (cases s) (simp_all add: less_eq_check_status_def)

lemma status_bottom [simp]: "Skipped \<le> s"
  by (simp add: less_eq_check_status_def)

lemma max_failed: "max a b = Failed \<longleftrightarrow> a = Failed \<or> b = Failed"
  by (metis max_def max.cobounded1 max.cobounded2 top_only)

lemma fold_max_failed: "fold max ss s = Failed \<longleftrightarrow> s = Failed \<or> Failed \<in> set ss"
  by (induction ss arbitrary: s) (auto simp: max_failed)

lemma overall_failed: "overall cs = Failed \<longleftrightarrow> (\<exists>c \<in> set cs. check_status c = Failed)"
  by (force simp: overall_def fold_max_failed)

section \<open>Reading the masks\<close>

definition gpio_bit :: "u32 \<Rightarrow> u64" where
  "gpio_bit g = (if unat g < 64 then push_bit (unat g) 1 else 0)"

definition was_tested :: "board_report \<Rightarrow> u32 \<Rightarrow> bool" where "was_tested r g \<longleftrightarrow> tested_gpios r AND gpio_bit g \<noteq> 0"
definition reads_up :: "board_report \<Rightarrow> u32 \<Rightarrow> bool" where "reads_up r g \<longleftrightarrow> high_with_pullup r AND gpio_bit g \<noteq> 0"
definition reads_down :: "board_report \<Rightarrow> u32 \<Rightarrow> bool" where "reads_down r g \<longleftrightarrow> high_with_pulldown r AND gpio_bit g \<noteq> 0"
definition is_bridged :: "board_report \<Rightarrow> u32 \<Rightarrow> bool" where "is_bridged r g \<longleftrightarrow> bridged_gpios r AND gpio_bit g \<noteq> 0"

definition on_carrier_pins :: "board_report \<Rightarrow> bool" where
  "on_carrier_pins r \<longleftrightarrow> report_key1_gpio r = CARRIER_KEY1_GPIO \<and> report_key2_gpio r = CARRIER_KEY2_GPIO"

section \<open>The checks\<close>

definition module_check :: "board_report \<Rightarrow> board_check" where
  "module_check r =
     (case (id_mv r, id_loaded_mv r) of
        (Some i, Some loaded) \<Rightarrow>
          (case present_module r of
             ModuleMx \<Rightarrow>
               if MX_ID_MIN_MV \<le> i \<and> i \<le> MX_ID_MAX_MV then new_check ''Input module'' Passed (MxFound i)
               else new_check ''Input module'' Warned (MxIdOff i)
           | ModuleHallEffect \<Rightarrow> new_check ''Input module'' Warned (HallEffectFound i)
           | _ \<Rightarrow>
               if REVERSE_PROBE_MIN_MV \<le> (case reverse_probe_mv r of Some v \<Rightarrow> v | None \<Rightarrow> 0)
               then new_check ''Cable'' Failed ReversedCable
               else if ID_PRESENT_MIN_MV \<le> loaded \<and> ID_TOO_HIGH_MV \<le> i
               then new_check ''Input module'' Failed (IdTooHigh i)
               else new_check ''Input module'' (if on_carrier_pins r then Failed else Skipped) (NoModuleAnswers i))
      | _ \<Rightarrow> new_check ''Input module'' Failed IdUnreadable)"

definition key_pins_check :: "board_report \<Rightarrow> board_check" where
  "key_pins_check r =
     (if on_carrier_pins r then new_check ''Key pins'' Passed OnCarrierPins
      else (new_check ''Key pins'' Failed (OffCarrierPins (report_key1_gpio r) (report_key2_gpio r)))
        \<lparr>check_fix := Some UseCarrierKeyPins\<rparr>)"

definition carrier_pin :: "nat \<Rightarrow> u32" where
  "carrier_pin key = (if key = 1 then CARRIER_KEY1_GPIO else CARRIER_KEY2_GPIO)"

definition line_name :: "nat \<Rightarrow> string" where
  "line_name key = (if key = 1 then ''Key 1 line'' else ''Key 2 line'')"

definition key_line_check :: "board_report \<Rightarrow> nat \<Rightarrow> u32 \<Rightarrow> bool \<Rightarrow> board_check" where
  "key_line_check r key g mx =
     (let name = line_name key in
      if \<not> was_tested r g then new_check name Skipped (LineNotTested g)
      else if \<not> reads_up r g then new_check name Failed (LineLow g)
      else if mx then
        if g = carrier_pin key
        then if reads_down r g then new_check name Passed (PullUpReaches g)
          else new_check name Failed (PullUpMissing g)
        else new_check name Skipped (NotACarrierPin g)
      else new_check name Passed (if reads_down r g then ExternalPullUp g else PadPullUp g))"

fun bridges :: "board_report \<Rightarrow> (u32 \<times> u32) list \<Rightarrow> spare_issue list" where
  "bridges r ((ga, pa) # (gb, pb) # ls) =
     (if is_bridged r ga \<and> is_bridged r gb then [Bridged pa pb ga gb] else []) @ bridges r ((gb, pb) # ls)"
| "bridges r ls = []"

definition shorts :: "board_report \<Rightarrow> (u32 \<times> u32) list \<Rightarrow> spare_issue list" where
  "shorts r ls = List.map_filter (\<lambda>(g, pin).
     if \<not> reads_up r g then Some (ShortedToGround pin g)
     else if reads_down r g then Some (ShortedToSupply pin g) else None) ls"

definition spare_lines_check :: "board_report \<Rightarrow> board_check option" where
  "spare_lines_check r =
     (let ls = filter (\<lambda>(g, pin). was_tested r g) SPARE_LINES in
      if ls = [] then None
      else let issues = shorts r ls @ bridges r ls in
        Some (if issues = [] then new_check ''Spare lines'' Passed (SparesFree (map snd ls))
          else new_check ''Spare lines'' Warned (SpareIssues issues)))"

definition has_mx :: "board_report \<Rightarrow> bool" where
  "has_mx r \<longleftrightarrow> present_module r = ModuleMx \<or> boot_module r = ModuleMx"

definition evaluate :: "board_report \<Rightarrow> board_check list" where
  "evaluate r =
     (if \<not> ran r then [new_check ''Board test'' Skipped (NotRun (refusal r))]
      else [module_check r]
        @ (if boot_module r \<noteq> present_module r \<and> boot_module r \<noteq> ModuleUnknown \<and> present_module r \<noteq> ModuleUnknown
           then [new_check ''Since boot'' Warned (ChangedSinceBoot (boot_module r) (present_module r))] else [])
        @ (if has_mx r then [key_pins_check r] else [])
        @ (if \<not> keys_enabled r then [new_check ''Key lines'' Skipped NoKeyInput]
           else [key_line_check r 1 (report_key1_gpio r) (has_mx r), key_line_check r 2 (report_key2_gpio r) (has_mx r)])
        @ (case spare_lines_check r of Some c \<Rightarrow> [c] | None \<Rightarrow> []))"

section \<open>When a board fails\<close>

text \<open>The faults a person has to repair, in terms of the measurements alone.\<close>

definition module_fault :: "board_report \<Rightarrow> bool" where
  "module_fault r \<longleftrightarrow>
     (case (id_mv r, id_loaded_mv r) of
        (Some i, Some loaded) \<Rightarrow> present_module r \<in> {ModuleNone, ModuleUnknown} \<and>
          (on_carrier_pins r \<or> (\<exists>v. reverse_probe_mv r = Some v \<and> 700 \<le> v) \<or> (120 \<le> loaded \<and> 1600 \<le> i))
      | _ \<Rightarrow> True)"

definition line_fault :: "board_report \<Rightarrow> nat \<Rightarrow> u32 \<Rightarrow> bool" where
  "line_fault r key g \<longleftrightarrow> was_tested r g \<and>
     (\<not> reads_up r g \<or> (has_mx r \<and> g = carrier_pin key \<and> \<not> reads_down r g))"

lemma module_check_failed: "check_status (module_check r) = Failed \<longleftrightarrow> module_fault r"
proof -
  have "REVERSE_PROBE_MIN_MV \<le> (case reverse_probe_mv r of Some v \<Rightarrow> v | None \<Rightarrow> 0)
      \<longleftrightarrow> (\<exists>v. reverse_probe_mv r = Some v \<and> 700 \<le> v)"
    by (simp add: REVERSE_PROBE_MIN_MV_def split: option.split)
  then show ?thesis
    unfolding module_check_def module_fault_def ID_PRESENT_MIN_MV_def ID_TOO_HIGH_MV_def
    by (auto simp: new_check_def split: option.splits input_module.splits if_splits)
qed

lemma key_pins_check_failed: "check_status (key_pins_check r) = Failed \<longleftrightarrow> \<not> on_carrier_pins r"
  by (simp add: key_pins_check_def new_check_def)

lemma key_line_check_failed: "check_status (key_line_check r key g (has_mx r)) = Failed \<longleftrightarrow> line_fault r key g"
  by (simp add: key_line_check_def line_fault_def new_check_def Let_def)

lemma spare_lines_check_passes: "spare_lines_check r = Some c \<Longrightarrow> check_status c \<noteq> Failed"
  by (auto simp: spare_lines_check_def new_check_def Let_def split: if_splits)

text \<open>
  The board test fails exactly when it ran and the ID line cannot be read, no module answers where
  one must be or through a reversed cable or a short, a module's keys are set to pins the carrier does
  not use, or a tested key line is low or misses the module's pull-up.
\<close>

theorem board_fails_iff:
  "overall (evaluate r) = Failed \<longleftrightarrow>
     ran r \<and> (module_fault r \<or> (has_mx r \<and> \<not> on_carrier_pins r)
       \<or> (keys_enabled r \<and> (line_fault r 1 (report_key1_gpio r) \<or> line_fault r 2 (report_key2_gpio r))))"
proof -
  have "(\<exists>c \<in> set (case spare_lines_check r of Some c \<Rightarrow> [c] | None \<Rightarrow> []). check_status c = Failed) = False"
    using spare_lines_check_passes[of r] by (auto split: option.splits)
  then show ?thesis
    unfolding overall_failed evaluate_def
    by (simp add: module_check_failed key_pins_check_failed key_line_check_failed new_check_def bex_Un)
qed

text \<open>
  The fix is offered for no other check, and taking it, keys on the pins of the carrier, makes the pins
  check pass. A key's line is judged with the module only where the carrier routes it.
\<close>

definition fixed_pins :: "board_report \<Rightarrow> board_report" where
  "fixed_pins r = r\<lparr>report_key1_gpio := CARRIER_KEY1_GPIO, report_key2_gpio := CARRIER_KEY2_GPIO\<rparr>"

lemma no_fix [simp]: "check_fix (new_check n st d) = None"
  by (simp add: new_check_def)

lemma fix_only_pins [simp]:
  "check_fix (module_check r) = None" "check_fix (key_line_check r key g mx) = None"
  "spare_lines_check r = Some c \<Longrightarrow> check_fix c = None"
  by (simp_all add: module_check_def key_line_check_def Let_def split: option.split input_module.split)
    (auto simp: spare_lines_check_def Let_def split: if_splits)

lemma fixed_pins_pass: "check_status (key_pins_check (fixed_pins r)) = Passed"
  by (simp add: key_pins_check_def on_carrier_pins_def fixed_pins_def new_check_def)

lemma fix_offered:
  "c \<in> set (evaluate r) \<Longrightarrow> check_fix c \<noteq> None \<Longrightarrow> c = key_pins_check r \<and> has_mx r"
  unfolding evaluate_def by (auto split: if_splits option.splits)

end
