(* ===== verification/Swipe.thy ===== *)
theory Swipe
  imports Config
begin

text \<open>
  What a touchscreen swipe can be set to: \<open>opad-model/src/swipe.rs\<close>. The platform decides which
  shortcuts and free keys are offered.
\<close>

datatype platform = Linux | Windows | OtherPlatform

definition MOD_CTRL :: u32 where "MOD_CTRL = 0x01"
definition MOD_SHIFT :: u32 where "MOD_SHIFT = 0x02"
definition MOD_ALT :: u32 where "MOD_ALT = 0x04"
definition MOD_GUI :: u32 where "MOD_GUI = 0x08"

section \<open>Keys and their names\<close>

text \<open>The usage of F\<open>n\<close>.\<close>

definition f_key :: "u32 \<Rightarrow> u32" where
  "f_key n = (if n \<le> 12 then 0x3A + n - 1 else 0x68 + n - 13)"

definition NAMED_KEYS :: "(u32 \<times> string) list" where
  "NAMED_KEYS = [(0x28, ''Enter''), (0x29, ''Esc''), (0x2A, ''Backspace''), (0x2B, ''Tab''), (0x2C, ''Space''),
     (0x49, ''Insert''), (0x4A, ''Home''), (0x4B, ''Page Up''), (0x4C, ''Delete''), (0x4D, ''End''),
     (0x4E, ''Page Down''), (0x4F, [CHR 0xE2, CHR 0x86, CHR 0x92]), (0x50, [CHR 0xE2, CHR 0x86, CHR 0x90]),
     (0x51, [CHR 0xE2, CHR 0x86, CHR 0x93]), (0x52, [CHR 0xE2, CHR 0x86, CHR 0x91])]"

definition key_name :: "u32 \<Rightarrow> string" where
  "key_name u =
     (if 0x3A \<le> u \<and> u \<le> 0x45 then ''F'' @ dec_digits (unat (u - 0x3A + 1))
      else if 0x68 \<le> u \<and> u \<le> 0x73 then ''F'' @ dec_digits (unat (u - 0x68 + 13))
      else case map_of NAMED_KEYS u of Some name \<Rightarrow> name | None \<Rightarrow> hid_usage_to_char u)"

definition combo_name :: "u32 \<Rightarrow> u32 \<Rightarrow> string" where
  "combo_name u modifiers =
     concat (map (\<lambda>(bit_mask, label). if and modifiers bit_mask \<noteq> 0 then label else [])
       [(MOD_CTRL, ''Ctrl+''), (MOD_SHIFT, ''Shift+''), (MOD_ALT, ''Alt+''), (MOD_GUI, ''Win+'')]) @ key_name u"

section \<open>Shortcuts\<close>

datatype osu_client = BothClients | LazerClient | StableClient

record osu_shortcut =
  sc_action :: string
  sc_usage :: u32
  sc_modifiers :: u32
  sc_client :: osu_client

definition available :: "platform \<Rightarrow> osu_shortcut \<Rightarrow> bool" where
  "available p s \<longleftrightarrow> sc_client s \<noteq> StableClient \<or> p = Windows"

definition shortcut_text :: "osu_shortcut \<Rightarrow> string" where
  "shortcut_text s =
     (case sc_client s of BothClients \<Rightarrow> ''osu!'' | LazerClient \<Rightarrow> ''osu!lazer'' | StableClient \<Rightarrow> ''osu! stable'')
     @ '': '' @ sc_action s @ '' ('' @ combo_name (sc_usage s) (sc_modifiers s) @ '')''"

definition shortcut :: "string \<times> u32 \<times> u32 \<times> osu_client \<Rightarrow> osu_shortcut" where
  "shortcut x = (case x of (action, usage, modifiers, client) \<Rightarrow>
     \<lparr>sc_action = action, sc_usage = usage, sc_modifiers = modifiers, sc_client = client\<rparr>)"

definition OSU_SHORTCUTS :: "osu_shortcut list" where
  "OSU_SHORTCUTS = map shortcut
     [(''Random beatmap'', f_key 2, 0, BothClients),
      (''Previous random beatmap'', f_key 2, MOD_SHIFT, BothClients),
      (''Mod select'', f_key 1, 0, BothClients),
      (''Beatmap options'', f_key 3, 0, BothClients),
      (''Previous beatmap'', 0x50, 0, BothClients),
      (''Next beatmap'', 0x4F, 0, BothClients),
      (''Previous difficulty'', 0x52, 0, BothClients),
      (''Next difficulty'', 0x51, 0, BothClients),
      (''Previous group'', 0x50, MOD_SHIFT, BothClients),
      (''Next group'', 0x4F, MOD_SHIFT, BothClients),
      (''Deselect all mods'', 0x2A, 0, LazerClient),
      (''Play / select'', 0x28, 0, BothClients),
      (''Back'', 0x29, 0, BothClients),
      (''Chat'', f_key 8, 0, BothClients),
      (''Social / extended chat'', f_key 9, 0, BothClients),
      (''Settings'', 0x12, MOD_CTRL, BothClients),
      (''Screenshot'', f_key 12, 0, BothClients),
      (''Toggle mouse buttons'', f_key 10, 0, BothClients),
      (''Toggle fullscreen'', 0x28, MOD_ALT, BothClients),
      (''Now playing'', f_key 6, 0, LazerClient),
      (''Toggle toolbar'', 0x17, MOD_CTRL, LazerClient),
      (''Beatmap listing'', 0x05, MOD_CTRL, LazerClient),
      (''Notifications'', 0x11, MOD_CTRL, LazerClient),
      (''Profile'', 0x13, MOD_CTRL, LazerClient),
      (''Main menu'', 0x4A, MOD_ALT, LazerClient),
      (''Random skin'', 0x15, or MOD_CTRL MOD_SHIFT, LazerClient),
      (''Previous skin'', 0x08, or MOD_CTRL MOD_SHIFT, LazerClient),
      (''Next skin'', 0x17, or MOD_CTRL MOD_SHIFT, LazerClient),
      (''Boss key (hide osu!)'', 0x49, 0, StableClient),
      (''Reload skin'', 0x16, or (or MOD_CTRL MOD_ALT) MOD_SHIFT, StableClient)]"

definition osu_shortcut_for :: "platform \<Rightarrow> u32 \<Rightarrow> u32 \<Rightarrow> osu_shortcut option" where
  "osu_shortcut_for p u modifiers =
     find (\<lambda>s. available p s \<and> sc_usage s = u \<and> sc_modifiers s = modifiers) OSU_SHORTCUTS"

definition free_keys :: "platform \<Rightarrow> u32 list" where
  "free_keys p = map f_key (if p = Linux then [14, 15, 16, 17, 18, 19] else [13, 14, 15, 16, 17, 18, 19, 20, 21, 22, 23])"

section \<open>Choices and settings\<close>

datatype swipe_choice = ChooseAction swipe_action | ChooseOsu osu_shortcut | OtherKey

definition choice_text :: "swipe_choice \<Rightarrow> string" where
  "choice_text c = (case c of ChooseAction a \<Rightarrow> swipe_label a | ChooseOsu s \<Rightarrow> shortcut_text s
     | OtherKey \<Rightarrow> ''Other key (F13-F24)'' @ [CHR 0xE2, CHR 0x80, CHR 0xA6])"

definition swipe_choices :: "platform \<Rightarrow> swipe_choice list" where
  "swipe_choices p = map ChooseAction (filter (\<lambda>a. a \<noteq> SwipeKey) ALL_SWIPES)
     @ map ChooseOsu (filter (available p) OSU_SHORTCUTS) @ [OtherKey]"

datatype swipe_dir = SwipeUp | SwipeDown | SwipeLeft | SwipeRight

record swipe_setting =
  sw_action :: swipe_action
  sw_key :: u32
  sw_modifiers :: u32

definition choice_of :: "platform \<Rightarrow> swipe_setting \<Rightarrow> swipe_choice" where
  "choice_of p s =
     (if sw_action s = SwipeKey
      then (case osu_shortcut_for p (sw_key s) (sw_modifiers s) of None \<Rightarrow> OtherKey | Some sc \<Rightarrow> ChooseOsu sc)
      else ChooseAction (sw_action s))"

definition chosen :: "platform \<Rightarrow> swipe_setting \<Rightarrow> swipe_choice \<Rightarrow> swipe_setting" where
  "chosen p s c =
     (case c of
        ChooseAction a \<Rightarrow> s\<lparr>sw_action := a\<rparr>
      | ChooseOsu sc \<Rightarrow> \<lparr>sw_action = SwipeKey, sw_key = sc_usage sc, sw_modifiers = sc_modifiers sc\<rparr>
      | OtherKey \<Rightarrow>
          let keep = (sw_modifiers s = 0 \<and> List.member (free_keys p) (sw_key s)) in
          \<lparr>sw_action = SwipeKey, sw_key = (if keep then sw_key s else 0), sw_modifiers = 0\<rparr>)"

definition describe :: "platform \<Rightarrow> swipe_setting \<Rightarrow> string" where
  "describe p s =
     (case choice_of p s of
        OtherKey \<Rightarrow> if sw_key s = 0 then ''key (none chosen)'' else ''key '' @ combo_name (sw_key s) (sw_modifiers s)
      | c \<Rightarrow> choice_text c)"

definition get_swipe_setting :: "device_config \<Rightarrow> swipe_dir \<Rightarrow> swipe_setting" where
  "get_swipe_setting c d =
     (case d of
        SwipeUp \<Rightarrow> \<lparr>sw_action = swipe_up_action c, sw_key = swipe_up_key c, sw_modifiers = swipe_up_modifiers c\<rparr>
      | SwipeDown \<Rightarrow> \<lparr>sw_action = swipe_down_action c, sw_key = swipe_down_key c, sw_modifiers = swipe_down_modifiers c\<rparr>
      | SwipeLeft \<Rightarrow> \<lparr>sw_action = swipe_left_action c, sw_key = swipe_left_key c, sw_modifiers = swipe_left_modifiers c\<rparr>
      | SwipeRight \<Rightarrow> \<lparr>sw_action = swipe_right_action c, sw_key = swipe_right_key c, sw_modifiers = swipe_right_modifiers c\<rparr>)"

definition set_swipe :: "swipe_dir \<Rightarrow> swipe_setting \<Rightarrow> device_config \<Rightarrow> device_config" where
  "set_swipe d s c =
     (case d of
        SwipeUp \<Rightarrow> c\<lparr>swipe_up_action := sw_action s, swipe_up_key := sw_key s, swipe_up_modifiers := sw_modifiers s\<rparr>
      | SwipeDown \<Rightarrow> c\<lparr>swipe_down_action := sw_action s, swipe_down_key := sw_key s, swipe_down_modifiers := sw_modifiers s\<rparr>
      | SwipeLeft \<Rightarrow> c\<lparr>swipe_left_action := sw_action s, swipe_left_key := sw_key s, swipe_left_modifiers := sw_modifiers s\<rparr>
      | SwipeRight \<Rightarrow> c\<lparr>swipe_right_action := sw_action s, swipe_right_key := sw_key s, swipe_right_modifiers := sw_modifiers s\<rparr>)"

section \<open>Settings and choices agree\<close>

text \<open>A shortcut's key and modifiers in one number, which the table keeps apart.\<close>

lemma shortcuts_apart: "distinct (map (\<lambda>s. (sc_usage s, sc_modifiers s)) OSU_SHORTCUTS)"
  by code_simp

lemma free_keys_platform: "free_keys p = free_keys Linux \<or> free_keys p = free_keys Windows"
  by (simp add: free_keys_def)

lemma free_keys_free:
  "list_all (\<lambda>k. list_all (\<lambda>s. \<not> (sc_usage s = k \<and> sc_modifiers s = 0)) OSU_SHORTCUTS) (0 # free_keys p)"
proof -
  have "list_all (\<lambda>k. list_all (\<lambda>s. \<not> (sc_usage s = k \<and> sc_modifiers s = 0)) OSU_SHORTCUTS)
      (0 # free_keys Linux @ free_keys Windows)" by code_simp
  then show ?thesis using free_keys_platform[of p] by auto
qed

lemma free_keys_sendable: "list_all (\<lambda>k. 0x04 \<le> k \<and> k \<le> 0xE7 \<and> k \<noteq> f_key 24) (free_keys p)"
proof -
  have "list_all (\<lambda>k. 0x04 \<le> k \<and> k \<le> 0xE7 \<and> k \<noteq> f_key 24) (free_keys Linux @ free_keys Windows)" by code_simp
  then show ?thesis using free_keys_platform[of p] by auto
qed

lemma member_free [simp]: "List.member xs k \<longleftrightarrow> k \<in> set xs"
  by (induction xs) auto

lemma find_distinct:
  "distinct (map f xs) \<Longrightarrow> x \<in> set xs \<Longrightarrow> P x \<Longrightarrow> find (\<lambda>y. P y \<and> f y = f x) xs = Some x"
  by (induction xs) (auto simp: rev_image_eqI)

lemma shortcut_found:
  assumes "s \<in> set OSU_SHORTCUTS" "available p s"
  shows "osu_shortcut_for p (sc_usage s) (sc_modifiers s) = Some s"
  using find_distinct[OF shortcuts_apart assms(1), of "available p"] assms(2)
  by (simp add: osu_shortcut_for_def)

lemma no_shortcut_for_free:
  assumes "k = 0 \<or> List.member (free_keys p) k" shows "osu_shortcut_for p k 0 = None"
  using free_keys_free[of p] assms unfolding osu_shortcut_for_def find_None_iff
  by (auto simp: list_all_iff)

text \<open>
  The setting that a choice of the list gives is shown as that choice again, whatever the setting was
  before, and choosing what is shown changes nothing, except for a key that is neither a shortcut nor
  free, which choosing the second list clears.
\<close>

theorem swipe_choice_roundtrip:
  "c \<in> set (swipe_choices p) \<Longrightarrow> choice_of p (chosen p s c) = c
     \<and> (chosen p s (choice_of p s) = s
        \<or> (choice_of p s = OtherKey \<and> \<not> (sw_modifiers s = 0 \<and> (sw_key s = 0 \<or> sw_key s \<in> set (free_keys p)))))"
proof
  assume c: "c \<in> set (swipe_choices p)"
  show "choice_of p (chosen p s c) = c"
  proof (cases c)
    case OtherKey
    then show ?thesis by (simp add: choice_of_def chosen_def Let_def no_shortcut_for_free)
  qed (use c in \<open>auto simp: swipe_choices_def choice_of_def chosen_def shortcut_found\<close>)
  show "chosen p s (choice_of p s) = s
    \<or> (choice_of p s = OtherKey \<and> \<not> (sw_modifiers s = 0 \<and> (sw_key s = 0 \<or> sw_key s \<in> set (free_keys p))))"
    by (cases s) (auto simp: choice_of_def chosen_def osu_shortcut_for_def find_Some_iff
        split: option.split)
qed

lemma swipe_choice_roundtrip_witness:
  "choice_of Linux (chosen Linux \<lparr>sw_action = VolumeUp, sw_key = 0, sw_modifiers = 0\<rparr> OtherKey) = OtherKey"
  using swipe_choice_roundtrip[of OtherKey Linux] by (simp add: swipe_choices_def)

text \<open>
  A swipe set in the configuration is read back, and the other directions keep theirs.
\<close>

lemma swipe_lens:
  "get_swipe_setting (set_swipe d s c) d' = (if d' = d then s else get_swipe_setting c d')"
  "set_swipe d (get_swipe_setting c d) c = c"
  by (cases d; cases d'; simp add: set_swipe_def get_swipe_setting_def)
    (cases d; simp add: set_swipe_def get_swipe_setting_def)

text \<open>A choice leaves the configuration valid, but for a free key that is still to be picked.\<close>

lemma chosen_valid:
  assumes "c \<in> set (swipe_choices p)" "c \<noteq> OtherKey" "validate_swipe side (sw_action s) (sw_key s) = Inr ()"
  shows "\<exists>k. sw_key (chosen p s c) = k \<and> (k = 0 \<or> (0x04 \<le> k \<and> k \<le> 0xE7))"
proof -
  have "list_all (\<lambda>s. 0x04 \<le> sc_usage s \<and> sc_usage s \<le> 0xE7) OSU_SHORTCUTS" by code_simp
  then show ?thesis
    using assms by (cases c) (auto simp: swipe_choices_def chosen_def list_all_iff validate_swipe_def split: if_splits)
qed

end
