(* ===== verification/Ipc.thy ===== *)
theory Ipc
  imports Firmware_Update Backups Log_Hub Board_Test
begin

text \<open>
  The daemon's answers to the GUI and the command line: \<open>daemon/src/ipc_handlers.rs\<close> over the requests
  and responses of \<open>opad-ipc\<close>. One definition per request. The handlers run beside the loop, syncs and
  other connections: what those do between two looks at the shared state is \<open>others\<close> of the
  environment, with a number per gap, and so are the answers of the pad's link. A message the link
  refuses does not count as sent. Reasons that carry an error have it as a value.
\<close>

section \<open>Requests and responses\<close>

datatype update_component = AppComponent | TosuComponent | FirmwareComponent

datatype update_command = InstallCommand update_component | CheckCommand | ChannelChangedCommand

datatype ipc_request = Handshake string u32 | GetStatus | UpdateConfig device_config | ForceSync
  | ResetCounters bool | ExportBackup | PreviewImport json_backup | ImportBackup json_backup bool
  | ResolveReplacement bool | ResolveTakeover bool bool | RestoreDeviceFromPc bool
  | ImportPcFromDevice bool | GetLogEntries "u64 option" nat "log_level option" "log_source option"
  | PrepareFlash | FinishFlash | ResumeDevice | ResetLatencyStats | GetLayouts | SetLayout screen layout
  | ResetLayout screen | GetUiValues | GetUpdateStatus | SetUpdateEnabled update_component bool
  | InstallUpdate update_component | CheckForUpdates | SetUpdateChannel string | GetFirmwareUpdate
  | InstallFirmwareUpdate bool | DetectPin u32 u32 u32 | TriggerEasterEgg | GetTapStats
  | SetTapHistoryPeriod u32 | RunBoardTest | PlayAnimationNow u32 string | RestartPad
  | StartHeCalibration | CancelHeCalibration | GetHeCalibrationProgress | GetHeLive

datatype reason = Because string | LayoutBecause layout_error | ConfigBecause string config_error
  | StorageBecause string storage_error | FlashBecause firmware_update_error | Sentences "sentence list"
  | UnknownChannel string | BusyIn runtime_mode

record takeover_prompt =
  tp_device_id :: string
  tp_device_key1 :: u64
  tp_device_key2 :: u64
  tp_pc_key1 :: u64
  tp_pc_key2 :: u64

record status_report =
  sr_mode :: runtime_mode
  sr_device_connected :: bool
  sr_device_info :: "device_info option"
  sr_counters :: counter_state
  sr_counters_source :: counter_source
  sr_pc_counters :: "counter_state option"
  sr_esp_counters :: "counter_state option"
  sr_config :: device_config
  sr_last_sync_time :: "string option"
  sr_last_sync_error :: "string option"
  sr_storage_error :: "string option"
  sr_tosu_connected :: bool
  sr_latency :: "latency_stats option"
  sr_pending_replacement :: "string option"
  sr_pending_takeover :: "takeover_prompt option"
  sr_incompatible :: "incompatible_device option"
  sr_last_backup :: "string option"
  sr_foreign_pad :: bool
  sr_he_calibration :: "he_calibration_status option"

record component_update =
  cu_installed :: "string option"
  cu_available :: "string option"
  cu_notes :: "string option"
  cu_enabled :: bool
  cu_notify_only :: bool
  cu_ready_to_install :: bool
  cu_notes_url :: "string option"

record update_status =
  up_tosu :: component_update
  up_app :: component_update
  up_last_check :: "int option"
  up_last_error :: "string option"
  up_restart_required :: bool
  up_channel :: string
  up_checking :: bool
  up_last_result :: "string option"

record current_backup_state =
  cb_device_id :: string
  cb_generation :: u32
  cb_lifetime_key1 :: u64
  cb_lifetime_key2 :: u64
  cb_config :: device_config

datatype import_warning = IdMismatch string string | CounterRollback | GenerationBumped

record he_live_sample =
  key1_raw :: u32
  key2_raw :: u32
  key1_down :: bool
  key2_down :: bool

datatype ipc_response = HandshakeAck string u32 bool | HandshakeRejected u32 string
  | Status status_report | ConfigUpdated device_config bool | OperationDeferred reason
  | SyncCompleted bool counter_state | CountersReset counter_state | CountersRestored counter_state
  | BackupExported json_backup
  | ImportPreview "current_backup_state option" json_backup bool bool "import_warning list"
  | BackupImported bool counter_state device_config | ReadyForFlash "string option"
  | FlashFinished string u32 bool | DeviceResumed | FirmwareUpdateOffer firmware_offer
  | FirmwareUpdateFinished string string string "string option" u32 bool
  | LogEntries "log_entry list" u64 | LayoutsKnown "layout option" "layout option"
  | LayoutApplied screen string | UiValues "ui_value list" | UpdateStatus update_status "string option"
  | UpdateCheckStarted | UpdateStarted update_component | OperationRejected reason
  | PinDetected u32 u32 bool | EasterEggTriggered | TapStats tap_snapshot | BoardTest board_report
  | AnimationPlayed | PadRestarting | HeCalibrationStarted | HeCalibrationCancelled
  | HeCalibrationProgress "he_progress option" | HeLive bool "he_live_sample option" | Failure reason

section \<open>The environment\<close>

text \<open>Events the pad's worker broadcasts while a handler listens.\<close>

datatype pad_event = AckEvent u8 bool string | BoardEvent board_report | PinEvent u32 u32 bool
  | ConnectedEvent device_info | OtherEvent

record update_service =
  us_status :: update_status
  us_manifest :: "release_manifest option"
  us_running :: bool

record ('k, 's) ipc_env =
  ie_flash :: "('k, 's) flash_env"
  ie_runtime :: env
  ie_takes :: "nat \<Rightarrow> (string, unit) result"
  ie_is_connected :: bool
  ie_per_second :: bool
  ie_board_test :: bool
  ie_restart :: bool
  ie_he_calibration :: bool
  ie_he_live :: bool
  ie_animations :: u32
  ie_sample :: "he_live_sample option"
  ie_port :: "string option"
  ie_events :: "pad_event list"
  ie_closed :: bool
  ie_updates :: "update_service option"
  ie_log :: log_hub
  ie_rfc3339 :: "int \<Rightarrow> string"

record ipc_world =
  iw_pad :: flash_world
  iw_queue :: "update_command list"

abbreviation gap :: "('k, 's) ipc_env \<Rightarrow> nat \<Rightarrow> flash_world \<Rightarrow> flash_world" where
  "gap e n w \<equiv> interfere (ie_flash e) n w"

abbreviation state_of :: "flash_world \<Rightarrow> daemon_state" where "state_of w \<equiv> sh_state (fw_shared w)"
abbreviation db_of :: "flash_world \<Rightarrow> storage option" where "db_of w \<equiv> sh_storage (fw_shared w)"
abbreviation stamp :: "('k, 's) ipc_env \<Rightarrow> string" where "stamp e \<equiv> sync_now (fe_sync (ie_flash e))"

definition on_state :: "(daemon_state \<Rightarrow> daemon_state) \<Rightarrow> flash_world \<Rightarrow> flash_world" where
  "on_state f w = w\<lparr>fw_shared := update_shared_state f (fw_shared w)\<rparr>"

definition on_storage :: "(storage \<Rightarrow> storage stored) \<Rightarrow> flash_world \<Rightarrow> flash_world" where
  "on_storage f w = w\<lparr>fw_shared := with_storage f (fw_shared w)\<rparr>"

definition on_pending :: "(pending_operations \<Rightarrow> pending_operations) \<Rightarrow> flash_world \<Rightarrow> flash_world" where
  "on_pending f w = w\<lparr>fw_shared := (fw_shared w)\<lparr>sh_pending := f (sh_pending (fw_shared w))\<rparr>\<rparr>"

text \<open>The \<open>n\<close>th message of a request, and whether the link took it.\<close>

definition send_pad :: "('k, 's) ipc_env \<Rightarrow> nat \<Rightarrow> pad_message \<Rightarrow> flash_world \<Rightarrow> (string, unit) result \<times> flash_world" where
  "send_pad e n m w = (ie_takes e n, case ie_takes e n of Inr _ \<Rightarrow> w\<lparr>fw_sent := fw_sent w @ [m]\<rparr> | Inl err \<Rightarrow> w)"

definition send_anyway :: "('k, 's) ipc_env \<Rightarrow> nat \<Rightarrow> pad_message \<Rightarrow> flash_world \<Rightarrow> flash_world" where
  "send_anyway e n m w = snd (send_pad e n m w)"

definition load_counters :: "string \<Rightarrow> flash_world \<Rightarrow> counter_state option" where
  "load_counters i w = Option.bind (db_of w) (\<lambda>s. case load_device_state i s of Inr k \<Rightarrow> k | Inl err \<Rightarrow> None)"

text \<open>The first event that answers.\<close>

definition await_event :: "(pad_event \<Rightarrow> 'a option) \<Rightarrow> pad_event list \<Rightarrow> 'a option" where
  "await_event f evs = (case List.map_filter f evs of x # _ \<Rightarrow> Some x | [] \<Rightarrow> None)"

abbreviation playing_or_cooldown :: "runtime_mode \<Rightarrow> bool" where
  "playing_or_cooldown m \<equiv> m = Playing \<or> m = Cooldown"

section \<open>Status and queries\<close>

definition IPC_PROTOCOL_VERSION :: u32 where "IPC_PROTOCOL_VERSION = 1"

definition handshake :: "('k, 's) ipc_env \<Rightarrow> string \<Rightarrow> u32 \<Rightarrow> flash_world \<Rightarrow> ipc_response" where
  "handshake e client protocol w =
     (if protocol \<noteq> IPC_PROTOCOL_VERSION
      then HandshakeRejected IPC_PROTOCOL_VERSION (''IPC protocol version mismatch: client is ''
        @ dec_digits (unat protocol) @ '', daemon is '' @ dec_digits (unat IPC_PROTOCOL_VERSION))
      else if client \<noteq> fe_app_version (ie_flash e)
      then HandshakeRejected IPC_PROTOCOL_VERSION (''Version mismatch: this client is '' @ client
        @ '' but the running daemon is '' @ fe_app_version (ie_flash e)
        @ ''. The app was updated; restart opad-daemon to finish.'')
      else HandshakeAck (fe_app_version (ie_flash e)) IPC_PROTOCOL_VERSION (device_connected (state_of w)))"

definition known_pc_counters :: "flash_world \<Rightarrow> counter_state option" where
  "known_pc_counters w =
     (let st = state_of w in
      case the_device st of
        None \<Rightarrow> pc_counters st
      | Some info \<Rightarrow> (case load_counters (device_id info) w of Some k \<Rightarrow> Some k | None \<Rightarrow> pc_counters st))"

definition prompt_for :: "counter_state option \<Rightarrow> pending_takeover \<Rightarrow> takeover_prompt" where
  "prompt_for pc t = \<lparr>tp_device_id = pt_device_id t, tp_device_key1 = pt_device_key1 t,
     tp_device_key2 = pt_device_key2 t,
     tp_pc_key1 = (case pc of Some k \<Rightarrow> lifetime_key1 k | None \<Rightarrow> 0),
     tp_pc_key2 = (case pc of Some k \<Rightarrow> lifetime_key2 k | None \<Rightarrow> 0)\<rparr>"

definition get_status :: "flash_world \<Rightarrow> status_report" where
  "get_status w =
     (let st = state_of w; pc = known_pc_counters w in
      \<lparr>sr_mode = mode st, sr_device_connected = device_connected st, sr_device_info = the_device st,
       sr_counters = counters st, sr_counters_source = counters_source st, sr_pc_counters = pc,
       sr_esp_counters = esp_counters st, sr_config = config st, sr_last_sync_time = last_sync_time st,
       sr_last_sync_error = last_sync_error st, sr_storage_error = storage_error st,
       sr_tosu_connected = tosu_connected st, sr_latency = latency st,
       sr_pending_replacement = pending_replacement st,
       sr_pending_takeover = map_option (prompt_for pc) (takeover st),
       sr_incompatible = incompatible st, sr_last_backup = last_backup st,
       sr_foreign_pad = foreign_pad st, sr_he_calibration = he_status st\<rparr>)"

definition get_ui_values :: "daemon_state \<Rightarrow> ui_value list" where
  "get_ui_values st =
     (let t = tap_snapshot (tap st) in
      ui_values st @ attempt_ui_values (case ts_current t of Some a \<Rightarrow> Some a | None \<Rightarrow> ts_last t)
        @ history_ui_values (ts_history t))"

definition set_tap_history_period :: "('k, 's) ipc_env \<Rightarrow> u32 \<Rightarrow> flash_world \<Rightarrow> ipc_response \<times> flash_world" where
  "set_tap_history_period e days w =
     (case validate_history_days days of
        Inl err \<Rightarrow> (Failure (Because err), w)
      | Inr _ \<Rightarrow>
          let db = db_of w;
              history = Option.bind db (\<lambda>s. case read_tap_history days (utc_now (ie_runtime e)) s of
                 Inr h \<Rightarrow> Some h | Inl err \<Rightarrow> None);
              saved = (case db of Some s \<Rightarrow> is_ok (set_tap_history_days days s) | None \<Rightarrow> False);
              w = gap e 51 (on_storage (set_tap_history_days days) w);
              w = on_state (\<lambda>s. s\<lparr>tap := (tap s)\<lparr>tap_snapshot := (tap_snapshot (tap s))
                   \<lparr>ts_period_days := days, ts_history := history\<rparr>, period_unsaved := \<not> saved\<rparr>\<rparr>) w
          in (TapStats (tap_snapshot (tap (state_of w))), w))"

section \<open>Updates\<close>

definition NO_WORKER :: string where "NO_WORKER = ''The update worker is not running''"

definition queue_command :: "update_service \<Rightarrow> update_command \<Rightarrow> ipc_response \<Rightarrow> update_command list
    \<Rightarrow> ipc_response \<times> update_command list" where
  "queue_command u c ok q = (if us_running u then (ok, q @ [c]) else (Failure (Because NO_WORKER), q))"

definition get_update_status :: "('k, 's) ipc_env \<Rightarrow> ipc_response" where
  "get_update_status e =
     (case ie_updates e of
        None \<Rightarrow> Failure (Because NO_WORKER)
      | Some u \<Rightarrow> UpdateStatus (us_status u) (map_option (ie_rfc3339 e) (up_last_check (us_status u))))"

definition check_for_updates :: "('k, 's) ipc_env \<Rightarrow> runtime_mode \<Rightarrow> update_command list
    \<Rightarrow> ipc_response \<times> update_command list" where
  "check_for_updates e m q =
     (if m \<noteq> Idle then (OperationDeferred (Because ''Updates are checked once the map has ended''), q)
      else case ie_updates e of
        None \<Rightarrow> (Failure (Because NO_WORKER), q)
      | Some u \<Rightarrow> queue_command u CheckCommand UpdateCheckStarted q)"

definition CHANNEL_KEY :: string where "CHANNEL_KEY = ''update.channel''"
definition TOSU_ENABLED_KEY :: string where "TOSU_ENABLED_KEY = ''update.tosu.enabled''"
definition APP_ENABLED_KEY :: string where "APP_ENABLED_KEY = ''update.app.enabled''"
definition NO_DATABASE :: string where "NO_DATABASE = ''Storage is unavailable''"

definition set_update_channel :: "('k, 's) ipc_env \<Rightarrow> string \<Rightarrow> ipc_world \<Rightarrow> ipc_response \<times> ipc_world" where
  "set_update_channel e ch w =
     (if ch \<noteq> STABLE \<and> ch \<noteq> BETA
      then (OperationRejected (UnknownChannel ch), w)
      else case ie_updates e of
        None \<Rightarrow> (Failure (Because NO_WORKER), w)
      | Some u \<Rightarrow>
          (case db_of (iw_pad w) of
             None \<Rightarrow> (Failure (Because NO_DATABASE), w)
           | Some s \<Rightarrow>
               (case set_app_state CHANNEL_KEY ch s of
                  Inl err \<Rightarrow> (OperationDeferred (StorageBecause ''Cannot save the update channel right now: '' err), w)
                | Inr s' \<Rightarrow>
                    (case queue_command u ChannelChangedCommand UpdateCheckStarted (iw_queue w) of
                       (r, q) \<Rightarrow> (r, w\<lparr>iw_pad := on_storage (set_app_state CHANNEL_KEY ch) (iw_pad w),
                           iw_queue := q\<rparr>)))))"

definition set_update_enabled :: "update_component \<Rightarrow> bool \<Rightarrow> flash_world \<Rightarrow> ipc_response \<times> flash_world" where
  "set_update_enabled component enabled w =
     (case component of
        FirmwareComponent \<Rightarrow>
          (OperationRejected (Because ''Firmware updates are consented to individually, not enabled''), w)
      | _ \<Rightarrow>
          let key = (if component = AppComponent then APP_ENABLED_KEY else TOSU_ENABLED_KEY);
              v = (if enabled then ''1'' else ''0'')
          in (case db_of w of
                None \<Rightarrow> (Failure (Because NO_DATABASE), w)
              | Some s \<Rightarrow>
                  (case set_app_state key v s of
                     Inl err \<Rightarrow> (OperationDeferred (StorageBecause ''Cannot save the update setting right now: '' err), w)
                   | Inr s' \<Rightarrow> (ConfigUpdated (config (state_of w)) False, on_storage (set_app_state key v) w))))"

definition install_update :: "('k, 's) ipc_env \<Rightarrow> runtime_mode \<Rightarrow> update_component \<Rightarrow> update_command list
    \<Rightarrow> ipc_response \<times> update_command list" where
  "install_update e m component q =
     (if m \<noteq> Idle then (OperationDeferred (BusyIn m), q)
      else case ie_updates e of
        None \<Rightarrow> (Failure (Because NO_WORKER), q)
      | Some u \<Rightarrow> queue_command u (InstallCommand component) (UpdateStarted component) q)"


section \<open>Layouts and configuration\<close>

definition put_layout :: "screen \<Rightarrow> layout \<Rightarrow> (screen \<times> layout) list \<Rightarrow> (screen \<times> layout) list" where
  "put_layout scr l ls = (scr, l) # filter (\<lambda>(k, _). k \<noteq> scr) ls"

definition drop_layout :: "screen \<Rightarrow> (screen \<times> layout) list \<Rightarrow> (screen \<times> layout) list" where
  "drop_layout scr ls = filter (\<lambda>(k, _). k \<noteq> scr) ls"

definition wait_for_layout_ack :: "('k, 's) ipc_env \<Rightarrow> screen \<Rightarrow> ipc_response" where
  "wait_for_layout_ack e scr =
     (case await_event (\<lambda>ev. case ev of AckEvent s ok m \<Rightarrow> if s = screen_wire scr then Some (ok, m) else None
         | _ \<Rightarrow> None) (ie_events e) of
        Some (ok, m) \<Rightarrow>
          if ok then LayoutApplied scr m
          else OperationRejected (Because (''The pad rejected the layout: '' @ m @
            (if text_contains ''unknown source'' m
             then ''. Its firmware predates that data source; update the pad's firmware to use it'' else [])))
      | None \<Rightarrow> Failure (Because (if ie_closed e then ''Device event stream closed''
            else ''The pad did not confirm the layout within 3s'')))"

definition guarded_by :: "flash_world \<Rightarrow> (flash_world \<Rightarrow> ipc_response \<times> flash_world) \<Rightarrow> ipc_response \<times> flash_world" where
  "guarded_by w f = (case pad_guard (state_of w) of Some r \<Rightarrow> (Failure (Because r), w) | None \<Rightarrow> f w)"

definition push_layout :: "('k, 's) ipc_env \<Rightarrow> runtime_mode \<Rightarrow> screen \<Rightarrow> layout option \<Rightarrow> string \<Rightarrow> string \<Rightarrow> string
    \<Rightarrow> flash_world \<Rightarrow> ipc_response \<times> flash_world" where
  "push_layout e m scr l playing_text offline_text fail_text w =
     (let msg = (case l of Some l \<Rightarrow> PadLayout scr l | None \<Rightarrow> PadLayoutReset scr) in
      if playing_or_cooldown m then
        let w = gap e 54 (send_anyway e 0 msg (gap e 53 w));
            w = on_pending (\<lambda>p. p\<lparr>pending_layouts := pending_layouts p @ [(scr, l)]\<rparr>) w
        in (LayoutApplied scr playing_text, w)
      else
        let w = on_storage (case l of Some l \<Rightarrow> save_layout (screen_wire scr) (layout_json (fe_sync (ie_flash e)) l)
              | None \<Rightarrow> delete_layout (screen_wire scr)) (gap e 53 w);
            w = gap e 54 w
        in if \<not> device_connected (state_of w) then (LayoutApplied scr offline_text, w)
           else case send_pad e 0 msg w of
             (Inl err, w) \<Rightarrow> (Failure (Because (fail_text @ err)), w)
           | (Inr _, w) \<Rightarrow> (wait_for_layout_ack e scr, gap e 55 w))"

definition set_layout :: "('k, 's) ipc_env \<Rightarrow> runtime_mode \<Rightarrow> screen \<Rightarrow> layout \<Rightarrow> flash_world
    \<Rightarrow> ipc_response \<times> flash_world" where
  "set_layout e m scr l w = guarded_by w (\<lambda>w.
     case validate_layout l of
       Inl err \<Rightarrow> (OperationRejected (LayoutBecause err), w)
     | Inr _ \<Rightarrow>
         let w = gap e 51 w in
         if uses_per_second l \<and> device_connected (state_of w) \<and> \<not> ie_per_second e
         then (OperationRejected (Because ''This pad's firmware shows tap rates in KPM only; update the pad's firmware to show them in KPS''), w)
         else push_layout e m scr (Some l) ''Layout applied to pad RAM; will be saved after gameplay''
           ''Saved; it will be applied when the pad connects'' ''Failed to send layout: ''
           (on_state (\<lambda>s. s\<lparr>custom_layouts := put_layout scr l (custom_layouts s)\<rparr>) (gap e 52 w)))"

definition reset_layout :: "('k, 's) ipc_env \<Rightarrow> runtime_mode \<Rightarrow> screen \<Rightarrow> flash_world \<Rightarrow> ipc_response \<times> flash_world" where
  "reset_layout e m scr w = guarded_by w (\<lambda>w.
     push_layout e m scr None ''Layout reset in pad RAM; will be saved after gameplay''
       ''Reset; the pad will use its default'' ''Failed to reset layout: ''
       (on_state (\<lambda>s. s\<lparr>custom_layouts := drop_layout scr (custom_layouts s)\<rparr>) (gap e 52 w)))"

text \<open>What waits for the end of a play: everything the keys depend on.\<close>

definition keys_changed :: "device_config \<Rightarrow> device_config \<Rightarrow> bool" where
  "keys_changed old new \<longleftrightarrow> key1_hid_usage old \<noteq> key1_hid_usage new \<or> key2_hid_usage old \<noteq> key2_hid_usage new
     \<or> debounce_us old \<noteq> debounce_us new \<or> key1_gpio old \<noteq> key1_gpio new \<or> key2_gpio old \<noteq> key2_gpio new"

definition save_then :: "(storage \<Rightarrow> storage stored) \<Rightarrow> flash_world \<Rightarrow> (storage_error, flash_world) result" where
  "save_then f w = (case db_of w of
      None \<Rightarrow> Inr w
    | Some s \<Rightarrow> (case f s of Inl err \<Rightarrow> Inl err | Inr s' \<Rightarrow> Inr (on_storage f w)))"

definition change_config :: "('k, 's) ipc_env \<Rightarrow> runtime_mode \<Rightarrow> device_config \<Rightarrow> flash_world \<Rightarrow> ipc_response \<times> flash_world" where
  "change_config e m new w = guarded_by w (\<lambda>w.
     case validate_config new of
       Inl err \<Rightarrow> (OperationRejected (ConfigBecause ''Invalid configuration: '' err), w)
     | Inr _ \<Rightarrow>
         let w = gap e 51 w; current = config (state_of w); w = gap e 52 w in
         if playing_or_cooldown m then
           if keys_changed current new
           then (OperationDeferred (Because ''Key mapping, pin and debounce changes are deferred until IDLE mode''),
             on_pending (\<lambda>p. p\<lparr>pending_config := Some new\<rparr>) w)
           else
             let w = gap e 53 (send_anyway e 0 (PadConfig new) w);
                 w = gap e 54 (on_state (\<lambda>s. s\<lparr>config := new\<rparr>) w)
             in (ConfigUpdated new True, on_pending (\<lambda>p. p\<lparr>pending_config := Some new\<rparr>) w)
         else case save_then (save_config new) w of
             Inl err \<Rightarrow> (Failure (StorageBecause ''Failed to save config: '' err), w)
           | Inr w \<Rightarrow>
               let w = on_state (\<lambda>s. s\<lparr>config := new\<rparr>) (gap e 53 w)
               in (ConfigUpdated new False, send_anyway e 0 (PadConfig new) (gap e 54 w)))"

section \<open>Counters\<close>

definition reject :: "string \<Rightarrow> flash_world \<Rightarrow> ipc_response \<times> flash_world" where
  "reject r w = (OperationRejected (Because r), w)"

definition force_sync :: "('k, 's) ipc_env \<Rightarrow> runtime_mode \<Rightarrow> flash_world \<Rightarrow> ipc_response \<times> flash_world" where
  "force_sync e m w = guarded_by w (\<lambda>w.
     if playing_or_cooldown m then reject ''Cannot force synchronization during gameplay or cooldown'' w
     else let w = gap e 51 w in
       if db_of w = None then reject ''Database unavailable: counter sync is rejected without persistent storage'' w
       else case perform_sync (fe_sync (ie_flash e)) (fw_shared (gap e 52 w)) of
         (synced, sent, r) \<Rightarrow>
           let w = w\<lparr>fw_shared := synced, fw_sent := fw_sent w @ sent\<rparr> in
           (case r of Inr k \<Rightarrow> SyncCompleted True k | Inl err \<Rightarrow> Failure (Because (''Sync failed: '' @ err)), w))"

definition reset_counters :: "('k, 's) ipc_env \<Rightarrow> runtime_mode \<Rightarrow> bool \<Rightarrow> flash_world \<Rightarrow> ipc_response \<times> flash_world" where
  "reset_counters e m confirm w = guarded_by w (\<lambda>w.
     if \<not> confirm then reject ''ResetCounters requires explicit confirmation (--yes or modal confirm)'' w
     else if playing_or_cooldown m then reject ''Cannot reset counters during gameplay or cooldown'' w
     else let w = gap e 51 w in
       if db_of w = None then reject ''Database unavailable: counter reset is rejected without persistent storage'' w
       else
         let w = gap e 52 w;
             k = (counters (state_of w))\<lparr>counter_generation := saturating_succ (counter_generation (counters (state_of w))),
                  lifetime_key1 := 0, lifetime_key2 := 0\<rparr>;
             info = the_device (state_of w);
             w = on_state (\<lambda>s. s\<lparr>counters := k\<rparr>) w;
             w = (case info of Some i \<Rightarrow> on_storage (save_device_state (stamp e) i k) w | None \<Rightarrow> w);
             w = gap e 53 w;
             w = (if device_connected (state_of w) then send_anyway e 0 (CounterSync k True) (gap e 54 w)
                  else on_pending (\<lambda>p. p\<lparr>pending_device_push := Some \<lparr>reset_device_id = map_option device_id info\<rparr>\<rparr>) (gap e 54 w))
         in (CountersReset k, w))"

text \<open>Counters that are to win over what the database and the pad have.\<close>

definition winning :: "string \<Rightarrow> u32 \<Rightarrow> u32 \<Rightarrow> u64 \<Rightarrow> u64 \<Rightarrow> counter_state" where
  "winning i g1 g2 k1 k2 = \<lparr>counter_device = i, counter_generation = saturating_succ (max g1 g2),
     lifetime_key1 = k1, lifetime_key2 = k2, map_key1 = 0, map_key2 = 0\<rparr>"

definition record_counters :: "('k, 's) ipc_env \<Rightarrow> device_info \<Rightarrow> counter_state \<Rightarrow> flash_world \<Rightarrow> flash_world" where
  "record_counters e info k w = on_storage (touch_device_last_seen (stamp e) (device_id info))
     (on_storage (save_device_state (stamp e) info k) w)"

definition show_counters :: "counter_state \<Rightarrow> daemon_state \<Rightarrow> daemon_state" where
  "show_counters k s = s\<lparr>counters := k, pc_counters := Some k, esp_counters := Some k\<rparr>"

definition override_counters :: "('k, 's) ipc_env \<Rightarrow> device_info \<Rightarrow> counter_state \<Rightarrow> flash_world
    \<Rightarrow> ipc_response \<times> flash_world" where
  "override_counters e info k w =
     (let w = gap e 55 (record_counters e info k w);
          w = gap e 56 (send_anyway e 0 (CounterSync k True) w)
      in (CountersRestored k, on_state (show_counters k) w))"

definition restore_device_from_pc :: "('k, 's) ipc_env \<Rightarrow> runtime_mode \<Rightarrow> bool \<Rightarrow> flash_world
    \<Rightarrow> ipc_response \<times> flash_world" where
  "restore_device_from_pc e m confirm w = guarded_by w (\<lambda>w.
     if playing_or_cooldown m then reject ''Cannot restore counters during active gameplay or cooldown'' w
     else if \<not> confirm then reject ''Confirmation required to force-restore ESP counters from PC'' w
     else let w = gap e 51 w in
       if db_of w = None then reject ''Database unavailable: restore from PC is rejected without persistent storage'' w
       else let w = gap e 52 w; held = counters (state_of w) in
         case the_device (state_of w) of
           None \<Rightarrow> reject ''No device currently connected'' w
         | Some info \<Rightarrow>
             if \<not> device_connected (state_of w) then reject ''Device is disconnected'' w
             else let w = gap e 53 w in
               case load_counters (device_id info) w of
                 None \<Rightarrow> reject ''No PC counter state found in database for this device'' w
               | Some pc \<Rightarrow> override_counters e info (winning (device_id info) (counter_generation pc)
                   (counter_generation held) (lifetime_key1 pc) (lifetime_key2 pc)) (gap e 54 w))"

definition stored_generation :: "counter_state option \<Rightarrow> u32" where
  "stored_generation k = (case k of Some c \<Rightarrow> counter_generation c | None \<Rightarrow> 0)"

definition import_pc_from_device :: "('k, 's) ipc_env \<Rightarrow> runtime_mode \<Rightarrow> bool \<Rightarrow> flash_world
    \<Rightarrow> ipc_response \<times> flash_world" where
  "import_pc_from_device e m confirm w = guarded_by w (\<lambda>w.
     if playing_or_cooldown m then reject ''Cannot import counters during active gameplay or cooldown'' w
     else if \<not> confirm then reject ''Confirmation required to overwrite PC counters from ESP'' w
     else let w = gap e 51 w in
       if db_of w = None then reject ''Database unavailable: import from device is rejected without persistent storage'' w
       else let w = gap e 52 w; held = counters (state_of w) in
         case the_device (state_of w) of
           None \<Rightarrow> reject ''No device currently connected'' w
         | Some info \<Rightarrow>
             if \<not> device_connected (state_of w) then reject ''Device is disconnected'' w
             else let w = gap e 53 w; pc = load_counters (device_id info) w in
               override_counters e info (winning (device_id info) (stored_generation pc)
                 (counter_generation held) (lifetime_key1 held) (lifetime_key2 held)) (gap e 54 w))"

section \<open>Ownership and replacement\<close>

text \<open>
  The prompt is taken, and put back on the paths that could not carry the decision out. Ownership goes
  onto the pad before any counter is written.
\<close>

fun send_layouts :: "('k, 's) ipc_env \<Rightarrow> nat \<Rightarrow> (screen \<times> layout) list \<Rightarrow> flash_world \<Rightarrow> flash_world" where
  "send_layouts e n [] w = w"
| "send_layouts e n ((scr, l) # ls) w = send_layouts e (Suc n) ls (send_anyway e n (PadLayout scr l) w)"

definition take_over_pad :: "('k, 's) ipc_env \<Rightarrow> pending_takeover \<Rightarrow> device_info \<Rightarrow> counter_state \<Rightarrow> u8 list
    \<Rightarrow> flash_world \<Rightarrow> ipc_response \<times> flash_world" where
  "take_over_pad e pending info k owner w =
     (case send_pad e 0 (PadClaim owner) w of
        (Inl err, w) \<Rightarrow> (Failure (Because (''Could not record ownership on the pad: '' @ err)),
            on_state (\<lambda>s. s\<lparr>takeover := Some pending\<rparr>) (gap e 55 w))
      | (Inr _, w) \<Rightarrow>
          let w = gap e 56 (record_counters e info k (gap e 55 w));
              w = gap e 57 (send_anyway e 1 (CounterSync k True) w);
              st = state_of w;
              w = send_layouts e 3 (custom_layouts st) (send_anyway e 2 (PadConfig (config st)) w);
              w = on_state (\<lambda>s. show_counters k (s\<lparr>foreign_pad := False\<rparr>)) (gap e 58 w)
          in (CountersRestored k, w))"

definition resolve_takeover :: "('k, 's) ipc_env \<Rightarrow> runtime_mode \<Rightarrow> bool \<Rightarrow> bool \<Rightarrow> flash_world
    \<Rightarrow> ipc_response \<times> flash_world" where
  "resolve_takeover e m take_over keep_device w =
     (if playing_or_cooldown m
      then (OperationDeferred (Because ''Cannot resolve pad ownership during gameplay or cooldown''), w)
      else
        let st = state_of w; w = on_state (\<lambda>s. s\<lparr>takeover := None\<rparr>) w in
        case takeover st of
          None \<Rightarrow> reject ''No pad is waiting on an ownership decision'' w
        | Some pending \<Rightarrow>
            (case the_device st of
               None \<Rightarrow> reject ''No device currently connected'' w
             | Some info \<Rightarrow>
                 if \<not> take_over then reject ''Left the pad paired with its other installation'' w
                 else let w = gap e 51 w in
                   if db_of w = None
                   then reject ''Database unavailable: taking over a pad needs persistent storage''
                     (on_state (\<lambda>s. s\<lparr>takeover := Some pending\<rparr>) (gap e 52 w))
                   else
                     let w = gap e 52 w;
                         pc = load_counters (device_id info) w;
                         held = counters st;
                         k = winning (device_id info) (stored_generation pc) (counter_generation held)
                           (if keep_device then lifetime_key1 held else case pc of Some c \<Rightarrow> lifetime_key1 c | None \<Rightarrow> 0)
                           (if keep_device then lifetime_key2 held else case pc of Some c \<Rightarrow> lifetime_key2 c | None \<Rightarrow> 0)
                     in case Option.bind (install_id st) (parse_owner_id (ie_runtime e)) of
                          None \<Rightarrow> reject ''This install has no identity, so it cannot take a pad over''
                            (on_state (\<lambda>s. s\<lparr>takeover := Some pending\<rparr>) (gap e 53 w))
                        | Some owner \<Rightarrow> take_over_pad e pending info k owner (gap e 54 w)))"

text \<open>Called on connect: the pad is taken over silently when it has every press of this PC.\<close>

definition takeover_loses_nothing :: "pending_takeover \<Rightarrow> counter_state option \<Rightarrow> flash_world \<Rightarrow> bool" where
  "takeover_loses_nothing pending held w =
     (let pc = (case load_counters (pt_device_id pending) w of
            Some k \<Rightarrow> Some k
          | None \<Rightarrow> (case held of Some k \<Rightarrow> if counter_device k = pt_device_id pending then Some k else None | None \<Rightarrow> None));
          pad = \<lparr>counter_device = pt_device_id pending, counter_generation = 0,
            lifetime_key1 = pt_device_key1 pending, lifetime_key2 = pt_device_key2 pending, map_key1 = 0, map_key2 = 0\<rparr>
      in \<not> pc_is_ahead pc pad)"

definition take_over_if_pad_is_ahead :: "('k, 's) ipc_env \<Rightarrow> flash_world \<Rightarrow> bool \<times> flash_world" where
  "take_over_if_pad_is_ahead e w =
     (case takeover (state_of w) of
        None \<Rightarrow> (False, w)
      | Some pending \<Rightarrow>
          let held = pc_counters (state_of w); w = gap e 46 w in
          if \<not> takeover_loses_nothing pending held w then (False, w)
          else let w = gap e 47 w; m = mode (state_of w) in
            (case resolve_takeover e m True True (gap e 49 w) of
               (CountersRestored k, w) \<Rightarrow> (True, w)
             | (r, w) \<Rightarrow> (False, w)))"

definition resolve_replacement :: "('k, 's) ipc_env \<Rightarrow> runtime_mode \<Rightarrow> bool \<Rightarrow> flash_world \<Rightarrow> ipc_response \<times> flash_world" where
  "resolve_replacement e m restore w =
     (if playing_or_cooldown m then reject ''Cannot resolve replacement during gameplay or cooldown'' w
      else if db_of w = None
      then reject ''Database unavailable: resolving replacement is rejected without persistent storage'' w
      else
        let w = gap e 51 w; st = state_of w; w = on_state (\<lambda>s. s\<lparr>pending_replacement := None\<rparr>) w in
        case the_device st of
          None \<Rightarrow> reject ''No device currently connected to resolve replacement for'' w
        | Some info \<Rightarrow>
            let w = gap e 52 w in
            if restore then
              (case Option.bind (pending_replacement st) (\<lambda>old. load_counters old w) of
                 None \<Rightarrow> reject ''No previous device state found to restore from'' w
               | Some old \<Rightarrow>
                   let k = winning (device_id info) (counter_generation old) (counter_generation (counters st))
                         (lifetime_key1 old) (lifetime_key2 old);
                       w = gap e 54 (record_counters e info k (gap e 53 w));
                       w = gap e 55 (send_anyway e 0 (CounterSync k True) w)
                   in (CountersReset k, on_state (\<lambda>s. s\<lparr>counters := k\<rparr>) w))
            else (CountersReset (counters st), record_counters e info (counters st) w))"

section \<open>Backups\<close>

definition export_backup :: "('k, 's) ipc_env \<Rightarrow> flash_world \<Rightarrow> ipc_response" where
  "export_backup e w =
     (case current_backup (utc_now (ie_runtime e)) (state_of w) (db_of w) of
        Some b \<Rightarrow> BackupExported b
      | None \<Rightarrow> OperationRejected (Because ''No counters known yet: connect the pad once''))"

definition preview_import :: "('k, 's) ipc_env \<Rightarrow> json_backup \<Rightarrow> flash_world \<Rightarrow> ipc_response" where
  "preview_import e b w =
     (case validate_backup (utc_now (ie_runtime e)) b of
        Inl err \<Rightarrow> Failure (ConfigBecause ''Invalid backup: '' err)
      | Inr _ \<Rightarrow>
          let k = counters (state_of w);
              id_matches = (counter_device k = [] \<or> counter_device k = bk_device_id b);
              rollback = (bk_lifetime_key1 b < lifetime_key1 k \<or> bk_lifetime_key2 b < lifetime_key2 k)
          in ImportPreview
               (Some \<lparr>cb_device_id = counter_device k, cb_generation = counter_generation k,
                 cb_lifetime_key1 = lifetime_key1 k, cb_lifetime_key2 = lifetime_key2 k,
                 cb_config = config (state_of w)\<rparr>)
               b id_matches rollback
               ((if id_matches then [] else [IdMismatch (bk_device_id b) (counter_device k)])
                @ (if rollback then [CounterRollback] else [])
                @ (if bk_generation b \<le> counter_generation k then [GenerationBumped] else [])))"

definition imported_config :: "json_backup \<Rightarrow> string \<Rightarrow> device_config" where
  "imported_config b endpoint =
     (let usage = (\<lambda>key d. case char_to_hid_usage key of Some u \<Rightarrow> u | None \<Rightarrow> d) in
      (config_of_backup (bk_config b) (usage (bk_key1 (bk_config b)) 0x1D) (usage (bk_key2 (bk_config b)) 0x1B))
        \<lparr>tosu_endpoint := endpoint, key1_he := None, key2_he := None\<rparr>)"

definition imported_info :: "json_backup \<Rightarrow> daemon_state \<Rightarrow> storage option \<Rightarrow> device_info" where
  "imported_info b st db =
     \<lparr>device_id = bk_device_id b, board_profile = bk_board_profile b,
      firmware_version = (case the_device st of
          Some i \<Rightarrow> firmware_version i
        | None \<Rightarrow> (case recorded_pad (bk_device_id b) db of Some i \<Rightarrow> firmware_version i | None \<Rightarrow> [])),
      protocol_version = 1, running_partition = None, he_input = False, he_calibration = False\<rparr>"

definition import_backup :: "('k, 's) ipc_env \<Rightarrow> runtime_mode \<Rightarrow> json_backup \<Rightarrow> bool \<Rightarrow> flash_world
    \<Rightarrow> ipc_response \<times> flash_world" where
  "import_backup e m b confirm w = guarded_by w (\<lambda>w.
     if \<not> confirm then reject ''ImportBackup requires explicit confirmation (--yes or user confirmation)'' w
     else if playing_or_cooldown m then reject ''Cannot import backup during gameplay or cooldown'' w
     else let w = gap e 51 w in
       if db_of w = None then reject ''Database unavailable: backup import is rejected without persistent storage'' w
       else case validate_backup (utc_now (ie_runtime e)) b of
         Inl err \<Rightarrow> (Failure (ConfigBecause ''Invalid backup: '' err), w)
       | Inr _ \<Rightarrow>
           let w = gap e 52 w;
               cfg = imported_config b (tosu_endpoint (config (state_of w)));
               k = winning (bk_device_id b) (counter_generation (counters (state_of w))) (bk_generation b)
                 (bk_lifetime_key1 b) (bk_lifetime_key2 b);
               w = on_storage (save_config cfg) (gap e 53 w);
               w = on_storage (save_device_state (stamp e) (imported_info b (state_of w) (db_of w)) k) w;
               w = on_state (\<lambda>s. s\<lparr>config := cfg, counters := k\<rparr>) (gap e 54 w);
               w = send_anyway e 0 (PadConfig cfg) (gap e 55 w);
               w = send_anyway e 1 (CounterSync k True) (gap e 56 w)
           in (BackupImported True k cfg, w))"

section \<open>Firmware and flashing\<close>

definition service_manifest :: "('k, 's) ipc_env \<Rightarrow> release_manifest option" where
  "service_manifest e = Option.bind (ie_updates e) us_manifest"

definition get_firmware_update :: "('k, 's) ipc_env \<Rightarrow> flash_world \<Rightarrow> ipc_response" where
  "get_firmware_update e w = FirmwareUpdateOffer (firmware_offer (service_manifest e) (fe_app_version (ie_flash e))
     (state_of (gap e 51 w)) (db_of w \<noteq> None))"

definition install_firmware_update :: "('k, 's) ipc_env \<Rightarrow> bool \<Rightarrow> flash_world \<Rightarrow> ipc_response \<times> flash_world" where
  "install_firmware_update e confirm w =
     (case install_firmware (ie_flash e) (service_manifest e) confirm w of (r, w) \<Rightarrow>
       (case r of
          Inr (FwInstalled old new info) \<Rightarrow> FirmwareUpdateFinished old new (firmware_version info)
            (running_partition info) (protocol_version info) (protocol_version info = DEVICE_PROTOCOL_VERSION)
        | Inr (FwRefused reasons) \<Rightarrow> OperationRejected (Sentences reasons)
        | Inl err \<Rightarrow> Failure (FlashBecause err), w))"

definition begin_flash :: "('k, 's) ipc_env \<Rightarrow> runtime_mode \<Rightarrow> flash_world \<Rightarrow> ipc_response \<times> flash_world" where
  "begin_flash e m w =
     (if playing_or_cooldown m then reject ''Cannot flash firmware during gameplay or cooldown'' w
      else if \<not> fe_released (ie_flash e)
      then reject ''Timed out waiting for the serial port to be released'' (gap e 51 (w\<lparr>fw_paused := False\<rparr>))
      else let w = gap e 51 (w\<lparr>fw_paused := True\<rparr>) in
        (ReadyForFlash (ie_port e), on_state (\<lambda>s. s\<lparr>device_connected := False\<rparr>) w))"

definition finish_flash :: "('k, 's) ipc_env \<Rightarrow> flash_world \<Rightarrow> ipc_response \<times> flash_world" where
  "finish_flash e w =
     (case await_event (\<lambda>ev. case ev of ConnectedEvent i \<Rightarrow> Some i | _ \<Rightarrow> None) (ie_events e) of
        Some info \<Rightarrow> FlashFinished (firmware_version info) (protocol_version info)
          (protocol_version info = DEVICE_PROTOCOL_VERSION)
      | None \<Rightarrow> Failure (Because (if ie_closed e then ''Flash verification failed: Event stream closed''
          else ''Device did not reconnect within 15 seconds after flash'')),
      gap e 51 (w\<lparr>fw_paused := False\<rparr>))"

section \<open>Asking the pad\<close>

definition fail :: "string \<Rightarrow> flash_world \<Rightarrow> ipc_response \<times> flash_world" where
  "fail r w = (Failure (Because r), w)"

definition reset_latency_stats :: "('k, 's) ipc_env \<Rightarrow> flash_world \<Rightarrow> ipc_response \<times> flash_world" where
  "reset_latency_stats e w =
     (case send_pad e 0 PadLatencyReset w of
        (Inl err, w) \<Rightarrow> fail (''Failed to reset latency stats: '' @ err) w
      | (Inr _, w) \<Rightarrow>
          let w = gap e 52 (on_state (\<lambda>s. s\<lparr>latency := None\<rparr>) (gap e 51 w))
          in (HandshakeAck (fe_app_version (ie_flash e)) IPC_PROTOCOL_VERSION (device_connected (state_of w)), w))"

definition run_board_test :: "('k, 's) ipc_env \<Rightarrow> flash_world \<Rightarrow> ipc_response \<times> flash_world" where
  "run_board_test e w =
     (if \<not> ie_is_connected e then fail ''The pad is not connected'' w
      else if \<not> ie_board_test e
      then fail ''This pad's firmware has no board test. Update the firmware, then run it again.'' w
      else case send_pad e 0 PadBoardTest w of
        (Inl err, w) \<Rightarrow> fail (''Could not ask the pad for a board test: '' @ err) w
      | (Inr _, w) \<Rightarrow>
          (case await_event (\<lambda>ev. case ev of BoardEvent r \<Rightarrow> Some r | _ \<Rightarrow> None) (ie_events e) of
             Some r \<Rightarrow> BoardTest r
           | None \<Rightarrow> Failure (Because ''The pad did not answer the board test''), gap e 51 w))"

definition detect_pin :: "('k, 's) ipc_env \<Rightarrow> u32 \<Rightarrow> u32 \<Rightarrow> u32 \<Rightarrow> flash_world \<Rightarrow> ipc_response \<times> flash_world" where
  "detect_pin e key timeout_ms exclude w =
     (if \<not> ie_is_connected e then fail ''Device is not connected'' w
      else let effective = (if timeout_ms = 0 then 10000 else timeout_ms) in
        case send_pad e 0 (PadPinDetect key effective exclude) w of
          (Inl err, w) \<Rightarrow> (PinDetected key 0 False, w)
        | (Inr _, w) \<Rightarrow>
            (case await_event (\<lambda>ev. case ev of PinEvent k g ok \<Rightarrow> if k = key then Some (g, ok) else None
                 | _ \<Rightarrow> None) (ie_events e) of
               Some (g, ok) \<Rightarrow> PinDetected key g ok
             | None \<Rightarrow> PinDetected key 0 False, gap e 51 w))"

definition if_connected :: "('k, 's) ipc_env \<Rightarrow> flash_world \<Rightarrow> (flash_world \<Rightarrow> ipc_response \<times> flash_world)
    \<Rightarrow> ipc_response \<times> flash_world" where
  "if_connected e w f = guarded_by w (\<lambda>w. if \<not> ie_is_connected e then fail ''The pad is not connected'' w else f (gap e 51 w))"

definition ask_pad :: "('k, 's) ipc_env \<Rightarrow> pad_message \<Rightarrow> ipc_response \<Rightarrow> string \<Rightarrow> flash_world
    \<Rightarrow> ipc_response \<times> flash_world" where
  "ask_pad e msg ok fail_text w =
     (case send_pad e 0 msg w of (Inl err, w) \<Rightarrow> fail (fail_text @ err) w | (Inr _, w) \<Rightarrow> (ok, w))"

definition play_animation_now :: "('k, 's) ipc_env \<Rightarrow> u32 \<Rightarrow> string \<Rightarrow> flash_world \<Rightarrow> ipc_response \<times> flash_world" where
  "play_animation_now e animation grade w = if_connected e w (\<lambda>w.
     if ie_animations e = 0
     then fail ''This pad's firmware has no result animations. Update the firmware, then try again.'' w
     else if mode (state_of w) = Playing then fail ''Not while a map is played'' w
     else ask_pad e (PadAnimation animation grade) AnimationPlayed ''Could not reach the pad: '' (gap e 52 w))"

definition restart_pad :: "('k, 's) ipc_env \<Rightarrow> flash_world \<Rightarrow> ipc_response \<times> flash_world" where
  "restart_pad e w = if_connected e w (\<lambda>w.
     if \<not> ie_restart e
     then fail ''This pad's firmware cannot restart on request. Replug its USB cable instead.'' w
     else if mode (state_of w) = Playing then fail ''Not while a map is played'' w
     else ask_pad e PadRestart PadRestarting ''Could not reach the pad: '' (gap e 52 w))"

definition NO_HALL_EFFECT :: string where
  "NO_HALL_EFFECT = ''This pad does not support Hall Effect calibration.''"

definition start_he_calibration :: "('k, 's) ipc_env \<Rightarrow> flash_world \<Rightarrow> ipc_response \<times> flash_world" where
  "start_he_calibration e w = if_connected e w (\<lambda>w.
     if \<not> ie_he_calibration e then fail NO_HALL_EFFECT w
     else if mode (state_of w) \<noteq> Idle then fail ''Calibration is only allowed in IDLE'' w
     else ask_pad e PadStartCalibration HeCalibrationStarted ''Could not start calibration: ''
       (gap e 53 (on_state (\<lambda>s. s\<lparr>latest_he_progress := None\<rparr>) (gap e 52 w))))"

definition cancel_he_calibration :: "('k, 's) ipc_env \<Rightarrow> flash_world \<Rightarrow> ipc_response \<times> flash_world" where
  "cancel_he_calibration e w = if_connected e w (\<lambda>w.
     if \<not> ie_he_calibration e then fail NO_HALL_EFFECT w
     else ask_pad e PadCancelCalibration HeCalibrationCancelled ''Could not cancel calibration: '' w)"

definition get_he_live :: "('k, 's) ipc_env \<Rightarrow> flash_world \<Rightarrow> ipc_response \<times> flash_world" where
  "get_he_live e w =
     (if pad_guard (state_of w) \<noteq> None \<or> \<not> ie_he_live e then (HeLive False None, w)
      else (HeLive True (ie_sample e), send_anyway e 0 PadHeLive w))"

section \<open>One request\<close>

definition on_pad :: "(flash_world \<Rightarrow> ipc_response \<times> flash_world) \<Rightarrow> ipc_world \<Rightarrow> ipc_response \<times> ipc_world" where
  "on_pad f w = (case f (iw_pad w) of (r, p) \<Rightarrow> (r, w\<lparr>iw_pad := p\<rparr>))"

definition on_queue :: "(update_command list \<Rightarrow> ipc_response \<times> update_command list) \<Rightarrow> ipc_world
    \<Rightarrow> ipc_response \<times> ipc_world" where
  "on_queue f w = (case f (iw_queue w) of (r, q) \<Rightarrow> (r, w\<lparr>iw_queue := q\<rparr>))"

text \<open>\<open>m\<close> is the mode read when the request came in.\<close>

fun handle :: "('k, 's) ipc_env \<Rightarrow> runtime_mode \<Rightarrow> ipc_request \<Rightarrow> ipc_world \<Rightarrow> ipc_response \<times> ipc_world" where
  "handle e m (Handshake client protocol) w = (handshake e client protocol (iw_pad w), w)"
| "handle e m GetStatus w = (Status (get_status (iw_pad w)), w)"
| "handle e m GetLayouts w = (LayoutsKnown (map_of (custom_layouts (state_of (iw_pad w))) ScreenIdle)
     (map_of (custom_layouts (state_of (iw_pad w))) ScreenPlaying), w)"
| "handle e m (SetLayout scr l) w = on_pad (set_layout e m scr l) w"
| "handle e m (ResetLayout scr) w = on_pad (reset_layout e m scr) w"
| "handle e m GetUiValues w = (UiValues (get_ui_values (state_of (iw_pad w))), w)"
| "handle e m GetTapStats w = (TapStats (tap_snapshot (tap (state_of (iw_pad w)))), w)"
| "handle e m (SetTapHistoryPeriod days) w = on_pad (set_tap_history_period e days) w"
| "handle e m GetUpdateStatus w = (get_update_status e, w)"
| "handle e m CheckForUpdates w = on_queue (check_for_updates e m) w"
| "handle e m (SetUpdateChannel ch) w = set_update_channel e ch w"
| "handle e m (SetUpdateEnabled component flag) w = on_pad (set_update_enabled component flag) w"
| "handle e m (InstallUpdate component) w = on_queue (install_update e m component) w"
| "handle e m ResetLatencyStats w = on_pad (reset_latency_stats e) w"
| "handle e m (UpdateConfig c) w = on_pad (change_config e m c) w"
| "handle e m ForceSync w = on_pad (force_sync e m) w"
| "handle e m (ResetCounters confirm) w = on_pad (reset_counters e m confirm) w"
| "handle e m (RestoreDeviceFromPc confirm) w = on_pad (restore_device_from_pc e m confirm) w"
| "handle e m (ImportPcFromDevice confirm) w = on_pad (import_pc_from_device e m confirm) w"
| "handle e m (ResolveTakeover take_over keep_device) w = on_pad (resolve_takeover e m take_over keep_device) w"
| "handle e m (ResolveReplacement restore) w = on_pad (resolve_replacement e m restore) w"
| "handle e m ExportBackup w = (export_backup e (iw_pad w), w)"
| "handle e m (PreviewImport b) w = (preview_import e b (iw_pad w), w)"
| "handle e m (ImportBackup b confirm) w = on_pad (import_backup e m b confirm) w"
| "handle e m (GetLogEntries since limit level src) w =
     ((case get_matching_entries since limit level src (ie_log e) of (es, latest) \<Rightarrow> LogEntries es latest), w)"
| "handle e m GetFirmwareUpdate w = (get_firmware_update e (iw_pad w), w)"
| "handle e m (InstallFirmwareUpdate confirm) w = on_pad (install_firmware_update e confirm) w"
| "handle e m PrepareFlash w = on_pad (begin_flash e m) w"
| "handle e m FinishFlash w = on_pad (finish_flash e) w"
| "handle e m ResumeDevice w = (DeviceResumed, w\<lparr>iw_pad := (iw_pad w)\<lparr>fw_paused := False\<rparr>\<rparr>)"
| "handle e m RunBoardTest w = on_pad (run_board_test e) w"
| "handle e m (DetectPin key timeout_ms exclude) w = on_pad (detect_pin e key timeout_ms exclude) w"
| "handle e m (PlayAnimationNow animation grade) w = on_pad (play_animation_now e animation grade) w"
| "handle e m RestartPad w = on_pad (restart_pad e) w"
| "handle e m StartHeCalibration w = on_pad (start_he_calibration e) w"
| "handle e m CancelHeCalibration w = on_pad (cancel_he_calibration e) w"
| "handle e m GetHeCalibrationProgress w = (HeCalibrationProgress (latest_he_progress (state_of (iw_pad w))), w)"
| "handle e m GetHeLive w = on_pad (get_he_live e) w"
| "handle e m TriggerEasterEgg w =
     (EasterEggTriggered, w\<lparr>iw_pad := send_anyway e 0 (PadData [(67, Number 67)]) (iw_pad w)\<rparr>)"

definition handle_ipc_request :: "('k, 's) ipc_env \<Rightarrow> ipc_request \<Rightarrow> ipc_world \<Rightarrow> ipc_response \<times> ipc_world" where
  "handle_ipc_request e req w =
     (let w = w\<lparr>iw_pad := gap e 48 (iw_pad w)\<rparr>; m = mode (state_of (iw_pad w))
      in handle e m req (w\<lparr>iw_pad := gap e 49 (iw_pad w)\<rparr>))"

section \<open>One connection\<close>

datatype flash_step = PrepareStep | ReleaseStep | OtherStep

definition flash_step_of :: "ipc_request \<Rightarrow> flash_step" where
  "flash_step_of req = (case req of PrepareFlash \<Rightarrow> PrepareStep | FinishFlash \<Rightarrow> ReleaseStep
     | ResumeDevice \<Rightarrow> ReleaseStep | _ \<Rightarrow> OtherStep)"

definition holds_flash_pause :: "bool \<Rightarrow> flash_step \<Rightarrow> ipc_response \<Rightarrow> bool" where
  "holds_flash_pause held st resp =
     (case st of
        PrepareStep \<Rightarrow> held \<or> (case resp of ReadyForFlash p \<Rightarrow> True | _ \<Rightarrow> False)
      | ReleaseStep \<Rightarrow> False
      | OtherStep \<Rightarrow> held)"

definition is_handshake :: "ipc_request \<Rightarrow> bool" where
  "is_handshake req = (case req of Handshake c p \<Rightarrow> True | _ \<Rightarrow> False)"

definition HANDSHAKE_REQUIRED :: string where
  "HANDSHAKE_REQUIRED = ''Handshake required: complete a successful Handshake before any other request''"

definition refuse_before_handshake :: "bool \<Rightarrow> ipc_request \<Rightarrow> ipc_response option" where
  "refuse_before_handshake handshaken req =
     (if \<not> handshaken \<and> \<not> is_handshake req then Some (Failure (Because HANDSHAKE_REQUIRED)) else None)"

definition is_ack :: "ipc_response \<Rightarrow> bool" where
  "is_ack r = (case r of HandshakeAck v p c \<Rightarrow> True | _ \<Rightarrow> False)"

definition is_rejection :: "ipc_response \<Rightarrow> bool" where
  "is_rejection r = (case r of HandshakeRejected p why \<Rightarrow> True | _ \<Rightarrow> False)"

definition close_connection :: "bool \<Rightarrow> ipc_world \<Rightarrow> ipc_world" where
  "close_connection flash_pause w =
     (if flash_pause then w\<lparr>iw_pad := (iw_pad w)\<lparr>fw_paused := False\<rparr>\<rparr> else w)"

text \<open>
  The requests that can be read, in order, each with its environment and whether the response could
  be sent; after the last one reading fails, because the client left or sent what is no request.
\<close>

fun serve :: "(('k, 's) ipc_env \<times> ipc_request \<times> bool) list \<Rightarrow> bool \<Rightarrow> bool \<Rightarrow> ipc_world
    \<Rightarrow> ipc_response list \<times> ipc_world" where
  "serve [] handshaken flash_pause w = ([], close_connection flash_pause w)"
| "serve ((e, req, delivered) # rs) handshaken flash_pause w =
     (case refuse_before_handshake handshaken req of
        Some refused \<Rightarrow> ([refused], close_connection flash_pause w)
      | None \<Rightarrow>
          (let (resp, w) = handle_ipc_request e req w;
               flash_pause = holds_flash_pause flash_pause (flash_step_of req) resp;
               handshaken = (handshaken \<or> is_ack resp)
           in if \<not> delivered \<or> is_rejection resp then ([resp], close_connection flash_pause w)
              else let (out, w) = serve rs handshaken flash_pause w in (resp # out, w)))"

definition serve_connection :: "(('k, 's) ipc_env \<times> ipc_request \<times> bool) list \<Rightarrow> ipc_world
    \<Rightarrow> ipc_response list \<times> ipc_world" where
  "serve_connection rs w = serve rs False False w"

end
