(* ===== verification/Ipc_Safety.thy ===== *)
theory Ipc_Safety
  imports Ipc Firmware_Safety Runtime_Traces
begin

text \<open>
  What no client can make the daemon do: nothing before a handshake, nothing to a pad that is to be left
  alone, no counters during a play, no pad left paused; and what forcing counters and taking a pad over
  mean.
\<close>

section \<open>What the steps touch\<close>

lemma on_state_fields [simp]:
  "fw_sent (on_state f w) = fw_sent w" "fw_memory (on_state f w) = fw_memory w"
  "fw_paused (on_state f w) = fw_paused w" "fw_disk (on_state f w) = fw_disk w"
  "state_of (on_state f w) = f (state_of w)" "db_of (on_state f w) = db_of w"
  "sh_pending (fw_shared (on_state f w)) = sh_pending (fw_shared w)"
  by (simp_all add: on_state_def)

lemma on_storage_fields [simp]:
  "fw_sent (on_storage g w) = fw_sent w" "fw_memory (on_storage g w) = fw_memory w"
  "fw_paused (on_storage g w) = fw_paused w" "fw_disk (on_storage g w) = fw_disk w"
  "state_of (on_storage g w) = state_of w"
  "sh_pending (fw_shared (on_storage g w)) = sh_pending (fw_shared w)"
  by (simp_all add: on_storage_def)

lemma on_pending_fields [simp]:
  "fw_sent (on_pending h w) = fw_sent w" "fw_memory (on_pending h w) = fw_memory w"
  "fw_paused (on_pending h w) = fw_paused w" "fw_disk (on_pending h w) = fw_disk w"
  "state_of (on_pending h w) = state_of w" "db_of (on_pending h w) = db_of w"
  by (simp_all add: on_pending_def)

lemma send_pad_fields [simp]:
  "fst (send_pad e n m w) = ie_takes e n"
  "fw_memory (snd (send_pad e n m w)) = fw_memory w" "fw_paused (snd (send_pad e n m w)) = fw_paused w"
  "fw_disk (snd (send_pad e n m w)) = fw_disk w" "fw_shared (snd (send_pad e n m w)) = fw_shared w"
  by (simp_all add: send_pad_def split: sum.split)

lemma send_anyway_fields [simp]:
  "fw_memory (send_anyway e n m w) = fw_memory w" "fw_paused (send_anyway e n m w) = fw_paused w"
  "fw_disk (send_anyway e n m w) = fw_disk w" "fw_shared (send_anyway e n m w) = fw_shared w"
  by (simp_all add: send_anyway_def)

lemma send_layouts_fields [simp]:
  "fw_memory (send_layouts e n ls w) = fw_memory w" "fw_paused (send_layouts e n ls w) = fw_paused w"
  "fw_disk (send_layouts e n ls w) = fw_disk w" "fw_shared (send_layouts e n ls w) = fw_shared w"
  by (induction e n ls w rule: send_layouts.induct) simp_all

lemma record_counters_fields [simp]:
  "fw_sent (record_counters e info k w) = fw_sent w" "fw_memory (record_counters e info k w) = fw_memory w"
  "fw_paused (record_counters e info k w) = fw_paused w" "state_of (record_counters e info k w) = state_of w"
  by (simp_all add: record_counters_def)

text \<open>The cases of a definition: everything it may branch on.\<close>

lemmas branches = option.split sum.split prod.split if_split
lemmas plain_handlers = guarded_by_def reject_def fail_def if_connected_def ask_pad_def Let_def split_beta

lemmas layout_handlers = set_layout_def reset_layout_def push_layout_def
lemmas counter_handlers = force_sync_def reset_counters_def restore_device_from_pc_def
  import_pc_from_device_def override_counters_def
lemmas owner_handlers = resolve_takeover_def take_over_pad_def resolve_replacement_def
lemmas pad_handlers = reset_latency_stats_def run_board_test_def detect_pin_def play_animation_now_def
  restart_pad_def start_he_calibration_def cancel_he_calibration_def get_he_live_def

section \<open>The pause for a flash\<close>

text \<open>Handlers that leave the worker's port as it is.\<close>

definition keeps_port :: "(flash_world \<Rightarrow> ipc_response \<times> flash_world) \<Rightarrow> bool" where
  "keeps_port f \<longleftrightarrow> (\<forall>w. fw_paused (snd (f w)) = fw_paused w)"

named_theorems port_kept

lemma port_kept_layouts [port_kept]:
  "keeps_port (set_layout e m scr l)" "keeps_port (reset_layout e m scr)" "keeps_port (change_config e m c)"
  by (simp_all add: keeps_port_def layout_handlers change_config_def save_then_def plain_handlers split: branches)

lemma port_kept_counters [port_kept]:
  "keeps_port (force_sync e m)" "keeps_port (reset_counters e m confirm)"
  "keeps_port (restore_device_from_pc e m confirm)" "keeps_port (import_pc_from_device e m confirm)"
  by (simp_all add: keeps_port_def counter_handlers plain_handlers split: branches)

lemma port_kept_owner [port_kept]:
  "keeps_port (resolve_takeover e m take_over keep)" "keeps_port (resolve_replacement e m restore)"
  by (simp_all add: keeps_port_def owner_handlers plain_handlers split: branches)

lemma port_kept_backup [port_kept]:
  "keeps_port (import_backup e m b confirm)" "keeps_port (set_tap_history_period e days)"
  "keeps_port (set_update_enabled c flag)"
  by (simp_all add: keeps_port_def import_backup_def set_tap_history_period_def set_update_enabled_def
      plain_handlers split: branches update_component.split)

lemma port_kept_pad [port_kept]:
  "keeps_port (reset_latency_stats e)" "keeps_port (run_board_test e)" "keeps_port (detect_pin e k t x)"
  "keeps_port (play_animation_now e a g)" "keeps_port (restart_pad e)" "keeps_port (start_he_calibration e)"
  "keeps_port (cancel_he_calibration e)" "keeps_port (get_he_live e)"
  by (simp_all add: keeps_port_def pad_handlers plain_handlers split: branches)

lemma keeps_port_on_pad: "keeps_port f \<Longrightarrow> fw_paused (iw_pad (snd (on_pad f w))) = fw_paused (iw_pad w)"
  by (simp add: keeps_port_def on_pad_def split_beta)

lemma on_queue_pad [simp]: "iw_pad (snd (on_queue f w)) = iw_pad w"
  by (simp add: on_queue_def split_beta)

lemma set_update_channel_port: "fw_paused (iw_pad (snd (set_update_channel e ch w))) = fw_paused (iw_pad w)"
  by (simp add: set_update_channel_def split_beta split: option.split sum.split)

lemma install_port:
  "\<not> fw_paused (iw_pad w) \<Longrightarrow> \<not> fw_paused (iw_pad (snd (on_pad (install_firmware_update e confirm) w)))"
  by (simp add: on_pad_def install_firmware_update_def split_beta update_releases_port)

lemma begin_flash_port:
  "fw_paused (iw_pad (snd (on_pad (begin_flash e m) w))) \<Longrightarrow>
     fw_paused (iw_pad w) \<or> holds_flash_pause held PrepareStep (fst (on_pad (begin_flash e m) w))"
  by (auto simp: on_pad_def begin_flash_def holds_flash_pause_def plain_handlers)

lemma finish_flash_port: "\<not> fw_paused (iw_pad (snd (on_pad (finish_flash e) w)))"
  by (simp add: on_pad_def finish_flash_def)

text \<open>Whoever pauses the port holds the pause, and only giving it back ends that.\<close>

lemma pause_is_held:
  assumes "fw_paused (iw_pad w) \<Longrightarrow> held" "fw_paused (iw_pad (snd (handle e m req w)))"
  shows "holds_flash_pause held (flash_step_of req) (fst (handle e m req w))"
proof (cases req)
  case (InstallFirmwareUpdate confirm)
  then show ?thesis using assms install_port[of w e confirm] by (auto simp: flash_step_of_def holds_flash_pause_def)
next
  case PrepareFlash
  then show ?thesis
    using assms begin_flash_port[of e m w held] by (auto simp: flash_step_of_def holds_flash_pause_def)
qed (use assms finish_flash_port[of e w] in \<open>auto simp: flash_step_of_def holds_flash_pause_def
    keeps_port_on_pad[OF port_kept_layouts(1)] keeps_port_on_pad[OF port_kept_layouts(2)]
    keeps_port_on_pad[OF port_kept_layouts(3)] keeps_port_on_pad port_kept set_update_channel_port\<close>)

lemma served_pause:
  assumes "fw_paused (iw_pad w) \<Longrightarrow> held"
  shows "\<not> fw_paused (iw_pad (snd (serve rs handshaken held w)))"
  using assms
proof (induction rs arbitrary: handshaken held w)
  case (Cons r rs)
  obtain e req delivered where r: "r = (e, req, delivered)" by (rule prod_cases3)
  obtain resp w' where h: "handle_ipc_request e req w = (resp, w')" by (metis surj_pair)
  let ?held = "holds_flash_pause held (flash_step_of req) resp"
  let ?w = "w\<lparr>iw_pad := gap e 49 (gap e 48 (iw_pad w))\<rparr>"
  have "fw_paused (iw_pad w') \<Longrightarrow> ?held"
    using pause_is_held[of ?w held e "mode (state_of (gap e 48 (iw_pad w)))" req] Cons.prems h
    by (simp add: handle_ipc_request_def Let_def)
  then have "\<not> fw_paused (iw_pad (snd (serve rs b ?held w')))" for b by (rule Cons.IH)
  moreover have "\<not> fw_paused (iw_pad (close_connection ?held w'))" "\<not> fw_paused (iw_pad (close_connection held w))"
    using \<open>fw_paused (iw_pad w') \<Longrightarrow> ?held\<close> Cons.prems by (auto simp: close_connection_def)
  ultimately show ?case using h by (simp add: r Let_def split_beta split: option.split)
qed (auto simp: close_connection_def)

text \<open>
  However a connection goes, with any requests in any order and a client that leaves at any point,
  the pad's port is not left paused when it ends.
\<close>

theorem pause_ends_with_connection:
  "\<not> fw_paused (iw_pad w) \<Longrightarrow> \<not> fw_paused (iw_pad (snd (serve_connection rs w)))"
  unfolding serve_connection_def by (rule served_pause) simp

section \<open>The handshake\<close>

text \<open>All a request can do besides reading: to the pad, its flash, its port, the disk, the updater.\<close>

definition effects :: "ipc_world \<Rightarrow> pad_message list \<times> memory \<times> disk \<times> bool \<times> update_command list" where
  "effects w = (fw_sent (iw_pad w), fw_memory (iw_pad w), fw_disk (iw_pad w), fw_paused (iw_pad w), iw_queue w)"

definition good_handshake :: "('k, 's) ipc_env \<Rightarrow> ipc_request \<Rightarrow> bool" where
  "good_handshake e req \<longleftrightarrow> req = Handshake (fe_app_version (ie_flash e)) IPC_PROTOCOL_VERSION"

lemma handshake_effects: "effects (snd (handle_ipc_request e (Handshake c p) w)) = effects w"
  by (simp add: handle_ipc_request_def effects_def Let_def)

lemma handshake_answer:
  "fst (handle_ipc_request e (Handshake c p) w) = resp \<Longrightarrow> is_rejection resp \<or> good_handshake e (Handshake c p)"
  by (cases "p = IPC_PROTOCOL_VERSION"; cases "c = fe_app_version (ie_flash e)")
    (auto simp: handle_ipc_request_def handshake_def is_rejection_def good_handshake_def Let_def)

text \<open>
  A connection has an effect, on the pad, its flash, its port, the disk or the updater, only when it
  begins with a handshake for this very version and protocol: whatever else comes first ends it.
\<close>

theorem nothing_before_handshake:
  assumes "effects (snd (serve_connection rs w)) \<noteq> effects w"
  shows "\<exists>e req delivered rest. rs = (e, req, delivered) # rest \<and> good_handshake e req \<and> delivered"
proof (cases rs)
  case Nil
  then show ?thesis using assms by (simp add: serve_connection_def close_connection_def)
next
  case (Cons r rest)
  obtain e req delivered where r: "r = (e, req, delivered)" by (rule prod_cases3)
  obtain resp w' where h: "handle_ipc_request e req w = (resp, w')" by (metis surj_pair)
  have "is_handshake req"
    using assms Cons r by (auto simp: serve_connection_def close_connection_def refuse_before_handshake_def
        split: if_splits)
  then obtain c p where req: "req = Handshake c p" by (cases req) (auto simp: is_handshake_def)
  then have same: "effects w' = effects w" using handshake_effects[of e c p w] h by simp
  have "holds_flash_pause False (flash_step_of req) resp = False"
    by (simp add: req holds_flash_pause_def flash_step_of_def)
  then have "delivered \<and> \<not> is_rejection resp"
    using assms Cons r h req same
    by (auto simp: serve_connection_def refuse_before_handshake_def is_handshake_def close_connection_def Let_def
        split: if_splits)
  then show ?thesis using Cons r h req handshake_answer[of e c p w resp] by auto
qed

section \<open>Pads that are left alone\<close>

text \<open>Requests that ask the guard, and those that reach no pad; the others do as they are told.\<close>

fun asks_guard :: "ipc_request \<Rightarrow> bool" where
  "asks_guard (ResolveTakeover take_over keep) = (\<not> take_over)"
| "asks_guard (ResolveReplacement restore) = (\<not> restore)"
| "asks_guard ResetLatencyStats = False"
| "asks_guard RunBoardTest = False"
| "asks_guard (DetectPin k t x) = False"
| "asks_guard TriggerEasterEgg = False"
| "asks_guard req = True"

definition guarded_world :: "shared \<Rightarrow> bool" where "guarded_world s \<longleftrightarrow> pad_guard (sh_state s) \<noteq> None"

definition guard_stays :: "('k, 's) ipc_env \<Rightarrow> bool" where
  "guard_stays e \<longleftrightarrow> (\<forall>n s. guarded_world s \<longrightarrow> guarded_world (others (fe_sync (ie_flash e)) n s))"

definition untouched :: "flash_world \<Rightarrow> flash_world \<Rightarrow> bool" where
  "untouched w w' \<longleftrightarrow> fw_sent w' = fw_sent w \<and> fw_memory w' = fw_memory w"

lemma guarded_refuses:
  "guarded_world (fw_shared w) \<Longrightarrow> guarded_by w f = (Failure (Because (the (pad_guard (state_of w)))), w)"
  by (auto simp: guarded_world_def guarded_by_def)

lemma install_guarded:
  assumes "guard_stays e" "guarded_world (fw_shared w)"
  shows "untouched w (snd (install_firmware_update e confirm w))"
proof -
  have "guarded_world (others (fe_sync (ie_flash e)) 40 (fw_shared w))"
    using assms unfolding guard_stays_def by blast
  then obtain r where "pad_guard (sh_state (others (fe_sync (ie_flash e)) 40 (fw_shared w))) = Some r"
    unfolding guarded_world_def by blast
  then show ?thesis by (simp add: install_firmware_update_def install_firmware_def untouched_def Let_def)
qed

lemma unguarded_quiet:
  "untouched w (snd (resolve_takeover e m False keep w))" "untouched w (snd (resolve_replacement e m False w))"
  "untouched w (snd (set_tap_history_period e days w))" "untouched w (snd (set_update_enabled c flag w))"
  "untouched w (snd (begin_flash e m w))" "untouched w (snd (finish_flash e w))"
  "guarded_world (fw_shared w) \<Longrightarrow> untouched w (snd (get_he_live e w))"
  by (simp_all add: untouched_def owner_handlers set_tap_history_period_def set_update_enabled_def begin_flash_def
      finish_flash_def get_he_live_def guarded_world_def plain_handlers split: branches update_component.split)

lemma guarded_quiet:
  assumes "guarded_world (fw_shared w)"
  shows "untouched w (snd (set_layout e m scr l w))" "untouched w (snd (reset_layout e m scr w))"
    "untouched w (snd (change_config e m c w))" "untouched w (snd (force_sync e m w))"
    "untouched w (snd (reset_counters e m confirm w))" "untouched w (snd (restore_device_from_pc e m confirm w))"
    "untouched w (snd (import_pc_from_device e m confirm w))" "untouched w (snd (import_backup e m b confirm w))"
    "untouched w (snd (play_animation_now e a g w))" "untouched w (snd (restart_pad e w))"
    "untouched w (snd (start_he_calibration e w))" "untouched w (snd (cancel_he_calibration e w))"
  by (simp_all add: untouched_def set_layout_def reset_layout_def change_config_def counter_handlers(1-4)
      import_backup_def play_animation_now_def restart_pad_def start_he_calibration_def
      cancel_he_calibration_def if_connected_def guarded_refuses[OF assms])

lemma on_pad_pad [simp]: "iw_pad (snd (on_pad f w)) = snd (f (iw_pad w))"
  by (simp add: on_pad_def split_beta)

lemma set_update_channel_quiet: "untouched (iw_pad w) (iw_pad (snd (set_update_channel e ch w)))"
  by (simp add: untouched_def set_update_channel_def split_beta split: option.split sum.split)

lemma handled_guarded:
  assumes "guard_stays e" "guarded_world (fw_shared (iw_pad w))" "asks_guard req"
  shows "untouched (iw_pad w) (iw_pad (snd (handle e m req w)))"
proof -
  have self: "untouched p p" "untouched p (p\<lparr>fw_paused := x\<rparr>)" for p x by (simp_all add: untouched_def)
  show ?thesis
    using assms(3)
    by (cases req) (simp_all add: self unguarded_quiet guarded_quiet[OF assms(2)] unguarded_quiet(7)[OF assms(2)]
        install_guarded[OF assms(1,2)] set_update_channel_quiet)
qed


section \<open>During a play\<close>

text \<open>Messages that neither carry counters or ownership nor take the keys away.\<close>

fun calm :: "pad_message \<Rightarrow> bool" where
  "calm (CounterSync k f) = False"
| "calm (PadClaim owner) = False"
| "calm PadStartCalibration = False"
| "calm m = True"

definition calmly :: "flash_world \<Rightarrow> flash_world \<Rightarrow> bool" where
  "calmly w w' \<longleftrightarrow> fw_memory w' = fw_memory w \<and> db_of w' = db_of w
     \<and> (\<exists>ms. fw_sent w' = fw_sent w @ ms \<and> list_all calm ms)"

text \<open>A play: the mode stays, the database is closed for writes and the other tasks leave it alone.\<close>

definition in_play :: "shared \<Rightarrow> bool" where
  "in_play s \<longleftrightarrow> playing_or_cooldown (mode (sh_state s)) \<and> (\<forall>db. sh_storage s = Some db \<longrightarrow> \<not> writes_allowed db)"

definition play_goes_on :: "('k, 's) ipc_env \<Rightarrow> bool" where
  "play_goes_on e \<longleftrightarrow> (\<forall>n s. sh_storage (others (fe_sync (ie_flash e)) n s) = sh_storage s
     \<and> mode (sh_state (others (fe_sync (ie_flash e)) n s)) = mode (sh_state s))"

text \<open>The part of one message that counts as sent.\<close>

definition taken :: "('k, 's) ipc_env \<Rightarrow> nat \<Rightarrow> pad_message \<Rightarrow> pad_message list" where
  "taken e n msg = (if is_ok (ie_takes e n) then [msg] else [])"

lemma sent_fields [simp]:
  "fw_sent (snd (send_pad e n msg w)) = fw_sent w @ taken e n msg"
  "fw_sent (send_anyway e n msg w) = fw_sent w @ taken e n msg"
  by (simp_all add: send_anyway_def send_pad_def taken_def is_ok_def split: sum.split)

lemma list_all_taken [simp]: "list_all P (taken e n msg) \<longleftrightarrow> (is_ok (ie_takes e n) \<longrightarrow> P msg)"
  by (simp add: taken_def)

lemma closed_set_app_state: "\<not> writes_allowed s \<Longrightarrow> set_app_state key v s = Inl WritesBlocked"
  by (simp add: set_app_state_def guarded_def check_writes_allowed_def)

lemma closed_set_days: "\<not> writes_allowed s \<Longrightarrow> \<exists>err. set_tap_history_days days s = Inl err"
  by (simp add: set_tap_history_days_def closed_set_app_state split: sum.split)

lemma db_of_closed:
  "in_play (fw_shared w) \<Longrightarrow> (\<And>s. \<not> writes_allowed s \<Longrightarrow> \<exists>err. g s = Inl err) \<Longrightarrow> db_of (on_storage g w) = db_of w"
  by (fastforce simp: in_play_def on_storage_def with_storage_def split: option.split sum.split)

lemma play_fields:
  assumes "play_goes_on e"
  shows "sh_storage (others (fe_sync (ie_flash e)) n s) = sh_storage s"
    "mode (sh_state (others (fe_sync (ie_flash e)) n s)) = mode (sh_state s)"
  using assms by (simp_all add: play_goes_on_def)

lemma calm_layouts:
  assumes "play_goes_on e" "playing_or_cooldown m"
  shows "calmly w (snd (set_layout e m scr l w))" "calmly w (snd (reset_layout e m scr w))"
    "calmly w (snd (change_config e m c w))"
  using assms(2)
  by (auto simp: calmly_def layout_handlers change_config_def guarded_by_def Let_def play_fields[OF assms(1)]
      split: option.split sum.split)

lemma calm_refusals:
  assumes "play_goes_on e" "playing_or_cooldown m"
  shows "calmly w (snd (force_sync e m w))" "calmly w (snd (reset_counters e m confirm w))"
    "calmly w (snd (restore_device_from_pc e m confirm w))" "calmly w (snd (import_pc_from_device e m confirm w))"
    "calmly w (snd (import_backup e m b confirm w))" "calmly w (snd (resolve_takeover e m t keep w))"
    "calmly w (snd (resolve_replacement e m restore w))" "calmly w (snd (begin_flash e m w))"
    "calmly w (snd (finish_flash e w))"
  using assms(2)
  by (auto simp: calmly_def counter_handlers(1-4) import_backup_def owner_handlers(1) resolve_replacement_def
      begin_flash_def finish_flash_def guarded_by_def reject_def Let_def play_fields[OF assms(1)] split: option.split)

lemma calm_asking:
  assumes "play_goes_on e"
  shows "calmly w (snd (reset_latency_stats e w))" "calmly w (snd (run_board_test e w))"
    "calmly w (snd (detect_pin e k t x w))" "calmly w (snd (play_animation_now e a g w))"
    "calmly w (snd (restart_pad e w))" "calmly w (snd (cancel_he_calibration e w))" "calmly w (snd (get_he_live e w))"
  by (auto simp: calmly_def pad_handlers plain_handlers play_fields[OF assms] split: branches)

lemma calm_calibration:
  assumes "play_goes_on e" "in_play (fw_shared w)"
  shows "calmly w (snd (start_he_calibration e w))"
  using assms(2)
  by (auto simp: calmly_def start_he_calibration_def plain_handlers play_fields[OF assms(1)] in_play_def split: branches)

lemma calm_settings:
  assumes "play_goes_on e" "in_play (fw_shared w)"
  shows "calmly w (snd (set_tap_history_period e days w))" "calmly w (snd (set_update_enabled c flag w))"
  using assms(2) db_of_closed[OF assms(2) closed_set_days]
  by (auto simp: calmly_def set_tap_history_period_def set_update_enabled_def Let_def play_fields[OF assms(1)] in_play_def
      closed_set_app_state split: option.split sum.split update_component.split)

lemma calm_channel:
  "in_play (fw_shared (iw_pad w)) \<Longrightarrow> calmly (iw_pad w) (iw_pad (snd (set_update_channel e ch w)))"
  by (auto simp: calmly_def set_update_channel_def in_play_def closed_set_app_state split: option.split)

lemma calm_install:
  assumes "play_goes_on e" "in_play (fw_shared w)"
  shows "calmly w (snd (install_firmware_update e confirm w))"
proof -
  let ?st = "sh_state (others (fe_sync (ie_flash e)) 40 (fw_shared w))"
  have "mode ?st \<noteq> Idle" using assms(2) by (auto simp: in_play_def play_fields[OF assms(1)])
  then have "\<exists>b \<in> set (blockers (install_preconditions ?st a confirm)). b \<noteq> CountersNotSynced" for a
    using blockers_clear(4) by blast
  then show ?thesis
    by (auto simp: calmly_def install_firmware_update_def install_firmware_def Let_def play_fields[OF assms(1)]
        split: option.split)
qed

lemma handled_calmly:
  assumes "play_goes_on e" "in_play (fw_shared (iw_pad w))" "m = mode (state_of (iw_pad w))"
  shows "calmly (iw_pad w) (iw_pad (snd (handle e m req w)))"
proof -
  have m: "playing_or_cooldown m" using assms(2,3) by (simp add: in_play_def)
  have self: "calmly p p" "calmly p (p\<lparr>fw_paused := x\<rparr>)" for p x by (simp_all add: calmly_def)
  have egg: "calmly p (send_anyway e 0 (PadData d) p)" for p d by (simp add: calmly_def)
  show ?thesis
    by (cases req) (simp_all add: self egg calm_layouts[OF assms(1) m] calm_refusals[OF assms(1) m]
        calm_asking[OF assms(1)] calm_calibration[OF assms(1,2)] calm_settings[OF assms(1,2)]
        calm_channel[OF assms(2)] calm_install[OF assms(1,2)])
qed


section \<open>Counters that are to win\<close>

text \<open>Other tasks that leave the shared state as it is.\<close>

definition alone :: "('k, 's) ipc_env \<Rightarrow> bool" where
  "alone e \<longleftrightarrow> (\<forall>n s. others (fe_sync (ie_flash e)) n s = s)"

lemma alone_fields [simp]: "alone e \<Longrightarrow> others (fe_sync (ie_flash e)) n s = s"
  by (simp add: alone_def)

lemma gap_alone: "alone e \<Longrightarrow> gap e n w = w"
  by simp

lemma succ_outranks: "g \<le> h \<Longrightarrow> g < saturating_succ h \<or> g = -1"
proof -
  assume g: "g \<le> h"
  have "h \<noteq> -1 \<Longrightarrow> h < h + 1"
    using unatSuc[of h] by (simp add: word_less_nat_alt eq_neg_iff_add_eq_0 add.commute)
  moreover have "h = -1 \<Longrightarrow> g < -1 \<or> g = -1" using word_n1_ge[of g] by (auto simp: order_le_less)
  ultimately show ?thesis using g by (auto simp: saturating_succ_def)
qed

lemma winning_outranks:
  "outranks (winning i g1 g2 k1 k2) c" if "counter_generation c = g1 \<or> counter_generation c = g2"
  using that succ_outranks[of "counter_generation c" "max g1 g2"] by (auto simp: outranks_def winning_def)

lemma alone_load [simp]: "alone e \<Longrightarrow> load_counters i (gap e n w) = load_counters i w"
  by simp

text \<open>The row of the connected pad.\<close>

definition pad_row :: "flash_world \<Rightarrow> counter_state option" where
  "pad_row w = Option.bind (the_device (state_of w)) (\<lambda>info. load_counters (device_id info) w)"

lemma restore_wins:
  assumes "alone e" "restore_device_from_pc e m confirm w = (CountersRestored k, w')"
  shows "\<exists>pc. pad_row w = Some pc \<and> k = winning (counter_device k) (counter_generation pc)
      (counter_generation (counters (state_of w))) (lifetime_key1 pc) (lifetime_key2 pc)"
  using assms(2)
  by (auto simp: restore_device_from_pc_def guarded_by_def reject_def override_counters_def Let_def pad_row_def
      gap_alone[OF assms(1)] winning_def assms(1) split: option.splits if_splits)

lemma import_wins:
  assumes "alone e" "import_pc_from_device e m confirm w = (CountersRestored k, w')"
  shows "k = winning (counter_device k) (stored_generation (pad_row w))
      (counter_generation (counters (state_of w))) (lifetime_key1 (counters (state_of w)))
      (lifetime_key2 (counters (state_of w)))"
  using assms(2)
  by (auto simp: import_pc_from_device_def guarded_by_def reject_def override_counters_def Let_def pad_row_def
      winning_def assms(1) split: option.splits if_splits)

lemma takeover_wins:
  assumes "alone e" "resolve_takeover e m t keep w = (CountersRestored k, w')"
  shows "k = winning (counter_device k) (stored_generation (pad_row w))
      (counter_generation (counters (state_of w)))
      (if keep then lifetime_key1 (counters (state_of w)) else case pad_row w of Some c \<Rightarrow> lifetime_key1 c | None \<Rightarrow> 0)
      (if keep then lifetime_key2 (counters (state_of w)) else case pad_row w of Some c \<Rightarrow> lifetime_key2 c | None \<Rightarrow> 0)"
  using assms(2)
  by (auto simp: resolve_takeover_def take_over_pad_def send_pad_def reject_def Let_def pad_row_def load_counters_def
      winning_def assms(1) split: option.splits if_splits sum.splits)

lemma restored_shown:
  "restore_device_from_pc e m confirm w = (CountersRestored k, w') \<Longrightarrow> counters (state_of w') = k"
  "import_pc_from_device e m confirm w = (CountersRestored k, w') \<Longrightarrow> counters (state_of w') = k"
  "resolve_takeover e m t keep w = (CountersRestored k, w') \<Longrightarrow> counters (state_of w') = k"
  by (auto simp: restore_device_from_pc_def import_pc_from_device_def resolve_takeover_def take_over_pad_def
      guarded_by_def reject_def override_counters_def show_counters_def Let_def
      split: option.splits if_splits sum.splits prod.splits)

text \<open>Whose presses each request keeps: those of the database's row or those the pad showed.\<close>

definition row_keys :: "counter_state option \<Rightarrow> u64 \<times> u64" where
  "row_keys row = (case row of Some c \<Rightarrow> (lifetime_key1 c, lifetime_key2 c) | None \<Rightarrow> (0, 0))"

fun kept_keys :: "ipc_request \<Rightarrow> counter_state \<Rightarrow> counter_state option \<Rightarrow> (u64 \<times> u64) option" where
  "kept_keys (RestoreDeviceFromPc confirm) held row = Some (row_keys row)"
| "kept_keys (ImportPcFromDevice confirm) held row = Some (lifetime_key1 held, lifetime_key2 held)"
| "kept_keys (ResolveTakeover t keep) held row =
     Some (if keep then (lifetime_key1 held, lifetime_key2 held) else row_keys row)"
| "kept_keys req held row = None"

lemma winning_rest:
  assumes "k = winning i (stored_generation row) (counter_generation held) k1 k2"
  shows "outranks k held \<and> (\<forall>c. row = Some c \<longrightarrow> outranks k c) \<and> lifetime_key1 k = k1 \<and> lifetime_key2 k = k2"
  using winning_outranks[where ?g1.0="stored_generation row" and ?g2.0="counter_generation held"]
  unfolding assms by (auto simp: winning_def stored_generation_def)

text \<open>
  Restoring the pad from this PC, importing the pad into it and taking a pad over keep the presses
  that were asked for, under a generation above both the pad's and the database's, so no later sync
  undoes the decision.
\<close>

theorem forced_counters_win:
  assumes "alone e" and "handle_ipc_request e req w = (CountersRestored k, w')"
    and "kept_keys req (counters (state_of (iw_pad w))) (pad_row (iw_pad w)) = Some keys"
  shows "outranks k (counters (state_of (iw_pad w))) \<and> (\<forall>c. pad_row (iw_pad w) = Some c \<longrightarrow> outranks k c)
    \<and> (lifetime_key1 k, lifetime_key2 k) = keys \<and> counters (state_of (iw_pad w')) = k"
proof -
  have on: "on_pad f w = (CountersRestored k, w') \<Longrightarrow> f (iw_pad w) = (CountersRestored k, iw_pad w')" for f
    by (auto simp: on_pad_def split: prod.splits)
  have h: "handle e (mode (state_of (iw_pad w))) req w = (CountersRestored k, w')"
    using assms(2) by (simp add: handle_ipc_request_def Let_def assms(1))
  show ?thesis
  proof (cases req)
    case (RestoreDeviceFromPc confirm)
    then have r: "restore_device_from_pc e (mode (state_of (iw_pad w))) confirm (iw_pad w) = (CountersRestored k, iw_pad w')"
      using h on by simp
    from restore_wins[OF assms(1) r] obtain pc where row: "pad_row (iw_pad w) = Some pc" and
      k: "k = winning (counter_device k) (stored_generation (pad_row (iw_pad w)))
        (counter_generation (counters (state_of (iw_pad w)))) (lifetime_key1 pc) (lifetime_key2 pc)"
      by (auto simp: stored_generation_def)
    with winning_rest[OF k] assms(3) restored_shown(1)[OF r] RestoreDeviceFromPc show ?thesis
      by (simp add: row_keys_def)
  next
    case (ImportPcFromDevice confirm)
    then have r: "import_pc_from_device e (mode (state_of (iw_pad w))) confirm (iw_pad w) = (CountersRestored k, iw_pad w')"
      using h on by simp
    with winning_rest[OF import_wins[OF assms(1) r]] assms(3) restored_shown(2)[OF r] ImportPcFromDevice
    show ?thesis by simp
  next
    case (ResolveTakeover t keep)
    then have r: "resolve_takeover e (mode (state_of (iw_pad w))) t keep (iw_pad w) = (CountersRestored k, iw_pad w')"
      using h on by simp
    with winning_rest[OF takeover_wins[OF assms(1) r]] assms(3) restored_shown(3)[OF r] ResolveTakeover
    show ?thesis by (auto simp: row_keys_def split: option.split)
  qed (use assms(3) in simp_all)
qed

section \<open>Taking a pad over\<close>

lemma send_layouts_sent: "\<exists>rest. fw_sent (send_layouts e n ls w) = fw_sent w @ rest"
  by (induction e n ls w rule: send_layouts.induct) auto

lemma claim_refused:
  assumes "alone e" "ie_takes e 0 = Inl err" "take_over_pad e pending info k owner w = (r, w')"
  shows "fw_sent w' = fw_sent w \<and> fw_shared w' = update_shared_state (\<lambda>s. s\<lparr>takeover := Some pending\<rparr>) (fw_shared w)
    \<and> (\<forall>k. r \<noteq> CountersRestored k)"
  using assms by (auto simp: take_over_pad_def send_pad_def on_state_def)

lemma same_shared: "fw_shared w = s \<Longrightarrow> w\<lparr>fw_shared := s\<rparr> = w"
  by auto

lemma claim_taken:
  assumes "alone e" "ie_takes e 0 = Inr u" "take_over_pad e pending info k owner w = (r, w')"
  shows "\<exists>rest. fw_sent w' = fw_sent w @ PadClaim owner # rest \<and> \<not> foreign_pad (state_of w') \<and> r = CountersRestored k"
proof -
  let ?v = "w\<lparr>fw_sent := fw_sent w @ [PadClaim owner]\<rparr>"
  let ?x = "send_anyway e 2 (PadConfig (config (state_of w)))
      (send_anyway e 1 (CounterSync k True) (record_counters e info k ?v))"
  obtain rest where rest: "fw_sent (send_layouts e 3 (custom_layouts (state_of w)) ?x) = fw_sent ?x @ rest"
    using send_layouts_sent by blast
  have "w' = on_state (\<lambda>s. show_counters k (s\<lparr>foreign_pad := False\<rparr>)) (send_layouts e 3 (custom_layouts (state_of w)) ?x)"
    "r = CountersRestored k"
    using assms by (simp_all add: take_over_pad_def send_pad_def same_shared Let_def)
  with rest show ?thesis by (simp add: show_counters_def)
qed

lemma takeover_decided:
  assumes "alone e" "resolve_takeover e m t keep w = (r, w')"
  shows "(fw_sent w' = fw_sent w \<and> db_of w' = db_of w \<and> counters (state_of w') = counters (state_of w)
        \<and> foreign_pad (state_of w') = foreign_pad (state_of w) \<and> (\<forall>k. r \<noteq> CountersRestored k))
    \<or> (\<exists>pending info k owner. t \<and> takeover (state_of w) = Some pending \<and> db_of w \<noteq> None
        \<and> Option.bind (install_id (state_of w)) (parse_owner_id (ie_runtime e)) = Some owner
        \<and> take_over_pad e pending info k owner (on_state (\<lambda>s. s\<lparr>takeover := None\<rparr>) w) = (r, w'))"
  using assms(2)
  by (auto simp: resolve_takeover_def reject_def Let_def assms(1) split: option.splits if_splits)

text \<open>
  Resolving a takeover sends the pad nothing, and leaves the database, the counters and the pad's
  standing as they were, unless it first has this install's identity on the pad as its owner; only
  then the pad counts as its own.
\<close>

theorem takeover_claims_first:
  assumes "alone e" and "resolve_takeover e m t keep w = (r, w')"
  shows "(fw_sent w' = fw_sent w \<and> db_of w' = db_of w \<and> counters (state_of w') = counters (state_of w)
        \<and> foreign_pad (state_of w') = foreign_pad (state_of w) \<and> (\<forall>k. r \<noteq> CountersRestored k))
    \<or> (\<exists>owner rest. Option.bind (install_id (state_of w)) (parse_owner_id (ie_runtime e)) = Some owner
        \<and> takeover (state_of w) \<noteq> None \<and> t \<and> fw_sent w' = fw_sent w @ PadClaim owner # rest
        \<and> \<not> foreign_pad (state_of w') \<and> (\<exists>k. r = CountersRestored k))"
  using takeover_decided[OF assms]
proof (elim disjE exE conjE)
  fix pending info k owner
  assume d: "t" "takeover (state_of w) = Some pending"
    "Option.bind (install_id (state_of w)) (parse_owner_id (ie_runtime e)) = Some owner"
    "take_over_pad e pending info k owner (on_state (\<lambda>s. s\<lparr>takeover := None\<rparr>) w) = (r, w')"
  show ?thesis
  proof (cases "ie_takes e 0")
    case (Inl err)
    from claim_refused[OF assms(1) Inl d(4)] show ?thesis by simp
  next
    case (Inr u)
    from claim_taken[OF assms(1) Inr d(4)] d(1-3) show ?thesis by auto
  qed
qed blast


section \<open>A replacement prompt and another owner\<close>

lemma load_counters_storage: "load_counters i w = Some k \<Longrightarrow> db_of w \<noteq> None"
  by (cases "db_of w") (simp_all add: load_counters_def)

text \<open>
  C20: Restoring a replacement pad does not ask whose pad it is: with both prompts open, the old pad's
  counters are forced onto a pad of another install, which stays one.
\<close>

theorem replacement_ignores_owner:
  assumes "alone e" and "\<not> playing_or_cooldown m" and "foreign_pad (state_of w)"
    and "pending_replacement (state_of w) = Some old" and "load_counters old w = Some row"
    and "the_device (state_of w) = Some info" and "ie_takes e 0 = Inr ()"
  shows "\<exists>k. fst (resolve_replacement e m True w) = CountersReset k
    \<and> fw_sent (snd (resolve_replacement e m True w)) = fw_sent w @ [CounterSync k True]
    \<and> foreign_pad (state_of (snd (resolve_replacement e m True w))) \<and> lifetime_key1 k = lifetime_key1 row"
  using assms load_counters_storage[OF assms(5)]
  by (auto simp: resolve_replacement_def Let_def load_counters_def taken_def is_ok_def winning_def)

text \<open>Both prompts can come from one connection, of a pad with few presses that another install owns.\<close>

definition two_prompts :: controller where
  "two_prompts = fst (on_connected \<lparr>uuid_parse = (\<lambda>s. Some [1]), sys_now = 0, utc_now = 0\<rparr> 0 sync_info None
     (update_state (\<lambda>s. s\<lparr>install_id := Some ''me'', pc_counters := Some (demo_counters\<lparr>lifetime_key1 := 5\<rparr>)\<rparr>)
       (demo_controller\<lparr>known_devices := [''old''], reported_owner := Some [2]\<rparr>)))"

lemma prompts_meet: "foreign_pad (state two_prompts) \<and> pending_replacement (state two_prompts) = Some ''old''"
  by (simp add: two_prompts_def on_connected_def connect_adopt_def connect_owner_def connect_known_def
      connect_send_def seq_def Let_def split_beta demo_controller_def new_controller_def
      new_state_def demo_counters_def sync_info_def DEVICE_PROTOCOL_VERSION_def nvs_wiped_def ownership_of_def
      is_unclaimed_def owns_def parse_owner_id_def pc_is_ahead_def)

section \<open>Concrete requests\<close>

definition demo_ipc :: "(unit, string) ipc_env" where
  "demo_ipc = \<lparr>ie_flash = Firmware_Safety.demo_env,
     ie_runtime = \<lparr>uuid_parse = (\<lambda>s. Some [1]), sys_now = 0, utc_now = 0\<rparr>, ie_takes = (\<lambda>n. Inr ()),
     ie_is_connected = True, ie_per_second = True, ie_board_test = True, ie_restart = True,
     ie_he_calibration = True, ie_he_live = True, ie_animations = 3, ie_sample = None, ie_port = Some ''COM7'',
     ie_events = [], ie_closed = False, ie_updates = None, ie_log = new_log_hub, ie_rfc3339 = (\<lambda>t. [])\<rparr>"

definition demo_with :: "(daemon_state \<Rightarrow> daemon_state) \<Rightarrow> ipc_world" where
  "demo_with f = \<lparr>iw_pad = on_state f demo_world, iw_queue = []\<rparr>"

definition demo_takeover :: "daemon_state \<Rightarrow> daemon_state" where
  "demo_takeover s = s\<lparr>takeover := Some \<lparr>pt_device_id = ''pad'', pt_device_key1 = 100, pt_device_key2 = 9\<rparr>,
     foreign_pad := True, install_id := Some ''me''\<rparr>"

lemma demo_row: "load_counters ''pad'' (iw_pad (demo_with f)) = Some (counters_of_row ''pad''
    \<lparr>row_board_profile = BOARD_PROFILE, row_firmware_version = None, row_generation = 1, row_key1 = -1,
      row_key2 = 7, row_last_seen_at = ''2025'', row_last_sync_at = ''2025''\<rparr>)"
  by (simp add: load_counters_def demo_with_def demo_world_def update_shared_state_def sync_shared_def
      load_device_state_def old_database_def)

lemma demo_state: "the_device (sh_state (fw_shared demo_world)) = Some demo_pad" "device_id demo_pad = ''pad''"
  "device_connected (sh_state (fw_shared demo_world))" "mode (sh_state (fw_shared demo_world)) = Idle"
  "fw_sent demo_world = []" "pad_guard (sh_state (fw_shared demo_world)) = None" "db_of demo_world = Some old_database"
  "lifetime_key1 (counters (sh_state (fw_shared demo_world))) = 100"
  "lifetime_key2 (counters (sh_state (fw_shared demo_world))) = 9"
  by (simp_all add: demo_world_def update_shared_state_def sync_shared_def new_state_def demo_pad_def sync_info_def
      pad_guard_def)

lemma demo_link: "ie_takes demo_ipc n = Inr ()" "parse_owner_id (ie_runtime demo_ipc) i = Some [1]"
  by (simp_all add: demo_ipc_def parse_owner_id_def)

lemma demo_alone: "alone demo_ipc"
  by (simp add: alone_def demo_ipc_def Firmware_Safety.demo_env_def)

lemma demo_unpaused: "\<not> fw_paused (iw_pad (demo_with f))"
  by (simp add: demo_with_def demo_world_def)

lemma pause_ends_with_connection_witness:
  "fst (handle_ipc_request demo_ipc PrepareFlash (demo_with id)) = ReadyForFlash (Some ''COM7'')
   \<and> \<not> fw_paused (iw_pad (snd (serve_connection
        [(demo_ipc, Handshake ''1.0.0'' 1, True), (demo_ipc, PrepareFlash, True)] (demo_with id))))"
proof
  show "fst (handle_ipc_request demo_ipc PrepareFlash (demo_with id)) = ReadyForFlash (Some ''COM7'')"
    by (simp add: handle_ipc_request_def Let_def on_pad_def begin_flash_def demo_ipc_def demo_with_def
        Firmware_Safety.demo_env_def demo_world_def update_shared_state_def sync_shared_def new_state_def)
qed (rule pause_ends_with_connection[OF demo_unpaused])

lemma nothing_before_handshake_witness:
  "\<exists>e req delivered rest. [(demo_ipc, Handshake ''1.0.0'' 1, True), (demo_ipc, TriggerEasterEgg, True)]
      = (e, req, delivered) # rest \<and> good_handshake e req \<and> delivered"
proof -
  have "fw_sent (iw_pad (snd (serve_connection
      [(demo_ipc, Handshake ''1.0.0'' 1, True), (demo_ipc, TriggerEasterEgg, True)] (demo_with id)))) \<noteq> []"
    by (simp add: serve_connection_def refuse_before_handshake_def is_handshake_def handle_ipc_request_def
        handshake_def IPC_PROTOCOL_VERSION_def is_rejection_def is_ack_def demo_alone demo_link demo_with_def demo_state
        close_connection_def holds_flash_pause_def flash_step_of_def taken_def is_ok_def Let_def)
      (simp add: demo_ipc_def Firmware_Safety.demo_env_def)
  moreover have "fw_sent (iw_pad (demo_with id)) = []" by (simp add: demo_with_def demo_world_def)
  ultimately have "effects (snd (serve_connection
      [(demo_ipc, Handshake ''1.0.0'' 1, True), (demo_ipc, TriggerEasterEgg, True)] (demo_with id))) \<noteq> effects (demo_with id)"
    by (auto simp: effects_def)
  then show ?thesis by (rule nothing_before_handshake)
qed


definition demo_play :: ipc_world where
  "demo_play = \<lparr>iw_pad = demo_world\<lparr>fw_shared := \<lparr>sh_state = (sh_state (fw_shared demo_world))\<lparr>mode := Playing\<rparr>,
     sh_storage = Some (set_writes_allowed False old_database), sh_pending = no_pending\<rparr>\<rparr>, iw_queue = []\<rparr>"


lemma forced_counters_win_witness:
  "\<exists>k w'. handle_ipc_request demo_ipc (RestoreDeviceFromPc True) (demo_with id) = (CountersRestored k, w')
     \<and> outranks k (counters (state_of (iw_pad (demo_with id))))"
proof -
  have "\<exists>k w'. handle_ipc_request demo_ipc (RestoreDeviceFromPc True) (demo_with id) = (CountersRestored k, w')"
    using demo_row[of id]
    by (simp add: handle_ipc_request_def on_pad_def restore_device_from_pc_def guarded_by_def override_counters_def
        demo_alone demo_with_def demo_state Let_def)
  then obtain k w' where r: "handle_ipc_request demo_ipc (RestoreDeviceFromPc True) (demo_with id) = (CountersRestored k, w')"
    by blast
  from forced_counters_win[OF demo_alone r kept_keys.simps(1)] r show ?thesis by blast
qed

lemma demo_took_over:
  assumes "\<And>s. takeover (f s) \<noteq> None" "\<And>s. install_id (f s) = Some ''me''" "\<And>s. the_device (f s) = the_device s"
  shows "\<exists>k w'. resolve_takeover demo_ipc Idle True True (iw_pad (demo_with f)) = (CountersRestored k, w')"
  using assms(1)[of "sh_state (fw_shared demo_world)"]
  by (auto simp: resolve_takeover_def take_over_pad_def send_pad_def demo_alone demo_link demo_with_def demo_state
      assms(2,3) Let_def split: option.split)

lemma takeover_claims_first_witness:
  "\<exists>rest. fw_sent (snd (resolve_takeover demo_ipc Idle True True (iw_pad (demo_with demo_takeover)))) = PadClaim [1] # rest"
proof -
  let ?w = "iw_pad (demo_with demo_takeover)"
  obtain k w' where r: "resolve_takeover demo_ipc Idle True True ?w = (CountersRestored k, w')"
    using demo_took_over[of demo_takeover] by (auto simp: demo_takeover_def)
  have owner: "Option.bind (install_id (state_of ?w)) (parse_owner_id (ie_runtime demo_ipc)) = Some [1]" "fw_sent ?w = []"
    by (simp_all add: demo_with_def demo_takeover_def demo_link demo_state)
  from takeover_claims_first[OF demo_alone r] obtain o' rest where
    "Option.bind (install_id (state_of ?w)) (parse_owner_id (ie_runtime demo_ipc)) = Some o'"
    "fw_sent w' = fw_sent ?w @ PadClaim o' # rest" by blast
  then have "fw_sent w' = PadClaim [1] # rest" unfolding owner by simp
  then show ?thesis unfolding r snd_conv by blast
qed

definition demo_ahead :: "daemon_state \<Rightarrow> daemon_state" where
  "demo_ahead s = (demo_takeover (s\<lparr>counters := (counters s)\<lparr>lifetime_key1 := -1\<rparr>\<rparr>))
     \<lparr>takeover := Some \<lparr>pt_device_id = ''pad'', pt_device_key1 = -1, pt_device_key2 = 9\<rparr>\<rparr>"


lemma replacement_ignores_owner_witness:
  "\<exists>k. fw_sent (snd (resolve_replacement demo_ipc Idle True
      (iw_pad (demo_with (\<lambda>s. demo_takeover s\<lparr>pending_replacement := Some ''pad''\<rparr>))))) = [CounterSync k True]"
proof -
  let ?w = "iw_pad (demo_with (\<lambda>s. demo_takeover s\<lparr>pending_replacement := Some ''pad''\<rparr>))"
  have facts: "foreign_pad (state_of ?w)" "pending_replacement (state_of ?w) = Some ''pad''"
    "the_device (state_of ?w) = Some demo_pad" "fw_sent ?w = []"
    by (simp_all add: demo_with_def demo_takeover_def demo_state)
  from replacement_ignores_owner[OF demo_alone _ facts(1,2) demo_row facts(3) demo_link(1), of Idle] facts(4)
  show ?thesis by auto
qed

end
