(* ===== verification/Updater.thy ===== *)
theory Updater
  imports Ipc
begin

text \<open>
  The update worker of the daemon, \<open>daemon/src/updater.rs\<close>: its commands and ticks, the check, the
  tosu swap, the install of an app update and what is left of one that was interrupted. The state
  shared with the other tasks changes between two looks at it as \<open>ue_others\<close> of the environment
  says, with a number per gap. What the platform answers (directories, \<open>$PATH\<close>, the exit status of
  a command) is in the environment too; what a command does to the system is its own business, and
  a panic of the blocking task is left out. \<open>ud_ran\<close> and \<open>ud_holds\<close> record which commands were run
  and when tosu was held down, each with the shared state of that moment.
\<close>

section \<open>The environment and the state\<close>

definition TICK :: duration where "TICK = from_secs (15 * 60)"
definition MANUAL_CHECK_MIN :: duration where "MANUAL_CHECK_MIN = from_secs 60"

definition SCHEDULE_KEY :: string where "SCHEDULE_KEY = ''update.schedule''"
definition LAST_RESULT_KEY :: string where "LAST_RESULT_KEY = ''update.last_result''"
definition IN_PROGRESS_KEY :: string where "IN_PROGRESS_KEY = ''update.in_progress''"

record update_result =
  ur_component :: string
  ur_from :: string
  ur_to :: string
  ur_ok :: bool
  ur_message :: string
  ur_at :: string

record in_progress =
  ip_component :: string
  ip_from :: string
  ip_to :: string

datatype updater_error = UpdateFailed update_error | NoFeedYet | NothingToInstall app_action
  | NotTheUpdaters | CommandMissing string | CommandFailed string "int option" | NoAppImage

record ('k, 's) updater_env =
  ue_packages :: "('k, 's) packages"
  ue_network :: network
  ue_others :: "nat \<Rightarrow> shared \<Rightarrow> shared"
  ue_now :: int
  ue_instant :: duration
  ue_stamp :: string
  ue_text :: "updater_error \<Rightarrow> string"
  ue_app_version :: string
  ue_origin :: install_origin
  ue_target :: string
  ue_windows :: bool
  ue_feed_vars :: "string option \<times> string option"
  ue_tosu_dir :: "string option"
  ue_state_dir :: "string option"
  ue_prefix :: "string option"
  ue_appimage :: "path option"
  ue_crosses :: "path \<Rightarrow> path \<Rightarrow> bool"
  ue_exists :: "string \<Rightarrow> bool"
  ue_pkcon :: bool
  ue_exit :: "string list \<Rightarrow> int option option"
  ue_removed :: "path \<Rightarrow> bool"
  ue_schedule_json :: "check_schedule \<Rightarrow> string"
  ue_schedule_of :: "string \<Rightarrow> check_schedule option"
  ue_result_json :: "update_result \<Rightarrow> string"
  ue_result_of :: "string \<Rightarrow> update_result option"
  ue_progress_json :: "in_progress \<Rightarrow> string"
  ue_progress_of :: "string \<Rightarrow> in_progress option"

record updater =
  ud_shared :: shared
  ud_disk :: disk
  ud_status :: update_status
  ud_offer :: "release_manifest option"
  ud_tosu_held :: bool
  ud_holds :: "shared list"
  ud_ran :: "(string list \<times> shared) list"

definition others_run :: "('k, 's) updater_env \<Rightarrow> nat \<Rightarrow> updater \<Rightarrow> updater" where
  "others_run e n w = w\<lparr>ud_shared := ue_others e n (ud_shared w)\<rparr>"

definition on_status :: "(update_status \<Rightarrow> update_status) \<Rightarrow> updater \<Rightarrow> updater" where
  "on_status f w = w\<lparr>ud_status := f (ud_status w)\<rparr>"

definition on_disk :: "'a io \<Rightarrow> updater \<Rightarrow> (update_error, 'a) result \<times> updater" where
  "on_disk m w = (let (r, d) = m (ud_disk w) in (r, w\<lparr>ud_disk := d\<rparr>))"

section \<open>Settings in the database\<close>

definition read_key :: "string \<Rightarrow> updater \<Rightarrow> string option" where
  "read_key key w =
     (case sh_storage (ud_shared w) of
        None \<Rightarrow> None
      | Some s \<Rightarrow> (case get_app_state key s of Inr v \<Rightarrow> v | Inl err \<Rightarrow> None))"

definition read_channel :: "updater \<Rightarrow> string" where
  "read_channel w = (if read_key CHANNEL_KEY w = Some BETA then BETA else STABLE)"

definition read_flag :: "string \<Rightarrow> updater \<Rightarrow> bool" where
  "read_flag key w =
     (case read_key key w of
        None \<Rightarrow> True
      | Some v \<Rightarrow> v \<noteq> ''0'' \<and> \<not> eq_ignore_ascii_case v ''false'')"

definition write_key :: "string \<Rightarrow> string \<Rightarrow> updater \<Rightarrow> updater" where
  "write_key key v w = w\<lparr>ud_shared := with_storage (set_app_state key v) (ud_shared w)\<rparr>"

definition remove_key :: "string \<Rightarrow> updater \<Rightarrow> updater" where
  "remove_key key w = w\<lparr>ud_shared := with_storage (delete_app_state key) (ud_shared w)\<rparr>"

definition read_schedule :: "('k, 's) updater_env \<Rightarrow> updater \<Rightarrow> check_schedule" where
  "read_schedule e w =
     (case Option.bind (read_key SCHEDULE_KEY w) (ue_schedule_of e) of Some s \<Rightarrow> s | None \<Rightarrow> new_schedule)"

section \<open>How an install went\<close>

definition new_result :: "('k, 's) updater_env \<Rightarrow> string \<Rightarrow> string \<Rightarrow> string \<Rightarrow> bool \<Rightarrow> string \<Rightarrow> update_result" where
  "new_result e c from to ok msg = \<lparr>ur_component = c, ur_from = from, ur_to = to, ur_ok = ok,
     ur_message = msg, ur_at = ue_stamp e\<rparr>"

definition result_sentence :: "update_result \<Rightarrow> string" where
  "result_sentence r =
     (let name = (if ur_component r = ''app'' then ''OPad'' else if ur_component r = ''tosu'' then ''tosu''
        else ur_component r) in
      if ur_ok r then name @ '' updated from '' @ ur_from r @ '' to '' @ ur_to r @ '' ('' @ ur_at r @ '')''
      else name @ '' update from '' @ ur_from r @ '' to '' @ ur_to r @ '' failed: '' @ ur_message r
        @ '' ('' @ ur_at r @ '')'')"

definition INTERRUPTED :: string where
  "INTERRUPTED = ''it was interrupted before it finished; the previous version is still installed''"

definition resolve_interrupted :: "('k, 's) updater_env \<Rightarrow> in_progress \<Rightarrow> string \<Rightarrow> update_result" where
  "resolve_interrupted e p running_version =
     (if ip_component p = ''app'' \<and> running_version = ip_to p
      then new_result e ''app'' (ip_from p) (ip_to p) True []
      else new_result e (ip_component p) (ip_from p) (ip_to p) False INTERRUPTED)"

definition record_result :: "('k, 's) updater_env \<Rightarrow> update_result \<Rightarrow> updater \<Rightarrow> updater" where
  "record_result e r w = write_key LAST_RESULT_KEY (ue_result_json e r) w"

definition show_result :: "update_result \<Rightarrow> updater \<Rightarrow> updater" where
  "show_result r = on_status (\<lambda>s. s\<lparr>up_last_result := Some (result_sentence r)\<rparr>)"

definition UPDATES_DIR_OF :: "string \<Rightarrow> string" where
  "UPDATES_DIR_OF dir = dir @ ''/updates''"

definition clear_staging :: "('k, 's) updater_env \<Rightarrow> updater \<Rightarrow> updater" where
  "clear_staging e w =
     (case ue_state_dir e of
        None \<Rightarrow> w
      | Some dir \<Rightarrow> w\<lparr>ud_disk := (ud_disk w)\<lparr>files := (\<lambda>p.
          if fst p = UPDATES_DIR_OF dir \<and> ue_removed e p then None else files (ud_disk w) p)\<rparr>\<rparr>)"

definition recover_interrupted :: "('k, 's) updater_env \<Rightarrow> updater \<Rightarrow> updater" where
  "recover_interrupted e w =
     (let stored = Option.bind (read_key LAST_RESULT_KEY w) (ue_result_of e) in
      case Option.bind (read_key IN_PROGRESS_KEY w) (ue_progress_of e) of
        Some p \<Rightarrow>
          let r = resolve_interrupted e p (ue_app_version e)
          in clear_staging e (show_result r (remove_key IN_PROGRESS_KEY (record_result e r w)))
      | None \<Rightarrow> (case stored of Some r \<Rightarrow> show_result r w | None \<Rightarrow> w))"

section \<open>Replacing the AppImage\<close>

definition copy_replace :: "path \<Rightarrow> path \<Rightarrow> unit io" where
  "copy_replace staged t =
     (let tmp = incoming_path t in
      on_error
        (io_bind (step (ReadFile staged)) (\<lambda>_. \<lambda>d.
           (io_bind (step (Create tmp)) (\<lambda>_.
            io_bind (append_all tmp (the (files d staged))) (\<lambda>_.
            io_bind (step (Chmod tmp)) (\<lambda>_.
            io_bind (step (SyncFile tmp)) (\<lambda>_. step (Rename tmp t)))))) d))
        (ignore_result (step (RemoveFile tmp))))"

text \<open>A rename that would cross file systems fails and changes nothing.\<close>

definition replace_file :: "bool \<Rightarrow> path \<Rightarrow> path \<Rightarrow> unit io" where
  "replace_file crosses staged t = (if crosses then copy_replace staged t else step (Rename staged t))"

section \<open>Applying\<close>

definition path_text :: "path \<Rightarrow> string" where
  "path_text p = fst p @ ''/'' @ snd p"

text \<open>\<open>shown\<close> is how the command is named in the error.\<close>

definition run_command :: "('k, 's) updater_env \<Rightarrow> string list \<Rightarrow> string \<Rightarrow> updater \<Rightarrow> (updater_error, unit) result \<times> updater" where
  "run_command e cmd shown w =
     (case ue_exit e cmd of
        None \<Rightarrow> (Inl (CommandMissing (hd cmd)), w)
      | Some code \<Rightarrow>
          ((if code = Some 0 then Inr () else Inl (CommandFailed shown code)),
           w\<lparr>ud_ran := ud_ran w @ [(cmd, ud_shared w)]\<rparr>))"

fun run_all :: "('k, 's) updater_env \<Rightarrow> string list list \<Rightarrow> updater \<Rightarrow> (updater_error, unit) result \<times> updater" where
  "run_all e [] w = (Inr (), w)"
| "run_all e (cmd # cmds) w =
     (case run_command e cmd (join_with CHR '' '' cmd) w of
        (Inl err, w) \<Rightarrow> (Inl err, w)
      | (Inr _, w) \<Rightarrow> run_all e cmds w)"

definition apply_downloaded :: "('k, 's) updater_env \<Rightarrow> update_policy \<Rightarrow> path \<Rightarrow> updater
    \<Rightarrow> (updater_error, unit) result \<times> updater" where
  "apply_downloaded e policy p w =
     (case apply_command policy (path_text p) of
        Some cmd \<Rightarrow> run_command e cmd (hd cmd) w
      | None \<Rightarrow>
          if ue_origin e = OAppImage then
            (case ue_appimage e of
               None \<Rightarrow> (Inl NoAppImage, w)
             | Some current \<Rightarrow>
                 (case on_disk (replace_file (ue_crosses e p current) p current) w of
                    (Inl err, w) \<Rightarrow> (Inl (UpdateFailed err), w)
                  | (Inr _, w) \<Rightarrow> (Inr (), w)))
          else
            (case ue_prefix e of
               None \<Rightarrow> (Inl (UpdateFailed Io), w)
             | Some prefix \<Rightarrow> run_command e [''tar'', ''-xzf'', path_text p, ''-C'', prefix] ''tar'' w))"

definition app_installed_now :: "string \<Rightarrow> updater \<Rightarrow> updater" where
  "app_installed_now available = on_status (\<lambda>s. s\<lparr>up_restart_required := True,
     up_app := (up_app s)\<lparr>cu_ready_to_install := False, cu_installed := Some available\<rparr>\<rparr>)"

definition mark_in_progress :: "('k, 's) updater_env \<Rightarrow> string \<Rightarrow> updater \<Rightarrow> updater" where
  "mark_in_progress e available = write_key IN_PROGRESS_KEY (ue_progress_json e
     \<lparr>ip_component = ''app'', ip_from = ue_app_version e, ip_to = available\<rparr>)"

text \<open>The end of both ways of installing the app: record, unmark, show, and report.\<close>

definition finish_install :: "('k, 's) updater_env \<Rightarrow> string \<Rightarrow> (updater_error, unit) result \<Rightarrow> updater
    \<Rightarrow> (updater_error, unit) result \<times> updater" where
  "finish_install e available applied w =
     (let r = (case applied of
            Inr _ \<Rightarrow> new_result e ''app'' (ue_app_version e) available True []
          | Inl err \<Rightarrow> new_result e ''app'' (ue_app_version e) available False (ue_text e err));
          w = others_run e 44 (record_result e r w);
          w = show_result r (remove_key IN_PROGRESS_KEY w)
      in (applied, if is_ok applied then app_installed_now available w else w))"

definition upgrade_from_repo :: "('k, 's) updater_env \<Rightarrow> package_manager \<Rightarrow> string \<Rightarrow> updater
    \<Rightarrow> (updater_error, unit) result \<times> updater" where
  "upgrade_from_repo e pm available w =
     (let (applied, w) = run_all e (repo_upgrade_commands pm (ue_pkcon e)) (mark_in_progress e available w)
      in finish_install e available applied (others_run e 43 w))"

definition download_name :: "string \<Rightarrow> string" where
  "download_name u = (let n = last (split_on CHR ''/'' u) in if n = [] then ''opad-update'' else n)"

definition stage_and_place :: "('k, 's) updater_env \<Rightarrow> path \<Rightarrow> string \<Rightarrow> artifact \<Rightarrow> unit io" where
  "stage_and_place e t bytes a =
     io_bind (stage_bytes (sha (ue_packages e)) t bytes (Feed.sha256 a) (url a)) (\<lambda>p. install_to p t)"

definition install_app :: "('k, 's) updater_env \<Rightarrow> release_manifest option \<Rightarrow> updater
    \<Rightarrow> (updater_error, unit) result \<times> updater" where
  "install_app e feed w =
     (case feed of
        None \<Rightarrow> (Inl NoFeedYet, w)
      | Some m \<Rightarrow>
          let the_mode = mode (sh_state (ud_shared w));
              w = others_run e 40 w
          in case app_plan m (ue_app_version e) (ue_origin e) (ue_target e)
                    (may_update_now the_mode (read_flag APP_ENABLED_KEY w)) of
               Inl err \<Rightarrow> (Inl (UpdateFailed err), w)
             | Inr (AppAvailable from available notes a policy) \<Rightarrow>
                 (case (case policy of PPackageManager pm \<Rightarrow>
                          if repo_configured (ue_exists e) pm then Some pm else None | _ \<Rightarrow> None) of
                    Some pm \<Rightarrow> upgrade_from_repo e pm available w
                  | None \<Rightarrow>
                     (case fetch_artifact (ue_packages e) (ue_network e) a of
                        Inl err \<Rightarrow> (Inl (UpdateFailed err), others_run e 41 w)
                      | Inr bytes \<Rightarrow>
                          let w = others_run e 41 w in
                          case ue_state_dir e of
                            None \<Rightarrow> (Inl (UpdateFailed Io), w)
                          | Some dir \<Rightarrow>
                              let t = (UPDATES_DIR_OF dir, download_name (url a)) in
                              (case on_disk (stage_and_place e t bytes a) w of
                                 (Inl err, w) \<Rightarrow> (Inl (UpdateFailed err), w)
                               | (Inr _, w) \<Rightarrow>
                                   let w = mark_in_progress e available (others_run e 42 w);
                                       (applied, w) = apply_downloaded e policy t w;
                                       (_, w) = on_disk (step (RemoveFile t)) w
                                   in finish_install e available applied (others_run e 43 w))))
             | Inr act \<Rightarrow> (Inl (NothingToInstall act), w))"

section \<open>tosu\<close>

definition tosu_shown :: "release_manifest \<Rightarrow> string option \<Rightarrow> bool \<Rightarrow> tosu_action \<Rightarrow> component_update \<Rightarrow> component_update" where
  "tosu_shown m installed enabled act u =
     (let notify = (case act of TosuNotifyOnly i a \<Rightarrow> True | _ \<Rightarrow> False) in
      u\<lparr>cu_installed := installed,
        cu_available := (case act of TosuUpToDate v \<Rightarrow> None | _ \<Rightarrow> map_option Feed.version (components m TOSU)),
        cu_notes_url := Option.bind (components m TOSU) notes_url,
        cu_enabled := enabled, cu_notify_only := notify,
        cu_ready_to_install := (case act of TosuInstall f t r a \<Rightarrow> True | TosuDefer d \<Rightarrow> True | _ \<Rightarrow> False)
          \<and> \<not> notify\<rparr>)"

definition hold_tosu :: "updater \<Rightarrow> updater" where
  "hold_tosu w = w\<lparr>ud_tosu_held := True, ud_holds := ud_holds w @ [ud_shared w]\<rparr>"

definition release_tosu :: "updater \<Rightarrow> updater" where
  "release_tosu w = w\<lparr>ud_tosu_held := False\<rparr>"

definition tosu_swapped :: "string \<Rightarrow> update_status \<Rightarrow> update_status" where
  "tosu_swapped to s = s\<lparr>up_tosu := (up_tosu s)\<lparr>cu_installed := Some to, cu_available := None,
     cu_ready_to_install := False\<rparr>\<rparr>"

definition swap_tosu :: "('k, 's) updater_env \<Rightarrow> release_manifest \<Rightarrow> string \<Rightarrow> string \<Rightarrow> string \<Rightarrow> u32 \<Rightarrow> artifact
    \<Rightarrow> updater \<Rightarrow> (updater_error, unit) result \<times> updater" where
  "swap_tosu e m dir from to r a w =
     (case fetch_artifact (ue_packages e) (ue_network e) a of
        Inl err \<Rightarrow> (Inl (UpdateFailed err), others_run e 21 w)
      | Inr bytes \<Rightarrow>
          let w = hold_tosu (others_run e 21 w);
              upstream = Option.bind (components m TOSU) upstream_tag;
              (res, w) = on_disk (install_tosu (sha (ue_packages e)) (TOSU_BINARY (ue_windows e)) dir bytes a to r
                upstream) w;
              w = others_run e 22 (release_tosu w);
              shown = (if from = [] then ''an unrecorded version'' else from)
          in case res of
               Inr _ \<Rightarrow>
                 let done' = new_result e ''tosu'' shown to True []
                 in (Inr (), on_status (tosu_swapped to) (show_result done' (record_result e done' w)))
             | Inl err \<Rightarrow>
                 let failed = new_result e ''tosu'' shown to False (ue_text e (UpdateFailed err))
                 in (Inl (UpdateFailed err),
                     on_status (\<lambda>s. s\<lparr>up_last_error := Some (ue_text e (UpdateFailed err))\<rparr>)
                       (show_result failed (record_result e failed w))))"

definition update_tosu :: "('k, 's) updater_env \<Rightarrow> release_manifest \<Rightarrow> bool \<Rightarrow> updater
    \<Rightarrow> (updater_error, unit) result \<times> updater" where
  "update_tosu e m force w =
     (let enabled = read_flag TOSU_ENABLED_KEY w in
      case ue_tosu_dir e of
        None \<Rightarrow> (Inl (UpdateFailed Io), w)
      | Some dir \<Rightarrow>
          let installed = installed_version (files (ud_disk w)) dir;
              rev = installed_revision (files (ud_disk w)) dir;
              w = others_run e 20 w
          in case tosu_plan m installed rev (ue_origin e) (ue_target e)
                    (may_update_now (mode (sh_state (ud_shared w))) (enabled \<or> force)) of
               Inl err \<Rightarrow> (Inl (UpdateFailed err), w)
             | Inr act \<Rightarrow>
                 let w = on_status (\<lambda>s. s\<lparr>up_tosu := tosu_shown m installed enabled act (up_tosu s)\<rparr>) w
                 in (case act of
                       TosuInstall from to r a \<Rightarrow> swap_tosu e m dir from to r a w
                     | _ \<Rightarrow> (Inr (), w)))"

section \<open>The check\<close>

definition app_shown :: "('k, 's) updater_env \<Rightarrow> release_manifest \<Rightarrow> bool \<Rightarrow> app_action \<Rightarrow> component_update \<Rightarrow> component_update" where
  "app_shown e m enabled act u =
     (let u = u\<lparr>cu_installed := Some (ue_app_version e), cu_enabled := enabled, cu_notes_url := None\<rparr>;
          link = Option.bind (components m APP) notes_url
      in case act of
           AppNotifyOnly available notes \<Rightarrow> u\<lparr>cu_available := Some available, cu_notes := notes,
             cu_notes_url := link, cu_notify_only := True, cu_ready_to_install := False\<rparr>
         | AppAvailable from available notes a policy \<Rightarrow> u\<lparr>cu_available := Some available, cu_notes := notes,
             cu_notes_url := link, cu_notify_only := False, cu_ready_to_install := True\<rparr>
         | _ \<Rightarrow> u\<lparr>cu_available := None, cu_ready_to_install := False, cu_notify_only := False\<rparr>)"

definition check_app :: "('k, 's) updater_env \<Rightarrow> release_manifest \<Rightarrow> updater \<Rightarrow> (updater_error, unit) result \<times> updater" where
  "check_app e m w =
     (let enabled = read_flag APP_ENABLED_KEY w;
          w = others_run e 30 w
      in case app_plan m (ue_app_version e) (ue_origin e) (ue_target e)
                (may_update_now (mode (sh_state (ud_shared w))) enabled) of
           Inl err \<Rightarrow> (Inl (UpdateFailed err), w)
         | Inr act \<Rightarrow> (Inr (), on_status (\<lambda>s. s\<lparr>up_app := app_shown e m enabled act (up_app s)\<rparr>) w))"

definition note_error :: "('k, 's) updater_env \<Rightarrow> (updater_error, unit) result \<times> updater \<Rightarrow> updater" where
  "note_error e rw =
     (case rw of
        (Inl err, w) \<Rightarrow> on_status (\<lambda>s. s\<lparr>up_last_error := Some (ue_text e err)\<rparr>) w
      | (Inr _, w) \<Rightarrow> w)"

definition updates_check :: "('k, 's) updater_env \<Rightarrow> bool \<Rightarrow> bool \<Rightarrow> updater
    \<Rightarrow> (updater_error, release_manifest option) result \<times> updater" where
  "updates_check e have_cached force w =
     (case may_update_now (mode (sh_state (ud_shared w))) True of
        Inl reason \<Rightarrow> (Inr None, w)
      | Inr _ \<Rightarrow>
          let w = others_run e 10 w;
              ch = read_channel w;
              w = others_run e 11 w;
              schedule = switch_channel (read_schedule e w) ch
          in if \<not> force \<and> \<not> due_at schedule (ue_now e) then (Inr None, w)
             else
               let (schedule, fetched) = fetch_manifest (ue_packages e)
                     (new_client (fst (ue_feed_vars e)) (snd (ue_feed_vars e)) ch) (ue_network e) schedule
                     (ue_now e) have_cached;
                   w = write_key SCHEDULE_KEY (ue_schedule_json e schedule) (others_run e 12 w);
                   w = on_status (\<lambda>s. s\<lparr>up_last_check := last_check schedule,
                         up_last_error := map_option (\<lambda>err. ue_text e (UpdateFailed err)) (last_error schedule)\<rparr>) w
               in case fetched of
                    Inl err \<Rightarrow> (Inl (UpdateFailed err), w)
                  | Inr None \<Rightarrow> (Inr None, w)
                  | Inr (Some feed) \<Rightarrow>
                      let w = others_run e 13 w;
                          feed = for_install (sha (ue_packages e)) feed (install_id (sh_state (ud_shared w)));
                          w = note_error e (update_tosu e feed False w);
                          w = note_error e (check_app e feed (others_run e 14 w))
                      in (Inr (Some feed), w))"

section \<open>The worker\<close>

datatype wake = Ticked | Told update_command

record worker =
  wk_feed :: "release_manifest option"
  wk_last_manual :: "duration option"
  wk_world :: updater

definition default_component :: component_update where
  "default_component = \<lparr>cu_installed = None, cu_available = None, cu_notes = None, cu_enabled = False,
     cu_notify_only = False, cu_ready_to_install = False, cu_notes_url = None\<rparr>"

definition start_worker :: "('k, 's) updater_env \<Rightarrow> shared \<Rightarrow> disk \<Rightarrow> worker" where
  "start_worker e s d =
     (let w = \<lparr>ud_shared = s, ud_disk = d,
            ud_status = \<lparr>up_tosu = default_component, up_app = default_component, up_last_check = None,
              up_last_error = None, up_restart_required = False, up_channel = [], up_checking = False,
              up_last_result = None\<rparr>,
            ud_offer = None, ud_tosu_held = False, ud_holds = [], ud_ran = []\<rparr>;
          w = on_status (\<lambda>st. st\<lparr>up_channel := read_channel w, up_app := default_component\<lparr>
                cu_installed := Some (ue_app_version e), cu_enabled := read_flag APP_ENABLED_KEY w\<rparr>\<rparr>) w
      in \<lparr>wk_feed = None, wk_last_manual = None, wk_world = recover_interrupted e w\<rparr>)"

definition check_turn :: "('k, 's) updater_env \<Rightarrow> bool \<Rightarrow> worker \<Rightarrow> worker" where
  "check_turn e force k =
     (let w = on_status (\<lambda>s. s\<lparr>up_checking := True\<rparr>) (wk_world k);
          (r, w) = updates_check e (wk_feed k \<noteq> None) force w;
          w = on_status (\<lambda>s. s\<lparr>up_checking := False\<rparr>) w
      in case r of
           Inr (Some m) \<Rightarrow> k\<lparr>wk_feed := Some m, wk_world := w\<lparr>ud_offer := Some m\<rparr>\<rparr>
         | Inr None \<Rightarrow> k\<lparr>wk_world := w\<rparr>
         | Inl err \<Rightarrow> k\<lparr>wk_world := on_status (\<lambda>s. s\<lparr>up_last_error := Some (ue_text e err)\<rparr>) w\<rparr>)"

fun install_component :: "('k, 's) updater_env \<Rightarrow> update_component \<Rightarrow> release_manifest option \<Rightarrow> updater
    \<Rightarrow> (updater_error, unit) result \<times> updater" where
  "install_component e AppComponent feed w = install_app e feed w"
| "install_component e TosuComponent feed w =
     (case feed of Some m \<Rightarrow> update_tosu e m True w | None \<Rightarrow> (Inl NoFeedYet, w))"
| "install_component e FirmwareComponent feed w = (Inl NotTheUpdaters, w)"

fun worker_turn :: "('k, 's) updater_env \<Rightarrow> wake \<Rightarrow> worker \<Rightarrow> worker" where
  "worker_turn e Ticked k = check_turn e False k"
| "worker_turn e (Told CheckCommand) k =
     (if (case wk_last_manual k of Some t \<Rightarrow> ue_instant e - t < MANUAL_CHECK_MIN | None \<Rightarrow> False) then k
      else check_turn e True (k\<lparr>wk_last_manual := Some (ue_instant e)\<rparr>))"
| "worker_turn e (Told ChannelChangedCommand) k =
     (let w = wk_world k;
          w = (on_status (\<lambda>s. s\<lparr>up_channel := read_channel w\<rparr>) w)\<lparr>ud_offer := None\<rparr>
      in check_turn e True (k\<lparr>wk_feed := None, wk_world := w\<rparr>))"
| "worker_turn e (Told (InstallCommand c)) k =
     k\<lparr>wk_world := note_error e (install_component e c (wk_feed k) (wk_world k))\<rparr>"

text \<open>The turns of the worker, each with its environment; the other tasks also run between them.\<close>

fun run_worker :: "(('k, 's) updater_env \<times> wake) list \<Rightarrow> worker \<Rightarrow> worker" where
  "run_worker [] k = k"
| "run_worker ((e, wk) # ws) k = run_worker ws (worker_turn e wk (k\<lparr>wk_world := others_run e 0 (wk_world k)\<rparr>))"

end
