(* ===== verification/Updater_Safety.thy ===== *)
theory Updater_Safety
  imports Updater
begin

text \<open>
  What the update worker keeps: it changes nothing while the daemon is not idle, applies an app
  update only when told to, replaces an AppImage in one step, hands out only verified feeds, and
  tells how an install went even when it was killed in the middle. Two behaviours it does not mean
  to have are theorems as well: a schedule that cannot be stored forgets the serial it accepted, and
  a download that ends in a play is swapped in all the same.
\<close>

section \<open>What the small steps leave alone\<close>

lemmas small_steps = on_status_def others_run_def write_key_def remove_key_def record_result_def
  show_result_def hold_tosu_def release_tosu_def mark_in_progress_def app_installed_now_def

lemma disk_frames [simp]:
  "ud_disk (on_status f w) = ud_disk w" "ud_disk (others_run e n w) = ud_disk w"
  "ud_disk (write_key key v w) = ud_disk w" "ud_disk (remove_key key w) = ud_disk w"
  "ud_disk (record_result e r w) = ud_disk w" "ud_disk (show_result r w) = ud_disk w"
  "ud_disk (hold_tosu w) = ud_disk w" "ud_disk (release_tosu w) = ud_disk w"
  "ud_disk (mark_in_progress e a w) = ud_disk w" "ud_disk (app_installed_now a w) = ud_disk w"
  by (simp_all add: small_steps)

lemma ran_frames [simp]:
  "ud_ran (on_status f w) = ud_ran w" "ud_ran (others_run e n w) = ud_ran w"
  "ud_ran (write_key key v w) = ud_ran w" "ud_ran (remove_key key w) = ud_ran w"
  "ud_ran (record_result e r w) = ud_ran w" "ud_ran (show_result r w) = ud_ran w"
  "ud_ran (hold_tosu w) = ud_ran w" "ud_ran (release_tosu w) = ud_ran w"
  "ud_ran (mark_in_progress e a w) = ud_ran w" "ud_ran (app_installed_now a w) = ud_ran w"
  "ud_ran (snd (on_disk m w)) = ud_ran w"
  by (simp_all add: small_steps on_disk_def split: prod.splits)

lemma hold_frames [simp]:
  "ud_holds (on_status f w) = ud_holds w" "ud_holds (others_run e n w) = ud_holds w"
  "ud_holds (write_key key v w) = ud_holds w" "ud_holds (remove_key key w) = ud_holds w"
  "ud_holds (record_result e r w) = ud_holds w" "ud_holds (show_result r w) = ud_holds w"
  "ud_holds (release_tosu w) = ud_holds w" "ud_holds (mark_in_progress e a w) = ud_holds w"
  "ud_holds (app_installed_now a w) = ud_holds w" "ud_holds (snd (on_disk m w)) = ud_holds w"
  by (simp_all add: small_steps on_disk_def split: prod.splits)

lemma offer_frames [simp]:
  "ud_offer (on_status f w) = ud_offer w" "ud_offer (others_run e n w) = ud_offer w"
  "ud_offer (write_key key v w) = ud_offer w" "ud_offer (remove_key key w) = ud_offer w"
  "ud_offer (record_result e r w) = ud_offer w" "ud_offer (show_result r w) = ud_offer w"
  "ud_offer (hold_tosu w) = ud_offer w" "ud_offer (release_tosu w) = ud_offer w"
  "ud_offer (mark_in_progress e a w) = ud_offer w" "ud_offer (app_installed_now a w) = ud_offer w"
  "ud_offer (snd (on_disk m w)) = ud_offer w"
  by (simp_all add: small_steps on_disk_def split: prod.splits)

lemma shared_frames [simp]:
  "ud_shared (on_status f w) = ud_shared w" "ud_shared (others_run e n w) = ue_others e n (ud_shared w)"
  "ud_shared (write_key key v w) = with_storage (set_app_state key v) (ud_shared w)"
  "ud_shared (remove_key key w) = with_storage (delete_app_state key) (ud_shared w)"
  "ud_shared (show_result r w) = ud_shared w"
  "ud_shared (hold_tosu w) = ud_shared w" "ud_shared (release_tosu w) = ud_shared w"
  "ud_shared (app_installed_now a w) = ud_shared w" "ud_shared (snd (on_disk m w)) = ud_shared w"
  by (simp_all add: small_steps on_disk_def split: prod.splits)

lemma with_storage_state [simp]: "sh_state (with_storage f s) = sh_state s"
  by (simp add: with_storage_def split: option.splits sum.splits)

lemma note_error_frames [simp]:
  "ud_disk (note_error e rw) = ud_disk (snd rw)" "ud_ran (note_error e rw) = ud_ran (snd rw)"
  "ud_holds (note_error e rw) = ud_holds (snd rw)" "ud_offer (note_error e rw) = ud_offer (snd rw)"
  "ud_shared (note_error e rw) = ud_shared (snd rw)"
  by (cases rw; cases "fst rw"; simp add: note_error_def)+

section \<open>Plans that change nothing\<close>

lemma gate_busy: "m \<noteq> Idle \<Longrightarrow> \<exists>r. may_update_now m enabled = Inl r"
  by (cases m) (simp_all add: may_update_now_def)

lemma app_plan_busy: "app_plan m inst og tgt (Inl r) \<noteq> Inr (AppAvailable f a n x p)"
  by (simp add: app_plan_def Let_def split: option.splits)

lemma tosu_plan_busy: "tosu_plan m inst r og tgt (Inl d) \<noteq> Inr (TosuInstall f to q a)"
  by (simp add: tosu_plan_def Let_def split: option.splits)

definition busy :: "shared \<Rightarrow> bool" where "busy s \<longleftrightarrow> mode (sh_state s) \<noteq> Idle"

definition stays_busy :: "('k, 's) updater_env \<Rightarrow> bool" where
  "stays_busy e \<longleftrightarrow> (\<forall>n s. busy s \<longrightarrow> busy (ue_others e n s))"

text \<open>Nothing happened to the disk, no command was run and tosu was not held.\<close>

definition idle_hands :: "updater \<Rightarrow> updater \<Rightarrow> bool" where
  "idle_hands w w' \<longleftrightarrow> ud_disk w' = ud_disk w \<and> ud_ran w' = ud_ran w \<and> ud_holds w' = ud_holds w
     \<and> busy (ud_shared w')"

lemma busy_with_storage [simp]: "busy (with_storage f s) = busy s"
  by (simp add: busy_def)

lemma check_turn_busy:
  assumes "stays_busy e" and "busy (ud_shared (wk_world k))"
  shows "idle_hands (wk_world k) (wk_world (check_turn e force k))
    \<and> wk_feed (check_turn e force k) = wk_feed k
    \<and> ud_offer (wk_world (check_turn e force k)) = ud_offer (wk_world k)"
proof -
  obtain r where "may_update_now (mode (sh_state (ud_shared (wk_world k)))) True = Inl r"
    using assms(2) gate_busy by (auto simp: busy_def)
  then show ?thesis using assms(2)
    by (simp add: check_turn_def updates_check_def idle_hands_def)
qed

lemma update_tosu_busy:
  assumes e: "stays_busy e" and b: "busy (ud_shared w)"
  shows "idle_hands w (snd (update_tosu e m force w)) \<and> ud_offer (snd (update_tosu e m force w)) = ud_offer w"
proof -
  have b': "busy (ue_others e 20 (ud_shared w))" using e b by (simp add: stays_busy_def)
  then have g: "\<exists>r. may_update_now (mode (sh_state (ue_others e 20 (ud_shared w)))) x = Inl r" for x
    using gate_busy by (simp add: busy_def)
  show ?thesis
    using g [of "read_flag TOSU_ENABLED_KEY w \<or> force"] b b' e tosu_plan_busy
    by (auto simp: update_tosu_def idle_hands_def Let_def split: option.splits sum.splits tosu_action.splits)
qed

lemma install_app_busy:
  assumes e: "stays_busy e" and b: "busy (ud_shared w)"
  shows "idle_hands w (snd (install_app e feed w)) \<and> ud_offer (snd (install_app e feed w)) = ud_offer w"
proof -
  have b': "busy (ue_others e 40 (ud_shared w))" using e b by (simp add: stays_busy_def)
  have g: "\<exists>r. may_update_now (mode (sh_state (ud_shared w))) x = Inl r" for x
    using gate_busy b by (simp add: busy_def)
  show ?thesis
    using g [of "read_flag APP_ENABLED_KEY (others_run e 40 w)"] b b' app_plan_busy
    by (auto simp: install_app_def idle_hands_def Let_def split: option.splits sum.splits app_action.splits)
qed

lemma worker_turn_busy:
  assumes e: "stays_busy e" and b: "busy (ud_shared (wk_world k))"
  shows "idle_hands (wk_world k) (wk_world (worker_turn e wk k))
    \<and> wk_feed (worker_turn e wk k) \<in> {None, wk_feed k}
    \<and> ud_offer (wk_world (worker_turn e wk k)) \<in> {None, ud_offer (wk_world k)}"
  using e b
proof (induction e wk k rule: worker_turn.induct)
  case (1 e k)
  then show ?case using check_turn_busy [of e k False] by simp
next
  case (2 e k)
  then show ?case
    using check_turn_busy [of e "k\<lparr>wk_last_manual := Some (ue_instant e)\<rparr>" True]
    by (auto simp: idle_hands_def split: option.splits)
next
  case (3 e k)
  let ?w = "(on_status (\<lambda>s. s\<lparr>up_channel := read_channel (wk_world k)\<rparr>) (wk_world k))\<lparr>ud_offer := None\<rparr>"
  from 3 have "busy (ud_shared ?w)" by simp
  with 3 show ?case
    using check_turn_busy [of e "k\<lparr>wk_feed := None, wk_world := ?w\<rparr>" True]
    by (simp add: Let_def idle_hands_def)
next
  case (4 e c k)
  then show ?case
    using install_app_busy [of e "wk_world k" "wk_feed k"] update_tosu_busy [of e "wk_world k" _ True]
    by (cases c) (auto simp: idle_hands_def split: option.splits)
qed


section \<open>The AppImage is replaced in one step\<close>

lemma triple_reads:
  assumes g: "\<And>f. P f \<Longrightarrow> g f = b" and k: "triple I P (k b) Q E"
  shows "triple I P (\<lambda>d. k (g (files d)) d) Q E"
  unfolding triple_def
proof (intro allI impI)
  fix d :: disk
  assume d: "P (files d)" "\<forall>f \<in> set (trail d). I f"
  then show "(\<forall>f \<in> set (trail (snd (k (g (files d)) d))). I f)
      \<and> (case fst (k (g (files d)) d) of Inr a \<Rightarrow> Q a (files (snd (k (g (files d)) d)))
         | Inl _ \<Rightarrow> E (files (snd (k (g (files d)) d))))"
    unfolding g [OF d(1)] using k [unfolded triple_def] by blast
qed

lemma copy_replace_triple:
  assumes S: "incoming_path t \<in> S" and p: "p \<notin> S" "f0 p = Some bytes"
    and I: "\<And>f. agrees S f0 f \<Longrightarrow> I f" and J: "\<And>f. agrees S (f0(t := Some bytes)) f \<Longrightarrow> I f"
  shows "triple I (agrees S f0) (copy_replace p t)
     (\<lambda>_. agrees S (f0(t := Some bytes))) (agrees S f0)"
  unfolding copy_replace_def Let_def
proof (intro triple_on_error)
  let ?t = "incoming_path t"
  let ?A = "\<lambda>f. agrees S f0 f \<and> f ?t = Some bytes"
  let ?k = "\<lambda>b. io_bind (step (Create ?t)) (\<lambda>_. io_bind (append_all ?t b) (\<lambda>_.
      io_bind (step (Chmod ?t)) (\<lambda>_. io_bind (step (SyncFile ?t)) (\<lambda>_. step (Rename ?t t)))))"
  show "triple I (agrees S f0) (ignore_result (step (RemoveFile ?t))) (\<lambda>_. agrees S f0) (agrees S f0)"
    by (rule remove_triple) (auto simp: S I)
  have create: "triple I (agrees S f0) (step (Create ?t)) (\<lambda>_ f. agrees S f0 f \<and> f ?t = Some []) (agrees S f0)"
    by (rule triple_step) (auto simp: S I agrees_update)
  have fill: "triple I (\<lambda>f. agrees S f0 f \<and> f ?t = Some []) (append_all ?t bytes) (\<lambda>_. ?A) (agrees S f0)"
    using append_all_triple [of ?t S f0 I "[]" bytes, OF S I] by simp
  have chmod: "triple I ?A (step (Chmod ?t)) (\<lambda>_. ?A) (agrees S f0)"
    by (rule triple_step) (auto simp: I)
  have sync: "triple I ?A (step (SyncFile ?t)) (\<lambda>_. ?A) (agrees S f0)"
    by (rule triple_step) (auto simp: I)
  have move: "triple I ?A (step (Rename ?t t)) (\<lambda>_. agrees S (f0(t := Some bytes))) (agrees S f0)"
    by (rule triple_step) (use rename_agrees [OF S] J in \<open>auto simp del: fun_upd_apply\<close>)
  have k: "triple I (agrees S f0) (?k bytes) (\<lambda>_. agrees S (f0(t := Some bytes))) (agrees S f0)"
    by (rule triple_bind [OF create] triple_bind [OF fill] triple_bind [OF chmod] triple_bind [OF sync] move)+
  have src: "the (f p) = bytes" if "agrees S f0 f" for f
    using agreesD [OF that p(1)] p(2) by simp
  have read: "triple I (agrees S f0) (step (ReadFile p)) (\<lambda>_. agrees S f0) (agrees S f0)"
    by (rule triple_step) (auto simp: I)
  show "triple I (agrees S f0)
      (io_bind (step (ReadFile p)) (\<lambda>_. \<lambda>d. ?k (the (files d p)) d))
      (\<lambda>_. agrees S (f0(t := Some bytes))) (agrees S f0)"
    by (rule triple_bind [OF read], rule triple_reads [where g = "\<lambda>f. the (f p)" and k = ?k and b = bytes])
      (use src k in auto)
qed

text \<open>
  C24: whether the AppImage is on the file system of the download or not, a kill at any moment leaves
  the old one or all of the new one in its place; an error leaves the old one, and no other file but
  the download and the temporary file changes.
\<close>

theorem appimage_replaced_whole:
  assumes "replace_file crosses p t (mounted f0 fl) = (r, d')" and "f0 p = Some bytes"
    and "p \<noteq> t" and "p \<noteq> incoming_path t"
  shows "(\<forall>f \<in> set (trail d'). (f t = f0 t \<or> f t = Some bytes)
            \<and> (\<forall>q. q \<noteq> t \<longrightarrow> q \<noteq> incoming_path t \<longrightarrow> q \<noteq> p \<longrightarrow> f q = f0 q))
    \<and> files d' t = (if r = Inr () then Some bytes else f0 t)
    \<and> (crosses \<longrightarrow> files d' p = Some bytes)"
proof (cases crosses)
  case False
  then show ?thesis using assms
    by (auto simp: replace_file_def step_def mounted_def Let_def split: if_splits)
next
  case True
  let ?S = "{incoming_path t}"
  let ?I = "\<lambda>f. agrees ?S f0 f \<or> agrees ?S (f0(t := Some bytes)) f"
  have t: "triple ?I (agrees ?S f0) (copy_replace p t) (\<lambda>_. agrees ?S (f0(t := Some bytes))) (agrees ?S f0)"
    by (rule copy_replace_triple) (use assms in auto)
  from triple_run [OF t _ assms(1) [unfolded replace_file_def if_P [OF True]]]
  have I: "\<forall>f \<in> set (trail d'). ?I f"
    and r: "case r of Inr _ \<Rightarrow> agrees ?S (f0(t := Some bytes)) (files d') | Inl _ \<Rightarrow> agrees ?S f0 (files d')"
    by auto
  have at: "(f t = f0 t \<or> f t = Some bytes) \<and> (\<forall>q. q \<noteq> t \<longrightarrow> q \<noteq> incoming_path t \<longrightarrow> q \<noteq> p \<longrightarrow> f q = f0 q)"
    if "?I f" for f
    using that
  proof
    assume "agrees ?S f0 f"
    from agreesD [OF this] show ?thesis using incoming_differs [of t] by (simp del: split_paired_All)
  next
    assume "agrees ?S (f0(t := Some bytes)) f"
    from agreesD [OF this] show ?thesis using incoming_differs [of t] by (simp del: split_paired_All)
  qed
  moreover have "files d' t = (if r = Inr () then Some bytes else f0 t)"
    using r incoming_differs [of t] agreesD [of ?S _ "files d'" t] by (cases r) auto
  moreover have "files d' p = Some bytes"
    using r assms(2-4) agreesD [of ?S _ "files d'" p] by (cases r) auto
  ultimately show ?thesis using I by blast
qed

section \<open>The app waits to be told\<close>

lemma install_tosu_confined:
  assumes I: "\<And>f. agrees {q. fst q = dir} f0 f \<Longrightarrow> I f"
  shows "triple I (agrees {q. fst q = dir} f0) (install_tosu sh bin dir bytes a to r up)
     (\<lambda>_. agrees {q. fst q = dir} f0) (agrees {q. fst q = dir} f0)"
proof -
  let ?S = "{q. fst q = dir}"
  have same [simp]: "agrees ?S (f0((dir, n) := x)) = agrees ?S f0" for n x
    by (auto simp: agrees_def fun_eq_iff)
  have tmp: "incoming_path (dir, n) \<in> ?S" for n by (simp add: incoming_path_def)
  have put: "triple I (agrees ?S f0) (write_atomic (dir, n) c) (\<lambda>_. agrees ?S f0) (agrees ?S f0)" for n c
    using write_atomic_triple [of "(dir, n)" ?S f0 I c] tmp I by simp
  have stage: "triple I (agrees ?S f0) (stage_bytes sh (dir, bin) bytes h nm)
      (\<lambda>p f. p = incoming_path (dir, bin) \<and> agrees ?S f0 f \<and> f p = Some bytes
        \<and> is_ok (check_hash_bytes sh nm bytes h)) (agrees ?S f0)" for h nm
    by (rule stage_bytes_triple) (use tmp I in auto)
  have move: "triple I (\<lambda>f. p = incoming_path (dir, bin) \<and> agrees ?S f0 f \<and> f p = Some bytes \<and> b)
      (install_to p (dir, bin)) (\<lambda>_. agrees ?S f0) (agrees ?S f0)" for p b
    using install_to_triple [of "incoming_path (dir, bin)" ?S f0 I "(dir, bin)" bytes] tmp I
    by (cases "p = incoming_path (dir, bin) \<and> b") (auto simp: triple_def)
  show ?thesis unfolding install_tosu_def
    by (intro triple_bind [OF stage] triple_bind [OF move] triple_bind [OF put] put)
qed

definition only_in :: "string option \<Rightarrow> files \<Rightarrow> disk \<Rightarrow> bool" where
  "only_in D f0 d \<longleftrightarrow> (\<forall>f \<in> insert (files d) (set (trail d)). \<forall>q. Some (fst q) \<noteq> D \<longrightarrow> f q = f0 q)"

lemma install_tosu_only_in:
  assumes "only_in (Some dir) f0 d"
  shows "only_in (Some dir) f0 (snd (install_tosu sh bin dir bytes a to r up d))"
proof -
  let ?S = "{q. fst q = dir}"
  have only: "only_in (Some dir) f0 d' \<longleftrightarrow> agrees ?S f0 (files d') \<and> (\<forall>f \<in> set (trail d'). agrees ?S f0 f)" for d'
    by (auto simp: only_in_def agrees_def)
  from install_tosu_confined [of dir f0 "agrees ?S f0" sh bin bytes a to r up, unfolded triple_def]
  have "(\<forall>f \<in> set (trail (snd (install_tosu sh bin dir bytes a to r up d))). agrees ?S f0 f)
      \<and> agrees ?S f0 (files (snd (install_tosu sh bin dir bytes a to r up d)))"
    using assms by (auto simp: only split: sum.splits)
  then show ?thesis by (simp add: only)
qed

lemma on_disk_snd: "ud_disk (snd (on_disk m w)) = snd (m (ud_disk w))"
  by (simp add: on_disk_def split: prod.splits)

lemma update_tosu_confined:
  assumes "only_in (ue_tosu_dir e) f0 (ud_disk w)"
  shows "only_in (ue_tosu_dir e) f0 (ud_disk (snd (update_tosu e m force w)))
    \<and> ud_ran (snd (update_tosu e m force w)) = ud_ran w"
proof -
  have swap: "only_in (Some dir) f0 (ud_disk (snd (swap_tosu e m dir old to r a v)))
      \<and> ud_ran (snd (swap_tosu e m dir old to r a v)) = ud_ran v"
    if "only_in (Some dir) f0 (ud_disk v)" for dir old to r a v
    using that install_tosu_only_in [OF that]
    by (simp add: swap_tosu_def Let_def on_disk_def case_prod_beta split: sum.splits)
  show ?thesis using assms swap
    by (auto simp: update_tosu_def Let_def split: option.splits sum.splits tosu_action.splits)
qed

lemma check_app_frames [simp]:
  "ud_disk (snd (check_app e m w)) = ud_disk w" "ud_ran (snd (check_app e m w)) = ud_ran w"
  "ud_offer (snd (check_app e m w)) = ud_offer w"
  by (simp_all add: check_app_def Let_def split: sum.splits)

lemma updates_check_confined:
  assumes "only_in (ue_tosu_dir e) f0 (ud_disk w)"
  shows "only_in (ue_tosu_dir e) f0 (ud_disk (snd (updates_check e c force w)))
    \<and> ud_ran (snd (updates_check e c force w)) = ud_ran w"
  using assms update_tosu_confined [of e f0]
  by (simp add: updates_check_def Let_def split: sum.splits option.splits prod.splits)

lemma check_turn_confined:
  assumes "only_in (ue_tosu_dir e) f0 (ud_disk (wk_world k))"
  shows "only_in (ue_tosu_dir e) f0 (ud_disk (wk_world (check_turn e force k)))
    \<and> ud_ran (wk_world (check_turn e force k)) = ud_ran (wk_world k)"
proof -
  let ?w = "on_status (\<lambda>s. s\<lparr>up_checking := True\<rparr>) (wk_world k)"
  obtain r w where u: "updates_check e (wk_feed k \<noteq> None) force ?w = (r, w)" by fastforce
  then have "only_in (ue_tosu_dir e) f0 (ud_disk w) \<and> ud_ran w = ud_ran (wk_world k)"
    using updates_check_confined [of e f0 ?w] assms by (metis disk_frames(1) ran_frames(1) snd_conv)
  then show ?thesis using u by (simp add: check_turn_def Let_def split: sum.splits option.splits)
qed

definition asks_for_app :: "wake \<Rightarrow> bool" where
  "asks_for_app wk \<longleftrightarrow> wk = Told (InstallCommand AppComponent)"

lemma worker_turn_confined:
  assumes "only_in (ue_tosu_dir e) f0 (ud_disk (wk_world k))" and "\<not> asks_for_app wk"
  shows "only_in (ue_tosu_dir e) f0 (ud_disk (wk_world (worker_turn e wk k)))
    \<and> ud_ran (wk_world (worker_turn e wk k)) = ud_ran (wk_world k)"
  using assms
proof (induction e wk k rule: worker_turn.induct)
  case (1 e k)
  then show ?case using check_turn_confined [of e f0 k False] by simp
next
  case (2 e k)
  then show ?case
    using check_turn_confined [of e f0 "k\<lparr>wk_last_manual := Some (ue_instant e)\<rparr>" True]
    by (auto split: option.splits)
next
  case (3 e k)
  let ?w = "(on_status (\<lambda>s. s\<lparr>up_channel := read_channel (wk_world k)\<rparr>) (wk_world k))\<lparr>ud_offer := None\<rparr>"
  from 3 show ?case
    using check_turn_confined [of e f0 "k\<lparr>wk_feed := None, wk_world := ?w\<rparr>" True]
    by (simp add: Let_def)
next
  case (4 e c k)
  then show ?case
    using update_tosu_confined [of e f0 "wk_world k" _ True]
    by (cases c) (auto simp: asks_for_app_def split: option.splits)
qed

text \<open>
  Until someone asks for the app, the worker runs no command and changes no file outside the
  directory of the bundled tosu, in any state a kill can leave.
\<close>

theorem app_waits_to_be_told:
  assumes "run_worker ws k = k'" and "\<forall>(e, wk) \<in> set ws. ue_tosu_dir e = D \<and> \<not> asks_for_app wk"
    and "ud_disk (wk_world k) = mounted f0 fl"
  shows "ud_ran (wk_world k') = ud_ran (wk_world k)
    \<and> (\<forall>f \<in> insert (files (ud_disk (wk_world k'))) (set (trail (ud_disk (wk_world k')))).
         \<forall>q. Some (fst q) \<noteq> D \<longrightarrow> f q = f0 q)"
proof -
  have "only_in D f0 (ud_disk (wk_world k)) \<Longrightarrow> \<forall>(e, wk) \<in> set ws. ue_tosu_dir e = D \<and> \<not> asks_for_app wk
      \<Longrightarrow> only_in D f0 (ud_disk (wk_world (run_worker ws k)))
        \<and> ud_ran (wk_world (run_worker ws k)) = ud_ran (wk_world k)"
  proof (induction ws k rule: run_worker.induct)
    case (2 e wk ws k)
    let ?k = "k\<lparr>wk_world := others_run e 0 (wk_world k)\<rparr>"
    from 2(2,3) have "only_in (ue_tosu_dir e) f0 (ud_disk (wk_world ?k))" "\<not> asks_for_app wk" by auto
    from worker_turn_confined [OF this] 2(1,3) show ?case by auto
  qed simp
  then show ?thesis using assms by (simp add: only_in_def mounted_def)
qed

section \<open>How an install went\<close>

text \<open>The database takes writes, and the other tasks leave it and the marker alone.\<close>

definition storing :: "shared \<Rightarrow> bool" where
  "storing s \<longleftrightarrow> (\<exists>db t. sh_storage s = Some db \<and> writes_allowed db \<and> app_state_table db = Some t)"

definition stored_at :: "string \<Rightarrow> shared \<Rightarrow> string option" where
  "stored_at key s = (case sh_storage s of
     None \<Rightarrow> None | Some db \<Rightarrow> (case app_state_table db of None \<Rightarrow> None | Some t \<Rightarrow> map_of t key))"

definition lets_store :: "('k, 's) updater_env \<Rightarrow> bool" where
  "lets_store e \<longleftrightarrow> (\<forall>n s. storing s \<longrightarrow> storing (ue_others e n s)
     \<and> stored_at IN_PROGRESS_KEY (ue_others e n s) = stored_at IN_PROGRESS_KEY s
     \<and> stored_at LAST_RESULT_KEY (ue_others e n s) = stored_at LAST_RESULT_KEY s)"

lemma read_key_stored: "read_key key w = stored_at key (ud_shared w)"
  by (simp add: read_key_def stored_at_def get_app_state_def no_table_def split: option.splits)

lemma stored_write:
  assumes "storing s"
  shows "storing (with_storage (set_app_state key v) s)"
    "stored_at k (with_storage (set_app_state key v) s) = (if k = key then Some v else stored_at k s)"
  using assms
  by (auto simp: storing_def stored_at_def with_storage_def set_app_state_def guarded_def
      check_writes_allowed_def map_of_put)

lemma map_of_without: "map_of (filter (\<lambda>(k, v). k \<noteq> key) t) k = (if k = key then None else map_of t k)"
  by (induction t) auto

lemma stored_delete:
  assumes "storing s"
  shows "storing (with_storage (delete_app_state key) s)"
    "stored_at k (with_storage (delete_app_state key) s) = (if k = key then None else stored_at k s)"
  using assms
  by (auto simp: storing_def stored_at_def with_storage_def delete_app_state_def guarded_def
      check_writes_allowed_def map_of_without)

lemma keys_differ [simp]:
  "IN_PROGRESS_KEY \<noteq> LAST_RESULT_KEY" "LAST_RESULT_KEY \<noteq> IN_PROGRESS_KEY"
  by (simp_all add: IN_PROGRESS_KEY_def LAST_RESULT_KEY_def)

text \<open>From \<open>w\<close> to \<open>v\<close> only the other tasks touched what is shared.\<close>

definition still :: "('k, 's) updater_env \<Rightarrow> updater \<Rightarrow> updater \<Rightarrow> bool" where
  "still e w v \<longleftrightarrow> ud_status v = ud_status w \<and> ud_ran v = ud_ran w
     \<and> (lets_store e \<longrightarrow> storing (ud_shared w) \<longrightarrow> storing (ud_shared v)
         \<and> stored_at IN_PROGRESS_KEY (ud_shared v) = stored_at IN_PROGRESS_KEY (ud_shared w)
         \<and> stored_at LAST_RESULT_KEY (ud_shared v) = stored_at LAST_RESULT_KEY (ud_shared w))"

lemma still_refl [simp]: "still e w w"
  by (simp add: still_def)

lemma still_others [simp, intro]: "still e w v \<Longrightarrow> still e w (others_run e n v)"
  by (simp add: still_def lets_store_def others_run_def)

lemma still_disk [intro]: "on_disk m v = (r, u) \<Longrightarrow> still e w v \<Longrightarrow> still e w u"
  by (auto simp: still_def on_disk_def split: prod.splits)

text \<open>From \<open>w\<close> to \<open>v\<close> commands may have been run, all of them in the state shared at \<open>w\<close>.\<close>

definition in_place :: "updater \<Rightarrow> updater \<Rightarrow> bool" where
  "in_place w v \<longleftrightarrow> ud_shared v = ud_shared w \<and> ud_status v = ud_status w
     \<and> (\<forall>x \<in> set (ud_ran v). x \<in> set (ud_ran w) \<or> snd x = ud_shared w)"

lemma in_place_trans: "in_place w v \<Longrightarrow> in_place v u \<Longrightarrow> in_place w u"
  by (auto simp: in_place_def)

lemma in_place_disk: "on_disk m v = (r, u) \<Longrightarrow> in_place v u"
  by (auto simp: in_place_def on_disk_def split: prod.splits)

lemma in_place_command: "run_command e cmd nm w = (r, v) \<Longrightarrow> in_place w v"
  by (auto simp: in_place_def run_command_def split: option.splits)

lemma in_place_all: "run_all e cmds w = (r, v) \<Longrightarrow> in_place w v"
proof (induction e cmds w arbitrary: r v rule: run_all.induct)
  case (2 e cmd cmds w)
  obtain r1 w1 where c: "run_command e cmd (join_with CHR '' '' cmd) w = (r1, w1)" by fastforce
  with 2 show ?case
    by (auto split: sum.splits intro: in_place_trans in_place_command)
qed (simp add: in_place_def)

lemma in_place_apply: "apply_downloaded e policy p w = (r, v) \<Longrightarrow> in_place w v"
  by (auto simp: apply_downloaded_def split: option.splits if_splits sum.splits prod.splits
      dest: in_place_command in_place_disk) (simp_all add: in_place_def)

lemma install_app_shape:
  assumes "install_app e feed w = (r, w')"
  shows "(\<exists>err. r = Inl err \<and> still e w w')
    \<or> (\<exists>m c u v. feed = Some m \<and> components m APP = Some c \<and> still e w u
         \<and> in_place (mark_in_progress e (version c) u) v
         \<and> finish_install e (version c) r (others_run e 43 v) = (r, w'))"
proof (cases feed)
  case None
  with assms show ?thesis by (auto simp: install_app_def)
next
  case (Some m)
  let ?w = "others_run e 40 w"
  let ?plan = "app_plan m (ue_app_version e) (ue_origin e) (ue_target e)
      (may_update_now (mode (sh_state (ud_shared w))) (read_flag APP_ENABLED_KEY ?w))"
  show ?thesis
  proof (cases "\<exists>f a n x p. ?plan = Inr (AppAvailable f a n x p)")
    case False
    then show ?thesis using assms Some
      by (auto simp: install_app_def Let_def split: sum.splits app_action.splits)
  next
    case True
    then obtain f available n a policy where plan: "?plan = Inr (AppAvailable f available n a policy)" by blast
    then obtain c where c: "components m APP = Some c" "available = version c"
      by (auto simp: app_plan_def Let_def split: option.splits if_splits sum.splits)
    have fin: "fst (finish_install e available ap v) = ap" for ap v
      by (simp add: finish_install_def Let_def)
    let ?repo = "case policy of PPackageManager pm \<Rightarrow> if repo_configured (ue_exists e) pm then Some pm else None
        | _ \<Rightarrow> None"
    show ?thesis
    proof (cases ?repo)
      case (Some pm)
      obtain ap v where v: "run_all e (repo_upgrade_commands pm (ue_pkcon e)) (mark_in_progress e available ?w) = (ap, v)"
        by fastforce
      then have rw: "(r, w') = finish_install e available ap (others_run e 43 v)"
        using assms plan \<open>feed = Some m\<close> Some by (simp add: install_app_def Let_def upgrade_from_repo_def)
      then have "r = ap" using fin by (metis fst_conv)
      then show ?thesis using rw in_place_all [OF v] c \<open>feed = Some m\<close> by (metis still_refl still_others)
    next
      case None
      show ?thesis
      proof (cases "fetch_artifact (ue_packages e) (ue_network e) a")
        case (Inl err)
        then show ?thesis using assms plan \<open>feed = Some m\<close> None
          by (auto simp: install_app_def Let_def)
      next
        case (Inr bytes)
        let ?w1 = "others_run e 41 ?w"
        have w1: "still e w ?w1" by auto
        show ?thesis
        proof (cases "ue_state_dir e")
          case None': None
          then show ?thesis using assms plan \<open>feed = Some m\<close> None Inr w1
            by (auto simp: install_app_def Let_def)
        next
          case (Some dir)
          let ?t = "(UPDATES_DIR_OF dir, download_name (url a))"
          obtain r2 w2 where w2: "on_disk (stage_and_place e ?t bytes a) ?w1 = (r2, w2)" by fastforce
          show ?thesis
          proof (cases r2)
            case (Inl err)
            then show ?thesis using assms plan \<open>feed = Some m\<close> None Inr Some w1 w2
              by (auto simp: install_app_def Let_def)
          next
            case ok: (Inr x)
            let ?w3 = "mark_in_progress e available (others_run e 42 w2)"
            obtain ap w4 where w4: "apply_downloaded e policy ?t ?w3 = (ap, w4)" by fastforce
            obtain r5 w5 where w5: "on_disk (step (RemoveFile ?t)) w4 = (r5, w5)" by fastforce
            have "(r, w') = finish_install e available ap (others_run e 43 w5)"
              using assms plan \<open>feed = Some m\<close> None Inr Some w2 ok w4 w5
              by (simp add: install_app_def Let_def)
            moreover have "in_place ?w3 w5"
              using in_place_trans in_place_apply [OF w4] in_place_disk [OF w5] by blast
            moreover have "still e w (others_run e 42 w2)" using w1 w2 by blast
            ultimately show ?thesis using fin c \<open>feed = Some m\<close> by (metis fst_conv)
          qed
        qed
      qed
    qed
  qed
qed

lemma finish_install_stored:
  assumes "finish_install e available r v = (r, w')" and "storing (ud_shared v)" and "lets_store e"
  shows "stored_at IN_PROGRESS_KEY (ud_shared w') = None
    \<and> (\<exists>res. stored_at LAST_RESULT_KEY (ud_shared w') = Some (ue_result_json e res)
         \<and> up_last_result (ud_status w') = Some (result_sentence res)
         \<and> ur_ok res = is_ok r \<and> ur_from res = ue_app_version e \<and> ur_to res = available)
    \<and> up_restart_required (ud_status w') = (is_ok r \<or> up_restart_required (ud_status v))
    \<and> (is_ok r \<longrightarrow> cu_installed (up_app (ud_status w')) = Some available)
    \<and> ud_ran w' = ud_ran v"
proof -
  define res where "res = (case r of Inr _ \<Rightarrow> new_result e ''app'' (ue_app_version e) available True []
      | Inl err \<Rightarrow> new_result e ''app'' (ue_app_version e) available False (ue_text e err))"
  have res: "ur_ok res = is_ok r" "ur_from res = ue_app_version e" "ur_to res = available"
    by (cases r; simp add: res_def new_result_def is_ok_def)+
  let ?u = "others_run e 44 (record_result e res v)"
  have u: "storing (ud_shared ?u)" "stored_at LAST_RESULT_KEY (ud_shared ?u) = Some (ue_result_json e res)"
    using assms(2,3) stored_write [of "ud_shared v" LAST_RESULT_KEY]
    by (auto simp: lets_store_def record_result_def)
  have w': "w' = (let w = show_result res (remove_key IN_PROGRESS_KEY ?u) in
      if is_ok r then app_installed_now available w else w)"
    using assms(1) by (simp add: finish_install_def res_def Let_def)
  have "stored_at IN_PROGRESS_KEY (ud_shared w') = None"
    "stored_at LAST_RESULT_KEY (ud_shared w') = Some (ue_result_json e res)"
    unfolding w' using u stored_delete [OF u(1)] by (simp_all add: Let_def)
  moreover have "up_last_result (ud_status w') = Some (result_sentence res)"
    "up_restart_required (ud_status w') = (is_ok r \<or> up_restart_required (ud_status v))"
    "is_ok r \<longrightarrow> cu_installed (up_app (ud_status w')) = Some available" "ud_ran w' = ud_ran v"
    unfolding w' by (simp_all add: Let_def small_steps)
  ultimately show ?thesis using res by blast
qed

text \<open>
  An install of the app that was asked for asks for a restart exactly when it succeeded; its
  outcome is recorded under the version it installed, success or not, and no marker of an
  unfinished install is left. One that ends before anything is applied records nothing.
\<close>

theorem install_outcome_recorded:
  assumes "install_app e feed w = (r, w')" and "storing (ud_shared w)" and "lets_store e"
    and "read_key IN_PROGRESS_KEY w = None"
  shows "read_key IN_PROGRESS_KEY w' = None
    \<and> (up_restart_required (ud_status w') \<longleftrightarrow> is_ok r \<or> up_restart_required (ud_status w))
    \<and> (is_ok r \<or> read_key LAST_RESULT_KEY w' \<noteq> read_key LAST_RESULT_KEY w \<longrightarrow>
        (\<exists>m c res. feed = Some m \<and> components m APP = Some c
           \<and> read_key LAST_RESULT_KEY w' = Some (ue_result_json e res) \<and> ur_ok res = is_ok r
           \<and> ur_to res = version c
           \<and> (is_ok r \<longrightarrow> cu_installed (up_app (ud_status w')) = Some (version c))))"
  using install_app_shape [OF assms(1)]
proof (elim disjE exE conjE)
  fix err
  assume "r = Inl err" "still e w w'"
  then show ?thesis using assms(2-4) by (simp add: still_def read_key_stored is_ok_def)
next
  fix m c u v
  assume f: "feed = Some m" "components m APP = Some c" and u: "still e w u"
    and v: "in_place (mark_in_progress e (version c) u) v"
    and fin: "finish_install e (version c) r (others_run e 43 v) = (r, w')"
  have "storing (ud_shared u)" using u assms(2,3) by (simp add: still_def)
  then have "storing (ud_shared (others_run e 43 v))"
    using v assms(3) stored_write by (simp add: in_place_def mark_in_progress_def lets_store_def)
  moreover have "ud_status (others_run e 43 v) = ud_status w"
    using u v by (simp add: in_place_def still_def small_steps)
  ultimately show ?thesis
    using finish_install_stored [OF fin] assms(3) f by (auto simp: read_key_stored)
qed

section \<open>An install that was killed\<close>

lemma start_worker_recovers:
  assumes "storing s" and "stored_at IN_PROGRESS_KEY s = Some j" and "ue_progress_of e j = Some p"
  shows "up_last_result (ud_status (wk_world (start_worker e s d)))
      = Some (result_sentence (resolve_interrupted e p (ue_app_version e)))
    \<and> read_key IN_PROGRESS_KEY (wk_world (start_worker e s d)) = None"
proof -
  let ?r = "resolve_interrupted e p (ue_app_version e)"
  have st: "stored_at IN_PROGRESS_KEY (with_storage (delete_app_state IN_PROGRESS_KEY)
      (with_storage (set_app_state LAST_RESULT_KEY x) s)) = None" for x
    using stored_delete [OF stored_write(1) [OF assms(1)]] by simp
  have clear: "ud_status (clear_staging e w) = ud_status w" "ud_shared (clear_staging e w) = ud_shared w" for w
    by (simp_all add: clear_staging_def split: option.splits)
  show ?thesis
    using assms(2,3) st
    by (simp add: start_worker_def recover_interrupted_def read_key_stored clear Let_def)
      (simp add: small_steps)
qed


section \<open>What the worker hands out\<close>

text \<open>Parsed from signed bytes, in the channel asked for, and narrowed to what this install is offered.\<close>

definition genuine :: "('k, 's) updater_env \<Rightarrow> string \<Rightarrow> release_manifest \<Rightarrow> bool" where
  "genuine e ch m \<longleftrightarrow> (\<exists>feed bytes signature i.
     m = for_install (sha (ue_packages e)) feed i \<and> from_json (ue_packages e) bytes = Some feed
     \<and> (\<exists>k \<in> set TRUSTED_KEYS. is_ok (verify_with_key (minisign (ue_packages e)) k bytes signature))
     \<and> channel feed = ch)"

lemma updates_check_genuine:
  assumes "updates_check e c force w = (Inr (Some m), w')"
  shows "genuine e (read_channel (others_run e 10 w)) m"
proof -
  let ?w = "others_run e 11 (others_run e 10 w)"
  let ?ch = "read_channel (others_run e 10 w)"
  let ?cl = "new_client (fst (ue_feed_vars e)) (snd (ue_feed_vars e)) ?ch"
  let ?s = "switch_channel (read_schedule e ?w) ?ch"
  obtain s' r where f: "fetch_manifest (ue_packages e) ?cl (ue_network e) ?s (ue_now e) c = (s', r)" by fastforce
  with assms obtain feed i where r: "r = Inr (Some feed)" and m: "m = for_install (sha (ue_packages e)) feed i"
    by (auto simp: updates_check_def Let_def split: sum.splits if_splits option.splits)
  from f r have f: "fetch_manifest (ue_packages e) ?cl (ue_network e) ?s (ue_now e) c = (s', Inr (Some feed))" by simp
  note acc = fetch_manifest_accepts [OF f]
  have "(\<exists>bytes signature. from_json (ue_packages e) bytes = Some feed
        \<and> (\<exists>k \<in> set (trusted ?cl). is_ok (verify_with_key (minisign (ue_packages e)) k bytes signature)))"
    using acc fetch_inner_trusted [of "ue_packages e" ?cl "ue_network e" _ feed] by blast
  moreover have "channel feed = client_channel ?cl" using acc by (auto simp: check_feed_ok)
  ultimately show ?thesis unfolding genuine_def by (auto simp: new_client_def m)
qed

lemma update_tosu_offer [simp]: "ud_offer (snd (update_tosu e m force w)) = ud_offer w"
  by (simp add: update_tosu_def swap_tosu_def on_disk_def Let_def case_prod_beta
      split: option.splits sum.splits tosu_action.splits)

lemma run_command_offer [simp]: "ud_offer (snd (run_command e cmd nm w)) = ud_offer w"
  by (simp add: run_command_def split: option.splits)

lemma run_all_offer [simp]: "ud_offer (snd (run_all e cmds w)) = ud_offer w"
proof (induction e cmds w rule: run_all.induct)
  case (2 e cmd cmds w)
  then show ?case
    using run_command_offer [of e cmd "join_with CHR '' '' cmd" w]
    by (cases "run_command e cmd (join_with CHR '' '' cmd) w") (auto split: sum.splits)
qed simp

lemma apply_downloaded_offer [simp]: "ud_offer (snd (apply_downloaded e policy p w)) = ud_offer w"
  by (simp add: apply_downloaded_def on_disk_def Let_def case_prod_beta split: option.splits sum.splits)

lemma finish_install_offer [simp]: "ud_offer (snd (finish_install e a r w)) = ud_offer w"
  by (simp add: finish_install_def Let_def)

lemma install_app_offer [simp]: "ud_offer (snd (install_app e feed w)) = ud_offer w"
  by (simp add: install_app_def upgrade_from_repo_def Let_def case_prod_beta
      split: option.splits sum.splits app_action.splits)

lemma install_component_offer: "ud_offer (snd (install_component e c feed w)) = ud_offer w"
  by (cases c) (simp_all split: option.splits)

lemma updates_check_offer: "ud_offer (snd (updates_check e c force w)) = ud_offer w"
  by (simp add: updates_check_def Let_def case_prod_beta split: sum.splits option.splits)

text \<open>What a turn makes of the feed: nothing, drops it, or a genuine one of the stored channel.\<close>

definition feed_step :: "('k, 's) updater_env \<Rightarrow> worker \<Rightarrow> worker \<Rightarrow> bool" where
  "feed_step e k k' \<longleftrightarrow> wk_feed k' = ud_offer (wk_world k')
     \<and> (wk_feed k' = wk_feed k \<or> wk_feed k' = None \<or> (\<exists>m. wk_feed k' = Some m
         \<and> genuine e (read_channel (others_run e 10 (wk_world k))) m))"

lemma check_turn_feed:
  assumes "wk_feed k = ud_offer (wk_world k)"
  shows "feed_step e k (check_turn e force k)"
proof -
  let ?w = "on_status (\<lambda>s. s\<lparr>up_checking := True\<rparr>) (wk_world k)"
  obtain r w where u: "updates_check e (wk_feed k \<noteq> None) force ?w = (r, w)" by fastforce
  have off: "ud_offer w = ud_offer (wk_world k)"
    using updates_check_offer [of e "wk_feed k \<noteq> None" force ?w] u by simp
  have ch: "read_channel (others_run e 10 ?w) = read_channel (others_run e 10 (wk_world k))"
    by (simp add: read_channel_def read_key_stored)
  show ?thesis
  proof (cases "\<exists>m. r = Inr (Some m)")
    case True
    then obtain m where r: "r = Inr (Some m)" by blast
    from updates_check_genuine [OF u [unfolded r]] show ?thesis
      using u r by (simp add: check_turn_def feed_step_def ch Let_def)
  next
    case False
    then show ?thesis using u off assms
      by (auto simp: check_turn_def feed_step_def Let_def split: sum.splits option.splits)
  qed
qed

lemma worker_turn_feed:
  assumes "wk_feed k = ud_offer (wk_world k)"
  shows "feed_step e k (worker_turn e wk k)"
  using assms
proof (induction e wk k rule: worker_turn.induct)
  case (1 e k)
  then show ?case by (simp add: check_turn_feed)
next
  case (2 e k)
  then show ?case
    using check_turn_feed [of "k\<lparr>wk_last_manual := Some (ue_instant e)\<rparr>" e True]
    by (auto simp: feed_step_def split: option.splits)
next
  case (3 e k)
  let ?w = "(on_status (\<lambda>s. s\<lparr>up_channel := read_channel (wk_world k)\<rparr>) (wk_world k))\<lparr>ud_offer := None\<rparr>"
  have "read_channel (others_run e 10 ?w) = read_channel (others_run e 10 (wk_world k))"
    by (simp add: read_channel_def read_key_stored)
  then show ?case
    using check_turn_feed [of "k\<lparr>wk_feed := None, wk_world := ?w\<rparr>" e True]
    by (auto simp: feed_step_def Let_def)
next
  case (4 e c k)
  then show ?case by (simp add: feed_step_def install_component_offer)
qed

text \<open>
  C23: in every run of the worker the feed it keeps is the one it hands out for firmware installs, and
  it was parsed from bytes signed by a trusted key, whatever the network answered.
\<close>

theorem held_feed_is_verified:
  assumes "run_worker ws (start_worker e0 s d) = k"
  shows "wk_feed k = ud_offer (wk_world k)
    \<and> (\<forall>m. wk_feed k = Some m \<longrightarrow> (\<exists>(e, wk) \<in> set ws. \<exists>ch \<in> {STABLE, BETA}. genuine e ch m))"
proof -
  have run: "wk_feed k = ud_offer (wk_world k) \<Longrightarrow> wk_feed (run_worker ws k) = ud_offer (wk_world (run_worker ws k))
      \<and> (\<forall>m. wk_feed (run_worker ws k) = Some m \<longrightarrow> wk_feed k = Some m
           \<or> (\<exists>(e, wk) \<in> set ws. \<exists>ch \<in> {STABLE, BETA}. genuine e ch m))" for k :: worker
  proof (induction ws k rule: run_worker.induct)
    case (2 e wk ws k)
    let ?k = "k\<lparr>wk_world := others_run e 0 (wk_world k)\<rparr>"
    have t: "feed_step e ?k (worker_turn e wk ?k)"
      using 2(2) by (intro worker_turn_feed) simp
    have ch: "read_channel v \<in> {STABLE, BETA}" for v by (simp add: read_channel_def)
    from t have "wk_feed (worker_turn e wk ?k) = ud_offer (wk_world (worker_turn e wk ?k))"
      by (simp add: feed_step_def)
    note ih = 2(1) [OF this]
    have "wk_feed k = Some m \<or> (\<exists>ch \<in> {STABLE, BETA}. genuine e ch m)"
      if "wk_feed (worker_turn e wk ?k) = Some m" for m
      using t that ch [of "others_run e 10 (wk_world ?k)"] by (auto simp: feed_step_def)
    with ih show ?case by fastforce
  qed simp
  have "wk_feed (start_worker e0 s d) = None \<and> ud_offer (wk_world (start_worker e0 s d)) = None"
    by (simp add: start_worker_def recover_interrupted_def clear_staging_def Let_def split: option.splits)
  then show ?thesis using assms run [of "start_worker e0 s d"] by auto
qed

text \<open>
  After a change of the channel the worker keeps no feed, or one of the channel that is stored
  now; nothing of the old channel can be installed.
\<close>

theorem channel_change_drops_feed:
  assumes "wk_feed k = ud_offer (wk_world k)"
    and "stored_at CHANNEL_KEY (ue_others e 10 (ud_shared (wk_world k))) = stored_at CHANNEL_KEY (ud_shared (wk_world k))"
    and "wk_feed (worker_turn e (Told ChannelChangedCommand) k) = Some m"
  shows "channel m = read_channel (wk_world k)"
proof -
  let ?w = "(on_status (\<lambda>s. s\<lparr>up_channel := read_channel (wk_world k)\<rparr>) (wk_world k))\<lparr>ud_offer := None\<rparr>"
  have "read_channel (others_run e 10 ?w) = read_channel (wk_world k)"
    using assms(2) by (simp add: read_channel_def read_key_stored)
  then have "genuine e (read_channel (wk_world k)) m"
    using check_turn_feed [of "k\<lparr>wk_feed := None, wk_world := ?w\<rparr>" e True] assms(3)
    by (auto simp: feed_step_def Let_def)
  then show ?thesis by (auto simp: genuine_def for_install_def)
qed

section \<open>Two things it does not mean to do\<close>

lemma blocked_check_stores_nothing:
  assumes k: "key \<noteq> LAST_RESULT_KEY" and o: "\<forall>n s. stored_at key (ue_others e n s) = stored_at key s"
    and b: "\<forall>s. \<not> storing (ue_others e 12 s)"
  shows "stored_at key (ud_shared (snd (updates_check e c force w))) = stored_at key (ud_shared w)"
proof -
  have blocked: "with_storage (set_app_state k v) s = s" if "\<not> storing s" for k v s
    using that by (auto simp: with_storage_def set_app_state_def guarded_def check_writes_allowed_def
        storing_def no_table_def split: option.splits)
  have other: "stored_at key (with_storage (set_app_state LAST_RESULT_KEY v) s) = stored_at key s" for v s
    using k by (auto simp: with_storage_def set_app_state_def guarded_def check_writes_allowed_def stored_at_def
        map_of_put no_table_def split: option.splits)
  have tosu: "stored_at key (ud_shared (snd (update_tosu e f b v))) = stored_at key (ud_shared v)" for f b v
    using o other
    by (simp add: update_tosu_def swap_tosu_def on_disk_def Let_def case_prod_beta record_result_def
        split: option.splits sum.splits tosu_action.splits)
  have app: "stored_at key (ud_shared (snd (check_app e f v))) = stored_at key (ud_shared v)" for f v
    using o by (simp add: check_app_def Let_def split: sum.splits)
  show ?thesis
    using o b blocked tosu app
    by (simp add: updates_check_def Let_def case_prod_beta split: sum.splits option.splits)
qed


text \<open>
  An automatic tosu update asks for the mode before the download only, so when a play begins
  while the file is fetched, tosu is stopped and replaced in the middle of it.
\<close>

theorem swap_meets_play:
  assumes "ue_tosu_dir e = Some dir"
    and "tosu_plan m (installed_version (files (ud_disk w)) dir) (installed_revision (files (ud_disk w)) dir)
       (ue_origin e) (ue_target e)
       (may_update_now (mode (sh_state (ue_others e 20 (ud_shared w)))) (read_flag TOSU_ENABLED_KEY w))
      = Inr (TosuInstall old to r a)"
    and "fetch_artifact (ue_packages e) (ue_network e) a = Inr bytes"
    and "mode (sh_state (ue_others e 21 (ue_others e 20 (ud_shared w)))) = Playing"
  shows "\<exists>s. ud_holds (snd (update_tosu e m False w)) = ud_holds w @ [s] \<and> mode (sh_state s) = Playing
    \<and> ud_disk (snd (update_tosu e m False w))
      = snd (install_tosu (sha (ue_packages e)) (TOSU_BINARY (ue_windows e)) dir bytes a to r
          (Option.bind (components m TOSU) upstream_tag) (ud_disk w))"
  using assms
  by (simp add: update_tosu_def swap_tosu_def on_disk_def Let_def case_prod_beta hold_tosu_def split: sum.splits)

section \<open>Concrete runs\<close>

text \<open>A worker whose network serves a feed or a file, and for whom gap 12 or 21 begins a play.\<close>

definition demo_store :: "storage" where
  "demo_store = old_database\<lparr>app_state_table := Some []\<rparr>"

definition demo_shared :: shared where
  "demo_shared = sync_shared\<lparr>sh_storage := Some demo_store\<rparr>"

definition play_begins :: "shared \<Rightarrow> shared" where
  "play_begins s = s\<lparr>sh_state := (sh_state s)\<lparr>mode := Playing\<rparr>,
     sh_storage := map_option (set_writes_allowed False) (sh_storage s)\<rparr>"

definition demo_updates :: "install_origin \<Rightarrow> string \<Rightarrow> nat set \<Rightarrow> (unit, string) updater_env" where
  "demo_updates origin' body plays = \<lparr>ue_packages = demo_packages, ue_network = demo_network body,
     ue_others = (\<lambda>n s. if n \<in> plays then play_begins s else s), ue_now = 10, ue_instant = 0, ue_stamp = [],
     ue_text = (\<lambda>e. []), ue_app_version = ''v1-rc9'', ue_origin = origin', ue_target = ''linux-x86_64'',
     ue_windows = False, ue_feed_vars = (Some ''https://x/f'', None), ue_tosu_dir = Some ''D'',
     ue_state_dir = Some ''S'', ue_prefix = None, ue_appimage = Some (''O'', ''opad''),
     ue_crosses = (\<lambda>p q. True), ue_exists = (\<lambda>p. True), ue_pkcon = True, ue_exit = (\<lambda>c. Some (Some 0)),
     ue_removed = (\<lambda>p. True), ue_schedule_json = (\<lambda>s. []), ue_schedule_of = (\<lambda>t. None),
     ue_result_json = ur_to, ue_result_of = (\<lambda>t. None), ue_progress_json = ip_to,
     ue_progress_of = (\<lambda>t. Some \<lparr>ip_component = ''app'', ip_from = ''v1-rc9'', ip_to = t\<rparr>)\<rparr>"

definition demo_worker :: worker where
  "demo_worker = start_worker (demo_updates OUser [] {}) demo_shared (mounted Map.empty [])"

lemma demo_shared_facts:
  "mode (sh_state demo_shared) = Idle" "storing demo_shared" "stored_at k demo_shared = None"
  by (simp_all add: demo_shared_def demo_store_def old_database_def sync_shared_def new_state_def storing_def
      stored_at_def)

lemma demo_worker_facts:
  "ud_shared (wk_world demo_worker) = demo_shared" "ud_disk (wk_world demo_worker) = mounted Map.empty []"
  "ud_ran (wk_world demo_worker) = []" "ud_holds (wk_world demo_worker) = []"
  "wk_feed demo_worker = None" "ud_offer (wk_world demo_worker) = None"
  by (simp_all add: demo_worker_def start_worker_def recover_interrupted_def read_key_stored
      demo_shared_facts on_status_def Let_def)

lemma demo_fields [simp]:
  "ue_packages (demo_updates og b ps) = demo_packages" "ue_network (demo_updates og b ps) = demo_network b"
  "ue_others (demo_updates og b ps) n s = (if n \<in> ps then play_begins s else s)"
  "ue_app_version (demo_updates og b ps) = ''v1-rc9''" "ue_origin (demo_updates og b ps) = og"
  "ue_target (demo_updates og b ps) = ''linux-x86_64''" "ue_tosu_dir (demo_updates og b ps) = Some ''D''"
  "ue_exists (demo_updates og b ps) p" "ue_pkcon (demo_updates og b ps)"
  "ue_exit (demo_updates og b ps) c = Some (Some 0)" "ue_result_json (demo_updates og b ps) = ur_to"
  "ue_progress_json (demo_updates og b ps) = ip_to" "ue_now (demo_updates og b ps) = 10"
  "ue_progress_of (demo_updates og b ps) t = Some \<lparr>ip_component = ''app'', ip_from = ''v1-rc9'', ip_to = t\<rparr>"
  "ue_schedule_of (demo_updates og b ps) t = None" "ue_feed_vars (demo_updates og b ps) = (Some ''https://x/f'', None)"
  by (simp_all add: demo_updates_def)

lemma demo_lets_store: "lets_store (demo_updates og body {})"
  by (simp add: lets_store_def)

definition demo_app :: release_manifest where
  "demo_app = demo_manifest APP (demo_component ''1.0.0'' (demo_artifact ''linux-x86_64'' Deb))"

lemma demo_app_plan: "app_plan demo_app ''v1-rc9'' ODeb ''linux-x86_64'' (Inr ())
    = Inr (AppAvailable ''v1-rc9'' ''1.0.0'' None (demo_artifact ''linux-x86_64'' Deb) (PPackageManager Apt))"
  by (simp add: app_plan_def demo_app_def demo_manifest_def demo_component_def demo_artifact_def demo_newer
      artifact_for_def)

lemma demo_install:
  "\<exists>w' s. install_app (demo_updates ODeb [] {}) (Some demo_app) (wk_world demo_worker) = (Inr (), w')
     \<and> ([''pkcon'', ''refresh''], s) \<in> set (ud_ran w')"
proof -
  have i: "may_update_now (mode (sh_state demo_shared)) True = Inr ()"
    by (simp add: demo_shared_facts may_update_now_def)
  have f: "read_flag APP_ENABLED_KEY (others_run (demo_updates ODeb [] {}) 40 (wk_world demo_worker))"
    by (simp add: read_flag_def read_key_stored demo_worker_facts demo_shared_facts)
  show ?thesis
    by (simp add: install_app_def Let_def demo_worker_facts i f demo_app_plan repo_configured_def APT_SOURCES_def)
      (simp add: upgrade_from_repo_def repo_upgrade_commands_def run_command_def
        finish_install_def is_ok_def demo_worker_facts case_prod_beta Let_def)
qed


theorem install_outcome_recorded_witness:
  "\<exists>w'. install_app (demo_updates ODeb [] {}) (Some demo_app) (wk_world demo_worker) = (Inr (), w')
     \<and> up_restart_required (ud_status w') \<and> read_key LAST_RESULT_KEY w' = Some ''1.0.0''"
proof -
  obtain w' where i: "install_app (demo_updates ODeb [] {}) (Some demo_app) (wk_world demo_worker) = (Inr (), w')"
    using demo_install by blast
  from install_outcome_recorded [OF i _ demo_lets_store] show ?thesis
    using i by (auto simp: demo_worker_facts demo_shared_facts read_key_stored is_ok_def demo_app_def
        demo_manifest_def demo_component_def)
qed


theorem app_waits_to_be_told_witness:
  "ud_ran (wk_world (run_worker [(demo_updates OUser ''new'' {}, Ticked)] demo_worker)) = []"
  using app_waits_to_be_told [OF refl, of "[(demo_updates OUser ''new'' {}, Ticked)]" "Some ''D''" demo_worker Map.empty "[]"]
  by (simp add: demo_worker_facts asks_for_app_def)

theorem appimage_replaced_whole_witness:
  "\<exists>r d'. replace_file True (''S'', ''new'') (''O'', ''opad'')
       (mounted [(''S'', ''new'') \<mapsto> ''AB'', (''O'', ''opad'') \<mapsto> ''old''] [False, False, False, True]) = (r, d')
     \<and> files d' (''O'', ''opad'') = Some ''old''"
proof -
  let ?f = "[(''S'', ''new'') \<mapsto> ''AB'', (''O'', ''opad'') \<mapsto> ''old'']"
  obtain r d' where x: "replace_file True (''S'', ''new'') (''O'', ''opad'') (mounted ?f [False, False, False, True]) = (r, d')"
    by fastforce
  then have "r \<noteq> Inr ()"
    by (auto simp: replace_file_def copy_replace_def io_bind_def step_def mounted_def on_error_def incoming_path_def Let_def)
  with appimage_replaced_whole [OF x] x show ?thesis by (auto simp: incoming_path_def)
qed

text \<open>The demo feeds under the keys the program trusts.\<close>

lemma demo_key: "trim TEST_KEY = TEST_KEY"
  by (rule trim_printable) (simp add: printable_def byte_def TEST_KEY_def)

lemma demo_key_there: "TEST_KEY \<noteq> []" "[] \<noteq> TEST_KEY"
  by (simp_all add: TEST_KEY_def)

lemma demo_inner_here:
  "b = ''new'' \<or> b = ''old'' \<Longrightarrow> fetch_manifest_inner demo_packages (new_client (Some ''https://x/f'') None ch) (demo_network b) t
     = Inr (Some (demo_feed (if b = ''new'' then 9 else 5), None))"
  by (auto simp: fetch_manifest_inner_def new_client_def feed_url_def signature_url_def demo_get
      MAX_MANIFEST_BYTES_def byte_def verify_manifest_signature_def verify_with_key_def demo_key demo_key_there TRUSTED_KEYS_def
      demo_packages_def SUPPORTED_SCHEMA_def demo_feed_def)

lemma demo_fetch:
  assumes "b = ''new'' \<or> b = ''old''" and "serials s STABLE = None"
  shows "\<exists>s'. fetch_manifest demo_packages (new_client (Some ''https://x/f'') None STABLE) (demo_network b) s 10 c
     = (s', Inr (Some (demo_feed (if b = ''new'' then 9 else 5))))"
proof -
  have k: "signing_configured TRUSTED_KEYS"
    by (simp add: signing_configured_def TRUSTED_KEYS_def demo_key demo_key_there)
  show ?thesis
    using demo_inner_here [OF assms(1)] assms(2) k
    by (auto simp: fetch_manifest_def new_client_def check_feed_def demo_feed_def demo_packages_def
        record_success_def Let_def)
qed

text \<open>The feed names no component, so a check of it installs nothing.\<close>

lemma demo_narrowed: "for_install h (demo_feed n) i = demo_feed n"
  by (simp add: for_install_def demo_feed_def fun_eq_iff)

lemma demo_check:
  assumes "b = ''new'' \<or> b = ''old''" and "mode (sh_state (ud_shared w)) = Idle" and "ps \<subseteq> {12}"
    and "stored_at CHANNEL_KEY (ud_shared w) = None"
  shows "\<exists>w'. updates_check (demo_updates OUser b ps) c True w = (Inr (Some (demo_feed (if b = ''new'' then 9 else 5))), w')"
proof -
  let ?e = "demo_updates OUser b ps"
  have o: "others_run ?e n v = v" if "n \<noteq> 12" for n v
    using that assms(3) by (auto simp: others_run_def)
  have ch: "read_channel w = STABLE"
    using assms(4) by (simp add: read_channel_def read_key_stored BETA_def)
  have s: "read_schedule ?e w = new_schedule"
    by (cases "read_key SCHEDULE_KEY w") (simp_all add: read_schedule_def)
  have se: "serials (switch_channel new_schedule STABLE) STABLE = None"
    by (simp add: switch_channel_def new_schedule_def)
  have i: "may_update_now Idle True = Inr ()" by (simp add: may_update_now_def)
  from demo_fetch [OF assms(1) se, of c] obtain s' where
    "fetch_manifest demo_packages (new_client (Some ''https://x/f'') None STABLE) (demo_network b)
       (switch_channel new_schedule STABLE) 10 c = (s', Inr (Some (demo_feed (if b = ''new'' then 9 else 5))))" by blast
  then show ?thesis
    by (simp add: updates_check_def assms(2) i o ch s Let_def demo_narrowed)
qed


definition demo_tosu :: release_manifest where
  "demo_tosu = demo_manifest TOSU (demo_component ''1.0.0'' \<lparr>target = ''linux-x86_64'', kind = Binary,
     url = ''https://x/f'', sha256 = ''4241'', file_size = Some 2, board = None\<rparr>)"

lemma demo_download: "fetch_artifact demo_packages (demo_network ''AB'') \<lparr>target = ''linux-x86_64'', kind = Binary,
     url = ''https://x/f'', sha256 = ''4241'', file_size = Some 2, board = None\<rparr> = Inr ''AB''"
proof -
  have t: "trim ''4241'' = ''4241''" by (rule trim_printable) (simp add: printable_def byte_def)
  show ?thesis
    by (simp add: fetch_artifact_def demo_get MAX_ARTIFACT_BYTES_def check_hash_bytes_def
        compare_hash_def t sha256_bytes_def demo_packages_def hex_lower_def byte_def hex_digit_def
        eq_ignore_ascii_case_def ascii_lowercase_def to_ascii_lower_def char_of_def bit_0)
qed

theorem swap_meets_play_witness:
  "\<exists>s. ud_holds (snd (update_tosu (demo_updates OUser ''AB'' {21}) demo_tosu False (wk_world demo_worker))) = [s]
     \<and> mode (sh_state s) = Playing"
proof -
  let ?e = "demo_updates OUser ''AB'' {21}"
  let ?a = "\<lparr>target = ''linux-x86_64'', kind = Binary, url = ''https://x/f'', sha256 = ''4241'',
      file_size = Some 2, board = None\<rparr>"
  have i: "may_update_now (mode (sh_state demo_shared)) True = Inr ()"
    by (simp add: demo_shared_facts may_update_now_def)
  have none: "installed_version (files (mounted Map.empty [])) ''D'' = None"
    by (simp add: installed_version_def trimmed_def mounted_def)
  have t: "trim [] = []" by (rule trim_printable) (simp add: printable_def)
  have f: "read_flag TOSU_ENABLED_KEY (wk_world demo_worker)"
    by (simp add: read_flag_def read_key_stored demo_worker_facts demo_shared_facts)
  have "tosu_plan demo_tosu (installed_version (files (ud_disk (wk_world demo_worker))) ''D'')
      (installed_revision (files (ud_disk (wk_world demo_worker))) ''D'') OUser ''linux-x86_64''
      (may_update_now (mode (sh_state (ue_others ?e 20 (ud_shared (wk_world demo_worker)))))
        (read_flag TOSU_ENABLED_KEY (wk_world demo_worker)))
    = Inr (TosuInstall [] ''1.0.0'' 1 ?a)"
    by (simp add: demo_worker_facts f i none tosu_plan_def t demo_tosu_def demo_manifest_def demo_component_def
        owns_bundled_tosu_def artifact_for_def)
  from swap_meets_play [of ?e "''D''" demo_tosu "wk_world demo_worker" "[]" "''1.0.0''" 1 ?a "''AB''"] this
  show ?thesis
    by (auto simp: demo_download demo_worker_facts play_begins_def)
qed

theorem held_feed_is_verified_witness:
  "wk_feed (run_worker [(demo_updates OUser ''new'' {}, Told CheckCommand)] demo_worker) = Some (demo_feed 9)
    \<and> (\<exists>ch \<in> {STABLE, BETA}. genuine (demo_updates OUser ''new'' {}) ch (demo_feed 9))"
proof -
  let ?e = "demo_updates OUser ''new'' {}"
  let ?w = "on_status (\<lambda>s. s\<lparr>up_checking := True\<rparr>) (wk_world demo_worker)"
  have o: "others_run ?e 0 v = v" for v by (simp add: others_run_def)
  obtain w' where c: "updates_check ?e False True ?w = (Inr (Some (demo_feed 9)), w')"
    using demo_check [of "''new''" ?w "{}" False] by (auto simp: demo_worker_facts demo_shared_facts)
  have m: "wk_last_manual demo_worker = None" by (simp add: demo_worker_def start_worker_def Let_def)
  have "wk_feed (run_worker [(?e, Told CheckCommand)] demo_worker) = Some (demo_feed 9)"
    by (simp add: o m check_turn_def demo_worker_facts c Let_def)
  with held_feed_is_verified [of "[(?e, Told CheckCommand)]" "demo_updates OUser [] {}" demo_shared "mounted Map.empty []"]
  show ?thesis by (simp add: demo_worker_def [symmetric])
qed

theorem channel_change_drops_feed_witness:
  "wk_feed (worker_turn (demo_updates OUser ''new'' {}) (Told ChannelChangedCommand) demo_worker) = Some (demo_feed 9)
    \<and> channel (demo_feed 9) = read_channel (wk_world demo_worker)"
proof -
  let ?e = "demo_updates OUser ''new'' {}"
  let ?w = "on_status (\<lambda>s. s\<lparr>up_checking := True\<rparr>)
      ((on_status (\<lambda>s. s\<lparr>up_channel := read_channel (wk_world demo_worker)\<rparr>) (wk_world demo_worker))\<lparr>ud_offer := None\<rparr>)"
  obtain w' where c: "updates_check ?e False True ?w = (Inr (Some (demo_feed 9)), w')"
    using demo_check [of "''new''" ?w "{}" False] by (auto simp: demo_worker_facts demo_shared_facts)
  have "wk_feed (worker_turn ?e (Told ChannelChangedCommand) demo_worker) = Some (demo_feed 9)"
    by (simp add: check_turn_def c Let_def)
  with channel_change_drops_feed [of demo_worker ?e "demo_feed 9"] show ?thesis
    by (simp add: demo_worker_facts)
qed

end
