(* ===== verification/Pad_Wire.thy ===== *)
theory Pad_Wire
  imports Board_Test Daemon Ipc
begin

text \<open>
  The messages between the daemon and the pad, as \<open>crates/opad-device/src/lib.rs\<close> builds and reads
  them: the payloads of \<open>protocol/osupad.proto\<close>, what each sender of the device manager puts into one,
  the events a message of the pad becomes, and what the daemon's loop (\<open>daemon/src/main.rs\<close>) makes of
  those. The enumerations of the protocol travel as 32-bit integers; in a message that was read they
  are integers, as the sender may know more values than the reader.
\<close>

section \<open>The payloads\<close>

record he_key_payload =
  hk_actuation :: u32
  hk_release_hyst :: u32
  hk_top_reset :: u32
  hk_rt_press :: u32
  hk_rt_release :: u32
  hk_bottom_dead_zone :: "u32 option"
  hk_rt_mode :: int
  hk_allow_below_noise_floor :: "bool option"

record config_payload =
  cp_key1_hid_usage :: u32
  cp_key2_hid_usage :: u32
  cp_debounce_us :: u32
  cp_brightness :: u32
  cp_display_sleep_seconds :: u32
  cp_gameplay_display_hz :: u32
  cp_press_color_rgb :: u32
  cp_key1_gpio :: u32
  cp_key2_gpio :: u32
  cp_swipe_left_action :: int
  cp_swipe_right_action :: int
  cp_swipe_left_key :: u32
  cp_swipe_right_key :: u32
  cp_swipe_up_action :: int
  cp_swipe_down_action :: int
  cp_swipe_up_key :: u32
  cp_swipe_down_key :: u32
  cp_swipe_up_modifiers :: u32
  cp_swipe_down_modifiers :: u32
  cp_swipe_left_modifiers :: u32
  cp_swipe_right_modifiers :: u32
  cp_key1_he :: "he_key_payload option"
  cp_key2_he :: "he_key_payload option"

record hello_ack =
  ha_protocol_version :: u32
  ha_firmware_version :: string
  ha_board_profile :: string
  ha_device_id :: string
  ha_counter_generation :: u32
  ha_lifetime_key1 :: u64
  ha_lifetime_key2 :: u64
  ha_owner_id :: "u8 list"
  ha_running_partition :: string
  ha_current_config :: "config_payload option"
  ha_key_press_times :: bool
  ha_board_test :: bool
  ha_builtin_animations :: u32
  ha_restart :: bool
  ha_he_input :: bool
  ha_he_calibration :: bool
  ha_he_live :: bool
  ha_tap_rate_per_second :: bool

record pad_status =
  ps_lifetime_key1 :: u64
  ps_lifetime_key2 :: u64
  ps_map_key1 :: u32
  ps_map_key2 :: u32
  ps_latency :: latency_stats
  ps_he_calibration :: "he_calibration_status option"

record wire_counters =
  wc_device_id :: string
  wc_generation :: u32
  wc_lifetime_key1 :: u64
  wc_lifetime_key2 :: u64

record board_payload =
  br_ran :: bool
  br_message :: string
  br_boot_module :: int
  br_module :: int
  br_id_mv :: int
  br_id_loaded_mv :: int
  br_reverse_probe_mv :: int
  br_key1_gpio :: u32
  br_key2_gpio :: u32
  br_keys_enabled :: bool
  br_tested_gpios :: u64
  br_high_with_pullup :: u64
  br_high_with_pulldown :: u64
  br_bridged_gpios :: u64

record progress_payload =
  pp_stage :: int
  pp_key_index :: u32
  pp_presses_done :: u32
  pp_error :: int
  pp_error_message :: string
  pp_raw_value :: u32
  pp_key1_rest :: u32
  pp_key1_full :: u32
  pp_key2_rest :: u32
  pp_key2_full :: u32

datatype device_payload = HelloAckMsg hello_ack | StatusMsg pad_status
  | ConfigAckMsg bool string "config_payload option" | CounterSyncMsg bool "wire_counters option" string
  | LogBatchMsg "log_event list" | LayoutAckMsg u32 bool string | DetectPinMsg u32 u32 bool
  | KeyPressesMsg u64 "(u32 \<times> u64) list" u32 | BoardTestMsg board_payload
  | ProgressMsg progress_payload | HeLiveMsg he_live_sample

record pad_to_host =
  ph_sequence_number :: u32
  ph_payload :: "device_payload option"

record wire_widget =
  ww_kind :: u32
  ww_source :: u32
  ww_font :: u32
  ww_align :: u32
  ww_x :: int
  ww_y :: int
  ww_w :: u32
  ww_h :: u32
  ww_fg :: u32
  ww_bg :: u32
  ww_accent :: u32
  ww_radius :: u32
  ww_decimals :: u32
  ww_flags :: u32
  ww_label :: string
  ww_suffix :: string

datatype data_value = WireNumber rat | WireText string | WireClear bool

datatype host_payload = HelloMsg u32 string bool | SetConfigMsg config_payload
  | TimeSyncMsg u32 u32 u32 u32 u32 u32 | CounterSyncRequest wire_counters bool | RequestStatusMsg bool
  | HostStatusMsg bool bool u32 bool | ResetLatencyMsg bool | DataUpdateMsg "(u32 \<times> data_value) list"
  | SetLayoutMsg u32 u32 "wire_widget list" | ResetLayoutMsg u32 | RequestLogsMsg bool
  | ClaimOwnershipMsg "u8 list" | DetectPinRequest u32 u32 u32 | RunBoardTestMsg bool
  | PlayAnimationMsg u32 string | RestartMsg bool | StartHeCalibrationMsg bool
  | CancelHeCalibrationMsg bool | HeLiveViewMsg bool

record host_to_pad =
  hp_sequence_number :: u32
  hp_payload :: host_payload

section \<open>Texts that fit the pad\<close>

text \<open>A byte index between two characters of UTF-8.\<close>

definition char_boundary :: "string \<Rightarrow> nat \<Rightarrow> bool" where
  "char_boundary s n \<longleftrightarrow> n = 0 \<or> n = length s \<or> n < length s \<and> \<not> tail_byte (s ! n)"

fun boundary_before :: "string \<Rightarrow> nat \<Rightarrow> nat" where
  "boundary_before s 0 = 0"
| "boundary_before s (Suc n) = (if char_boundary s (Suc n) then Suc n else boundary_before s n)"

definition fit_nanopb_string :: "string \<Rightarrow> nat \<Rightarrow> string" where
  "fit_nanopb_string s max_size =
     (let limit = max_size - 1 in
      if length s \<le> limit then s else take (boundary_before s limit) s)"

section \<open>What is sent\<close>

definition as_i32 :: "u32 \<Rightarrow> int" where "as_i32 w = sint w"
definition as_u32 :: "int \<Rightarrow> u32" where "as_u32 i = word_of_int i"

definition he_key_payload_of :: "he_key_config \<Rightarrow> he_key_payload" where
  "he_key_payload_of k = \<lparr>hk_actuation = actuation k, hk_release_hyst = release_hyst k,
     hk_top_reset = he_top_reset k, hk_rt_press = rt_press k, hk_rt_release = rt_release k,
     hk_bottom_dead_zone = Some (bottom_dead_zone k), hk_rt_mode = as_i32 (rt_to_wire (rt_mode k)),
     hk_allow_below_noise_floor = Some (allow_below_noise_floor k)\<rparr>"

definition config_payload_of :: "device_config \<Rightarrow> config_payload" where
  "config_payload_of c = \<lparr>cp_key1_hid_usage = key1_hid_usage c, cp_key2_hid_usage = key2_hid_usage c,
     cp_debounce_us = debounce_us c, cp_brightness = brightness c,
     cp_display_sleep_seconds = display_sleep_seconds c, cp_gameplay_display_hz = gameplay_display_hz c,
     cp_press_color_rgb = 0, cp_key1_gpio = key1_gpio c, cp_key2_gpio = key2_gpio c,
     cp_swipe_left_action = as_i32 (swipe_to_wire (swipe_left_action c)),
     cp_swipe_right_action = as_i32 (swipe_to_wire (swipe_right_action c)),
     cp_swipe_left_key = swipe_left_key c, cp_swipe_right_key = swipe_right_key c,
     cp_swipe_up_action = as_i32 (swipe_to_wire (swipe_up_action c)),
     cp_swipe_down_action = as_i32 (swipe_to_wire (swipe_down_action c)),
     cp_swipe_up_key = swipe_up_key c, cp_swipe_down_key = swipe_down_key c,
     cp_swipe_up_modifiers = swipe_up_modifiers c, cp_swipe_down_modifiers = swipe_down_modifiers c,
     cp_swipe_left_modifiers = swipe_left_modifiers c, cp_swipe_right_modifiers = swipe_right_modifiers c,
     cp_key1_he = map_option he_key_payload_of (key1_he c), cp_key2_he = map_option he_key_payload_of (key2_he c)\<rparr>"

definition MAX_VALUES :: nat where "MAX_VALUES = 32"
definition TEXT_MAX :: nat where "TEXT_MAX = 64"

fun data_value_of :: "source_value \<Rightarrow> data_value" where
  "data_value_of (Number n) = WireNumber n"
| "data_value_of (Text t) = WireText (fit_nanopb_string t TEXT_MAX)"
| "data_value_of Clear = WireClear True"

function value_chunks :: "nat \<Rightarrow> 'a list \<Rightarrow> 'a list list" where
  "value_chunks n xs = (if xs = [] \<or> n = 0 then [] else take n xs # value_chunks n (drop n xs))"
  by pat_completeness auto
termination by (relation "measure (\<lambda>(n, xs). length xs)") auto

declare value_chunks.simps [simp del]

definition data_updates :: "ui_value list \<Rightarrow> host_payload list" where
  "data_updates vs = map (\<lambda>chunk. DataUpdateMsg (map (\<lambda>(s, v). (ucast s, data_value_of v)) chunk))
     (value_chunks MAX_VALUES vs)"

text \<open>Every variant is in its table; a width or height below zero is sent as zero.\<close>

definition wire_of :: "('a \<times> u8 \<times> string) list \<Rightarrow> 'a \<Rightarrow> u32" where
  "wire_of table v = (case enum_to_wire table v of Some n \<Rightarrow> ucast n | None \<Rightarrow> 0)"

definition wire_widget_of :: "widget \<Rightarrow> wire_widget" where
  "wire_widget_of w = \<lparr>ww_kind = wire_of ALL_KINDS (w_kind w), ww_source = ucast (w_source w),
     ww_font = wire_of ALL_FONTS (w_font w), ww_align = wire_of ALL_ALIGNS (w_align w),
     ww_x = sint (w_x w), ww_y = sint (w_y w), ww_w = word_of_int (max (sint (w_w w)) 0),
     ww_h = word_of_int (max (sint (w_h w)) 0), ww_fg = w_fg w, ww_bg = w_bg w, ww_accent = w_accent w,
     ww_radius = ucast (w_radius w), ww_decimals = ucast (w_decimals w), ww_flags = ucast (w_flags w),
     ww_label = fit_nanopb_string (w_label w) (LABEL_MAX_BYTES + 1),
     ww_suffix = fit_nanopb_string (w_suffix w) (SUFFIX_MAX_BYTES + 1)\<rparr>"

text \<open>The local time is read when a time is sent.\<close>

type_synonym local_time = "u32 \<times> u32 \<times> u32 \<times> u32 \<times> u32 \<times> u32"

fun payloads_of :: "local_time \<Rightarrow> pad_message \<Rightarrow> host_payload list" where
  "payloads_of t PadTimeSync = (case t of (y, mo, d, h, mi, s) \<Rightarrow> [TimeSyncMsg y mo d h mi s])"
| "payloads_of t (PadClaim owner) = [ClaimOwnershipMsg owner]"
| "payloads_of t (PadConfig c) = [SetConfigMsg (config_payload_of c)]"
| "payloads_of t (PadData vs) = data_updates vs"
| "payloads_of t PadLatencyReset = [ResetLatencyMsg True]"
| "payloads_of t (PadLayout scr l) =
     [SetLayoutMsg (wire_of ALL_SCREENS scr) (l_background l) (map wire_widget_of (l_widgets l))]"
| "payloads_of t (PadLayoutReset scr) = [ResetLayoutMsg (wire_of ALL_SCREENS scr)]"
| "payloads_of t StatusRequest = [RequestStatusMsg True]"
| "payloads_of t (CounterSync k force_restore) =
     [CounterSyncRequest \<lparr>wc_device_id = counter_device k, wc_generation = counter_generation k,
        wc_lifetime_key1 = lifetime_key1 k, wc_lifetime_key2 = lifetime_key2 k\<rparr> force_restore]"
| "payloads_of t PadBoardTest = [RunBoardTestMsg True]"
| "payloads_of t PadRestart = [RestartMsg True]"
| "payloads_of t PadStartCalibration = [StartHeCalibrationMsg True]"
| "payloads_of t PadCancelCalibration = [CancelHeCalibrationMsg True]"
| "payloads_of t PadHeLive = [HeLiveViewMsg True]"
| "payloads_of t (PadAnimation a g) = [PlayAnimationMsg a g]"
| "payloads_of t (PadPinDetect k ms ex) = [DetectPinRequest k ms ex]"

definition host_status_message :: "bool \<Rightarrow> bool \<Rightarrow> u32 \<Rightarrow> bool \<Rightarrow> host_payload" where
  "host_status_message tosu playing play active = HostStatusMsg tosu playing play active"

definition hello_message :: host_to_pad where
  "hello_message = \<lparr>hp_sequence_number = 1, hp_payload = HelloMsg 1 ''1.0.0'' True\<rparr>"

section \<open>What is received\<close>

datatype device_event = OwnershipEv "u8 list" | ConnectedEv device_info "device_config option" | DisconnectedEv
  | StatusEv pad_status | CountersEv counter_state | SyncResultEv u32 bool string "counter_state option"
  | ConfigAckEv u32 bool string "device_config option" | LogBatchEv "log_event list"
  | LayoutAckEv u8 bool string | PinDetectedEv u32 u32 bool | BoardTestEv board_report
  | KeyPressTimesEv bool | KeyPressesEv u64 "(u8 \<times> u64) list" u32 instant | ProgressEv progress_payload

definition he_key_from :: "he_key_payload \<Rightarrow> he_key_config" where
  "he_key_from k = \<lparr>actuation = hk_actuation k, release_hyst = hk_release_hyst k, he_top_reset = hk_top_reset k,
     rt_press = hk_rt_press k, rt_release = hk_rt_release k,
     bottom_dead_zone = (case hk_bottom_dead_zone k of Some z \<Rightarrow> z | None \<Rightarrow> 0),
     rt_mode = (case rt_from_wire (as_u32 (hk_rt_mode k)) of Some m \<Rightarrow> m | None \<Rightarrow> rt_mode default_he_key),
     allow_below_noise_floor = (case hk_allow_below_noise_floor k of Some b \<Rightarrow> b | None \<Rightarrow> False)\<rparr>"

definition swipe_from :: "int \<Rightarrow> swipe_action \<Rightarrow> swipe_action" where
  "swipe_from i fallback = (case swipe_from_wire (as_u32 i) of Some a \<Rightarrow> a | None \<Rightarrow> fallback)"

definition device_config_from :: "config_payload \<Rightarrow> device_config" where
  "device_config_from c = \<lparr>key1_hid_usage = cp_key1_hid_usage c, key2_hid_usage = cp_key2_hid_usage c,
     debounce_us = cp_debounce_us c, brightness = cp_brightness c,
     display_sleep_seconds = cp_display_sleep_seconds c, gameplay_display_hz = cp_gameplay_display_hz c,
     tosu_endpoint = tosu_endpoint default_config,
     key1_gpio = (if cp_key1_gpio c = 0 then DEFAULT_KEY1_GPIO else cp_key1_gpio c),
     key2_gpio = (if cp_key2_gpio c = 0 then DEFAULT_KEY2_GPIO else cp_key2_gpio c),
     swipe_left_action = swipe_from (cp_swipe_left_action c) DEFAULT_SWIPE_LEFT,
     swipe_right_action = swipe_from (cp_swipe_right_action c) DEFAULT_SWIPE_RIGHT,
     swipe_left_key = cp_swipe_left_key c, swipe_right_key = cp_swipe_right_key c,
     swipe_up_action = swipe_from (cp_swipe_up_action c) DEFAULT_SWIPE_UP,
     swipe_down_action = swipe_from (cp_swipe_down_action c) DEFAULT_SWIPE_DOWN,
     swipe_up_key = cp_swipe_up_key c, swipe_down_key = cp_swipe_down_key c,
     swipe_up_modifiers = cp_swipe_up_modifiers c, swipe_down_modifiers = cp_swipe_down_modifiers c,
     swipe_left_modifiers = cp_swipe_left_modifiers c, swipe_right_modifiers = cp_swipe_right_modifiers c,
     result_animations = default_animations,
     key1_he = map_option he_key_from (cp_key1_he c), key2_he = map_option he_key_from (cp_key2_he c)\<rparr>"

definition input_module_from :: "int \<Rightarrow> input_module" where
  "input_module_from m = (if m = 1 then ModuleNone else if m = 2 then ModuleMx
     else if m = 3 then ModuleHallEffect else ModuleUnknown)"

definition measured_mv :: "int \<Rightarrow> u32 option" where
  "measured_mv v = (if v < 0 then None else Some (word_of_int v))"

definition board_test_report_from :: "board_payload \<Rightarrow> board_report" where
  "board_test_report_from r = \<lparr>ran = br_ran r, refusal = br_message r,
     boot_module = input_module_from (br_boot_module r), present_module = input_module_from (br_module r),
     id_mv = measured_mv (br_id_mv r), id_loaded_mv = measured_mv (br_id_loaded_mv r),
     reverse_probe_mv = measured_mv (br_reverse_probe_mv r),
     report_key1_gpio = br_key1_gpio r, report_key2_gpio = br_key2_gpio r, keys_enabled = br_keys_enabled r,
     tested_gpios = br_tested_gpios r, high_with_pullup = br_high_with_pullup r,
     high_with_pulldown = br_high_with_pulldown r, bridged_gpios = br_bridged_gpios r\<rparr>"

definition info_of_ack :: "hello_ack \<Rightarrow> device_info" where
  "info_of_ack a = \<lparr>device_id = ha_device_id a, board_profile = ha_board_profile a,
     firmware_version = ha_firmware_version a, protocol_version = ha_protocol_version a,
     running_partition = (if ha_running_partition a = [] then None else Some (ha_running_partition a)),
     he_input = ha_he_input a, he_calibration = ha_he_calibration a\<rparr>"

definition counters_of_wire :: "wire_counters \<Rightarrow> counter_state" where
  "counters_of_wire k = \<lparr>counter_device = wc_device_id k, counter_generation = wc_generation k,
     lifetime_key1 = wc_lifetime_key1 k, lifetime_key2 = wc_lifetime_key2 k, map_key1 = 0, map_key2 = 0\<rparr>"

text \<open>The events of one message, in the order they are broadcast; \<open>now\<close> is when it was received.\<close>

fun payload_events :: "u32 \<Rightarrow> instant \<Rightarrow> device_payload \<Rightarrow> device_event list" where
  "payload_events sq now (HelloAckMsg a) =
     [OwnershipEv (ha_owner_id a),
      CountersEv \<lparr>counter_device = ha_device_id a, counter_generation = ha_counter_generation a,
        lifetime_key1 = ha_lifetime_key1 a, lifetime_key2 = ha_lifetime_key2 a, map_key1 = 0, map_key2 = 0\<rparr>,
      KeyPressTimesEv (ha_key_press_times a),
      ConnectedEv (info_of_ack a) (map_option device_config_from (ha_current_config a))]"
| "payload_events sq now (StatusMsg st) =
     [StatusEv st, CountersEv \<lparr>counter_device = [], counter_generation = 0, lifetime_key1 = ps_lifetime_key1 st,
        lifetime_key2 = ps_lifetime_key2 st, map_key1 = ps_map_key1 st, map_key2 = ps_map_key2 st\<rparr>]"
| "payload_events sq now (CounterSyncMsg ok st msg) =
     SyncResultEv sq ok msg (map_option counters_of_wire st)
       # (case st of Some k \<Rightarrow> [CountersEv (counters_of_wire k)] | None \<Rightarrow> [])"
| "payload_events sq now (ConfigAckMsg ok msg cfg) = [ConfigAckEv sq ok msg (map_option device_config_from cfg)]"
| "payload_events sq now (LogBatchMsg es) = [LogBatchEv es]"
| "payload_events sq now (LayoutAckMsg scr ok msg) = [LayoutAckEv (ucast (min scr 255)) ok msg]"
| "payload_events sq now (DetectPinMsg k g ok) = [PinDetectedEv k g ok]"
| "payload_events sq now (BoardTestMsg r) = [BoardTestEv (board_test_report_from r)]"
| "payload_events sq now (KeyPressesMsg at' ps lost) =
     [KeyPressesEv at' (map (\<lambda>(k, t). (ucast k, t)) (filter (\<lambda>(k, t). k = 1 \<or> k = 2) ps)) lost now]"
| "payload_events sq now (HeLiveMsg s) = []"
| "payload_events sq now (ProgressMsg p) = [ProgressEv p]"

definition handle_device_message :: "instant \<Rightarrow> pad_to_host \<Rightarrow> device_event list" where
  "handle_device_message now m =
     (case ph_payload m of Some p \<Rightarrow> payload_events (ph_sequence_number m) now p | None \<Rightarrow> [])"

section \<open>What the daemon makes of an event\<close>

definition progress_of :: "progress_payload \<Rightarrow> he_progress" where
  "progress_of p = \<lparr>prog_stage = cal_stage_of (pp_stage p), prog_key_index = pp_key_index p,
     prog_presses_done = pp_presses_done p, prog_error = cal_error_of (pp_error p),
     prog_error_message = pp_error_message p, prog_raw_value = pp_raw_value p, prog_key1_rest = pp_key1_rest p,
     prog_key1_full = pp_key1_full p, prog_key2_rest = pp_key2_rest p, prog_key2_full = pp_key2_full p\<rparr>"

fun runtime_event_of :: "device_event \<Rightarrow> runtime_event option" where
  "runtime_event_of (ConnectedEv i c) = Some (DeviceConnected i c)"
| "runtime_event_of (OwnershipEv owner) = Some (DeviceOwnership owner)"
| "runtime_event_of DisconnectedEv = Some DeviceDisconnected"
| "runtime_event_of (CountersEv k) = Some (DeviceCounters k)"
| "runtime_event_of (StatusEv st) = Some (DeviceStatus (ps_latency st) (ps_he_calibration st))"
| "runtime_event_of (SyncResultEv sq ok msg k) = None"
| "runtime_event_of (ConfigAckEv sq ok msg c) = None"
| "runtime_event_of (LayoutAckEv scr ok msg) = Some (DeviceLayoutAck scr ok msg)"
| "runtime_event_of (LogBatchEv es) = Some (DeviceLogBatch es)"
| "runtime_event_of (PinDetectedEv k g ok) = None"
| "runtime_event_of (BoardTestEv r) = None"
| "runtime_event_of (KeyPressTimesEv on) = Some (PadPressTimes on)"
| "runtime_event_of (KeyPressesEv at' ps lost now) = Some (PadPresses at' ps lost now)"
| "runtime_event_of (ProgressEv p) = Some (DeviceHeCalibrationProgress (progress_of p))"

section \<open>Properties\<close>

lemma as_u32_as_i32 [simp]: "as_u32 (as_i32 w) = w"
  by (simp add: as_u32_def as_i32_def)

lemma swipe_from_sent [simp]: "swipe_from (as_i32 (swipe_to_wire a)) d = a"
  by (simp add: swipe_from_def swipe_wire_roundtrip)

lemma he_key_from_sent [simp]: "he_key_from (he_key_payload_of k) = k"
  by (cases k) (simp add: he_key_from_def he_key_payload_of_def rt_wire_roundtrip)

lemma pin_not_zero: "0 \<notin> gpio ` set KEY_PINS"
  by (simp add: KEY_PINS_def)

text \<open>
  A valid configuration comes back from a pad that stored it as it was sent, but for the tosu
  endpoint and the result animations, which stay on the PC.
\<close>

theorem config_survives_pad:
  assumes "validate_config c = Inr ()"
  shows "device_config_from (config_payload_of c)
    = c\<lparr>tosu_endpoint := tosu_endpoint default_config, result_animations := default_animations\<rparr>"
proof -
  have "key1_gpio c \<noteq> 0 \<and> key2_gpio c \<noteq> 0"
    using assms pin_not_zero unfolding validate_config_ok config_ok_def gpios_ok_def by metis
  then show ?thesis
    by (cases c) (simp add: device_config_from_def config_payload_of_def option.map_comp o_def
        option.map_ident_strong)
qed

section \<open>Texts and chunks\<close>

lemma boundary_before_le: "boundary_before s n \<le> n"
  by (induction s n rule: boundary_before.induct) auto

lemma boundary_before_is: "char_boundary s (boundary_before s n)"
  by (induction s n rule: boundary_before.induct) (auto simp: char_boundary_def)

lemma tail_not_boundary:
  "boundary_before s n < k \<Longrightarrow> k \<le> n \<Longrightarrow> \<not> char_boundary s k"
  by (induction s n rule: boundary_before.induct) (auto split: if_splits simp: le_Suc_eq)

text \<open>A first character of well-formed UTF-8 and the rest.\<close>

lemma utf8_first:
  assumes "utf8_valid s" and "s \<noteq> []"
  shows "\<exists>c r. s = c @ r \<and> c \<noteq> [] \<and> length c \<le> 4 \<and> utf8_valid c \<and> utf8_valid r
    \<and> (\<forall>r'. utf8_valid (c @ r') = utf8_valid r') \<and> list_all tail_byte (tl c)"
proof -
  obtain a t where s: "s = a # t" using assms(2) by (cases s) auto
  consider "byte a < 128" | "194 \<le> byte a \<and> byte a \<le> 223" | "224 \<le> byte a \<and> byte a \<le> 239"
    | "240 \<le> byte a \<and> byte a \<le> 244"
    using assms(1) s by (force split: if_splits)
  then show ?thesis
  proof cases
    case 1
    then show ?thesis using assms(1) s by (intro exI [of _ "[a]"] exI [of _ t]) simp
  next
    case 2
    then obtain b r where t: "t = b # r" "tail_byte b" "utf8_valid r"
      using assms(1) s by (auto split: list.splits)
    then show ?thesis using 2 s by (intro exI [of _ "[a, b]"] exI [of _ r]) simp
  next
    case 3
    then obtain b c r where t: "t = b # c # r" "tail_byte b" "tail_byte c" "utf8_valid r"
        "byte a = 224 \<longrightarrow> 160 \<le> byte b" "byte a = 237 \<longrightarrow> byte b < 160"
      using assms(1) s by (auto split: list.splits)
    then show ?thesis using 3 s by (intro exI [of _ "[a, b, c]"] exI [of _ r]) simp
  next
    case 4
    then obtain b c d r where t: "t = b # c # d # r" "tail_byte b" "tail_byte c" "tail_byte d" "utf8_valid r"
        "byte a = 240 \<longrightarrow> 144 \<le> byte b" "byte a = 244 \<longrightarrow> byte b < 144"
      using assms(1) s by (auto split: list.splits)
    then show ?thesis using 4 s by (intro exI [of _ "[a, b, c, d]"] exI [of _ r]) simp
  qed
qed

lemma utf8_cut:
  assumes "utf8_valid s" and "char_boundary s n" and "n \<le> length s"
  shows "utf8_valid (take n s)"
  using assms
proof (induction "length s" arbitrary: s n rule: less_induct)
  case less
  show ?case
  proof (cases "s = [] \<or> n = 0")
    case False
    then obtain c r where c: "s = c @ r" "c \<noteq> []" "utf8_valid c" "utf8_valid r"
        "\<forall>r'. utf8_valid (c @ r') = utf8_valid r'" "list_all tail_byte (tl c)"
      using utf8_first [OF less(2)] by blast
    have "length c \<le> n"
    proof (rule ccontr)
      assume "\<not> length c \<le> n"
      then have "s ! n = tl c ! (n - 1)" "n - 1 < length (tl c)" using False c(1,2)
        by (auto simp: nth_append nth_tl)
      then have "tail_byte (s ! n)" using c(6) by (simp add: list_all_length)
      then show False using less(3,4) False \<open>\<not> length c \<le> n\<close> c(1) by (auto simp: char_boundary_def)
    qed
    then have n: "take n s = c @ take (n - length c) r" using c(1) by simp
    have "char_boundary r (n - length c)" "n - length c \<le> length r"
      using less(3,4) \<open>length c \<le> n\<close> c(1) False
      by (auto simp: char_boundary_def nth_append)
    then have "utf8_valid (take (n - length c) r)" using c less(1) by simp
    then show ?thesis using c(5) n by simp
  qed auto
qed

lemma utf8_starts: "utf8_valid r \<Longrightarrow> r \<noteq> [] \<Longrightarrow> \<not> tail_byte (r ! 0)"
  by (cases r) (auto simp: tail_byte_def split: if_splits)

text \<open>Four bytes in a row cannot all be inside a character.\<close>

lemma boundary_near:
  assumes "utf8_valid s" and "n \<le> length s"
  shows "n \<le> boundary_before s n + 3"
  using assms
proof (induction "length s" arbitrary: s n rule: less_induct)
  case less
  show ?case
  proof (cases "s = []")
    case False
    then obtain c r where c: "s = c @ r" "c \<noteq> []" "length c \<le> 4" "utf8_valid r"
      using utf8_first [OF less(2)] by blast
    show ?thesis
    proof (cases "n < length c")
      case True
      then show ?thesis using c(3) by simp
    next
      case False
      let ?k = "boundary_before r (n - length c)"
      have ih: "n - length c \<le> ?k + 3" using less(1,3) c by simp
      have "?k \<le> n - length c" by (rule boundary_before_le)
      moreover have "char_boundary s (length c + ?k)"
        using boundary_before_is [of r "n - length c"] c(1) calculation less(3) False
        by (cases "?k = 0") (use utf8_starts [OF c(4)] in \<open>auto simp: char_boundary_def nth_append\<close>)
      ultimately have "length c + ?k \<le> boundary_before s n"
        using tail_not_boundary [of s n "length c + ?k"] False by linarith
      then show ?thesis using ih False by linarith
    qed
  qed (use less(3) in simp)
qed

text \<open>
  A text for the pad fits its field, is a prefix of what it was made of and still well-formed
  UTF-8, and loses at most the three bytes of a character that was cut.
\<close>

theorem texts_fit_pad:
  assumes "utf8_valid s" and "0 < m"
  shows "length (fit_nanopb_string s m) < m \<and> utf8_valid (fit_nanopb_string s m)
    \<and> take (length (fit_nanopb_string s m)) s = fit_nanopb_string s m
    \<and> (length s < m \<longrightarrow> fit_nanopb_string s m = s)
    \<and> (m \<le> length s \<longrightarrow> m \<le> length (fit_nanopb_string s m) + 4)"
proof (cases "length s < m")
  case True
  then have "length s \<le> m - 1" by simp
  then have "fit_nanopb_string s m = s" by (simp add: fit_nanopb_string_def Let_def)
  then show ?thesis using assms True by simp
next
  case False
  let ?n = "boundary_before s (m - 1)"
  have n: "?n \<le> m - 1" by (rule boundary_before_le)
  then have "utf8_valid (take ?n s)"
    using utf8_cut [OF assms(1) boundary_before_is] False by simp
  moreover have "m - 1 \<le> ?n + 3" using boundary_near [OF assms(1), of "m - 1"] False by simp
  moreover have "fit_nanopb_string s m = take ?n s" "length (take ?n s) = ?n"
    using False n assms(2) by (auto simp: fit_nanopb_string_def Let_def)
  ultimately show ?thesis using n False assms(2) by (simp, arith)
qed

text \<open>A euro sign across the end of a field of six bytes is left out whole.\<close>

theorem texts_fit_pad_witness:
  "fit_nanopb_string (''abc'' @ [CHR 0xE2, CHR 0x82, CHR 0xAC]) 6 = ''abc''
    \<and> utf8_valid (fit_nanopb_string (''abc'' @ [CHR 0xE2, CHR 0x82, CHR 0xAC]) 6)"
proof -
  let ?s = "''abc'' @ [CHR 0xE2, CHR 0x82, CHR 0xAC]"
  have v: "utf8_valid ?s" by (simp add: tail_byte_def byte_def)
  have "fit_nanopb_string ?s 6 = ''abc''"
    by (simp add: fit_nanopb_string_def Let_def eval_nat_numeral char_boundary_def tail_byte_def byte_def)
  with texts_fit_pad [OF v, of 6] show ?thesis by simp
qed

lemma value_chunks_concat: "0 < n \<Longrightarrow> concat (value_chunks n xs) = xs"
proof (induction n xs rule: value_chunks.induct)
  case (1 n xs)
  then show ?case by (subst value_chunks.simps) auto
qed

lemma value_chunks_small: "c \<in> set (value_chunks n xs) \<Longrightarrow> c \<noteq> [] \<and> length c \<le> n"
proof (induction n xs rule: value_chunks.induct)
  case (1 n xs)
  then show ?case by (subst (asm) (2) value_chunks.simps) (auto split: if_splits)
qed

fun values_in :: "host_payload \<Rightarrow> (u32 \<times> data_value) list" where
  "values_in (DataUpdateMsg vs) = vs"
| "values_in _ = []"

text \<open>
  A list of values reaches the pad in order and whole, in messages of at most 32 values, none of
  them empty.
\<close>

theorem values_reach_pad_whole:
  "concat (map values_in (data_updates vs)) = map (\<lambda>(s, v). (ucast s, data_value_of v)) vs
    \<and> list_all (\<lambda>m. values_in m \<noteq> [] \<and> length (values_in m) \<le> MAX_VALUES) (data_updates vs)"
proof -
  have "concat (map values_in (data_updates vs))
      = map (\<lambda>(s, v). (ucast s, data_value_of v)) (concat (value_chunks MAX_VALUES vs))"
    by (simp add: data_updates_def o_def map_concat)
  then show ?thesis
    using value_chunks_concat [of MAX_VALUES vs] value_chunks_small [of _ MAX_VALUES vs]
    by (auto simp: MAX_VALUES_def data_updates_def list_all_iff)
qed

theorem config_survives_pad_witness:
  "device_config_from (config_payload_of default_config) = default_config"
proof -
  have "validate_config default_config = Inr ()" by (simp add: validate_config_ok default_config_ok)
  from config_survives_pad [OF this] show ?thesis by (simp add: default_config_def)
qed

end
