(* ===== verification/Pad_Worker.thy ===== *)
theory Pad_Worker
  imports Pad_Wire
begin

text \<open>
  The worker that owns the pad's serial port and the handle the daemon holds to it
  (\<open>DeviceManager\<close> of \<open>crates/opad-device/src/lib.rs\<close>): the Hello handshake over two framings, the
  probe, writing and reading, reconnecting and the held reopen. What the port and the clients of the
  handle do is input: one record per turn of the inner loop and one per turn of the outer loop. A
  turn is one pass of the loop; the clients act before it and between its writes and its parse.
  Broadcast events are kept in the order they are sent, and so are the messages given to the port (a
  Hello counts as written even if the port did not take it, as the worker does not ask).
\<close>

section \<open>Constants\<close>

definition PORT_SCAN_INTERVAL :: duration where "PORT_SCAN_INTERVAL = from_millis 400"
definition PORT_OPEN_RETRY_INTERVAL :: duration where "PORT_OPEN_RETRY_INTERVAL = from_millis 1500"
definition RECONNECT_SETTLE_INTERVAL :: duration where "RECONNECT_SETTLE_INTERVAL = from_millis 300"
definition WORKER_READ_TIMEOUT :: duration where "WORKER_READ_TIMEOUT = from_millis 10"
definition STALE_PARTIAL_FRAME :: duration where "STALE_PARTIAL_FRAME = from_millis 500"
definition HELLO_RETRY :: duration where "HELLO_RETRY = from_millis 400"
definition WRITE_DEADLINE :: duration where "WRITE_DEADLINE = from_millis 1000"
definition HELLOS_BEFORE_REOPEN :: u32 where "HELLOS_BEFORE_REOPEN = 10"
definition PROBE_HELLOS :: u32 where "PROBE_HELLOS = 2"
definition HE_LIVE_FRESH :: duration where "HE_LIVE_FRESH = from_millis 300"
definition HE_LIVE_KEEPALIVE :: duration where "HE_LIVE_KEEPALIVE = from_secs 1"
definition QUEUE_SIZE :: nat where "QUEUE_SIZE = 64"

section \<open>The handshake\<close>

datatype hello_due = DueSend | DueReopenHeld | DueDrop

definition hello_due :: "u32 \<Rightarrow> bool \<Rightarrow> bool \<Rightarrow> hello_due" where
  "hello_due unanswered conn held =
     (if unanswered < HELLOS_BEFORE_REOPEN then DueSend
      else if conn \<and> \<not> held then DueReopenHeld
      else DueDrop)"

definition accept_frame :: "bool \<Rightarrow> bool \<Rightarrow> bool \<Rightarrow> bool" where
  "accept_frame has_hello_ack conn framing_known \<longleftrightarrow> has_hello_ack \<or> (conn \<and> framing_known)"

definition hello_framing :: "u32 \<Rightarrow> framing" where
  "hello_framing attempt = (if attempt mod 2 = 0 then Marked else Legacy)"

datatype hello_step = StepWait | StepSend framing | StepReopenHeld | StepDrop

record handshake_state =
  hs_last_hello :: "instant option"
  hs_answered :: bool
  hs_framing :: "framing option"
  hs_unanswered :: u32

definition new_handshake :: handshake_state where
  "new_handshake = \<lparr>hs_last_hello = None, hs_answered = False, hs_framing = None, hs_unanswered = 0\<rparr>"

definition retry_due :: "handshake_state \<Rightarrow> instant \<Rightarrow> bool" where
  "retry_due h now \<longleftrightarrow> \<not> hs_answered h
     \<and> (case hs_last_hello h of None \<Rightarrow> True | Some t \<Rightarrow> HELLO_RETRY \<le> now - t)"

definition handshake_step :: "handshake_state \<Rightarrow> instant \<Rightarrow> bool \<Rightarrow> bool \<Rightarrow> hello_step \<times> handshake_state" where
  "handshake_step h now conn held =
     (if \<not> retry_due h now then (StepWait, h)
      else case hello_due (hs_unanswered h) conn held of
             DueReopenHeld \<Rightarrow> (StepReopenHeld, h)
           | DueDrop \<Rightarrow> (StepDrop, h)
           | DueSend \<Rightarrow>
               (StepSend (case hs_framing h of Some f \<Rightarrow> f | None \<Rightarrow> hello_framing (hs_unanswered h)),
                h\<lparr>hs_last_hello := Some now, hs_unanswered := hs_unanswered h + 1\<rparr>))"

definition restart_handshake :: "handshake_state \<Rightarrow> handshake_state" where
  "restart_handshake h = h\<lparr>hs_answered := False, hs_last_hello := None\<rparr>"

definition answered_in :: "framing \<Rightarrow> handshake_state \<Rightarrow> handshake_state" where
  "answered_in f h = h\<lparr>hs_answered := True, hs_unanswered := 0,
     hs_framing := (case hs_framing h of None \<Rightarrow> Some f | Some g \<Rightarrow> Some g)\<rparr>"

definition accepts_frames :: "handshake_state \<Rightarrow> bool \<Rightarrow> bool" where
  "accepts_frames h conn = accept_frame (hs_answered h) conn (hs_framing h \<noteq> None)"

definition probe_exhausted :: "u32 \<Rightarrow> bool" where
  "probe_exhausted hellos \<longleftrightarrow> PROBE_HELLOS \<le> hellos"

section \<open>The handle\<close>

datatype device_error = NotConnectedErr | BusyErr

record pad_features =
  pf_board_test :: bool
  pf_builtin_animations :: u32
  pf_restart :: bool
  pf_tap_rate_per_second :: bool
  pf_he_calibration :: bool
  pf_he_live :: bool

definition no_features :: pad_features where
  "no_features = \<lparr>pf_board_test = False, pf_builtin_animations = 0, pf_restart = False,
     pf_tap_rate_per_second = False, pf_he_calibration = False, pf_he_live = False\<rparr>"

record link =
  lk_connected :: bool
  lk_paused :: bool
  lk_open :: bool
  lk_seq :: u32
  lk_last_port :: "string option"
  lk_rehello :: bool
  lk_lost_writes :: bool
  lk_features :: pad_features
  lk_live :: "(he_live_sample \<times> instant) option"
  lk_live_asked :: "instant option"
  lk_queue :: "host_to_pad list"
  lk_events :: "device_event list"
  lk_written :: "(framing \<times> host_to_pad) list"

definition new_link :: link where
  "new_link = \<lparr>lk_connected = False, lk_paused = False, lk_open = False, lk_seq = 1, lk_last_port = None,
     lk_rehello = False, lk_lost_writes = False, lk_features = no_features, lk_live = None,
     lk_live_asked = None, lk_queue = [], lk_events = [], lk_written = []\<rparr>"

definition emit :: "device_event list \<Rightarrow> link \<Rightarrow> link" where
  "emit es k = k\<lparr>lk_events := lk_events k @ es\<rparr>"

definition send_msg :: "host_to_pad \<Rightarrow> link \<Rightarrow> (device_error, unit) result \<times> link" where
  "send_msg m k =
     (if \<not> lk_connected k then (Inl NotConnectedErr, k)
      else if QUEUE_SIZE \<le> length (lk_queue k) then (Inl BusyErr, k)
      else (Inr (), k\<lparr>lk_queue := lk_queue k @ [m]\<rparr>))"

text \<open>Each message takes a number, whether it can be queued or not; the first refusal ends a batch.\<close>

fun send_payloads :: "host_payload list \<Rightarrow> link \<Rightarrow> (device_error, unit) result \<times> link" where
  "send_payloads [] k = (Inr (), k)"
| "send_payloads (p # ps) k =
     (case send_msg \<lparr>hp_sequence_number = lk_seq k, hp_payload = p\<rparr> (k\<lparr>lk_seq := lk_seq k + 1\<rparr>) of
        (Inl e, k) \<Rightarrow> (Inl e, k)
      | (Inr _, k) \<Rightarrow> send_payloads ps k)"

definition send_message :: "local_time \<Rightarrow> pad_message \<Rightarrow> link \<Rightarrow> (device_error, unit) result \<times> link" where
  "send_message t m k = send_payloads (payloads_of t m) k"

definition pause_link :: "link \<Rightarrow> link" where
  "pause_link k = emit [DisconnectedEv] (k\<lparr>lk_paused := True, lk_connected := False\<rparr>)"

definition resume_link :: "link \<Rightarrow> link" where
  "resume_link k = k\<lparr>lk_paused := False\<rparr>"

definition rehandshake :: "link \<Rightarrow> link" where
  "rehandshake k = k\<lparr>lk_rehello := True\<rparr>"

definition take_lost_writes :: "link \<Rightarrow> bool \<times> link" where
  "take_lost_writes k = (lk_lost_writes k, k\<lparr>lk_lost_writes := False\<rparr>)"

text \<open>
  Waiting for the port: whether it is open and the clock at each look. \<open>None\<close>: still waiting after
  the looks that are given.
\<close>

fun await_release :: "instant \<Rightarrow> (bool \<times> instant) list \<Rightarrow> bool option" where
  "await_release deadline [] = None"
| "await_release deadline ((is_open, now) # looks) =
     (if \<not> is_open then Some True
      else if deadline \<le> now then Some False
      else await_release deadline looks)"

definition he_live_poll :: "instant \<Rightarrow> link \<Rightarrow> he_live_sample option \<times> link" where
  "he_live_poll now k =
     (if \<not> pf_he_live (lk_features k) then (None, k)
      else
        let due = (case lk_live_asked k of None \<Rightarrow> True | Some t \<Rightarrow> HE_LIVE_KEEPALIVE \<le> now - t);
            k = (if due then snd (send_payloads [HeLiveViewMsg True] (k\<lparr>lk_live_asked := Some now\<rparr>)) else k)
        in (case lk_live k of
              Some (s, t) \<Rightarrow> if now - t \<le> HE_LIVE_FRESH then Some s else None
            | None \<Rightarrow> None, k))"

text \<open>What the daemon may do with the handle at any time.\<close>

datatype client_op = SendOp local_time pad_message | HostStatusOp bool bool u32 bool | PauseOp | ResumeOp
  | RehandshakeOp | TakeLostOp | PollLiveOp instant

fun client_act :: "client_op \<Rightarrow> link \<Rightarrow> link" where
  "client_act (SendOp t m) k = snd (send_message t m k)"
| "client_act (HostStatusOp tosu playing play active) k = snd (send_payloads [host_status_message tosu playing play active] k)"
| "client_act PauseOp k = pause_link k"
| "client_act ResumeOp k = resume_link k"
| "client_act RehandshakeOp k = rehandshake k"
| "client_act TakeLostOp k = snd (take_lost_writes k)"
| "client_act (PollLiveOp now) k = snd (he_live_poll now k)"

definition clients_act :: "client_op list \<Rightarrow> link \<Rightarrow> link" where
  "clients_act ops k = fold client_act ops k"

section \<open>Writing\<close>

datatype write_outcome = Wrote nat | WriteRetry instant | WriteFatal

text \<open>
  One outcome per call of \<open>write\<close>. The bytes that went out, and whether the frame is whole; \<open>None\<close>:
  still trying after the outcomes that are given. The flush that follows is left to the system.
\<close>

fun write_frame :: "instant \<Rightarrow> write_outcome list \<Rightarrow> u8 list \<Rightarrow> u8 list \<times> bool option" where
  "write_frame until outs [] = ([], Some True)"
| "write_frame until [] rest = ([], None)"
| "write_frame until (Wrote 0 # outs) rest = ([], Some False)"
| "write_frame until (Wrote n # outs) rest =
     (let (out, r) = write_frame until outs (drop n rest) in (take n rest @ out, r))"
| "write_frame until (WriteRetry now # outs) rest =
     (if now < until then write_frame until outs rest else ([], Some False))"
| "write_frame until (WriteFatal # outs) rest = ([], Some False)"

section \<open>One pass of the inner loop\<close>

datatype read_result = ReadBytes "u8 list" | ReadNothing | ReadGone

record ('e, 'd) turn_input =
  ti_host :: "(host_to_pad, 'e) codec"
  ti_device :: "(pad_to_host, 'd) codec"
  ti_now :: instant
  ti_read_at :: instant
  ti_write_ok :: "nat \<Rightarrow> bool"
  ti_read :: read_result
  ti_before :: "client_op list"
  ti_meanwhile :: "client_op list"

record port_session =
  ss_port :: string
  ss_handshake :: handshake_state
  ss_buf :: "u8 list"
  ss_partial :: "instant option"
  ss_held :: bool

definition open_session :: "string \<Rightarrow> bool \<Rightarrow> port_session" where
  "open_session p held = \<lparr>ss_port = p, ss_handshake = new_handshake, ss_buf = [], ss_partial = None, ss_held = held\<rparr>"

datatype session_end = Released | HeldReopen | Silent | Unplugged

fun drain_queue :: "(host_to_pad, 'e) codec \<Rightarrow> (nat \<Rightarrow> bool) \<Rightarrow> framing \<Rightarrow> nat \<Rightarrow> host_to_pad list \<Rightarrow> link \<Rightarrow> link" where
  "drain_queue c ok f n [] k = k\<lparr>lk_queue := []\<rparr>"
| "drain_queue c ok f n (m # ms) k =
     (case encode_host_message_as c m f of
        Inl err \<Rightarrow> drain_queue c ok f n ms k
      | Inr bytes \<Rightarrow>
          if ok n then drain_queue c ok f (Suc n) ms (k\<lparr>lk_written := lk_written k @ [(f, m)]\<rparr>)
          else k\<lparr>lk_queue := ms, lk_lost_writes := True\<rparr>)"

definition features_of :: "hello_ack \<Rightarrow> pad_features" where
  "features_of a = \<lparr>pf_board_test = ha_board_test a, pf_builtin_animations = ha_builtin_animations a,
     pf_restart = ha_restart a, pf_tap_rate_per_second = ha_tap_rate_per_second a,
     pf_he_calibration = ha_he_calibration a, pf_he_live = ha_he_live a\<rparr>"

definition on_message :: "instant \<Rightarrow> pad_to_host \<times> framing \<Rightarrow> port_session \<times> link \<Rightarrow> port_session \<times> link" where
  "on_message now mf sk =
     (let (m, f) = mf; (s, k) = sk in
      case ph_payload m of
        Some (HelloAckMsg a) \<Rightarrow>
          if \<not> is_opad_device_id (ha_device_id a) then (s, k)
          else
            (s\<lparr>ss_held := False, ss_handshake := answered_in f (ss_handshake s)\<rparr>,
             emit (handle_device_message now m)
               (k\<lparr>lk_features := features_of a, lk_connected := True,
                  lk_last_port := (if lk_connected k then lk_last_port k else Some (ss_port s))\<rparr>))
      | p \<Rightarrow>
          if \<not> accepts_frames (ss_handshake s) (lk_connected k) then (s, k)
          else (case p of
                  Some (HeLiveMsg sample) \<Rightarrow> (s, k\<lparr>lk_live := Some (sample, now)\<rparr>)
                | _ \<Rightarrow> (s, emit (handle_device_message now m) k)))"

definition take_bytes :: "(pad_to_host, 'd) codec \<Rightarrow> instant \<Rightarrow> u8 list \<Rightarrow> port_session \<Rightarrow> link \<Rightarrow> port_session \<times> link" where
  "take_bytes c now bytes s k =
     (let ((s, k), rest) = parse_ready c (\<lambda>(s, k). hs_framing (ss_handshake s)) (on_message now) (s, k)
            (ss_buf s @ bytes)
      in (s\<lparr>ss_buf := rest, ss_partial := (if rest = [] then None
            else case ss_partial s of None \<Rightarrow> Some now | Some t \<Rightarrow> Some t)\<rparr>, k))"

definition drop_stale :: "instant \<Rightarrow> port_session \<Rightarrow> port_session" where
  "drop_stale now s =
     (if (case ss_partial s of Some t \<Rightarrow> STALE_PARTIAL_FRAME \<le> now - t | None \<Rightarrow> False)
      then s\<lparr>ss_buf := [], ss_partial := None, ss_handshake := restart_handshake (ss_handshake s)\<rparr> else s)"

definition prepare :: "instant \<Rightarrow> port_session \<Rightarrow> link \<Rightarrow> port_session \<times> link" where
  "prepare now s k =
     (let s = drop_stale now s
      in (if lk_rehello k then s\<lparr>ss_handshake := restart_handshake (ss_handshake s)\<rparr> else s,
          k\<lparr>lk_rehello := False\<rparr>))"

text \<open>The Hello that is due, and the commands once the pad's framing is known.\<close>

definition transmit :: "('e, 'd) turn_input \<Rightarrow> hello_step \<Rightarrow> framing option \<Rightarrow> link \<Rightarrow> link" where
  "transmit i what known k =
     (let k = (case what of StepSend f \<Rightarrow> k\<lparr>lk_written := lk_written k @ [(f, hello_message)]\<rparr> | _ \<Rightarrow> k)
      in case known of
           None \<Rightarrow> k
         | Some f \<Rightarrow> drain_queue (ti_host i) (ti_write_ok i) f 0 (lk_queue k) k)"

definition receive :: "('e, 'd) turn_input \<Rightarrow> port_session \<Rightarrow> link \<Rightarrow> (session_end, port_session) result \<times> link" where
  "receive i s k =
     (case ti_read i of
        ReadGone \<Rightarrow> (Inl Unplugged, k)
      | ReadNothing \<Rightarrow> (Inr s, k)
      | ReadBytes bytes \<Rightarrow>
          if bytes = [] then (Inr s, k)
          else let (s, k) = take_bytes (ti_device i) (ti_read_at i) bytes s k in (Inr s, k))"

definition inner_turn :: "('e, 'd) turn_input \<Rightarrow> port_session \<Rightarrow> link \<Rightarrow> (session_end, port_session) result \<times> link" where
  "inner_turn i s k0 =
     (let k = clients_act (ti_before i) k0 in
      if lk_paused k then (Inl Released, k)
      else
        let (s, k) = prepare (ti_now i) s k;
            (what, h) = handshake_step (ss_handshake s) (ti_now i) (lk_connected k) (ss_held s);
            s = s\<lparr>ss_handshake := h\<rparr>
        in case what of
             StepReopenHeld \<Rightarrow> (Inl HeldReopen, k)
           | StepDrop \<Rightarrow> (Inl Silent, k)
           | _ \<Rightarrow> receive i s (clients_act (ti_meanwhile i) (transmit i what (hs_framing h) k)))"

section \<open>The outer loop\<close>

definition drop_held :: "bool \<Rightarrow> link \<Rightarrow> link" where
  "drop_held held k =
     (if held \<and> lk_connected k then emit [DisconnectedEv] (k\<lparr>lk_connected := False, lk_queue := []\<rparr>) else k)"

text \<open>What closing the port leaves, and whether the connection is held for a reopen.\<close>

definition close_session :: "session_end \<Rightarrow> link \<Rightarrow> bool \<times> link" where
  "close_session why k =
     (let k = k\<lparr>lk_open := False\<rparr> in
      if why = HeldReopen then (True, k)
      else
        let was_connected = lk_connected k;
            k = k\<lparr>lk_connected := False, lk_features := no_features, lk_live := None, lk_live_asked := None,
                  lk_queue := []\<rparr>
        in (False, if was_connected then emit [DisconnectedEv] k else k))"

datatype phase = Looking bool | Talking port_session

record ('e, 'd) outer_input =
  oi_port :: "string option"
  oi_opens :: bool
  oi_before :: "client_op list"
  oi_turn :: "('e, 'd) turn_input"

fun worker_pass :: "('e, 'd) outer_input \<Rightarrow> phase \<times> link \<Rightarrow> phase \<times> link" where
  "worker_pass i (Looking held, k0) =
     (let k = clients_act (oi_before i) k0 in
      if lk_paused k then (Looking False, k)
      else case oi_port i of
             None \<Rightarrow> (Looking False, drop_held held k)
           | Some p \<Rightarrow>
               if oi_opens i then (Talking (open_session p held), k\<lparr>lk_open := True\<rparr>)
               else (Looking False, drop_held held k))"
| "worker_pass i (Talking s, k) =
     (case inner_turn (oi_turn i) s k of
        (Inr s, k) \<Rightarrow> (Talking s, k)
      | (Inl why, k) \<Rightarrow> let (held, k) = close_session why k in (Looking held, k))"

fun worker_passes :: "('e, 'd) outer_input list \<Rightarrow> phase \<times> link \<Rightarrow> phase \<times> link" where
  "worker_passes [] pk = pk"
| "worker_passes (i # is) pk = worker_passes is (worker_pass i pk)"

section \<open>The probe\<close>

text \<open>
  One pass of the probe's loop: the Hello that is due, what is read, and the first HelloAck in it.
  \<open>Inl\<close>: the probe is over, with the pad's answer if it is an OPad.
\<close>

datatype probe_input = ProbeInput (pi_now: instant) (pi_write_ok: bool) (pi_read: read_result)

function (sequential) first_ack :: "(pad_to_host, 'd) codec \<Rightarrow> framing option \<Rightarrow> u8 list
    \<Rightarrow> (hello_ack \<times> framing) option \<times> u8 list" where
  "first_ack c acc buf =
     (case decode_frame c buf acc of
        (Inr None, rest) \<Rightarrow> (None, rest)
      | (Inr (Some (m, f)), rest) \<Rightarrow>
          (case ph_payload m of
             Some (HelloAckMsg a) \<Rightarrow> (Some (a, f), rest)
           | _ \<Rightarrow> first_ack c acc rest)
      | (Inl e, rest) \<Rightarrow> first_ack c acc rest)"
  by pat_completeness auto
termination
  by (relation "measure (\<lambda>(c, acc, buf). length buf)")
     (auto dest: decode_frame_progress [OF sym])

declare first_ack.simps [simp del]

definition probe_turn :: "(pad_to_host, 'd) codec \<Rightarrow> probe_input \<Rightarrow> handshake_state \<times> u8 list
    \<Rightarrow> ((hello_ack \<times> framing) option, handshake_state \<times> u8 list) result" where
  "probe_turn c i hb =
     (let (h, buf) = hb in
      if retry_due h (pi_now i) \<and> probe_exhausted (hs_unanswered h) then Inl None
      else case handshake_step h (pi_now i) False False of
             (StepReopenHeld, h) \<Rightarrow> Inl None
           | (StepDrop, h) \<Rightarrow> Inl None
           | (what, h) \<Rightarrow>
               if what \<noteq> StepWait \<and> \<not> pi_write_ok i then Inl None
               else case pi_read i of
                      ReadGone \<Rightarrow> Inl None
                    | r \<Rightarrow>
                        (case first_ack c (hs_framing h) (buf @ (case r of ReadBytes bs \<Rightarrow> bs | _ \<Rightarrow> [])) of
                           (Some (a, f), rest) \<Rightarrow> Inl (if is_opad_device_id (ha_device_id a) then Some (a, f) else None)
                         | (None, rest) \<Rightarrow> Inr (h, rest)))"

fun probe_turns :: "(pad_to_host, 'd) codec \<Rightarrow> probe_input list \<Rightarrow> handshake_state \<times> u8 list
    \<Rightarrow> ((hello_ack \<times> framing) option, handshake_state \<times> u8 list) result" where
  "probe_turns c [] hb = Inr hb"
| "probe_turns c (i # is) hb = (case probe_turn c i hb of Inl r \<Rightarrow> Inl r | Inr hb \<Rightarrow> probe_turns c is hb)"

definition probe_handshake :: "(pad_to_host, 'd) codec \<Rightarrow> probe_input list
    \<Rightarrow> ((hello_ack \<times> framing) option, handshake_state \<times> u8 list) result" where
  "probe_handshake c is = probe_turns c is (new_handshake, [])"

end
