(* ===== verification/Pad_Worker_Safety.thy ===== *)
theory Pad_Worker_Safety
  imports Pad_Worker
begin

text \<open>
  What the serial worker promises: a port without an answer is given up in bounded time, in the
  worker and in the probe; both framings are offered; nothing is broadcast before a pad has said who
  it is. And two things it does not: a pause that is taken back at once leaves a pad that is neither
  connected nor asked again, and a pause while a connection is held replays its commands later.
\<close>

section \<open>A loop that says Hello\<close>

text \<open>
  A pass either ends the loop, or gets an answer, or sends the Hello that is due, or waits. What the
  worker and the probe share is that this cannot go on for long: \<open>silent\<close> passes go on without an
  answer, and \<open>paced\<close> ones do not go back in time and are at most \<open>g\<close> apart.
\<close>

fun silent :: "('i \<Rightarrow> 's \<Rightarrow> 's option) \<Rightarrow> ('s \<Rightarrow> handshake_state) \<Rightarrow> 'i list \<Rightarrow> 's \<Rightarrow> bool" where
  "silent pass hs [] s = (\<not> hs_answered (hs s))"
| "silent pass hs (i # xs) s =
     (\<not> hs_answered (hs s) \<and> (case pass i s of None \<Rightarrow> False | Some s' \<Rightarrow> silent pass hs xs s'))"

fun paced :: "('i \<Rightarrow> instant) \<Rightarrow> nat \<Rightarrow> instant \<Rightarrow> 'i list \<Rightarrow> bool" where
  "paced at_time g t [] = True"
| "paced at_time g t (i # xs) = (t \<le> at_time i \<and> at_time i \<le> t + g \<and> paced at_time g (at_time i) xs)"

lemma silent_unanswered: "silent pass hs xs s \<Longrightarrow> \<not> hs_answered (hs s)"
  by (cases xs) auto

locale hello_loop =
  fixes pass :: "'i \<Rightarrow> 's \<Rightarrow> 's option" and at_time :: "'i \<Rightarrow> instant" and hs :: "'s \<Rightarrow> handshake_state"
    and limit :: u32
  assumes passes: "\<lbrakk>\<not> hs_answered (hs s); pass i s = Some s'; \<not> hs_answered (hs s')\<rbrakk> \<Longrightarrow>
      hs_unanswered (hs s) < limit \<and> hs_unanswered (hs s') = hs_unanswered (hs s) + 1
        \<and> hs_last_hello (hs s') = Some (at_time i)
      \<or> \<not> retry_due (hs s) (at_time i) \<and> hs_unanswered (hs s') = hs_unanswered (hs s)
        \<and> hs_last_hello (hs s') = hs_last_hello (hs s)"
begin

lemma passes_cases:
  assumes "silent pass hs (i # xs) s"
  obtains (send) s' where "pass i s = Some s'" "silent pass hs xs s'"
      "hs_last_hello (hs s') = Some (at_time i)"
      "unat limit - unat (hs_unanswered (hs s)) = Suc (unat limit - unat (hs_unanswered (hs s')))"
    | (wait) s' where "pass i s = Some s'" "silent pass hs xs s'" "\<not> retry_due (hs s) (at_time i)"
      "hs_unanswered (hs s') = hs_unanswered (hs s)" "hs_last_hello (hs s') = hs_last_hello (hs s)"
proof -
  obtain s' where s': "pass i s = Some s'" "silent pass hs xs s'"
    using assms by (auto split: option.splits)
  have "unat (u + 1) = Suc (unat u)" if "u < limit" for u :: u32
    using that unsigned_less [of limit, where 'a = nat] by (simp add: unat_word_ariths word_less_nat_alt)
  moreover have "unat u < unat limit" if "u < limit" for u :: u32
    using that by (simp add: word_less_nat_alt)
  ultimately show thesis
    using passes [OF silent_unanswered [OF assms] s'(1) silent_unanswered [OF s'(2)]] s' send wait
    by (metis Suc_diff_Suc)
qed

lemma silent_is_short:
  "\<lbrakk>silent pass hs xs s; hs_last_hello (hs s) = Some l; l \<le> p; p < l + HELLO_RETRY; paced at_time g p xs; xs \<noteq> []\<rbrakk>
     \<Longrightarrow> at_time (last xs) < l + Suc (unat limit - unat (hs_unanswered (hs s))) * (HELLO_RETRY + g)"
proof (induction xs arbitrary: s l p)
  case (Cons i xs)
  let ?left = "\<lambda>s. unat limit - unat (hs_unanswered (hs s))"
  have t: "p \<le> at_time i" "at_time i \<le> p + g" "paced at_time g (at_time i) xs" using Cons.prems(5) by auto
  show ?case
  proof (rule passes_cases [OF Cons.prems(1)])
    fix s' assume s': "pass i s = Some s'" "silent pass hs xs s'" "hs_last_hello (hs s') = Some (at_time i)"
      "?left s = Suc (?left s')"
    show ?thesis
    proof (cases "xs = []")
      case True
      then show ?thesis using t Cons.prems(4) by (simp add: add.assoc add.left_commute)
    next
      case False
      have "at_time (last xs) < at_time i + Suc (?left s') * (HELLO_RETRY + g)"
        by (rule Cons.IH [OF s'(2,3) order_refl _ t(3) False]) (simp add: HELLO_RETRY_def from_millis_def)
      moreover have "at_time i < l + (HELLO_RETRY + g)" using t Cons.prems(4) by simp
      ultimately show ?thesis using False s'(4) by simp
    qed
  next
    fix s' assume s': "pass i s = Some s'" "silent pass hs xs s'" "\<not> retry_due (hs s) (at_time i)"
      "hs_unanswered (hs s') = hs_unanswered (hs s)" "hs_last_hello (hs s') = hs_last_hello (hs s)"
    have now: "at_time i < l + HELLO_RETRY"
      using s'(3) silent_unanswered [OF Cons.prems(1)] Cons.prems(2,3) t(1) by (simp add: retry_due_def)
    show ?thesis
    proof (cases "xs = []")
      case True
      then show ?thesis using now by simp
    next
      case False
      then show ?thesis
        using Cons.IH [OF s'(2) _ _ now t(3) False] s'(4,5) Cons.prems(2,3) t(1) by simp
    qed
  qed
qed simp

lemma silence_from_the_start:
  assumes "silent pass hs (i # xs) s" and "hs_last_hello (hs s) = None" and "hs_unanswered (hs s) = 0"
    and "paced at_time g (at_time i) xs"
  shows "at_time (last (i # xs)) < at_time i + unat limit * (HELLO_RETRY + g)"
proof (rule passes_cases [OF assms(1)])
  fix s' assume s': "pass i s = Some s'" "silent pass hs xs s'" "hs_last_hello (hs s') = Some (at_time i)"
    "unat limit - unat (hs_unanswered (hs s)) = Suc (unat limit - unat (hs_unanswered (hs s')))"
  show ?thesis
  proof (cases "xs = []")
    case True
    then show ?thesis using s'(4) assms(3) by (simp add: HELLO_RETRY_def from_millis_def)
  next
    case False
    then show ?thesis
      using silent_is_short [OF s'(2,3) order_refl _ assms(4) False] s'(4) assms(3)
      by (simp add: HELLO_RETRY_def from_millis_def del: mult_Suc)
  qed
next
  fix s' assume "\<not> retry_due (hs s) (at_time i)"
  then show ?thesis using silent_unanswered [OF assms(1)] assms(2) by (simp add: retry_due_def)
qed

end

section \<open>The worker's Hellos\<close>

lemma parse_ready_invariant:
  assumes "P s" and "\<And>m s. P s \<Longrightarrow> P (on_msg m s)"
  shows "P (fst (parse_ready c acc on_msg s buf))"
  using assms
proof (induction c acc on_msg s buf rule: parse_ready.induct)
  case (1 c acc on_msg s buf)
  obtain r rest where d: "decode_frame c buf (acc s) = (r, rest)" by fastforce
  have "P (fst (parse_ready c acc on_msg (on_msg m s) rest))" if "r = Inr (Some m)" for m
    by (rule "1.IH"(2) [OF d [symmetric] that refl "1.prems"(2) [OF "1.prems"(1)]]) (rule "1.prems"(2))
  moreover have "P (fst (parse_ready c acc on_msg s rest))" if "r = Inl e" for e
    by (rule "1.IH"(1) [OF d [symmetric] that "1.prems"(1)]) (rule "1.prems"(2))
  ultimately show ?case
    using "1.prems"(1) by (simp add: parse_ready.simps [of c acc on_msg s buf] d split: sum.splits option.splits)
qed

text \<open>A handshake only changes by being answered while bytes are taken.\<close>

lemma on_message_handshake:
  "\<lbrakk>ss_handshake (fst sk) = h \<or> hs_answered (ss_handshake (fst sk))\<rbrakk>
     \<Longrightarrow> ss_handshake (fst (on_message now mf sk)) = h \<or> hs_answered (ss_handshake (fst (on_message now mf sk)))"
  by (auto simp: on_message_def answered_in_def Let_def split: prod.splits option.splits device_payload.splits)

lemma take_bytes_invariant:
  assumes "take_bytes c now bytes s k = (s', k')" and "P (s, k)" and "\<And>mf sk. P sk \<Longrightarrow> P (on_message now mf sk)"
  obtains s1 b t where "P (s1, k')" "s' = s1\<lparr>ss_buf := b, ss_partial := t\<rparr>"
proof -
  let ?r = "parse_ready c (\<lambda>(s, k). hs_framing (ss_handshake s)) (on_message now) (s, k) (ss_buf s @ bytes)"
  obtain s1 k1 rest where r: "?r = ((s1, k1), rest)" by (metis prod.collapse)
  have "P (fst ?r)" using assms(2,3) by (rule parse_ready_invariant)
  then show thesis using that assms(1) by (auto simp: take_bytes_def r)
qed

lemma take_bytes_handshake:
  assumes "take_bytes c now bytes s k = (s', k')"
  shows "ss_handshake s' = ss_handshake s \<or> hs_answered (ss_handshake s')"
proof (rule take_bytes_invariant [OF assms, of "\<lambda>sk. ss_handshake (fst sk) = ss_handshake s \<or> hs_answered (ss_handshake (fst sk))"])
  show "ss_handshake (fst (on_message now mf sk)) = ss_handshake s \<or> hs_answered (ss_handshake (fst (on_message now mf sk)))"
    if "ss_handshake (fst sk) = ss_handshake s \<or> hs_answered (ss_handshake (fst sk))" for mf sk
    using that by (rule on_message_handshake)
qed auto

definition port_turn :: "('e, 'd) turn_input \<Rightarrow> port_session \<times> link \<Rightarrow> (port_session \<times> link) option" where
  "port_turn i sk = (case inner_turn i (fst sk) (snd sk) of (Inl _, _) \<Rightarrow> None | (Inr s, k) \<Rightarrow> Some (s, k))"

lemma prepare_handshake:
  "prepare now s k = (s', k') \<Longrightarrow>
     ss_handshake s' = ss_handshake s \<or> ss_handshake s' = restart_handshake (ss_handshake s)"
  by (auto simp: prepare_def drop_stale_def restart_handshake_def Let_def split: if_splits)

lemma receive_handshake:
  "receive i s k = (Inr s', k') \<Longrightarrow> ss_handshake s' = ss_handshake s \<or> hs_answered (ss_handshake s')"
  by (auto simp: receive_def split: read_result.splits if_splits prod.splits dest: take_bytes_handshake)

text \<open>A turn that goes on, in its parts.\<close>

lemma inner_turn_goes_on:
  assumes "inner_turn i s k = (Inr s', k')"
  obtains s1 k1 what h where "\<not> lk_paused (clients_act (ti_before i) k)"
    "prepare (ti_now i) s (clients_act (ti_before i) k) = (s1, k1)"
    "handshake_step (ss_handshake s1) (ti_now i) (lk_connected k1) (ss_held s1) = (what, h)"
    "what = StepWait \<or> (\<exists>f. what = StepSend f)"
    "receive i (s1\<lparr>ss_handshake := h\<rparr>) (clients_act (ti_meanwhile i) (transmit i what (hs_framing h) k1)) = (Inr s', k')"
  using assms
  by (auto simp: inner_turn_def Let_def split: if_splits prod.splits hello_step.splits)

lemma hello_step_cases:
  assumes "handshake_step h now conn held = (what, h')" and "what = StepWait \<or> (\<exists>f. what = StepSend f)"
  obtains (wait) "\<not> retry_due h now" "h' = h" "what = StepWait"
    | (send) "retry_due h now" "hs_unanswered h < HELLOS_BEFORE_REOPEN"
      "h' = h\<lparr>hs_last_hello := Some now, hs_unanswered := hs_unanswered h + 1\<rparr>"
  using assms by (auto simp: handshake_step_def hello_due_def split: if_splits)

interpretation worker_hellos: hello_loop port_turn ti_now "\<lambda>sk. ss_handshake (fst sk)" HELLOS_BEFORE_REOPEN
proof
  fix sk sk' :: "port_session \<times> link" and i :: "('e, 'd) turn_input"
  assume a: "\<not> hs_answered (ss_handshake (fst sk))" "port_turn i sk = Some sk'"
    "\<not> hs_answered (ss_handshake (fst sk'))"
  obtain s k where sk: "sk = (s, k)" by fastforce
  obtain s' k' where turn: "sk' = (s', k')" "inner_turn i s k = (Inr s', k')"
    using a(2) by (auto simp: sk port_turn_def split: sum.splits prod.splits)
  obtain s1 k1 what h where p: "prepare (ti_now i) s (clients_act (ti_before i) k) = (s1, k1)"
      "handshake_step (ss_handshake s1) (ti_now i) (lk_connected k1) (ss_held s1) = (what, h)"
      "what = StepWait \<or> (\<exists>f. what = StepSend f)"
    and r: "receive i (s1\<lparr>ss_handshake := h\<rparr>) (clients_act (ti_meanwhile i) (transmit i what (hs_framing h) k1))
      = (Inr s', k')"
    using inner_turn_goes_on [OF turn(2)] by metis
  have h: "ss_handshake s' = h" using receive_handshake [OF r] a(3) turn(1) by auto
  show "hs_unanswered (ss_handshake (fst sk)) < HELLOS_BEFORE_REOPEN
      \<and> hs_unanswered (ss_handshake (fst sk')) = hs_unanswered (ss_handshake (fst sk)) + 1
      \<and> hs_last_hello (ss_handshake (fst sk')) = Some (ti_now i)
    \<or> \<not> retry_due (ss_handshake (fst sk)) (ti_now i)
      \<and> hs_unanswered (ss_handshake (fst sk')) = hs_unanswered (ss_handshake (fst sk))
      \<and> hs_last_hello (ss_handshake (fst sk')) = hs_last_hello (ss_handshake (fst sk))"
    using p(2,3)
  proof (cases rule: hello_step_cases)
    case wait
    then show ?thesis
      using prepare_handshake [OF p(1)] h turn(1) sk by (auto simp: retry_due_def restart_handshake_def)
  next
    case send
    then show ?thesis
      using prepare_handshake [OF p(1)] h turn(1) sk by (auto simp: restart_handshake_def)
  qed
qed

section \<open>Both framings are offered\<close>

lemma hello_framing_next: "u < HELLOS_BEFORE_REOPEN \<Longrightarrow> hello_framing (u + 1) \<noteq> hello_framing u"
  by (auto simp: hello_framing_def simp flip: even_iff_mod_2_eq_zero)

lemma hello_sent:
  assumes "handshake_step h now conn held = (StepSend f, h')"
  shows "retry_due h now" "hs_unanswered h < HELLOS_BEFORE_REOPEN"
    "f = (case hs_framing h of Some g \<Rightarrow> g | None \<Rightarrow> hello_framing (hs_unanswered h))"
    "h' = h\<lparr>hs_last_hello := Some now, hs_unanswered := hs_unanswered h + 1\<rparr>"
  using assms by (auto simp: handshake_step_def hello_due_def split: if_splits)

text \<open>
  While the pad's framing is unknown the n-th Hello is marked for an even n and legacy for an odd
  one, so of any two Hellos in a row that go unanswered one is in each framing; once it is known,
  every Hello is in it. Hellos are never closer than the retry time.
\<close>

lemma hellos_alternate:
  assumes "handshake_step h now conn held = (StepSend f, h')"
    and "handshake_step h' now' conn' held' = (StepSend f', h'')"
  shows "HELLO_RETRY \<le> now' - now \<and> (case hs_framing h of None \<Rightarrow> f \<noteq> f' | Some g \<Rightarrow> f = g \<and> f' = g)"
proof -
  have h': "hs_framing h' = hs_framing h" "hs_unanswered h' = hs_unanswered h + 1" "hs_last_hello h' = Some now"
    using hello_sent(4) [OF assms(1)] by simp_all
  have "HELLO_RETRY \<le> now' - now" using hello_sent(1) [OF assms(2)] h'(3) by (simp add: retry_due_def)
  moreover note f = hello_sent(3) [OF assms(1)] hello_sent(3) [OF assms(2), unfolded h']
    and next_framing = hello_framing_next [OF hello_sent(2) [OF assms(1)]]
  ultimately show ?thesis by (cases "hs_framing h") (simp_all only: f option.case not_sym [OF next_framing] simp_thms)
qed

lemmas first_hello = handshake_step_def retry_due_def hello_due_def hello_framing_def new_handshake_def
  HELLO_RETRY_def HELLOS_BEFORE_REOPEN_def from_millis_def

lemma hellos_alternate_witness:
  "HELLO_RETRY \<le> from_millis 400 - 0 \<and> (case hs_framing new_handshake of None \<Rightarrow> Marked \<noteq> Legacy | Some g \<Rightarrow> Marked = g \<and> Legacy = g)"
proof (rule hellos_alternate)
  show "handshake_step new_handshake 0 False False
      = (StepSend Marked, new_handshake\<lparr>hs_last_hello := Some 0, hs_unanswered := 1\<rparr>)"
    by (simp add: first_hello)
  show "handshake_step (new_handshake\<lparr>hs_last_hello := Some 0, hs_unanswered := 1\<rparr>) (from_millis 400) False False
      = (StepSend Legacy, new_handshake\<lparr>hs_last_hello := Some (from_millis 400), hs_unanswered := 2\<rparr>)"
    by (simp add: first_hello)
qed

section \<open>A port that does not answer is given up\<close>

text \<open>
  C26: An opened port is not asked for long: if the loop comes round at least every \<open>g\<close> and no Hello is
  answered, it cannot still be going ten Hello intervals after its first pass. Whatever the clients of
  the handle do, whatever the port delivers and whether its writes succeed, the worker then closes it.
\<close>

theorem silent_port_is_given_up:
  assumes "silent port_turn (\<lambda>sk. ss_handshake (fst sk)) (i # xs) (open_session p held, k)"
    and "paced ti_now g (ti_now i) xs"
  shows "ti_now (last (i # xs)) < ti_now i + 10 * (HELLO_RETRY + g)"
  using worker_hellos.silence_from_the_start [OF assms(1) _ _ assms(2)]
  by (simp add: open_session_def new_handshake_def HELLOS_BEFORE_REOPEN_def)

text \<open>A worker pass every 10 ms, while nothing is read and nobody uses the handle.\<close>

definition quiet_turn :: "('e, 'd) turn_input \<Rightarrow> instant \<Rightarrow> ('e, 'd) turn_input" where
  "quiet_turn i now = i\<lparr>ti_now := now, ti_read_at := now, ti_read := ReadNothing, ti_before := [], ti_meanwhile := []\<rparr>"

lemma silent_port_is_given_up_witness:
  fixes i :: "(unit, unit) turn_input"
  shows "\<forall>i. ti_now (quiet_turn (i :: (unit, unit) turn_input) (from_millis 400))
    < ti_now (quiet_turn i 0) + 10 * (HELLO_RETRY + from_millis 400)"
proof
  fix i :: "(unit, unit) turn_input"
  let ?xs = "[quiet_turn i (from_millis 400)]"
  have "ti_now (last (quiet_turn i 0 # ?xs)) < ti_now (quiet_turn i 0) + 10 * (HELLO_RETRY + from_millis 400)"
  proof (rule silent_port_is_given_up)
    show "silent port_turn (\<lambda>sk. ss_handshake (fst sk)) (quiet_turn i 0 # ?xs) (open_session ''/dev/ttyACM0'' False, new_link)"
      by (simp add: port_turn_def inner_turn_def quiet_turn_def clients_act_def new_link_def prepare_def
          drop_stale_def open_session_def first_hello transmit_def receive_def)
    show "paced ti_now (from_millis 400) (ti_now (quiet_turn i 0)) ?xs"
      by (simp add: quiet_turn_def)
  qed
  then show "ti_now (quiet_turn i (from_millis 400)) < ti_now (quiet_turn i 0) + 10 * (HELLO_RETRY + from_millis 400)"
    by simp
qed

section \<open>The probe\<close>

definition probe_pass :: "(pad_to_host, 'd) codec \<Rightarrow> probe_input \<Rightarrow> handshake_state \<times> u8 list \<Rightarrow> (handshake_state \<times> u8 list) option" where
  "probe_pass c i hb = (case probe_turn c i hb of Inl _ \<Rightarrow> None | Inr hb \<Rightarrow> Some hb)"

lemma probe_pass_handshake:
  assumes "probe_pass c i (h, buf) = Some hb"
  obtains what where "handshake_step h (pi_now i) False False = (what, fst hb)"
    "what = StepWait \<or> (\<exists>f. what = StepSend f)" "retry_due h (pi_now i) \<Longrightarrow> hs_unanswered h < PROBE_HELLOS"
  using assms
  by (auto simp: probe_pass_def probe_turn_def probe_exhausted_def not_le
      split: if_splits prod.splits hello_step.splits read_result.splits option.splits sum.splits)

interpretation probe_hellos: hello_loop "probe_pass c" pi_now fst PROBE_HELLOS for c
proof
  fix hb hb' :: "handshake_state \<times> u8 list" and i
  assume a: "\<not> hs_answered (fst hb)" "probe_pass c i hb = Some hb'"
  obtain h buf where hb: "hb = (h, buf)" by fastforce
  show "hs_unanswered (fst hb) < PROBE_HELLOS \<and> hs_unanswered (fst hb') = hs_unanswered (fst hb) + 1
      \<and> hs_last_hello (fst hb') = Some (pi_now i)
    \<or> \<not> retry_due (fst hb) (pi_now i) \<and> hs_unanswered (fst hb') = hs_unanswered (fst hb)
      \<and> hs_last_hello (fst hb') = hs_last_hello (fst hb)"
  proof (rule probe_pass_handshake [OF a(2) [unfolded hb]])
    fix what assume p: "handshake_step h (pi_now i) False False = (what, fst hb')"
      "what = StepWait \<or> (\<exists>f. what = StepSend f)" "retry_due h (pi_now i) \<Longrightarrow> hs_unanswered h < PROBE_HELLOS"
    from p(1,2) show ?thesis
      by (cases rule: hello_step_cases) (use p(3) in \<open>auto simp: hb\<close>)
  qed
qed

lemma handshake_step_answered:
  "handshake_step h now conn held = (what, h') \<Longrightarrow> hs_answered h' = hs_answered h"
  by (auto simp: handshake_step_def split: if_splits hello_due.splits)

lemma probe_turns_silent:
  "\<lbrakk>probe_turns c xs hb = Inr hb'; \<not> hs_answered (fst hb)\<rbrakk> \<Longrightarrow> silent (probe_pass c) fst xs hb"
proof (induction xs arbitrary: hb)
  case (Cons i xs)
  obtain h buf where hb: "hb = (h, buf)" by fastforce
  obtain hb1 where step: "probe_turn c i hb = Inr hb1" and rest: "probe_turns c xs hb1 = Inr hb'"
    using Cons.prems(1) by (auto split: sum.splits)
  then have "probe_pass c i hb = Some hb1" by (simp add: probe_pass_def)
  moreover from this have "\<not> hs_answered (fst hb1)"
    unfolding hb by (rule probe_pass_handshake)
      (use Cons.prems(2) hb in \<open>auto dest: handshake_step_answered\<close>)
  ultimately show ?case using Cons.IH [OF rest] Cons.prems(2) by simp
qed simp

text \<open>
  The probe of a port nobody knows ends: if its loop comes round at least every \<open>g\<close>, then once it
  has gone for two Hello intervals it has a result, whatever the port sends back.
\<close>

theorem probe_ends:
  assumes "paced pi_now g (pi_now i) xs" and "pi_now i + 2 * (HELLO_RETRY + g) \<le> pi_now (last (i # xs))"
  shows "\<exists>r. probe_handshake c (i # xs) = Inl r"
proof (rule ccontr)
  assume "\<not> ?thesis"
  then obtain hb where "probe_handshake c (i # xs) = Inr hb" by (cases "probe_handshake c (i # xs)") auto
  then have "silent (probe_pass c) fst (i # xs) (new_handshake, [])"
    by (intro probe_turns_silent) (simp_all add: probe_handshake_def new_handshake_def del: probe_turns.simps)
  from probe_hellos.silence_from_the_start [OF this _ _ assms(1)] assms(2) show False
    by (simp add: new_handshake_def PROBE_HELLOS_def)
qed

lemma probe_ends_witness:
  "\<forall>c :: (pad_to_host, unit) codec. \<exists>r. probe_handshake c
     [ProbeInput 0 True ReadNothing, ProbeInput (from_millis 400) True ReadNothing,
      ProbeInput (from_millis 800) True ReadNothing, ProbeInput (from_millis 1200) True ReadNothing,
      ProbeInput (from_millis 1600) True ReadNothing] = Inl r"
  by (intro allI probe_ends [where g = "from_millis 400"]) (simp_all add: HELLO_RETRY_def from_millis_def)

section \<open>Writing a frame\<close>

text \<open>
  What goes out of a frame is always a prefix of it, in order, however the port splits it; the
  frame is reported written only if all of it went out, and lost only if some of it did not. A
  retry costs nothing but time, and only a write that takes nothing, an error, or the deadline ends it.
\<close>

theorem write_frame_prefix:
  "case write_frame until outs frame of (out, r) \<Rightarrow>
     \<exists>rest. frame = out @ rest \<and> (r = Some True) = (rest = [])"
proof (induction until outs frame rule: write_frame.induct)
  case (4 until n outs rest)
  then show ?case
    by (auto simp: Let_def split: prod.splits) (metis append_assoc append_take_drop_id)+
qed auto

section \<open>What the subscribers are told\<close>

text \<open>
  Read from the start, the events tell whether a pad is connected: an \<open>Ownership\<close> begins a pad's
  answer to Hello, \<open>Disconnected\<close> ends it. They are announced when nothing else comes in between an end
  and the next beginning.
\<close>

fun told :: "bool \<Rightarrow> device_event list \<Rightarrow> bool" where
  "told b [] = b"
| "told b (DisconnectedEv # es) = told False es"
| "told b (OwnershipEv v # es) = told True es"
| "told b (e # es) = told b es"

fun announced :: "bool \<Rightarrow> device_event list \<Rightarrow> bool" where
  "announced b [] = True"
| "announced b (DisconnectedEv # es) = announced False es"
| "announced b (OwnershipEv v # es) = announced True es"
| "announced b (e # es) = (b \<and> announced b es)"

lemma told_append [simp]: "told b (xs @ ys) = told (told b xs) ys"
  by (induction b xs rule: told.induct) auto

lemma announced_append [simp]: "announced b (xs @ ys) = (announced b xs \<and> announced (told b xs) ys)"
  by (induction b xs rule: announced.induct) auto

lemma payload_events_announced:
  "told True (payload_events sq now p) \<and> announced True (payload_events sq now p)"
  by (cases p) (auto split: option.split)

lemma hello_ack_announced:
  "told b (payload_events sq now (HelloAckMsg a)) \<and> announced b (payload_events sq now (HelloAckMsg a))"
  by simp

text \<open>The flag says what the subscribers were told.\<close>

definition in_step :: "link \<Rightarrow> bool" where
  "in_step k \<longleftrightarrow> announced False (lk_events k) \<and> told False (lk_events k) = lk_connected k"

lemma in_step_new [simp]: "in_step new_link"
  by (simp add: in_step_def new_link_def)

lemma in_step_same: "lk_events k' = lk_events k \<Longrightarrow> lk_connected k' = lk_connected k \<Longrightarrow> in_step k' = in_step k"
  by (simp add: in_step_def)

lemma in_step_disconnects: "in_step k \<Longrightarrow> lk_events k' = lk_events k @ [DisconnectedEv] \<Longrightarrow> \<not> lk_connected k' \<Longrightarrow> in_step k'"
  by (simp add: in_step_def)

text \<open>What sending leaves alone.\<close>

lemma send_payloads_keeps:
  "send_payloads ps k = (r, k') \<Longrightarrow> lk_events k' = lk_events k \<and> lk_connected k' = lk_connected k
     \<and> lk_paused k' = lk_paused k \<and> lk_rehello k' = lk_rehello k \<and> lk_written k' = lk_written k
     \<and> (\<not> lk_connected k \<longrightarrow> lk_queue k' = lk_queue k)"
  by (induction ps arbitrary: k) (auto simp: send_msg_def split: if_splits)

lemma snd_send_payloads [simp]:
  "lk_events (snd (send_payloads ps k)) = lk_events k" "lk_connected (snd (send_payloads ps k)) = lk_connected k"
  "lk_paused (snd (send_payloads ps k)) = lk_paused k" "lk_rehello (snd (send_payloads ps k)) = lk_rehello k"
  "lk_written (snd (send_payloads ps k)) = lk_written k"
  "\<not> lk_connected k \<Longrightarrow> lk_queue (snd (send_payloads ps k)) = lk_queue k"
  using send_payloads_keeps [of ps k, OF prod.collapse [symmetric]] by auto

declare send_payloads.simps(2) [simp del]

lemma he_live_poll_keeps [simp]:
  "lk_events (snd (he_live_poll now k)) = lk_events k" "lk_connected (snd (he_live_poll now k)) = lk_connected k"
  "lk_paused (snd (he_live_poll now k)) = lk_paused k" "lk_rehello (snd (he_live_poll now k)) = lk_rehello k"
  "lk_written (snd (he_live_poll now k)) = lk_written k"
  "\<not> lk_connected k \<Longrightarrow> lk_queue (snd (he_live_poll now k)) = lk_queue k"
  by (simp_all add: he_live_poll_def Let_def)

lemma client_act_in_step: "in_step k \<Longrightarrow> in_step (client_act op k)"
  by (cases op)
    (simp_all add: in_step_def send_message_def pause_link_def emit_def resume_link_def rehandshake_def take_lost_writes_def)

lemma client_act_paused:
  "lk_paused (client_act op k) = (op = PauseOp \<or> lk_paused k \<and> op \<noteq> ResumeOp)"
  by (cases op)
    (simp_all add: send_message_def pause_link_def emit_def resume_link_def rehandshake_def take_lost_writes_def)

lemma client_act_connected: "PauseOp \<noteq> op \<Longrightarrow> lk_connected (client_act op k) = lk_connected k"
  by (cases op) (simp_all add: send_message_def resume_link_def rehandshake_def take_lost_writes_def)

lemma clients_act_Nil [simp]: "clients_act [] k = k"
  by (simp add: clients_act_def)

lemma clients_act_Cons [simp]: "clients_act (op # ops) k = clients_act ops (client_act op k)"
  by (simp add: clients_act_def)

lemma clients_act_in_step: "in_step k \<Longrightarrow> in_step (clients_act ops k)"
  by (induction ops arbitrary: k) (simp_all add: client_act_in_step)

lemma clients_act_connected: "PauseOp \<notin> set ops \<Longrightarrow> lk_connected (clients_act ops k) = lk_connected k"
  by (induction ops arbitrary: k) (simp_all add: client_act_connected)

lemma clients_act_unpaused: "PauseOp \<notin> set ops \<Longrightarrow> \<not> lk_paused k \<Longrightarrow> \<not> lk_paused (clients_act ops k)"
  by (induction ops arbitrary: k) (auto simp: client_act_paused)

lemma clients_act_still_paused: "ResumeOp \<notin> set ops \<Longrightarrow> lk_paused k \<Longrightarrow> lk_paused (clients_act ops k)"
  by (induction ops arbitrary: k) (auto simp: client_act_paused)

lemma clients_act_pauses: "PauseOp \<in> set ops \<Longrightarrow> ResumeOp \<notin> set ops \<Longrightarrow> lk_paused (clients_act ops k)"
  by (induction ops arbitrary: k) (auto simp: client_act_paused clients_act_still_paused pause_link_def emit_def)

text \<open>A session is in step when, besides, an answered handshake means a connected pad.\<close>

definition session_in_step :: "port_session \<times> link \<Rightarrow> bool" where
  "session_in_step sk \<longleftrightarrow> in_step (snd sk) \<and> (hs_answered (ss_handshake (fst sk)) \<longrightarrow> lk_connected (snd sk))"

lemma events_in_step:
  assumes "in_step k" and "lk_connected k" and "lk_events k' = lk_events k @ payload_events sq now p"
    and "lk_connected k'"
  shows "in_step k'"
  using assms payload_events_announced [of sq now p] by (auto simp: in_step_def)

lemma answer_in_step:
  assumes "in_step k" and "lk_events k' = lk_events k @ payload_events sq now (HelloAckMsg a)" and "lk_connected k'"
  shows "in_step k'"
  using assms hello_ack_announced [of _ sq now a] by (auto simp: in_step_def simp del: payload_events.simps)

lemma on_message_in_step:
  assumes "session_in_step sk"
  shows "session_in_step (on_message now mf sk)"
proof -
  obtain s k where sk: "sk = (s, k)" by fastforce
  obtain m f where mf: "mf = (m, f)" by fastforce
  have st: "in_step k" "hs_answered (ss_handshake s) \<Longrightarrow> lk_connected k"
    using assms by (auto simp: session_in_step_def sk)
  consider (ack) a where "ph_payload m = Some (HelloAckMsg a)"
    | (other) "\<forall>a. ph_payload m \<noteq> Some (HelloAckMsg a)" by blast
  then show ?thesis
  proof cases
    case ack
    then show ?thesis
      using st by (auto simp: sk mf on_message_def session_in_step_def answered_in_def handle_device_message_def emit_def
          simp del: payload_events.simps intro: answer_in_step)
  next
    case other
    have "in_step (emit (handle_device_message now m) k)" if "accepts_frames (ss_handshake s) (lk_connected k)"
      using that st events_in_step [OF st(1), of "emit (handle_device_message now m) k" "ph_sequence_number m" now]
      by (auto simp: handle_device_message_def emit_def accepts_frames_def accept_frame_def split: option.split)
    then show ?thesis
      using other st by (auto simp: sk mf on_message_def session_in_step_def emit_def in_step_def
          split: option.splits device_payload.splits)
  qed
qed

lemma drain_queue_keeps [simp]:
  "lk_events (drain_queue c ok f n ms k) = lk_events k \<and> lk_connected (drain_queue c ok f n ms k) = lk_connected k
     \<and> lk_paused (drain_queue c ok f n ms k) = lk_paused k"
  by (induction c ok f n ms k rule: drain_queue.induct) (auto split: sum.split)

lemma transmit_keeps [simp]:
  "lk_events (transmit i what known k) = lk_events k" "lk_connected (transmit i what known k) = lk_connected k"
  "lk_paused (transmit i what known k) = lk_paused k"
  by (simp_all add: transmit_def Let_def split: option.split hello_step.split)

lemma prepare_keeps:
  assumes "prepare now s k = (s', k')"
  shows "lk_events k' = lk_events k" "lk_connected k' = lk_connected k" "lk_paused k' = lk_paused k"
    "hs_answered (ss_handshake s') \<Longrightarrow> hs_answered (ss_handshake s)"
  using assms prepare_handshake [OF assms] by (auto simp: prepare_def Let_def restart_handshake_def)

lemma receive_in_step:
  assumes "receive i s k = (r, k')" and "session_in_step (s, k)" and "\<not> lk_paused k"
  shows "in_step k'" "r = Inr s' \<Longrightarrow> session_in_step (s', k') \<and> \<not> lk_paused k'"
proof -
  have unpaused: "\<not> lk_paused (snd (on_message now mf sk))" if "\<not> lk_paused (snd sk)" for now mf sk
    using that by (auto simp: on_message_def emit_def Let_def split: prod.splits option.splits device_payload.splits)
  have "session_in_step (s1, k1) \<and> \<not> lk_paused k1" if "take_bytes (ti_device i) (ti_read_at i) bs s k = (s1, k1)" for s1 k1 bs
    by (rule take_bytes_invariant [OF that, where P = "\<lambda>sk. session_in_step sk \<and> \<not> lk_paused (snd sk)"])
      (use assms on_message_in_step unpaused in \<open>auto simp: session_in_step_def\<close>)
  then show "in_step k'" "r = Inr s' \<Longrightarrow> session_in_step (s', k') \<and> \<not> lk_paused k'"
    using assms by (auto simp: receive_def session_in_step_def split: read_result.splits if_splits prod.splits)
qed

text \<open>
  A pause is calm when the worker finds it: it is not taken back before the worker looks, and it does
  not come between the worker's look and its reading.
\<close>

definition calm :: "('e, 'd) turn_input \<Rightarrow> bool" where
  "calm i \<longleftrightarrow> PauseOp \<notin> set (ti_meanwhile i) \<and> (PauseOp \<in> set (ti_before i) \<longrightarrow> ResumeOp \<notin> set (ti_before i))"

lemma inner_turn_in_step:
  assumes "inner_turn i s k = (r, k')" and "calm i" and "session_in_step (s, k)" and "\<not> lk_paused k"
  shows "in_step k'" "r = Inr s' \<Longrightarrow> session_in_step (s', k') \<and> \<not> lk_paused k'"
proof -
  let ?k = "clients_act (ti_before i) k"
  have st: "in_step ?k" using assms(3) by (simp add: session_in_step_def clients_act_in_step)
  have goal: "in_step k' \<and> (r = Inr s' \<longrightarrow> session_in_step (s', k') \<and> \<not> lk_paused k')"
  proof (cases "lk_paused ?k")
    case True
    then show ?thesis using assms(1) st by (auto simp: inner_turn_def)
  next
    case False
    then have calm: "PauseOp \<notin> set (ti_before i)" "PauseOp \<notin> set (ti_meanwhile i)"
      using assms(2) clients_act_pauses by (auto simp: calm_def)
    obtain s1 k1 where p: "prepare (ti_now i) s ?k = (s1, k1)" by fastforce
    obtain what h where h: "handshake_step (ss_handshake s1) (ti_now i) (lk_connected k1) (ss_held s1) = (what, h)"
      by fastforce
    let ?k2 = "clients_act (ti_meanwhile i) (transmit i what (hs_framing h) k1)"
    have k1: "in_step k1" using in_step_same [OF prepare_keeps(1,2) [OF p]] st by simp
    then have "in_step (transmit i what (hs_framing h) k1)"
      using in_step_same [OF transmit_keeps(1,2)] by blast
    moreover have "lk_connected ?k2 = lk_connected k"
      by (simp only: clients_act_connected [OF calm(2)] transmit_keeps prepare_keeps(2) [OF p] clients_act_connected [OF calm(1)])
    then have "hs_answered h \<longrightarrow> lk_connected ?k2"
      using handshake_step_answered [OF h] prepare_keeps(4) [OF p] assms(3) by (auto simp: session_in_step_def)
    moreover have "\<not> lk_paused ?k2"
      using False prepare_keeps(3) [OF p] by (intro clients_act_unpaused [OF calm(2)]) simp
    ultimately have ok: "session_in_step (s1\<lparr>ss_handshake := h\<rparr>, ?k2)" "\<not> lk_paused ?k2"
      by (simp_all add: session_in_step_def clients_act_in_step)
    have turn: "inner_turn i s k = (case what of StepReopenHeld \<Rightarrow> (Inl HeldReopen, k1)
        | StepDrop \<Rightarrow> (Inl Silent, k1) | _ \<Rightarrow> receive i (s1\<lparr>ss_handshake := h\<rparr>) ?k2)"
      using False by (simp only: inner_turn_def Let_def p h if_False prod.case)
    obtain r2 k3 where rec: "receive i (s1\<lparr>ss_handshake := h\<rparr>) ?k2 = (r2, k3)" by fastforce
    show ?thesis
      using receive_in_step [OF rec ok] k1 assms(1) unfolding turn rec
      by (cases what) auto
  qed
  then show "in_step k'" "r = Inr s' \<Longrightarrow> session_in_step (s', k') \<and> \<not> lk_paused k'" by auto
qed

text \<open>A worker in step: its session too, and never while paused.\<close>

fun worker_in_step :: "phase \<times> link \<Rightarrow> bool" where
  "worker_in_step (Looking held, k) = in_step k"
| "worker_in_step (Talking s, k) = (session_in_step (s, k) \<and> \<not> lk_paused k)"

lemma in_step_open [simp]: "in_step (k\<lparr>lk_open := b\<rparr>) = in_step k"
  by (simp add: in_step_def)

lemma drop_held_in_step: "in_step k \<Longrightarrow> in_step (drop_held held k)"
  by (auto simp: drop_held_def emit_def intro: in_step_disconnects)

lemma close_session_in_step: "in_step k \<Longrightarrow> in_step (snd (close_session why k))"
  by (auto simp: close_session_def emit_def Let_def in_step_def)

lemma worker_pass_in_step:
  assumes "worker_in_step pk" and "calm (oi_turn i)"
  shows "worker_in_step (worker_pass i pk)"
proof -
  obtain ph k where pk: "pk = (ph, k)" by fastforce
  show ?thesis
  proof (cases ph)
    case (Looking held)
    have "in_step (clients_act (oi_before i) k)" using assms(1) by (simp add: pk Looking clients_act_in_step)
    then show ?thesis
      by (simp add: pk Looking Let_def drop_held_in_step session_in_step_def open_session_def
          new_handshake_def split: option.split)
  next
    case (Talking s)
    obtain r k' where r: "inner_turn (oi_turn i) s k = (r, k')" by fastforce
    have st: "session_in_step (s, k)" "\<not> lk_paused k" using assms(1) by (simp_all add: pk Talking)
    show ?thesis
    proof (cases r)
      case (Inl why)
      then show ?thesis
        using inner_turn_in_step(1) [OF r assms(2) st] close_session_in_step [of k' why]
        by (cases "close_session why k'") (simp add: pk Talking r)
    next
      case (Inr s')
      then show ?thesis using inner_turn_in_step(2) [OF r assms(2) st] by (simp add: pk Talking r)
    qed
  qed
qed

lemma worker_passes_in_step:
  "\<lbrakk>worker_in_step pk; \<forall>i \<in> set xs. calm (oi_turn i)\<rbrakk> \<Longrightarrow> worker_in_step (worker_passes xs pk)"
proof (induction xs arbitrary: pk)
  case (Cons i xs)
  have "worker_in_step (worker_pass i pk)" using Cons.prems by (auto intro: worker_pass_in_step)
  then show ?case using Cons.IH Cons.prems(2) by simp
qed simp


definition port_pass :: "('e, 'd) turn_input \<Rightarrow> ('e, 'd) outer_input" where
  "port_pass t = \<lparr>oi_port = Some ''/dev/ttyACM0'', oi_opens = True, oi_before = [], oi_turn = t\<rparr>"


section \<open>Two pauses that go wrong\<close>

fun port_turns :: "('e, 'd) turn_input list \<Rightarrow> port_session \<times> link \<Rightarrow> (port_session \<times> link) option" where
  "port_turns [] sk = Some sk"
| "port_turns (i # xs) sk = (case port_turn i sk of None \<Rightarrow> None | Some sk \<Rightarrow> port_turns xs sk)"

text \<open>Clients that only use the pad: they send and poll.\<close>

fun uses_pad :: "client_op \<Rightarrow> bool" where
  "uses_pad (SendOp t m) = True"
| "uses_pad (HostStatusOp tosu playing play active) = True"
| "uses_pad (PollLiveOp now) = True"
| "uses_pad TakeLostOp = True"
| "uses_pad op = False"

text \<open>A worker that hears of nobody: not connected, not paused, nothing asked of it and nothing queued.\<close>

definition deaf :: "link \<Rightarrow> bool" where
  "deaf k \<longleftrightarrow> \<not> lk_connected k \<and> \<not> lk_paused k \<and> \<not> lk_rehello k \<and> lk_queue k = []"

lemma client_act_deaf:
  "\<lbrakk>uses_pad op; deaf k\<rbrakk> \<Longrightarrow> deaf (client_act op k) \<and> lk_written (client_act op k) = lk_written k"
  by (cases op) (simp_all add: deaf_def send_message_def take_lost_writes_def)

lemma clients_act_deaf:
  "\<lbrakk>list_all uses_pad ops; deaf k\<rbrakk> \<Longrightarrow> deaf (clients_act ops k) \<and> lk_written (clients_act ops k) = lk_written k"
  by (induction ops arbitrary: k) (auto dest: client_act_deaf simp del: client_act.simps)

lemma transmit_deaf: "deaf k \<Longrightarrow> deaf (transmit i StepWait known k) \<and> lk_written (transmit i StepWait known k) = lk_written k"
  by (simp add: transmit_def deaf_def split: option.split)

lemma deaf_turn:
  assumes "hs_answered (ss_handshake s)" and "ss_partial s = None" and "deaf (clients_act (ti_before i) k)"
    and "list_all uses_pad (ti_meanwhile i)" and "ti_read i = ReadNothing"
  shows "\<exists>k'. port_turn i (s, k) = Some (s, k') \<and> deaf k' \<and> lk_written k' = lk_written (clients_act (ti_before i) k)"
proof -
  let ?k = "clients_act (ti_before i) k"
  have p: "prepare (ti_now i) s ?k = (s, ?k)"
    using assms(2,3) by (simp add: prepare_def drop_stale_def deaf_def)
  have h: "handshake_step (ss_handshake s) now conn held = (StepWait, ss_handshake s)" for now conn held
    using assms(1) by (simp add: handshake_step_def retry_due_def)
  have "port_turn i (s, k) = Some (s, clients_act (ti_meanwhile i) (transmit i StepWait (hs_framing (ss_handshake s)) ?k))"
  proof -
    have "\<not> lk_paused ?k" using assms(3) by (simp add: deaf_def)
    then have "inner_turn i s k = receive i (s\<lparr>ss_handshake := ss_handshake s\<rparr>)
        (clients_act (ti_meanwhile i) (transmit i StepWait (hs_framing (ss_handshake s)) ?k))"
      by (simp only: inner_turn_def Let_def p h if_False prod.case hello_step.case)
    then show ?thesis using assms(5) by (simp add: port_turn_def receive_def)
  qed
  moreover note sent = transmit_deaf [OF assms(3), of i "hs_framing (ss_handshake s)"]
  moreover note clients_act_deaf [OF assms(4) conjunct1 [OF sent]]
  ultimately show ?thesis by auto
qed

lemma deaf_turns:
  assumes "hs_answered (ss_handshake s)" and "ss_partial s = None"
  shows "\<lbrakk>deaf k; \<forall>i \<in> set xs. list_all uses_pad (ti_before i) \<and> list_all uses_pad (ti_meanwhile i) \<and> ti_read i = ReadNothing\<rbrakk>
    \<Longrightarrow> \<exists>k'. port_turns xs (s, k) = Some (s, k') \<and> deaf k' \<and> lk_written k' = lk_written k"
proof (induction xs arbitrary: k)
  case (Cons i xs)
  have before: "deaf (clients_act (ti_before i) k)" "lk_written (clients_act (ti_before i) k) = lk_written k"
    using clients_act_deaf Cons.prems by auto
  obtain k1 where "port_turn i (s, k) = Some (s, k1)" "deaf k1" "lk_written k1 = lk_written k"
    using deaf_turn [OF assms before(1)] before(2) Cons.prems by auto
  then show ?case using Cons.IH [of k1] Cons.prems(2) by auto
qed simp

text \<open>
  A pause that is taken back before the worker looks (\<open>pause_and_release\<close> that timed out while the
  worker was still writing) leaves a connected pad unusable: the flag is down and the handshake is not
  restarted, so no Hello is due again however long it goes on, nothing is written, and every message
  is refused as not connected, until somebody asks for a new handshake or the port goes away.
\<close>

theorem undone_pause_leaves_pad_unasked:
  assumes "hs_answered (ss_handshake s)" and "ss_partial s = None" and "\<not> lk_rehello k" and "lk_queue k = []"
    and "ti_before i = [PauseOp, ResumeOp]" and "list_all uses_pad (ti_meanwhile i)" and "ti_read i = ReadNothing"
    and "\<forall>i \<in> set xs. list_all uses_pad (ti_before i) \<and> list_all uses_pad (ti_meanwhile i) \<and> ti_read i = ReadNothing"
  shows "\<exists>k'. port_turns (i # xs) (s, k) = Some (s, k') \<and> lk_written k' = lk_written k
           \<and> (\<forall>m. send_msg m k' = (Inl NotConnectedErr, k'))"
proof -
  have before: "deaf (clients_act (ti_before i) k)" "lk_written (clients_act (ti_before i) k) = lk_written k"
    using assms(3-5) by (simp_all add: deaf_def pause_link_def resume_link_def emit_def)
  obtain k1 where k1: "port_turn i (s, k) = Some (s, k1)" "deaf k1" "lk_written k1 = lk_written k"
    using deaf_turn [OF assms(1,2) before(1) assms(6,7)] before(2) by auto
  obtain k' where "port_turns xs (s, k1) = Some (s, k')" "deaf k'" "lk_written k' = lk_written k1"
    using deaf_turns [OF assms(1,2) k1(2) assms(8)] by blast
  then show ?thesis using k1 by (auto simp: deaf_def send_msg_def)
qed

lemma undone_pause_leaves_pad_unasked_witness:
  "\<forall>t :: (unit, unit) turn_input.
     let s = (open_session ''/dev/ttyACM0'' False)\<lparr>ss_handshake := answered_in Marked new_handshake\<rparr>;
         k = new_link\<lparr>lk_connected := True\<rparr>
     in \<exists>k'. port_turns [quiet_turn t 0\<lparr>ti_before := [PauseOp, ResumeOp]\<rparr>, quiet_turn t 1] (s, k) = Some (s, k')
          \<and> lk_written k' = lk_written k \<and> (\<forall>m. send_msg m k' = (Inl NotConnectedErr, k'))"
  unfolding Let_def
  by (intro allI undone_pause_leaves_pad_unasked)
    (simp_all add: open_session_def answered_in_def new_link_def quiet_turn_def)

text \<open>
  A pause that finds the worker between closing a held connection and reopening it drops neither
  the queue nor what the pad was said to support: the first pass after the resume opens the port with
  every command still queued, and they go to whatever pad answers there.
\<close>

lemma pause_keeps_held_commands:
  assumes "oi_before i = [PauseOp]" and "oi_before j = [ResumeOp]" and "oi_port j = Some p" and "oi_opens j"
  shows "\<exists>k'. worker_passes [i, j] (Looking True, k) = (Talking (open_session p False), k')
           \<and> lk_queue k' = lk_queue k \<and> lk_features k' = lk_features k \<and> \<not> lk_connected k'"
  using assms by (simp add: pause_link_def resume_link_def emit_def)

end
