(* ===== verification/Tosu.thy ===== *)
theory Tosu
  imports Runtime Client Ports Install
begin

text \<open>
  Following the game through tosu (\<open>crates/opad-tosu/src/lib.rs\<close>): what is made of a frame of its
  state socket and of its key counters, the two sockets over their connections, where tosu's binary
  is looked for and why it may not be able to read the game. The JSON parser and the sockets are
  inputs. Numbers in JSON are rationals; an object is a list of its entries, of which the parser
  leaves one per key.
\<close>

section \<open>JSON values\<close>

datatype json_number = PosInt u64 | NegInt int | Float rat

datatype json = JNull | JBool bool | JNumber json_number | JString string | JArray "json list"
  | JObject "(string \<times> json) list"

fun as_f64 :: "json \<Rightarrow> rat option" where
  "as_f64 (JNumber (PosInt n)) = Some (of_nat (unat n))"
| "as_f64 (JNumber (NegInt i)) = Some (of_int i)"
| "as_f64 (JNumber (Float q)) = Some q"
| "as_f64 j = None"

fun as_i64 :: "json \<Rightarrow> int option" where
  "as_i64 (JNumber (PosInt n)) = (if uint n < 2 ^ 63 then Some (uint n) else None)"
| "as_i64 (JNumber (NegInt i)) = Some i"
| "as_i64 j = None"

fun as_u64 :: "json \<Rightarrow> u64 option" where
  "as_u64 (JNumber (PosInt n)) = Some n"
| "as_u64 j = None"

fun as_bool :: "json \<Rightarrow> bool option" where
  "as_bool (JBool b) = Some b"
| "as_bool j = None"

fun as_str :: "json \<Rightarrow> string option" where
  "as_str (JString s) = Some s"
| "as_str j = None"

text \<open>\<open>Value::pointer\<close>: an element of an array has no sign and no leading zero in its number.\<close>

definition parse_index :: "string \<Rightarrow> nat option" where
  "parse_index s =
     (if starts_with ''+'' s \<or> (starts_with ''0'' s \<and> length s \<noteq> 1) then None else parse_uint 64 s)"

fun json_at :: "string \<Rightarrow> json \<Rightarrow> json option" where
  "json_at t (JObject kvs) = map_of kvs t"
| "json_at t (JArray xs) =
     (case parse_index t of Some i \<Rightarrow> if i < length xs then Some (xs ! i) else None | None \<Rightarrow> None)"
| "json_at t j = None"

fun json_path :: "string list \<Rightarrow> json \<Rightarrow> json option" where
  "json_path [] j = Some j"
| "json_path (t # ts) j = (case json_at t j of Some k \<Rightarrow> json_path ts k | None \<Rightarrow> None)"

definition json_pointer :: "json \<Rightarrow> string \<Rightarrow> json option" where
  "json_pointer j p = json_path (tl (split_on CHR ''/'' p)) j"

section \<open>Key counters\<close>

definition key_count :: "json \<Rightarrow> string \<Rightarrow> u32 option" where
  "key_count doc key =
     (case json_pointer doc (''/keys/'' @ key @ ''/count'') of
        Some v \<Rightarrow> map_option (\<lambda>c. ucast (min c 0xFFFFFFFF)) (as_u64 v)
      | None \<Rightarrow> None)"

definition parse_precise_keys :: "(string \<Rightarrow> json option) \<Rightarrow> string \<Rightarrow> (u32 \<times> u32) option" where
  "parse_precise_keys parse s =
     (case parse s of
        None \<Rightarrow> None
      | Some doc \<Rightarrow>
          (case (key_count doc ''k1'', key_count doc ''k2'') of
             (Some a, Some b) \<Rightarrow> Some (a, b)
           | _ \<Rightarrow> None))"

text \<open>A message of a socket: whether it is a text, and its text if it has one.\<close>

datatype ws_message = WsFrame bool "string option" | WsClose

text \<open>One connection to the precise socket: the counters are passed on when they change.\<close>

fun follow_keys :: "(string \<Rightarrow> json option) \<Rightarrow> (u32 \<times> u32) option \<Rightarrow> (ws_message option \<times> instant) list \<Rightarrow> key_counts list" where
  "follow_keys parse latest [] = []"
| "follow_keys parse latest ((None, t) # ms) = []"
| "follow_keys parse latest ((Some WsClose, t) # ms) = []"
| "follow_keys parse latest ((Some (WsFrame txt None), t) # ms) = follow_keys parse latest ms"
| "follow_keys parse latest ((Some (WsFrame txt (Some s)), t) # ms) =
     (case parse_precise_keys parse s of
        None \<Rightarrow> follow_keys parse latest ms
      | Some (a, b) \<Rightarrow>
          if latest = Some (a, b) then follow_keys parse latest ms
          else \<lparr>kc_k1 = a, kc_k2 = b, kc_at = t\<rparr> # follow_keys parse (Some (a, b)) ms)"

section \<open>A frame of the state socket\<close>

definition num :: "json \<Rightarrow> string \<Rightarrow> rat option" where
  "num doc p = (case json_pointer doc p of Some v \<Rightarrow> as_f64 v | None \<Rightarrow> None)"

definition json_text :: "json \<Rightarrow> string \<Rightarrow> string option" where
  "json_text doc p =
     (case json_pointer doc p of
        Some v \<Rightarrow> (case as_str v of Some s \<Rightarrow> if s = [] then None else Some s | None \<Rightarrow> None)
      | None \<Rightarrow> None)"

definition flag :: "json \<Rightarrow> string \<Rightarrow> bool option" where
  "flag doc p = (case json_pointer doc p of Some v \<Rightarrow> as_bool v | None \<Rightarrow> None)"

definition as_num :: "rat option \<Rightarrow> source_value" where
  "as_num v = (case v of Some q \<Rightarrow> Number q | None \<Rightarrow> Clear)"

definition as_text :: "string option \<Rightarrow> source_value" where
  "as_text v = (case v of Some s \<Rightarrow> Text s | None \<Rightarrow> Clear)"

definition clamp :: "rat \<Rightarrow> rat \<Rightarrow> rat \<Rightarrow> rat" where
  "clamp lo hi x = (if x < lo then lo else if hi < x then hi else x)"

definition only_above_zero :: "rat option \<Rightarrow> rat option" where
  "only_above_zero v = (case v of Some q \<Rightarrow> if 0 < q then Some q else None | None \<Rightarrow> None)"

definition flag_num :: "bool option \<Rightarrow> rat option" where
  "flag_num b = map_option (\<lambda>b. if b then 1 else 0) b"

text \<open>How far the song is: elapsed, remaining, length and progress, between its first and last object.\<close>

definition song_position :: "json \<Rightarrow> rat option \<times> rat option \<times> rat option \<times> rat option" where
  "song_position doc =
     (case (num doc ''/beatmap/time/live'', num doc ''/beatmap/time/firstObject'', num doc ''/beatmap/time/lastObject'') of
        (Some live, Some first, Some lst) \<Rightarrow>
          if first < lst then
            (Some (max (live - first) 0), Some (max (lst - live) 0), Some (lst - first),
             Some (clamp 0 1 ((live - first) / (lst - first))))
          else (None, None, None, None)
      | _ \<Rightarrow> (None, None, None, None))"

text \<open>A state of tosu as the pad shows it.\<close>

definition friendly_state :: "string \<Rightarrow> string" where
  "friendly_state name =
     (if name = ''menu'' then ''Main menu'' else if name = ''play'' then ''Playing''
      else if name = ''selectPlay'' then ''Song select'' else if name = ''resultScreen'' then ''Results''
      else if name = ''edit'' \<or> name = ''selectEdit'' then ''Editor''
      else if name = ''multiplayerRooms'' \<or> name = ''multiplayerRoom'' \<or> name = ''multiplayerResultsscreen'' then ''Multiplayer''
      else if name = ''lobby'' then ''Lobby'' else name)"

definition frame_values :: "json \<Rightarrow> ui_value list" where
  "frame_values doc =
     (let (elapsed, remaining, len, progress) = song_position doc;
          n = (\<lambda>p. as_num (num doc p)); t = (\<lambda>p. as_text (json_text doc p))
      in [(MAP_TITLE, t ''/beatmap/title''), (MAP_ARTIST, t ''/beatmap/artist''),
          (MAP_MAPPER, t ''/beatmap/mapper''), (MAP_DIFFICULTY, t ''/beatmap/version''),
          (MAP_STATUS, t ''/beatmap/status/name''), (MAP_STARS, n ''/beatmap/stats/stars/total''),
          (MAP_STARS_LIVE, n ''/beatmap/stats/stars/live''), (MAP_AR, n ''/beatmap/stats/ar/converted''),
          (MAP_CS, n ''/beatmap/stats/cs/converted''), (MAP_OD, n ''/beatmap/stats/od/converted''),
          (MAP_HP, n ''/beatmap/stats/hp/converted''), (MAP_BPM, n ''/beatmap/stats/bpm/common''),
          (MAP_OBJECTS, n ''/beatmap/stats/objects/total''), (MAP_MAX_COMBO, n ''/beatmap/stats/maxCombo''),
          (MAP_LENGTH, as_num len), (MAP_TIME_ELAPSED, as_num elapsed),
          (MAP_TIME_REMAINING, as_num remaining), (MAP_PROGRESS, as_num progress),
          (MAP_KIAI, as_num (flag_num (flag doc ''/beatmap/isKiai''))),
          (PLAY_PP, n ''/play/pp/current''), (PLAY_PP_FC, n ''/play/pp/fc''),
          (PLAY_PP_MAX, n ''/play/pp/maxAchievable''), (PLAY_ACCURACY, n ''/play/accuracy''),
          (PLAY_SCORE, n ''/play/score''), (PLAY_COMBO, n ''/play/combo/current''),
          (PLAY_MAX_COMBO, n ''/play/combo/max''), (PLAY_GRADE, t ''/play/rank/current''),
          (PLAY_HITS_300, n ''/play/hits/300''), (PLAY_HITS_100, n ''/play/hits/100''),
          (PLAY_HITS_50, n ''/play/hits/50''), (PLAY_HITS_MISS, n ''/play/hits/0''),
          (PLAY_SLIDER_BREAKS, n ''/play/hits/sliderBreaks''), (PLAY_UR, n ''/play/unstableRate''),
          (PLAY_HEALTH, as_num (map_option (\<lambda>h. clamp 0 1 (h / 100)) (num doc ''/play/healthBar/normal''))),
          (PLAY_MODS, t ''/play/mods/name''), (PLAY_PLAYER, t ''/play/playerName''),
          (PLAY_FAILED, as_num (flag_num (flag doc ''/play/failed''))),
          (PROFILE_NAME, t ''/profile/name''),
          (PROFILE_RANK, as_num (only_above_zero (num doc ''/profile/globalRank''))),
          (PROFILE_PP, as_num (only_above_zero (num doc ''/profile/pp''))),
          (PROFILE_ACCURACY, n ''/profile/accuracy''), (PROFILE_PLAYCOUNT, n ''/profile/playCount''),
          (PROFILE_LEVEL, n ''/profile/level''), (PROFILE_COUNTRY, t ''/profile/countryCode/name''),
          (SESSION_PLAYTIME, n ''/session/playTime''), (SESSION_PLAYCOUNT, n ''/session/playCount''),
          (GAME_STATE, as_text (map_option friendly_state (json_text doc ''/state/name''))),
          (STATUS_OSU, Number 1)])"

definition or_empty :: "string option \<Rightarrow> string" where
  "or_empty v = (case v of Some s \<Rightarrow> s | None \<Rightarrow> [])"

definition or_else :: "'a option \<Rightarrow> 'a option \<Rightarrow> 'a option" where
  "or_else a b = (case a of Some x \<Rightarrow> Some x | None \<Rightarrow> b)"

definition frame_beatmap :: "json \<Rightarrow> beatmap_ref" where
  "frame_beatmap doc =
     \<lparr>bm_title = or_empty (json_text doc ''/beatmap/title''), bm_artist = or_empty (json_text doc ''/beatmap/artist''),
      bm_difficulty = or_empty (json_text doc ''/beatmap/version''),
      bm_id = (case json_pointer doc ''/beatmap/id'' of
                 Some v \<Rightarrow> (case as_i64 v of Some i \<Rightarrow> if 0 < i then Some i else None | None \<Rightarrow> None)
               | None \<Rightarrow> None),
      bm_checksum = json_text doc ''/beatmap/checksum'',
      bm_ruleset = or_else (json_text doc ''/play/mode/name'') (json_text doc ''/beatmap/mode/name''),
      bm_mods = json_text doc ''/play/mods/name''\<rparr>"

text \<open>The mods are two-letter acronyms run together.\<close>

fun chunks2 :: "string \<Rightarrow> string list" where
  "chunks2 (a # b # s) = [a, b] # chunks2 s"
| "chunks2 [a] = [[a]]"
| "chunks2 [] = []"

definition has_mod :: "string \<Rightarrow> string \<Rightarrow> bool" where
  "has_mod mods acronym = list_ex (\<lambda>m. eq_ignore_ascii_case m acronym) (chunks2 mods)"

definition frame_mods :: "json \<Rightarrow> string" where
  "frame_mods doc = or_empty (json_text doc ''/play/mods/name'')"

definition frame_other_player :: "json \<Rightarrow> bool" where
  "frame_other_player doc \<longleftrightarrow>
     (case (json_text doc ''/play/playerName'', json_text doc ''/profile/name'') of
        (Some player, Some me) \<Rightarrow> \<not> eq_ignore_ascii_case (trim player) (trim me)
      | _ \<Rightarrow> False)
     \<or> list_ex (has_mod (frame_mods doc)) [''AT'', ''CN'', ''RX'']"

definition frame_grade :: "json \<Rightarrow> string option" where
  "frame_grade doc =
     (if json_text doc ''/state/name'' = Some ''resultScreen''
      then or_else (json_text doc ''/resultsScreen/rank'') (json_text doc ''/play/rank/current'')
      else None)"

definition frame_clock :: "json \<Rightarrow> song_clock option" where
  "frame_clock doc =
     (case (num doc ''/beatmap/time/live'', num doc ''/beatmap/time/firstObject'', num doc ''/beatmap/time/lastObject'') of
        (Some live, Some first, Some lst) \<Rightarrow>
          if first < lst then
            Some \<lparr>live_ms = live, first_object_ms = first, last_object_ms = lst,
                  song_rate = (case only_above_zero (num doc ''/play/mods/rate'') of Some r \<Rightarrow> r | None \<Rightarrow> 1)\<rparr>
          else None
      | _ \<Rightarrow> None)"

definition frame_failed :: "json \<Rightarrow> bool" where
  "frame_failed doc \<longleftrightarrow> flag doc ''/play/failed'' = Some True \<and> \<not> has_mod (frame_mods doc) ''NF''"

definition telemetry_of :: "json \<Rightarrow> int \<Rightarrow> telemetry" where
  "telemetry_of doc state_num =
     \<lparr>tl_is_playing = (state_num = 2),
      tl_live_ms = (case num doc ''/beatmap/time/live'' of Some t \<Rightarrow> t | None \<Rightarrow> 0),
      tl_title = or_empty (json_text doc ''/beatmap/title''), tl_values = frame_values doc,
      tl_beatmap = frame_beatmap doc, tl_failed = frame_failed doc, tl_clock = frame_clock doc,
      tl_other_player = frame_other_player doc, tl_grade = frame_grade doc\<rparr>"

definition parse_tosu_v2_json :: "(string \<Rightarrow> json option) \<Rightarrow> string \<Rightarrow> telemetry option" where
  "parse_tosu_v2_json parse s =
     (case parse s of
        None \<Rightarrow> None
      | Some doc \<Rightarrow>
          (case json_pointer doc ''/state/number'' of
             None \<Rightarrow> None
           | Some v \<Rightarrow> map_option (telemetry_of doc) (as_i64 v)))"

section \<open>The state socket\<close>

datatype tosu_output = TosuConnected bool | TosuFrame telemetry

fun follow_frames :: "(string \<Rightarrow> json option) \<Rightarrow> ws_message option list \<Rightarrow> tosu_output list" where
  "follow_frames parse [] = []"
| "follow_frames parse (None # ms) = []"
| "follow_frames parse (Some WsClose # ms) = []"
| "follow_frames parse (Some (WsFrame True (Some s)) # ms) =
     (case parse_tosu_v2_json parse s of
        Some t \<Rightarrow> TosuFrame t # follow_frames parse ms
      | None \<Rightarrow> follow_frames parse ms)"
| "follow_frames parse (Some (WsFrame txt s) # ms) = follow_frames parse ms"

text \<open>One attempt to connect after the other; \<open>None\<close> is one that failed.\<close>

fun run_tosu :: "(string \<Rightarrow> json option) \<Rightarrow> ws_message option list option list \<Rightarrow> tosu_output list" where
  "run_tosu parse [] = []"
| "run_tosu parse (None # as) = run_tosu parse as"
| "run_tosu parse (Some ms # as) =
     TosuConnected True # follow_frames parse ms @ TosuConnected False # run_tosu parse as"

section \<open>Endpoints\<close>

definition DEFAULT_TOSU_ENDPOINT :: string where "DEFAULT_TOSU_ENDPOINT = ''ws://127.0.0.1:24050/websocket/v2''"

definition without_suffix :: "string \<Rightarrow> string \<Rightarrow> string option" where
  "without_suffix p s = map_option rev (strip_prefix (rev p) (rev s))"

definition ends_with :: "string \<Rightarrow> string \<Rightarrow> bool" where
  "ends_with p s = (without_suffix p s \<noteq> None)"

definition trim_end_slashes :: "string \<Rightarrow> string" where
  "trim_end_slashes s = rev (dropWhile (\<lambda>c. c = CHR ''/'') (rev s))"

definition normalize_endpoint :: "string \<Rightarrow> string" where
  "normalize_endpoint e = (case without_suffix ''/ws'' e of Some base \<Rightarrow> base @ ''/websocket/v2'' | None \<Rightarrow> e)"

definition precise_endpoint :: "string \<Rightarrow> string option" where
  "precise_endpoint e =
     (if ends_with ''/websocket/v2'' (trim_end_slashes e) then Some (trim_end_slashes e @ ''/precise'') else None)"

text \<open>The text after the first \<open>://\<close>.\<close>

fun after_scheme :: "string \<Rightarrow> string option" where
  "after_scheme [] = None"
| "after_scheme (c # cs) = (case strip_prefix ''://'' (c # cs) of Some rest \<Rightarrow> Some rest | None \<Rightarrow> after_scheme cs)"

definition endpoint_socket_addr :: "string \<Rightarrow> string" where
  "endpoint_socket_addr e =
     (let authority = hd (split_on CHR ''/'' (case after_scheme e of Some rest \<Rightarrow> rest | None \<Rightarrow> e))
      in if CHR '':'' \<in> set authority then authority else authority @ '':80'')"

section \<open>The lines of tosu's output\<close>

text \<open>A text in characters, each the bytes of one.\<close>

function chars :: "string \<Rightarrow> string list" where
  "chars [] = []"
| "chars (c # cs) = (c # takeWhile tail_byte cs) # chars (dropWhile tail_byte cs)"
  by pat_completeness auto
termination
  by (relation "measure length") (auto simp: le_imp_less_Suc length_dropWhile_le)

datatype ansi_state = AnsiText | AnsiEsc | AnsiIntermediate | AnsiCsi | AnsiOsc | AnsiOscEsc

text \<open>One byte, and its number in a range.\<close>

definition in_range :: "nat \<Rightarrow> nat \<Rightarrow> string \<Rightarrow> bool" where
  "in_range lo hi c = (case c of [b] \<Rightarrow> lo \<le> byte b \<and> byte b \<le> hi | _ \<Rightarrow> False)"

fun ansi_next :: "ansi_state \<Rightarrow> string \<Rightarrow> ansi_state" where
  "ansi_next AnsiText c = (if c = [CHR 0x1B] then AnsiEsc else AnsiText)"
| "ansi_next AnsiEsc c =
     (if c = ''['' then AnsiCsi else if c = '']'' then AnsiOsc
      else if in_range 0x20 0x2F c then AnsiIntermediate else AnsiText)"
| "ansi_next AnsiIntermediate c = (if in_range 0x20 0x2F c then AnsiIntermediate else AnsiText)"
| "ansi_next AnsiCsi c = (if in_range 0x40 0x7E c then AnsiText else AnsiCsi)"
| "ansi_next AnsiOsc c = (if c = [CHR 0x07] then AnsiText else if c = [CHR 0x1B] then AnsiOscEsc else AnsiOsc)"
| "ansi_next AnsiOscEsc c = (if c = [CHR 0x5C] then AnsiText else AnsiOsc)"

fun ansi_strip :: "ansi_state \<Rightarrow> string list \<Rightarrow> string" where
  "ansi_strip st [] = []"
| "ansi_strip st (c # cs) =
     (if st = AnsiText \<and> c \<noteq> [CHR 0x1B] then c else []) @ ansi_strip (ansi_next st c) cs"

definition strip_ansi :: "string \<Rightarrow> string" where
  "strip_ansi s = ansi_strip AnsiText (chars s)"

section \<open>Where tosu is\<close>

record tosu_places =
  tp_override :: "string option"
  tp_legacy_override :: "string option"
  tp_home :: "string option"
  tp_path :: "string list option"
  tp_bundled :: "string option"

definition join_path :: "string \<Rightarrow> string \<Rightarrow> string" where
  "join_path dir name = (if dir = [] \<or> last dir = CHR ''/'' then dir @ name else dir @ ''/'' @ name)"

definition filtered :: "('a \<Rightarrow> bool) \<Rightarrow> 'a option \<Rightarrow> 'a option" where
  "filtered P v = (case v of Some x \<Rightarrow> if P x then Some x else None | None \<Rightarrow> None)"

definition usable_override :: "(string \<Rightarrow> bool) \<Rightarrow> string \<Rightarrow> string option" where
  "usable_override is_file p = (if is_file p then Some p else None)"

definition find_tosu_binary :: "bool \<Rightarrow> (string \<Rightarrow> bool) \<Rightarrow> tosu_places \<Rightarrow> string option" where
  "find_tosu_binary windows is_file pl =
     (case Option.bind (or_else (tp_override pl) (tp_legacy_override pl)) (usable_override is_file) of
        Some p \<Rightarrow> Some p
      | None \<Rightarrow>
     (case filtered is_file (map_option (\<lambda>h. join_path (join_path h ''.local/opt/tosu'') (TOSU_BINARY windows)) (tp_home pl)) of
        Some p \<Rightarrow> Some p
      | None \<Rightarrow>
     (case Option.bind (tp_path pl) (\<lambda>ds. find is_file (map (\<lambda>d. join_path d (TOSU_BINARY windows)) ds)) of
        Some p \<Rightarrow> Some p
      | None \<Rightarrow> filtered is_file (tp_bundled pl))))"

text \<open>\<open>str::replace\<close> of a text that is not empty.\<close>

fun replace_from :: "nat \<Rightarrow> string \<Rightarrow> string \<Rightarrow> string \<Rightarrow> string" where
  "replace_from skip pat new [] = []"
| "replace_from (Suc n) pat new (c # cs) = replace_from n pat new cs"
| "replace_from 0 pat new (c # cs) =
     (if starts_with pat (c # cs) then new @ replace_from (length pat - 1) pat new cs
      else c # replace_from 0 pat new cs)"

definition DASHBOARD_ON :: string where "DASHBOARD_ON = ''OPEN_DASHBOARD_ON_STARTUP=true''"
definition DASHBOARD_OFF :: string where "DASHBOARD_OFF = ''OPEN_DASHBOARD_ON_STARTUP=false''"

text \<open>What is in tosu.env before and after; \<open>None\<close> is a file that cannot be read.\<close>

definition disable_dashboard_autostart :: "string option \<Rightarrow> string" where
  "disable_dashboard_autostart content =
     (case content of
        Some c \<Rightarrow> if text_contains DASHBOARD_ON c then replace_from 0 DASHBOARD_ON DASHBOARD_OFF c else c
      | None \<Rightarrow> DASHBOARD_OFF @ [CHR 0x0A])"

section \<open>Whether tosu may read the game\<close>

datatype ptrace_fix = LowerScope | LowerScopeAndReboot | SetCapability string

datatype ptrace_access = Unrestricted | Capable u32 | Blocked u32 ptrace_fix | UnknownAccess u32 ptrace_fix

record ptrace_env =
  pe_scope_file :: "string option"
  pe_tosu :: "string option"
  pe_appimage :: bool
  pe_head :: "string \<Rightarrow> string option"
  pe_getcap :: "string \<Rightarrow> string option"

definition yama_ptrace_scope :: "string option \<Rightarrow> u32 option" where
  "yama_ptrace_scope content =
     (case content of Some s \<Rightarrow> map_option of_nat (parse_uint 32 (trim s)) | None \<Rightarrow> None)"

text \<open>The first two bytes, if there are two.\<close>

definition is_script :: "(string \<Rightarrow> string option) \<Rightarrow> string \<Rightarrow> bool" where
  "is_script head bin = (head bin = Some ''#!'')"

definition ptrace_access :: "ptrace_env \<Rightarrow> ptrace_access" where
  "ptrace_access e =
     (case yama_ptrace_scope (pe_scope_file e) of
        None \<Rightarrow> Unrestricted
      | Some scope \<Rightarrow>
          if scope = 0 then Unrestricted
          else if 3 \<le> scope then Blocked scope LowerScopeAndReboot
          else (case pe_tosu e of
                  None \<Rightarrow> Blocked scope LowerScope
                | Some bin \<Rightarrow>
                    if pe_appimage e \<or> is_script (pe_head e) bin then Blocked scope LowerScope
                    else (case pe_getcap e bin of
                            Some out \<Rightarrow>
                              if text_contains ''cap_sys_ptrace'' out then Capable scope
                              else Blocked scope (SetCapability bin)
                          | None \<Rightarrow> UnknownAccess scope (SetCapability bin))))"

end
