(* ===== verification/Tosu_Safety.thy ===== *)
theory Tosu_Safety
  imports Tosu Pad_Wire
begin

text \<open>
  What is made of tosu's frames: every value the pad gets from one is in bounds and named once, the key
  counters are passed on exactly when they change, frames only come from a connected socket, mods are
  told apart, and nothing of a terminal sequence is left of a log line.
\<close>

section \<open>Values\<close>

text \<open>What a value may be: shares of a whole, and times that do not go below zero.\<close>

fun value_in_bounds :: "ui_value \<Rightarrow> bool" where
  "value_in_bounds (i, Number q) =
     ((if i \<in> {MAP_PROGRESS, PLAY_HEALTH, MAP_KIAI, PLAY_FAILED} then 0 \<le> q \<and> q \<le> 1 else True)
      \<and> (if i \<in> {MAP_TIME_ELAPSED, MAP_TIME_REMAINING} then 0 \<le> q else True)
      \<and> (if i \<in> {MAP_LENGTH, PROFILE_RANK, PROFILE_PP} then 0 < q else True))"
| "value_in_bounds (i, Text s) = (s \<noteq> [])"
| "value_in_bounds (i, Clear) = True"

lemmas source_ids = MAP_TITLE_def MAP_ARTIST_def MAP_MAPPER_def MAP_DIFFICULTY_def MAP_STATUS_def MAP_STARS_def
  MAP_STARS_LIVE_def MAP_AR_def MAP_CS_def MAP_OD_def MAP_HP_def MAP_BPM_def MAP_OBJECTS_def MAP_MAX_COMBO_def
  MAP_LENGTH_def MAP_TIME_ELAPSED_def MAP_TIME_REMAINING_def MAP_PROGRESS_def MAP_KIAI_def PLAY_PP_def
  PLAY_PP_FC_def PLAY_PP_MAX_def PLAY_ACCURACY_def PLAY_SCORE_def PLAY_COMBO_def PLAY_MAX_COMBO_def
  PLAY_GRADE_def PLAY_HITS_300_def PLAY_HITS_100_def PLAY_HITS_50_def PLAY_HITS_MISS_def
  PLAY_SLIDER_BREAKS_def PLAY_UR_def PLAY_HEALTH_def PLAY_MODS_def PLAY_PLAYER_def PLAY_FAILED_def
  PROFILE_NAME_def PROFILE_RANK_def PROFILE_PP_def PROFILE_ACCURACY_def PROFILE_PLAYCOUNT_def
  PROFILE_LEVEL_def PROFILE_COUNTRY_def SESSION_PLAYTIME_def SESSION_PLAYCOUNT_def GAME_STATE_def STATUS_OSU_def

text \<open>The values by what they are made from.\<close>

lemma text_in_bounds: "value_in_bounds (i, as_text (json_text doc p))"
  by (simp add: as_text_def json_text_def split: option.split)

text \<open>The ids whose numbers are bounded.\<close>

definition bounded_ids :: "u8 set" where
  "bounded_ids = {MAP_PROGRESS, PLAY_HEALTH, MAP_KIAI, PLAY_FAILED, MAP_TIME_ELAPSED, MAP_TIME_REMAINING, MAP_LENGTH,
     PROFILE_RANK, PROFILE_PP}"

lemma bounded_ids_eq: "bounded_ids = {18, 34, 19, 37, 16, 17, 15, 41, 43}"
  by (simp add: bounded_ids_def source_ids)

lemma plain_in_bounds: "i \<notin> bounded_ids \<Longrightarrow> value_in_bounds (i, as_num (num doc p))"
  by (simp add: bounded_ids_def as_num_def split: option.split)

lemma osu_in_bounds: "i \<notin> bounded_ids \<Longrightarrow> value_in_bounds (i, Number 1)"
  by (simp add: bounded_ids_def)

lemma friendly_state_nonempty: "friendly_state s = [] \<Longrightarrow> s = []"
  by (simp add: friendly_state_def split: if_splits)

lemma state_in_bounds: "value_in_bounds (i, as_text (map_option friendly_state (json_text doc p)))"
  using friendly_state_nonempty by (fastforce simp: as_text_def json_text_def split: option.split)

lemma flag_in_bounds: "i \<in> {MAP_KIAI, PLAY_FAILED} \<Longrightarrow> value_in_bounds (i, as_num (flag_num b))"
  by (auto simp: as_num_def flag_num_def source_ids split: option.split)

lemma health_in_bounds: "value_in_bounds (PLAY_HEALTH, as_num (map_option (\<lambda>h. clamp 0 1 (f h)) v))"
  by (auto simp: as_num_def clamp_def source_ids split: option.split)

lemma above_zero_in_bounds: "i \<in> {PROFILE_RANK, PROFILE_PP} \<Longrightarrow> value_in_bounds (i, as_num (only_above_zero v))"
  by (auto simp: as_num_def only_above_zero_def source_ids split: option.split)

lemma position_in_bounds:
  assumes "song_position doc = (elapsed, remaining, len, progress)"
  shows "value_in_bounds (MAP_LENGTH, as_num len)" "value_in_bounds (MAP_TIME_ELAPSED, as_num elapsed)"
    "value_in_bounds (MAP_TIME_REMAINING, as_num remaining)" "value_in_bounds (MAP_PROGRESS, as_num progress)"
  using assms
  by (auto simp: song_position_def as_num_def clamp_def source_ids split: option.splits if_splits)


section \<open>Key counters\<close>

text \<open>The counters of a connection, until it ends.\<close>

fun counters_seen :: "(string \<Rightarrow> json option) \<Rightarrow> (ws_message option \<times> instant) list \<Rightarrow> (u32 \<times> u32) list" where
  "counters_seen parse [] = []"
| "counters_seen parse ((None, t) # ms) = []"
| "counters_seen parse ((Some WsClose, t) # ms) = []"
| "counters_seen parse ((Some (WsFrame txt s), t) # ms) =
     (case Option.bind s (parse_precise_keys parse) of Some k \<Rightarrow> [k] | None \<Rightarrow> []) @ counters_seen parse ms"

definition counts_of :: "key_counts \<Rightarrow> u32 \<times> u32" where
  "counts_of k = (kc_k1 k, kc_k2 k)"

lemma follow_keys_after:
  "c # map counts_of (follow_keys parse (Some c) ms) = remdups_adj (c # counters_seen parse ms)"
  by (induction parse "Some c" ms arbitrary: c rule: follow_keys.induct)
    (auto simp: counts_of_def split: option.split)

text \<open>
  C30: Over a connection the key counters that are passed on are the counters of its frames with every
  repetition of the one before taken out: no change is missed and none is told twice.
\<close>

theorem keys_passed_on_when_changed:
  "map counts_of (follow_keys parse None ms) = remdups_adj (counters_seen parse ms)"
proof (induction parse "None :: (u32 \<times> u32) option" ms rule: follow_keys.induct)
  case (5 parse b s t ms)
  then show ?case
    using follow_keys_after [of _ parse ms] by (auto simp: counts_of_def split: option.split)
qed simp_all

section \<open>Frames and the connection\<close>

fun frames_while_connected :: "bool \<Rightarrow> tosu_output list \<Rightarrow> bool" where
  "frames_while_connected up [] = (\<not> up)"
| "frames_while_connected up (TosuConnected b # ps) = (up \<noteq> b \<and> frames_while_connected b ps)"
| "frames_while_connected up (TosuFrame t # ps) = (up \<and> frames_while_connected up ps)"

lemma follow_frames_connected:
  "frames_while_connected False ps \<Longrightarrow> frames_while_connected True (follow_frames parse ms @ TosuConnected False # ps)"
  by (induction parse ms rule: follow_frames.induct) (auto split: option.split)

lemma frames_come_connected: "frames_while_connected False (run_tosu parse attempts)"
  by (induction parse attempts rule: run_tosu.induct) (simp_all add: follow_frames_connected)

section \<open>Mods\<close>

lemma chunks2_of_acronyms: "\<forall>m \<in> set ms. length m = 2 \<Longrightarrow> chunks2 (concat ms) = ms"
proof (induction ms)
  case (Cons m ms)
  then obtain a b where "m = [a, b]" by (auto simp: length_Suc_conv numeral_2_eq_2)
  then show ?case using Cons by simp
qed simp

lemma has_mod_acronyms:
  "\<forall>m \<in> set ms. length m = 2 \<Longrightarrow> has_mod (concat ms) a = list_ex (\<lambda>m. eq_ignore_ascii_case m a) ms"
  by (simp add: has_mod_def chunks2_of_acronyms)

text \<open>An acronym of three letters, such as a key count of mania, hides those after it.\<close>

lemma has_mod_after_long_acronym: "\<not> has_mod (''10K'' @ ''NF'') ''NF''"
  by code_simp

section \<open>Log lines\<close>

lemma chars_concat [simp]: "concat (chars s) = s"
  by (induction s rule: chars.induct) auto

lemma chars_shape: "c \<in> set (chars s) \<Longrightarrow> \<exists>b t. c = b # t \<and> list_all tail_byte t \<and> b \<in> set s"
proof (induction s rule: chars.induct)
  case (2 b s)
  then show ?case by (auto simp: list_all_iff dest: set_takeWhileD set_dropWhileD)
qed simp

lemma escape_not_tail: "\<not> tail_byte (CHR 0x1B)"
  by (simp add: tail_byte_def byte_def)

lemma ansi_strip_clean:
  "list_all (\<lambda>c. c = [CHR 0x1B] \<or> CHR 0x1B \<notin> set c) cs \<Longrightarrow> CHR 0x1B \<notin> set (ansi_strip st cs)"
  by (induction cs arbitrary: st) auto

lemma ansi_strip_plain: "[CHR 0x1B] \<notin> set cs \<Longrightarrow> ansi_strip AnsiText cs = concat cs"
  by (induction cs) auto

lemma chars_first:
  "c \<noteq> [] \<Longrightarrow> list_all tail_byte (tl c) \<Longrightarrow> utf8_valid r \<Longrightarrow> chars (c @ r) = c # chars r"
proof -
  assume c: "c \<noteq> []" "list_all tail_byte (tl c)" and r: "utf8_valid r"
  obtain a t where at: "c = a # t" using c(1) by (cases c) auto
  have "takeWhile tail_byte (t @ r) = t \<and> dropWhile tail_byte (t @ r) = r"
    using c(2) utf8_starts [OF r] by (cases r) (auto simp: at list_all_iff dropWhile_append2 takeWhile_append2 dropWhile_eq_Nil_conv)
  then show ?thesis by (simp add: at)
qed

text \<open>In a text of Rust an escape byte is a character of its own.\<close>

lemma escape_alone:
  assumes "utf8_valid s"
  shows "list_all (\<lambda>c. c = [CHR 0x1B] \<or> CHR 0x1B \<notin> set c) (chars s)"
  using assms
proof (induction "length s" arbitrary: s rule: less_induct)
  case less
  show ?case
  proof (cases "s = []")
    case False
    then obtain c r where c: "s = c @ r" "c \<noteq> []" "utf8_valid c" "utf8_valid r" "list_all tail_byte (tl c)"
      using utf8_first [OF less(2)] by blast
    obtain a t where at: "c = a # t" using c(2) by (cases c) auto
    have "CHR 0x1B \<notin> set t" using c(5) at escape_not_tail by (auto simp: list_all_iff)
    moreover have "t = []" if "a = CHR 0x1B"
    proof (rule ccontr)
      assume "t \<noteq> []"
      moreover have "utf8_valid t" using c(3) at that by (simp add: byte_def)
      ultimately show False using c(5) at utf8_starts [of t] by (cases t) auto
    qed
    ultimately have "c = [CHR 0x1B] \<or> CHR 0x1B \<notin> set c" using at by auto
    then show ?thesis using less(1) [of r] c by (simp add: chars_first)
  qed simp
qed

text \<open>
  A line of tosu's output reaches the log without an escape byte in it, and a line that has none is
  left as it is.
\<close>

theorem log_lines_are_clean:
  assumes "utf8_valid s"
  shows "if CHR 0x1B \<in> set s then CHR 0x1B \<notin> set (strip_ansi s) else strip_ansi s = s"
proof -
  have "CHR 0x1B \<notin> set (strip_ansi s)"
    unfolding strip_ansi_def by (rule ansi_strip_clean [OF escape_alone [OF assms]])
  moreover have "strip_ansi s = s" if "CHR 0x1B \<notin> set s"
  proof -
    have "[CHR 0x1B] \<notin> set (chars s)" using that chars_shape [of "[CHR 0x1B]" s] by auto
    then show ?thesis by (simp add: strip_ansi_def ansi_strip_plain)
  qed
  ultimately show ?thesis by simp
qed

lemma log_lines_are_clean_witness:
  "CHR 0x1B \<notin> set (strip_ansi (CHR 0x1B # ''[31mred''))"
proof -
  have "utf8_valid (CHR 0x1B # ''[31mred'')" by code_simp
  from log_lines_are_clean [OF this] show ?thesis by simp
qed

end
