(* ===== verification/Tosu_Supervisor.thy ===== *)
theory Tosu_Supervisor
  imports Tosu
begin

text \<open>
  The supervisor that keeps tosu running (\<open>supervise\<close> of \<open>crates/opad-tosu/src/lib.rs\<close>) and the pause
  that holds it down while its binary is replaced. Tasks share two flags; a step of the supervisor is
  what it does between two looks at them, and the callers of \<open>pause\<close> and \<open>resume\<close> may come between any
  two steps. What the system answers is the input of a step.
\<close>

section \<open>The model\<close>

definition INITIAL_BACKOFF :: duration where "INITIAL_BACKOFF = from_secs 5"
definition MAX_TOSU_BACKOFF :: duration where "MAX_TOSU_BACKOFF = from_secs 60"
definition PAUSE_TIMEOUT :: duration where "PAUSE_TIMEOUT = from_secs 10"

text \<open>Where the supervisor is in its loop.\<close>

datatype sup_at = AtTop | AtHeld | AtProbe | AtSleep | AtMark string | AtRecheck string | AtUnmark
  | AtLaunch string | AtWait instant | AtReaped bool instant | AtLaunchFailed | AtBackoff

record supervisor =
  sv_paused :: bool
  sv_stopped :: bool
  sv_at :: sup_at
  sv_child :: bool
  sv_backoff :: duration
  sv_warned :: bool

definition new_supervisor :: supervisor where
  "new_supervisor = \<lparr>sv_paused = False, sv_stopped = True, sv_at = AtTop, sv_child = False,
     sv_backoff = INITIAL_BACKOFF, sv_warned = False\<rparr>"

text \<open>
  What the system answers: whether something listens on tosu's port, the binary, whether it starts,
  whether it has ended by itself, whether it can be killed, the clock, and whether a sleep is over.
\<close>

record sup_env =
  se_listening :: bool
  se_bin :: "string option"
  se_launches :: bool
  se_exited :: bool
  se_killed :: bool
  se_now :: instant
  se_slept :: bool

definition next_backoff :: "instant \<Rightarrow> instant \<Rightarrow> duration \<Rightarrow> duration" where
  "next_backoff started now b =
     (if from_secs 60 < now - started then INITIAL_BACKOFF else min (b * 2) MAX_TOSU_BACKOFF)"

fun sup_step :: "sup_env \<Rightarrow> sup_at \<Rightarrow> supervisor \<Rightarrow> supervisor" where
  "sup_step e AtTop s = s\<lparr>sv_at := (if sv_paused s then AtHeld else AtProbe)\<rparr>"
| "sup_step e AtHeld s = (if sv_paused s then s else s\<lparr>sv_backoff := INITIAL_BACKOFF, sv_at := AtProbe\<rparr>)"
| "sup_step e AtProbe s =
     (if se_listening e then s\<lparr>sv_at := AtSleep\<rparr>
      else case se_bin e of
             None \<Rightarrow> s\<lparr>sv_warned := True, sv_at := AtSleep\<rparr>
           | Some bin \<Rightarrow> s\<lparr>sv_warned := False, sv_at := AtMark bin\<rparr>)"
| "sup_step e AtSleep s = (if se_slept e then s\<lparr>sv_at := AtTop\<rparr> else s)"
| "sup_step e (AtMark bin) s = s\<lparr>sv_stopped := False, sv_at := AtRecheck bin\<rparr>"
| "sup_step e (AtRecheck bin) s = s\<lparr>sv_at := (if sv_paused s then AtUnmark else AtLaunch bin)\<rparr>"
| "sup_step e AtUnmark s = s\<lparr>sv_stopped := True, sv_at := AtTop\<rparr>"
| "sup_step e (AtLaunch bin) s =
     (if se_launches e then s\<lparr>sv_child := True, sv_at := AtWait (se_now e)\<rparr> else s\<lparr>sv_at := AtLaunchFailed\<rparr>)"
| "sup_step e (AtWait started) s =
     (if se_exited e then s\<lparr>sv_child := False, sv_at := AtReaped False started\<rparr>
      else if sv_paused s then s\<lparr>sv_child := (sv_child s \<and> \<not> se_killed e), sv_at := AtReaped True started\<rparr>
      else s)"
| "sup_step e (AtReaped for_pause started) s =
     (if for_pause then s\<lparr>sv_stopped := True, sv_at := AtTop\<rparr>
      else s\<lparr>sv_stopped := True, sv_at := AtBackoff, sv_backoff := next_backoff started (se_now e) (sv_backoff s)\<rparr>)"
| "sup_step e AtLaunchFailed s = s\<lparr>sv_stopped := True, sv_at := AtBackoff\<rparr>"
| "sup_step e AtBackoff s = (if se_slept e \<or> sv_paused s then s\<lparr>sv_at := AtTop\<rparr> else s)"

definition supervise :: "sup_env \<Rightarrow> supervisor \<Rightarrow> supervisor" where
  "supervise e s = sup_step e (sv_at s) s"

definition pause_tosu :: "supervisor \<Rightarrow> supervisor" where "pause_tosu s = s\<lparr>sv_paused := True\<rparr>"
definition resume_tosu :: "supervisor \<Rightarrow> supervisor" where "resume_tosu s = s\<lparr>sv_paused := False\<rparr>"

text \<open>\<open>pause\<close> returns once the flag is up, or after its timeout.\<close>

definition pause_returns :: "supervisor \<Rightarrow> duration \<Rightarrow> bool" where
  "pause_returns s waited \<longleftrightarrow> sv_stopped s \<or> PAUSE_TIMEOUT \<le> waited"

datatype sup_event = SupStep sup_env | PauseTosu | ResumeTosu

fun sup_occurs :: "sup_event \<Rightarrow> supervisor \<Rightarrow> supervisor" where
  "sup_occurs (SupStep e) s = supervise e s"
| "sup_occurs PauseTosu s = pause_tosu s"
| "sup_occurs ResumeTosu s = resume_tosu s"

definition sup_run :: "sup_event list \<Rightarrow> supervisor \<Rightarrow> supervisor" where
  "sup_run es s = fold sup_occurs es s"

fun kills :: "sup_event \<Rightarrow> bool" where
  "kills (SupStep e) = se_killed e"
| "kills ev = True"

text \<open>The supervisor as a relation: what may come next.\<close>

inductive sup_next :: "supervisor \<Rightarrow> supervisor \<Rightarrow> bool" where
  step: "se_killed e \<Longrightarrow> sup_next s (supervise e s)"
| pause: "sup_next s (pause_tosu s)"
| resume: "sup_next s (resume_tosu s)"

inductive sup_reachable :: "supervisor \<Rightarrow> bool" where
  start: "sup_reachable new_supervisor"
| more: "sup_reachable s \<Longrightarrow> sup_next s s' \<Longrightarrow> sup_reachable s'"

inductive_cases sup_nextE: "sup_next s s'"

lemma sup_event_next: "kills ev \<Longrightarrow> sup_next s (sup_occurs ev s)"
  by (cases ev) (auto intro: sup_next.intros)

lemma sup_run_reachable: "\<lbrakk>sup_reachable s; \<forall>ev \<in> set es. kills ev\<rbrakk> \<Longrightarrow> sup_reachable (sup_run es s)"
  unfolding sup_run_def by (induction es arbitrary: s) (auto intro: sup_reachable.more sup_event_next)

section \<open>What holds in every state\<close>

text \<open>A child runs only where the supervisor waits for it, and from marking to reaping the flag is down.\<close>

fun unmarked_at :: "sup_at \<Rightarrow> bool" where
  "unmarked_at AtTop = True"
| "unmarked_at AtHeld = True"
| "unmarked_at AtProbe = True"
| "unmarked_at AtSleep = True"
| "unmarked_at (AtMark bin) = True"
| "unmarked_at AtBackoff = True"
| "unmarked_at a = False"

definition sup_ok :: "supervisor \<Rightarrow> bool" where
  "sup_ok s \<longleftrightarrow> sv_child s = (\<exists>t. sv_at s = AtWait t) \<and> sv_stopped s = unmarked_at (sv_at s)
     \<and> INITIAL_BACKOFF \<le> sv_backoff s \<and> sv_backoff s \<le> MAX_TOSU_BACKOFF"

lemma next_backoff_ok:
  "INITIAL_BACKOFF \<le> b \<Longrightarrow> INITIAL_BACKOFF \<le> next_backoff t t' b \<and> next_backoff t t' b \<le> MAX_TOSU_BACKOFF"
  by (auto simp: next_backoff_def INITIAL_BACKOFF_def MAX_TOSU_BACKOFF_def from_secs_def)

lemma initial_backoff_ok [simp]: "INITIAL_BACKOFF \<le> MAX_TOSU_BACKOFF"
  by (simp add: INITIAL_BACKOFF_def MAX_TOSU_BACKOFF_def from_secs_def)

lemma supervise_ok: "\<lbrakk>sup_ok s; se_killed e\<rbrakk> \<Longrightarrow> sup_ok (supervise e s)"
  by (cases "sv_at s") (auto simp: supervise_def sup_ok_def next_backoff_ok split: option.split)

lemma flags_ok: "sup_ok (pause_tosu s) = sup_ok s" "sup_ok (resume_tosu s) = sup_ok s"
  by (simp_all add: sup_ok_def pause_tosu_def resume_tosu_def)

lemma sup_next_ok: "\<lbrakk>sup_next s s'; sup_ok s\<rbrakk> \<Longrightarrow> sup_ok s'"
  by (elim sup_nextE) (simp_all add: supervise_ok flags_ok)

lemma reachable_ok: "sup_reachable s \<Longrightarrow> sup_ok s"
proof (induction rule: sup_reachable.induct)
  case start
  then show ?case by (simp add: sup_ok_def new_supervisor_def)
qed (rule sup_next_ok)

section \<open>A paused tosu stays down\<close>

text \<open>Held down: paused, nothing running, and not past the second look at the flag.\<close>

definition held_down :: "supervisor \<Rightarrow> bool" where
  "held_down s \<longleftrightarrow> sv_paused s \<and> \<not> sv_child s \<and> (\<forall>b. sv_at s \<noteq> AtLaunch b) \<and> (\<forall>t. sv_at s \<noteq> AtWait t)"

lemma supervise_held_down: "held_down s \<Longrightarrow> held_down (supervise e s)"
  by (cases "sv_at s") (auto simp: supervise_def held_down_def split: option.split)

lemma run_held_down: "\<lbrakk>held_down s; ResumeTosu \<notin> set es\<rbrakk> \<Longrightarrow> held_down (sup_run es s)"
  unfolding sup_run_def
proof (induction es arbitrary: s)
  case (Cons ev es)
  have "held_down (sup_occurs ev s)"
    using Cons.prems by (cases ev) (auto simp: supervise_held_down, simp add: held_down_def pause_tosu_def)
  then show ?case using Cons by simp
qed simp

text \<open>
  C28: Once \<open>pause\<close> has returned for the flag, no tosu runs and none is started until somebody resumes:
  whatever the supervisor was doing when the pause came, its binary may be replaced. (A kill that fails
  is reported as a stop all the same; it is assumed to succeed.)
\<close>

theorem paused_tosu_stays_down:
  assumes "\<forall>ev \<in> set es. kills ev" and "sup_run es new_supervisor = s" and "sv_paused s" and "sv_stopped s"
    and "ResumeTosu \<notin> set es'"
  shows "\<not> sv_child (sup_run es' s)"
proof -
  have "sup_ok s" using assms(1,2) sup_run_reachable [OF sup_reachable.start] reachable_ok by blast
  then have "held_down s" using assms(3,4) by (cases "sv_at s") (auto simp: sup_ok_def held_down_def)
  then show ?thesis using run_held_down [OF _ assms(5)] by (simp add: held_down_def)
qed

definition sup_answer :: sup_env where
  "sup_answer = \<lparr>se_listening = False, se_bin = Some ''tosu'', se_launches = True, se_exited = False,
     se_killed = True, se_now = 0, se_slept = True\<rparr>"

lemma paused_tosu_stays_down_witness:
  "\<not> sv_child (sup_run (replicate 9 (SupStep sup_answer))
     (sup_run (replicate 5 (SupStep sup_answer) @ PauseTosu # replicate 2 (SupStep sup_answer)) new_supervisor))"
proof (rule paused_tosu_stays_down [OF _ refl])
  show "sv_paused (sup_run (replicate 5 (SupStep sup_answer) @ PauseTosu # replicate 2 (SupStep sup_answer)) new_supervisor)"
    "sv_stopped (sup_run (replicate 5 (SupStep sup_answer) @ PauseTosu # replicate 2 (SupStep sup_answer)) new_supervisor)"
    by (simp_all add: sup_run_def sup_answer_def new_supervisor_def supervise_def pause_tosu_def numeral_eq_Suc)
qed (auto simp: sup_answer_def)

section \<open>A pause is answered\<close>

lemma marked_cases:
  "sup_ok s \<Longrightarrow> \<not> sv_stopped s \<Longrightarrow> (\<exists>b. sv_at s = AtRecheck b) \<or> sv_at s = AtUnmark \<or> (\<exists>b. sv_at s = AtLaunch b)
     \<or> (\<exists>t. sv_at s = AtWait t) \<or> (\<exists>p t. sv_at s = AtReaped p t) \<or> sv_at s = AtLaunchFailed"
  by (cases "sv_at s") (auto simp: sup_ok_def)

lemma paused_stops:
  assumes "sup_ok s" and "sv_paused s" and "\<not> sv_stopped s"
  shows "sv_stopped (supervise e1 s) \<or> sv_stopped (supervise e2 (supervise e1 s))
     \<or> sv_stopped (supervise e3 (supervise e2 (supervise e1 s)))"
  using marked_cases [OF assms(1,3)] assms(2)
  by (elim disjE exE) (simp_all add: supervise_def split: if_split)

text \<open>
  C29: A pause is answered: from every state the supervisor can be in, it takes at most three of its own
  steps, whatever the system answers, until the flag says that tosu is stopped.
\<close>

theorem pause_is_answered:
  assumes "\<forall>ev \<in> set es. kills ev"
  shows "\<exists>n \<le> 3. sv_stopped (sup_run (map SupStep (take n [e1, e2, e3])) (pause_tosu (sup_run es new_supervisor)))"
proof -
  let ?s = "pause_tosu (sup_run es new_supervisor)"
  have ok: "sup_ok ?s"
    using reachable_ok [OF sup_run_reachable [OF sup_reachable.start assms]] by (simp add: sup_ok_def pause_tosu_def)
  have paused: "sv_paused ?s" by (simp add: pause_tosu_def)
  consider (up) "sv_stopped ?s" | (down) "\<not> sv_stopped ?s" by blast
  then show ?thesis
  proof cases
    case up
    then show ?thesis by (intro exI [of _ 0]) (simp add: sup_run_def)
  next
    case down
    have "sv_stopped (sup_run (map SupStep [e1]) ?s) \<or> sv_stopped (sup_run (map SupStep [e1, e2]) ?s)
        \<or> sv_stopped (sup_run (map SupStep [e1, e2, e3]) ?s)"
      using paused_stops [OF ok paused down] by (simp add: sup_run_def)
    then show ?thesis
      by (elim disjE) (rule exI [of _ 1], simp, rule exI [of _ 2], simp add: numeral_2_eq_2, rule exI [of _ 3], simp add: numeral_3_eq_3)
  qed
qed

lemma pause_is_answered_witness:
  "\<exists>n \<le> 3. sv_stopped (sup_run (map SupStep (take n [sup_answer, sup_answer, sup_answer]))
     (pause_tosu (sup_run (replicate 5 (SupStep sup_answer)) new_supervisor)))"
  by (rule pause_is_answered) (simp add: sup_answer_def)

end
