(* ===== verification/Recovery.thy ===== *)
theory Recovery
  imports Flash Tosu
begin

text \<open>
  Recovering a pad whose firmware does not answer (\<open>recover\<close> of \<open>crates/opad-device/src/flash.rs\<close>):
  its ROM is on the bus for a moment at every boot; it is caught there, reset into download mode, its
  watchdogs are stopped and the whole set of images is written. What the ports show at each look, how
  opening and writing end and what the ROM answers are inputs.
\<close>

section \<open>Catching the boot\<close>

text \<open>The looks at the ports, each with its time; \<open>None\<close>: still looking after those that are given.\<close>

fun wait_for_rom_port :: "instant \<Rightarrow> (instant \<times> string list) list \<Rightarrow> (flash_error, string) result option" where
  "wait_for_rom_port deadline [] = None"
| "wait_for_rom_port deadline ((now, ports) # looks) =
     (if deadline \<le> now then Some (Inl NoBootloader)
      else case ports of
             [] \<Rightarrow> wait_for_rom_port deadline looks
           | [p] \<Rightarrow> Some (Inr p)
           | _ \<Rightarrow> Some (Inl (AmbiguousBootloader ports)))"

text \<open>Opening a port again until a deadline: the error of each attempt, or \<open>None\<close> when it opens.\<close>

fun open_until :: "instant \<Rightarrow> (instant \<times> string option) list \<Rightarrow> (string, unit) result option" where
  "open_until deadline [] = None"
| "open_until deadline ((now, e) # tries) =
     (case e of
        None \<Rightarrow> Some (Inr ())
      | Some why \<Rightarrow> if deadline \<le> now then Some (Inl why) else open_until deadline tries)"

definition open_with_retry :: "string \<Rightarrow> instant \<Rightarrow> (instant \<times> string option) list \<Rightarrow> (flash_error, unit) result option" where
  "open_with_retry p deadline tries =
     map_option (\<lambda>r. case r of Inl e \<Rightarrow> Inl (PortBusy p e) | Inr u \<Rightarrow> Inr u) (open_until deadline tries)"

definition wait_until_openable :: "string \<Rightarrow> instant \<Rightarrow> (instant \<times> string option) list \<Rightarrow> (flash_error, unit) result option" where
  "wait_until_openable = open_with_retry"

fun wait_for_port :: "instant \<Rightarrow> (instant \<times> string option) list \<Rightarrow> string option option" where
  "wait_for_port deadline [] = None"
| "wait_for_port deadline ((now, found) # looks) =
     (if deadline \<le> now then Some None
      else case found of Some p \<Rightarrow> Some (Some p) | None \<Rightarrow> wait_for_port deadline looks)"

section \<open>Into download mode\<close>

datatype line_change = Rts bool | Dtr bool

text \<open>The changes of the lines, all but the last of which must succeed.\<close>

definition USJ_RESET :: "line_change list" where
  "USJ_RESET = [Rts False, Dtr False, Rts False, Dtr True, Rts True, Dtr False, Rts True]"

definition USJ_RELEASE :: line_change where "USJ_RELEASE = Rts False"

fun change_lines :: "(nat \<Rightarrow> string option) \<Rightarrow> nat \<Rightarrow> line_change list \<Rightarrow> line_change list \<times> (string, unit) result" where
  "change_lines fails n [] = ([], Inr ())"
| "change_lines fails n (c # cs) =
     (case fails n of
        Some e \<Rightarrow> ([], Inl e)
      | None \<Rightarrow> (case change_lines fails (Suc n) cs of (gone, r) \<Rightarrow> (c # gone, r)))"

definition usj_reset_to_download :: "(string, unit) result \<Rightarrow> (nat \<Rightarrow> string option)
    \<Rightarrow> line_change list \<times> (string, unit) result" where
  "usj_reset_to_download opened fails =
     (case opened of
        Inl e \<Rightarrow> ([], Inl e)
      | Inr _ \<Rightarrow>
          (case change_lines fails 0 USJ_RESET of
             (cs, Inl e) \<Rightarrow> (cs, Inl e)
           | (cs, Inr _) \<Rightarrow> (cs @ (if fails (length USJ_RESET) = None then [USJ_RELEASE] else []), Inr ())))"

text \<open>The lines (RTS, DTR) after each change.\<close>

fun lines_after :: "bool \<times> bool \<Rightarrow> line_change list \<Rightarrow> (bool \<times> bool) list" where
  "lines_after l [] = []"
| "lines_after (r, d) (Rts b # cs) = (b, d) # lines_after (b, d) cs"
| "lines_after (r, d) (Dtr b # cs) = (r, b) # lines_after (r, b) cs"

section \<open>The ROM\<close>

definition RTC_CNTL_SWD_CONF_REG :: u32 where "RTC_CNTL_SWD_CONF_REG = 0x600080B4"
definition RTC_CNTL_SWD_WPROTECT_REG :: u32 where "RTC_CNTL_SWD_WPROTECT_REG = 0x600080B8"
definition RTC_CNTL_SWD_WKEY :: u32 where "RTC_CNTL_SWD_WKEY = 0x8F1D312A"
definition RTC_CNTL_SWD_AUTO_FEED_EN :: u32 where "RTC_CNTL_SWD_AUTO_FEED_EN = push_bit 31 1"
definition CMD_SYNC :: u8 where "CMD_SYNC = 8"

definition sync_packet :: "u8 list" where
  "sync_packet =
     (let body = [0x07, 0x07, 0x12, 0x20] @ replicate 32 0x55
      in [0, CMD_SYNC] @ le_bytes 2 (length body) @ le32 0 @ body)"

definition is_sync_reply :: "(string, u8 list) result \<Rightarrow> bool" where
  "is_sync_reply r = (case r of Inr reply \<Rightarrow> 2 \<le> length reply \<and> reply ! 0 = 1 \<and> reply ! 1 = CMD_SYNC | Inl e \<Rightarrow> False)"

text \<open>
  Up to ten attempts; each is the error of the write, or the bytes that come back within its time.
  What is left of the replies after the first is read and dropped.
\<close>

definition SYNC_ATTEMPTS :: nat where "SYNC_ATTEMPTS = 10"

fun sync_tries :: "nat \<Rightarrow> (nat \<Rightarrow> (string, u8 list) result) \<Rightarrow> nat \<Rightarrow> u8 list list \<times> (string, unit) result" where
  "sync_tries 0 link n = ([], Inl ''no answer to SYNC'')"
| "sync_tries (Suc k) link n =
     (case link n of
        Inl e \<Rightarrow> ([], Inl e)
      | Inr reply \<Rightarrow>
          if is_sync_reply (read_slip_frame reply) then ([slip_encode sync_packet], Inr ())
          else (case sync_tries k link (Suc n) of (out, r) \<Rightarrow> (slip_encode sync_packet # out, r)))"

definition rom_sync :: "(nat \<Rightarrow> (string, u8 list) result) \<Rightarrow> u8 list list \<times> (string, unit) result" where
  "rom_sync link = sync_tries SYNC_ATTEMPTS link 0"

definition WATCHDOG_STEPS :: "(u32 \<times> u32 \<times> bool) list" where
  "WATCHDOG_STEPS = [(RTC_CNTL_WDTWPROTECT_REG, RTC_CNTL_WDT_WKEY, True),
     (RTC_CNTL_WDTCONFIG0_REG, 0, True),
     (RTC_CNTL_WDTWPROTECT_REG, 0, True),
     (RTC_CNTL_SWD_WPROTECT_REG, RTC_CNTL_SWD_WKEY, True),
     (RTC_CNTL_SWD_CONF_REG, RTC_CNTL_SWD_AUTO_FEED_EN, True),
     (RTC_CNTL_SWD_WPROTECT_REG, 0, True)]"

definition disable_watchdogs :: "(flash_error, unit) result \<Rightarrow> (nat \<Rightarrow> (string, u8 list) result)
    \<Rightarrow> (nat \<Rightarrow> (string, u8 list) result) \<Rightarrow> (register_fault \<Rightarrow> string) \<Rightarrow> u8 list list \<times> (flash_error, unit) result" where
  "disable_watchdogs opened sync_link link message =
     (case opened of
        Inl e \<Rightarrow> ([], Inl e)
      | Inr _ \<Rightarrow>
          (case rom_sync sync_link of
             (out, Inl e) \<Rightarrow> (out, Inl (ResetFailed (''syncing with the ROM: '' @ e)))
           | (out, Inr _) \<Rightarrow>
               (case write_regs link 0 WATCHDOG_STEPS of
                  (regs, Inl e) \<Rightarrow> (out @ regs, Inl (ResetFailed (''stopping the watchdogs: '' @ message e)))
                | (regs, Inr _) \<Rightarrow> (out @ regs, Inr ()))))"

section \<open>The recovery\<close>

record recovery_env =
  rv_caught :: "(flash_error, string) result"
  rv_opens :: "(string, unit) result"
  rv_line_fails :: "nat \<Rightarrow> string option"
  rv_boot_port :: "(flash_error, string) result"
  rv_rom_opens :: "(flash_error, unit) result"
  rv_sync :: "nat \<Rightarrow> (string, u8 list) result"
  rv_regs :: "nat \<Rightarrow> (string, u8 list) result"
  rv_message :: "register_fault \<Rightarrow> string"
  rv_leaves :: "string \<Rightarrow> (flash_error, unit) result"

definition recover :: "recovery_env \<Rightarrow> flasher \<Rightarrow> files \<Rightarrow> (u32 \<times> path) list \<Rightarrow> memory
    \<Rightarrow> (flash_error, unit) result \<times> memory" where
  "recover e run f ps m =
     (case rv_caught e of
        Inl err \<Rightarrow> (Inl err, m)
      | Inr caught \<Rightarrow>
          (case usj_reset_to_download (rv_opens e) (rv_line_fails e) of
             (cs, Inl why) \<Rightarrow> (Inl (PortBusy caught why), m)
           | (cs, Inr _) \<Rightarrow>
               (case rv_boot_port e of
                  Inl err \<Rightarrow> (Inl err, m)
                | Inr boot_port \<Rightarrow>
                    (case disable_watchdogs (rv_rom_opens e) (rv_sync e) (rv_regs e) (rv_message e) of
                       (out, Inl err) \<Rightarrow> (Inl err, m)
                     | (out, Inr _) \<Rightarrow>
                         (case write_images run f ps m of
                            (Inl err, m) \<Rightarrow> (Inl err, m)
                          | (Inr _, m) \<Rightarrow> (rv_leaves e boot_port, m))))))"

section \<open>The flasher's binary\<close>

text \<open>
  Next to the program or beside its prefix, then cargo's of a Windows user, then whatever is on the
  path. Directories are given as the system has them.
\<close>

definition resolve_espflash :: "(string \<Rightarrow> bool) \<Rightarrow> string option \<Rightarrow> string option \<Rightarrow> string option \<Rightarrow> string" where
  "resolve_espflash is_file exe_dir prefix userprofile =
     (case Option.bind exe_dir (\<lambda>dir. find is_file
             ([join_path dir ''espflash.exe'', join_path dir ''espflash'']
               @ (case prefix of Some p \<Rightarrow> [join_path p ''lib/opad/bin/espflash''] | None \<Rightarrow> []))) of
        Some found \<Rightarrow> found
      | None \<Rightarrow>
          (case filtered is_file (map_option (\<lambda>u. join_path (join_path (join_path u ''.cargo'') ''bin'') ''espflash.exe'') userprofile) of
             Some found \<Rightarrow> found
           | None \<Rightarrow> ''espflash''))"

section \<open>What a recovery may write\<close>

text \<open>IO0 is held low until the reset: after it is pulled, the lines pass through (1, 1) and never (0, 0).\<close>

lemma reset_keeps_boot_pin_low:
  "lines_after (r, d) USJ_RESET =
     [(False, d), (False, False), (False, False), (False, True), (True, True), (True, False), (True, False)]"
  by (simp add: USJ_RESET_def)

lemma wait_for_rom_port_found:
  "wait_for_rom_port deadline looks = Some (Inr p) \<Longrightarrow> \<exists>now. (now, [p]) \<in> set looks \<and> now < deadline"
proof (induction deadline looks rule: wait_for_rom_port.induct)
  case (2 deadline now ports looks)
  then show ?case by (auto split: if_splits list.splits)
qed simp

lemma wait_for_rom_port_ends:
  "looks \<noteq> [] \<Longrightarrow> deadline \<le> fst (last looks) \<Longrightarrow> wait_for_rom_port deadline looks \<noteq> None"
  by (induction deadline looks rule: wait_for_rom_port.induct) (auto split: list.split if_splits)

lemma write_regs_all:
  "write_regs link n rs = (out, Inr ()) \<Longrightarrow> out = map (\<lambda>(a, v, x). slip_encode (register_packet a v)) rs"
  by (induction link n rs arbitrary: out rule: write_regs.induct)
    (auto simp: Let_def split: sum.splits prod.splits if_splits)

lemma sync_tries_bounded: "sync_tries k link n = (out, r) \<Longrightarrow> length out \<le> k \<and> set out \<subseteq> {slip_encode sync_packet}"
  by (induction k link n arbitrary: out rule: sync_tries.induct) (auto split: sum.splits prod.splits if_splits)


text \<open>A pad whose ROM answers everything.\<close>

definition ok_reply :: "u8 \<Rightarrow> u8 list" where
  "ok_reply cmd = slip_encode [1, cmd, 2, 0, 0, 0, 0, 0, 0, 0]"

definition good_recovery :: recovery_env where
  "good_recovery = \<lparr>rv_caught = Inr ''/dev/ttyACM0'', rv_opens = Inr (), rv_line_fails = \<lambda>n. None,
     rv_boot_port = Inr ''/dev/ttyACM0'', rv_rom_opens = Inr (), rv_sync = \<lambda>n. Inr (ok_reply CMD_SYNC),
     rv_regs = \<lambda>n. Inr (ok_reply CMD_WRITE_REG), rv_message = \<lambda>e. [], rv_leaves = \<lambda>p. Inr ()\<rparr>"

definition touching_flasher :: flasher where
  "touching_flasher off bytes m = (Exited True (Some 0), m(unat off := 0xE9))"

lemma good_replies:
  "read_slip_frame (ok_reply CMD_SYNC) = Inr [1, CMD_SYNC, 2, 0, 0, 0, 0, 0, 0, 0]"
  "read_slip_frame (ok_reply CMD_WRITE_REG) = Inr [1, CMD_WRITE_REG, 2, 0, 0, 0, 0, 0, 0, 0]"
  by code_simp+

lemma good_sync: "snd (rom_sync (rv_sync good_recovery)) = Inr ()"
  by (simp add: good_recovery_def rom_sync_def SYNC_ATTEMPTS_def numeral_eq_Suc is_sync_reply_def good_replies)

lemma good_regs: "snd (write_regs (rv_regs good_recovery) n rs) = Inr ()"
proof (induction rs arbitrary: n)
  case (Cons r rs)
  obtain a v x where r: "r = (a, v, x)" by (metis prod_cases3)
  obtain out where "write_regs (rv_regs good_recovery) (Suc n) rs = (out, Inr ())"
    using Cons [of "Suc n"] by (metis prod.collapse)
  then show ?case by (simp add: r good_recovery_def check_reply_def good_replies Let_def)
qed simp

lemma good_lines: "snd (usj_reset_to_download (rv_opens good_recovery) (rv_line_fails good_recovery)) = Inr ()"
  by (simp add: good_recovery_def usj_reset_to_download_def USJ_RESET_def)


text \<open>
  The port that is written to is whichever single ROM is there after the reset: nothing says that it
  is the one that was caught.
\<close>

lemma recovery_may_change_port:
  "rv_caught e = Inr p \<Longrightarrow> snd (recover (e\<lparr>rv_caught := Inr q\<rparr>) run f ps m) = snd (recover e run f ps m)"
  by (simp add: recover_def split: prod.split sum.split)

end
