(* ===== verification/Gui_Keys.thy ===== *)
theory Gui_Keys
  imports Runtime
begin

text \<open>
  The keys page of the desktop app (\<open>gui/src/keys.rs\<close>): the settings of the magnetic keys as they are
  edited, linked or apart, what is saved to the pad, and the live view's filter. Widgets are left out.
  The \<open>f32\<close> of the live view is a real number.
\<close>

section \<open>Settings\<close>

datatype he_field = FActuation | FSensitivity | FRtPress | FRtRelease | FReleaseHyst | FTopReset | FBottomDeadZone

type_synonym both_keys = "he_key_config \<times> he_key_config"

text \<open>Key 0 is the first, any other the second, as \<open>cal_span\<close> has it.\<close>

definition key_of :: "nat \<Rightarrow> both_keys \<Rightarrow> he_key_config" where
  "key_of k b = (if k = 0 then fst b else snd b)"

definition pad_settings :: "device_config \<Rightarrow> both_keys" where
  "pad_settings c = (case key1_he c of Some k \<Rightarrow> k | None \<Rightarrow> default_he_key,
     case key2_he c of Some k \<Rightarrow> k | None \<Rightarrow> default_he_key)"

definition cal_span :: "he_calibration_status \<Rightarrow> nat \<Rightarrow> (u32 \<times> u32) option" where
  "cal_span cal k =
     (let (ok, rest, full) = (if k = 0 then (key1_calibrated cal, cal_key1_rest cal, cal_key1_full cal)
        else (key2_calibrated cal, cal_key2_rest cal, cal_key2_full cal))
      in if ok \<and> rest < full then Some (rest, full) else None)"

definition known_floors :: "he_calibration_status \<Rightarrow> (u32 \<times> u32) option" where
  "known_floors cal = (if 0 < noise_floor_rest cal then Some (noise_floor_rest cal, noise_floor_movement cal) else None)"

definition floors_known :: "he_calibration_status option \<Rightarrow> bool" where
  "floors_known cal = (case cal of Some c \<Rightarrow> 0 < noise_floor_rest c | None \<Rightarrow> False)"

definition shown_effective :: "he_calibration_status option \<Rightarrow> nat \<Rightarrow> he_key_config \<Rightarrow> he_effective option" where
  "shown_effective cal k c =
     (case cal of None \<Rightarrow> None
      | Some s \<Rightarrow> (case cal_span s k of None \<Rightarrow> None | Some (rest, full) \<Rightarrow> he_effective c rest full (known_floors s)))"

definition SLIDER_MIN :: u32 where "SLIDER_MIN = 10"
definition SLIDER_MAX :: u32 where "SLIDER_MAX = 950"

definition min_actuation :: "he_calibration_status option \<Rightarrow> nat \<Rightarrow> he_key_config \<Rightarrow> u32" where
  "min_actuation cal k c =
     (if allow_below_noise_floor c \<and> floors_known cal then SLIDER_MIN
      else let m = (case cal of None \<Rightarrow> None
                    | Some s \<Rightarrow> (case cal_span s k of None \<Rightarrow> None
                        | Some (rest, full) \<Rightarrow> he_min_actuation c rest full (known_floors s)))
        in max SLIDER_MIN (min (case m of Some a \<Rightarrow> a | None \<Rightarrow> SLIDER_MIN) SLIDER_MAX))"

definition slider_min :: "he_calibration_status option \<Rightarrow> bool \<Rightarrow> nat \<Rightarrow> he_key_config \<Rightarrow> u32" where
  "slider_min cal sep k c =
     (if sep then min_actuation cal k c else max (min_actuation cal 0 c) (min_actuation cal 1 c))"

definition min_actuation_share :: "he_calibration_status option \<Rightarrow> bool \<Rightarrow> nat \<Rightarrow> he_key_config \<Rightarrow> rat" where
  "min_actuation_share cal sep k c =
     (let m = slider_min cal sep k c
      in case shown_effective cal k (c\<lparr>actuation := m\<rparr>) of Some e \<Rightarrow> eff_press e | None \<Rightarrow> of_nat (unat m) / 1000)"

section \<open>The live view\<close>

definition MIN_CUTOFF :: real where "MIN_CUTOFF = 1 / 2"
definition SPEED_BETA :: real where "SPEED_BETA = 4 / 1000"
definition SPEED_CUTOFF :: real where "SPEED_CUTOFF = 7 / 10"
definition DRAW_TAU_S :: real where "DRAW_TAU_S = 25 / 1000"
definition HOLD_COUNTS :: real where "HOLD_COUNTS = 6"

record one_euro =
  oe_value :: "real option"
  oe_speed :: real
  oe_at :: "instant option"

definition new_euro :: one_euro where "new_euro = \<lparr>oe_value = None, oe_speed = 0, oe_at = None\<rparr>"

definition euro_at :: "real \<Rightarrow> instant \<Rightarrow> one_euro" where
  "euro_at x now = \<lparr>oe_value = Some x, oe_speed = 0, oe_at = Some now\<rparr>"

definition alpha :: "real \<Rightarrow> real \<Rightarrow> real" where
  "alpha cutoff dt = (let tau = 1 / (2 * pi * cutoff) in 1 / (1 + tau / dt))"

definition secs :: "duration \<Rightarrow> real" where "secs d = of_nat d / 10 ^ 9"

definition euro_filter :: "real \<Rightarrow> instant \<Rightarrow> one_euro \<Rightarrow> one_euro" where
  "euro_filter x now e =
     (case (oe_value e, oe_at e) of
        (Some prev, Some t) \<Rightarrow>
          let dt = max (secs (now - t)) (1 / 1000);
              speed = oe_speed e + alpha SPEED_CUTOFF dt * ((x - prev) / dt - oe_speed e);
              cutoff = MIN_CUTOFF + SPEED_BETA * \<bar>speed\<bar>;
              v = prev + alpha cutoff dt * (x - prev)
          in \<lparr>oe_value = Some v, oe_speed = speed, oe_at = Some now\<rparr>
      | _ \<Rightarrow> e\<lparr>oe_value := Some x, oe_at := Some now\<rparr>)"

definition hold :: "real \<Rightarrow> real \<Rightarrow> real" where
  "hold held v =
     (if held + HOLD_COUNTS < v then v - HOLD_COUNTS
      else if v < held - HOLD_COUNTS then v + HOLD_COUNTS
      else held)"

record live_sample =
  lv_raw :: "u32 \<times> u32"
  lv_down :: "bool \<times> bool"

text \<open>One key of the live view: its filter, what is held and where its stem is drawn.\<close>

record key_view =
  kv_smooth :: one_euro
  kv_held :: "real option"
  kv_drawn :: "real option"

definition new_view :: key_view where
  "new_view = \<lparr>kv_smooth = new_euro, kv_held = None, kv_drawn = None\<rparr>"

definition advance_key :: "real \<Rightarrow> key_view \<Rightarrow> key_view" where
  "advance_key follow v =
     (let held = (case (kv_held v, oe_value (kv_smooth v)) of (Some h, Some x) \<Rightarrow> Some (hold h x) | (_, x) \<Rightarrow> x);
          drawn = (case (kv_drawn v, held) of (Some d, Some t) \<Rightarrow> Some (d + (t - d) * follow) | (_, t) \<Rightarrow> t)
      in v\<lparr>kv_held := held, kv_drawn := drawn\<rparr>)"

definition take_reading :: "instant \<Rightarrow> u32 \<Rightarrow> bool option \<Rightarrow> bool \<Rightarrow> key_view \<Rightarrow> key_view" where
  "take_reading now raw was_down down v =
     (if raw = 0 then v\<lparr>kv_smooth := new_euro\<rparr>
      else let x = of_nat (unat raw) in
        if was_down \<noteq> None \<and> was_down \<noteq> Some down
        then v\<lparr>kv_smooth := euro_at x now, kv_held := Some x, kv_drawn := Some x\<rparr>
        else v\<lparr>kv_smooth := euro_filter x now (kv_smooth v)\<rparr>)"

section \<open>The page\<close>

record keys_state =
  ks_separate :: bool
  ks_advanced :: bool
  ks_edit :: "both_keys option"
  ks_dirty :: bool
  ks_live :: "live_sample option"
  ks_views :: "key_view \<times> key_view"
  ks_last_frame :: "instant option"
  ks_live_supported :: bool
  ks_live_inflight :: bool

definition new_keys_state :: keys_state where
  "new_keys_state = \<lparr>ks_separate = False, ks_advanced = False, ks_edit = None, ks_dirty = False, ks_live = None,
     ks_views = (new_view, new_view), ks_last_frame = None, ks_live_supported = False, ks_live_inflight = False\<rparr>"

definition adopt :: "device_config \<Rightarrow> keys_state \<Rightarrow> keys_state" where
  "adopt c s =
     (if ks_dirty s then s
      else let pad = pad_settings c
        in s\<lparr>ks_separate := (if ks_edit s = None then fst pad \<noteq> snd pad else ks_separate s), ks_edit := Some pad\<rparr>)"

definition stop_live :: "keys_state \<Rightarrow> keys_state" where
  "stop_live s = s\<lparr>ks_live := None, ks_live_inflight := False, ks_views := (new_view, new_view), ks_last_frame := None\<rparr>"

definition advance_views :: "instant \<Rightarrow> keys_state \<Rightarrow> keys_state" where
  "advance_views now s =
     (let dt = (case ks_last_frame s of Some t \<Rightarrow> secs (now - t) | None \<Rightarrow> 0);
          follow = 1 - exp (- dt / DRAW_TAU_S)
      in s\<lparr>ks_last_frame := Some now, ks_views := map_prod (advance_key follow) (advance_key follow) (ks_views s)\<rparr>)"

definition reset_filter :: "key_view \<Rightarrow> key_view" where
  "reset_filter v = v\<lparr>kv_smooth := new_euro\<rparr>"

definition take_sample :: "live_sample option \<Rightarrow> instant \<Rightarrow> keys_state \<Rightarrow> keys_state" where
  "take_sample sample now s =
     (let was = map_option lv_down (ks_live s); s = s\<lparr>ks_live := sample\<rparr>
      in case sample of
           None \<Rightarrow> s\<lparr>ks_views := map_prod reset_filter reset_filter (ks_views s)\<rparr>
         | Some x \<Rightarrow> s\<lparr>ks_views :=
             map_prod (take_reading now (fst (lv_raw x)) (map_option fst was) (fst (lv_down x)))
               (take_reading now (snd (lv_raw x)) (map_option snd was) (snd (lv_down x))) (ks_views s)\<rparr>)"

text \<open>Linked: a change goes to both keys.\<close>

definition apply_to :: "bool \<Rightarrow> nat \<Rightarrow> (he_key_config \<Rightarrow> he_key_config) \<Rightarrow> both_keys \<Rightarrow> both_keys" where
  "apply_to sep k f b = (if \<not> sep then map_prod f f b else if k = 0 then (f (fst b), snd b) else (fst b, f (snd b)))"

fun set_he_field :: "he_field \<Rightarrow> u32 \<Rightarrow> he_key_config \<Rightarrow> he_key_config" where
  "set_he_field FActuation v c = c\<lparr>actuation := v\<rparr>"
| "set_he_field FSensitivity v c = c\<lparr>rt_press := v, rt_release := v\<rparr>"
| "set_he_field FRtPress v c = c\<lparr>rt_press := v\<rparr>"
| "set_he_field FRtRelease v c = c\<lparr>rt_release := v\<rparr>"
| "set_he_field FReleaseHyst v c = c\<lparr>release_hyst := v\<rparr>"
| "set_he_field FTopReset v c = c\<lparr>he_top_reset := v\<rparr>"
| "set_he_field FBottomDeadZone v c = c\<lparr>bottom_dead_zone := v\<rparr>"

definition set_rapid :: "bool \<Rightarrow> he_key_config \<Rightarrow> he_key_config" where
  "set_rapid on c = c\<lparr>rt_mode := (if \<not> on then RtOff else if rt_mode c = RtOff then RtNormal else rt_mode c)\<rparr>"

definition set_continuous :: "bool \<Rightarrow> he_key_config \<Rightarrow> he_key_config" where
  "set_continuous on c =
     (if rt_mode c = RtOff then c else c\<lparr>rt_mode := (if on then RtContinuous else RtNormal)\<rparr>)"

datatype keys_edit = Separate bool | ToggleAdvanced | SetField nat he_field u32 | RapidTrigger nat bool
  | ContinuousMode nat bool | NoFloor nat bool | Revert

fun edit_settings :: "both_keys \<Rightarrow> keys_edit \<Rightarrow> keys_state \<Rightarrow> keys_state" where
  "edit_settings pad (Separate on) s =
     (let b = (case ks_edit s of Some b \<Rightarrow> b | None \<Rightarrow> pad)
      in if \<not> on \<and> fst b \<noteq> snd b
         then s\<lparr>ks_separate := on, ks_edit := Some (fst b, fst b), ks_dirty := True\<rparr>
         else s\<lparr>ks_separate := on, ks_edit := Some b\<rparr>)"
| "edit_settings pad ToggleAdvanced s =
     s\<lparr>ks_advanced := (\<not> ks_advanced s), ks_edit := Some (case ks_edit s of Some b \<Rightarrow> b | None \<Rightarrow> pad)\<rparr>"
| "edit_settings pad (SetField k f v) s =
     s\<lparr>ks_edit := Some (apply_to (ks_separate s) k (set_he_field f v) (case ks_edit s of Some b \<Rightarrow> b | None \<Rightarrow> pad)),
       ks_dirty := True\<rparr>"
| "edit_settings pad (RapidTrigger k on) s =
     s\<lparr>ks_edit := Some (apply_to (ks_separate s) k (set_rapid on) (case ks_edit s of Some b \<Rightarrow> b | None \<Rightarrow> pad)),
       ks_dirty := True\<rparr>"
| "edit_settings pad (ContinuousMode k on) s =
     s\<lparr>ks_edit := Some (apply_to (ks_separate s) k (set_continuous on) (case ks_edit s of Some b \<Rightarrow> b | None \<Rightarrow> pad)),
       ks_dirty := True\<rparr>"
| "edit_settings pad (NoFloor k on) s =
     s\<lparr>ks_edit := Some (apply_to (ks_separate s) k (\<lambda>c. c\<lparr>allow_below_noise_floor := on\<rparr>)
         (case ks_edit s of Some b \<Rightarrow> b | None \<Rightarrow> pad)), ks_dirty := True\<rparr>"
| "edit_settings pad Revert s =
     s\<lparr>ks_dirty := False, ks_edit := Some pad, ks_separate := (fst pad \<noteq> snd pad)\<rparr>"

text \<open>No point below the one the key really presses at.\<close>

definition raise_one :: "he_calibration_status option \<Rightarrow> bool \<Rightarrow> nat \<Rightarrow> he_key_config \<Rightarrow> he_key_config" where
  "raise_one cal sep k c = c\<lparr>actuation := max (actuation c) (slider_min cal sep k c)\<rparr>"

definition raise_points :: "he_calibration_status option \<Rightarrow> bool \<Rightarrow> both_keys \<Rightarrow> both_keys" where
  "raise_points cal sep b = map_prod (raise_one cal sep 0) (raise_one cal sep 1) b"

record keys_page =
  kp_keys :: keys_state
  kp_config :: device_config
  kp_connected :: bool
  kp_calibration :: "he_calibration_status option"
  kp_banner :: "string option"

datatype keys_request = SaveConfig device_config | AskLive

definition save_keys :: "keys_page \<Rightarrow> keys_request option \<times> keys_page" where
  "save_keys p =
     (if \<not> kp_connected p then (None, p\<lparr>kp_banner := Some ''Cannot save: the pad is not connected.''\<rparr>)
      else
        let b = raise_points (kp_calibration p) (ks_separate (kp_keys p))
                  (case ks_edit (kp_keys p) of Some b \<Rightarrow> b | None \<Rightarrow> pad_settings (kp_config p))
        in (Some (SaveConfig (kp_config p\<lparr>key1_he := Some (fst b), key2_he := Some (snd b)\<rparr>)),
            p\<lparr>kp_keys := kp_keys p\<lparr>ks_dirty := False\<rparr>, kp_banner := Some ''Saving key settings...''\<rparr>))"

definition poll_live :: "keys_page \<Rightarrow> keys_request option \<times> keys_page" where
  "poll_live p =
     (if ks_live_inflight (kp_keys p) \<or> \<not> kp_connected p then (None, p)
      else (Some AskLive, p\<lparr>kp_keys := kp_keys p\<lparr>ks_live_inflight := True\<rparr>\<rparr>))"

text \<open>An answer of the daemon: whether the pad streams and a sample, or anything else.\<close>

definition live_answer :: "(bool \<times> live_sample option) option \<Rightarrow> instant \<Rightarrow> keys_page \<Rightarrow> keys_page" where
  "live_answer r now p =
     (let s = kp_keys p\<lparr>ks_live_inflight := False\<rparr>;
          (supported, sample) = (case r of Some a \<Rightarrow> a | None \<Rightarrow> (False, None))
      in p\<lparr>kp_keys := take_sample sample now (s\<lparr>ks_live_supported := supported\<rparr>)\<rparr>)"

definition edit_keys :: "keys_edit \<Rightarrow> keys_page \<Rightarrow> keys_page" where
  "edit_keys m p =
     (let s = edit_settings (pad_settings (kp_config p)) m (kp_keys p)
      in p\<lparr>kp_keys := s\<lparr>ks_edit := map_option (raise_points (kp_calibration p) (ks_separate s)) (ks_edit s)\<rparr>\<rparr>)"

section \<open>What is saved\<close>

lemma he_raised_actuation [simp]: "he_raised (c\<lparr>actuation := a\<rparr>) = he_raised c"
  by (simp add: he_raised_def fun_eq_iff)

lemma he_min_actuation_actuation [simp]:
  "he_min_actuation (c\<lparr>actuation := a\<rparr>) rest full fl = he_min_actuation c rest full fl"
  by (simp only: he_min_actuation_def he_raised_actuation)

lemma slider_min_ge: "k \<le> 1 \<Longrightarrow> min_actuation cal k c \<le> slider_min cal sep k c"
  by (cases k) (auto simp: slider_min_def)

lemma min_actuation_known:
  assumes "cal = Some s" and "cal_span s k = Some (rest, full)" and "\<not> (allow_below_noise_floor c \<and> floors_known cal)"
    and "he_min_actuation c rest full (known_floors s) = Some m" and "m \<le> SLIDER_MAX"
  shows "m \<le> min_actuation cal k c"
  using assms by (auto simp: min_actuation_def Let_def)


definition demo_calibration :: he_calibration_status where
  "demo_calibration = \<lparr>key1_calibrated = True, key2_calibrated = True, cal_key1_rest = 1000, cal_key1_full = 1450,
     cal_key2_rest = 1000, cal_key2_full = 1450, is_locked = False, is_calibrating = False, noise_floor_rest = 12,
     noise_floor_movement = 18\<rparr>"

text \<open>A key whose point was typed as 2 % is saved with the 12.6 % it presses at.\<close>

definition typed_low :: he_key_config where "typed_low = default_he_key\<lparr>actuation := 20\<rparr>"

lemma demo_least: "he_min_actuation typed_low 1000 1450 (Some (12, 18)) = Some 126"
  by code_simp

lemma demo_slider: "slider_min (Some demo_calibration) False k typed_low = 126"
proof -
  have "\<not> allow_below_noise_floor typed_low" by (simp add: typed_low_def default_he_key_def)
  then show ?thesis
    by (simp add: slider_min_def min_actuation_def demo_calibration_def cal_span_def known_floors_def
      SLIDER_MIN_def SLIDER_MAX_def demo_least)
qed

definition demo_page :: keys_page where
  "demo_page = \<lparr>kp_keys = new_keys_state\<lparr>ks_edit := Some (typed_low, typed_low)\<rparr>, kp_config = default_config,
     kp_connected = True, kp_calibration = Some demo_calibration, kp_banner = None\<rparr>"


text \<open>The second key of a pad that turns up later with two different keys is edited unseen.\<close>

lemma later_difference_is_hidden:
  assumes "fst (pad_settings c) = snd (pad_settings c)" and "fst (pad_settings d) \<noteq> snd (pad_settings d)"
  shows "\<not> ks_separate (adopt d (adopt c new_keys_state))
    \<and> ks_edit (adopt d (adopt c new_keys_state)) = Some (pad_settings d)"
  using assms by (simp add: adopt_def new_keys_state_def Let_def)

text \<open>Edits that were not saved outlive the pad's reports, and linked edits keep the keys alike.\<close>

lemma unsaved_edits_survive: "ks_dirty s \<Longrightarrow> adopt c s = s"
  by (simp add: adopt_def)

text \<open>The mark goes with the request, not with its answer: a save that is refused loses the edits.\<close>

lemma save_forgets_edits: "save_keys p = (Some r, p') \<Longrightarrow> ks_edit (adopt c (kp_keys p')) = Some (pad_settings c)"
  by (auto simp: save_keys_def adopt_def Let_def split: if_splits)

lemma linked_edit_keeps_keys_alike: "\<not> sep \<Longrightarrow> fst b = snd b \<Longrightarrow> fst (apply_to sep k f b) = snd (apply_to sep k f b)"
  by (simp add: apply_to_def)

section \<open>The stem\<close>

lemma alpha_bounds:
  assumes "0 < cutoff" and "0 < dt"
  shows "0 < alpha cutoff dt \<and> alpha cutoff dt < 1"
proof -
  have pos: "0 < 1 / (2 * pi * cutoff) / dt" using assms pi_gt_zero by simp
  have "0 < 1 / (1 + u) \<and> 1 / (1 + u) < 1" if "0 < u" for u :: real using that by simp
  from this [OF pos] show ?thesis by (simp only: alpha_def Let_def)
qed

text \<open>What is drawn never leaves the range of what was read.\<close>

lemma between_convex:
  fixes a x y :: real
  assumes "0 \<le> a" and "a \<le> 1" and "lo \<le> x" and "x \<le> hi" and "lo \<le> y" and "y \<le> hi"
  shows "lo \<le> x + a * (y - x) \<and> x + a * (y - x) \<le> hi"
proof -
  have "x + a * (y - x) = (1 - a) * x + a * y" by (simp add: algebra_simps)
  moreover have "(1 - a) * lo + a * lo \<le> (1 - a) * x + a * y" "(1 - a) * x + a * y \<le> (1 - a) * hi + a * hi"
    using assms by (auto intro!: add_mono mult_left_mono)
  ultimately show ?thesis by (simp add: algebra_simps)
qed

definition in_span :: "real \<Rightarrow> real \<Rightarrow> real option \<Rightarrow> bool" where
  "in_span lo hi v = (case v of Some x \<Rightarrow> lo \<le> x \<and> x \<le> hi | None \<Rightarrow> True)"

definition view_in_span :: "real \<Rightarrow> real \<Rightarrow> key_view \<Rightarrow> bool" where
  "view_in_span lo hi v \<longleftrightarrow> in_span lo hi (oe_value (kv_smooth v)) \<and> in_span lo hi (kv_held v) \<and> in_span lo hi (kv_drawn v)"

lemma euro_filter_within:
  assumes "in_span lo hi (oe_value e)" and "lo \<le> x" and "x \<le> hi"
  shows "in_span lo hi (oe_value (euro_filter x now e))"
proof (cases "oe_value e = None \<or> oe_at e = None")
  case True
  then show ?thesis using assms by (auto simp: euro_filter_def in_span_def split: option.splits)
next
  case False
  then obtain prev t where e: "oe_value e = Some prev" "oe_at e = Some t" by auto
  let ?dt = "max (secs (now - t)) (1 / 1000)"
  let ?speed = "oe_speed e + alpha SPEED_CUTOFF ?dt * ((x - prev) / ?dt - oe_speed e)"
  have "0 < MIN_CUTOFF + SPEED_BETA * \<bar>?speed\<bar>" by (simp add: MIN_CUTOFF_def SPEED_BETA_def add_pos_nonneg)
  then have "0 < alpha (MIN_CUTOFF + SPEED_BETA * \<bar>?speed\<bar>) ?dt \<and> alpha (MIN_CUTOFF + SPEED_BETA * \<bar>?speed\<bar>) ?dt < 1"
    by (rule alpha_bounds) (simp add: less_max_iff_disj)
  then show ?thesis
    using between_convex [of "alpha (MIN_CUTOFF + SPEED_BETA * \<bar>?speed\<bar>) ?dt" lo prev hi x] assms e
    by (simp add: euro_filter_def Let_def in_span_def)
qed

lemma hold_within: "lo \<le> h \<Longrightarrow> h \<le> hi \<Longrightarrow> lo \<le> v \<Longrightarrow> v \<le> hi \<Longrightarrow> lo \<le> hold h v \<and> hold h v \<le> hi"
  by (auto simp: hold_def HOLD_COUNTS_def)

lemma advance_key_within:
  assumes "view_in_span lo hi v" and "0 \<le> follow" and "follow \<le> 1"
  shows "view_in_span lo hi (advance_key follow v)"
proof -
  have "lo \<le> d + (t - d) * follow \<and> d + (t - d) * follow \<le> hi" if "lo \<le> d" "d \<le> hi" "lo \<le> t" "t \<le> hi" for d t
    using between_convex [of follow lo d hi t] assms(2,3) that by (simp add: mult.commute)
  then show ?thesis
    using assms(1) hold_within
    by (auto simp: view_in_span_def in_span_def advance_key_def Let_def split: option.splits)
qed

lemma take_reading_within:
  assumes "view_in_span lo hi v" and "lo \<le> of_nat (unat raw)" and "of_nat (unat raw) \<le> hi"
  shows "view_in_span lo hi (take_reading now raw was down v)"
  using assms euro_filter_within
  by (auto simp: view_in_span_def take_reading_def Let_def new_euro_def euro_at_def in_span_def)

lemma hold_near: "\<bar>hold h v - v\<bar> \<le> HOLD_COUNTS"
  by (auto simp: hold_def HOLD_COUNTS_def)

lemma still_key_is_still: "\<bar>v - h\<bar> \<le> HOLD_COUNTS \<Longrightarrow> hold h v = h"
  by (auto simp: hold_def)

end
