(* ===== verification/Feed_Tool.thy ===== *)
theory Feed_Tool
  imports Client Plans Ports
begin

text \<open>
  Building the feeds: \<open>crates/opad-update/src/bin/opad-feed.rs\<close>, the publishing half of \<open>Client\<close>. The
  JSON of the releases is given as read, files as what reading them gives, and the JSON writer and
  the date printer are arguments. The properties: what is published is eligible, the newest of its
  track, and readable by the clients it is for.
\<close>

section \<open>Arguments\<close>

datatype feed_fault = UnexpectedArgument string | NeedsValue string | MissingFlag string | BadNumber string
  | RolloutAbove string u8 | NoHash string string | NoUsableFiles string | VersionNotGiven string
  | HashingFailed string | NothingUsable | CannotRead string | SignatureRefused update_error | NotJson
  | WrongSchema u32 | NotCurrent update_error

fun flags :: "string list \<Rightarrow> (feed_fault, string \<Rightarrow> string option) result" where
  "flags [] = Inr Map.empty"
| "flags (flag # rest) =
     (if \<not> starts_with ''--'' flag then Inl (UnexpectedArgument flag)
      else (case rest of
              [] \<Rightarrow> Inl (NeedsValue flag)
            | value # more_args \<Rightarrow>
                and_then (flags more_args) (\<lambda>m.
                  let name = strip_all [''--''] flag
                  in Inr (case m name of Some _ \<Rightarrow> m | None \<Rightarrow> m(name \<mapsto> value)))))"

definition required_flag :: "(string \<Rightarrow> string option) \<Rightarrow> string \<Rightarrow> (feed_fault, string) result" where
  "required_flag f name = (case f name of Some v \<Rightarrow> Inr v | None \<Rightarrow> Inl (MissingFlag name))"

definition DEFAULT_EXPIRES_DAYS :: int where "DEFAULT_EXPIRES_DAYS = 30"

text \<open>\<open>str::parse\<close> to an \<open>i64\<close>.\<close>

definition parse_i64 :: "string \<Rightarrow> int option" where
  "parse_i64 s =
     (case s of
        c # ds \<Rightarrow>
          if c = CHR ''-''
          then (if ds \<noteq> [] \<and> list_all is_ascii_digit ds \<and> digits_val ds \<le> 2 ^ 63 then Some (- int (digits_val ds)) else None)
          else map_option int (parse_uint 63 s)
      | [] \<Rightarrow> None)"

definition expires_days :: "(string \<Rightarrow> string option) \<Rightarrow> (feed_fault, int) result" where
  "expires_days f =
     (case f ''expires-days'' of
        None \<Rightarrow> Inr DEFAULT_EXPIRES_DAYS
      | Some v \<Rightarrow> (case parse_i64 v of Some n \<Rightarrow> Inr n | None \<Rightarrow> Inl (BadNumber v)))"

section \<open>Tracks and files\<close>

record tag_info =
  ti_component :: string
  ti_version :: string
  ti_revision :: u32

text \<open>\<open>rsplit_once\<close>: around the last occurrence.\<close>

fun rsplit_once :: "string \<Rightarrow> string \<Rightarrow> (string \<times> string) option" where
  "rsplit_once pat [] = (if pat = [] then Some ([], []) else None)"
| "rsplit_once pat (c # cs) =
     (case rsplit_once pat cs of
        Some (a, b) \<Rightarrow> Some (c # a, b)
      | None \<Rightarrow> map_option (Pair []) (strip_prefix pat (c # cs)))"

definition parse_tag :: "string \<Rightarrow> tag_info option" where
  "parse_tag t =
     (case strip_prefix ''firmware-v'' t of
        Some rest \<Rightarrow> Some \<lparr>ti_component = FIRMWARE, ti_version = rest, ti_revision = 0\<rparr>
      | None \<Rightarrow>
     (case strip_prefix ''tosu-v'' t of
        Some rest \<Rightarrow>
          (case rsplit_once ''-r'' rest of
             None \<Rightarrow> None
           | Some (ver, num) \<Rightarrow>
               (case parse_uint 32 num of
                  None \<Rightarrow> None
                | Some n \<Rightarrow> Some \<lparr>ti_component = TOSU, ti_version = ver, ti_revision = of_nat n\<rparr>))
      | None \<Rightarrow>
     (case strip_prefix ''v'' t of
        None \<Rightarrow> None
      | Some ver \<Rightarrow>
          if ver \<noteq> [] \<and> is_ascii_digit (hd ver)
          then Some \<lparr>ti_component = APP, ti_version = ver, ti_revision = 0\<rparr> else None)))"

definition has_suffix :: "string \<Rightarrow> string \<Rightarrow> bool" where
  "has_suffix p s \<longleftrightarrow> take (length p) (rev s) = rev p"

definition app_artifact :: "string \<Rightarrow> (string \<times> artifact_kind) option" where
  "app_artifact name =
     (let lower = ascii_lowercase name in
      if starts_with ''opad-setup'' lower \<and> has_suffix ''.exe'' lower then Some (''windows-x86_64'', Installer)
      else if starts_with ''opad'' lower \<and> has_suffix ''.deb'' lower then Some (''linux-x86_64'', Deb)
      else if starts_with ''opad'' lower \<and> has_suffix ''.rpm'' lower then Some (''linux-x86_64'', Rpm)
      else if starts_with ''opad-linux-x86_64-'' lower \<and> has_suffix ''.tar.gz'' lower then Some (''linux-x86_64'', Archive)
      else if starts_with ''opad'' lower \<and> has_suffix ''.appimage'' lower then Some (''linux-x86_64'', Binary)
      else None)"

definition firmware_artifact :: "string \<Rightarrow> (string \<times> artifact_kind) option" where
  "firmware_artifact name = (if name = ''opad-firmware.bin'' then Some (FIRMWARE_TARGET, Firmware) else None)"

definition tosu_artifact :: "string \<Rightarrow> (string \<times> artifact_kind) option" where
  "tosu_artifact name =
     (if name = ''tosu-linux-x86_64'' then Some (''linux-x86_64'', Binary)
      else if name = ''tosu-windows-x86_64.exe'' then Some (''windows-x86_64'', Binary)
      else None)"

definition classify :: "string \<Rightarrow> string \<Rightarrow> (string \<times> artifact_kind) option" where
  "classify trk name =
     (if trk = APP then app_artifact name
      else if trk = FIRMWARE then firmware_artifact name
      else if trk = TOSU then tosu_artifact name
      else None)"

definition feed_artifact :: "string \<Rightarrow> string \<Rightarrow> string \<Rightarrow> string \<Rightarrow> u64 option \<Rightarrow> artifact option" where
  "feed_artifact trk name u hash len =
     (case classify trk name of
        None \<Rightarrow> None
      | Some (t, k) \<Rightarrow>
          Some \<lparr>target = t, kind = k, url = u, sha256 = hash, file_size = len,
            board = (if trk = FIRMWARE then Some FIRMWARE_BOARD else None)\<rparr>)"

section \<open>Policy\<close>

record feed_policy =
  po_yanked :: "string set"
  po_rollout :: "string \<Rightarrow> u8 option"
  po_min_app :: "string \<Rightarrow> string option"

definition no_policy :: feed_policy where
  "no_policy = \<lparr>po_yanked = {}, po_rollout = Map.empty, po_min_app = Map.empty\<rparr>"

definition policy_key :: "tag_info \<Rightarrow> string" where
  "policy_key i =
     (if 0 < ti_revision i
      then ti_component i @ '' '' @ ti_version i @ ''-r'' @ dec_digits (unat (ti_revision i))
      else ti_component i @ '' '' @ ti_version i)"

text \<open>The entries of the rollout in their order; the first above 100 is the one reported.\<close>

definition check_rollouts :: "(string \<times> u8) list \<Rightarrow> (feed_fault, unit) result" where
  "check_rollouts entries =
     (case find (\<lambda>(k, p). 100 < p) entries of Some (k, p) \<Rightarrow> Inl (RolloutAbove k p) | None \<Rightarrow> Inr ())"

section \<open>From the published releases\<close>

record gh_asset =
  ga_name :: string
  ga_url :: string
  ga_size :: "u64 option"
  ga_digest :: "string option"

record gh_release =
  gr_tag :: string
  gr_draft :: bool
  gr_prerelease :: bool
  gr_html_url :: "string option"
  gr_assets :: "gh_asset list"

fun split_white :: "string \<Rightarrow> (string \<times> string) option" where
  "split_white [] = None"
| "split_white (c # cs) =
     (case strip_one white_space (c # cs) of
        Some rest \<Rightarrow> Some ([], rest)
      | None \<Rightarrow> map_option (\<lambda>(a, b). (c # a, b)) (split_white cs))"

definition sum_entry :: "string \<Rightarrow> (string \<times> string) option" where
  "sum_entry l =
     (case split_white l of
        None \<Rightarrow> None
      | Some (hash, name) \<Rightarrow>
          if length hash = 64 then Some (strip_all [''*''] (trim name), ascii_lowercase hash) else None)"

text \<open>A carriage return before the line feed is white space that is trimmed with the name.\<close>

definition parse_sums :: "string \<Rightarrow> string \<Rightarrow> string option" where
  "parse_sums txt = map_of (rev (List.map_filter sum_entry (split_on (CHR 0x0A) txt)))"

definition eligible :: "feed_policy \<Rightarrow> string \<Rightarrow> gh_release \<Rightarrow> tag_info option" where
  "eligible p ch r =
     (if gr_draft r \<or> (ch = STABLE \<and> gr_prerelease r) then None
      else case parse_tag (gr_tag r) of
             None \<Rightarrow> None
           | Some i \<Rightarrow> if policy_key i \<in> po_yanked p then None else Some i)"

definition replaces :: "tag_info \<Rightarrow> tag_info \<Rightarrow> bool" where
  "replaces i best \<longleftrightarrow> is_newer (ti_version i) (ti_version best)
     \<or> \<not> is_newer (ti_version best) (ti_version i) \<and> ti_revision best < ti_revision i"

type_synonym kept_releases = "string \<Rightarrow> (tag_info \<times> gh_release) option"

definition take_release :: "feed_policy \<Rightarrow> string \<Rightarrow> gh_release \<Rightarrow> kept_releases \<Rightarrow> kept_releases" where
  "take_release p ch r m =
     (case eligible p ch r of
        None \<Rightarrow> m
      | Some i \<Rightarrow>
          if (case m (ti_component i) of None \<Rightarrow> True | Some (best, _) \<Rightarrow> replaces i best)
          then m(ti_component i \<mapsto> (i, r)) else m)"

definition newest_releases :: "feed_policy \<Rightarrow> string \<Rightarrow> gh_release list \<Rightarrow> kept_releases" where
  "newest_releases p ch rs = fold (take_release p ch) rs Map.empty"

text \<open>The files of sums, if there is a directory of them: what reading one gives.\<close>

definition sums_for :: "(string \<Rightarrow> string option) option \<Rightarrow> string \<Rightarrow> string \<Rightarrow> string option" where
  "sums_for sums_dir t =
     (case sums_dir of
        None \<Rightarrow> Map.empty
      | Some read \<Rightarrow> (case read (t @ ''.SHA256SUMS'') of Some txt \<Rightarrow> parse_sums txt | None \<Rightarrow> Map.empty))"

definition asset_hash :: "(string \<Rightarrow> string option) \<Rightarrow> gh_asset \<Rightarrow> string option" where
  "asset_hash sums a =
     (case Option.bind (ga_digest a) (strip_prefix ''sha256:'') of
        Some h \<Rightarrow> Some (ascii_lowercase h)
      | None \<Rightarrow> sums (ga_name a))"

fun release_artifacts :: "string \<Rightarrow> string \<Rightarrow> (string \<Rightarrow> string option) \<Rightarrow> gh_asset list
    \<Rightarrow> (feed_fault, artifact list) result" where
  "release_artifacts trk t sums [] = Inr []"
| "release_artifacts trk t sums (a # as) =
     (if classify trk (ga_name a) = None then release_artifacts trk t sums as
      else case asset_hash sums a of
             None \<Rightarrow> Inl (NoHash t (ga_name a))
           | Some h \<Rightarrow>
               and_then (release_artifacts trk t sums as) (\<lambda>out.
                 Inr ((case feed_artifact trk (ga_name a) (ga_url a) h (ga_size a) of Some x \<Rightarrow> [x] | None \<Rightarrow> []) @ out)))"

definition TOSU_NOTES :: string where
  "TOSU_NOTES = ''Bundled tosu, LGPL-3.0; see licenses/tosu/NOTICE''"

definition feed_component :: "(string \<Rightarrow> string option) option \<Rightarrow> feed_policy \<Rightarrow> string \<Rightarrow> string
    \<Rightarrow> tag_info \<Rightarrow> gh_release \<Rightarrow> (feed_fault, component) result" where
  "feed_component sums_dir p ch name i r =
     and_then (release_artifacts name (gr_tag r) (sums_for sums_dir (gr_tag r)) (gr_assets r)) (\<lambda>files.
       if files = [] then Inl (NoUsableFiles (gr_tag r))
       else Inr \<lparr>version = ti_version i, revision = ti_revision i, tag = Some (gr_tag r),
         upstream_tag = (if name = TOSU then Some (''v'' @ ti_version i) else None),
         release_notes = (if name = TOSU then Some TOSU_NOTES else None),
         notes_url = gr_html_url r, min_app = po_min_app p (policy_key i),
         rollout_percent = (if ch = STABLE then po_rollout p (policy_key i) else None), artifacts = files\<rparr>)"

fun feed_components :: "(string \<Rightarrow> string option) option \<Rightarrow> feed_policy \<Rightarrow> string \<Rightarrow> kept_releases \<Rightarrow> string list
    \<Rightarrow> (feed_fault, string \<Rightarrow> component option) result" where
  "feed_components sums_dir p ch newest [] = Inr Map.empty"
| "feed_components sums_dir p ch newest (name # names) =
     (case newest name of
        None \<Rightarrow> feed_components sums_dir p ch newest names
      | Some (i, r) \<Rightarrow>
          and_then (feed_component sums_dir p ch name i r) (\<lambda>c.
          and_then (feed_components sums_dir p ch newest names) (\<lambda>m. Inr (m(name \<mapsto> c)))))"

text \<open>The names in the order of the map's keys.\<close>

definition TRACKS :: "string list" where "TRACKS = [APP, FIRMWARE, TOSU]"

definition SECOND :: int where "SECOND = 10 ^ 9"
definition DAY :: int where "DAY = 86400 * SECOND"

definition make_feed :: "(int \<Rightarrow> string) \<Rightarrow> string \<Rightarrow> int \<Rightarrow> int \<Rightarrow> (string \<Rightarrow> component option) \<Rightarrow> release_manifest" where
  "make_feed rfc3339 ch now days comps =
     \<lparr>schema = SUPPORTED_SCHEMA, channel = ch, serial = of_int (max 0 (now div SECOND)), generated = rfc3339 now,
       expires = Some (rfc3339 (now + days * DAY)), components = comps\<rparr>"

definition build_github_feed :: "(int \<Rightarrow> string) \<Rightarrow> gh_release list \<Rightarrow> (string \<Rightarrow> string option) option \<Rightarrow> feed_policy
    \<Rightarrow> string \<Rightarrow> int \<Rightarrow> int \<Rightarrow> (feed_fault, release_manifest) result" where
  "build_github_feed rfc3339 rs sums_dir p ch now days =
     and_then (feed_components sums_dir p ch (newest_releases p ch rs) TRACKS)
       (\<lambda>comps. Inr (make_feed rfc3339 ch now days comps))"

text \<open>The files that are written, in order; a failure stops before the next one.\<close>

definition feed_bytes :: "(release_manifest \<Rightarrow> string) \<Rightarrow> release_manifest \<Rightarrow> string" where
  "feed_bytes to_json_pretty feed = to_json_pretty feed @ [CHR 0x0A]"

definition feed_file :: "(release_manifest \<Rightarrow> string) \<Rightarrow> release_manifest \<Rightarrow> string \<times> string" where
  "feed_file to_json_pretty feed = (channel feed @ ''.json'', feed_bytes to_json_pretty feed)"

fun github_files :: "(release_manifest \<Rightarrow> string) \<Rightarrow> (string \<Rightarrow> (feed_fault, release_manifest) result) \<Rightarrow> string list
    \<Rightarrow> (string \<times> string) list \<times> (feed_fault, unit) result" where
  "github_files to_json_pretty build [] = ([], Inr ())"
| "github_files to_json_pretty build (ch # chs) =
     (case build ch of
        Inl e \<Rightarrow> ([], Inl e)
      | Inr feed \<Rightarrow> (case github_files to_json_pretty build chs of (fs, r) \<Rightarrow> (feed_file to_json_pretty feed # fs, r)))"

definition github :: "(release_manifest \<Rightarrow> string) \<Rightarrow> (int \<Rightarrow> string) \<Rightarrow> gh_release list \<Rightarrow> (string \<Rightarrow> string option) option
    \<Rightarrow> feed_policy \<Rightarrow> int \<Rightarrow> int \<Rightarrow> (string \<times> string) list \<times> (feed_fault, unit) result" where
  "github to_json_pretty rfc3339 rs sums_dir p now days =
     github_files to_json_pretty (\<lambda>ch. build_github_feed rfc3339 rs sums_dir p ch now days) [STABLE, BETA]"

section \<open>From files built here\<close>

record dist_file =
  df_name :: string
  df_hash :: "string option"
  df_size :: "u64 option"

fun insert_entry :: "dist_file \<Rightarrow> dist_file list \<Rightarrow> dist_file list" where
  "insert_entry d [] = [d]"
| "insert_entry d (e # es) = (if str_cmp (df_name e) (df_name d) = Greater then d # e # es else e # insert_entry d es)"

definition sorted_entries :: "dist_file list \<Rightarrow> dist_file list" where
  "sorted_entries ds = fold insert_entry ds []"

fun local_artifacts :: "string \<Rightarrow> string \<Rightarrow> dist_file list \<Rightarrow> (feed_fault, artifact list) result" where
  "local_artifacts base name [] = Inr []"
| "local_artifacts base name (d # ds) =
     (if classify name (df_name d) = None then local_artifacts base name ds
      else case df_hash d of
             None \<Rightarrow> Inl (HashingFailed (df_name d))
           | Some h \<Rightarrow>
               and_then (local_artifacts base name ds) (\<lambda>out.
                 Inr ((case feed_artifact name (df_name d) (base @ ''/'' @ df_name d) h (df_size d) of Some x \<Rightarrow> [x] | None \<Rightarrow> []) @ out)))"

definition local_component :: "string \<Rightarrow> u32 \<Rightarrow> artifact list \<Rightarrow> component" where
  "local_component ver r files =
     \<lparr>version = ver, revision = r, tag = None, upstream_tag = None, release_notes = None, notes_url = None,
       min_app = None, rollout_percent = None, artifacts = files\<rparr>"

fun local_components :: "string \<Rightarrow> dist_file list \<Rightarrow> (string \<times> string option \<times> u32) list
    \<Rightarrow> (feed_fault, string \<Rightarrow> component option) result" where
  "local_components base ds [] = Inr Map.empty"
| "local_components base ds ((name, ver, r) # specs) =
     and_then (local_artifacts base name ds) (\<lambda>files.
       if files = [] then local_components base ds specs
       else (case ver of
               None \<Rightarrow> Inl (VersionNotGiven name)
             | Some v \<Rightarrow>
                 and_then (local_components base ds specs) (\<lambda>m.
                   Inr (m(name \<mapsto> local_component v (if name = TOSU then r else 0) files)))))"

definition tosu_revision :: "(string \<Rightarrow> string option) \<Rightarrow> (feed_fault, u32) result" where
  "tosu_revision f =
     (case f ''tosu-revision'' of
        None \<Rightarrow> Inr 1
      | Some s \<Rightarrow> (case parse_uint 32 s of Some n \<Rightarrow> Inr (of_nat n) | None \<Rightarrow> Inl (BadNumber s)))"

text \<open>The components of both channels; \<open>pkg\<close> is the version of this build.\<close>

definition local_feed :: "string \<Rightarrow> (string \<Rightarrow> string option) \<Rightarrow> dist_file list \<Rightarrow> (feed_fault, string \<Rightarrow> component option) result" where
  "local_feed pkg f entries =
     and_then (required_flag f ''base-url'') (\<lambda>base.
     and_then (tosu_revision f) (\<lambda>r.
     and_then (local_components (rev (dropWhile (\<lambda>c. c = CHR ''/'') (rev base))) (sorted_entries entries)
         [(APP, Some (case f ''app-version'' of Some v \<Rightarrow> v | None \<Rightarrow> pkg), 0),
          (FIRMWARE, f ''firmware-version'', 0), (TOSU, f ''tosu-version'', r)]) (\<lambda>comps.
       if \<forall>name \<in> set TRACKS. comps name = None then Inl NothingUsable else Inr comps)))"

section \<open>Before it goes out\<close>

definition verify_feed :: "('k, 's) packages \<Rightarrow> string list \<Rightarrow> string option \<Rightarrow> string option \<Rightarrow> string \<Rightarrow> int
    \<Rightarrow> (feed_fault, unit) result" where
  "verify_feed pk keys feed_read sig_read ch now =
     (case feed_read of
        None \<Rightarrow> Inl (CannotRead ''feed'')
      | Some bytes \<Rightarrow>
     (case sig_read of
        None \<Rightarrow> Inl (CannotRead ''signature'')
      | Some signature \<Rightarrow>
     (case verify_manifest_signature (minisign pk) keys bytes signature of
        Inl e \<Rightarrow> Inl (SignatureRefused e)
      | Inr _ \<Rightarrow>
     (case from_json pk bytes of
        None \<Rightarrow> Inl NotJson
      | Some feed \<Rightarrow>
          if schema feed \<noteq> SUPPORTED_SCHEMA then Inl (WrongSchema (schema feed))
          else (case check_feed (from_rfc3339 pk) feed ch now None of Inl e \<Rightarrow> Inl (NotCurrent e) | Inr _ \<Rightarrow> Inr ())))))"

end
