(* ===== verification/Publishing.thy ===== *)
theory Publishing
  imports Feed_Tool
begin

text \<open>
  What \<open>Feed_Tool\<close> publishes and who can read it: only eligible releases, the newest of each track,
  files that the planners of the clients find, a feed that is valid when it is published, and a check
  before publishing that accepts what a client accepts.
\<close>

section \<open>Which release is the newest\<close>

definition release_ordering :: "tag_info \<Rightarrow> tag_info \<Rightarrow> ordering" where
  "release_ordering i j =
     then_ordering (version_ordering (ti_version i) (ti_version j)) (cmp (ti_revision i) (ti_revision j))"

lemma replaces_iff: "replaces i j \<longleftrightarrow> release_ordering i j = Greater"
  using versions.flip [of "ti_version j" "ti_version i"]
  by (cases "version_ordering (ti_version i) (ti_version j)")
    (auto simp: replaces_def release_ordering_def is_newer_def cmp_def)

interpretation releases: comparison release_ordering "\<lambda>i. version_ok (ti_version i)"
proof
  show "release_ordering j i = reverse_ordering (release_ordering i j)" for i j
    using versions.flip [of "ti_version j" "ti_version i"]
    by (cases "version_ordering (ti_version i) (ti_version j)") (auto simp: release_ordering_def cmp_def)
  show "release_ordering i k \<noteq> Greater"
    if "version_ok (ti_version i)" "version_ok (ti_version j)" "version_ok (ti_version k)"
      "release_ordering i j \<noteq> Greater" "release_ordering j k \<noteq> Greater" for i j k
    unfolding release_ordering_def
    by (rule then_ordering_le_trans [OF versions.comparison_axioms that(1,2,3) that(4,5) [unfolded release_ordering_def]])
      (auto simp: cmp_def split: if_splits)
qed

lemma eligible_parsed: "eligible p ch r = Some i \<Longrightarrow> parse_tag (gr_tag r) = Some i"
  by (auto simp: eligible_def split: if_splits option.splits)

text \<open>What is kept was eligible; nothing eligible beats it.\<close>

definition newest_ok :: "feed_policy \<Rightarrow> string \<Rightarrow> gh_release set \<Rightarrow> kept_releases \<Rightarrow> bool" where
  "newest_ok p ch R m \<longleftrightarrow> (\<forall>name i r. m name = Some (i, r) \<longrightarrow> r \<in> R \<and> eligible p ch r = Some i \<and> ti_component i = name)"

definition newest_max :: "feed_policy \<Rightarrow> string \<Rightarrow> gh_release set \<Rightarrow> kept_releases \<Rightarrow> bool" where
  "newest_max p ch R m \<longleftrightarrow> (\<forall>r i. r \<in> R \<longrightarrow> eligible p ch r = Some i \<longrightarrow>
     (\<exists>best b. m (ti_component i) = Some (best, b) \<and> release_ordering i best \<noteq> Greater))"

lemma take_release_ok: "newest_ok p ch R m \<Longrightarrow> newest_ok p ch (insert r R) (take_release p ch r m)"
  by (auto simp: newest_ok_def take_release_def split: option.splits if_splits prod.splits)

lemma take_release_max:
  assumes "newest_max p ch R m" and "newest_ok p ch R m"
    and ok: "\<And>r i. r \<in> insert r' R \<Longrightarrow> parse_tag (gr_tag r) = Some i \<Longrightarrow> version_ok (ti_version i)"
  shows "newest_max p ch (insert r' R) (take_release p ch r' m)"
proof (cases "eligible p ch r'")
  case None
  then show ?thesis using assms(1) by (auto simp: newest_max_def take_release_def)
next
  case (Some j)
  have vok: "version_ok (ti_version i)" if "r \<in> insert r' R" "eligible p ch r = Some i" for r i
    using ok that eligible_parsed by blast
  show ?thesis
  proof (cases "m (ti_component j)")
    case None
    then show ?thesis
      using \<open>eligible p ch r' = Some j\<close> assms(1) by (fastforce simp: newest_max_def take_release_def releases.self_equal)
  next
    case (Some kept)
    obtain best b where kept: "m (ti_component j) = Some (best, b)" using Some by (cases kept) auto
    have best: "b \<in> R" "eligible p ch b = Some best" using assms(2) kept by (auto simp: newest_ok_def)
    show ?thesis
    proof (cases "release_ordering j best = Greater")
      case False
      then show ?thesis
        using kept \<open>eligible p ch r' = Some j\<close> assms(1) by (fastforce simp: newest_max_def take_release_def replaces_iff)
    next
      case True
      have up: "release_ordering i j \<noteq> Greater" if "r \<in> R" "eligible p ch r = Some i" "ti_component i = ti_component j" for r i
      proof -
        have "release_ordering i best \<noteq> Greater" using assms(1) that kept by (fastforce simp: newest_max_def)
        moreover have "release_ordering best j \<noteq> Greater" using True releases.flip [of best j] by simp
        ultimately show ?thesis
          using releases.le_trans [of i best j] vok [of r i] vok [of b best] vok [of r' j] that best
            \<open>eligible p ch r' = Some j\<close> by blast
      qed
      have m': "take_release p ch r' m = m(ti_component j \<mapsto> (j, r'))"
        using kept \<open>eligible p ch r' = Some j\<close> True by (simp add: take_release_def replaces_iff)
      show ?thesis
        unfolding newest_max_def m'
      proof (intro allI impI)
        fix r i
        assume r: "r \<in> insert r' R" and i: "eligible p ch r = Some i"
        show "\<exists>best b. (m(ti_component j \<mapsto> (j, r'))) (ti_component i) = Some (best, b) \<and> release_ordering i best \<noteq> Greater"
        proof (cases "ti_component i = ti_component j")
          case True
          have "release_ordering i j \<noteq> Greater"
            using r i up [OF _ i True] \<open>eligible p ch r' = Some j\<close> releases.self_equal [of j] by (cases "r = r'") simp_all
          then show ?thesis using True by simp
        next
          case False
          then have "r \<in> R" using r i \<open>eligible p ch r' = Some j\<close> by auto
          then show ?thesis using assms(1) i False by (simp add: newest_max_def)
        qed
      qed
    qed
  qed
qed

lemma newest_releases_facts:
  "newest_ok p ch (set rs) (newest_releases p ch rs)
    \<and> ((\<forall>r \<in> set rs. \<forall>i. parse_tag (gr_tag r) = Some i \<longrightarrow> version_ok (ti_version i))
        \<longrightarrow> newest_max p ch (set rs) (newest_releases p ch rs))"
proof (induction rs rule: rev_induct)
  case Nil
  then show ?case by (simp add: newest_ok_def newest_max_def newest_releases_def)
next
  case (snoc r rs)
  then show ?case
    using take_release_ok [of p ch "set rs" _ r] take_release_max [of p ch "set rs" "newest_releases p ch rs" r]
    by (auto simp: newest_releases_def)
qed

section \<open>The components\<close>

lemma release_artifacts_from:
  "release_artifacts trk t sums as = Inr files \<Longrightarrow> f \<in> set files \<Longrightarrow>
     \<exists>a \<in> set as. classify trk (ga_name a) = Some (target f, kind f) \<and> url f = ga_url a
       \<and> asset_hash sums a = Some (Feed.sha256 f) \<and> board f = (if trk = FIRMWARE then Some FIRMWARE_BOARD else None)"
  by (induction as arbitrary: files)
    (auto simp: and_then_Inr feed_artifact_def split: if_splits option.splits)

lemma feed_component_facts:
  assumes "feed_component sd p ch name i r = Inr c"
  shows "version c = ti_version i \<and> revision c = ti_revision i \<and> artifacts c \<noteq> []
    \<and> release_artifacts name (gr_tag r) (sums_for sd (gr_tag r)) (gr_assets r) = Inr (artifacts c)
    \<and> min_app c = po_min_app p (policy_key i)"
  using assms by (auto simp: feed_component_def and_then_Inr split: if_splits)

lemma feed_components_lookup:
  "\<lbrakk>feed_components sd p ch newest names = Inr m; distinct names\<rbrakk> \<Longrightarrow>
     m name = (case (if name \<in> set names then newest name else None) of
                 None \<Rightarrow> None
               | Some (i, r) \<Rightarrow> (case feed_component sd p ch name i r of Inr c \<Rightarrow> Some c | Inl e \<Rightarrow> None))
     \<and> (name \<in> set names \<longrightarrow> newest name \<noteq> None \<longrightarrow> m name \<noteq> None)"
  by (induction names arbitrary: m) (auto simp: and_then_Inr split: option.splits sum.splits prod.splits)

lemma parse_tag_track: "parse_tag t = Some i \<Longrightarrow> ti_component i \<in> set TRACKS"
  by (auto simp: parse_tag_def TRACKS_def split: option.splits if_splits prod.splits)

lemma tracks_distinct: "distinct TRACKS"
  by (simp add: TRACKS_def APP_def FIRMWARE_def TOSU_def)

lemma built_component:
  assumes "build_github_feed rfc rs sd p ch now days = Inr feed" and "components feed name = Some c"
  shows "\<exists>i r. newest_releases p ch rs name = Some (i, r) \<and> feed_component sd p ch name i r = Inr c"
  using assms feed_components_lookup [OF _ tracks_distinct, of sd p ch "newest_releases p ch rs" _ name]
  by (fastforce simp: build_github_feed_def and_then_Inr make_feed_def split: option.splits if_splits sum.splits prod.splits)

text \<open>
  C35: What a feed names was meant to be published: each component is a release that is no draft, is not
  yanked, on the stable channel is no prerelease, and whose tag is of that track; it has at least one
  file, and every file is one of the release's own, of a kind the track has, under the hash that GitHub
  or the sums state for it.
\<close>

theorem published_only_what_may_be:
  assumes "build_github_feed rfc rs sd p ch now days = Inr feed" and "components feed name = Some c"
  shows "\<exists>r \<in> set rs. \<exists>i. \<not> gr_draft r \<and> \<not> (ch = STABLE \<and> gr_prerelease r) \<and> parse_tag (gr_tag r) = Some i
    \<and> ti_component i = name \<and> policy_key i \<notin> po_yanked p \<and> version c = ti_version i \<and> revision c = ti_revision i
    \<and> artifacts c \<noteq> []
    \<and> (\<forall>f \<in> set (artifacts c). \<exists>a \<in> set (gr_assets r). classify name (ga_name a) = Some (target f, kind f)
        \<and> url f = ga_url a \<and> asset_hash (sums_for sd (gr_tag r)) a = Some (Feed.sha256 f))"
proof -
  obtain i r where i: "newest_releases p ch rs name = Some (i, r)" "feed_component sd p ch name i r = Inr c"
    using built_component [OF assms] by blast
  have r: "r \<in> set rs" "eligible p ch r = Some i" "ti_component i = name"
    using newest_releases_facts [of p ch rs] i(1) by (auto simp: newest_ok_def)
  have "\<not> gr_draft r \<and> \<not> (ch = STABLE \<and> gr_prerelease r) \<and> parse_tag (gr_tag r) = Some i \<and> policy_key i \<notin> po_yanked p"
    using r(2) by (auto simp: eligible_def split: if_splits option.splits)
  then show ?thesis
    using r feed_component_facts [OF i(2)] release_artifacts_from [of name "gr_tag r"] by blast
qed

text \<open>
  C34: No release is passed over for an older one: when the tags' versions are comparable, every release
  that may be published has a component of its track in the feed, which it is not newer than, and not a
  later build of.
\<close>

theorem newest_release_is_published:
  assumes "build_github_feed rfc rs sd p ch now days = Inr feed"
    and "\<forall>r \<in> set rs. \<forall>i. parse_tag (gr_tag r) = Some i \<longrightarrow> version_ok (ti_version i)"
    and "r \<in> set rs" and "eligible p ch r = Some i"
  shows "\<exists>c. components feed (ti_component i) = Some c \<and> \<not> is_newer (ti_version i) (version c)
    \<and> (is_newer (version c) (ti_version i) \<or> ti_revision i \<le> revision c)"
proof -
  obtain best b where best: "newest_releases p ch rs (ti_component i) = Some (best, b)" "release_ordering i best \<noteq> Greater"
    using newest_releases_facts [of p ch rs] assms(2-4) unfolding newest_max_def by blast
  obtain comps where comps: "feed_components sd p ch (newest_releases p ch rs) TRACKS = Inr comps" "components feed = comps"
    using assms(1) by (auto simp: build_github_feed_def and_then_Inr make_feed_def)
  have "ti_component i \<in> set TRACKS" using parse_tag_track eligible_parsed assms(4) by blast
  then have "comps (ti_component i) \<noteq> None"
    using feed_components_lookup [OF comps(1) tracks_distinct, of "ti_component i"] best(1) by blast
  then obtain c where c: "comps (ti_component i) = Some c" by blast
  obtain j s where "newest_releases p ch rs (ti_component i) = Some (j, s)" "feed_component sd p ch (ti_component i) j s = Inr c"
    using built_component [OF assms(1), of "ti_component i" c] c comps(2) by auto
  then have "version c = ti_version best" "revision c = ti_revision best"
    using best(1) feed_component_facts by auto
  then have "\<not> is_newer (ti_version i) (version c) \<and> (is_newer (version c) (ti_version i) \<or> ti_revision i \<le> revision c)"
    using best(2) replaces_iff [of i best] by (auto simp: replaces_def not_less)
  then show ?thesis using c comps(2) by blast
qed

section \<open>Who can read it\<close>

text \<open>The printed dates, to the second, are read back, up to the year 9999.\<close>

definition YEAR_10000 :: int where "YEAR_10000 = 253402300800 * SECOND"

definition rfc3339_ok :: "(int \<Rightarrow> string) \<Rightarrow> (string \<Rightarrow> int option) \<Rightarrow> bool" where
  "rfc3339_ok print read \<longleftrightarrow> (\<forall>t. 0 \<le> t \<longrightarrow> t < YEAR_10000 \<longrightarrow> read (print t) = Some (t div SECOND * SECOND))"

text \<open>
  A feed is good from the moment it is published until the last second before its expiry: every
  client of its channel accepts it, whatever earlier publication it has seen.
\<close>

theorem published_feed_is_accepted:
  assumes "rfc3339_ok rfc read" and "build_github_feed rfc rs sd p ch now days = Inr feed"
    and "0 \<le> now" and "0 \<le> days" and "now + days * DAY < YEAR_10000" and "t \<le> now + days * DAY - SECOND"
    and "\<forall>n. seen = Some n \<longrightarrow> uint n \<le> now div SECOND"
  shows "check_feed read feed ch t seen = Inr () \<and> schema feed = SUPPORTED_SCHEMA"
proof -
  obtain comps where feed: "feed = make_feed rfc ch now days comps"
    using assms(2) by (auto simp: build_github_feed_def and_then_Inr)
  let ?e = "now + days * DAY"
  have "0 \<le> ?e" using assms(3,4) by (simp add: DAY_def SECOND_def)
  then have read: "read (rfc ?e) = Some (?e div SECOND * SECOND)" using assms(1,5) by (simp add: rfc3339_ok_def)
  have "t \<le> ?e div SECOND * SECOND"
    using assms(6) minus_mod_eq_div_mult [of ?e SECOND] pos_mod_bound [of SECOND ?e] by (simp add: SECOND_def)
  moreover have "n \<le> serial feed" if "seen = Some n" for n
  proof -
    have "now \<le> now + days * DAY" using assms(4) by (simp add: DAY_def SECOND_def)
    then have "now div SECOND < 2 ^ 64" using assms(5) by (simp add: YEAR_10000_def SECOND_def)
    moreover have "0 \<le> now div SECOND" using assms(3) by (simp add: SECOND_def pos_imp_zdiv_nonneg_iff)
    ultimately have "uint (serial feed) = now div SECOND" by (simp add: feed make_feed_def uint_word_of_int_eq take_bit_int_eq_self)
    then show ?thesis using assms(7) that by (simp add: word_le_def)
  qed
  ultimately show ?thesis
    using read by (auto simp: check_feed_def feed make_feed_def not_le not_less split: option.split)
qed

lemma verified_by_a_key:
  "verify_manifest_signature ms keys bytes signature = Inr () \<Longrightarrow> signing_configured keys"
proof -
  have "verify_with_keys ms keys e bytes signature = Inr () \<Longrightarrow> signing_configured keys" for e
    by (induction ms keys e bytes signature rule: verify_with_keys.induct)
      (auto simp: signing_configured_def verify_with_key_def split: if_splits sum.splits)
  then show "verify_manifest_signature ms keys bytes signature = Inr () \<Longrightarrow> signing_configured keys"
    by (simp add: verify_manifest_signature_def)
qed


text \<open>
  A published firmware reaches the pads it is for: when a feed that was built names a firmware newer
  than the one a pad runs, the app may drive it and the gate is open, then a pad that is of the board, or
  does not say, is offered that version with one of the published images.
\<close>

theorem published_firmware_is_offered:
  assumes "build_github_feed rfc rs sd p ch now days = Inr feed" and "components feed FIRMWARE = Some c"
    and "trimmed running = Some inst" and "is_newer (version c) inst"
    and "\<forall>m. min_app c = Some m \<longrightarrow> \<not> is_newer m app" and "trimmed pad_board \<in> {None, Some FIRMWARE_BOARD}"
  shows "\<exists>a \<in> set (artifacts c). firmware_plan feed running pad_board app (Inr ())
      = Inr (FwAvailable inst (version c) (release_notes c) a)"
proof -
  obtain i r where c: "feed_component sd p ch FIRMWARE i r = Inr c"
    using built_component [OF assms(1,2)] by blast
  have fits: "target a = FIRMWARE_TARGET \<and> kind a = Firmware \<and> board a = Some FIRMWARE_BOARD" if "a \<in> set (artifacts c)" for a
  proof -
    have "release_artifacts FIRMWARE (gr_tag r) (sums_for sd (gr_tag r)) (gr_assets r) = Inr (artifacts c)"
      using feed_component_facts [OF c] by blast
    from release_artifacts_from [OF this that] obtain x :: gh_asset
      where "classify FIRMWARE (ga_name x) = Some (target a, kind a)" "board a = (if FIRMWARE = FIRMWARE then Some FIRMWARE_BOARD else None)"
      by blast
    then show ?thesis
      by (auto simp: classify_def APP_def FIRMWARE_def firmware_artifact_def split: if_splits)
  qed
  obtain a as where as: "artifacts c = a # as" using feed_component_facts [OF c] by (cases "artifacts c") auto
  let ?P = "\<lambda>a. target a = FIRMWARE_TARGET \<and> kind a = Firmware
      \<and> (case (board a, trimmed pad_board) of (Some wanted, Some pad) \<Rightarrow> wanted = pad | _ \<Rightarrow> True)"
  have "?P a" using fits [of a] as assms(6) by auto
  then have "find ?P (artifacts c) = Some a" by (simp add: as)
  then show ?thesis
    using assms(2-5) as by (intro bexI [of _ a]) (auto simp: firmware_plan_def split: option.split)
qed

section \<open>A release as an instance\<close>

definition demo_rfc :: "int \<Rightarrow> string" where "demo_rfc t = dec_digits (nat (t div SECOND))"
definition demo_read :: "string \<Rightarrow> int option" where "demo_read s = Some (int (digits_val s) * SECOND)"

lemma demo_rfc_ok: "rfc3339_ok demo_rfc demo_read"
  by (simp add: rfc3339_ok_def demo_rfc_def demo_read_def digits_val_dec_digits SECOND_def pos_imp_zdiv_nonneg_iff)

definition demo_release :: gh_release where
  "demo_release = \<lparr>gr_tag = ''firmware-v1.0.0'', gr_draft = False, gr_prerelease = False, gr_html_url = None,
     gr_assets = [\<lparr>ga_name = ''bootloader.bin'', ga_url = ''https://x/b'', ga_size = None, ga_digest = None\<rparr>,
       \<lparr>ga_name = ''opad-firmware.bin'', ga_url = ''https://x/f'', ga_size = Some 2, ga_digest = Some ''sha256:4142''\<rparr>]\<rparr>"

definition demo_tag :: tag_info where
  "demo_tag = \<lparr>ti_component = FIRMWARE, ti_version = ''1.0.0'', ti_revision = 0\<rparr>"

definition demo_image :: artifact where
  "demo_image = \<lparr>target = FIRMWARE_TARGET, kind = Firmware, url = ''https://x/f'', sha256 = ''4142'',
     file_size = Some 2, board = Some FIRMWARE_BOARD\<rparr>"

definition demo_published :: component where
  "demo_published = \<lparr>version = ''1.0.0'', revision = 0, tag = Some ''firmware-v1.0.0'', upstream_tag = None,
     release_notes = None, notes_url = None, min_app = None, rollout_percent = None, artifacts = [demo_image]\<rparr>"

lemma demo_parse: "parse_tag (gr_tag demo_release) = Some demo_tag"
  by code_simp

lemma demo_files: "release_artifacts FIRMWARE ''firmware-v1.0.0'' Map.empty (gr_assets demo_release) = Inr [demo_image]"
  by code_simp

lemma demo_build: "build_github_feed demo_rfc [demo_release] None no_policy STABLE 0 30
    = Inr (make_feed demo_rfc STABLE 0 30 [FIRMWARE \<mapsto> demo_published])"
proof -
  have e: "eligible no_policy STABLE demo_release = Some demo_tag"
    using demo_parse by (simp add: eligible_def no_policy_def demo_release_def)
  have n: "newest_releases no_policy STABLE [demo_release] = [FIRMWARE \<mapsto> (demo_tag, demo_release)]"
    by (simp add: newest_releases_def take_release_def e) (simp add: demo_tag_def)
  have "feed_component None no_policy STABLE FIRMWARE demo_tag demo_release = Inr demo_published"
    using demo_files
    by (simp add: feed_component_def sums_for_def demo_release_def demo_tag_def demo_published_def no_policy_def
        FIRMWARE_def TOSU_def)
  then show ?thesis
    by (simp add: build_github_feed_def n TRACKS_def APP_def FIRMWARE_def TOSU_def)
qed

lemma demo_named: "components (make_feed demo_rfc STABLE 0 30 [FIRMWARE \<mapsto> demo_published]) FIRMWARE = Some demo_published"
  by (simp add: make_feed_def)

theorem published_only_what_may_be_witness:
  "\<exists>r \<in> set [demo_release]. \<exists>i. \<not> gr_draft r \<and> parse_tag (gr_tag r) = Some i \<and> ti_component i = FIRMWARE
    \<and> version demo_published = ti_version i"
  using published_only_what_may_be [OF demo_build demo_named] by blast

theorem newest_release_is_published_witness:
  "\<exists>c. components (make_feed demo_rfc STABLE 0 30 [FIRMWARE \<mapsto> demo_published]) FIRMWARE = Some c
    \<and> \<not> is_newer ''1.0.0'' (version c)"
proof -
  have "version_ok (ti_version demo_tag)"
    by (simp add: demo_tag_def version_ok_def split_examples)
  moreover have "eligible no_policy STABLE demo_release = Some demo_tag"
    using demo_parse by (simp add: eligible_def no_policy_def demo_release_def)
  ultimately show ?thesis
    using newest_release_is_published [OF demo_build, of demo_release demo_tag] demo_parse
    by (auto simp: demo_tag_def)
qed

theorem published_feed_is_accepted_witness:
  "check_feed demo_read (make_feed demo_rfc STABLE 0 30 [FIRMWARE \<mapsto> demo_published]) STABLE DAY (Some 0) = Inr ()"
  using published_feed_is_accepted [OF demo_rfc_ok demo_build, of DAY "Some 0"]
  by (simp add: DAY_def SECOND_def YEAR_10000_def)

theorem published_firmware_is_offered_witness:
  "firmware_plan (make_feed demo_rfc STABLE 0 30 [FIRMWARE \<mapsto> demo_published]) (Some ''1.0.0-rc10'') None ''1.0.0'' (Inr ())
    = Inr (FwAvailable ''1.0.0-rc10'' ''1.0.0'' None demo_image)"
proof -
  have "trimmed (Some ''1.0.0-rc10'') = Some ''1.0.0-rc10''" "trimmed None = None" by code_simp+
  moreover have "is_newer ''1.0.0'' ''1.0.0-rc10''" by (simp add: compare_simps)
  ultimately have "\<exists>a \<in> set (artifacts demo_published).
      firmware_plan (make_feed demo_rfc STABLE 0 30 [FIRMWARE \<mapsto> demo_published]) (Some ''1.0.0-rc10'') None ''1.0.0'' (Inr ())
        = Inr (FwAvailable ''1.0.0-rc10'' (version demo_published) (release_notes demo_published) a)"
    by (intro published_firmware_is_offered [OF demo_build demo_named]) (simp_all add: demo_published_def)
  then show ?thesis by (simp add: demo_published_def)
qed


end
