(* ===== verification/Designer.thy ===== *)
theory Designer
  imports Layouts Pad_Wire
begin

text \<open>
  The screen designer of the desktop app: \<open>gui/src/designer/mod.rs\<close>. The state behind the page, every
  message that changes it, dragging, and what is asked of the daemon. Drawing is left out, and with it
  the preview, which is a function of the layout. Screen coordinates, \<open>f32\<close>, are rationals. Where the
  code would panic the result is \<open>None\<close>. 16-bit sums wrap, as in the release build.
\<close>

section \<open>The page\<close>

definition HANDLE :: rat where "HANDLE = 5"

datatype color_field = FieldFg | FieldBg | FieldAccent | FieldBackground

datatype drag = MoveWidget nat rat rat | ResizeWidget nat

text \<open>A layout per screen.\<close>

type_synonym layouts = "layout \<times> layout"

fun on_screen :: "screen \<Rightarrow> layouts \<Rightarrow> layout" where
  "on_screen ScreenIdle b = fst b"
| "on_screen ScreenPlaying b = snd b"

fun put_screen :: "screen \<Rightarrow> layout \<Rightarrow> layouts \<Rightarrow> layouts" where
  "put_screen ScreenIdle l b = (l, snd b)"
| "put_screen ScreenPlaying l b = (fst b, l)"

record designer =
  ds_screen :: screen
  ds_working :: layouts
  ds_applied :: layouts
  ds_defaults :: layouts
  ds_selected :: "nat option"
  ds_drag :: "drag option"
  ds_picker :: "color_field option"
  ds_hex :: "color_field \<Rightarrow> string"
  ds_live :: bool
  ds_press :: bool
  ds_busy :: bool
  ds_status :: string

datatype designer_message =
    Loaded "(string, layout option \<times> layout option) result" | ReloadLayouts | SelectScreen screen | SelectWidget nat
  | PointerDown rat rat | PointerMove rat rat | PointerUp | Nudge i16 i16 | AddWidget widget_kind
  | DeleteWidget | DuplicateWidget | RaiseWidget | LowerWidget | SetKind widget_kind | SetSource u8 | SetFont font
  | SetAlign align | SetX i16 | SetY i16 | SetW i16 | SetH i16 | SetRadius u8 | SetDecimals u8 | SetRateUnit tap_rate_unit
  | SetFlag u8 bool | SetLabel string | SetSuffix string | OpenColor color_field | CancelColor | SubmitColor u32
  | HexTyped color_field string | LiveData bool | PollLive | LiveValues "(string, ui_value list) result" | SimulatePress bool
  | ApplyLayout | Applied screen layout "(string, string) result" | RevertLayout | ResetDefault | ExportLayout
  | Exported "(string, string) result" | ImportLayout | Imported "(string, layout) result"

text \<open>What a message starts in the background.\<close>

datatype designer_task = LoadLayouts | FetchValues | SendLayout screen layout | SaveFile screen layout | PickFile

definition LOADING :: string where "LOADING = ''Loading layouts from the daemon...''"

definition hex06 :: "u32 \<Rightarrow> string" where
  "hex06 rgb =
     (let ds = hex_digits (unat (rgb AND 0xFFFFFF)) in CHR 0x23 # replicate (6 - length ds) (CHR ''0'') @ ds)"

definition parse_hex_color :: "string \<Rightarrow> u32 option" where
  "parse_hex_color s =
     (let h = strip_all [''#''] (trim s) in if length h = 6 then parse_hex_u32 h else None)"

definition this_layout :: "designer \<Rightarrow> layout" where
  "this_layout d = on_screen (ds_screen d) (ds_working d)"

definition map_layout :: "(layout \<Rightarrow> layout) \<Rightarrow> designer \<Rightarrow> designer" where
  "map_layout f d = d\<lparr>ds_working := put_screen (ds_screen d) (f (this_layout d)) (ds_working d)\<rparr>"

definition put_widget :: "nat \<Rightarrow> (widget \<Rightarrow> widget) \<Rightarrow> layout \<Rightarrow> layout" where
  "put_widget i f l = (if i < length (l_widgets l) then l\<lparr>l_widgets := (l_widgets l)[i := f (l_widgets l ! i)]\<rparr> else l)"

definition edit_widget :: "(widget \<Rightarrow> widget) \<Rightarrow> designer \<Rightarrow> designer" where
  "edit_widget f d = (case ds_selected d of Some i \<Rightarrow> map_layout (put_widget i f) d | None \<Rightarrow> d)"

definition layout_dirty :: "designer \<Rightarrow> bool" where
  "layout_dirty d \<longleftrightarrow> this_layout d \<noteq> on_screen (ds_screen d) (ds_applied d)"

definition has_unapplied_edits :: "designer \<Rightarrow> bool" where
  "has_unapplied_edits d \<longleftrightarrow> ds_working d \<noteq> ds_applied d"

definition refresh_hex :: "designer \<Rightarrow> designer" where
  "refresh_hex d =
     (let l = this_layout d;
          h = (case ds_selected d of
                 Some i \<Rightarrow> if i < length (l_widgets l)
                   then let w = l_widgets l ! i in
                     (ds_hex d)(FieldFg := hex06 (w_fg w), FieldBg := hex06 (w_bg w), FieldAccent := hex06 (w_accent w))
                   else ds_hex d
               | None \<Rightarrow> ds_hex d)
      in d\<lparr>ds_hex := h(FieldBackground := hex06 (l_background l))\<rparr>)"

definition new_designer :: "layouts \<Rightarrow> designer \<times> designer_task option" where
  "new_designer defaults =
     (refresh_hex \<lparr>ds_screen = ScreenPlaying, ds_working = defaults, ds_applied = defaults, ds_defaults = defaults,
        ds_selected = None, ds_drag = None, ds_picker = None, ds_hex = \<lambda>f. [], ds_live = False, ds_press = False,
        ds_busy = True, ds_status = LOADING\<rparr>, Some LoadLayouts)"

definition reload_layouts :: "designer \<Rightarrow> designer \<times> designer_task option" where
  "reload_layouts d = (d\<lparr>ds_busy := True, ds_status := LOADING\<rparr>, Some LoadLayouts)"

section \<open>The pointer\<close>

text \<open>\<open>as i32\<close> and \<open>as i16\<close> of a float saturate; the latter drops the fraction.\<close>

definition saturated :: "nat \<Rightarrow> int \<Rightarrow> int" where
  "saturated w n = max (- (2 ^ (w - 1))) (min n (2 ^ (w - 1) - 1))"

definition to_i16 :: "rat \<Rightarrow> i16" where
  "to_i16 v = of_int (saturated 16 (if 0 \<le> v then \<lfloor>v\<rfloor> else - \<lfloor>- v\<rfloor>))"

text \<open>\<open>clamp\<close> panics when its bounds are crossed.\<close>

definition clamp_i16 :: "rat \<Rightarrow> i16 \<Rightarrow> i16 \<Rightarrow> i16 option" where
  "clamp_i16 v lo hi =
     (if hi <s lo then None
      else Some (of_int (max (sint lo) (min (saturated 32 \<lfloor>round_half_away v\<rfloor>) (sint hi)))))"

definition on_handle :: "rat \<Rightarrow> rat \<Rightarrow> widget \<Rightarrow> bool" where
  "on_handle x y w \<longleftrightarrow> \<bar>x - of_int (sint (w_x w + w_w w))\<bar> \<le> HANDLE \<and> \<bar>y - of_int (sint (w_y w + w_h w))\<bar> \<le> HANDLE"

definition topmost :: "i16 \<Rightarrow> i16 \<Rightarrow> widget list \<Rightarrow> nat option" where
  "topmost x y ws = find (\<lambda>i. widget_contains (ws ! i) x y) (rev [0..<length ws])"

definition pointer_down :: "rat \<Rightarrow> rat \<Rightarrow> designer \<Rightarrow> designer" where
  "pointer_down x y d =
     (let ws = l_widgets (this_layout d);
          hit = map_option (\<lambda>i. (i, x - of_int (sint (w_x (ws ! i))), y - of_int (sint (w_y (ws ! i)))))
                  (topmost (to_i16 x) (to_i16 y) ws);
          grab = d\<lparr>ds_selected := map_option fst hit, ds_drag := map_option (\<lambda>(i, dx, dy). MoveWidget i dx dy) hit\<rparr>
      in case ds_selected d of
           Some i \<Rightarrow> if i < length ws \<and> on_handle x y (ws ! i) then d\<lparr>ds_drag := Some (ResizeWidget i)\<rparr> else grab
         | None \<Rightarrow> grab)"

definition moved :: "rat \<Rightarrow> rat \<Rightarrow> widget \<Rightarrow> widget option" where
  "moved x y w =
     (case clamp_i16 x (- w_w w + 4) (SCREEN_W - 4) of
        None \<Rightarrow> None
      | Some x' \<Rightarrow> map_option (\<lambda>y'. w\<lparr>w_x := x', w_y := y'\<rparr>) (clamp_i16 y (- w_h w + 4) (SCREEN_H - 4)))"

definition resized :: "rat \<Rightarrow> rat \<Rightarrow> widget \<Rightarrow> widget option" where
  "resized x y w =
     (case clamp_i16 (x - of_int (sint (w_x w))) 2 (2 * SCREEN_W) of
        None \<Rightarrow> None
      | Some w' \<Rightarrow> map_option (\<lambda>h'. w\<lparr>w_w := w', w_h := h'\<rparr>) (clamp_i16 (y - of_int (sint (w_y w))) 2 (2 * SCREEN_H)))"

text \<open>What a drag does to the widget it has the number of, if there is one.\<close>

definition drag_widget :: "nat \<Rightarrow> (widget \<Rightarrow> widget option) \<Rightarrow> designer \<Rightarrow> designer option" where
  "drag_widget i f d =
     (let ws = l_widgets (this_layout d)
      in if i < length ws then map_option (\<lambda>w. map_layout (put_widget i (\<lambda>_. w)) d) (f (ws ! i)) else Some d)"

definition pointer_move :: "rat \<Rightarrow> rat \<Rightarrow> designer \<Rightarrow> designer option" where
  "pointer_move x y d =
     (case ds_drag d of
        None \<Rightarrow> Some d
      | Some (MoveWidget i dx dy) \<Rightarrow> drag_widget i (moved (x - dx) (y - dy)) d
      | Some (ResizeWidget i) \<Rightarrow> drag_widget i (resized x y) d)"

section \<open>Messages\<close>

definition truncate_to :: "string \<Rightarrow> nat \<Rightarrow> string" where
  "truncate_to s n = take (boundary_before s (min (length s) n)) s"

definition set_color :: "color_field \<Rightarrow> u32 \<Rightarrow> designer \<Rightarrow> designer" where
  "set_color field v d =
     refresh_hex (case field of
        FieldBackground \<Rightarrow> map_layout (\<lambda>l. l\<lparr>l_background := v\<rparr>) d
      | FieldFg \<Rightarrow> edit_widget (\<lambda>w. w\<lparr>w_fg := v\<rparr>) d
      | FieldBg \<Rightarrow> edit_widget (\<lambda>w. w\<lparr>w_bg := v\<rparr>) d
      | FieldAccent \<Rightarrow> edit_widget (\<lambda>w. w\<lparr>w_accent := v\<rparr>) d)"

definition remove_at :: "nat \<Rightarrow> 'a list \<Rightarrow> 'a list" where
  "remove_at i xs = take i xs @ drop (Suc i) xs"

definition swap_at :: "nat \<Rightarrow> nat \<Rightarrow> 'a list \<Rightarrow> 'a list" where
  "swap_at i j xs = xs[i := xs ! j, j := xs ! i]"

definition map_widgets :: "(widget list \<Rightarrow> widget list) \<Rightarrow> designer \<Rightarrow> designer" where
  "map_widgets f = map_layout (\<lambda>l. l\<lparr>l_widgets := f (l_widgets l)\<rparr>)"

text \<open>\<open>saturating_add\<close> of 16-bit numbers.\<close>

definition sat_add_i16 :: "i16 \<Rightarrow> i16 \<Rightarrow> i16" where
  "sat_add_i16 a b = of_int (saturated 16 (sint a + sint b))"

definition at_least_1 :: "i16 \<Rightarrow> i16" where "at_least_1 v = (if v <s 1 then 1 else v)"

definition loaded :: "(string, layout option \<times> layout option) result \<Rightarrow> designer \<Rightarrow> designer" where
  "loaded r d0 =
     (let d = d0\<lparr>ds_busy := False\<rparr>
      in (case r of
            Inr (idle, playing) \<Rightarrow>
              let b = ((case idle of Some l \<Rightarrow> l | None \<Rightarrow> fst (ds_defaults d)),
                       (case playing of Some l \<Rightarrow> l | None \<Rightarrow> snd (ds_defaults d)))
              in d\<lparr>ds_applied := b, ds_working := b,
                   ds_status := ''Drag widgets to move them, drag the corner handle to resize.''\<rparr>
          | Inl e \<Rightarrow> d\<lparr>ds_status := ''Daemon unavailable ('' @ e @ ''); editing the defaults''\<rparr>)\<lparr>ds_selected := None\<rparr>)"

fun show_layout_error :: "layout_error \<Rightarrow> string" where
  "show_layout_error (TooManyWidgets n) =
     ''too many widgets ('' @ dec_digits n @ '', max '' @ dec_digits MAX_WIDGETS @ '')''"
| "show_layout_error (WidgetError i reason) = ''widget '' @ dec_digits i @ '': '' @ reason"

text \<open>The handler before the common end, which refreshes; \<open>True\<close> in the middle where it returns early.\<close>

fun handle_message :: "(string \<Rightarrow> bool) \<Rightarrow> designer_message \<Rightarrow> designer \<Rightarrow> (bool \<times> designer \<times> designer_task option) option" where
  "handle_message uni ReloadLayouts d = Some (True, reload_layouts d)"
| "handle_message uni (Loaded r) d = Some (False, loaded r d, None)"
| "handle_message uni (SelectScreen s) d = Some (False, d\<lparr>ds_screen := s, ds_selected := None\<rparr>, None)"
| "handle_message uni (SelectWidget i) d = Some (False, d\<lparr>ds_selected := Some i\<rparr>, None)"
| "handle_message uni (PointerDown x y) d = Some (False, pointer_down x y d, None)"
| "handle_message uni (PointerMove x y) d = map_option (\<lambda>d. (False, d, None)) (pointer_move x y d)"
| "handle_message uni PointerUp d = Some (False, d\<lparr>ds_drag := None\<rparr>, None)"
| "handle_message uni (Nudge dx dy) d =
     Some (False, edit_widget (\<lambda>w. w\<lparr>w_x := sat_add_i16 (w_x w) dx, w_y := sat_add_i16 (w_y w) dy\<rparr>) d, None)"
| "handle_message uni (AddWidget k) d =
     Some (False,
       (if MAX_WIDGETS \<le> length (l_widgets (this_layout d))
        then d\<lparr>ds_status := ''A screen holds at most '' @ dec_digits MAX_WIDGETS @ '' widgets''\<rparr>
        else (map_widgets (\<lambda>ws. ws @ [new_widget k]) d)\<lparr>ds_selected := Some (length (l_widgets (this_layout d)))\<rparr>), None)"
| "handle_message uni DeleteWidget d =
     (case ds_selected d of
        None \<Rightarrow> Some (False, d, None)
      | Some i \<Rightarrow>
          if i < length (l_widgets (this_layout d))
          then Some (False, (map_widgets (remove_at i) d)\<lparr>ds_selected := None\<rparr>, None) else None)"
| "handle_message uni DuplicateWidget d =
     (case ds_selected d of
        None \<Rightarrow> Some (False, d, None)
      | Some i \<Rightarrow>
          let ws = l_widgets (this_layout d) in
          if MAX_WIDGETS \<le> length ws then Some (False, d, None)
          else if i < length ws
          then let w = ws ! i in
            Some (False, (map_widgets (\<lambda>ws. ws @ [w\<lparr>w_x := w_x w + 8, w_y := w_y w + 8\<rparr>]) d)
              \<lparr>ds_selected := Some (length ws)\<rparr>, None)
          else None)"
| "handle_message uni RaiseWidget d =
     Some (False,
       (case ds_selected d of
          Some i \<Rightarrow> if i + 1 < length (l_widgets (this_layout d))
            then (map_widgets (swap_at i (i + 1)) d)\<lparr>ds_selected := Some (i + 1)\<rparr> else d
        | None \<Rightarrow> d), None)"
| "handle_message uni LowerWidget d =
     (case ds_selected d of
        Some i \<Rightarrow>
          if i = 0 then Some (False, d, None)
          else if i < length (l_widgets (this_layout d))
          then Some (False, (map_widgets (swap_at i (i - 1)) d)\<lparr>ds_selected := Some (i - 1)\<rparr>, None) else None
      | None \<Rightarrow> Some (False, d, None))"
| "handle_message uni (SetKind k) d = Some (False, edit_widget (\<lambda>w. w\<lparr>w_kind := k\<rparr>) d, None)"
| "handle_message uni (SetSource s) d = Some (False, edit_widget (\<lambda>w. w\<lparr>w_source := s\<rparr>) d, None)"
| "handle_message uni (SetFont f) d = Some (False, edit_widget (\<lambda>w. w\<lparr>w_font := f\<rparr>) d, None)"
| "handle_message uni (SetAlign a) d = Some (False, edit_widget (\<lambda>w. w\<lparr>w_align := a\<rparr>) d, None)"
| "handle_message uni (SetX v) d = Some (False, edit_widget (\<lambda>w. w\<lparr>w_x := v\<rparr>) d, None)"
| "handle_message uni (SetY v) d = Some (False, edit_widget (\<lambda>w. w\<lparr>w_y := v\<rparr>) d, None)"
| "handle_message uni (SetW v) d = Some (False, edit_widget (\<lambda>w. w\<lparr>w_w := at_least_1 v\<rparr>) d, None)"
| "handle_message uni (SetH v) d = Some (False, edit_widget (\<lambda>w. w\<lparr>w_h := at_least_1 v\<rparr>) d, None)"
| "handle_message uni (SetRadius v) d = Some (False, edit_widget (\<lambda>w. w\<lparr>w_radius := v\<rparr>) d, None)"
| "handle_message uni (SetDecimals v) d = Some (False, edit_widget (\<lambda>w. w\<lparr>w_decimals := v\<rparr>) d, None)"
| "handle_message uni (SetRateUnit u) d = Some (False, edit_widget (set_tap_rate_unit uni u) d, None)"
| "handle_message uni (SetFlag f on) d = Some (False, edit_widget (set_flag f on) d, None)"
| "handle_message uni (SetLabel s) d = Some (False, edit_widget (\<lambda>w. w\<lparr>w_label := truncate_to s LABEL_MAX_BYTES\<rparr>) d, None)"
| "handle_message uni (SetSuffix s) d = Some (False, edit_widget (\<lambda>w. w\<lparr>w_suffix := truncate_to s SUFFIX_MAX_BYTES\<rparr>) d, None)"
| "handle_message uni (OpenColor f) d = Some (False, d\<lparr>ds_picker := Some f\<rparr>, None)"
| "handle_message uni CancelColor d = Some (False, d\<lparr>ds_picker := None\<rparr>, None)"
| "handle_message uni (SubmitColor v) d =
     Some (False, (case ds_picker d of Some f \<Rightarrow> set_color f v (d\<lparr>ds_picker := None\<rparr>) | None \<Rightarrow> d), None)"
| "handle_message uni (HexTyped f s) d =
     (let d = (case parse_hex_color s of Some v \<Rightarrow> set_color f v d | None \<Rightarrow> d)
      in Some (True, d\<lparr>ds_hex := (ds_hex d)(f := s)\<rparr>, None))"
| "handle_message uni (LiveData on) d =
     Some (if on then (True, d\<lparr>ds_live := on\<rparr>, Some FetchValues) else (False, d\<lparr>ds_live := on\<rparr>, None))"
| "handle_message uni PollLive d = Some (True, d, if ds_live d then Some FetchValues else None)"
| "handle_message uni (LiveValues r) d =
     Some (False,
       (case r of
          Inr vs \<Rightarrow> if vs \<noteq> [] then d
            else d\<lparr>ds_status := ''No live data yet (is tosu running?); showing sample values''\<rparr>
        | Inl e \<Rightarrow> d\<lparr>ds_status := ''Live data unavailable: '' @ e\<rparr>), None)"
| "handle_message uni (SimulatePress on) d = Some (False, d\<lparr>ds_press := on\<rparr>, None)"
| "handle_message uni ApplyLayout d =
     Some (case validate_layout (this_layout d) of
        Inl e \<Rightarrow> (False, d\<lparr>ds_status := ''Can'' @ [CHR 0x27] @ ''t apply: '' @ show_layout_error e\<rparr>, None)
      | Inr _ \<Rightarrow> (True, d\<lparr>ds_busy := True, ds_status := ''Applying to the pad...''\<rparr>,
                  Some (SendLayout (ds_screen d) (this_layout d))))"
| "handle_message uni (Applied s l r) d =
     (let d = d\<lparr>ds_busy := False\<rparr>
      in Some (False,
           (case r of
              Inr note \<Rightarrow> d\<lparr>ds_applied := put_screen s l (ds_applied d),
                ds_status := (if note = [] then ''Applied to the pad'' else ''Applied: '' @ note)\<rparr>
            | Inl e \<Rightarrow> d\<lparr>ds_status := e\<rparr>), None))"
| "handle_message uni RevertLayout d =
     Some (False, (map_layout (\<lambda>_. on_screen (ds_screen d) (ds_applied d)) d)
       \<lparr>ds_selected := None, ds_status := ''Reverted to what the pad shows''\<rparr>, None)"
| "handle_message uni ResetDefault d =
     Some (False, (map_layout (\<lambda>_. on_screen (ds_screen d) (ds_defaults d)) d)
       \<lparr>ds_selected := None, ds_status := ''Loaded the built-in default; press Apply to use it on the pad''\<rparr>, None)"
| "handle_message uni ExportLayout d = Some (True, d, Some (SaveFile (ds_screen d) (this_layout d)))"
| "handle_message uni (Exported r) d =
     Some (False, d\<lparr>ds_status := (case r of Inr p \<Rightarrow> ''Exported to '' @ p | Inl e \<Rightarrow> e)\<rparr>, None)"
| "handle_message uni ImportLayout d = Some (True, d, Some PickFile)"
| "handle_message uni (Imported r) d =
     Some (False,
       (case r of
          Inr l \<Rightarrow> (map_layout (\<lambda>_. l) d)\<lparr>ds_selected := None, ds_status := ''Imported; press Apply to use it on the pad''\<rparr>
        | Inl e \<Rightarrow> if e = [] then d else d\<lparr>ds_status := e\<rparr>), None)"

definition designer_update :: "(string \<Rightarrow> bool) \<Rightarrow> designer_message \<Rightarrow> designer \<Rightarrow> (designer \<times> designer_task option) option" where
  "designer_update uni m d =
     map_option (\<lambda>(early, d, t). (if early then d else refresh_hex d, t)) (handle_message uni m d)"

text \<open>What comes back from the file dialog: nothing picked, or what reading the file gives.\<close>

definition import_layout :: "(string \<Rightarrow> (string, layout) result) \<Rightarrow> (string, string) result option \<Rightarrow> (string, layout) result" where
  "import_layout layout_of_json file =
     (case file of
        None \<Rightarrow> Inl []
      | Some (Inl e) \<Rightarrow> Inl (''Import failed: '' @ e)
      | Some (Inr json) \<Rightarrow>
          (case layout_of_json json of
             Inl e \<Rightarrow> Inl (''Not a layout file: '' @ e)
           | Inr l \<Rightarrow>
               (case validate_layout l of Inl e \<Rightarrow> Inl (''Invalid layout: '' @ show_layout_error e) | Inr _ \<Rightarrow> Inr l)))"

text \<open>The keyboard: a step is ten with shift.\<close>

datatype designer_key = ArrowLeft | ArrowRight | ArrowUp | ArrowDown | KeyDelete | OtherKey

definition key_message :: "bool \<Rightarrow> designer_key \<Rightarrow> designer_message option" where
  "key_message shift k =
     (let step = (if shift then 10 else 1)
      in case k of
           ArrowLeft \<Rightarrow> Some (Nudge (- step) 0)
         | ArrowRight \<Rightarrow> Some (Nudge step 0)
         | ArrowUp \<Rightarrow> Some (Nudge 0 (- step))
         | ArrowDown \<Rightarrow> Some (Nudge 0 step)
         | KeyDelete \<Rightarrow> Some DeleteWidget
         | OtherKey \<Rightarrow> None)"

end
