(* ===== verification/Designer_Safety.thy ===== *)
theory Designer_Safety
  imports Designer
begin

text \<open>
  What holds of the designer in every state it can reach: the selection is a widget of the screen shown,
  a screen has at most the widgets the pad takes, no message panics, and what is sent to the pad is valid.
\<close>

section \<open>The states of the page\<close>

definition sized :: "widget \<Rightarrow> bool" where "sized w \<longleftrightarrow> 0 < sint (w_w w) \<and> 0 < sint (w_h w)"

definition drawable :: "layout \<Rightarrow> bool" where
  "drawable l \<longleftrightarrow> length (l_widgets l) \<le> MAX_WIDGETS \<and> list_all sized (l_widgets l)"

definition all_drawable :: "layouts \<Rightarrow> bool" where
  "all_drawable b \<longleftrightarrow> drawable (fst b) \<and> drawable (snd b)"

definition selected_ok :: "nat option \<Rightarrow> layout \<Rightarrow> bool" where
  "selected_ok s l \<longleftrightarrow> (\<forall>i. s = Some i \<longrightarrow> i < length (l_widgets l))"

definition designer_ok :: "designer \<Rightarrow> bool" where
  "designer_ok d \<longleftrightarrow> all_drawable (ds_working d) \<and> all_drawable (ds_applied d) \<and> all_drawable (ds_defaults d)
     \<and> selected_ok (ds_selected d) (this_layout d)"

text \<open>
  What the page and its background tasks send: a widget of the list that is shown, layouts the daemon or
  the import has validated, and replies about layouts that were sent.
\<close>

fun offered :: "designer_message \<Rightarrow> designer \<Rightarrow> bool" where
  "offered (SelectWidget i) d = (i < length (l_widgets (this_layout d)))"
| "offered (Loaded (Inr (a, b))) d = (\<forall>l. a = Some l \<or> b = Some l \<longrightarrow> validate_layout l = Inr ())"
| "offered (Imported (Inr l)) d = (validate_layout l = Inr ())"
| "offered (Applied s l r) d = (validate_layout l = Inr ())"
| "offered m d = True"

inductive designer_at :: "(string \<Rightarrow> bool) \<Rightarrow> layouts \<Rightarrow> designer \<Rightarrow> bool" for uni defaults where
  start: "designer_at uni defaults (fst (new_designer defaults))"
| step: "designer_at uni defaults d \<Longrightarrow> offered m d \<Longrightarrow> designer_update uni m d = Some (d', t) \<Longrightarrow> designer_at uni defaults d'"

lemma valid_drawable: "validate_layout l = Inr () \<Longrightarrow> drawable l"
  by (auto simp: validate_layout_def drawable_def sized_def check_widgets_ok widget_ok_def list_all_iff split: if_splits)

lemma on_put_screen [simp]: "on_screen s (put_screen t l b) = (if s = t then l else on_screen s b)"
  by (cases s; cases t) simp_all

lemma all_drawable_put: "all_drawable b \<Longrightarrow> drawable l \<Longrightarrow> all_drawable (put_screen s l b)"
  by (cases s) (simp_all add: all_drawable_def)

lemma all_drawable_on: "all_drawable b \<Longrightarrow> drawable (on_screen s b)"
  by (cases s) (simp_all add: all_drawable_def)

lemma refresh_fields [simp]:
  "ds_working (refresh_hex d) = ds_working d" "ds_applied (refresh_hex d) = ds_applied d"
  "ds_defaults (refresh_hex d) = ds_defaults d" "ds_selected (refresh_hex d) = ds_selected d"
  "ds_screen (refresh_hex d) = ds_screen d" "ds_drag (refresh_hex d) = ds_drag d"
  by (simp_all add: refresh_hex_def Let_def)

lemma map_layout_fields [simp]:
  "this_layout (map_layout f d) = f (this_layout d)" "ds_applied (map_layout f d) = ds_applied d"
  "ds_defaults (map_layout f d) = ds_defaults d" "ds_selected (map_layout f d) = ds_selected d"
  "ds_screen (map_layout f d) = ds_screen d" "ds_drag (map_layout f d) = ds_drag d"
  by (simp_all add: map_layout_def this_layout_def)

lemma this_layout_eq: "this_layout d = on_screen (ds_screen d) (ds_working d)"
  by (simp add: this_layout_def)

lemma refresh_ok [simp]: "designer_ok (refresh_hex d) = designer_ok d"
  by (simp add: designer_ok_def this_layout_def)

text \<open>A change of the layout that is shown keeps the invariant when the new layout may be drawn.\<close>

lemma map_layout_ok:
  assumes "designer_ok d" and "drawable (f (this_layout d))" and "selected_ok s (f (this_layout d))"
  shows "designer_ok (map_layout f d\<lparr>ds_selected := s\<rparr>)"
  using assms by (simp add: designer_ok_def this_layout_def map_layout_def all_drawable_put)

lemma map_layout_ok':
  assumes "designer_ok d" and "drawable (f (this_layout d))" and "length (l_widgets (f (this_layout d))) = length (l_widgets (this_layout d))"
  shows "designer_ok (map_layout f d)"
  using assms by (simp add: designer_ok_def this_layout_def map_layout_def all_drawable_put selected_ok_def)

lemma put_widget_length [simp]: "length (l_widgets (put_widget i f l)) = length (l_widgets l)"
  by (simp add: put_widget_def)

lemma put_widget_drawable:
  "drawable l \<Longrightarrow> (\<And>w. sized w \<Longrightarrow> sized (f w)) \<Longrightarrow> drawable (put_widget i f l)"
  by (auto simp: drawable_def put_widget_def list_all_length nth_list_update)

lemma this_drawable: "designer_ok d \<Longrightarrow> drawable (this_layout d)"
  by (simp add: designer_ok_def this_layout_def all_drawable_on)

lemma edit_widget_ok: "designer_ok d \<Longrightarrow> (\<And>w. sized w \<Longrightarrow> sized (f w)) \<Longrightarrow> designer_ok (edit_widget f d)"
  by (auto simp: edit_widget_def intro!: map_layout_ok' put_widget_drawable this_drawable split: option.split)

lemma set_flag_sized [simp]: "sized (set_flag f on w) = sized w"
  by (simp add: sized_def set_flag_def)

lemma set_tap_rate_unit_sized [simp]: "sized (set_tap_rate_unit uni u w) = sized w"
  by (simp add: sized_def set_tap_rate_unit_def Let_def set_flag_def)

lemma at_least_1_pos: "0 < sint (at_least_1 v)"
  by (simp add: at_least_1_def word_sless_alt)

lemma set_color_ok: "designer_ok d \<Longrightarrow> designer_ok (set_color f v d)"
  by (cases f) (auto simp: set_color_def intro!: edit_widget_ok map_layout_ok' this_drawable, auto simp: sized_def drawable_def dest: this_drawable)

lemma not_sized_update [simp]:
  "sized (w\<lparr>w_kind := k\<rparr>) = sized w" "sized (w\<lparr>w_source := u\<rparr>) = sized w" "sized (w\<lparr>w_font := f\<rparr>) = sized w"
  "sized (w\<lparr>w_align := a\<rparr>) = sized w" "sized (w\<lparr>w_x := x\<rparr>) = sized w" "sized (w\<lparr>w_y := x\<rparr>) = sized w"
  "sized (w\<lparr>w_radius := u\<rparr>) = sized w" "sized (w\<lparr>w_decimals := u\<rparr>) = sized w" "sized (w\<lparr>w_label := t\<rparr>) = sized w"
  "sized (w\<lparr>w_suffix := t\<rparr>) = sized w"
  by (simp_all add: sized_def)

lemma resize_sized [simp]:
  "sized w \<Longrightarrow> sized (w\<lparr>w_w := at_least_1 v\<rparr>)" "sized w \<Longrightarrow> sized (w\<lparr>w_h := at_least_1 v\<rparr>)"
  by (simp_all add: sized_def at_least_1_pos)

section \<open>Dragging\<close>

lemma screen_numbers: "sint SCREEN_W = 320" "sint SCREEN_H = 240" "sint (SCREEN_W - 4) = 316" "sint (SCREEN_H - 4) = 236"
  "sint (2 * SCREEN_W) = 640" "sint (2 * SCREEN_H) = 480"
  by (simp_all add: SCREEN_W_def SCREEN_H_def)

lemma sint_low_edge: "0 < sint (v :: i16) \<Longrightarrow> sint (- v + 4) = 4 - sint v"
  using sint_range_size [of v] by (simp add: sint_word_ariths signed_take_bit_int_eq_self word_size)

lemma clamp_i16_bounds:
  "clamp_i16 v lo hi = Some r \<Longrightarrow> sint lo \<le> sint r \<and> sint r \<le> sint hi"
proof -
  assume "clamp_i16 v lo hi = Some r"
  then have le: "sint lo \<le> sint hi" and r: "r = of_int (max (sint lo) (min (saturated 32 \<lfloor>round_half_away v\<rfloor>) (sint hi)))"
    by (auto simp: clamp_i16_def word_sless_alt split: if_splits)
  let ?n = "max (sint lo) (min (saturated 32 \<lfloor>round_half_away v\<rfloor>) (sint hi))"
  have n: "sint lo \<le> ?n" "?n \<le> sint hi" using le by auto
  have "- (2 ^ 15) \<le> sint lo" "sint hi < 2 ^ 15" using sint_range_size [of lo] sint_range_size [of hi] by (simp_all add: word_size)
  then have "sint r = ?n" using n by (simp add: r sint_sbintrunc' signed_take_bit_int_eq_self)
  then show ?thesis using n by simp
qed

lemma clamp_i16_some: "sint lo \<le> sint hi \<Longrightarrow> \<exists>r. clamp_i16 v lo hi = Some r"
  by (simp add: clamp_i16_def word_sless_alt)

lemma moved_some:
  assumes "sized w"
  shows "\<exists>w'. moved x y w = Some w' \<and> sized w' \<and> w_w w' = w_w w \<and> w_h w' = w_h w
    \<and> 4 - sint (w_w w) \<le> sint (w_x w') \<and> sint (w_x w') \<le> 316 \<and> 4 - sint (w_h w) \<le> sint (w_y w') \<and> sint (w_y w') \<le> 236"
proof -
  have e: "sint (- w_w w + 4) = 4 - sint (w_w w)" "sint (- w_h w + 4) = 4 - sint (w_h w)"
    using assms sint_low_edge unfolding sized_def by blast+
  obtain a where a: "clamp_i16 x (- w_w w + 4) (SCREEN_W - 4) = Some a"
    using clamp_i16_some [of "- w_w w + 4" "SCREEN_W - 4" x] assms e(1) by (auto simp: screen_numbers sized_def)
  obtain b where b: "clamp_i16 y (- w_h w + 4) (SCREEN_H - 4) = Some b"
    using clamp_i16_some [of "- w_h w + 4" "SCREEN_H - 4" y] assms e(2) by (auto simp: screen_numbers sized_def)
  show ?thesis
    using clamp_i16_bounds [OF a] clamp_i16_bounds [OF b] assms
    unfolding moved_def a b e by (simp add: screen_numbers sized_def)
qed

lemma resized_some:
  "\<exists>w'. resized x y w = Some w' \<and> sized w' \<and> w_x w' = w_x w \<and> w_y w' = w_y w \<and> sint (w_w w') \<le> 640 \<and> sint (w_h w') \<le> 480"
proof -
  obtain a where a: "clamp_i16 (x - of_int (sint (w_x w))) 2 (2 * SCREEN_W) = Some a"
    using clamp_i16_some [of 2 "2 * SCREEN_W"] by (auto simp: screen_numbers)
  obtain b where b: "clamp_i16 (y - of_int (sint (w_y w))) 2 (2 * SCREEN_H) = Some b"
    using clamp_i16_some [of 2 "2 * SCREEN_H"] by (auto simp: screen_numbers)
  show ?thesis
    using clamp_i16_bounds [OF a] clamp_i16_bounds [OF b] unfolding resized_def a b by (simp add: screen_numbers sized_def)
qed

lemma drag_widget_ok:
  assumes "designer_ok d" and "\<And>w. sized w \<Longrightarrow> \<exists>w'. f w = Some w' \<and> sized w'"
  shows "\<exists>d'. drag_widget i f d = Some d' \<and> designer_ok d'"
proof (cases "i < length (l_widgets (this_layout d))")
  case True
  then have "sized (l_widgets (this_layout d) ! i)" using this_drawable [OF assms(1)] by (simp add: drawable_def list_all_length)
  then obtain w' where "f (l_widgets (this_layout d) ! i) = Some w'" "sized w'" using assms(2) by blast
  then show ?thesis
    using True assms(1) by (auto simp: drag_widget_def Let_def intro!: map_layout_ok' put_widget_drawable this_drawable)
qed (simp add: drag_widget_def assms(1))

lemma pointer_move_ok: "designer_ok d \<Longrightarrow> \<exists>d'. pointer_move x y d = Some d' \<and> designer_ok d'"
  using drag_widget_ok [of d] moved_some resized_some
  by (cases "ds_drag d") (auto simp: pointer_move_def split: drag.split, blast+)

lemma topmost_in: "topmost x y ws = Some i \<Longrightarrow> i < length ws \<and> widget_contains (ws ! i) x y"
  by (auto simp: topmost_def find_Some_iff rev_nth)

lemma pointer_down_ok: "designer_ok d \<Longrightarrow> designer_ok (pointer_down x y d)"
  using topmost_in by (fastforce simp: pointer_down_def Let_def designer_ok_def this_layout_def selected_ok_def split: option.split)

section \<open>Every message\<close>

lemma widgets_changed_ok:
  assumes "designer_ok d" and "length (f (l_widgets (this_layout d))) \<le> MAX_WIDGETS"
    and "\<forall>w \<in> set (f (l_widgets (this_layout d))). sized w"
    and "\<forall>i. s = Some i \<longrightarrow> i < length (f (l_widgets (this_layout d)))"
  shows "designer_ok (map_widgets f d\<lparr>ds_selected := s\<rparr>)"
  using assms by (auto simp: map_widgets_def drawable_def selected_ok_def list_all_iff intro!: map_layout_ok)

lemma status_ok [simp]:
  "designer_ok (d\<lparr>ds_status := t\<rparr>) = designer_ok d" "designer_ok (d\<lparr>ds_busy := b\<rparr>) = designer_ok d"
  "designer_ok (d\<lparr>ds_drag := g\<rparr>) = designer_ok d" "designer_ok (d\<lparr>ds_picker := p\<rparr>) = designer_ok d"
  "designer_ok (d\<lparr>ds_hex := h\<rparr>) = designer_ok d" "designer_ok (d\<lparr>ds_live := b\<rparr>) = designer_ok d"
  "designer_ok (d\<lparr>ds_press := b\<rparr>) = designer_ok d"
  by (simp_all add: designer_ok_def this_layout_def)

lemma widgets_sized: "designer_ok d \<Longrightarrow> w \<in> set (l_widgets (this_layout d)) \<Longrightarrow> sized w"
  using this_drawable by (auto simp: drawable_def list_all_iff)

lemma widgets_few: "designer_ok d \<Longrightarrow> length (l_widgets (this_layout d)) \<le> MAX_WIDGETS"
  using this_drawable by (auto simp: drawable_def)

lemma selection_in: "designer_ok d \<Longrightarrow> ds_selected d = Some i \<Longrightarrow> i < length (l_widgets (this_layout d))"
  by (simp add: designer_ok_def selected_ok_def)

lemma new_widget_sized: "sized (new_widget k)"
  by (cases k) (simp_all add: new_widget_def sized_def Let_def)

lemma swap_at_set: "i < length xs \<Longrightarrow> j < length xs \<Longrightarrow> set (swap_at i j xs) = set xs \<and> length (swap_at i j xs) = length xs"
  by (simp add: swap_at_def set_swap)

lemma remove_at_facts: "i < length xs \<Longrightarrow> length (remove_at i xs) = length xs - 1 \<and> set (remove_at i xs) \<subseteq> set xs"
  by (auto simp: remove_at_def dest: in_set_takeD in_set_dropD)

text \<open>The messages that change which widgets there are, one by one.\<close>

lemma add_ok: "designer_ok d \<Longrightarrow> \<exists>e d' t. handle_message uni (AddWidget k) d = Some (e, d', t) \<and> designer_ok d' \<and> t = None"
  by (auto simp: not_le new_widget_sized widgets_sized intro!: widgets_changed_ok)

lemma delete_ok: "designer_ok d \<Longrightarrow> \<exists>e d' t. handle_message uni DeleteWidget d = Some (e, d', t) \<and> designer_ok d' \<and> t = None"
proof (cases "ds_selected d")
  case (Some i)
  assume ok: "designer_ok d"
  show ?thesis
    using remove_at_facts [OF selection_in [OF ok Some]] selection_in [OF ok Some] widgets_few [OF ok] Some ok
    by (auto dest: widgets_sized intro!: widgets_changed_ok)
qed (auto intro: exI [of _ False])

lemma duplicate_ok: "designer_ok d \<Longrightarrow> \<exists>e d' t. handle_message uni DuplicateWidget d = Some (e, d', t) \<and> designer_ok d' \<and> t = None"
  by (cases "ds_selected d") (auto simp: Let_def not_le selection_in widgets_sized intro!: widgets_changed_ok)

lemma swapped_ok:
  assumes "designer_ok d" and "i < length (l_widgets (this_layout d))" and "j < length (l_widgets (this_layout d))"
  shows "designer_ok (map_widgets (swap_at i j) d\<lparr>ds_selected := Some j\<rparr>)"
  using swap_at_set [OF assms(2,3)] widgets_few [OF assms(1)] assms
  by (intro widgets_changed_ok) (auto simp: widgets_sized)

lemma raise_ok: "designer_ok d \<Longrightarrow> \<exists>e d' t. handle_message uni RaiseWidget d = Some (e, d', t) \<and> designer_ok d' \<and> t = None"
  by (cases "ds_selected d") (auto simp: swapped_ok)

lemma lower_ok: "designer_ok d \<Longrightarrow> \<exists>e d' t. handle_message uni LowerWidget d = Some (e, d', t) \<and> designer_ok d' \<and> t = None"
  using selection_in [of d] by (cases "ds_selected d") (auto simp: swapped_ok)

lemma replaced_ok: "designer_ok d \<Longrightarrow> drawable l \<Longrightarrow> designer_ok (map_layout (\<lambda>_. l) d\<lparr>ds_selected := None\<rparr>)"
  by (rule map_layout_ok) (simp_all add: selected_ok_def)

lemma loaded_ok: "designer_ok d \<Longrightarrow> offered (Loaded r) d \<Longrightarrow> designer_ok (loaded r d)"
  using valid_drawable
  by (cases r) (auto simp: loaded_def Let_def designer_ok_def selected_ok_def all_drawable_def split: option.split)

lemma applied_ok: "designer_ok d \<Longrightarrow> drawable l \<Longrightarrow> designer_ok (d\<lparr>ds_applied := put_screen s l (ds_applied d)\<rparr>)"
  by (simp add: designer_ok_def this_layout_def all_drawable_put)

definition fine :: "(bool \<times> designer \<times> designer_task option) option \<Rightarrow> bool" where
  "fine r \<longleftrightarrow> (\<exists>e d t. r = Some (e, d, t) \<and> designer_ok d \<and> (\<forall>s l. t = Some (SendLayout s l) \<longrightarrow> validate_layout l = Inr ()))"

lemma fine_Some: "fine (Some (e, d, t)) \<longleftrightarrow> designer_ok d \<and> (\<forall>s l. t = Some (SendLayout s l) \<longrightarrow> validate_layout l = Inr ())"
  by (simp add: fine_def)

lemma kept_drawable:
  "designer_ok d \<Longrightarrow> drawable (on_screen s (ds_applied d))" "designer_ok d \<Longrightarrow> drawable (on_screen s (ds_defaults d))"
  by (simp_all add: designer_ok_def all_drawable_on)

lemma handle_message_fine:
  assumes ok: "designer_ok d" and "offered m d"
  shows "fine (handle_message uni m d)"
proof (cases m)
  case (PointerMove x y)
  then show ?thesis using pointer_move_ok [OF ok, of x y] by (auto simp: fine_Some)
next
  case (AddWidget k)
  then show ?thesis using add_ok [OF ok, of uni k] unfolding fine_def by blast
next
  case DeleteWidget
  then show ?thesis using delete_ok [OF ok, of uni] unfolding fine_def by blast
next
  case DuplicateWidget
  then show ?thesis using duplicate_ok [OF ok, of uni] unfolding fine_def by blast
next
  case RaiseWidget
  then show ?thesis using raise_ok [OF ok, of uni] unfolding fine_def by blast
next
  case LowerWidget
  then show ?thesis using lower_ok [OF ok, of uni] unfolding fine_def by blast
next
  case (Loaded r)
  then show ?thesis using loaded_ok [OF ok, of r] assms(2) by (simp add: fine_Some)
next
  case (Applied s l r)
  then show ?thesis using applied_ok [of "d\<lparr>ds_busy := False\<rparr>" l s] ok assms(2) valid_drawable
    by (auto simp: fine_Some Let_def split: sum.split)
next
  case (Imported r)
  then show ?thesis using replaced_ok [OF ok] valid_drawable assms(2) ok by (cases r) (auto simp: fine_Some)
next
  case RevertLayout
  then show ?thesis using replaced_ok [OF ok kept_drawable(1) [OF ok]] by (simp add: fine_Some)
next
  case ResetDefault
  then show ?thesis using replaced_ok [OF ok kept_drawable(2) [OF ok]] by (simp add: fine_Some)
next
  case ApplyLayout
  then show ?thesis using ok by (auto simp: fine_Some split: sum.split)
next
  case (SubmitColor v)
  then show ?thesis using ok by (auto simp: fine_Some set_color_ok split: option.split)
next
  case (HexTyped f s)
  then show ?thesis using ok by (auto simp: fine_Some set_color_ok Let_def split: option.split)
next
  case (SelectScreen s)
  then show ?thesis using ok by (simp add: fine_Some designer_ok_def selected_ok_def)
next
  case (SelectWidget i)
  then show ?thesis using assms by (simp add: fine_Some designer_ok_def selected_ok_def this_layout_def)
next
  case (LiveValues r)
  then show ?thesis using ok by (cases r) (auto simp: fine_Some)
qed (use ok in \<open>auto simp: fine_Some reload_layouts_def pointer_down_ok intro!: edit_widget_ok\<close>)

lemma designer_at_ok: "designer_at uni defaults d \<Longrightarrow> all_drawable defaults \<Longrightarrow> designer_ok d"
proof (induction rule: designer_at.induct)
  case start
  then show ?case by (simp add: new_designer_def) (simp add: designer_ok_def selected_ok_def)
next
  case (step d m d' t)
  then show ?case
    using handle_message_fine [of d m uni] by (auto simp: designer_update_def fine_def split: if_splits)
qed


definition demo_layouts :: layouts where
  "demo_layouts = (\<lparr>l_background = 0, l_widgets = [new_widget KText]\<rparr>, \<lparr>l_background = 0, l_widgets = [new_widget KRect]\<rparr>)"

lemma demo_layouts_drawable: "all_drawable demo_layouts"
  by (simp add: all_drawable_def drawable_def demo_layouts_def new_widget_sized MAX_WIDGETS_def)


text \<open>
  A dragged widget can be caught again: wherever the pointer goes, at least four of its pixels stay
  over the screen in both directions, and it keeps its size.
\<close>

theorem dragged_widget_stays_in_reach:
  assumes "all_drawable defaults" and "designer_at uni defaults d" and "ds_drag d = Some (MoveWidget i dx dy)"
    and "i < length (l_widgets (this_layout d))"
  shows "\<exists>d' w. pointer_move x y d = Some d' \<and> l_widgets (this_layout d') ! i = w
    \<and> 4 \<le> sint (w_x w) + sint (w_w w) \<and> sint (w_x w) + 4 \<le> 320 \<and> 4 \<le> sint (w_y w) + sint (w_h w) \<and> sint (w_y w) + 4 \<le> 240
    \<and> w_w w = w_w (l_widgets (this_layout d) ! i) \<and> w_h w = w_h (l_widgets (this_layout d) ! i)"
proof -
  have ok: "designer_ok d" by (rule designer_at_ok [OF assms(2,1)])
  let ?w = "l_widgets (this_layout d) ! i"
  have "sized ?w" using widgets_sized [OF ok] assms(4) by simp
  then obtain w' where w': "moved (x - dx) (y - dy) ?w = Some w'" "w_w w' = w_w ?w" "w_h w' = w_h ?w"
      "4 - sint (w_w ?w) \<le> sint (w_x w')" "sint (w_x w') \<le> 316" "4 - sint (w_h ?w) \<le> sint (w_y w')" "sint (w_y w') \<le> 236"
    using moved_some [of ?w "x - dx" "y - dy"] by blast
  have "pointer_move x y d = Some (map_layout (put_widget i (\<lambda>_. w')) d)"
    using assms(3,4) w'(1) by (simp add: pointer_move_def drag_widget_def)
  moreover have "l_widgets (this_layout (map_layout (put_widget i (\<lambda>_. w')) d)) ! i = w'"
    using assms(4) by (simp add: put_widget_def)
  ultimately show ?thesis using w' by (intro exI [of _ "map_layout (put_widget i (\<lambda>_. w')) d"] exI [of _ w']) simp
qed

lemma dragged_widget_stays_in_reach_witness:
  "\<exists>d' w. pointer_move (- 500) 900 (refresh_hex (pointer_down 120 110 (fst (new_designer demo_layouts)))) = Some d'
    \<and> l_widgets (this_layout d') ! 0 = w \<and> 4 \<le> sint (w_x w) + sint (w_w w) \<and> sint (w_y w) + 4 \<le> 240"
proof -
  let ?d = "fst (new_designer demo_layouts)"
  have "ds_drag (pointer_down 120 110 ?d) = Some (MoveWidget 0 10 10)" by code_simp
  moreover have "0 < length (l_widgets (this_layout (pointer_down 120 110 ?d)))" by code_simp
  moreover have "designer_at (\<lambda>c. False) demo_layouts (refresh_hex (pointer_down 120 110 ?d))"
    by (rule designer_at.step [OF designer_at.start, of "PointerDown 120 110"]) (simp_all add: designer_update_def)
  ultimately show ?thesis
    using dragged_widget_stays_in_reach [OF demo_layouts_drawable, of "\<lambda>c. False" "refresh_hex (pointer_down 120 110 ?d)" 0 10 10 "- 500" 900]
    by (auto simp: this_layout_def)
qed

section \<open>What a drag outlives\<close>

text \<open>
  A drag holds the number of its widget. Deleting the widget, or showing the other screen, does not end
  the drag, and the next move of the pointer moves whichever widget has that number then.
\<close>

lemma drag_outlives_widget:
  "handle_message uni DeleteWidget d = Some (e, d', t) \<Longrightarrow> ds_drag d' = ds_drag d"
  "handle_message uni (SelectScreen s) d = Some (e, d', t) \<Longrightarrow> ds_drag d' = ds_drag d"
  by (auto simp: map_widgets_def split: option.splits if_splits)

text \<open>Layouts that arrive replace what was edited since they were asked for.\<close>

lemma loaded_drops_edits: "\<not> has_unapplied_edits (loaded (Inr (a, b)) d)"
  by (simp add: has_unapplied_edits_def loaded_def Let_def)

end
