(* ===== verification/Cli.thy ===== *)
theory Cli
  imports Ipc Recovery
begin

text \<open>
  The command line tool: \<open>cli/src/main.rs\<close>. What each command asks of the daemon, in which order, what
  it makes of the answers, and how flashing hands the port back. The daemon's answers are a function of
  what it was asked before and of the request; a command ends with an error, the exit status 1, or with
  what it reports. Of the texts that are printed on the way only the tap statistics are modelled.
\<close>

section \<open>The world of a command\<close>

datatype udev_rule = RuleInstalled string | RuleDiffers | RuleMissing

datatype cli_fault = NoDaemon | LinkBroke string | Unexpected ipc_response | DaemonSays reason | Rejected reason
  | ResetNeedsYes | NotInteractive | CannotWriteFile | CannotReadFile | NotABackup | InvalidBackup config_error
  | NoSuchPath path | NoAppImage path | NotAFullSet string | WrongImage path "image_fault option" | FlashFault flash_error
  | NotVerified reason | WentBackTo string | NeverCameBack | Blocked | BadPeriod string | UnknownAnimation string
  | BoardFaulty | Interrupted

datatype cli_notice = StatusShown status_report | NothingShown | SyncSucceeded u64 u64 | RefusedBecause reason
  | Unsuccessful ipc_response | ResetTo u32 | ExportedTo path | Cancelled | ImportedAs u32 | Monitored "log_entry list"
  | FlashSucceeded string u32 bool | SlotConfirmed string | CameBackOn string | FlashEnded | InBootloader string
  | NothingNewer | FirmwareUpdatedTo string string "string option" bool | LatencyShown "latency_stats option" | LatencyIsReset
  | StatsPrinted string | BoardPassed "board_check list" | PlayingAnimation string | PadIsRestarting | EggTriggered
  | SetupShown "(udev_rule \<times> ptrace_access) option"

record cli_env =
  ce_connects :: bool
  ce_reconnects :: "ipc_request list \<Rightarrow> bool"
  ce_answer :: "ipc_request list \<Rightarrow> ipc_request \<Rightarrow> (string, ipc_response) result"
  ce_typed :: "string option"
  ce_parse_backup :: "string \<Rightarrow> json_backup option"
  ce_print_backup :: "json_backup \<Rightarrow> string"
  ce_now :: int
  ce_is_dir :: "string \<Rightarrow> bool"
  ce_temp :: string
  ce_target_port :: "string option"
  ce_boot :: boot_env
  ce_flasher :: flasher
  ce_leaves :: "string \<Rightarrow> (flash_error, unit) result"
  ce_cut :: "(memory \<Rightarrow> memory) option"
  ce_looks :: nat
  ce_app_back :: "string option"
  ce_recovery :: "nat \<Rightarrow> recovery_env"
  ce_polls :: nat
  ce_minute :: "int \<Rightarrow> string"
  ce_linux :: bool
  ce_rules :: "(string \<times> string option) list"
  ce_rule :: string
  ce_ptrace :: ptrace_env

record cli_world =
  cw_sent :: "ipc_request list"
  cw_disk :: disk
  cw_memory :: memory

type_synonym 'a cli = "cli_world \<Rightarrow> (cli_fault, 'a) result \<times> cli_world"

definition cli_bind :: "'a cli \<Rightarrow> ('a \<Rightarrow> 'b cli) \<Rightarrow> 'b cli" where
  "cli_bind m k w = (case m w of (Inl e, w') \<Rightarrow> (Inl e, w') | (Inr a, w') \<Rightarrow> k a w')"

definition ends :: "(cli_fault, 'a) result \<Rightarrow> 'a cli" where "ends r w = (r, w)"

text \<open>\<open>send_request\<close> on a connection, and on the one the command started with, if there is one.\<close>

definition ask :: "cli_env \<Rightarrow> ipc_request \<Rightarrow> ipc_response cli" where
  "ask e req w =
     (case ce_answer e (cw_sent w) req of Inl why \<Rightarrow> Inl (LinkBroke why) | Inr r \<Rightarrow> Inr r,
      w\<lparr>cw_sent := cw_sent w @ [req]\<rparr>)"

definition ask_daemon :: "cli_env \<Rightarrow> bool \<Rightarrow> ipc_request \<Rightarrow> ipc_response cli" where
  "ask_daemon e linked req = (if linked then ask e req else ends (Inl NoDaemon))"

text \<open>Without a terminal to ask on, an error rather than a guess.\<close>

definition says_yes :: "string \<Rightarrow> bool" where
  "says_yes input \<longleftrightarrow> ascii_lowercase (trim input) \<in> {''y'', ''yes''}"

definition confirm_yes :: "cli_env \<Rightarrow> (cli_fault, bool) result" where
  "confirm_yes e = (case ce_typed e of None \<Rightarrow> Inl NotInteractive | Some input \<Rightarrow> Inr (says_yes input))"

section \<open>Commands that ask the daemon\<close>

definition status_command :: "cli_env \<Rightarrow> bool \<Rightarrow> cli_notice cli" where
  "status_command e linked =
     cli_bind (ask_daemon e linked GetStatus) (\<lambda>r. ends (Inr (case r of Status s \<Rightarrow> StatusShown s | _ \<Rightarrow> NothingShown)))"

definition sync_command :: "cli_env \<Rightarrow> bool \<Rightarrow> cli_notice cli" where
  "sync_command e linked =
     cli_bind (ask_daemon e linked ForceSync) (\<lambda>r. ends (Inr (case r of
         SyncCompleted done k \<Rightarrow> if done then SyncSucceeded (lifetime_key1 k) (lifetime_key2 k) else Unsuccessful r
       | OperationRejected why \<Rightarrow> RefusedBecause why
       | _ \<Rightarrow> Unsuccessful r)))"

definition reset_command :: "cli_env \<Rightarrow> bool \<Rightarrow> bool \<Rightarrow> cli_notice cli" where
  "reset_command e linked yes =
     (if \<not> yes then ends (Inl ResetNeedsYes)
      else cli_bind (ask_daemon e linked (ResetCounters yes)) (\<lambda>r. ends (Inr (case r of
         CountersReset k \<Rightarrow> ResetTo (counter_generation k)
       | OperationRejected why \<Rightarrow> RefusedBecause why
       | _ \<Rightarrow> Unsuccessful r))))"

definition export_command :: "cli_env \<Rightarrow> bool \<Rightarrow> path \<Rightarrow> cli_notice cli" where
  "export_command e linked file =
     cli_bind (ask_daemon e linked ExportBackup) (\<lambda>r w. case r of
         BackupExported b \<Rightarrow>
           (case write_plain file (ce_print_backup e b) (cw_disk w) of
              (Inl err, d) \<Rightarrow> (Inl CannotWriteFile, w\<lparr>cw_disk := d\<rparr>)
            | (Inr _, d) \<Rightarrow> (Inr (ExportedTo file), w\<lparr>cw_disk := d\<rparr>))
       | _ \<Rightarrow> (Inl (Unexpected r), w))"

text \<open>The file, the preview, the consent, the import.\<close>

definition read_backup :: "cli_env \<Rightarrow> path \<Rightarrow> json_backup cli" where
  "read_backup e file w =
     (case files (cw_disk w) file of
        None \<Rightarrow> Inl CannotReadFile
      | Some txt \<Rightarrow>
          (case ce_parse_backup e txt of
             None \<Rightarrow> Inl NotABackup
           | Some b \<Rightarrow> (case validate_backup (ce_now e) b of Inl err \<Rightarrow> Inl (InvalidBackup err) | Inr _ \<Rightarrow> Inr b)), w)"

definition do_import :: "cli_env \<Rightarrow> bool \<Rightarrow> json_backup \<Rightarrow> cli_notice cli" where
  "do_import e linked b =
     cli_bind (ask_daemon e linked (ImportBackup b True)) (\<lambda>r. ends (Inr (case r of
         BackupImported done k c \<Rightarrow> if done then ImportedAs (counter_generation k) else Unsuccessful r
       | OperationRejected why \<Rightarrow> RefusedBecause why
       | Failure why \<Rightarrow> RefusedBecause why
       | _ \<Rightarrow> Unsuccessful r)))"

definition import_command :: "cli_env \<Rightarrow> bool \<Rightarrow> path \<Rightarrow> bool \<Rightarrow> cli_notice cli" where
  "import_command e linked file yes =
     cli_bind (read_backup e file) (\<lambda>b.
     cli_bind (ask_daemon e linked (PreviewImport b)) (\<lambda>r.
       case r of
         ImportPreview current incoming matches rollback warnings \<Rightarrow>
           if yes then do_import e linked b
           else cli_bind (ends (confirm_yes e)) (\<lambda>agreed.
             if agreed then do_import e linked b else ends (Inr Cancelled))
       | OperationRejected why \<Rightarrow> ends (Inr (RefusedBecause why))
       | Failure why \<Rightarrow> ends (Inr (RefusedBecause why))
       | _ \<Rightarrow> ends (Inl (Unexpected r))))"

text \<open>Polls of the log, until the user stops it; each continues after the last entry received.\<close>

fun monitor_polls :: "cli_env \<Rightarrow> bool \<Rightarrow> nat \<Rightarrow> log_level option \<Rightarrow> log_source option \<Rightarrow> nat \<Rightarrow> u64 option \<Rightarrow> log_entry list cli" where
  "monitor_polls e linked limit level src 0 since = ends (Inr [])"
| "monitor_polls e linked limit level src (Suc n) since =
     cli_bind (ask_daemon e linked (GetLogEntries since limit level src)) (\<lambda>r.
       let es = (case r of LogEntries es latest \<Rightarrow> es | _ \<Rightarrow> []) in
       cli_bind (monitor_polls e linked limit level src n (next_since_seq since es)) (\<lambda>rest.
         ends (Inr (filter (entry_matches level src) es @ rest))))"

definition monitor_command :: "cli_env \<Rightarrow> bool \<Rightarrow> nat \<Rightarrow> bool \<Rightarrow> log_level option \<Rightarrow> log_source option \<Rightarrow> cli_notice cli" where
  "monitor_command e linked limit follow level src =
     cli_bind (monitor_polls e linked limit level src (if follow then ce_polls e else 1) None)
       (\<lambda>es. ends (Inr (Monitored es)))"

definition firmware_command :: "cli_env \<Rightarrow> bool \<Rightarrow> bool \<Rightarrow> cli_notice cli" where
  "firmware_command e linked yes =
     cli_bind (ask_daemon e linked GetFirmwareUpdate) (\<lambda>r. case r of
         FirmwareUpdateOffer offer \<Rightarrow>
           if offer_available offer = None then ends (Inr NothingNewer)
           else if offer_blockers offer \<noteq> [] then ends (Inl Blocked)
           else cli_bind (ends (if yes then Inr True else confirm_yes e)) (\<lambda>agreed.
             if \<not> agreed then ends (Inr Cancelled)
             else cli_bind (ask_daemon e linked (InstallFirmwareUpdate True)) (\<lambda>r. ends (case r of
                 FirmwareUpdateFinished old new seen slot protocol compatible \<Rightarrow> Inr (FirmwareUpdatedTo old new slot compatible)
               | OperationRejected why \<Rightarrow> Inl (Rejected why)
               | Failure why \<Rightarrow> Inl (DaemonSays why)
               | _ \<Rightarrow> Inl (Unexpected r))))
       | Failure why \<Rightarrow> ends (Inl (DaemonSays why))
       | _ \<Rightarrow> ends (Inl (Unexpected r)))"

definition latency_command :: "cli_env \<Rightarrow> bool \<Rightarrow> bool \<Rightarrow> cli_notice cli" where
  "latency_command e linked reset =
     (if reset
      then cli_bind (ask_daemon e linked ResetLatencyStats) (\<lambda>r.
        ends (case r of Failure why \<Rightarrow> Inl (DaemonSays why) | _ \<Rightarrow> Inr LatencyIsReset))
      else cli_bind (ask_daemon e linked GetStatus) (\<lambda>r.
        ends (case r of Status s \<Rightarrow> Inr (LatencyShown (sr_latency s)) | _ \<Rightarrow> Inl (Unexpected r))))"

definition animation_by_name :: "string \<Rightarrow> u32 option" where
  "animation_by_name name =
     (let other = ascii_lowercase name in
      if other = ''none'' then Some ANIM_NONE
      else case find (\<lambda>(i, n). eq_ignore_ascii_case n other) BUILTINS of
             Some (i, n) \<Rightarrow> Some i
           | None \<Rightarrow> map_option of_nat (parse_uint 32 other))"

definition animation_command :: "cli_env \<Rightarrow> bool \<Rightarrow> string \<Rightarrow> string \<Rightarrow> cli_notice cli" where
  "animation_command e linked name grade =
     (case animation_by_name name of
        None \<Rightarrow> ends (Inl (UnknownAnimation name))
      | Some i \<Rightarrow>
          cli_bind (ask_daemon e linked (PlayAnimationNow i (ascii_uppercase grade))) (\<lambda>r. ends (case r of
              AnimationPlayed \<Rightarrow> Inr (PlayingAnimation (anim_name i))
            | Failure why \<Rightarrow> Inl (DaemonSays why)
            | _ \<Rightarrow> Inl (Unexpected r))))"

definition restart_command :: "cli_env \<Rightarrow> bool \<Rightarrow> cli_notice cli" where
  "restart_command e linked =
     cli_bind (ask_daemon e linked RestartPad) (\<lambda>r. ends (case r of
         PadRestarting \<Rightarrow> Inr PadIsRestarting | Failure why \<Rightarrow> Inl (DaemonSays why) | _ \<Rightarrow> Inl (Unexpected r)))"

definition easter_egg_command :: "cli_env \<Rightarrow> bool \<Rightarrow> cli_notice cli" where
  "easter_egg_command e linked =
     cli_bind (ask_daemon e linked TriggerEasterEgg) (\<lambda>r. ends (case r of
         EasterEggTriggered \<Rightarrow> Inr EggTriggered | Failure why \<Rightarrow> Inl (DaemonSays why) | _ \<Rightarrow> Inl (Unexpected r)))"

text \<open>The board test, with the key pins set and a second test where that is asked for.\<close>

definition ask_board_test :: "cli_env \<Rightarrow> bool \<Rightarrow> board_report cli" where
  "ask_board_test e linked =
     cli_bind (ask_daemon e linked RunBoardTest) (\<lambda>r. ends (case r of
         BoardTest report \<Rightarrow> Inr report | Failure why \<Rightarrow> Inl (DaemonSays why) | _ \<Rightarrow> Inl (Unexpected r)))"

definition needs_pins :: "board_check list \<Rightarrow> bool" where
  "needs_pins checks \<longleftrightarrow> list_ex (\<lambda>c. check_fix c = Some UseCarrierKeyPins) checks"

definition set_carrier_pins :: "cli_env \<Rightarrow> bool \<Rightarrow> unit cli" where
  "set_carrier_pins e linked =
     cli_bind (ask_daemon e linked GetStatus) (\<lambda>r. case r of
         Status s \<Rightarrow>
           cli_bind (ask_daemon e linked (UpdateConfig ((sr_config s)\<lparr>key1_gpio := CARRIER_KEY1_GPIO, key2_gpio := CARRIER_KEY2_GPIO\<rparr>)))
             (\<lambda>r. ends (case r of
                 ConfigUpdated c saved \<Rightarrow> Inr () | Failure why \<Rightarrow> Inl (DaemonSays why) | _ \<Rightarrow> Inl (Unexpected r)))
       | _ \<Rightarrow> ends (Inl (Unexpected r)))"

definition judge_board :: "board_report \<Rightarrow> (cli_fault, cli_notice) result" where
  "judge_board report =
     (let checks = evaluate report in if overall checks = Failed then Inl BoardFaulty else Inr (BoardPassed checks))"

definition board_test_command :: "cli_env \<Rightarrow> bool \<Rightarrow> bool \<Rightarrow> cli_notice cli" where
  "board_test_command e linked fix_pins =
     cli_bind (ask_board_test e linked) (\<lambda>report.
       if fix_pins \<and> needs_pins (evaluate report)
       then cli_bind (set_carrier_pins e linked) (\<lambda>_. cli_bind (ask_board_test e linked) (\<lambda>again. ends (judge_board again)))
       else ends (judge_board report))"

section \<open>Which images are written\<close>

definition path_exists :: "(string \<Rightarrow> bool) \<Rightarrow> files \<Rightarrow> path \<Rightarrow> bool" where
  "path_exists is_dir fs p \<longleftrightarrow> fs p \<noteq> None \<or> is_dir (join_path (fst p) (snd p))"

definition first_existing :: "(string \<Rightarrow> bool) \<Rightarrow> files \<Rightarrow> path list \<Rightarrow> path option" where
  "first_existing is_dir fs candidates = find (path_exists is_dir fs) candidates"

text \<open>The app image, in the directory or as given, and the directory it is in.\<close>

definition app_image_at :: "(string \<Rightarrow> bool) \<Rightarrow> files \<Rightarrow> path \<Rightarrow> string \<times> path" where
  "app_image_at is_dir fs p =
     (let dir = join_path (fst p) (snd p); legacy = (dir, ''osupad-firmware.bin''); bin = (dir, ''opad-firmware.bin'') in
      if is_dir dir
      then (dir, if path_exists is_dir fs bin then bin else if path_exists is_dir fs legacy then legacy else bin)
      else (fst p, p))"

definition resolve_flash_set :: "(string \<Rightarrow> bool) \<Rightarrow> files \<Rightarrow> path \<Rightarrow> bool \<Rightarrow> (cli_fault, (u32 \<times> path) list) result" where
  "resolve_flash_set is_dir fs p full =
     (if \<not> path_exists is_dir fs p then Inl (NoSuchPath p)
      else case app_image_at is_dir fs p of (dir, app) \<Rightarrow>
        if \<not> path_exists is_dir fs app then Inl (NoAppImage app)
        else if \<not> full then Inr [(APP_PARTITION_OFFSET, app)]
        else case (first_existing is_dir fs [(join_path dir ''bootloader'', ''bootloader.bin''), (dir, ''bootloader.bin'')],
                   first_existing is_dir fs [(join_path dir ''partition_table'', ''partition-table.bin''), (dir, ''partition-table.bin'')]) of
               (Some bootloader, Some table) \<Rightarrow>
                 Inr ([(0, bootloader), (0x8000, table)]
                   @ (case first_existing is_dir fs [(dir, ''ota_data_initial.bin'')] of Some ota \<Rightarrow> [(0xf000, ota)] | None \<Rightarrow> [])
                   @ [(APP_PARTITION_OFFSET, app)])
             | _ \<Rightarrow> Inl (NotAFullSet dir))"

section \<open>Flashing\<close>

definition running_slot :: "cli_env \<Rightarrow> bool \<Rightarrow> cli_world \<Rightarrow> string option \<times> cli_world" where
  "running_slot e linked w =
     (if \<not> linked then (None, w)
      else case ask e GetStatus w of (r, w) \<Rightarrow>
        ((case r of
            Inr (Status s) \<Rightarrow>
              (if sr_device_connected s
               then (case sr_device_info s of Some info \<Rightarrow> running_partition info | None \<Rightarrow> None) else None)
          | _ \<Rightarrow> None), w))"

definition or_port :: "string option \<Rightarrow> string option \<Rightarrow> string option" where
  "or_port a b = (case a of Some p \<Rightarrow> Some p | None \<Rightarrow> b)"

definition ask_for_port :: "cli_env \<Rightarrow> bool \<Rightarrow> string option \<Rightarrow> string option cli" where
  "ask_for_port e linked explicit =
     (if \<not> linked then ends (Inr (or_port explicit (ce_target_port e)))
      else cli_bind (ask e PrepareFlash) (\<lambda>r. ends (case r of
          ReadyForFlash port \<Rightarrow> Inr (or_port explicit (or_port port (ce_target_port e)))
        | OperationRejected why \<Rightarrow> Inl (Rejected why)
        | _ \<Rightarrow> Inl (Unexpected r))))"

text \<open>The port goes back to the daemon, with the verification or without it.\<close>

definition ask_to_finish :: "cli_env \<Rightarrow> bool \<Rightarrow> cli_world \<Rightarrow> ipc_response option \<times> cli_world" where
  "ask_to_finish e linked w =
     (if \<not> linked then (None, w)
      else case ask e FinishFlash w of (r, w) \<Rightarrow> (case r of Inr r \<Rightarrow> Some r | Inl f \<Rightarrow> None, w))"

definition resume_with_finish_flash :: "cli_env \<Rightarrow> cli_world \<Rightarrow> cli_world" where
  "resume_with_finish_flash e w = (if ce_reconnects e (cw_sent w) then snd (ask e FinishFlash w) else w)"

definition resume_device :: "cli_env \<Rightarrow> bool \<Rightarrow> cli_world \<Rightarrow> cli_world" where
  "resume_device e linked w =
     (if \<not> linked then w
      else case ask e ResumeDevice w of (r, w) \<Rightarrow> (case r of Inr _ \<Rightarrow> w | Inl f \<Rightarrow> resume_with_finish_flash e w))"

text \<open>Ctrl-C while the daemon has the pad paused for this command.\<close>

definition interrupted_while_paused :: "cli_env \<Rightarrow> bool \<Rightarrow> cli_world \<Rightarrow> cli_world" where
  "interrupted_while_paused e linked w =
     (if linked \<and> ce_reconnects e (cw_sent w) then resume_device e True w else w)"

text \<open>Looks at the slot, once a second, until one is reported or \<open>ROLLBACK_WAIT\<close> is over after \<open>n\<close> looks.\<close>

definition ROLLBACK_WAIT :: duration where "ROLLBACK_WAIT = from_secs 45"

fun wait_for_slot :: "cli_env \<Rightarrow> bool \<Rightarrow> string \<Rightarrow> nat \<Rightarrow> cli_notice cli" where
  "wait_for_slot e linked slot 0 w = (Inl NeverCameBack, w)"
| "wait_for_slot e linked slot (Suc n) w =
     (case running_slot e linked w of
        (Some s, w) \<Rightarrow> (if s = slot then Inr (SlotConfirmed slot) else Inl (WentBackTo s), w)
      | (None, w) \<Rightarrow> wait_for_slot e linked slot n w)"

definition report_slot_after_flash :: "cli_env \<Rightarrow> bool \<Rightarrow> string \<Rightarrow> ipc_response option \<Rightarrow> cli_notice cli" where
  "report_slot_after_flash e linked slot fin w =
     (case fin of
        Some (FlashFinished ver protocol compatible) \<Rightarrow>
          (case running_slot e linked w of (s, w) \<Rightarrow>
             if s = Some slot then (Inr (SlotConfirmed slot), w) else wait_for_slot e linked slot (ce_looks e) w)
      | _ \<Rightarrow> wait_for_slot e linked slot (ce_looks e) w)"

definition judge_finish :: "cli_env \<Rightarrow> ipc_response option \<Rightarrow> (cli_fault, cli_notice) result" where
  "judge_finish e fin =
     (case fin of
        Some (FlashFinished ver protocol compatible) \<Rightarrow> Inr (FlashSucceeded ver protocol compatible)
      | Some (Failure why) \<Rightarrow> Inl (NotVerified why)
      | None \<Rightarrow> (case ce_app_back e of Some p \<Rightarrow> Inr (CameBackOn p) | None \<Rightarrow> Inl NeverCameBack)
      | Some _ \<Rightarrow> Inr FlashEnded)"

text \<open>Where the images go: the full set, or the app into the slot that is not running.\<close>

definition plan_flash :: "cli_env \<Rightarrow> bool \<Rightarrow> (u32 \<times> path) list \<Rightarrow> bool \<Rightarrow> app_update_plan cli" where
  "plan_flash e linked ps full w =
     (if full then (Inr \<lparr>images = ps, target_slot = None\<rparr>, w)
      else case running_slot e linked w of (running, w) \<Rightarrow>
        (case plan_app_update (snd (last ps)) running (ce_temp e) (cw_disk w) of
           (Inl err, d) \<Rightarrow> (Inl (FlashFault err), w\<lparr>cw_disk := d\<rparr>)
         | (Inr plan, d) \<Rightarrow> (Inr plan, w\<lparr>cw_disk := d\<rparr>)))"

definition checked_images :: "cli_env \<Rightarrow> path \<Rightarrow> bool \<Rightarrow> (u32 \<times> path) list cli" where
  "checked_images e firmware full w =
     (case resolve_flash_set (ce_is_dir e) (files (cw_disk w)) firmware full of
        Inl err \<Rightarrow> Inl err
      | Inr ps \<Rightarrow>
          (case check_esp32s3_image_file (files (cw_disk w)) (snd (last ps)) of
             Inl why \<Rightarrow> Inl (WrongImage (snd (last ps)) why) | Inr _ \<Rightarrow> Inr ps), w)"

definition write_and_finish :: "cli_env \<Rightarrow> bool \<Rightarrow> app_update_plan \<Rightarrow> string option \<Rightarrow> cli_notice cli" where
  "write_and_finish e linked plan app_port w =
     (case ce_cut e of
        Some damage \<Rightarrow> (Inl Interrupted, interrupted_while_paused e linked (w\<lparr>cw_memory := damage (cw_memory w)\<rparr>))
      | None \<Rightarrow>
          (case run_flash (ce_flasher e) (enter_bootloader (ce_boot e) app_port None) (ce_leaves e) (files (cw_disk w))
              (images plan) (cw_memory w) of
             (Inl err, m) \<Rightarrow> (Inl (FlashFault err), resume_device e linked (w\<lparr>cw_memory := m\<rparr>))
           | (Inr _, m) \<Rightarrow>
               (case ask_to_finish e linked (w\<lparr>cw_memory := m\<rparr>) of (fin, w) \<Rightarrow>
                  (case target_slot plan of
                     Some slot \<Rightarrow> report_slot_after_flash e linked slot fin w
                   | None \<Rightarrow> (judge_finish e fin, w)))))"

definition flash_command :: "cli_env \<Rightarrow> bool \<Rightarrow> path \<Rightarrow> string option \<Rightarrow> bool \<Rightarrow> cli_notice cli" where
  "flash_command e linked firmware port full =
     cli_bind (checked_images e firmware full) (\<lambda>ps.
     cli_bind (plan_flash e linked ps full) (\<lambda>plan.
     cli_bind (ask_for_port e linked port) (write_and_finish e linked plan)))"

definition bootloader_command :: "cli_env \<Rightarrow> bool \<Rightarrow> string option \<Rightarrow> cli_notice cli" where
  "bootloader_command e linked port =
     cli_bind (ask_for_port e linked port) (\<lambda>app_port w.
       if ce_cut e \<noteq> None then (Inl Interrupted, interrupted_while_paused e linked w)
       else (case enter_bootloader (ce_boot e) app_port None of Inl err \<Rightarrow> Inl (FlashFault err) | Inr p \<Rightarrow> Inr (InBootloader p),
             resume_device e linked w))"

definition recover_command :: "cli_env \<Rightarrow> path \<Rightarrow> nat \<Rightarrow> cli_notice cli" where
  "recover_command e firmware timeout =
     cli_bind (checked_images e firmware True) (\<lambda>ps w.
       case recover (ce_recovery e timeout) (ce_flasher e) (files (cw_disk w)) ps (cw_memory w) of
         (Inl err, m) \<Rightarrow> (Inl (FlashFault err), w\<lparr>cw_memory := m\<rparr>)
       | (Inr _, m) \<Rightarrow>
           (case ce_app_back e of Some p \<Rightarrow> Inr (CameBackOn p) | None \<Rightarrow> Inl NeverCameBack, w\<lparr>cw_memory := m\<rparr>))"

section \<open>Tap statistics as text\<close>

text \<open>\<open>{:.0}\<close>: to the nearest integer, a tie to the even one.\<close>

definition round_half_even :: "rat \<Rightarrow> int" where
  "round_half_even v =
     (let n = \<lfloor>v\<rfloor>; rest = v - of_int n in
      if rest < 1 / 2 then n else if 1 / 2 < rest then n + 1 else if even n then n else n + 1)"

definition fmt_ppm :: "rat option \<Rightarrow> string" where
  "fmt_ppm p =
     (case p of
        None \<Rightarrow> ''-''
      | Some v \<Rightarrow> (if v < 0 then ''-'' else []) @ dec_digits (nat (round_half_even \<bar>v\<bar>)))"

text \<open>\<open>{:<n}\<close> and \<open>{:>n}\<close>, of texts in ASCII.\<close>

definition pad_right :: "nat \<Rightarrow> string \<Rightarrow> string" where "pad_right n s = s @ replicate (n - length s) (CHR '' '')"
definition pad_left :: "nat \<Rightarrow> string \<Rightarrow> string" where "pad_left n s = replicate (n - length s) (CHR '' '') @ s"

definition text_line :: "string \<Rightarrow> string" where "text_line s = s @ newline"

definition tap_channels :: "tap_channel list" where "tap_channels = [K1, K2, Combined]"

fun tap_channel_label :: "tap_channel \<Rightarrow> string" where
  "tap_channel_label K1 = ''K1''"
| "tap_channel_label K2 = ''K2''"
| "tap_channel_label Combined = ''Combined''"

definition map_line :: "beatmap_ref \<Rightarrow> string" where
  "map_line m =
     (if bm_title m = [] then []
      else text_line (''Map:      ''
        @ (if bm_artist m = [] then bm_title m else bm_artist m @ '' - '' @ bm_title m)
        @ (if bm_difficulty m = [] then [] else '' ['' @ bm_difficulty m @ '']'')
        @ (case bm_mods m of Some mods \<Rightarrow> if mods = [] then [] else '' +'' @ mods | None \<Rightarrow> [])))"

definition format_attempt :: "(int \<Rightarrow> string) \<Rightarrow> bool \<Rightarrow> attempt_stats \<Rightarrow> string" where
  "format_attempt minute live a =
     text_line (''=== '' @ (if live then ''Current attempt, live'' else ''Last attempt'') @ '' (KPM) ==='')
     @ map_line (beatmap a)
     @ (case ended_at a of Some t \<Rightarrow> text_line (''Ended:    '' @ minute t) | None \<Rightarrow> [])
     @ (if st_replay a then text_line ''Replay:   shown only, not saved to the history'' else [])
     @ text_line (''AVG:      '' @ fmt_ppm (song_ppm (st_song a)) @ '' KPM (every press over the song time, breaks included)'')
     @ text_line (''PEAK:     '' @ fmt_ppm (peak_ppm (st_combined a)) @ '' KPM (fastest 7 presses in a row); best 10 s: ''
         @ fmt_ppm (song_peak (st_song a)) @ '' KPM'')
     @ text_line (pad_right 10 [] @ pad_left 9 ''Current'' @ pad_left 9 ''Tap avg'' @ pad_left 9 ''Peak'' @ pad_left 10 ''Presses'')
     @ concat (map (\<lambda>ch. let c = stats_channel a ch in
         text_line (pad_right 10 (tap_channel_label ch) @ pad_left 9 (fmt_ppm (current_ppm c)) @ pad_left 9 (fmt_ppm (average_ppm c))
           @ pad_left 9 (fmt_ppm (peak_ppm c)) @ pad_left 10 (dec_digits (unat (presses_count c))))) tap_channels)"

definition format_history :: "tap_history option \<Rightarrow> string" where
  "format_history hist =
     (case hist of
        None \<Rightarrow> text_line ''History not available (storage not ready).''
      | Some h \<Rightarrow>
          if h_attempts h = 0 then text_line ''No attempts in this period yet.''
          else text_line (''Attempts: '' @ dec_digits (unat (h_attempts h)))
            @ text_line (''AVG:      '' @ fmt_ppm (h_song_ppm h) @ '' KPM'')
            @ text_line (''PEAK:     '' @ fmt_ppm (h_best_peak_ppm (h_combined h)) @ '' KPM; best 10 s: ''
                @ fmt_ppm (h_best_song_peak_ppm h) @ '' KPM'')
            @ text_line (pad_right 10 [] @ pad_left 9 ''Tap avg'' @ pad_left 10 ''Avg peak'' @ pad_left 11 ''Best peak'' @ pad_left 10 ''Presses'')
            @ concat (map (\<lambda>ch. let c = history_channel h ch in
                text_line (pad_right 10 (tap_channel_label ch) @ pad_left 9 (fmt_ppm (h_average_ppm c))
                  @ pad_left 10 (fmt_ppm (h_average_peak_ppm c)) @ pad_left 11 (fmt_ppm (h_best_peak_ppm c))
                  @ pad_left 10 (dec_digits (unat (h_total_presses c))))) tap_channels))"

definition format_tap_stats :: "(int \<Rightarrow> string) \<Rightarrow> tap_snapshot \<Rightarrow> string" where
  "format_tap_stats minute s =
     (case (ts_current s, ts_last s) of
        (Some a, _) \<Rightarrow> format_attempt minute True a
      | (None, Some a) \<Rightarrow> format_attempt minute False a
      | (None, None) \<Rightarrow> text_line ''=== Attempt (KPM) ==='' @ text_line ''No attempt yet: play a map with tosu running.'')
     @ text_line (newline @ ''=== History: '' @ history_period_label (ts_period_days s) @ '' ==='')
     @ format_history (ts_history s)
     @ (if 0 < ts_unsaved_attempts s
        then text_line (dec_digits (ts_unsaved_attempts s) @ '' attempt(s) will be saved when play stops.'') else [])"

definition stats_command :: "cli_env \<Rightarrow> bool \<Rightarrow> u32 option \<Rightarrow> cli_notice cli" where
  "stats_command e linked period =
     cli_bind (ends (case period of
         None \<Rightarrow> Inr GetTapStats
       | Some days \<Rightarrow> (case validate_history_days days of Inl why \<Rightarrow> Inl (BadPeriod why) | Inr _ \<Rightarrow> Inr (SetTapHistoryPeriod days))))
       (\<lambda>req. cli_bind (ask_daemon e linked req) (\<lambda>r. ends (case r of
           TapStats s \<Rightarrow> Inr (StatsPrinted (format_tap_stats (ce_minute e) s))
         | Failure why \<Rightarrow> Inl (DaemonSays why)
         | _ \<Rightarrow> Inl (Unexpected r))))"

section \<open>Setup\<close>

fun udev_rule_state_from :: "bool \<Rightarrow> (string \<times> string option) list \<Rightarrow> string \<Rightarrow> udev_rule" where
  "udev_rule_state_from found [] embedded = (if found then RuleDiffers else RuleMissing)"
| "udev_rule_state_from found ((p, None) # ps) embedded = udev_rule_state_from found ps embedded"
| "udev_rule_state_from found ((p, Some current) # ps) embedded =
     (if trim_end current = trim_end embedded then RuleInstalled p else udev_rule_state_from True ps embedded)"

definition udev_rule_state :: "(string \<times> string option) list \<Rightarrow> string \<Rightarrow> udev_rule" where
  "udev_rule_state installed embedded = udev_rule_state_from False installed embedded"

definition run_setup :: "cli_env \<Rightarrow> (udev_rule \<times> ptrace_access) option" where
  "run_setup e = (if \<not> ce_linux e then None else Some (udev_rule_state (ce_rules e) (ce_rule e), ptrace_access (ce_ptrace e)))"

section \<open>The tool\<close>

datatype cli_command = CmdStatus | CmdSync | CmdReset bool | CmdExport path | CmdImport path bool
  | CmdMonitor nat bool "log_level option" "log_source option" | CmdFlash path "string option" bool | CmdRecover path nat
  | CmdBootloader "string option" | CmdFirmwareUpdate bool | CmdLatency bool | CmdStats "u32 option" | CmdBoardTest bool
  | CmdAnimation string string | CmdRestart | CmdSetup | CmdEasterEgg

text \<open>Flashing has to work on a machine where the daemon does not start; nothing else does without it.\<close>

fun is_flashing :: "cli_command \<Rightarrow> bool" where
  "is_flashing (CmdFlash p port full) = True"
| "is_flashing (CmdRecover p timeout) = True"
| "is_flashing (CmdBootloader port) = True"
| "is_flashing c = False"

fun run_cli_command :: "cli_env \<Rightarrow> bool \<Rightarrow> cli_command \<Rightarrow> cli_notice cli" where
  "run_cli_command e linked CmdStatus = status_command e linked"
| "run_cli_command e linked CmdSync = sync_command e linked"
| "run_cli_command e linked (CmdReset yes) = reset_command e linked yes"
| "run_cli_command e linked (CmdExport file) = export_command e linked file"
| "run_cli_command e linked (CmdImport file yes) = import_command e linked file yes"
| "run_cli_command e linked (CmdMonitor limit follow level src) = monitor_command e linked limit follow level src"
| "run_cli_command e linked (CmdFlash firmware port full) = flash_command e linked firmware port full"
| "run_cli_command e linked (CmdRecover firmware timeout) = recover_command e firmware timeout"
| "run_cli_command e linked (CmdBootloader port) = bootloader_command e linked port"
| "run_cli_command e linked (CmdFirmwareUpdate yes) = firmware_command e linked yes"
| "run_cli_command e linked (CmdLatency reset) = latency_command e linked reset"
| "run_cli_command e linked (CmdStats period) = stats_command e linked period"
| "run_cli_command e linked (CmdBoardTest fix_pins) = board_test_command e linked fix_pins"
| "run_cli_command e linked (CmdAnimation name grade) = animation_command e linked name grade"
| "run_cli_command e linked CmdRestart = restart_command e linked"
| "run_cli_command e linked CmdSetup = ends (Inr (SetupShown (run_setup e)))"
| "run_cli_command e linked CmdEasterEgg = easter_egg_command e linked"

definition cli_main :: "cli_env \<Rightarrow> cli_command \<Rightarrow> cli_notice cli" where
  "cli_main e cmd =
     (if cmd = CmdSetup then run_cli_command e False cmd
      else if \<not> ce_connects e \<and> \<not> is_flashing cmd then ends (Inl NoDaemon)
      else run_cli_command e (ce_connects e) cmd)"

end
