(* ===== verification/Cli_Safety.thy ===== *)
theory Cli_Safety
  imports Cli Ipc_Safety
begin

text \<open>
  What holds of the command line tool: nothing is destroyed without consent, the pad is handed back to
  the daemon however flashing ends, also against the daemon's own model, and a new firmware is only
  reported as running when the pad said so.
\<close>

section \<open>Who has the port\<close>

text \<open>Whether the daemon has the pad paused for this command, from what was asked, the latest first.\<close>

fun held_by_latest :: "cli_env \<Rightarrow> ipc_request list \<Rightarrow> bool" where
  "held_by_latest e [] = False"
| "held_by_latest e (r # h) =
     holds_flash_pause (held_by_latest e h) (flash_step_of r)
       (case ce_answer e (rev h) r of Inr resp \<Rightarrow> resp | Inl why \<Rightarrow> Failure (Because why))"

definition held :: "cli_env \<Rightarrow> ipc_request list \<Rightarrow> bool" where "held e h = held_by_latest e (rev h)"

lemma held_Nil [simp]: "\<not> held e []"
  by (simp add: held_def)

lemma held_snoc: "held e (h @ [r]) =
    holds_flash_pause (held e h) (flash_step_of r) (case ce_answer e h r of Inr resp \<Rightarrow> resp | Inl why \<Rightarrow> Failure (Because why))"
  by (simp add: held_def)

lemma held_other: "flash_step_of r = OtherStep \<Longrightarrow> held e (h @ [r]) = held e h"
  by (simp add: held_snoc holds_flash_pause_def)

lemma held_released [simp]: "\<not> held e (h @ [FinishFlash])" "\<not> held e (h @ [ResumeDevice])"
  by (simp_all add: held_snoc holds_flash_pause_def flash_step_of_def)

text \<open>A command that ends without the port when it starts without it; the rules follow its steps.\<close>

definition unheld :: "cli_env \<Rightarrow> 'a cli \<Rightarrow> bool" where
  "unheld e m \<longleftrightarrow> (\<forall>w. \<not> held e (cw_sent w) \<longrightarrow> \<not> held e (cw_sent (snd (m w))))"

definition harmless :: "(ipc_request \<Rightarrow> bool) \<Rightarrow> 'a cli \<Rightarrow> bool" where
  "harmless bad m \<longleftrightarrow> (\<forall>w r. r \<in> set (cw_sent (snd (m w))) \<longrightarrow> bad r \<longrightarrow> r \<in> set (cw_sent w))"

named_theorems step_rules \<open>what the steps of a command do to what was sent\<close>

lemma ask_sent [simp]: "cw_sent (snd (ask e req w)) = cw_sent w @ [req]"
  by (simp add: ask_def)

lemma cli_bind_sent:
  "cw_sent (snd (cli_bind m k w)) = (case m w of (Inl err, w') \<Rightarrow> cw_sent w' | (Inr a, w') \<Rightarrow> cw_sent (snd (k a w')))"
  by (simp add: cli_bind_def split: prod.split sum.split)

lemma unheld_bind [step_rules]:
  assumes "unheld e m" and "\<And>a. unheld e (k a)"
  shows "unheld e (cli_bind m k)"
  unfolding unheld_def
proof (intro allI impI)
  fix w :: cli_world
  assume "\<not> held e (cw_sent w)"
  then have "\<not> held e (cw_sent (snd (m w)))" using assms(1) by (simp add: unheld_def)
  then show "\<not> held e (cw_sent (snd (cli_bind m k w)))"
    using assms(2) by (cases "m w") (auto simp: cli_bind_sent unheld_def split: sum.split)
qed

lemma harmless_bind [step_rules]:
  assumes "harmless bad m" and "\<And>a. harmless bad (k a)"
  shows "harmless bad (cli_bind m k)"
  unfolding harmless_def
proof (intro allI impI)
  fix w :: cli_world and r
  assume r: "r \<in> set (cw_sent (snd (cli_bind m k w)))" "bad r"
  have "r \<in> set (cw_sent (snd (m w)))"
    using r assms(2) by (cases "m w") (auto simp: cli_bind_sent harmless_def split: sum.splits)
  then show "r \<in> set (cw_sent w)" using assms(1) r(2) by (simp add: harmless_def)
qed

lemma ends_rules [step_rules]: "unheld e (ends r)" "harmless bad (ends r)"
  by (simp_all add: unheld_def harmless_def ends_def)

lemma unheld_ask: "flash_step_of req \<noteq> PrepareStep \<Longrightarrow> unheld e (ask e req)"
  by (cases "flash_step_of req") (auto simp: unheld_def held_snoc holds_flash_pause_def)

lemma harmless_ask: "\<not> bad req \<Longrightarrow> harmless bad (ask e req)"
  by (auto simp: harmless_def)

lemma unheld_ask_daemon [step_rules]: "flash_step_of req \<noteq> PrepareStep \<Longrightarrow> unheld e (ask_daemon e linked req)"
  by (simp add: ask_daemon_def unheld_ask ends_rules)

lemma harmless_ask_daemon [step_rules]: "\<not> bad req \<Longrightarrow> harmless bad (ask_daemon e linked req)"
  by (simp add: ask_daemon_def harmless_ask ends_rules)

lemma quiet_step: "(\<And>w. cw_sent (snd (m w)) = cw_sent w) \<Longrightarrow> unheld e m \<and> harmless bad m"
  by (simp add: unheld_def harmless_def)

lemma read_backup_sent [simp]: "cw_sent (snd (read_backup e file w)) = cw_sent w"
  by (simp add: read_backup_def)

lemma read_backup_rules [step_rules]: "unheld e (read_backup e file)" "harmless bad (read_backup e file)"
  using quiet_step [of "read_backup e file"] by simp_all

lemma checked_images_sent [simp]: "cw_sent (snd (checked_images e p full w)) = cw_sent w"
  by (simp add: checked_images_def)

lemma checked_images_rules [step_rules]: "unheld e (checked_images e p full)" "harmless bad (checked_images e p full)"
  using quiet_step [of "checked_images e p full"] by simp_all

section \<open>Every command but flashing\<close>

lemma monitor_polls_rules [step_rules]:
  "unheld e (monitor_polls e linked limit level src n since)"
  "(\<And>s. \<not> bad (GetLogEntries s limit level src)) \<Longrightarrow> harmless bad (monitor_polls e linked limit level src n since)"
  by (induction n arbitrary: since) (auto simp: Let_def flash_step_of_def intro!: step_rules)

lemma ask_board_test_rules [step_rules]:
  "unheld e (ask_board_test e linked)" "\<not> bad RunBoardTest \<Longrightarrow> harmless bad (ask_board_test e linked)"
  unfolding ask_board_test_def by (auto simp: flash_step_of_def intro!: step_rules)

lemma set_carrier_pins_rules [step_rules]:
  "unheld e (set_carrier_pins e linked)"
  "\<not> bad GetStatus \<Longrightarrow> (\<And>c. \<not> bad (UpdateConfig c)) \<Longrightarrow> harmless bad (set_carrier_pins e linked)"
  unfolding set_carrier_pins_def by (auto simp: flash_step_of_def intro!: step_rules split: ipc_response.split)

lemma do_import_unheld [step_rules]: "unheld e (do_import e linked b)"
  unfolding do_import_def by (auto simp: flash_step_of_def intro!: step_rules)

lemmas command_defs = status_command_def sync_command_def reset_command_def export_command_def import_command_def
  monitor_command_def firmware_command_def latency_command_def stats_command_def board_test_command_def
  animation_command_def restart_command_def easter_egg_command_def recover_command_def

lemma write_file_rules [step_rules]:
  "unheld e (\<lambda>w. case r of
         BackupExported b \<Rightarrow>
           (case write_plain file (ce_print_backup e b) (cw_disk w) of
              (Inl err, d) \<Rightarrow> (Inl CannotWriteFile, w\<lparr>cw_disk := d\<rparr>)
            | (Inr _, d) \<Rightarrow> (Inr (ExportedTo file), w\<lparr>cw_disk := d\<rparr>))
       | _ \<Rightarrow> (Inl (Unexpected r), w))"
  "harmless bad (\<lambda>w. case r of
         BackupExported b \<Rightarrow>
           (case write_plain file (ce_print_backup e b) (cw_disk w) of
              (Inl err, d) \<Rightarrow> (Inl CannotWriteFile, w\<lparr>cw_disk := d\<rparr>)
            | (Inr _, d) \<Rightarrow> (Inr (ExportedTo file), w\<lparr>cw_disk := d\<rparr>))
       | _ \<Rightarrow> (Inl (Unexpected r), w))"
  by (auto simp: unheld_def harmless_def split: ipc_response.split prod.splits sum.splits)

lemma recover_sent: "cw_sent (snd (recover_command e firmware timeout w)) = cw_sent w"
proof (cases "checked_images e firmware True w")
  case (Pair r w')
  then have "cw_sent w' = cw_sent w" using checked_images_sent [of e firmware True w] by simp
  then show ?thesis
    using Pair by (simp add: recover_command_def cli_bind_def split: sum.split prod.split)
qed

lemma cli_bind_ends [simp]: "cli_bind (ends (Inr a)) k = k a" "cli_bind (ends (Inl err)) k = ends (Inl err)"
  by (simp_all add: fun_eq_iff cli_bind_def ends_def)

lemma stats_command_rules:
  "unheld e (stats_command e linked period)"
  "\<not> bad GetTapStats \<Longrightarrow> (\<And>days. \<not> bad (SetTapHistoryPeriod days)) \<Longrightarrow> harmless bad (stats_command e linked period)"
  unfolding stats_command_def
  by (cases period; auto simp: flash_step_of_def intro!: step_rules split: sum.split)+

lemma plain_command_unheld:
  assumes "\<not> is_flashing cmd"
  shows "unheld e (run_cli_command e linked cmd)"
proof (cases cmd)
  case (CmdStats period)
  then show ?thesis by (simp add: stats_command_rules)
qed (use assms in \<open>auto simp: command_defs flash_step_of_def Let_def intro!: step_rules split: ipc_response.split option.split\<close>)

section \<open>Flashing\<close>

lemma running_slot_sent [simp]: "cw_sent (snd (running_slot e linked w)) = cw_sent w @ (if linked then [GetStatus] else [])"
  by (simp add: running_slot_def split_beta)

lemma held_status [simp]: "held e (h @ [GetStatus]) = held e h"
  by (simp add: held_other flash_step_of_def)

lemma running_slot_held [simp]: "held e (cw_sent (snd (running_slot e linked w))) = held e (cw_sent w)"
  by simp

lemma wait_for_slot_held [simp]: "held e (cw_sent (snd (wait_for_slot e linked slot n w))) = held e (cw_sent w)"
proof (induction n arbitrary: w)
  case (Suc n)
  obtain found w' where look: "running_slot e linked w = (found, w')" by (metis surj_pair)
  then have "held e (cw_sent w') = held e (cw_sent w)" using running_slot_held [of e linked w] by (simp only: snd_conv)
  then show ?case using Suc look by (cases found) simp_all
qed simp

lemma report_slot_held [simp]:
  "held e (cw_sent (snd (report_slot_after_flash e linked slot fin w))) = held e (cw_sent w)"
proof -
  obtain found w' where look: "running_slot e linked w = (found, w')" by (metis surj_pair)
  then have "held e (cw_sent w') = held e (cw_sent w)" using running_slot_held [of e linked w] by (simp only: snd_conv)
  then show ?thesis
    by (auto simp: report_slot_after_flash_def look split: option.split ipc_response.split)
qed

lemma plan_flash_rules [step_rules]: "unheld e (plan_flash e linked ps full)"
  unfolding unheld_def
proof (intro allI impI)
  fix w :: cli_world
  assume un: "\<not> held e (cw_sent w)"
  obtain found w' where look: "running_slot e linked w = (found, w')" by (metis surj_pair)
  then have "held e (cw_sent w') = held e (cw_sent w)" using running_slot_held [of e linked w] by (simp only: snd_conv)
  then show "\<not> held e (cw_sent (snd (plan_flash e linked ps full w)))"
    using un by (simp add: plan_flash_def look split: prod.split sum.split)
qed

lemma ask_to_finish_held: "linked \<Longrightarrow> \<not> held e (cw_sent (snd (ask_to_finish e linked w)))"
  by (simp add: ask_to_finish_def split_beta)

text \<open>Giving the pad back needs one answer: to \<open>ResumeDevice\<close>, or to a new connection.\<close>

lemma resume_device_held: "linked \<Longrightarrow> \<not> held e (cw_sent (resume_device e linked w))"
  using held_released(1) [of e "cw_sent w @ [ResumeDevice]"]
  by (auto simp: resume_device_def resume_with_finish_flash_def split_beta split: sum.split)

lemma write_and_finish_held:
  assumes "linked" and "\<forall>h. ce_reconnects e h"
  shows "\<not> held e (cw_sent (snd (write_and_finish e linked plan port w)))"
proof (cases "ce_cut e")
  case (Some damage)
  then show ?thesis using assms by (simp add: write_and_finish_def interrupted_while_paused_def resume_device_held)
next
  case None
  have "\<not> held e (cw_sent w')" if "ask_to_finish e linked v = (fin, w')" for v fin w'
    using ask_to_finish_held [OF assms(1), of e v] that by simp
  then show ?thesis
    using None assms(1) by (auto simp: write_and_finish_def resume_device_held split: sum.split prod.split option.split)
qed

text \<open>The port is taken last, and only a daemon that says so has paused the pad.\<close>

lemma ask_for_port_unheld: "\<not> linked \<Longrightarrow> unheld e (ask_for_port e linked port)"
  by (simp add: ask_for_port_def ends_rules)

lemma ask_for_port_refused:
  "linked \<Longrightarrow> \<not> held e (cw_sent w) \<Longrightarrow> fst (ask_for_port e linked port w) = Inl err
    \<Longrightarrow> \<not> held e (cw_sent (snd (ask_for_port e linked port w)))"
  by (auto simp: ask_for_port_def cli_bind_def ask_def ends_def held_snoc holds_flash_pause_def flash_step_of_def
      split: sum.splits ipc_response.splits)

lemma after_port_unheld:
  assumes "\<And>p w. linked \<Longrightarrow> \<not> held e (cw_sent (snd (k p w)))" and "\<And>p. \<not> linked \<Longrightarrow> unheld e (k p)"
  shows "unheld e (cli_bind (ask_for_port e linked port) k)"
proof (cases linked)
  case True
  show ?thesis
    unfolding unheld_def
  proof (intro allI impI)
    fix w :: cli_world
    assume "\<not> held e (cw_sent w)"
    then show "\<not> held e (cw_sent (snd (cli_bind (ask_for_port e linked port) k w)))"
      using ask_for_port_refused [OF True, of e w port] assms(1) [OF True]
      by (cases "ask_for_port e linked port w") (auto simp: cli_bind_sent split: sum.split)
  qed
qed (use assms(2) ask_for_port_unheld in \<open>auto intro: unheld_bind\<close>)

lemma unlinked_unheld: "(\<And>w. cw_sent (snd (m w)) = cw_sent w) \<Longrightarrow> unheld e m"
  by (simp add: unheld_def)

lemma running_slot_unlinked: "running_slot e False w = (None, w)"
  by (simp add: running_slot_def)

lemma wait_for_slot_unlinked: "snd (wait_for_slot e False slot n w) = w"
  by (induction n) (simp_all add: running_slot_unlinked)

lemma write_and_finish_unlinked: "cw_sent (snd (write_and_finish e False plan port w)) = cw_sent w"
  by (auto simp: write_and_finish_def interrupted_while_paused_def resume_device_def ask_to_finish_def
      report_slot_after_flash_def wait_for_slot_unlinked split: option.split sum.split prod.split)

lemma command_gives_port_back:
  assumes "\<forall>h. ce_reconnects e h"
  shows "unheld e (cli_main e cmd)"
proof (cases "is_flashing cmd")
  case False
  then show ?thesis by (simp add: cli_main_def plain_command_unheld ends_rules)
next
  case True
  have "unheld e (flash_command e linked firmware port full)" for linked firmware port full
    unfolding flash_command_def
    by (intro step_rules after_port_unheld)
      (auto simp: assms write_and_finish_held intro: unlinked_unheld write_and_finish_unlinked)
  moreover have "unheld e (bootloader_command e linked port)" for linked port
    unfolding bootloader_command_def
  proof (rule after_port_unheld, goal_cases)
    case (1 p w)
    then show ?case using assms by (simp add: interrupted_while_paused_def resume_device_held)
  next
    case (2 p)
    then show ?case by (intro unlinked_unheld) (simp add: interrupted_while_paused_def resume_device_def)
  qed
  moreover have "unheld e (recover_command e firmware timeout)" for firmware timeout
    by (rule unlinked_unheld) (rule recover_sent)
  ultimately show ?thesis using True by (cases cmd) (simp_all add: cli_main_def)
qed

section \<open>With the daemon\<close>

text \<open>The daemon of \<open>Ipc\<close> on the other end of the connection.\<close>

definition daemon_after :: "('k, 's) ipc_env \<Rightarrow> ipc_world \<Rightarrow> ipc_request list \<Rightarrow> ipc_world" where
  "daemon_after ie d h = fold (\<lambda>r d. snd (handle_ipc_request ie r d)) h d"

definition served_by :: "('k, 's) ipc_env \<Rightarrow> ipc_world \<Rightarrow> cli_env \<Rightarrow> bool" where
  "served_by ie d e \<longleftrightarrow> (\<forall>h r. ce_answer e h r = Inr (fst (handle_ipc_request ie r (daemon_after ie d h))))"

lemma paused_is_held:
  assumes "served_by ie d e" and "\<not> fw_paused (iw_pad d)"
  shows "fw_paused (iw_pad (daemon_after ie d h)) \<Longrightarrow> held e h"
proof (induction h rule: rev_induct)
  case Nil
  then show ?case using assms(2) by (simp add: daemon_after_def)
next
  case (snoc r h)
  let ?d = "daemon_after ie d h"
  have "fw_paused (iw_pad (snd (handle_ipc_request ie r ?d)))" using snoc.prems by (simp add: daemon_after_def)
  then have "holds_flash_pause (held e h) (flash_step_of r) (fst (handle_ipc_request ie r ?d))"
    unfolding handle_ipc_request_def Let_def by (intro pause_is_held) (auto intro: snoc.IH)
  then show ?case using assms(1) by (simp add: held_snoc served_by_def)
qed

text \<open>
  C38: However a command of the tool ends, the pad is not left paused: against the daemon's own handlers,
  from a daemon that has the pad, after an interrupt, a failed flash, a refused port or a success the
  daemon talks to the pad again, as long as the tool can reach it.
\<close>

theorem pad_is_handed_back:
  assumes "served_by ie d e" and "\<not> fw_paused (iw_pad d)" and "\<forall>h. ce_reconnects e h" and "cw_sent w = []"
  shows "\<not> fw_paused (iw_pad (daemon_after ie d (cw_sent (snd (cli_main e cmd w)))))"
proof -
  have "\<not> held e (cw_sent (snd (cli_main e cmd w)))"
    using command_gives_port_back [OF assms(3), of cmd] assms(4) by (simp add: unheld_def)
  then show ?thesis using paused_is_held [OF assms(1,2)] by blast
qed

section \<open>Consent\<close>

definition destructive :: "ipc_request \<Rightarrow> bool" where
  "destructive r = (case r of ResetCounters c \<Rightarrow> True | ImportBackup b c \<Rightarrow> True | InstallFirmwareUpdate c \<Rightarrow> True | _ \<Rightarrow> False)"

text \<open>The flag of the command, or a yes that was typed on a terminal.\<close>

definition typed_yes :: "cli_env \<Rightarrow> bool" where "typed_yes e \<longleftrightarrow> (\<exists>input. ce_typed e = Some input \<and> says_yes input)"

definition agreed_to :: "cli_env \<Rightarrow> cli_command \<Rightarrow> bool" where
  "agreed_to e cmd =
     (case cmd of
        CmdReset yes \<Rightarrow> yes
      | CmdImport file yes \<Rightarrow> yes \<or> typed_yes e
      | CmdFirmwareUpdate yes \<Rightarrow> yes \<or> typed_yes e
      | _ \<Rightarrow> False)"

text \<open>What was known when it was sent.\<close>

definition justified :: "cli_env \<Rightarrow> files \<Rightarrow> cli_command \<Rightarrow> ipc_request \<Rightarrow> bool" where
  "justified e fs cmd r =
     (case r of
        ResetCounters c \<Rightarrow> cmd = CmdReset True
      | ImportBackup b c \<Rightarrow>
          \<exists>file yes. cmd = CmdImport file yes \<and> Option.bind (fs file) (ce_parse_backup e) = Some b
            \<and> validate_backup (ce_now e) b = Inr ()
            \<and> (\<exists>cur inc same rollback warnings. ce_answer e [] (PreviewImport b) = Inr (ImportPreview cur inc same rollback warnings))
      | InstallFirmwareUpdate c \<Rightarrow>
          \<exists>yes offer. cmd = CmdFirmwareUpdate yes \<and> ce_answer e [] GetFirmwareUpdate = Inr (FirmwareUpdateOffer offer)
            \<and> offer_available offer \<noteq> None \<and> offer_blockers offer = []
      | _ \<Rightarrow> False)"

text \<open>What flashing asks is harmless.\<close>

definition adds_harmless :: "cli_world \<Rightarrow> cli_world \<Rightarrow> bool" where
  "adds_harmless w w' \<longleftrightarrow> (\<forall>r. destructive r \<longrightarrow> r \<in> set (cw_sent w') \<longrightarrow> r \<in> set (cw_sent w))"

lemma harmless_iff: "harmless destructive m \<longleftrightarrow> (\<forall>w. adds_harmless w (snd (m w)))"
  by (auto simp: harmless_def adds_harmless_def)

lemma adds_harmless_refl: "cw_sent w' = cw_sent w \<Longrightarrow> adds_harmless w w'"
  by (simp add: adds_harmless_def)

lemma adds_harmless_trans: "adds_harmless w w' \<Longrightarrow> adds_harmless w' w'' \<Longrightarrow> adds_harmless w w''"
  by (auto simp: adds_harmless_def)

lemma adds_harmless_ask: "\<not> destructive req \<Longrightarrow> adds_harmless w (snd (ask e req w))"
  by (auto simp: adds_harmless_def)

lemma running_slot_adds: "adds_harmless w (snd (running_slot e linked w))"
  by (auto simp: adds_harmless_def destructive_def)

lemma wait_for_slot_adds: "adds_harmless w (snd (wait_for_slot e linked slot n w))"
proof (induction n arbitrary: w)
  case (Suc n)
  obtain found w' where look: "running_slot e linked w = (found, w')" by (metis surj_pair)
  then have "adds_harmless w w'" using running_slot_adds [of w e linked] by simp
  then show ?case using Suc [of w'] look adds_harmless_trans by (cases found) auto
qed (simp add: adds_harmless_def)

lemma report_slot_adds: "adds_harmless w (snd (report_slot_after_flash e linked slot fin w))"
proof -
  obtain found w' where look: "running_slot e linked w = (found, w')" by (metis surj_pair)
  then have "adds_harmless w w'" using running_slot_adds [of w e linked] by simp
  then show ?thesis
    using wait_for_slot_adds [of _ e linked slot "ce_looks e"] adds_harmless_trans
    by (auto simp: report_slot_after_flash_def look split: option.split ipc_response.split)
qed

lemma resume_device_adds: "adds_harmless w (resume_device e linked w)"
  by (auto simp: adds_harmless_def resume_device_def resume_with_finish_flash_def split_beta destructive_def split: sum.splits if_splits)

lemma plan_flash_harmless: "harmless destructive (plan_flash e linked ps full)"
proof -
  have "adds_harmless w (snd (plan_flash e linked ps full w))" for w
  proof -
    obtain found w' where look: "running_slot e linked w = (found, w')" by (metis surj_pair)
    then have "adds_harmless w w'" using running_slot_adds [of w e linked] by simp
    then show ?thesis by (auto simp: plan_flash_def look adds_harmless_def split: prod.splits sum.splits if_splits)
  qed
  then show ?thesis by (simp add: harmless_iff)
qed

lemma ask_for_port_harmless: "harmless destructive (ask_for_port e linked port)"
  by (auto simp: ask_for_port_def destructive_def intro!: step_rules harmless_ask)

lemma interrupted_adds: "adds_harmless w (interrupted_while_paused e linked w)"
  by (simp add: interrupted_while_paused_def resume_device_adds adds_harmless_refl)

lemma write_and_finish_harmless: "harmless destructive (write_and_finish e linked plan port)"
proof -
  have "adds_harmless w (snd (write_and_finish e linked plan port w))" for w
  proof (cases "ce_cut e")
    case (Some damage)
    then show ?thesis
      using interrupted_adds [of "w\<lparr>cw_memory := damage (cw_memory w)\<rparr>" e linked]
      by (simp add: write_and_finish_def adds_harmless_def)
  next
    case None
    obtain r m where flashed: "run_flash (ce_flasher e) (enter_bootloader (ce_boot e) port None) (ce_leaves e)
        (files (cw_disk w)) (images plan) (cw_memory w) = (r, m)" by (metis surj_pair)
    let ?w = "w\<lparr>cw_memory := m\<rparr>"
    obtain fin w' where finish: "ask_to_finish e linked ?w = (fin, w')" by (metis surj_pair)
    have "w' = snd (ask_to_finish e linked ?w)" by (simp add: finish)
    then have "adds_harmless ?w w'"
      by (simp add: ask_to_finish_def split_beta adds_harmless_ask destructive_def adds_harmless_refl)
    then have "adds_harmless w w'" by (simp add: adds_harmless_def)
    moreover have "adds_harmless w (resume_device e linked ?w)"
      using resume_device_adds [of ?w e linked] by (simp add: adds_harmless_def)
    ultimately show ?thesis
      using report_slot_adds [of w' e linked] adds_harmless_trans
      by (auto simp: write_and_finish_def None flashed finish split: sum.split option.split)
  qed
  then show ?thesis by (simp add: harmless_iff)
qed

lemma bootloader_harmless: "harmless destructive (bootloader_command e linked port)"
  unfolding bootloader_command_def
proof (intro step_rules ask_for_port_harmless)
  show "harmless destructive (\<lambda>w. if ce_cut e \<noteq> None then (Inl Interrupted, interrupted_while_paused e linked w)
       else (case enter_bootloader (ce_boot e) p None of Inl err \<Rightarrow> Inl (FlashFault err) | Inr p \<Rightarrow> Inr (InBootloader p),
             resume_device e linked w))" for p
    by (auto simp: harmless_iff interrupted_adds resume_device_adds)
qed

lemma quiet_command_harmless:
  assumes "\<And>yes. cmd \<noteq> CmdReset yes" "\<And>file yes. cmd \<noteq> CmdImport file yes" "\<And>yes. cmd \<noteq> CmdFirmwareUpdate yes"
  shows "harmless destructive (run_cli_command e linked cmd)"
proof (cases cmd)
  case (CmdFlash firmware port full)
  then show ?thesis
    by (auto simp: flash_command_def intro!: step_rules plan_flash_harmless ask_for_port_harmless write_and_finish_harmless)
next
  case (CmdBootloader port)
  then show ?thesis by (simp add: bootloader_harmless)
next
  case (CmdRecover firmware timeout)
  then show ?thesis by (simp add: harmless_def recover_sent)
next
  case (CmdStats period)
  then show ?thesis by (simp add: stats_command_rules destructive_def)
qed (use assms in \<open>auto simp: command_defs destructive_def Let_def intro!: step_rules split: ipc_response.split option.split\<close>)

lemmas asked = cli_bind_def ask_daemon_def ask_def ends_def

lemma reset_consent:
  "\<lbrakk>r \<in> set (cw_sent (snd (reset_command e linked yes w))); destructive r; cw_sent w = []\<rbrakk> \<Longrightarrow> yes \<and> (\<exists>c. r = ResetCounters c)"
  by (auto simp: reset_command_def asked destructive_def split: if_splits sum.splits)

lemma do_import_sent: "cw_sent (snd (do_import e linked b w)) = cw_sent w @ (if linked then [ImportBackup b True] else [])"
  by (simp add: do_import_def asked split: sum.split)

lemma import_consent:
  assumes "r \<in> set (cw_sent (snd (import_command e linked file yes w)))" and "destructive r" and "cw_sent w = []"
  shows "(yes \<or> typed_yes e) \<and> (\<exists>b. r = ImportBackup b True \<and> Option.bind (files (cw_disk w) file) (ce_parse_backup e) = Some b
    \<and> validate_backup (ce_now e) b = Inr ()
    \<and> (\<exists>cur inc same rollback warnings. ce_answer e [] (PreviewImport b) = Inr (ImportPreview cur inc same rollback warnings)))"
proof (cases "fst (read_backup e file w)")
  case (Inl err)
  then show ?thesis using assms by (auto simp: import_command_def cli_bind_sent read_backup_def)
next
  case (Inr b)
  then have b: "read_backup e file w = (Inr b, w)" by (auto simp: read_backup_def)
  then have read: "Option.bind (files (cw_disk w) file) (ce_parse_backup e) = Some b" "validate_backup (ce_now e) b = Inr ()"
    by (auto simp: read_backup_def split: option.splits sum.splits)
  have "linked"
  proof (rule ccontr)
    assume "\<not> linked"
    then show False using assms b by (simp add: import_command_def asked)
  qed
  show ?thesis
  proof (cases "\<exists>cur inc same rollback warnings. ce_answer e [] (PreviewImport b) = Inr (ImportPreview cur inc same rollback warnings)")
    case True
    have "yes \<or> typed_yes e"
      using assms(1-3) b True \<open>linked\<close>
      by (auto simp: import_command_def asked confirm_yes_def typed_yes_def destructive_def split: if_splits option.splits)
    moreover have "r = ImportBackup b True"
      using assms(1-3) b True \<open>linked\<close>
      by (auto simp: import_command_def asked confirm_yes_def do_import_sent destructive_def split: if_splits option.splits)
    ultimately show ?thesis using read True by blast
  next
    case False
    then have "cw_sent (snd (import_command e linked file yes w)) = [PreviewImport b]"
      using b \<open>linked\<close> assms(3) by (auto simp: import_command_def asked split: sum.split ipc_response.split)
    then show ?thesis using assms(1,2) by (simp add: destructive_def)
  qed
qed

lemma firmware_consent:
  assumes "r \<in> set (cw_sent (snd (firmware_command e linked yes w)))" and "destructive r" and "cw_sent w = []"
  shows "(yes \<or> typed_yes e) \<and> r = InstallFirmwareUpdate True
    \<and> (\<exists>offer. ce_answer e [] GetFirmwareUpdate = Inr (FirmwareUpdateOffer offer) \<and> offer_available offer \<noteq> None \<and> offer_blockers offer = [])"
proof (cases "\<exists>offer. ce_answer e [] GetFirmwareUpdate = Inr (FirmwareUpdateOffer offer)")
  case True
  then show ?thesis
    using assms
    by (auto simp: firmware_command_def asked confirm_yes_def typed_yes_def destructive_def split: if_splits option.splits sum.splits)
next
  case False
  then have "set (cw_sent (snd (firmware_command e linked yes w))) \<subseteq> {GetFirmwareUpdate}"
    using assms(3) by (auto simp: firmware_command_def asked split: sum.splits ipc_response.splits if_splits)
  then show ?thesis using assms(1,2) by (auto simp: destructive_def)
qed

text \<open>
  C39: Nothing is destroyed unasked: a reset of the counters, an import or a firmware update is only
  requested by its own command, with its flag or a yes typed on a terminal; an import only of the file's
  backup, which is valid and whose preview the daemon has shown, and a firmware update only on an offer
  without blockers.
\<close>

theorem destruction_needs_consent:
  assumes "cw_sent w = []" and "r \<in> set (cw_sent (snd (cli_main e cmd w)))" and "destructive r"
  shows "agreed_to e cmd \<and> justified e (files (cw_disk w)) cmd r"
proof -
  have r: "r \<in> set (cw_sent (snd (run_cli_command e linked cmd w)))" if "cw_sent (snd (cli_main e cmd w)) \<noteq> []"
    "linked = (ce_connects e \<and> cmd \<noteq> CmdSetup)" for linked
    using assms that by (auto simp: cli_main_def ends_def split: if_splits)
  let ?linked = "ce_connects e \<and> cmd \<noteq> CmdSetup"
  have sent: "r \<in> set (cw_sent (snd (run_cli_command e ?linked cmd w)))" using r assms(2) by fastforce
  have calm: False
    if "\<And>yes. cmd \<noteq> CmdReset yes" "\<And>f yes. cmd \<noteq> CmdImport f yes" "\<And>yes. cmd \<noteq> CmdFirmwareUpdate yes"
    using quiet_command_harmless [OF that, of e ?linked] sent assms(1,3) unfolding harmless_def by fastforce
  show ?thesis
  proof (cases cmd)
    case (CmdReset yes)
    then show ?thesis using reset_consent [OF _ assms(3,1)] sent by (fastforce simp: agreed_to_def justified_def)
  next
    case (CmdImport f yes)
    then show ?thesis using import_consent [OF _ assms(3,1)] sent by (fastforce simp: agreed_to_def justified_def)
  next
    case (CmdFirmwareUpdate yes)
    then show ?thesis using firmware_consent [OF _ assms(3,1)] sent by (fastforce simp: agreed_to_def justified_def)
  qed (use calm in simp_all)
qed

section \<open>The slot that runs\<close>

definition reported_slot :: "(string, ipc_response) result \<Rightarrow> string option" where
  "reported_slot r =
     (case r of
        Inr (Status s) \<Rightarrow> (if sr_device_connected s then Option.bind (sr_device_info s) running_partition else None)
      | _ \<Rightarrow> None)"

lemma running_slot_linked:
  "running_slot e True w = (reported_slot (ce_answer e (cw_sent w) GetStatus), w\<lparr>cw_sent := cw_sent w @ [GetStatus]\<rparr>)"
  by (auto simp: running_slot_def ask_def reported_slot_def split: sum.split ipc_response.split option.split)

text \<open>Asked at the end of what was sent, after \<open>h\<close>, the pad was on that slot.\<close>

definition confirmed :: "cli_env \<Rightarrow> cli_world \<Rightarrow> cli_world \<Rightarrow> string \<Rightarrow> bool" where
  "confirmed e w w' slot \<longleftrightarrow>
     (\<exists>h. cw_sent w' = h @ [GetStatus] \<and> set (cw_sent w) \<subseteq> set h \<and> reported_slot (ce_answer e h GetStatus) = Some slot)"

lemma wait_for_slot_confirmed:
  "wait_for_slot e True slot n w = (Inr notice, w') \<Longrightarrow> notice = SlotConfirmed slot \<and> confirmed e w w' slot"
proof (induction n arbitrary: w)
  case (Suc n)
  show ?case
  proof (cases "reported_slot (ce_answer e (cw_sent w) GetStatus)")
    case None
    then have "wait_for_slot e True slot n (w\<lparr>cw_sent := cw_sent w @ [GetStatus]\<rparr>) = (Inr notice, w')"
      using Suc.prems by (simp add: running_slot_linked)
    then show ?thesis using Suc.IH by (fastforce simp: confirmed_def)
  next
    case (Some s)
    then show ?thesis using Suc.prems by (auto simp: running_slot_linked confirmed_def split: if_splits)
  qed
qed simp

lemma report_slot_confirmed:
  assumes "report_slot_after_flash e True slot fin w = (Inr notice, w')"
  shows "notice = SlotConfirmed slot \<and> confirmed e w w' slot"
proof -
  let ?v = "w\<lparr>cw_sent := cw_sent w @ [GetStatus]\<rparr>"
  show ?thesis
  proof (cases "\<exists>ver protocol compatible. fin = Some (FlashFinished ver protocol compatible)")
    case True
    then have report: "report_slot_after_flash e True slot fin w =
        (if reported_slot (ce_answer e (cw_sent w) GetStatus) = Some slot then (Inr (SlotConfirmed slot), ?v)
         else wait_for_slot e True slot (ce_looks e) ?v)"
      by (auto simp: report_slot_after_flash_def running_slot_linked)
    show ?thesis
    proof (cases "reported_slot (ce_answer e (cw_sent w) GetStatus) = Some slot")
      case True
      then show ?thesis using assms report by (auto simp: confirmed_def)
    next
      case False
      then have "wait_for_slot e True slot (ce_looks e) ?v = (Inr notice, w')" using assms report by simp
      then show ?thesis using wait_for_slot_confirmed by (fastforce simp: confirmed_def)
    qed
  next
    case False
    then have "report_slot_after_flash e True slot fin w = wait_for_slot e True slot (ce_looks e) w"
      by (auto simp: report_slot_after_flash_def split: option.split ipc_response.split)
    then show ?thesis using assms wait_for_slot_confirmed [of e slot "ce_looks e" w notice w'] by simp
  qed
qed

definition other_slot :: "string \<Rightarrow> string" where "other_slot s = (if s = ''ota_0'' then ''ota_1'' else ''ota_0'')"

lemma plan_flash_target:
  assumes "plan_flash e True ps False w = (Inr plan, w')" and "reported_slot (ce_answer e (cw_sent w) GetStatus) = Some s"
    and "s = ''ota_0'' \<or> s = ''ota_1''"
  shows "target_slot plan = Some (other_slot s)"
  using assms by (auto simp: plan_flash_def running_slot_linked plan_app_update_def slots_for_def other_slot_def Let_def
      split: prod.splits sum.splits)

text \<open>
  C40: A success is never claimed for an image the pad rejected: when the pad runs one of its two slots,
  flashing the app only ends well when the pad, asked after the port was given back and the flash
  finished, says that it runs the other slot.
\<close>

theorem flash_success_is_confirmed:
  assumes "cli_main e (CmdFlash firmware port False) w = (Inr notice, w')" and "ce_connects e" and "cw_sent w = []"
    and "reported_slot (ce_answer e [] GetStatus) = Some s" and "s = ''ota_0'' \<or> s = ''ota_1''"
  shows "notice = SlotConfirmed (other_slot s)
    \<and> (\<exists>h. cw_sent w' = h @ [GetStatus] \<and> FinishFlash \<in> set h \<and> reported_slot (ce_answer e h GetStatus) = Some (other_slot s))"
proof -
  have "flash_command e True firmware port False w = (Inr notice, w')" using assms(1,2) by (simp add: cli_main_def)
  then obtain ps w1 plan w2 app_port w3 where ps: "checked_images e firmware False w = (Inr ps, w1)"
      and plan: "plan_flash e True ps False w1 = (Inr plan, w2)"
      and written: "write_and_finish e True plan app_port w3 = (Inr notice, w')"
    by (auto simp: flash_command_def cli_bind_def split: prod.splits sum.splits)
  have "cw_sent w1 = []" using checked_images_sent [of e firmware False w] ps assms(3) by simp
  then have target: "target_slot plan = Some (other_slot s)" using plan_flash_target [OF plan _ assms(5)] assms(4) by simp
  obtain m fin where "report_slot_after_flash e True (other_slot s) fin
      (w3\<lparr>cw_memory := m, cw_sent := cw_sent w3 @ [FinishFlash]\<rparr>) = (Inr notice, w')"
    using written target
    by (auto simp: write_and_finish_def ask_to_finish_def ask_def split: option.splits sum.splits prod.splits)
  then show ?thesis using report_slot_confirmed unfolding confirmed_def by fastforce
qed

section \<open>Images and exit status\<close>

text \<open>A full set is written from low addresses to high ones, the app last, and every file of it exists.\<close>

lemma full_set_in_order:
  assumes "resolve_flash_set is_dir fs p True = Inr ps"
  shows "sorted_wrt (<) (map fst ps) \<and> fst (last ps) = APP_PARTITION_OFFSET \<and> (\<forall>(off, q) \<in> set ps. path_exists is_dir fs q)"
  using assms
  by (auto simp: resolve_flash_set_def first_existing_def APP_PARTITION_OFFSET_def find_Some_iff
      split: if_splits prod.splits option.splits)

lemma rule_installed_iff:
  "(\<exists>p. udev_rule_state_from found ps rule = RuleInstalled p) \<longleftrightarrow> (\<exists>(p, c) \<in> set ps. \<exists>t. c = Some t \<and> trim_end t = trim_end rule)"
  by (induction found ps rule rule: udev_rule_state_from.induct) (auto split: if_splits)

text \<open>A sync that the daemon rejects ends with the exit status of a success.\<close>

lemma rejected_sync_succeeds:
  "ce_answer e (cw_sent w) ForceSync = Inr (OperationRejected why) \<Longrightarrow> fst (sync_command e True w) = Inr (RefusedBecause why)"
  by (simp add: sync_command_def asked)

section \<open>Instances\<close>

text \<open>A daemon whose pad changes its slot when the flash is finished.\<close>

definition slot_status :: "string \<Rightarrow> ipc_response" where
  "slot_status s = Status ((get_status demo_world)\<lparr>sr_device_connected := True,
     sr_device_info := Some (demo_pad\<lparr>running_partition := Some s\<rparr>)\<rparr>)"

definition flashing_daemon :: "ipc_request list \<Rightarrow> ipc_request \<Rightarrow> (string, ipc_response) result" where
  "flashing_daemon h r =
     (case r of
        GetStatus \<Rightarrow> Inr (slot_status (if FinishFlash \<in> set h then ''ota_1'' else ''ota_0''))
      | PrepareFlash \<Rightarrow> Inr (ReadyForFlash (Some ''COM3''))
      | FinishFlash \<Rightarrow> Inr (FlashFinished ''1.0.0'' 1 True)
      | ResumeDevice \<Rightarrow> Inr DeviceResumed
      | _ \<Rightarrow> Inr (Failure (Because ''busy'')))"

definition demo_cli :: cli_env where
  "demo_cli = \<lparr>ce_connects = True, ce_reconnects = (\<lambda>h. True), ce_answer = flashing_daemon, ce_typed = None,
     ce_parse_backup = (\<lambda>s. None), ce_print_backup = (\<lambda>b. []), ce_now = 0, ce_is_dir = (\<lambda>d. False), ce_temp = ''t'',
     ce_target_port = None, ce_boot = demo_boot_env, ce_flasher = (\<lambda>off bytes m. (Exited True (Some 0), m)),
     ce_leaves = (\<lambda>p. Inr ()), ce_cut = None, ce_looks = 45, ce_app_back = None,
     ce_recovery = (\<lambda>t. good_recovery), ce_polls = 1, ce_minute = (\<lambda>t. []), ce_linux = True, ce_rules = [], ce_rule = [],
     ce_ptrace = \<lparr>pe_scope_file = None, pe_tosu = None, pe_appimage = False, pe_head = (\<lambda>p. None), pe_getcap = (\<lambda>p. None)\<rparr>\<rparr>"

definition demo_cli_world :: cli_world where
  "demo_cli_world = \<lparr>cw_sent = [],
     cw_disk = \<lparr>files = Map.empty((''u'', ''opad-firmware.bin'') \<mapsto> demo_image), faults = [], trail = []\<rparr>,
     cw_memory = (\<lambda>a. 0)\<rparr>"

lemma pad_is_handed_back_witness:
  "\<not> fw_paused (iw_pad (daemon_after demo_ipc (demo_with id) (cw_sent (snd (cli_main
     (demo_cli\<lparr>ce_answer := \<lambda>h r. Inr (fst (handle_ipc_request demo_ipc r (daemon_after demo_ipc (demo_with id) h)))\<rparr>)
     (CmdBootloader None) demo_cli_world)))))"
  by (rule pad_is_handed_back) (simp_all add: served_by_def demo_cli_def demo_cli_world_def demo_unpaused)

lemma destruction_needs_consent_witness:
  "agreed_to demo_cli (CmdReset True)"
proof -
  have "ResetCounters True \<in> set (cw_sent (snd (cli_main demo_cli (CmdReset True) demo_cli_world)))"
    by (simp add: cli_main_def reset_command_def asked demo_cli_def demo_cli_world_def split: sum.split)
  then show ?thesis
    using destruction_needs_consent [of demo_cli_world "ResetCounters True" demo_cli "CmdReset True"]
    by (simp add: demo_cli_world_def destructive_def)
qed

lemma demo_cli_fields:
  "ce_connects demo_cli" "ce_answer demo_cli = flashing_daemon" "ce_target_port demo_cli = None" "ce_boot demo_cli = demo_boot_env"
  "ce_flasher demo_cli = (\<lambda>off bytes m. (Exited True (Some 0), m))" "ce_leaves demo_cli = (\<lambda>p. Inr ())" "ce_cut demo_cli = None"
  by (simp_all add: demo_cli_def)

lemma demo_writes: "write_images (\<lambda>off bytes m. (Exited True (Some 0), m)) f ps m = (Inr (), m)"
  by (induction ps) auto

lemma flash_success_is_confirmed_witness:
  "\<exists>w'. cli_main demo_cli (CmdFlash (''u'', ''opad-firmware.bin'') None False) demo_cli_world = (Inr (SlotConfirmed ''ota_1''), w')
    \<and> (\<exists>h. cw_sent w' = h @ [GetStatus] \<and> FinishFlash \<in> set h)"
proof -
  let ?p = "(''u'', ''opad-firmware.bin'')"
  let ?w1 = "demo_cli_world\<lparr>cw_sent := [GetStatus]\<rparr>"
  have set: "checked_images demo_cli ?p False demo_cli_world = (Inr [(APP_PARTITION_OFFSET, ?p)], demo_cli_world)"
  proof -
    have "check_esp32s3_image (take 16 (bytes_of demo_image)) = Inr ()" by code_simp
    then show ?thesis
      by (simp add: checked_images_def resolve_flash_set_def app_image_at_def path_exists_def check_esp32s3_image_file_def
          demo_cli_def demo_cli_world_def)
  qed
  obtain d where "write_plain (''t'', OTADATA_FILE) (text_of (otadata_image 0 1)) (cw_disk demo_cli_world) = (Inr (), d)"
    using write_plain_no_faults [of "cw_disk demo_cli_world" "(''t'', OTADATA_FILE)" "text_of (otadata_image 0 1)"] by (auto simp: demo_cli_world_def)
  moreover have slot: "reported_slot (ce_answer demo_cli [] GetStatus) = Some ''ota_0''"
    by (simp add: demo_cli_def flashing_daemon_def slot_status_def reported_slot_def)
  ultimately obtain plan where plan: "plan_flash demo_cli True [(APP_PARTITION_OFFSET, ?p)] False demo_cli_world
        = (Inr plan, ?w1\<lparr>cw_disk := d\<rparr>)" "target_slot plan = Some ''ota_1''"
    by (auto simp: plan_flash_def running_slot_linked plan_app_update_def slots_for_def demo_cli_world_def demo_cli_def Let_def)
  have entered: "enter_bootloader demo_boot_env (Some ''COM3'') None = Inr ''COM7''" by code_simp
  let ?w3 = "demo_cli_world\<lparr>cw_disk := d, cw_sent := [GetStatus, PrepareFlash]\<rparr>"
  have port: "ask_for_port demo_cli True None (?w1\<lparr>cw_disk := d\<rparr>) = (Inr (Some ''COM3''), ?w3)"
    by (simp add: ask_for_port_def asked demo_cli_fields flashing_daemon_def or_port_def demo_cli_world_def)
  have "\<exists>w'. write_and_finish demo_cli True plan (Some ''COM3'') ?w3 = (Inr (SlotConfirmed ''ota_1''), w')"
    using plan(2) entered
    by (simp add: write_and_finish_def demo_cli_fields run_flash_def demo_writes ask_to_finish_def ask_def
        report_slot_after_flash_def running_slot_linked flashing_daemon_def slot_status_def reported_slot_def)
  then have "\<exists>w'. cli_main demo_cli (CmdFlash ?p None False) demo_cli_world = (Inr (SlotConfirmed ''ota_1''), w')"
    by (simp add: cli_main_def demo_cli_fields flash_command_def cli_bind_def set plan(1) port)
  then obtain w' where run: "cli_main demo_cli (CmdFlash ?p None False) demo_cli_world = (Inr (SlotConfirmed ''ota_1''), w')" by blast
  have "ce_connects demo_cli" "cw_sent demo_cli_world = []" by (simp_all add: demo_cli_def demo_cli_world_def)
  from flash_success_is_confirmed [OF run this slot] show ?thesis using run by (auto simp: other_slot_def)
qed

end
