(* ===== verification/Spec2Isabelle.thy ===== *)
theory Spec2Isabelle
  imports Prelude Comparisons Version Framing Feed Client Plans Install Config Sources Tap_Rate Layouts
    Runtime Runtime_Safety Runtime_Traces Mode_Machine Storage Sync Backups Daemon Daemon_Safety Log_Hub
    Firmware_Safety Board_Test Swipe Ipc Ipc_Safety Updater Updater_Safety Pad_Wire Pad_Worker
    Pad_Worker_Safety Tosu_Safety Tosu_Supervisor Recovery Gui_Keys
    Publishing Designer_Safety Cli_Safety
begin

text \<open>
  OPad is an osu! keypad with a screen and the desktop software around it. This library models the
  Rust side, \<open>src/desktop\<close>: the daemon that owns the pad's serial port, follows the game through
  tosu, keeps the key counters in SQLite and updates the app, tosu and the firmware.

  \<^bold>\<open>Theories and code.\<close>
  \<^item> \<open>Prelude\<close>: machine integers, bytes and texts as Rust's standard library has them, results with
    \<open>and_then\<close>, decimal numbers and their parser. \<open>Comparisons\<close>: a locale for three-way comparisons
    and how they combine, interpreted on texts and in \<open>Version\<close>.
  \<^item> \<open>Framing\<close> (\<open>opad-protocol\<close>, the read loop of \<open>opad-device\<close>): both framings, finding the next
    frame in the bytes at hand, and the reader.
  \<^item> \<open>Version\<close>, \<open>Feed\<close>, \<open>Client\<close>, \<open>Plans\<close>, \<open>Install\<close> (\<open>opad-update\<close>): the order of versions;
    gate, schedule, rollout, origin and feed checks; fetching and verifying; what is offered;
    staging, atomic writes and the tosu swap over a file system in which a kill may come between
    any two steps.
  \<^item> \<open>Config\<close>, \<open>Sources\<close>, \<open>Tap_Rate\<close>, \<open>Layouts\<close> (\<open>opad-model\<close>, \<open>opad-layout\<close>): configuration and
    validation, magnetic keys, result animations, key names, backups; value ids; the tap rate
    trackers; screen layouts.
  \<^item> \<open>Runtime\<close> (\<open>daemon/src/runtime.rs\<close>, \<open>telemetry.rs\<close>, \<open>identity.rs\<close>): the controller, one
    definition per event handler, \<open>on_event\<close> and \<open>apply_event\<close>. \<open>Runtime_Safety\<close> holds the
    contract of a step as a locale and what single events may do, \<open>Runtime_Traces\<close> what holds over
    runs, \<open>Mode_Machine\<close> the abstract machine of modes that the controller refines.
  \<^item> \<open>Storage\<close> (\<open>opad-storage\<close>): the tables, the sixteen migrations, the write guard, every read
    and write, and reconciliation. \<open>Sync\<close> (\<open>daemon/src/sync.rs\<close>): one counter synchronisation over
    the controller's state, the database and the pad.
  \<^item> \<open>Backups\<close> (\<open>daemon/src/backup.rs\<close>): what is backed up, the file names, pruning. \<open>Daemon\<close>
    (\<open>main.rs\<close>, \<open>device_actor.rs\<close>, \<open>identity.rs\<close>, \<open>tap_stats.rs\<close>): start-up, one turn of the loop with
    every action, the tick and its retries, the queue towards the pad; \<open>Daemon_Safety\<close> has what a
    whole turn keeps.
  \<^item> \<open>Ports\<close>, \<open>Flash\<close> (\<open>opad-device\<close>): finding the pad's port and its bootloader's; the plan and the
    images of a firmware write, entering the bootloader, SLIP and the register client.
    \<open>Firmware_Update\<close> (\<open>daemon/src/firmware_update.rs\<close>): the offer and the whole install.
    \<open>Flash_Safety\<close> and \<open>Firmware_Safety\<close> hold what keeps the pad bootable.
  \<^item> \<open>Log_Hub\<close> (\<open>daemon/src/log_hub.rs\<close>, the polling of \<open>gui/src/main.rs\<close> and \<open>cli/src/main.rs\<close>): the
    ring buffer and its readers. \<open>Board_Test\<close>, \<open>Swipe\<close> (\<open>opad-model\<close>): evaluating a board test, the
    swipe settings.
  \<^item> \<open>Ipc\<close> (\<open>daemon/src/ipc_handlers.rs\<close>, the types of \<open>opad-ipc\<close>): one definition per request,
    \<open>handle\<close>, and \<open>serve_connection\<close> for the life of a connection; \<open>Ipc_Safety\<close> what no request may do.
  \<^item> \<open>Updater\<close> (\<open>daemon/src/updater.rs\<close>): the update worker, its commands and both installs;
    \<open>Updater_Safety\<close> when it may act and what a kill leaves.
  \<^item> \<open>Pad_Wire\<close> (\<open>opad-device/src/lib.rs\<close>): the messages to and from the pad and the events the
    daemon makes of them. \<open>Pad_Worker\<close>: the Hello handshake, the worker that owns the port, the handle
    and the probe; \<open>Pad_Worker_Safety\<close> that a silent port is given up and that subscribers are told
    the truth.
  \<^item> \<open>Tosu\<close> (\<open>opad-tosu/src/lib.rs\<close>): what is made of tosu's frames, its sockets, the search for its
    binary and the filter of its log; \<open>Tosu_Safety\<close> the ranges of what is shown and which key counters
    are passed on. \<open>Tosu_Supervisor\<close>: the supervisor that starts tosu and holds it down for an update.
  \<^item> \<open>Recovery\<close> (\<open>recover\<close> in \<open>opad-device/src/flash.rs\<close>): catching a pad that boots but does not answer.
    \<open>Gui_Keys\<close> (\<open>gui/src/keys.rs\<close>): the settings of the keys as they are edited and saved.
  \<^item> \<open>Feed_Tool\<close> (\<open>opad-update/src/bin/opad-feed.rs\<close>): building the feeds and checking them before they
    go out; \<open>Publishing\<close> that only what may be is published, the newest of each track, and that clients
    take it. \<open>Designer\<close> (\<open>gui/src/designer/mod.rs\<close>): the screen designer, every message of it;
    \<open>Designer_Safety\<close> that it keeps its screens valid and never panics.
  \<^item> \<open>Cli\<close> (\<open>cli/src/main.rs\<close>): the command line tool, what each command asks of the daemon and how
    flashing hands the port back; \<open>Cli_Safety\<close> consent, the port against the handlers of \<open>Ipc\<close>, and
    which image a success is about.

  \<^bold>\<open>How the parts interact.\<close> The daemon's loop hands events to \<open>apply_event\<close>, which works on the
  state shared with IPC handlers and syncs and returns actions; the actions open or close the
  storage's write gate, start a sync or send to the pad. \<open>Sync\<close> uses \<open>reconcile_counters\<close> and the
  guarded writes of \<open>Storage\<close> and the guard of \<open>Runtime\<close>. The update service asks the gate of
  \<open>Feed\<close> about the controller's mode before it installs anything. Each theory imports what its
  part of the code calls.

  \<^bold>\<open>What the lemmas show.\<close> Framing: how reads are cut does not matter, frames come back, noise is
  skipped. Updates: the order of versions is one, serials never go back, what is installed is
  signed, hashed and wanted, and a kill leaves the old file or the new one. Data: validation is
  exactly the stated ranges, everything written is read back, the trackers keep their bounds.
  Controller: the mode machine is refined and every play settles, the storage gate follows the
  mode, nothing is written during a play, foreign and incompatible pads are left alone, backups,
  animations and attempts follow only what they should. Storage and sync: every older database
  opens without losing data, reconciling is a least upper bound, and under every interleaving a
  sync loses no press; a failed one changes nothing.

  \<^bold>\<open>Conventions.\<close> A Rust \<open>Result\<close> is a sum with the error on the left; unsigned integers are words of
  their width; instants and durations are natural numbers of nanoseconds and wall-clock times are
  integers of nanoseconds; \<open>f64\<close> values are rationals (reals in the live view's filter). Hash maps and sets that are iterated are
  lists, in whatever order the program finds the entries. Within one event the wall clock is read
  once. Texts are lists of bytes in UTF-8. Log output is left out. Code that is not in the
  repository is an argument of the definitions that use it: the protobuf coder, JSON, UUID and time
  parsers, minisign, SHA-256, the network and the file system's outcomes. Hypotheses on them are
  named predicates (\<open>codec_ok\<close> for the protobuf coder), each with an instance in a witness.
  SQLite is taken to carry out its statements; a statement fails on missing or duplicate columns
  and on values of the wrong type, and that the disk fails is not modelled.

  \<^bold>\<open>Loops and fuel.\<close> No definition takes fuel: loops recurse on their data or, in \<open>resync\<close>, the
  reader and the actuation search, on a measure that their termination proofs give. The three
  attempts of a sync are a list of three.

  \<^bold>\<open>Not modelled.\<close> The GUI and the screen preview render, except for the log reader, the keys
  page and the designer; of the command line's texts only the tap statistics are modelled. The IPC,
  serial and WebSocket transports, starting processes and the window watcher are operating system I/O.
  The firmware is C and outside this library.
\<close>

end
